(* ===== verification/Prelude.thy ===== *)
theory Prelude
  imports Complex_Main "HOL-Library.AList" "HOL-Library.Char_ord" "HOL-Library.List_Lexorder"
begin

text \<open>
  Shared vocabulary of the development: Python exceptions as values, dictionaries as
  association lists in insertion order, and the string operations of Python that the
  modelled code uses.

  A Python \<open>str\<close> is modelled by its UTF-8 bytes, an Isabelle \<^typ>\<open>string\<close>. Equality,
  concatenation, \<open>startswith\<close>, \<open>endswith\<close> and \<open>in\<close> are exact under this reading,
  since UTF-8 is self-synchronising. \<open>len\<close> and slices count code points and are written so
  (\<open>py_len\<close>, \<open>py_take\<close>). \<open>lower\<close>, \<open>upper\<close>, \<open>strip\<close> and \<open>isdigit\<close> are
  modelled on ASCII: letters, blanks and digits outside ASCII are left alone.
\<close>

named_theorems dict_simps \<open>lookup and domain of dictionaries after an update\<close>
named_theorems str_simps \<open>evaluation of the string operations on appended strings\<close>

section \<open>Exceptions as values\<close>

datatype py_exn =
    ValueError string
  | TypeError
  | AttributeError
  | KeyError string
  | RuntimeError string
  | NoResultFound string
  | ExternalError string \<comment> \<open>raised by a library or a service: class name and message\<close>

type_synonym 'a res = "py_exn + 'a"

definition bind_res :: "'a res \<Rightarrow> ('a \<Rightarrow> 'b res) \<Rightarrow> 'b res" where
  "bind_res m f = (case m of Inl e \<Rightarrow> Inl e | Inr x \<Rightarrow> f x)"

definition ret :: "'a \<Rightarrow> 'a res" where
  "ret x = Inr x"

lemma bind_res_simps [simp]:
  "bind_res (Inl e) f = Inl e"
  "bind_res (Inr x) f = f x"
  by (simp_all add: bind_res_def)

lemma ret_simp [simp]: "ret x = Inr x"
  by (simp add: ret_def)

lemma bind_res_Inr_iff:
  "bind_res m f = Inr y \<longleftrightarrow> (\<exists>x. m = Inr x \<and> f x = Inr y)"
  by (cases m) auto

section \<open>Dictionaries\<close>

text \<open>
  A Python \<open>dict\<close> iterates in insertion order, and assigning to a present key keeps its place:
  this is \<^const>\<open>AList.update\<close> on an association list with distinct keys.
\<close>

type_synonym ('k, 'v) dict = "('k \<times> 'v) list"

definition dict_ok :: "('k, 'v) dict \<Rightarrow> bool" where
  "dict_ok d \<longleftrightarrow> distinct (map fst d)"

definition dict_set :: "'k \<Rightarrow> 'v \<Rightarrow> ('k, 'v) dict \<Rightarrow> ('k, 'v) dict" where
  "dict_set k v d = AList.update k v d"

definition dict_get :: "('k, 'v) dict \<Rightarrow> 'k \<Rightarrow> 'v option" where
  "dict_get d k = map_of d k"

definition dict_pop :: "'k \<Rightarrow> ('k, 'v) dict \<Rightarrow> ('k, 'v) dict" where
  "dict_pop k d = filter (\<lambda>p. fst p \<noteq> k) d"

definition get_or :: "('k, 'v) dict \<Rightarrow> 'k \<Rightarrow> 'v \<Rightarrow> 'v" where
  "get_or d k v0 = (case dict_get d k of None \<Rightarrow> v0 | Some v \<Rightarrow> v)"

lemma dict_get_Nil [simp, dict_simps]: "dict_get [] k = None"
  by (simp add: dict_get_def)

lemma dict_get_Cons [simp, dict_simps]:
  "dict_get ((k', v) # d) k = (if k' = k then Some v else dict_get d k)"
  by (simp add: dict_get_def)

lemma dict_get_set [simp, dict_simps]:
  "dict_get (dict_set k v d) k' = (if k' = k then Some v else dict_get d k')"
  by (simp add: dict_get_def dict_set_def update_conv)

lemma dict_get_pop [simp, dict_simps]:
  "dict_get (dict_pop k d) k' = (if k' = k then None else dict_get d k')"
  by (induction d) (auto simp: dict_pop_def dict_get_def)

lemma dict_ok_Nil [simp, intro]: "dict_ok []"
  by (simp add: dict_ok_def)

lemma dict_ok_set [simp, intro]: "dict_ok d \<Longrightarrow> dict_ok (dict_set k v d)"
  by (simp add: dict_ok_def dict_set_def distinct_update)

lemma dict_ok_pop [simp, intro]: "dict_ok d \<Longrightarrow> dict_ok (dict_pop k d)"
  by (induction d) (auto simp: dict_ok_def dict_pop_def)

lemma dict_set_Nil [simp]: "dict_set k v [] = [(k, v)]"
  by (simp add: dict_set_def)

lemma dict_set_Cons [simp]:
  "dict_set k v ((k', v') # d) = (if k' = k then (k, v) # d else (k', v') # dict_set k v d)"
  by (simp add: dict_set_def)

lemma set_dict_set_subset: "set (dict_set k v d) \<subseteq> insert (k, v) (set d)"
  by (induction d) (auto split: if_splits)

lemma dict_set_keys [simp]: "fst ` set (dict_set k v d) = insert k (fst ` set d)"
proof (induction d)
  case (Cons p d)
  then show ?case by (cases p) (simp add: insert_commute)
qed simp

lemma dict_get_mem: "dict_get d k = Some v \<Longrightarrow> (k, v) \<in> set d"
  by (simp add: dict_get_def map_of_SomeD)

lemma dict_get_all: "dict_get d k = Some v \<Longrightarrow> list_all (\<lambda>(k, v). P k v) d \<Longrightarrow> P k v"
  using dict_get_mem by (fastforce simp: list_all_iff)

lemma dict_ok_mem_get: "dict_ok d \<Longrightarrow> (k, v) \<in> set d \<Longrightarrow> dict_get d k = Some v"
  by (simp add: dict_ok_def dict_get_def map_of_eq_Some_iff)

lemma get_or_set [simp]: "get_or (dict_set k v d) k' w = (if k' = k then v else get_or d k' w)"
  by (simp add: get_or_def)

lemma map_filter_mem: "y \<in> set (List.map_filter f xs) \<longleftrightarrow> (\<exists>x \<in> set xs. f x = Some y)"
  by (induction xs) (auto simp: List.map_filter_simps split: option.splits)

section \<open>Strings\<close>

abbreviation nl :: char where "nl \<equiv> CHR 0x0A"

definition startswith :: "string \<Rightarrow> string \<Rightarrow> bool" where
  "startswith s p \<longleftrightarrow> take (length p) s = p"

definition endswith :: "string \<Rightarrow> string \<Rightarrow> bool" where
  "endswith s p \<longleftrightarrow> length p \<le> length s \<and> drop (length s - length p) s = p"

fun contains :: "string \<Rightarrow> string \<Rightarrow> bool" where
  "contains sub [] = (sub = [])"
| "contains sub (c # cs) = (startswith (c # cs) sub \<or> contains sub cs)"

text \<open>\<open>s.replace(old, new)\<close> for a non-empty \<open>old\<close>: leftmost, non-overlapping.\<close>

function py_replace :: "string \<Rightarrow> string \<Rightarrow> string \<Rightarrow> string" where
  "py_replace old new [] = []"
| "py_replace old new (c # cs) =
     (if old \<noteq> [] \<and> startswith (c # cs) old
      then new @ py_replace old new (drop (length old) (c # cs))
      else c # py_replace old new cs)"
  by pat_completeness auto
termination
  by (relation "measure (\<lambda>(old, new, s). length s)") auto

definition is_cont :: "char \<Rightarrow> bool" where
  "is_cont c \<longleftrightarrow> 128 \<le> (of_char c :: nat) \<and> (of_char c :: nat) < 192"

definition py_len :: "string \<Rightarrow> nat" where
  "py_len s = length (filter (\<lambda>c. \<not> is_cont c) s)"

text \<open>\<open>s[:n]\<close> for \<open>n \<ge> 0\<close>, counting code points: a continuation byte stays with its lead.\<close>

fun py_take :: "nat \<Rightarrow> string \<Rightarrow> string" where
  "py_take n [] = []"
| "py_take n (c # cs) =
     (if is_cont c then c # py_take n cs
      else case n of 0 \<Rightarrow> [] | Suc m \<Rightarrow> c # py_take m cs)"

definition is_upper :: "char \<Rightarrow> bool" where
  "is_upper c \<longleftrightarrow> CHR ''A'' \<le> c \<and> c \<le> CHR ''Z''"

definition is_lower :: "char \<Rightarrow> bool" where
  "is_lower c \<longleftrightarrow> CHR ''a'' \<le> c \<and> c \<le> CHR ''z''"

definition is_digit :: "char \<Rightarrow> bool" where
  "is_digit c \<longleftrightarrow> CHR ''0'' \<le> c \<and> c \<le> CHR ''9''"

definition is_blank :: "char \<Rightarrow> bool" where
  "is_blank c \<longleftrightarrow> (let n = (of_char c :: nat) in (9 \<le> n \<and> n \<le> 13) \<or> (28 \<le> n \<and> n \<le> 32))"

definition lower :: "string \<Rightarrow> string" where
  "lower s = map (\<lambda>c. if is_upper c then char_of ((of_char c :: nat) + 32) else c) s"

definition upper :: "string \<Rightarrow> string" where
  "upper s = map (\<lambda>c. if is_lower c then char_of ((of_char c :: nat) - 32) else c) s"

definition lstrip :: "string \<Rightarrow> string" where
  "lstrip s = dropWhile is_blank s"

definition rstrip :: "string \<Rightarrow> string" where
  "rstrip s = rev (dropWhile is_blank (rev s))"

definition strip :: "string \<Rightarrow> string" where
  "strip s = rstrip (lstrip s)"

fun str_join :: "string \<Rightarrow> string list \<Rightarrow> string" where
  "str_join sep [] = []"
| "str_join sep [x] = x"
| "str_join sep (x # y # ys) = x @ sep @ str_join sep (y # ys)"

text \<open>\<open>s.split(c)\<close> and \<open>s.split()\<close>.\<close>

fun split_on :: "char \<Rightarrow> string \<Rightarrow> string list" where
  "split_on c [] = [[]]"
| "split_on c (x # xs) = (if x = c then [] # split_on c xs
     else case split_on c xs of [] \<Rightarrow> [[x]] | y # ys \<Rightarrow> (x # y) # ys)"

fun split_blanks :: "string \<Rightarrow> string list" where
  "split_blanks [] = [[]]"
| "split_blanks (c # cs) = (if is_blank c then [] # split_blanks cs
     else case split_blanks cs of [] \<Rightarrow> [[c]] | w # ws \<Rightarrow> (c # w) # ws)"

definition words :: "string \<Rightarrow> string list" where
  "words s = filter (\<lambda>w. w \<noteq> []) (split_blanks s)"

text \<open>UTF-8 of the code points below U+10000.\<close>

definition utf8_char :: "nat \<Rightarrow> string" where
  "utf8_char n = (if n < 128 then [char_of n]
     else if n < 2048 then [char_of (192 + n div 64), char_of (128 + n mod 64)]
     else [char_of (224 + n div 4096), char_of (128 + n div 64 mod 64), char_of (128 + n mod 64)])"

definition utf8 :: "nat list \<Rightarrow> string" where
  "utf8 ns = concat (map utf8_char ns)"

text \<open>\<open>s[-n:]\<close> for \<open>n > 0\<close>.\<close>

definition py_tail :: "nat \<Rightarrow> string \<Rightarrow> string" where
  "py_tail n s = drop (length (py_take (py_len s - n) s)) s"

lemma startswith_append [simp, str_simps]: "startswith (p @ s) p"
  by (simp add: startswith_def)

lemma startswith_append_iff [str_simps]: "startswith (p @ s) (p @ q) \<longleftrightarrow> startswith s q"
  by (simp add: startswith_def)

lemma startswith_Nil [simp]: "startswith s []"
  by (simp add: startswith_def)

lemma startswith_Cons [simp]:
  "startswith (c # s) (d # p) \<longleftrightarrow> c = d \<and> startswith s p"
  "\<not> startswith [] (d # p)"
  by (auto simp: startswith_def)

lemma contains_Nil [simp]: "contains [] s"
  by (induction s) (simp_all add: startswith_def)

lemma contains_append_mid: "contains sub (pre @ sub @ post)"
proof (induction pre)
  case Nil
  have "startswith (sub @ post) sub" by (rule startswith_append)
  then show ?case by (cases "sub @ post") auto
next
  case (Cons c pre)
  then show ?case by simp
qed

lemma contains_conv: "contains sub s \<longleftrightarrow> (\<exists>pre post. s = pre @ sub @ post)"
proof
  show "contains sub s \<Longrightarrow> \<exists>pre post. s = pre @ sub @ post"
  proof (induction s)
    case Nil
    then show ?case by simp
  next
    case (Cons c s)
    show ?case
    proof (cases "startswith (c # s) sub")
      case True
      then have "c # s = [] @ sub @ drop (length sub) (c # s)"
        unfolding startswith_def by (metis append_Nil append_take_drop_id)
      then show ?thesis by blast
    next
      case False
      with Cons obtain pre post where "s = pre @ sub @ post" by auto
      then have "c # s = (c # pre) @ sub @ post" by simp
      then show ?thesis by blast
    qed
  qed
qed (auto intro: contains_append_mid)

text \<open>Replacing skips a part of the string that does not hold the first character of \<open>old\<close>.\<close>

lemma py_replace_skip [str_simps]:
  assumes "x \<notin> set s"
  shows "py_replace (x # old) new (s @ t) = s @ py_replace (x # old) new t"
  using assms by (induction s) (auto simp: startswith_def)

lemma py_replace_skip_all [str_simps]:
  "x \<notin> set s \<Longrightarrow> py_replace (x # old) new s = s"
  using py_replace_skip [of x s old new "[]"] by simp

lemma py_replace_hit [str_simps]:
  "old \<noteq> [] \<Longrightarrow> py_replace old new (old @ t) = new @ py_replace old new t"
  by (cases old) (auto simp: startswith_def)

declare py_replace.simps [simp del]

lemma py_replace_Nil [simp]: "py_replace old new [] = []"
  by (simp add: py_replace.simps)

lemma py_len_append [simp]: "py_len (s @ t) = py_len s + py_len t"
  by (simp add: py_len_def)

lemma py_len_take_le: "py_len (py_take n s) \<le> n"
  by (induction n s rule: py_take.induct) (auto simp: py_len_def split: nat.splits)

text \<open>\<open>repr\<close> of a string without quotes or escapes in it, and of a list of such strings.\<close>

definition py_repr :: "string \<Rightarrow> string" where
  "py_repr s = [CHR 0x27] @ s @ [CHR 0x27]"

definition py_repr_list :: "string list \<Rightarrow> string" where
  "py_repr_list xs = ''['' @ str_join '', '' (map py_repr xs) @ '']''"

section \<open>Decimal numbers\<close>

definition digit :: "nat \<Rightarrow> char" where
  "digit n = char_of (48 + n)"

definition digit_val :: "char \<Rightarrow> nat" where
  "digit_val c = (of_char c :: nat) - 48"

fun nat_str :: "nat \<Rightarrow> string" where
  "nat_str n = (if n < 10 then [digit n] else nat_str (n div 10) @ [digit (n mod 10)])"

definition int_str :: "int \<Rightarrow> string" where
  "int_str n = (if n < 0 then CHR ''-'' # nat_str (nat (- n)) else nat_str (nat n))"

text \<open>The digits of \<open>int(s)\<close>: single underscores are allowed between digits.\<close>

fun digits_val :: "nat \<Rightarrow> bool \<Rightarrow> string \<Rightarrow> nat option" where
  "digits_val acc prev [] = (if prev then Some acc else None)"
| "digits_val acc prev (c # cs) =
     (if is_digit c then digits_val (acc * 10 + digit_val c) True cs
      else if c = CHR ''_'' \<and> prev then digits_val acc False cs
      else None)"

definition py_int :: "string \<Rightarrow> int option" where
  "py_int s = (case strip s of
      [] \<Rightarrow> None
    | c # cs \<Rightarrow>
        if c = CHR ''-'' then map_option (\<lambda>n. - int n) (digits_val 0 False cs)
        else if c = CHR ''+'' then map_option int (digits_val 0 False cs)
        else map_option int (digits_val 0 False (c # cs)))"

declare nat_str.simps [simp del]

lemma of_char_digit: "n < 10 \<Longrightarrow> (of_char (digit n) :: nat) = 48 + n"
  by (simp add: digit_def)

lemma digit_val_digit [simp]: "n < 10 \<Longrightarrow> digit_val (digit n) = n"
  by (simp add: digit_val_def of_char_digit)

lemma is_digit_iff: "is_digit c \<longleftrightarrow> 48 \<le> (of_char c :: nat) \<and> (of_char c :: nat) \<le> 57"
  by (simp add: is_digit_def less_eq_char_def)

lemma is_digit_digit [simp]: "n < 10 \<Longrightarrow> is_digit (digit n)"
  by (simp add: is_digit_iff of_char_digit)

lemma not_digit_chars [simp]:
  "\<not> is_digit CHR ''-''" "\<not> is_digit CHR ''+''" "\<not> is_digit CHR '':''"
  "\<not> is_digit CHR ''.''" "\<not> is_digit CHR ''T''" "\<not> is_digit CHR ''Z''" "\<not> is_digit CHR ''_''"
  by (simp_all add: is_digit_iff)

lemma is_digit_not_blank: "is_digit c \<Longrightarrow> \<not> is_blank c"
  by (auto simp: is_digit_iff is_blank_def Let_def)

lemma nat_str_digits: "\<forall>c \<in> set (nat_str n). is_digit c"
proof (induction n rule: nat_str.induct)
  case (1 n)
  show ?case
    by (cases "n < 10") (use 1 in \<open>auto simp: nat_str.simps [of n]\<close>)
qed

lemma nat_str_not_Nil [simp]: "nat_str n \<noteq> []"
  by (subst nat_str.simps) simp

lemma digits_val_snoc:
  "digits_val acc prev s = Some v \<Longrightarrow> is_digit c \<Longrightarrow>
   digits_val acc prev (s @ [c]) = Some (v * 10 + digit_val c)"
  by (induction acc prev s rule: digits_val.induct) (auto split: if_splits)

lemma digits_val_nat_str: "digits_val 0 False (nat_str n) = Some n"
proof (induction n rule: nat_str.induct)
  case (1 n)
  show ?case
  proof (cases "n < 10")
    case True
    then show ?thesis by (simp add: nat_str.simps [of n])
  next
    case False
    with 1 have "digits_val 0 False (nat_str (n div 10) @ [digit (n mod 10)])
        = Some (n div 10 * 10 + n mod 10)"
      by (subst digits_val_snoc [of _ _ _ "n div 10"]) auto
    with False show ?thesis by (simp add: nat_str.simps [of n])
  qed
qed

lemma strip_no_blank: "(\<forall>c \<in> set s. \<not> is_blank c) \<Longrightarrow> strip s = s"
  by (induction s rule: rev_induct)
    (auto simp: strip_def lstrip_def rstrip_def dropWhile_append dropWhile_eq_self_iff hd_append)

lemma py_int_nat_str [simp]: "py_int (nat_str n) = Some (int n)"
proof -
  have s: "strip (nat_str n) = nat_str n"
    using nat_str_digits is_digit_not_blank by (intro strip_no_blank) blast
  obtain c cs where c: "nat_str n = c # cs"
    by (cases "nat_str n") auto
  then have "is_digit c" using nat_str_digits [of n] by simp
  then have "c \<noteq> CHR ''-''" "c \<noteq> CHR ''+''" by auto
  with s c digits_val_nat_str [of n] show ?thesis
    by (simp add: py_int_def)
qed

lemma py_int_int_str [simp]: "py_int (int_str n) = Some n"
proof (cases "n < 0")
  case True
  have "\<not> is_blank CHR ''-''" by (simp add: is_blank_def)
  then have "strip (CHR ''-'' # nat_str (nat (- n))) = CHR ''-'' # nat_str (nat (- n))"
    using nat_str_digits is_digit_not_blank by (intro strip_no_blank) auto
  with True show ?thesis
    by (simp add: int_str_def py_int_def digits_val_nat_str)
next
  case False
  then show ?thesis by (simp add: int_str_def)
qed


section \<open>JSON values\<close>

text \<open>
  What \<open>json.loads\<close> returns: the state files of the program hold such values. A float is
  modelled by a rational, without rounding.
\<close>

datatype json =
    JNull
  | JBool bool
  | JInt int
  | JFloat rat
  | JStr string
  | JList "json list"
  | JObj "(string \<times> json) list"

text \<open>A state file on disk, as the loaders see it.\<close>

datatype disk_file = FileMissing | FileUnreadable | FileJson json

definition json_opt_str :: "string option \<Rightarrow> json" where
  "json_opt_str s = (case s of None \<Rightarrow> JNull | Some t \<Rightarrow> JStr t)"

text \<open>
  Reading a value where the code expects \<open>Optional[str]\<close> or \<open>str\<close>. The loaders do not check
  types: a value of another JSON type is outside the model and reads as \<open>TypeError\<close>.
\<close>

definition as_opt_str :: "json option \<Rightarrow> string option res" where
  "as_opt_str v = (case v of None \<Rightarrow> Inr None | Some JNull \<Rightarrow> Inr None | Some (JStr s) \<Rightarrow> Inr (Some s)
     | _ \<Rightarrow> Inl TypeError)"

definition as_str_or :: "json option \<Rightarrow> string \<Rightarrow> string res" where
  "as_str_or v d = (case v of None \<Rightarrow> Inr d | Some (JStr s) \<Rightarrow> Inr s | _ \<Rightarrow> Inl TypeError)"

text \<open>\<open>int(v)\<close> on a JSON value.\<close>

definition json_int :: "json \<Rightarrow> int res" where
  "json_int v = (case v of JInt n \<Rightarrow> Inr n | JBool b \<Rightarrow> Inr (if b then 1 else 0)
     | JFloat r \<Rightarrow> Inr (if r < 0 then - \<lfloor>- r\<rfloor> else \<lfloor>r\<rfloor>)
     | JStr s \<Rightarrow> (case py_int s of None \<Rightarrow> Inl (ValueError s) | Some n \<Rightarrow> Inr n)
     | _ \<Rightarrow> Inl TypeError)"

text \<open>\<open>float(v)\<close>; a string is outside the model.\<close>

definition json_num :: "json \<Rightarrow> rat res" where
  "json_num v = (case v of JInt n \<Rightarrow> Inr (of_int n) | JBool b \<Rightarrow> Inr (if b then 1 else 0)
     | JFloat r \<Rightarrow> Inr r | _ \<Rightarrow> Inl TypeError)"

definition json_truthy :: "json \<Rightarrow> bool" where
  "json_truthy v = (case v of JNull \<Rightarrow> False | JBool b \<Rightarrow> b | JInt n \<Rightarrow> n \<noteq> 0 | JFloat r \<Rightarrow> r \<noteq> 0
     | JStr s \<Rightarrow> s \<noteq> [] | JList l \<Rightarrow> l \<noteq> [] | JObj d \<Rightarrow> d \<noteq> [])"

text \<open>\<open>str(v)\<close> for strings, integers, booleans and null; other values are not shown.\<close>

definition json_show :: "json \<Rightarrow> string" where
  "json_show v = (case v of JStr s \<Rightarrow> s | JInt n \<Rightarrow> int_str n | JNull \<Rightarrow> ''None''
     | JBool b \<Rightarrow> (if b then ''True'' else ''False'') | _ \<Rightarrow> ''...'')"

definition is_obj :: "json \<Rightarrow> bool" where
  "is_obj v = (case v of JObj d \<Rightarrow> True | _ \<Rightarrow> False)"

definition obj_of :: "json \<Rightarrow> (string, json) dict" where
  "obj_of v = (case v of JObj d \<Rightarrow> d | _ \<Rightarrow> [])"

text \<open>The entries of a JSON object that are objects themselves.\<close>

fun obj_entries :: "(string, json) dict \<Rightarrow> (string, (string, json) dict) dict" where
  "obj_entries [] = []"
| "obj_entries ((k, v) # d) = (if is_obj v then (k, obj_of v) # obj_entries d else obj_entries d)"

definition entries_json :: "(string, (string, json) dict) dict \<Rightarrow> json" where
  "entries_json d = JObj (map (\<lambda>(k, v). (k, JObj v)) d)"

lemma obj_entries_json [simp]: "obj_entries (map (\<lambda>(k, v). (k, JObj v)) d) = d"
  by (induction d) (auto simp: is_obj_def obj_of_def)

lemma as_opt_str_json [simp]: "as_opt_str (Some (json_opt_str s)) = Inr s"
  by (cases s) (simp_all add: as_opt_str_def json_opt_str_def)

lemma as_str_or_JStr [simp]: "as_str_or (Some (JStr s)) d = Inr s"
  by (simp add: as_str_or_def)

lemma json_int_JInt [simp]: "json_int (JInt n) = Inr n"
  by (simp add: json_int_def)

section \<open>Truth of optional strings\<close>

text \<open>Python truth of an \<open>Optional[str]\<close>, and \<open>x or default\<close>.\<close>

definition truthy :: "string option \<Rightarrow> bool" where
  "truthy s \<longleftrightarrow> s \<noteq> None \<and> s \<noteq> Some []"

definition or_str :: "string option \<Rightarrow> string \<Rightarrow> string" where
  "or_str s d = (case s of None \<Rightarrow> d | Some t \<Rightarrow> if t = [] then d else t)"

lemma truthy_simps [simp]:
  "\<not> truthy None" "\<not> truthy (Some [])" "truthy (Some (c # cs))" "truthy (Some s) \<longleftrightarrow> s \<noteq> []"
  by (simp_all add: truthy_def)

lemma or_str_simps [simp]:
  "or_str None d = d" "or_str (Some []) d = d" "or_str (Some (c # cs)) d = c # cs"
  by (simp_all add: or_str_def)

lemma or_str_truthy: "truthy s \<Longrightarrow> or_str s d = the s"
  by (cases s) (auto simp: or_str_def)

lemma or_str_not_truthy: "\<not> truthy s \<Longrightarrow> or_str s d = d"
  by (cases s) (auto simp: or_str_def)

text \<open>\<open>a or b\<close> on optional strings, and \<open>s or None\<close>.\<close>

definition or_opt :: "string option \<Rightarrow> string option \<Rightarrow> string option" where
  "or_opt a b = (if truthy a then a else b)"

definition non_empty :: "string \<Rightarrow> string option" where
  "non_empty s = (if s = [] then None else Some s)"

section \<open>Reading typed values\<close>

text \<open>
  A value of another JSON type than the code expects is outside the model (\<open>TypeError\<close>), as in
  \<open>as_str_or\<close>.
\<close>

definition as_bool_or :: "json option \<Rightarrow> bool \<Rightarrow> bool res" where
  "as_bool_or v d = (case v of None \<Rightarrow> Inr d | Some (JBool b) \<Rightarrow> Inr b | _ \<Rightarrow> Inl TypeError)"

definition as_int_or :: "json option \<Rightarrow> int \<Rightarrow> int res" where
  "as_int_or v d = (case v of None \<Rightarrow> Inr d | Some (JInt n) \<Rightarrow> Inr n | _ \<Rightarrow> Inl TypeError)"

definition as_str_req :: "json option \<Rightarrow> string \<Rightarrow> string res" where
  "as_str_req v key = (case v of None \<Rightarrow> Inl (KeyError key) | Some (JStr s) \<Rightarrow> Inr s | _ \<Rightarrow> Inl TypeError)"

fun json_strs :: "json list \<Rightarrow> string list res" where
  "json_strs [] = Inr []"
| "json_strs (JStr s # vs) = bind_res (json_strs vs) (\<lambda>ss. Inr (s # ss))"
| "json_strs (v # vs) = Inl TypeError"

definition strs_json :: "string list \<Rightarrow> json" where
  "strs_json ss = JList (map JStr ss)"

lemma json_strs_map [simp]: "json_strs (map JStr ss) = Inr ss"
  by (induction ss) simp_all

lemma as_typed_simps [simp]:
  "as_bool_or (Some (JBool b)) d = Inr b" "as_bool_or None d = Inr d"
  "as_int_or (Some (JInt n)) m = Inr n" "as_int_or None m = Inr m"
  "as_str_req (Some (JStr s)) k = Inr s"
  "as_str_or None t = Inr t" "as_opt_str None = Inr None" "as_opt_str (Some JNull) = Inr None"
  "as_opt_str (Some (JStr s)) = Inr (Some s)"
  by (simp_all add: as_bool_or_def as_int_or_def as_str_req_def as_str_or_def as_opt_str_def)

text \<open>Running a fallible function over a list, stopping at the first error.\<close>

fun map_res :: "('a \<Rightarrow> 'b res) \<Rightarrow> 'a list \<Rightarrow> 'b list res" where
  "map_res f [] = Inr []"
| "map_res f (x # xs) = bind_res (f x) (\<lambda>y. bind_res (map_res f xs) (\<lambda>ys. Inr (y # ys)))"

lemma map_res_all: "(\<And>x. x \<in> set xs \<Longrightarrow> f x = Inr (g x)) \<Longrightarrow> map_res f xs = Inr (map g xs)"
  by (induction xs) simp_all

lemma map_res_Inr_cases:
  "map_res f xs = Inr ys \<Longrightarrow> length ys = length xs \<and> (\<forall>y \<in> set ys. \<exists>x \<in> set xs. f x = Inr y)"
  by (induction xs arbitrary: ys) (fastforce simp: bind_res_Inr_iff)+

lemma map_res_Inr_all:
  assumes "map_res f xs = Inr ys" "\<And>x y. f x = Inr y \<Longrightarrow> P y"
  shows "\<forall>y \<in> set ys. P y"
  using map_res_Inr_cases [OF assms(1)] assms(2) by blast

lemma map_res_map: "map_res f (map g xs) = map_res (\<lambda>x. f (g x)) xs"
  by (induction xs) simp_all

text \<open>A dictionary built by assigning in order: the last assignment to a key wins.\<close>

definition dict_of :: "('k \<times> 'v) list \<Rightarrow> ('k, 'v) dict" where
  "dict_of = foldl (\<lambda>d (k, v). dict_set k v d) []"

lemma foldl_dict_set_get:
  "dict_get (foldl (\<lambda>d (k, v). dict_set k v d) a b) k =
     (case map_of (rev b) k of None \<Rightarrow> dict_get a k | Some v \<Rightarrow> Some v)"
  by (induction b arbitrary: a) (auto simp: map_add_def split: option.splits)

lemma dict_of_get: "dict_get (dict_of ps) k = map_of (rev ps) k"
  by (simp add: dict_of_def foldl_dict_set_get split: option.splits)

lemma foldl_dict_set_ok: "dict_ok a \<Longrightarrow> dict_ok (foldl (\<lambda>d (k, v). dict_set k v d) a b)"
  by (induction b arbitrary: a) auto

lemma dict_of_ok [simp, intro]: "dict_ok (dict_of ps)"
  by (simp add: dict_of_def foldl_dict_set_ok)

text \<open>The last element of a list with a given key.\<close>

definition last_with :: "('a \<Rightarrow> 'k) \<Rightarrow> 'k \<Rightarrow> 'a list \<Rightarrow> 'a option" where
  "last_with f k xs = map_of (rev (map (\<lambda>x. (f x, x)) xs)) k"

lemma last_with_simps [simp]:
  "last_with f k [] = None"
  "last_with f k (xs @ [x]) = (if f x = k then Some x else last_with f k xs)"
  by (simp_all add: last_with_def)

lemma last_with_filter: "last_with f k (filter (\<lambda>x. f x = k) xs) = last_with f k xs"
  by (induction xs rule: rev_induct) auto

lemma last_with_sort_key [simp]: "last_with f k (sort_key f xs) = last_with f k xs"
  using last_with_filter [of f k "sort_key f xs"] last_with_filter [of f k xs]
  by (simp add: sort_key_stable)

lemma last_with_mem: "last_with f k xs = Some x \<Longrightarrow> x \<in> set xs \<and> f x = k"
  by (induction xs rule: rev_induct) (auto split: if_splits)

lemma last_with_distinct: "distinct (map f xs) \<Longrightarrow> x \<in> set xs \<Longrightarrow> last_with f (f x) xs = Some x"
  by (induction xs rule: rev_induct) auto

text \<open>\<open>list(dict.fromkeys(xs))\<close>: the first occurrences in order.\<close>

definition uniq :: "'a list \<Rightarrow> 'a list" where
  "uniq xs = rev (remdups (rev xs))"

lemma uniq_facts [simp]: "set (uniq xs) = set xs" "distinct (uniq xs)"
  by (simp_all add: uniq_def)

section \<open>Actions with effects\<close>

text \<open>\<open>round(x, 4)\<close>.\<close>

definition round4 :: "rat \<Rightarrow> rat" where
  "round4 x = (let y = x * 10000; f = \<lfloor>y\<rfloor>; d = y - of_int f in
     of_int (if d < 1 / 2 \<or> d = 1 / 2 \<and> even f then f else f + 1) / 10000)"

text \<open>
  An action changes a state and returns or raises; the state reached so far stays when it
  raises, as effects do in Python.
\<close>

type_synonym ('s, 'a) act = "'s \<Rightarrow> 'a res \<times> 's"

definition ret_act :: "'a \<Rightarrow> ('s, 'a) act" where
  "ret_act x = (\<lambda>s. (Inr x, s))"

definition raise_act :: "py_exn \<Rightarrow> ('s, 'a) act" where
  "raise_act e = (\<lambda>s. (Inl e, s))"

definition bind_act :: "('s, 'a) act \<Rightarrow> ('a \<Rightarrow> ('s, 'b) act) \<Rightarrow> ('s, 'b) act" where
  "bind_act m f = (\<lambda>s. case m s of (Inl e, s') \<Rightarrow> (Inl e, s') | (Inr x, s') \<Rightarrow> f x s')"

text \<open>\<open>try: m except Exception as e: h e\<close>.\<close>

definition try_act :: "('s, 'a) act \<Rightarrow> (py_exn \<Rightarrow> ('s, 'a) act) \<Rightarrow> ('s, 'a) act" where
  "try_act m h = (\<lambda>s. case m s of (Inl e, s') \<Rightarrow> h e s' | (Inr x, s') \<Rightarrow> (Inr x, s'))"

definition lift_res :: "'a res \<Rightarrow> ('s, 'a) act" where
  "lift_res r = (\<lambda>s. (r, s))"

lemma act_simps [simp]:
  "ret_act x s = (Inr x, s)" "raise_act e s = (Inl e, s)" "lift_res r s = (r, s)"
  by (simp_all add: ret_act_def raise_act_def lift_res_def)

lemma bind_act_cases:
  assumes "bind_act m f s = (r, s')"
  obtains (raised) e where "m s = (Inl e, s')" "r = Inl e"
    | (next_act) x s1 where "m s = (Inr x, s1)" "f x s1 = (r, s')"
proof -
  obtain r1 s1 where "m s = (r1, s1)" by (cases "m s")
  with assms show thesis
    by (cases r1) (auto simp: bind_act_def intro: raised next_act)
qed

lemma try_act_cases:
  assumes "try_act m h s = (r, s')"
  obtains (caught) e s1 where "m s = (Inl e, s1)" "h e s1 = (r, s')"
    | (returned) x where "m s = (Inr x, s')" "r = Inr x"
proof -
  obtain r1 s1 where "m s = (r1, s1)" by (cases "m s")
  with assms show thesis
    by (cases r1) (auto simp: try_act_def intro: caught returned)
qed

text \<open>The class name and the message of an exception.\<close>

definition exn_name :: "py_exn \<Rightarrow> string" where
  "exn_name e = (case e of ValueError _ \<Rightarrow> ''ValueError'' | TypeError \<Rightarrow> ''TypeError''
     | AttributeError \<Rightarrow> ''AttributeError'' | KeyError _ \<Rightarrow> ''KeyError'' | RuntimeError _ \<Rightarrow> ''RuntimeError''
     | NoResultFound _ \<Rightarrow> ''NoResultFound'' | ExternalError _ \<Rightarrow> ''Exception'')"

definition exn_str :: "py_exn \<Rightarrow> string" where
  "exn_str e = (case e of ValueError m \<Rightarrow> m | TypeError \<Rightarrow> [] | AttributeError \<Rightarrow> []
     | KeyError k \<Rightarrow> py_repr k | RuntimeError m \<Rightarrow> m | NoResultFound m \<Rightarrow> m | ExternalError m \<Rightarrow> m)"

end
