(* ===== verification/Py_Datetime.thy ===== *)
theory Py_Datetime
  imports Prelude
begin

text \<open>
  The part of Python's \<open>datetime\<close> that the modelled code uses. A \<open>datetime\<close> is its wall
  clock, in microseconds since the start of the proleptic Gregorian day 1, and the offset of
  its zone from UTC, \<^term>\<open>None\<close> for a naive value. Ordering or subtracting a naive and an
  aware value raises \<open>TypeError\<close>, as in Python. \<open>fromisoformat\<close> follows Python 3.11 on
  calendar dates, in the extended and the compact form (ISO week dates are not modelled).
  Instants are taken to stay inside the years 1 to 9999 (no \<open>OverflowError\<close>).

  The main facts: the calendar conversions are inverse to each other, and parsing the UTC
  stamp that the code writes gives back the instant, cut to whole seconds.
\<close>

named_theorems time_simps \<open>comparisons and arithmetic of aware datetimes\<close>

datatype datetime = DT (wall: int) (utcoff: "int option")

type_synonym instant = int \<comment> \<open>microseconds, UTC\<close>

definition sec :: int where "sec = 1000000"
definition day_us :: int where "day_us = 86400 * sec"

definition utc :: "instant \<Rightarrow> datetime" where
  "utc t = DT t (Some 0)"

definition dt_instant :: "datetime \<Rightarrow> instant" where
  "dt_instant d = (case utcoff d of None \<Rightarrow> wall d | Some z \<Rightarrow> wall d - z)"

definition same_kind :: "datetime \<Rightarrow> datetime \<Rightarrow> bool" where
  "same_kind a b \<longleftrightarrow> (utcoff a = None) = (utcoff b = None)"

definition dt_gt :: "datetime \<Rightarrow> datetime \<Rightarrow> bool res" where
  "dt_gt a b = (if same_kind a b then Inr (dt_instant a > dt_instant b) else Inl TypeError)"

definition dt_le :: "datetime \<Rightarrow> datetime \<Rightarrow> bool res" where
  "dt_le a b = (if same_kind a b then Inr (dt_instant a \<le> dt_instant b) else Inl TypeError)"

text \<open>\<open>(a - b)\<close>, in microseconds.\<close>

definition dt_diff :: "datetime \<Rightarrow> datetime \<Rightarrow> int res" where
  "dt_diff a b = (if same_kind a b then Inr (dt_instant a - dt_instant b) else Inl TypeError)"

definition dt_add_seconds :: "datetime \<Rightarrow> int \<Rightarrow> datetime" where
  "dt_add_seconds d n = DT (wall d + n * sec) (utcoff d)"

text \<open>\<open>astimezone(timezone.utc)\<close>; the system zone of a naive value is taken to be UTC.\<close>

definition astimezone_utc :: "datetime \<Rightarrow> datetime" where
  "astimezone_utc d = utc (dt_instant d)"

definition drop_microsecond :: "datetime \<Rightarrow> datetime" where
  "drop_microsecond d = DT (wall d - wall d mod sec) (utcoff d)"

text \<open>\<open>int(timedelta.total_seconds())\<close>: truncation towards zero.\<close>

definition int_seconds :: "int \<Rightarrow> int" where
  "int_seconds us = (if us < 0 then - ((- us) div sec) else us div sec)"

lemma utc_time_simps [time_simps, simp]:
  "dt_gt (utc a) (utc b) = Inr (a > b)"
  "dt_le (utc a) (utc b) = Inr (a \<le> b)"
  "dt_diff (utc a) (utc b) = Inr (a - b)"
  "dt_instant (utc a) = a"
  "dt_add_seconds (utc a) n = utc (a + n * sec)"
  "astimezone_utc (utc a) = utc a"
  "drop_microsecond (utc a) = utc (a - a mod sec)"
  by (simp_all add: dt_gt_def dt_le_def dt_diff_def same_kind_def utc_def dt_instant_def
      dt_add_seconds_def astimezone_utc_def drop_microsecond_def)

lemma utc_eq_iff [simp]: "utc a = utc b \<longleftrightarrow> a = b"
  by (simp add: utc_def)

lemma sec_pos [simp]: "0 < sec"
  by (simp add: sec_def)

section \<open>The calendar\<close>

definition is_leap :: "int \<Rightarrow> bool" where
  "is_leap y \<longleftrightarrow> y mod 4 = 0 \<and> (y mod 100 \<noteq> 0 \<or> y mod 400 = 0)"

definition days_before_year :: "int \<Rightarrow> int" where
  "days_before_year y = (y - 1) * 365 + (y - 1) div 4 - (y - 1) div 100 + (y - 1) div 400"

definition month_starts :: "int list" where
  "month_starts = [0, 31, 59, 90, 120, 151, 181, 212, 243, 273, 304, 334, 365]"

text \<open>Days before the month with index \<open>m\<close>, from 1; index 13 is the end of the year.\<close>

definition days_before_month :: "int \<Rightarrow> nat \<Rightarrow> int" where
  "days_before_month y m = month_starts ! (m - 1) + (if 2 < m \<and> is_leap y then 1 else 0)"

definition days_in_month :: "int \<Rightarrow> nat \<Rightarrow> int" where
  "days_in_month y m = days_before_month y (Suc m) - days_before_month y m"

definition ymd_ord :: "int \<Rightarrow> nat \<Rightarrow> int \<Rightarrow> int" where
  "ymd_ord y m d = days_before_year y + days_before_month y m + d"

definition ord_year :: "int \<Rightarrow> int" where
  "ord_year n = (let y = (n * 400) div 146097 + 1 in
     if n \<le> days_before_year y then y - 1
     else if days_before_year (y + 1) < n then y + 1
     else y)"

fun find_month :: "int \<Rightarrow> int \<Rightarrow> nat list \<Rightarrow> nat" where
  "find_month y r [] = 12"
| "find_month y r (m # ms) = (if r \<le> days_before_month y (Suc m) then m else find_month y r ms)"

definition ord_month :: "int \<Rightarrow> int \<Rightarrow> nat" where
  "ord_month y r = find_month y r [1, 2, 3, 4, 5, 6, 7, 8, 9, 10, 11]"

definition ord_ymd :: "int \<Rightarrow> int \<times> nat \<times> int" where
  "ord_ymd n = (let y = ord_year n; r = n - days_before_year y; m = ord_month y r
     in (y, m, r - days_before_month y m))"

lemma div_step:
  fixes k :: int
  assumes "0 < k"
  shows "y div k = (y - 1) div k + (if y mod k = 0 then 1 else 0)"
proof -
  define q r where "q = (y - 1) div k" and "r = (y - 1) mod k"
  have y: "y = k * q + (r + 1)" and r: "0 \<le> r" "r < k"
    using assms by (simp_all add: q_def r_def algebra_simps)
  show ?thesis
  proof (cases "r + 1 < k")
    case True
    with y r have "y div k = q" "y mod k = r + 1"
      using int_div_pos_eq [OF y] int_mod_pos_eq [OF y] by auto
    with r show ?thesis by (simp add: q_def)
  next
    case False
    with r y have y': "y = k * (q + 1) + 0" by (simp add: algebra_simps)
    with assms have "y div k = q + 1" "y mod k = 0"
      using int_div_pos_eq [OF y'] int_mod_pos_eq [OF y'] by auto
    then show ?thesis by (simp add: q_def)
  qed
qed

lemma days_before_year_step:
  "days_before_year (y + 1) = days_before_year y + (if is_leap y then 366 else 365)"
proof -
  define a b c where "a = (y - 1) div 4" and "b = (y - 1) div 100" and "c = (y - 1) div 400"
  define P Q R where "P = (y mod 4 = 0)" and "Q = (y mod 100 = 0)" and "R = (y mod 400 = 0)"
  have 1: "Q \<Longrightarrow> P" "R \<Longrightarrow> Q"
    unfolding P_def Q_def R_def
    using mod_mod_cancel [of 4 100 y] mod_mod_cancel [of 100 400 y] by simp_all
  have d: "y div 4 = (y - 1) div 4 + (if y mod 4 = 0 then 1 else 0)"
    "y div 100 = (y - 1) div 100 + (if y mod 100 = 0 then 1 else 0)"
    "y div 400 = (y - 1) div 400 + (if y mod 400 = 0 then 1 else 0)"
    by (rule div_step; simp)+
  have "days_before_year (y + 1) = y * 365 + y div 4 - y div 100 + y div 400"
    by (simp add: days_before_year_def)
  also have "\<dots> = y * 365 + (a + (if P then 1 else 0)) - (b + (if Q then 1 else 0))
      + (c + (if R then 1 else 0))"
    by (simp only: d a_def b_def c_def P_def Q_def R_def)
  also have "\<dots> = (y - 1) * 365 + a - b + c + (if P \<and> (\<not> Q \<or> R) then 366 else 365)"
    using 1 by (cases P; cases Q; cases R) auto
  finally show ?thesis
    by (simp only: days_before_year_def is_leap_def a_def b_def c_def P_def Q_def R_def)
qed

text \<open>The estimate of the year is off by at most one.\<close>

lemma div_bounds: "0 < (k::int) \<Longrightarrow> k * (x div k) \<le> x" "0 < k \<Longrightarrow> x < k * (x div k) + k"
  using mult_div_mod_eq [of k x] pos_mod_sign [of k x] pos_mod_bound [of k x] by linarith+

lemma days_before_year_bounds:
  shows days_before_year_upper: "400 * days_before_year y \<le> 146097 * (y - 1) + 400"
    and days_before_year_lower: "146097 * (y - 1) - 800 \<le> 400 * days_before_year y"
proof -
  define a b c where "a = (y - 1) div 4" and "b = (y - 1) div 100" and "c = (y - 1) div 400"
  have bounds: "4 * a \<le> y - 1" "y - 1 < 4 * a + 4" "100 * b \<le> y - 1" "y - 1 < 100 * b + 100"
    "400 * c \<le> y - 1" "y - 1 < 400 * c + 400"
    using div_bounds [of 4 "y - 1"] div_bounds [of 100 "y - 1"] div_bounds [of 400 "y - 1"]
    by (simp_all add: a_def b_def c_def)
  have e: "days_before_year y = (y - 1) * 365 + a - b + c"
    by (simp add: days_before_year_def a_def b_def c_def)
  show "400 * days_before_year y \<le> 146097 * (y - 1) + 400"
    unfolding e using bounds by (simp add: algebra_simps)
  show "146097 * (y - 1) - 800 \<le> 400 * days_before_year y"
    unfolding e using bounds by (simp add: algebra_simps)
qed

lemma ord_year_bounds:
  "days_before_year (ord_year n) < n \<and> n \<le> days_before_year (ord_year n + 1)"
proof -
  define y where "y = (n * 400) div 146097 + 1"
  have q: "146097 * (y - 1) \<le> n * 400" "n * 400 < 146097 * (y - 1) + 146097"
    using div_bounds [of 146097 "n * 400"] by (simp_all add: y_def)
  have "days_before_year (y - 1) < n"
    using q days_before_year_upper [of "y - 1"] by (simp add: algebra_simps)
  moreover have "n \<le> days_before_year (y + 2)"
    using q days_before_year_lower [of "y + 2"] by (simp add: algebra_simps)
  ultimately show ?thesis
    by (auto simp: ord_year_def Let_def y_def [symmetric] add.assoc)
qed

lemma days_before_year_mono:
  assumes "x \<le> y" shows "days_before_year x \<le> days_before_year y"
  using assms
proof (induction y rule: int_ge_induct)
  case base
  show ?case by simp
next
  case (step i)
  then show ?case by (simp add: days_before_year_step)
qed

lemma ord_year_unique:
  assumes "days_before_year y < n" "n \<le> days_before_year (y + 1)"
  shows "ord_year n = y"
proof (rule antisym; rule ccontr)
  assume "\<not> ord_year n \<le> y"
  then have "days_before_year (y + 1) \<le> days_before_year (ord_year n)"
    by (intro days_before_year_mono) simp
  with ord_year_bounds [of n] assms show False by simp
next
  assume "\<not> y \<le> ord_year n"
  then have "days_before_year (ord_year n + 1) \<le> days_before_year y"
    by (intro days_before_year_mono) simp
  with ord_year_bounds [of n] assms show False by simp
qed

lemmas month_eval = days_before_month_def month_starts_def eval_nat_numeral

lemma month_split:
  assumes "1 \<le> m" "m \<le> 12"
  obtains "m = 1" | "m = 2" | "m = 3" | "m = 4" | "m = 5" | "m = 6" | "m = 7" | "m = 8"
    | "m = 9" | "m = 10" | "m = 11" | "m = (12::nat)"
  using assms by (auto simp: eval_nat_numeral le_Suc_eq)

lemma ord_month_inverse:
  assumes "1 \<le> m" "m \<le> 12" "1 \<le> d" "d \<le> days_in_month y m"
  shows "ord_month y (days_before_month y m + d) = m"
  using assms(1,2)
  by (rule month_split) (use assms(3,4) in
      \<open>simp_all add: ord_month_def days_in_month_def month_eval split: if_splits\<close>)

lemma year_day_bounds:
  assumes "1 \<le> m" "m \<le> 12" "1 \<le> d" "d \<le> days_in_month y m"
  shows "0 < days_before_month y m + d"
    "days_before_month y m + d \<le> (if is_leap y then 366 else 365)"
proof -
  show "0 < days_before_month y m + d"
    using assms(1,2) by (rule month_split) (use assms(3) in \<open>simp_all add: month_eval\<close>)
  show "days_before_month y m + d \<le> (if is_leap y then 366 else 365)"
    using assms(1,2)
    by (rule month_split) (use assms(4) in \<open>simp_all add: days_in_month_def month_eval split: if_splits\<close>)
qed

theorem ord_ymd_inverse:
  assumes "1 \<le> m" "m \<le> 12" "1 \<le> d" "d \<le> days_in_month y m"
  shows "ord_ymd (ymd_ord y m d) = (y, m, d)"
proof -
  have "ord_year (ymd_ord y m d) = y"
    using year_day_bounds [OF assms] days_before_year_step [of y]
    by (intro ord_year_unique) (auto simp: ymd_ord_def)
  with ord_month_inverse [OF assms] show ?thesis
    by (simp add: ord_ymd_def Let_def ymd_ord_def add.assoc)
qed

section \<open>ISO 8601 text\<close>

definition pad2 :: "int \<Rightarrow> string" where
  "pad2 n = [digit (nat n div 10 mod 10), digit (nat n mod 10)]"

definition pad4 :: "int \<Rightarrow> string" where
  "pad4 n = pad2 (n div 100) @ pad2 (n mod 100)"

definition pad6 :: "int \<Rightarrow> string" where
  "pad6 n = pad4 (n div 100) @ pad2 (n mod 100)"

definition fmt_hms :: "int \<Rightarrow> string" where
  "fmt_hms s = pad2 (s div 3600) @ '':'' @ pad2 (s div 60 mod 60) @ '':'' @ pad2 (s mod 60)"

definition fmt_us :: "int \<Rightarrow> string" where
  "fmt_us us = (if us = 0 then [] else ''.'' @ pad6 us)"

definition fmt_off :: "int option \<Rightarrow> string" where
  "fmt_off z = (case z of None \<Rightarrow> [] | Some o_us \<Rightarrow>
     (let a = \<bar>o_us\<bar>; s = a div sec in
       (if o_us < 0 then ''-'' else ''+'') @ pad2 (s div 3600) @ '':'' @ pad2 (s div 60 mod 60) @
       (if s mod 60 = 0 \<and> a mod sec = 0 then [] else '':'' @ pad2 (s mod 60) @ fmt_us (a mod sec))))"

definition isoformat :: "datetime \<Rightarrow> string" where
  "isoformat d = (let (y, m, dd) = ord_ymd (wall d div day_us + 1); r = wall d mod day_us in
     pad4 y @ ''-'' @ pad2 (int m) @ ''-'' @ pad2 dd @ ''T'' @ fmt_hms (r div sec) @
     fmt_us (r mod sec) @ fmt_off (utcoff d))"

fun take_num :: "nat \<Rightarrow> nat \<Rightarrow> string \<Rightarrow> (int \<times> string) option" where
  "take_num acc 0 s = Some (int acc, s)"
| "take_num acc (Suc k) [] = None"
| "take_num acc (Suc k) (c # cs) =
     (if is_digit c then take_num (acc * 10 + digit_val c) k cs else None)"

definition parse_frac :: "string \<Rightarrow> int option" where
  "parse_frac s = (case s of [] \<Rightarrow> Some 0
    | c # ds \<Rightarrow>
        if c \<in> {CHR ''.'', CHR '',''} \<and> ds \<noteq> [] \<and> list_all is_digit ds
        then map_option fst (take_num 0 6 (ds @ ''00000'')) else None)"

text \<open>Hours, then optional minutes and seconds, then an optional fraction: microseconds.\<close>

definition parse_hmsf :: "string \<Rightarrow> (int \<times> int \<times> int \<times> int) option" where
  "parse_hmsf s = (case take_num 0 2 s of None \<Rightarrow> None | Some (h, r) \<Rightarrow>
     if r = [] then Some (h, 0, 0, 0)
     else let sep = (hd r = CHR '':'') in
       case take_num 0 2 (if sep then tl r else r) of None \<Rightarrow> None | Some (mi, r2) \<Rightarrow>
         if r2 = [] then Some (h, mi, 0, 0)
         else if sep \<and> hd r2 \<noteq> CHR '':'' then None
         else case take_num 0 2 (if sep then tl r2 else r2) of None \<Rightarrow> None | Some (se, r3) \<Rightarrow>
           map_option (\<lambda>f. (h, mi, se, f)) (parse_frac r3))"

definition parse_date :: "string \<Rightarrow> (int \<times> int \<times> int \<times> string) option" where
  "parse_date s = (case take_num 0 4 s of None \<Rightarrow> None | Some (y, r) \<Rightarrow>
     let sep = startswith r ''-'' in
     case take_num 0 2 (if sep then tl r else r) of None \<Rightarrow> None | Some (m, r2) \<Rightarrow>
       if startswith r2 ''-'' \<noteq> sep then None
       else case take_num 0 2 (if sep then tl r2 else r2) of None \<Rightarrow> None | Some (d, r3) \<Rightarrow>
         Some (y, m, d, r3))"

definition is_zone_char :: "char \<Rightarrow> bool" where
  "is_zone_char c \<longleftrightarrow> c = CHR ''+'' \<or> c = CHR ''-'' \<or> c = CHR ''Z''"

definition parse_zone :: "string \<Rightarrow> int option option" where
  "parse_zone s = (case s of [] \<Rightarrow> Some None
    | c # r \<Rightarrow>
        if c = CHR ''Z'' \<and> r = [] then Some (Some 0)
        else if length r \<in> {0, 1, 3} then None
        else case parse_hmsf r of None \<Rightarrow> None | Some (h, mi, se, f) \<Rightarrow>
          let us = ((h * 60 + mi) * 60 + se) * sec + f in
          if day_us \<le> us then None
          else Some (Some (if c = CHR ''-'' then - us else us)))"

definition fromisoformat :: "string \<Rightarrow> datetime option" where
  "fromisoformat s = (case parse_date s of None \<Rightarrow> None | Some (y, m, d, r) \<Rightarrow>
     if y < 1 \<or> m < 1 \<or> 12 < m \<or> d < 1 \<or> days_in_month y (nat m) < d then None
     else
       let day = (ymd_ord y (nat m) d - 1) * day_us in
       if length r \<le> 1 then Some (DT day None)
       else
         let t = takeWhile (\<lambda>c. \<not> is_zone_char c) (tl r);
             z = dropWhile (\<lambda>c. \<not> is_zone_char c) (tl r) in
         case parse_hmsf t of None \<Rightarrow> None | Some (h, mi, se, f) \<Rightarrow>
           if 23 < h \<or> 59 < mi \<or> 59 < se then None
           else case parse_zone z of None \<Rightarrow> None | Some off \<Rightarrow>
             Some (DT (day + ((h * 60 + mi) * 60 + se) * sec + f) off))"

text \<open>
  The two helpers that the code repeats in each module: \<open>_iso\<close> writes a UTC stamp with a
  trailing \<open>Z\<close>, whole seconds only; \<open>_parse_iso\<close> reads one, \<^term>\<open>None\<close> for an empty or
  malformed value.
\<close>

definition iso_z :: "datetime \<Rightarrow> string" where
  "iso_z d = py_replace ''+00:00'' ''Z'' (isoformat (drop_microsecond (astimezone_utc d)))"

definition parse_iso :: "string option \<Rightarrow> datetime option" where
  "parse_iso s = (case s of None \<Rightarrow> None | Some t \<Rightarrow>
     if t = [] then None else fromisoformat (py_replace ''Z'' ''+00:00'' t))"

definition in_range :: "instant \<Rightarrow> bool" where
  "in_range t \<longleftrightarrow> 0 \<le> t \<and> t < days_before_year 10000 * day_us"

lemma in_range_epoch [simp]: "0 \<le> t \<Longrightarrow> t < 250000000000000000 \<Longrightarrow> in_range t"
  by (simp add: in_range_def days_before_year_def day_us_def sec_def)

lemma take_num_add:
  "take_num acc (j + k) s =
     (case take_num acc j s of None \<Rightarrow> None | Some (v, r) \<Rightarrow> take_num (nat v) k r)"
  by (induction acc j s rule: take_num.induct) auto

lemma take_num_pad2_acc:
  assumes "0 \<le> n" "n < 100"
  shows "take_num acc 2 (pad2 n @ s) = Some (int acc * 100 + n, s)"
proof -
  have "nat n div 10 < 10" using assms by simp
  moreover have "int (nat n div 10 * 10 + nat n mod 10) = n"
    using assms by simp
  ultimately show ?thesis
    by (simp add: pad2_def numeral_2_eq_2 algebra_simps)
qed

lemma take_num_pad2 [simp]:
  "0 \<le> n \<Longrightarrow> n < 100 \<Longrightarrow> take_num 0 2 (pad2 n @ s) = Some (n, s)"
  by (simp add: take_num_pad2_acc)

lemma take_num_pad4 [simp]:
  assumes "0 \<le> n" "n < 10000"
  shows "take_num 0 4 (pad4 n @ s) = Some (n, s)"
proof -
  have "0 \<le> n div 100" "n div 100 < 100" using assms by auto
  then show ?thesis
    using assms take_num_add [of 0 2 2 "pad4 n @ s"] div_mult_mod_eq [of n 100]
    by (simp add: pad4_def take_num_pad2_acc)
qed

lemma pad2_digits: "c \<in> set (pad2 n) \<Longrightarrow> is_digit c"
  by (auto simp: pad2_def)

lemma pad4_digits: "c \<in> set (pad4 n) \<Longrightarrow> is_digit c"
  by (auto simp: pad4_def dest: pad2_digits)

lemma pad_not_Nil [simp]: "pad2 n \<noteq> []" "pad4 n \<noteq> []"
  by (simp_all add: pad2_def pad4_def)

lemma pad_no_marks [simp]:
  "CHR ''+'' \<notin> set (pad2 n)" "CHR ''Z'' \<notin> set (pad2 n)" "CHR ''-'' \<notin> set (pad2 n)"
  "CHR ''+'' \<notin> set (pad4 n)" "CHR ''Z'' \<notin> set (pad4 n)"
  using pad2_digits pad4_digits not_digit_chars by blast+

text \<open>The stamp of an instant of whole seconds, before the zone.\<close>

definition stamp :: "instant \<Rightarrow> string" where
  "stamp t = (let (y, m, d) = ord_ymd (t div day_us + 1); r = t mod day_us in
     pad4 y @ ''-'' @ pad2 (int m) @ ''-'' @ pad2 d @ ''T'' @ fmt_hms (r div sec))"

lemma stamp_no_marks: "CHR ''+'' \<notin> set (stamp t)" "CHR ''Z'' \<notin> set (stamp t)"
  by (auto simp: stamp_def fmt_hms_def Let_def split: prod.splits)

lemma iso_z_utc:
  assumes "t mod sec = 0"
  shows "iso_z (utc t) = stamp t @ ''Z''"
proof -
  have r: "t mod day_us mod sec = 0"
    using assms by (simp add: day_us_def sec_def mod_mod_cancel)
  have z: "fmt_off (Some 0) = ''+00:00''"
    by code_simp
  have "isoformat (utc t) = stamp t @ ''+00:00''"
    using r by (simp add: isoformat_def stamp_def utc_def z fmt_us_def Let_def split: prod.splits)
  moreover have "py_replace ''+00:00'' ''Z'' (stamp t @ ''+00:00'')
      = stamp t @ py_replace ''+00:00'' ''Z'' ''+00:00''"
    by (rule py_replace_skip [OF stamp_no_marks(1)])
  moreover have "py_replace ''+00:00'' ''Z'' ''+00:00'' = ''Z''"
    by code_simp
  ultimately show ?thesis
    using assms by (simp add: iso_z_def)
qed

lemma digit_char_facts: "is_digit c \<Longrightarrow> \<not> is_zone_char c"
  by (auto simp: is_zone_char_def)

lemma fmt_hms_no_zone: "c \<in> set (fmt_hms s) \<Longrightarrow> \<not> is_zone_char c"
  by (auto simp: fmt_hms_def is_zone_char_def dest: pad2_digits)

lemma parse_hmsf_fmt_hms:
  assumes "0 \<le> s" "s < 86400"
  shows "parse_hmsf (fmt_hms s) = Some (s div 3600, s div 60 mod 60, s mod 60, 0)"
proof -
  have "0 \<le> s div 3600" "s div 3600 < 100" using assms by auto
  moreover have "take_num 0 2 (pad2 (s mod 60)) = Some (s mod 60, [])"
    using take_num_pad2 [of "s mod 60" "[]"] by simp
  ultimately show ?thesis
    by (simp add: parse_hmsf_def fmt_hms_def parse_frac_def)
qed

lemma parse_zone_zero: "parse_zone ''+00:00'' = Some (Some 0)"
  by code_simp

lemma parse_date_stamp:
  assumes "0 \<le> y" "y < 10000" "0 \<le> m" "m < 100" "0 \<le> d" "d < 100"
  shows "parse_date (pad4 y @ CHR ''-'' # pad2 m @ CHR ''-'' # pad2 d @ s) = Some (y, m, d, s)"
  using assms by (simp add: parse_date_def Let_def)

lemma hms_of_seconds: "(s div 3600 * 60 + s div 60 mod 60) * 60 + s mod 60 = (s::int)"
proof -
  have "s div 3600 = s div 60 div 60"
    using zdiv_zmult2_eq [of 60 s 60] by simp
  then show ?thesis
    by (simp only: div_mult_mod_eq)
qed

lemma fromisoformat_fields:
  assumes "1 \<le> y" "y < 10000" "1 \<le> m" "m \<le> 12" "1 \<le> d" "d \<le> days_in_month y m" "d < 100"
    and "0 \<le> s" "s < 86400"
  shows "fromisoformat (pad4 y @ ''-'' @ pad2 (int m) @ ''-'' @ pad2 d @ ''T'' @ fmt_hms s @ ''+00:00'')
    = Some (utc ((ymd_ord y m d - 1) * day_us + s * sec))"
proof -
  have split: "takeWhile (\<lambda>c. \<not> is_zone_char c) (fmt_hms s @ ''+00:00'') = fmt_hms s"
    "dropWhile (\<lambda>c. \<not> is_zone_char c) (fmt_hms s @ ''+00:00'') = ''+00:00''"
    using fmt_hms_no_zone by (simp_all add: takeWhile_append dropWhile_append is_zone_char_def)
  have "s div 60 mod 60 \<le> 59" "s mod 60 \<le> 59"
    using pos_mod_bound [of 60 "s div 60"] pos_mod_bound [of 60 s] by linarith+
  moreover have "s div 3600 \<le> 23" "(s div 3600 * 60 + s div 60 mod 60) * 60 + s mod 60 = s"
    using assms(8,9) hms_of_seconds by auto
  ultimately show ?thesis
    using assms
    by (simp add: fromisoformat_def parse_date_stamp split parse_hmsf_fmt_hms parse_zone_zero utc_def
        Let_def not_less not_le)
qed

lemma find_month_range: "1 \<le> ord_month y r \<and> ord_month y r \<le> 12"
  by (simp add: ord_month_def)

lemma find_month_bounds:
  assumes "days_before_month y k < r" "r \<le> days_before_month y 13" "k \<le> 12"
  shows "days_before_month y (find_month y r [k..<12]) < r
    \<and> r \<le> days_before_month y (Suc (find_month y r [k..<12]))"
  using assms
proof (induction "12 - k" arbitrary: k)
  case 0
  then have "k = 12" by simp
  with 0 show ?case by simp
next
  case (Suc n)
  then have "[k..<12] = k # [Suc k..<12]" "n = 12 - Suc k" "Suc k \<le> 12"
    by (auto simp: upt_conv_Cons)
  with Suc show ?case by (cases "r \<le> days_before_month y (Suc k)") auto
qed

lemma month_day_bounds:
  assumes "0 < r" "r \<le> (if is_leap y then 366 else 365)"
  shows "1 \<le> r - days_before_month y (ord_month y r)
    \<and> r - days_before_month y (ord_month y r) \<le> days_in_month y (ord_month y r)"
proof -
  have "[1, 2, 3, 4, 5, 6, 7, 8, 9, 10, 11] = [1..<12]"
    by (simp add: upt_rec)
  then have "ord_month y r = find_month y r [1..<12]"
    by (simp add: ord_month_def)
  moreover have "days_before_month y 1 < r" "r \<le> days_before_month y 13"
    using assms by (simp_all add: month_eval split: if_splits)
  ultimately show ?thesis
    using find_month_bounds [of y 1 r] by (simp add: days_in_month_def)
qed

lemma days_in_month_le: "1 \<le> m \<Longrightarrow> m \<le> 12 \<Longrightarrow> days_in_month y m \<le> 31"
  by (rule month_split [of m]) (simp_all add: days_in_month_def month_eval)

lemma ord_ymd_valid:
  assumes "ord_ymd n = (y, m, d)"
  shows "1 \<le> m" "m \<le> 12" "1 \<le> d" "d \<le> days_in_month y m" "ymd_ord y m d = n" "y = ord_year n"
proof -
  define r where "r = n - days_before_year (ord_year n)"
  have y: "y = ord_year n" and m: "m = ord_month y r" and d: "d = r - days_before_month y m"
    using assms by (auto simp: ord_ymd_def Let_def r_def)
  have "0 < r" "r \<le> (if is_leap y then 366 else 365)"
    using ord_year_bounds [of n] days_before_year_step [of y] by (auto simp: r_def y)
  from month_day_bounds [OF this] find_month_range [of y r]
  show "1 \<le> m" "m \<le> 12" "1 \<le> d" "d \<le> days_in_month y m"
    by (simp_all add: m d)
  show "ymd_ord y m d = n" by (simp add: ymd_ord_def d r_def y)
  show "y = ord_year n" by (rule y)
qed

lemma ord_year_range:
  assumes "1 \<le> n" "n \<le> days_before_year 10000"
  shows "1 \<le> ord_year n \<and> ord_year n < 10000"
proof (rule conjI; rule ccontr)
  assume "\<not> 1 \<le> ord_year n"
  then have "days_before_year (ord_year n + 1) \<le> days_before_year 1"
    by (intro days_before_year_mono) simp
  with ord_year_bounds [of n] assms show False by (simp add: days_before_year_def)
next
  assume "\<not> ord_year n < 10000"
  then have "days_before_year 10000 \<le> days_before_year (ord_year n)"
    by (intro days_before_year_mono) simp
  with ord_year_bounds [of n] assms show False by simp
qed

text \<open>
  The round trip: what \<open>_iso\<close> writes, \<open>_parse_iso\<close> reads back as the same instant, cut to
  whole seconds.
\<close>

theorem parse_iso_iso_z:
  assumes "in_range t"
  shows "parse_iso (Some (iso_z (utc t))) = Some (utc (t - t mod sec))"
proof -
  define u where "u = t - t mod sec"
  have t0: "0 \<le> t" using assms by (simp add: in_range_def)
  have u: "u = t div sec * sec"
    using div_mult_mod_eq [of t sec] unfolding u_def by linarith
  have sec1: "u mod sec = 0" by (simp add: u)
  have "0 \<le> t div sec" using t0 by (simp add: pos_imp_zdiv_nonneg_iff)
  then have u0: "0 \<le> u" by (simp add: u sec_def)
  have ut: "u \<le> t" using pos_mod_sign [of sec t] unfolding u_def by simp
  define n r where "n = u div day_us + 1" and "r = u mod day_us"
  obtain y m d where ymd: "ord_ymd n = (y, m, d)" by (cases "ord_ymd n")
  have day: "0 < day_us" by (simp add: day_us_def)
  have "u < days_before_year 10000 * day_us"
    using ut assms by (auto simp: in_range_def)
  then have "u div day_us * day_us < days_before_year 10000 * day_us"
    using div_bounds(1) [OF day, of u] by (simp only: mult.commute [of day_us])
  then have "u div day_us < days_before_year 10000"
    using day by (simp only: mult_less_cancel_right_pos)
  moreover have "0 \<le> u div day_us" using u0 day by (simp add: pos_imp_zdiv_nonneg_iff)
  ultimately have yr: "1 \<le> y" "y < 10000"
    using ord_year_range [of n] ord_ymd_valid(6) [OF ymd] by (auto simp: n_def)
  have r: "0 \<le> r" "r < day_us" "r mod sec = 0"
    using day sec1 by (auto simp: r_def day_us_def sec_def mod_mod_cancel)
  then have s: "0 \<le> r div sec" "r div sec < 86400" "r div sec * sec = r"
    by (auto simp: day_us_def sec_def)
  note v = ord_ymd_valid [OF ymd]
  have d31: "d < 100" using v(4) days_in_month_le [OF v(1,2), of y] by simp
  have iso: "iso_z (utc t) = stamp u @ ''Z''"
    using iso_z_utc [OF sec1] by (simp add: iso_z_def u_def)
  have "py_replace ''Z'' ''+00:00'' (stamp u @ ''Z'') = stamp u @ py_replace ''Z'' ''+00:00'' ''Z''"
    by (rule py_replace_skip [OF stamp_no_marks(2)])
  also have "py_replace ''Z'' ''+00:00'' ''Z'' = ''+00:00''" by code_simp
  finally have "parse_iso (Some (iso_z (utc t))) = fromisoformat (stamp u @ ''+00:00'')"
    by (simp add: parse_iso_def iso)
  also have "\<dots> = Some (utc ((ymd_ord y m d - 1) * day_us + r div sec * sec))"
    using fromisoformat_fields [OF yr v(1,2,3,4) d31 s(1,2)] ymd
    by (simp add: stamp_def n_def r_def)
  also have "(ymd_ord y m d - 1) * day_us + r div sec * sec = u"
    using div_mult_mod_eq [of u day_us] by (simp only: s(3) v(5)) (simp add: n_def r_def)
  finally show ?thesis by (simp add: u_def)
qed

text \<open>\<open>dt.replace(tzinfo=utc)\<close> for a naive datetime; an aware one is left as it is.\<close>

definition assume_utc :: "datetime \<Rightarrow> datetime" where
  "assume_utc d = (case d of DT w None \<Rightarrow> DT w (Some 0) | DT w (Some z) \<Rightarrow> DT w (Some z))"

lemma assume_utc_simps [simp, time_simps]:
  "assume_utc (utc t) = utc t"
  "same_kind (assume_utc a) (assume_utc b)"
  by (auto simp: assume_utc_def utc_def same_kind_def split: datetime.splits option.splits)

text \<open>A stamp has no blanks, so stripping leaves it as it is.\<close>

lemma iso_z_cut: "iso_z (utc t) = iso_z (utc (t - t mod sec))"
  by (simp add: iso_z_def drop_microsecond_def astimezone_utc_def utc_def dt_instant_def)

lemma stamp_no_blank: "c \<in> set (stamp t) \<Longrightarrow> \<not> is_blank c"
  by (auto simp: stamp_def fmt_hms_def Let_def is_digit_not_blank dest!: pad2_digits pad4_digits
      split: prod.splits) (simp_all add: is_blank_def)

lemma iso_z_strip [simp]: "strip (iso_z (utc t)) = iso_z (utc t)"
proof -
  have "iso_z (utc t) = stamp (t - t mod sec) @ ''Z''"
    using iso_z_cut [of t] iso_z_utc [of "t - t mod sec"] by simp
  moreover have "\<not> is_blank CHR ''Z''" by (simp add: is_blank_def)
  ultimately show ?thesis using stamp_no_blank by (intro strip_no_blank) auto
qed

lemma iso_z_not_Nil [simp]: "iso_z (utc t) \<noteq> []"
  using iso_z_cut [of t] iso_z_utc [of "t - t mod sec"] by simp

text \<open>\<open>isoformat\<close> and \<open>fromisoformat\<close> are inverse on UTC instants, microseconds included.\<close>

lemma take_num_pad6:
  assumes "0 \<le> n" "n < 1000000"
  shows "take_num 0 6 (pad6 n @ s) = Some (n, s)"
proof -
  have b: "n div 100 < 10000" "0 \<le> n div 100" using assms by auto
  then have "take_num 0 4 (pad4 (n div 100) @ pad2 (n mod 100) @ s) = Some (n div 100, pad2 (n mod 100) @ s)"
    by simp
  then show ?thesis
    using assms b take_num_add [of 0 4 2 "pad6 n @ s"] div_mult_mod_eq [of n 100]
    by (simp add: pad6_def take_num_pad2_acc)
qed

lemma pad6_digits: "c \<in> set (pad6 n) \<Longrightarrow> is_digit c"
  by (auto simp: pad6_def dest: pad2_digits pad4_digits)

lemma parse_frac_fmt_us:
  assumes "0 \<le> us" "us < 1000000"
  shows "parse_frac (fmt_us us) = Some us"
proof (cases "us = 0")
  case False
  have "pad6 us \<noteq> []" by (simp add: pad6_def)
  moreover have "list_all is_digit (pad6 us)" using pad6_digits by (auto simp: list_all_iff)
  ultimately show ?thesis
    using False take_num_pad6 [OF assms, of "''00000''"]
    by (simp add: parse_frac_def fmt_us_def)
qed (simp add: parse_frac_def fmt_us_def)

lemma parse_hmsf_fmt_hms_us:
  assumes "0 \<le> s" "s < 86400" "0 \<le> us" "us < 1000000"
  shows "parse_hmsf (fmt_hms s @ fmt_us us) = Some (s div 3600, s div 60 mod 60, s mod 60, us)"
proof -
  have "0 \<le> s div 3600" "s div 3600 < 100" using assms by auto
  moreover have "take_num 0 2 (pad2 (s mod 60) @ fmt_us us) = Some (s mod 60, fmt_us us)"
    by simp
  ultimately show ?thesis
    using parse_frac_fmt_us [OF assms(3,4)] by (simp add: parse_hmsf_def fmt_hms_def)
qed

lemma fmt_us_no_zone: "c \<in> set (fmt_us us) \<Longrightarrow> \<not> is_zone_char c"
  by (auto simp: fmt_us_def is_zone_char_def dest: pad6_digits split: if_splits)

theorem fromisoformat_isoformat:
  assumes "in_range t"
  shows "fromisoformat (isoformat (utc t)) = Some (utc t)"
proof -
  define n r where "n = t div day_us + 1" and "r = t mod day_us"
  obtain y m d where ymd: "ord_ymd n = (y, m, d)" by (cases "ord_ymd n")
  have day: "0 < day_us" by (simp add: day_us_def)
  have t0: "0 \<le> t" "t < days_before_year 10000 * day_us" using assms by (simp_all add: in_range_def)
  then have "t div day_us * day_us < days_before_year 10000 * day_us"
    using div_bounds(1) [OF day, of t] by (simp only: mult.commute [of day_us])
  then have "t div day_us < days_before_year 10000"
    using day by (simp only: mult_less_cancel_right_pos)
  moreover have "0 \<le> t div day_us" using t0 day by (simp add: pos_imp_zdiv_nonneg_iff)
  ultimately have yr: "1 \<le> y" "y < 10000"
    using ord_year_range [of n] ord_ymd_valid(6) [OF ymd] by (auto simp: n_def)
  have r: "0 \<le> r" "r < day_us" using day by (auto simp: r_def)
  then have s: "0 \<le> r div sec" "r div sec < 86400" by (auto simp: day_us_def sec_def)
  have us: "0 \<le> r mod sec" "r mod sec < 1000000" by (simp_all add: sec_def)
  note v = ord_ymd_valid [OF ymd]
  have d31: "d < 100" using v(4) days_in_month_le [OF v(1,2), of y] by simp
  have z: "fmt_off (Some 0) = ''+00:00''" by code_simp
  have split: "takeWhile (\<lambda>c. \<not> is_zone_char c) (fmt_hms (r div sec) @ fmt_us (r mod sec) @ ''+00:00'')
        = fmt_hms (r div sec) @ fmt_us (r mod sec)"
    "dropWhile (\<lambda>c. \<not> is_zone_char c) (fmt_hms (r div sec) @ fmt_us (r mod sec) @ ''+00:00'') = ''+00:00''"
    using fmt_hms_no_zone fmt_us_no_zone by (simp_all add: takeWhile_append dropWhile_append is_zone_char_def)
  define q where "q = r div sec"
  have q: "q div 60 mod 60 \<le> 59" "q mod 60 \<le> 59" "q div 3600 \<le> 23"
    "(q div 3600 * 60 + q div 60 mod 60) * 60 + q mod 60 = q"
    using pos_mod_bound [of 60 "q div 60"] pos_mod_bound [of 60 q] s hms_of_seconds [of q] by (auto simp: q_def)
  have "isoformat (utc t) = pad4 y @ CHR ''-'' # pad2 (int m) @ CHR ''-'' # pad2 d @
      CHR ''T'' # fmt_hms q @ fmt_us (r mod sec) @ ''+00:00''"
    using ymd by (simp add: isoformat_def utc_def n_def r_def z Let_def q_def)
  then have "fromisoformat (isoformat (utc t))
      = Some (utc ((ymd_ord y m d - 1) * day_us + q * sec + r mod sec))"
    using yr v(1,2,3,4) d31 s us q(1,2,3) parse_hmsf_fmt_hms_us [OF s us] split
    by (simp add: fromisoformat_def parse_date_stamp parse_zone_zero utc_def q_def [symmetric]
        Let_def not_less not_le) (use q(4) in simp)
  also have "(ymd_ord y m d - 1) * day_us + q * sec + r mod sec = t"
    using div_mult_mod_eq [of t day_us] div_mult_mod_eq [of r sec] by (simp only: v(5)) (simp add: n_def r_def q_def)
  finally show ?thesis .
qed

end
