(* ===== verification/Source_Health.thy ===== *)
theory Source_Health
  imports Py_Datetime
begin

text \<open>
  \<open>ingestion/core/source_health.py\<close>, and the two functions of
  \<open>ingestion/fetch_strategies/collection_probe.py\<close> that use it: the per-source health state
  machine, its two stores (in memory, JSON file), the gate that skips an unhealthy source and
  the update after a probe. \<open>now\<close> is the instant that \<open>datetime.now(timezone.utc)\<close> returns.

  The stores share the contract \<open>health_store\<close>; the gate and the update take the store's
  operations as arguments, and their lemmas are proved once, from the contract.
\<close>

section \<open>Health states\<close>

definition HEALTHY :: string where "HEALTHY = ''HEALTHY''"
definition DEGRADED :: string where "DEGRADED = ''DEGRADED''"
definition RATE_LIMITED_COOLDOWN :: string where "RATE_LIMITED_COOLDOWN = ''RATE_LIMITED_COOLDOWN''"
definition QUARANTINED_RETRYABLE :: string where "QUARANTINED_RETRYABLE = ''QUARANTINED_RETRYABLE''"
definition BLOCKED_TERMINAL :: string where "BLOCKED_TERMINAL = ''BLOCKED_TERMINAL''"
definition DEFERRED_SPECIAL_ROUND :: string where
  "DEFERRED_SPECIAL_ROUND = ''DEFERRED_SPECIAL_ROUND''"

lemmas health_names = HEALTHY_def DEGRADED_def RATE_LIMITED_COOLDOWN_def QUARANTINED_RETRYABLE_def
  BLOCKED_TERMINAL_def DEFERRED_SPECIAL_ROUND_def

definition HEALTH_STATES :: "string list" where
  "HEALTH_STATES = [HEALTHY, DEGRADED, RATE_LIMITED_COOLDOWN, QUARANTINED_RETRYABLE,
     BLOCKED_TERMINAL, DEFERRED_SPECIAL_ROUND]"

definition TERMINAL_BLOCKER_CATEGORIES :: "string list" where
  "TERMINAL_BLOCKER_CATEGORIES =
     [''CAPTCHA_DETECTED'', ''LOGIN_WALL_DETECTED'', ''PAYWALL_DETECTED'', ''ROBOTS_BLOCKED'',
      ''LOGIN_WALL'', ''LICENSE_REQUIRED'']"

definition TRANSIENT_FAILURE_STATUSES :: "string list" where
  "TRANSIENT_FAILURE_STATUSES = [''NETWORK_ERROR'', ''TIMEOUT'']"

definition TRANSIENT_CATEGORIES :: "string list" where
  "TRANSIENT_CATEGORIES = [''HTTP_5XX'', ''NETWORK_TIMEOUT'', ''NETWORK_CONNECTION_RESET'']"

definition QUARANTINE_RECHECK_SECONDS :: int where
  "QUARANTINE_RECHECK_SECONDS = 6 * 3600"

record health_state =
  hs_source_id :: string
  hs_state :: string
  hs_failure_count :: int
  hs_last_status :: "string option"
  hs_last_error_category :: "string option"
  hs_last_checked_at :: "string option"
  hs_next_retry_at :: "string option"
  hs_reason :: string

definition to_dict :: "health_state \<Rightarrow> (string, json) dict" where
  "to_dict h =
     [(''source_id'', JStr (hs_source_id h)), (''state'', JStr (hs_state h)),
      (''failure_count'', JInt (hs_failure_count h)),
      (''last_status'', json_opt_str (hs_last_status h)),
      (''last_error_category'', json_opt_str (hs_last_error_category h)),
      (''last_checked_at'', json_opt_str (hs_last_checked_at h)),
      (''next_retry_at'', json_opt_str (hs_next_retry_at h)),
      (''reason'', JStr (hs_reason h))]"

definition from_dict :: "(string, json) dict \<Rightarrow> health_state res" where
  "from_dict d =
     bind_res (as_str_or (dict_get d ''source_id'') []) (\<lambda>sid.
     bind_res (as_str_or (dict_get d ''state'') HEALTHY) (\<lambda>st.
     bind_res (json_int (get_or d ''failure_count'' (JInt 0))) (\<lambda>fc.
     bind_res (as_opt_str (dict_get d ''last_status'')) (\<lambda>ls.
     bind_res (as_opt_str (dict_get d ''last_error_category'')) (\<lambda>le.
     bind_res (as_opt_str (dict_get d ''last_checked_at'')) (\<lambda>lc.
     bind_res (as_opt_str (dict_get d ''next_retry_at'')) (\<lambda>nr.
     bind_res (as_str_or (dict_get d ''reason'') []) (\<lambda>rs.
       Inr \<lparr>hs_source_id = sid, hs_state = st, hs_failure_count = fc, hs_last_status = ls,
            hs_last_error_category = le, hs_last_checked_at = lc, hs_next_retry_at = nr,
            hs_reason = rs\<rparr>))))))))"

lemma from_dict_to_dict [simp]: "from_dict (to_dict h) = Inr h"
  by (simp add: from_dict_def to_dict_def get_or_def)

section \<open>Transitions\<close>

definition apply_probe_outcome ::
  "health_state option \<Rightarrow> string \<Rightarrow> string \<Rightarrow> string option \<Rightarrow> string option \<Rightarrow> int \<Rightarrow> instant
   \<Rightarrow> health_state" where
  "apply_probe_outcome prev source_id status error_category next_retry_at quarantine_threshold now =
    (let sid = (if source_id \<noteq> [] then source_id
                else case prev of None \<Rightarrow> [] | Some p \<Rightarrow> hs_source_id p);
         now_iso = iso_z (utc now);
         fc = (case prev of None \<Rightarrow> 0 | Some p \<Rightarrow> hs_failure_count p);
         cat = or_str error_category [];
         mk = (\<lambda>st n le nr rs. \<lparr>hs_source_id = sid, hs_state = st, hs_failure_count = n,
                 hs_last_status = Some status, hs_last_error_category = le,
                 hs_last_checked_at = Some now_iso, hs_next_retry_at = nr, hs_reason = rs\<rparr>)
     in
     if status \<in> {''LIVE_SUCCESS'', ''LIVE_PARTIAL''} then
       mk HEALTHY 0 None None ''probe_success''
     else if status = ''DEFERRED'' then
       mk DEFERRED_SPECIAL_ROUND fc error_category None ''deferred_to_special_round''
     else if status = ''BLOCKED'' \<or> cat \<in> set TERMINAL_BLOCKER_CATEGORIES then
       mk BLOCKED_TERMINAL (fc + 1) error_category None
         (''terminal_blocker:'' @ or_str error_category ''BLOCKED'')
     else if status = ''RATE_LIMITED'' then
       mk RATE_LIMITED_COOLDOWN fc error_category next_retry_at ''rate_limited_cooldown''
     else if status \<in> set TRANSIENT_FAILURE_STATUSES \<or> cat \<in> set TRANSIENT_CATEGORIES then
       (if quarantine_threshold \<le> fc + 1 then
          mk QUARANTINED_RETRYABLE (fc + 1) error_category
            (Some (iso_z (dt_add_seconds (utc now) QUARANTINE_RECHECK_SECONDS)))
            (''consecutive_failures:'' @ int_str (fc + 1))
        else mk DEGRADED (fc + 1) error_category None (''transient_failure:'' @ int_str (fc + 1)))
     else mk DEGRADED (fc + 1) error_category None (''non_success_status:'' @ status))"

definition retry_gated :: "string \<Rightarrow> bool" where
  "retry_gated st \<longleftrightarrow> st = RATE_LIMITED_COOLDOWN \<or> st = QUARANTINED_RETRYABLE"

definition should_skip :: "health_state option \<Rightarrow> instant \<Rightarrow> (bool \<times> string) res" where
  "should_skip state now = (case state of None \<Rightarrow> Inr (False, [])
    | Some h \<Rightarrow>
        if hs_state h = BLOCKED_TERMINAL then
          Inr (True, ''blocked_terminal:'' @ or_str (hs_last_error_category h) (hs_reason h))
        else if hs_state h = DEFERRED_SPECIAL_ROUND then Inr (True, ''deferred_special_round'')
        else if retry_gated (hs_state h) then
          (if \<not> truthy (hs_next_retry_at h) then Inr (False, [])
           else case parse_iso (hs_next_retry_at h) of None \<Rightarrow> Inr (False, [])
             | Some deadline \<Rightarrow>
                 bind_res (dt_gt deadline (utc now)) (\<lambda>later.
                   if later then
                     Inr (True, lower (hs_state h) @ ''_until:'' @ the (hs_next_retry_at h))
                   else Inr (False, [])))
        else Inr (False, []))"

text \<open>\<open>SourceHealthStore.list_due_for_retry\<close>, over the values of \<open>all_states()\<close>.\<close>

fun list_due_for_retry :: "health_state list \<Rightarrow> instant \<Rightarrow> health_state list res" where
  "list_due_for_retry [] now = Inr []"
| "list_due_for_retry (st # sts) now =
     (if \<not> retry_gated (hs_state st) then list_due_for_retry sts now
      else bind_res
        (if \<not> truthy (hs_next_retry_at st) then Inr True
         else case parse_iso (hs_next_retry_at st) of None \<Rightarrow> Inr True
           | Some deadline \<Rightarrow> dt_le deadline (utc now))
        (\<lambda>is_due. bind_res (list_due_for_retry sts now) (\<lambda>due. Inr (if is_due then st # due else due))))"

section \<open>The stores\<close>

text \<open>\<open>InMemorySourceHealthStore\<close>: a dictionary.\<close>

type_synonym mem_health = "(string, health_state) dict"

definition mem_get :: "mem_health \<Rightarrow> string \<Rightarrow> health_state option res" where
  "mem_get s sid = Inr (dict_get s sid)"

definition mem_set :: "health_state \<Rightarrow> mem_health \<Rightarrow> mem_health" where
  "mem_set h s = dict_set (hs_source_id h) h s"

definition mem_all :: "mem_health \<Rightarrow> (string, health_state) dict res" where
  "mem_all s = Inr s"

text \<open>
  \<open>LocalFileSourceHealthStore\<close>: every operation reads the file, \<open>set\<close> writes it back. The
  model's writes succeed; a failed write is only logged by the code and leaves the file as it was.
\<close>

definition file_load :: "disk_file \<Rightarrow> (string, json) dict" where
  "file_load f = (case f of FileJson (JObj d) \<Rightarrow> d | _ \<Rightarrow> [])"

definition file_get :: "disk_file \<Rightarrow> string \<Rightarrow> health_state option res" where
  "file_get f sid = (case dict_get (file_load f) sid of
      Some (JObj entry) \<Rightarrow> bind_res (from_dict entry) (\<lambda>h. Inr (Some h))
    | _ \<Rightarrow> Inr None)"

definition file_set :: "health_state \<Rightarrow> disk_file \<Rightarrow> disk_file" where
  "file_set h f = FileJson (JObj (dict_set (hs_source_id h) (JObj (to_dict h)) (file_load f)))"

fun load_entries :: "(string, json) dict \<Rightarrow> (string, health_state) dict res" where
  "load_entries [] = Inr []"
| "load_entries ((sid, v) # d) = (case v of
      JObj entry \<Rightarrow> bind_res (from_dict entry) (\<lambda>h.
        bind_res (load_entries d) (\<lambda>rest. Inr ((sid, h) # rest)))
    | _ \<Rightarrow> load_entries d)"

definition file_all :: "disk_file \<Rightarrow> (string, health_state) dict res" where
  "file_all f = load_entries (file_load f)"

section \<open>The gate and the update\<close>

record probe_result =
  pr_source_id :: string
  pr_status :: string
  pr_error_category :: "string option"
  pr_next_action :: "string option"
  pr_probe_next_retry_at :: "string option" \<comment> \<open>\<open>probe_result.next_retry_at\<close>, None without one\<close>

definition health_gate ::
  "('s \<Rightarrow> string \<Rightarrow> health_state option res) \<Rightarrow> 's \<Rightarrow> string \<Rightarrow> bool \<Rightarrow> instant
   \<Rightarrow> probe_result option res" where
  "health_gate hget s source_id force now =
    (if force then Inr None
     else case hget s source_id of Inl e \<Rightarrow> Inr None
       | Inr state \<Rightarrow> bind_res (should_skip state now) (\<lambda>(skip, reason).
           case state of None \<Rightarrow> Inr None
           | Some h \<Rightarrow>
             if \<not> skip then Inr None
             else
               let status = (if hs_state h = ''BLOCKED_TERMINAL'' then ''BLOCKED''
                             else if hs_state h = ''DEFERRED_SPECIAL_ROUND'' then ''DEFERRED''
                             else ''RATE_LIMITED'')
               in Inr (Some \<lparr>pr_source_id = source_id, pr_status = status,
                      pr_error_category = Some (or_str (hs_last_error_category h) (hs_state h)),
                      pr_next_action = Some (''health_gate_skip:'' @ reason),
                      pr_probe_next_retry_at = None\<rparr>)))"

definition update_health ::
  "('s \<Rightarrow> string \<Rightarrow> health_state option res) \<Rightarrow> (health_state \<Rightarrow> 's \<Rightarrow> 's) \<Rightarrow> 's \<Rightarrow> probe_result
   \<Rightarrow> instant \<Rightarrow> 's" where
  "update_health hget hset s result now =
    (case hget s (pr_source_id result) of Inl e \<Rightarrow> s
     | Inr prev \<Rightarrow>
         hset (apply_probe_outcome prev (pr_source_id result) (pr_status result)
           (pr_error_category result) (pr_probe_next_retry_at result) 3 now) s)"

text \<open>
  One probe of a source: a gated source is answered without a probe and its health is left
  alone, otherwise the probe's result is recorded (\<open>run_collection_probe\<close>; \<open>result\<close> is what
  the network probe returns).
\<close>

definition gated_probe ::
  "('s \<Rightarrow> string \<Rightarrow> health_state option res) \<Rightarrow> (health_state \<Rightarrow> 's \<Rightarrow> 's) \<Rightarrow> 's \<Rightarrow> string
   \<Rightarrow> bool \<Rightarrow> probe_result \<Rightarrow> instant \<Rightarrow> ('s \<times> probe_result) res" where
  "gated_probe hget hset s source_id force result now =
    bind_res (health_gate hget s source_id force now) (\<lambda>gated. case gated of
        Some r \<Rightarrow> Inr (s, r)
      | None \<Rightarrow> Inr (update_health hget hset s result now, result))"

fun gated_probes ::
  "('s \<Rightarrow> string \<Rightarrow> health_state option res) \<Rightarrow> (health_state \<Rightarrow> 's \<Rightarrow> 's) \<Rightarrow> 's \<Rightarrow> string
   \<Rightarrow> (probe_result \<times> instant) list \<Rightarrow> ('s \<times> probe_result list) res" where
  "gated_probes hget hset s sid [] = Inr (s, [])"
| "gated_probes hget hset s sid ((r, now) # rs) =
     bind_res (gated_probe hget hset s sid False r now) (\<lambda>(s', out).
       bind_res (gated_probes hget hset s' sid rs) (\<lambda>(s'', outs). Inr (s'', out # outs)))"

section \<open>Facts about the transitions\<close>

lemmas outcome_simps = apply_probe_outcome_def Let_def TERMINAL_BLOCKER_CATEGORIES_def
  TRANSIENT_FAILURE_STATUSES_def TRANSIENT_CATEGORIES_def

lemma retry_gated_simps [simp]:
  "retry_gated RATE_LIMITED_COOLDOWN" "retry_gated QUARANTINED_RETRYABLE"
  "\<not> retry_gated HEALTHY" "\<not> retry_gated DEGRADED" "\<not> retry_gated BLOCKED_TERMINAL"
  "\<not> retry_gated DEFERRED_SPECIAL_ROUND"
  by (simp_all add: retry_gated_def health_names)

lemma outcome_state_known:
  "hs_state (apply_probe_outcome prev sid st cat nr th now) \<in> set HEALTH_STATES"
  by (simp add: apply_probe_outcome_def Let_def HEALTH_STATES_def)

lemma outcome_success:
  assumes "status \<in> {''LIVE_SUCCESS'', ''LIVE_PARTIAL''}"
  shows "hs_state (apply_probe_outcome prev sid status cat nr th now) = HEALTHY"
    "hs_failure_count (apply_probe_outcome prev sid status cat nr th now) = 0"
  using assms by (simp_all add: apply_probe_outcome_def Let_def)

lemma outcome_source_id:
  "sid \<noteq> [] \<Longrightarrow> hs_source_id (apply_probe_outcome prev sid st cat nr th now) = sid"
  by (simp add: apply_probe_outcome_def Let_def)

definition terminal_outcome :: "string \<Rightarrow> string option \<Rightarrow> bool" where
  "terminal_outcome status cat \<longleftrightarrow>
     status \<notin> {''LIVE_SUCCESS'', ''LIVE_PARTIAL'', ''DEFERRED''} \<and>
     (status = ''BLOCKED'' \<or> or_str cat [] \<in> set TERMINAL_BLOCKER_CATEGORIES)"

definition transient_outcome :: "string \<Rightarrow> string option \<Rightarrow> bool" where
  "transient_outcome status cat \<longleftrightarrow>
     status \<notin> {''LIVE_SUCCESS'', ''LIVE_PARTIAL'', ''DEFERRED'', ''BLOCKED'', ''RATE_LIMITED''} \<and>
     or_str cat [] \<notin> set TERMINAL_BLOCKER_CATEGORIES \<and>
     (status \<in> set TRANSIENT_FAILURE_STATUSES \<or> or_str cat [] \<in> set TRANSIENT_CATEGORIES)"

lemma outcome_terminal:
  "terminal_outcome status cat \<Longrightarrow>
   hs_state (apply_probe_outcome prev sid status cat nr th now) = BLOCKED_TERMINAL"
  by (simp add: terminal_outcome_def apply_probe_outcome_def Let_def)

lemma outcome_transient:
  assumes "transient_outcome status cat"
  shows "hs_failure_count (apply_probe_outcome prev sid status cat nr th now)
      = (case prev of None \<Rightarrow> 0 | Some p \<Rightarrow> hs_failure_count p) + 1"
    "hs_state (apply_probe_outcome prev sid status cat nr th now)
      = (if th \<le> (case prev of None \<Rightarrow> 0 | Some p \<Rightarrow> hs_failure_count p) + 1
         then QUARANTINED_RETRYABLE else DEGRADED)"
  using assms by (simp_all add: transient_outcome_def apply_probe_outcome_def Let_def)

definition transient_run ::
  "string \<Rightarrow> int \<Rightarrow> health_state option \<Rightarrow> (string \<times> string option \<times> instant) list
   \<Rightarrow> health_state option" where
  "transient_run sid th = foldl (\<lambda>h (st, cat, now).
     Some (apply_probe_outcome h sid st cat None th now))"

lemma transient_run_count:
  assumes "list_all (\<lambda>(st, cat, now). transient_outcome st cat) os" "os \<noteq> []"
  shows "\<exists>h'. transient_run sid th h os = Some h' \<and>
    hs_failure_count h' = (case h of None \<Rightarrow> 0 | Some p \<Rightarrow> hs_failure_count p) + int (length os) \<and>
    hs_state h' = (if th \<le> (case h of None \<Rightarrow> 0 | Some p \<Rightarrow> hs_failure_count p) + int (length os)
      then QUARANTINED_RETRYABLE else DEGRADED)"
  using assms
proof (induction os arbitrary: h rule: list.induct)
  case Nil
  then show ?case by simp
next
  case (Cons o1 os)
  obtain st cat now where o1: "o1 = (st, cat, now)" by (cases o1)
  with Cons.prems have t: "transient_outcome st cat" by simp
  show ?case
  proof (cases "os = []")
    case True
    then show ?thesis by (simp add: transient_run_def o1 outcome_transient [OF t])
  next
    case False
    define h1 where "h1 = apply_probe_outcome h sid st cat None th now"
    have "transient_run sid th h (o1 # os) = transient_run sid th (Some h1) os"
      by (simp add: transient_run_def o1 h1_def)
    moreover have "hs_failure_count h1 = (case h of None \<Rightarrow> 0 | Some p \<Rightarrow> hs_failure_count p) + 1"
      by (simp add: h1_def outcome_transient [OF t])
    ultimately show ?thesis
      using Cons.IH [of "Some h1"] Cons.prems False by (auto simp: add.assoc add.commute)
  qed
qed

section \<open>Skipping and becoming due\<close>

lemma should_skip_deadline:
  assumes "retry_gated (hs_state h)" "hs_next_retry_at h = Some (iso_z (utc t))" "in_range t"
  shows "should_skip (Some h) now =
    (if t - t mod sec > now
     then Inr (True, lower (hs_state h) @ ''_until:'' @ iso_z (utc t)) else Inr (False, []))"
proof -
  have "hs_state h \<noteq> BLOCKED_TERMINAL" "hs_state h \<noteq> DEFERRED_SPECIAL_ROUND"
    using assms(1) by (auto simp: retry_gated_def health_names)
  moreover have "iso_z (utc t) \<noteq> []"
    using parse_iso_iso_z [OF assms(3)] by (auto simp: parse_iso_def)
  ultimately show ?thesis
    using assms parse_iso_iso_z [OF assms(3)] by (simp add: should_skip_def)
qed

text \<open>For a source under a retry deadline, being skipped and being due are complementary.\<close>

lemma due_iff_not_skipped:
  assumes "retry_gated (hs_state h)" "should_skip (Some h) now = Inr (b, r)"
  shows "list_due_for_retry (h # hs) now =
    bind_res (list_due_for_retry hs now) (\<lambda>due. Inr (if b then due else h # due))"
proof -
  have "hs_state h \<noteq> BLOCKED_TERMINAL" "hs_state h \<noteq> DEFERRED_SPECIAL_ROUND"
    using assms(1) by (auto simp: retry_gated_def health_names)
  with assms show ?thesis
    by (auto simp: should_skip_def dt_gt_def dt_le_def same_kind_def not_le
        split: option.splits if_splits)
qed

lemma due_all:
  assumes "\<forall>h \<in> set hs. \<exists>b r. should_skip (Some h) now = Inr (b, r)"
  shows "list_due_for_retry hs now =
    Inr (filter (\<lambda>h. retry_gated (hs_state h) \<and> (\<exists>r. should_skip (Some h) now = Inr (False, r))) hs)"
  using assms
proof (induction hs)
  case Nil
  then show ?case by simp
next
  case (Cons h hs)
  then obtain b r where sk: "should_skip (Some h) now = Inr (b, r)" by auto
  show ?case
  proof (cases "retry_gated (hs_state h)")
    case True
    with Cons sk show ?thesis by (simp only: due_iff_not_skipped [OF True sk]) simp
  next
    case False
    with Cons show ?thesis by simp
  qed
qed

section \<open>The store contract\<close>

locale health_store =
  fixes hget :: "'s \<Rightarrow> string \<Rightarrow> health_state option res"
    and hset :: "health_state \<Rightarrow> 's \<Rightarrow> 's"
    and hall :: "'s \<Rightarrow> (string, health_state) dict res"
    and inv :: "'s \<Rightarrow> bool"
  assumes hget_set: "inv s \<Longrightarrow>
      hget (hset h s) sid = (if sid = hs_source_id h then Inr (Some h) else hget s sid)"
    and inv_set: "inv s \<Longrightarrow> inv (hset h s)"
    and hall_get: "inv s \<Longrightarrow> \<exists>d. hall s = Inr d \<and> dict_ok d \<and> (\<forall>sid. hget s sid = Inr (dict_get d sid))"
begin

lemma hget_total: "inv s \<Longrightarrow> \<exists>h. hget s sid = Inr h"
  using hall_get by blast

lemma update_inv: "inv s \<Longrightarrow> inv (update_health hget hset s r now)"
  by (auto simp: update_health_def inv_set split: sum.splits)

lemma update_get:
  assumes "inv s" "pr_source_id r \<noteq> []"
  shows "\<exists>prev. hget s (pr_source_id r) = Inr prev \<and>
    hget (update_health hget hset s r now) sid =
      (if sid = pr_source_id r
       then Inr (Some (apply_probe_outcome prev (pr_source_id r) (pr_status r) (pr_error_category r)
         (pr_probe_next_retry_at r) 3 now))
       else hget s sid)"
proof -
  obtain prev where "hget s (pr_source_id r) = Inr prev"
    using hget_total [OF assms(1)] by blast
  with assms show ?thesis
    by (simp add: update_health_def hget_set outcome_source_id)
qed

lemma gate_after_success:
  assumes "inv s" "pr_source_id r \<noteq> []" "pr_status r \<in> {''LIVE_SUCCESS'', ''LIVE_PARTIAL''}"
  shows "health_gate hget (update_health hget hset s r now) (pr_source_id r) force now' = Inr None"
proof -
  obtain h where h: "hget (update_health hget hset s r now) (pr_source_id r) = Inr (Some h)"
    "hs_state h = HEALTHY"
    using update_get [OF assms(1,2), of now "pr_source_id r"] outcome_success [OF assms(3)] by force
  then have "should_skip (Some h) now' = Inr (False, [])"
    by (simp add: should_skip_def retry_gated_def health_names)
  with h show ?thesis by (simp add: health_gate_def)
qed

lemma gate_blocked:
  assumes "hget s sid = Inr (Some h)" "hs_state h = BLOCKED_TERMINAL"
  shows "\<exists>r. health_gate hget s sid False now = Inr (Some r) \<and> pr_status r = ''BLOCKED''"
  using assms by (simp add: health_gate_def should_skip_def BLOCKED_TERMINAL_def)

lemma gate_after_terminal:
  assumes "inv s" "pr_source_id r \<noteq> []" "terminal_outcome (pr_status r) (pr_error_category r)"
  shows "\<exists>g. health_gate hget (update_health hget hset s r now) (pr_source_id r) False now' = Inr (Some g)
    \<and> pr_status g = ''BLOCKED''"
proof -
  obtain h where "hget (update_health hget hset s r now) (pr_source_id r) = Inr (Some h)"
    "hs_state h = BLOCKED_TERMINAL"
    using update_get [OF assms(1,2), of now "pr_source_id r"] outcome_terminal [OF assms(3)] by force
  then show ?thesis by (rule gate_blocked)
qed

lemma blocked_probes_frozen:
  assumes "hget s sid = Inr (Some h)" "hs_state h = BLOCKED_TERMINAL"
  shows "\<exists>outs. gated_probes hget hset s sid rs = Inr (s, outs) \<and>
    length outs = length rs \<and> (\<forall>r \<in> set outs. pr_status r = ''BLOCKED'')"
proof (induction rs)
  case Nil
  show ?case by simp
next
  case (Cons x rs)
  obtain r now where x: "x = (r, now)" by (cases x)
  obtain g where "health_gate hget s sid False now = Inr (Some g)" "pr_status g = ''BLOCKED''"
    using gate_blocked [OF assms] by blast
  with Cons x show ?case by (auto simp: gated_probe_def)
qed

lemma gate_deadline:
  assumes "hget s sid = Inr (Some h)" "retry_gated (hs_state h)"
    and "hs_next_retry_at h = Some (iso_z (utc t))" "in_range t"
  shows "(health_gate hget s sid False now = Inr None \<longleftrightarrow> t - t mod sec \<le> now)
    \<and> (now < t - t mod sec \<longrightarrow>
       (\<exists>g. health_gate hget s sid False now = Inr (Some g) \<and> pr_status g = ''RATE_LIMITED''))"
proof -
  have "hs_state h \<noteq> ''BLOCKED_TERMINAL''" "hs_state h \<noteq> ''DEFERRED_SPECIAL_ROUND''"
    using assms(2) by (auto simp: retry_gated_def health_names)
  with assms(1) should_skip_deadline [OF assms(2-4), of now] show ?thesis
    by (auto simp: health_gate_def Let_def)
qed

text \<open>Three transient failures in a row, with no gate in between, quarantine the source.\<close>

lemma update_transient:
  assumes "inv s" "pr_source_id r \<noteq> []" "transient_outcome (pr_status r) (pr_error_category r)"
    and "hget s (pr_source_id r) = Inr prev"
    and "2 \<le> (case prev of None \<Rightarrow> 0 | Some p \<Rightarrow> hs_failure_count p)"
  shows "\<exists>h. hget (update_health hget hset s r now) (pr_source_id r) = Inr (Some h) \<and>
    hs_state h = QUARANTINED_RETRYABLE \<and>
    hs_next_retry_at h = Some (iso_z (utc (now + QUARANTINE_RECHECK_SECONDS * sec)))"
proof -
  define h where "h = apply_probe_outcome prev (pr_source_id r) (pr_status r) (pr_error_category r)
    (pr_probe_next_retry_at r) 3 now"
  have "hget (update_health hget hset s r now) (pr_source_id r) = Inr (Some h)"
    using update_get [OF assms(1,2), of now "pr_source_id r"] assms(4) by (auto simp: h_def)
  moreover have "hs_state h = QUARANTINED_RETRYABLE \<and>
      hs_next_retry_at h = Some (iso_z (utc (now + QUARANTINE_RECHECK_SECONDS * sec)))"
    using assms(3,5) by (simp add: h_def transient_outcome_def apply_probe_outcome_def Let_def)
  ultimately show ?thesis by blast
qed

text \<open>A probe that the gate lets through: its outcome is the new state of the source.\<close>

lemma open_probe:
  assumes "inv s" "pr_source_id r \<noteq> []" "hget s (pr_source_id r) = Inr prev"
    and "prev = None \<or> (\<exists>h. prev = Some h \<and> hs_state h \<in> {HEALTHY, DEGRADED})"
  shows "gated_probe hget hset s (pr_source_id r) False r now =
      Inr (update_health hget hset s r now, r)"
    and "hget (update_health hget hset s r now) (pr_source_id r) =
      Inr (Some (apply_probe_outcome prev (pr_source_id r) (pr_status r) (pr_error_category r)
        (pr_probe_next_retry_at r) 3 now))"
proof -
  have "should_skip prev now = Inr (False, [])"
    using assms(4) by (auto simp: should_skip_def retry_gated_def health_names)
  with assms(3) have "health_gate hget s (pr_source_id r) False now = Inr None"
    by (auto simp: health_gate_def split: option.splits)
  then show "gated_probe hget hset s (pr_source_id r) False r now =
      Inr (update_health hget hset s r now, r)"
    by (simp add: gated_probe_def)
  show "hget (update_health hget hset s r now) (pr_source_id r) =
      Inr (Some (apply_probe_outcome prev (pr_source_id r) (pr_status r) (pr_error_category r)
        (pr_probe_next_retry_at r) 3 now))"
    using update_get [OF assms(1,2), of now "pr_source_id r"] assms(3) by auto
qed

lemma transient_degrades:
  assumes "inv s" "pr_source_id r \<noteq> []" "transient_outcome (pr_status r) (pr_error_category r)"
    and "hget s (pr_source_id r) = Inr prev"
    and "prev = None \<and> n = 0 \<or> (\<exists>h. prev = Some h \<and> hs_state h \<in> {HEALTHY, DEGRADED} \<and> hs_failure_count h = n)"
    and "n < 2"
  shows "\<exists>s' h. gated_probe hget hset s (pr_source_id r) False r now = Inr (s', r) \<and> inv s' \<and>
    hget s' (pr_source_id r) = Inr (Some h) \<and> hs_state h = DEGRADED \<and> hs_failure_count h = n + 1"
proof -
  have "prev = None \<or> (\<exists>h. prev = Some h \<and> hs_state h \<in> {HEALTHY, DEGRADED})"
    using assms(5) by auto
  note probe = open_probe [OF assms(1,2,4) this]
  have "(case prev of None \<Rightarrow> 0 | Some p \<Rightarrow> hs_failure_count p) = n" using assms(5) by auto
  with probe [of now] outcome_transient [OF assms(3)] update_inv [OF assms(1)] assms(6)
  show ?thesis by auto
qed

lemma three_transient_probes:
  assumes "inv s" "sid \<noteq> []" "hget s sid = Inr prev"
    and "prev = None \<or> (\<exists>h. prev = Some h \<and> hs_state h \<in> {HEALTHY, DEGRADED} \<and> hs_failure_count h = 0)"
    and "\<forall>r \<in> {r1, r2, r3}. pr_source_id r = sid \<and> transient_outcome (pr_status r) (pr_error_category r)"
    and "in_range (t3 + QUARANTINE_RECHECK_SECONDS * sec)"
  shows "\<exists>s'. gated_probes hget hset s sid [(r1, t1), (r2, t2), (r3, t3)] = Inr (s', [r1, r2, r3]) \<and>
    (\<forall>t. health_gate hget s' sid False t = Inr None \<longleftrightarrow>
       t3 + QUARANTINE_RECHECK_SECONDS * sec - (t3 + QUARANTINE_RECHECK_SECONDS * sec) mod sec \<le> t)"
proof -
  have r: "pr_source_id r1 = sid" "pr_source_id r2 = sid" "pr_source_id r3 = sid"
    "transient_outcome (pr_status r1) (pr_error_category r1)"
    "transient_outcome (pr_status r2) (pr_error_category r2)"
    "transient_outcome (pr_status r3) (pr_error_category r3)"
    using assms(5) by auto
  obtain s1 h1 where s1: "gated_probe hget hset s sid False r1 t1 = Inr (s1, r1)" "inv s1"
    "hget s1 sid = Inr (Some h1)" "hs_state h1 = DEGRADED" "hs_failure_count h1 = 1"
    using transient_degrades [of s r1 prev 0 t1] assms(1-4) r by auto
  obtain s2 h2 where s2: "gated_probe hget hset s1 sid False r2 t2 = Inr (s2, r2)" "inv s2"
    "hget s2 sid = Inr (Some h2)" "hs_state h2 = DEGRADED" "hs_failure_count h2 = 2"
    using transient_degrades [of s1 r2 "Some h1" 1 t2] s1 assms(2) r by auto
  let ?s3 = "update_health hget hset s2 r3 t3"
  have p3: "gated_probe hget hset s2 sid False r3 t3 = Inr (?s3, r3)"
    using open_probe [of s2 r3 "Some h2" t3] s2 assms(2) r by auto
  obtain h where h: "hget ?s3 sid = Inr (Some h)" "hs_state h = QUARANTINED_RETRYABLE"
    "hs_next_retry_at h = Some (iso_z (utc (t3 + QUARANTINE_RECHECK_SECONDS * sec)))"
    using update_transient [of s2 r3 "Some h2" t3] s2 assms(2) r by auto
  have "retry_gated (hs_state h)" by (simp add: h(2))
  from gate_deadline [OF h(1) this h(3) assms(6)] s1(1) s2(1) p3 show ?thesis by auto
qed

end

text \<open>Both stores keep the contract.\<close>

interpretation mem_store: health_store mem_get mem_set mem_all dict_ok
  by unfold_locales (auto simp: mem_get_def mem_set_def mem_all_def)

definition file_inv :: "disk_file \<Rightarrow> bool" where
  "file_inv f \<longleftrightarrow> dict_ok (file_load f) \<and>
     (\<forall>sid e. (sid, JObj e) \<in> set (file_load f) \<longrightarrow> (\<exists>h. from_dict e = Inr h))"

lemma load_entries_get:
  assumes "dict_ok d" "\<forall>sid e. (sid, JObj e) \<in> set d \<longrightarrow> (\<exists>h. from_dict e = Inr h)"
  shows "\<exists>d'. load_entries d = Inr d' \<and> dict_ok d' \<and> fst ` set d' \<subseteq> fst ` set d \<and>
    (\<forall>sid. (case dict_get d sid of Some (JObj e) \<Rightarrow> bind_res (from_dict e) (\<lambda>h. Inr (Some h))
       | _ \<Rightarrow> Inr None) = Inr (dict_get d' sid))"
  using assms
proof (induction d)
  case Nil
  then show ?case by simp
next
  case (Cons p d)
  obtain k v where p: "p = (k, v)" by (cases p)
  from Cons.prems p have "dict_ok d" "k \<notin> fst ` set d"
    "\<forall>sid e. (sid, JObj e) \<in> set d \<longrightarrow> (\<exists>h. from_dict e = Inr h)"
    by (auto simp: dict_ok_def)
  with Cons.IH obtain d' where d': "load_entries d = Inr d'" "dict_ok d'" "fst ` set d' \<subseteq> fst ` set d"
    "\<And>sid. (case dict_get d sid of Some (JObj e) \<Rightarrow> bind_res (from_dict e) (\<lambda>h. Inr (Some h))
       | _ \<Rightarrow> Inr None) = Inr (dict_get d' sid)"
    by blast
  have k: "k \<notin> fst ` set d'" "dict_get d' k = None"
    using d'(3) \<open>k \<notin> fst ` set d\<close> by (auto simp: dict_get_def map_of_eq_None_iff)
  show ?case
  proof (cases "\<exists>e. v = JObj e")
    case True
    then obtain e where e: "v = JObj e" by blast
    with Cons.prems(2) p obtain h where h: "from_dict e = Inr h" by auto
    have "dict_ok ((k, h) # d')" using d'(2) k by (simp add: dict_ok_def)
    with d' e h p show ?thesis by auto
  next
    case False
    then have "load_entries (p # d) = Inr d'" using d'(1) p by (cases v) auto
    moreover have "(case v of JObj e \<Rightarrow> bind_res (from_dict e) (\<lambda>h. Inr (Some h)) | _ \<Rightarrow> Inr None)
        = Inr None"
      using False by (cases v) auto
    ultimately show ?thesis
      using d' k p by auto
  qed
qed

interpretation file_store: health_store file_get file_set file_all file_inv
proof unfold_locales
  fix s h sid
  assume "file_inv s"
  have l: "file_load (file_set h s) = dict_set (hs_source_id h) (JObj (to_dict h)) (file_load s)"
    by (simp add: file_set_def file_load_def)
  show "file_get (file_set h s) sid = (if sid = hs_source_id h then Inr (Some h) else file_get s sid)"
    by (auto simp: file_get_def l)
  show "file_inv (file_set h s)"
    using \<open>file_inv s\<close> set_dict_set_subset [of "hs_source_id h" "JObj (to_dict h)" "file_load s"]
    by (fastforce simp: file_inv_def l)
next
  fix s
  assume "file_inv s"
  then show "\<exists>d. file_all s = Inr d \<and> dict_ok d \<and> (\<forall>sid. file_get s sid = Inr (dict_get d sid))"
    using load_entries_get [of "file_load s"]
    by (auto simp: file_inv_def file_all_def file_get_def)
qed

section \<open>Properties\<close>

text \<open>C13: On the file store, three transient failures in a row of a source without earlier failures are
  all let through and recorded, and then close the gate: it stays closed until the instant six
  hours after the third failure (as written to the file, in whole seconds) and opens then.\<close>

theorem three_failures_quarantine:
  assumes "file_inv f" "sid \<noteq> []" "file_get f sid = Inr prev"
    and "prev = None \<or> (\<exists>h. prev = Some h \<and> hs_state h \<in> {HEALTHY, DEGRADED} \<and> hs_failure_count h = 0)"
    and "\<forall>r \<in> {r1, r2, r3}. pr_source_id r = sid \<and> transient_outcome (pr_status r) (pr_error_category r)"
    and "in_range (t3 + QUARANTINE_RECHECK_SECONDS * sec)"
  shows "\<exists>f'. gated_probes file_get file_set f sid [(r1, t1), (r2, t2), (r3, t3)] = Inr (f', [r1, r2, r3]) \<and>
    (\<forall>t. health_gate file_get f' sid False t = Inr None \<longleftrightarrow>
       t3 + QUARANTINE_RECHECK_SECONDS * sec - (t3 + QUARANTINE_RECHECK_SECONDS * sec) mod sec \<le> t)"
  using assms by (rule file_store.three_transient_probes)

definition timeout_probe :: probe_result where
  "timeout_probe = \<lparr>pr_source_id = ''gdelt'', pr_status = ''TIMEOUT'', pr_error_category = None,
     pr_next_action = None, pr_probe_next_retry_at = None\<rparr>"

theorem three_failures_quarantine_witness:
  "\<exists>f'. gated_probes file_get file_set FileMissing ''gdelt''
      [(timeout_probe, 5), (timeout_probe, 9000000), (timeout_probe, 20000001)]
      = Inr (f', [timeout_probe, timeout_probe, timeout_probe]) \<and>
    (\<forall>t. health_gate file_get f' ''gdelt'' False t = Inr None \<longleftrightarrow> 21620000000 \<le> t)"
proof -
  have "pr_source_id timeout_probe = ''gdelt''"
    "transient_outcome (pr_status timeout_probe) (pr_error_category timeout_probe)"
    by (simp_all add: timeout_probe_def transient_outcome_def TERMINAL_BLOCKER_CATEGORIES_def
        TRANSIENT_FAILURE_STATUSES_def)
  then show ?thesis
    using three_failures_quarantine [of FileMissing "''gdelt''" None timeout_probe timeout_probe
        timeout_probe 20000001 5 9000000]
    by (simp add: file_inv_def file_load_def file_get_def QUARANTINE_RECHECK_SECONDS_def sec_def
        del: gated_probes.simps)
qed

text \<open>C24: After one terminal outcome (a captcha, a paywall, a robots rule, a blocked status) the source is
  never probed again by unforced probes: whatever they would have returned and whenever they
  run, each is answered \<open>BLOCKED\<close> and the file stays as it is.\<close>

theorem terminal_outcome_freezes:
  assumes "file_inv f" "pr_source_id r \<noteq> []" "terminal_outcome (pr_status r) (pr_error_category r)"
  shows "\<exists>outs. gated_probes file_get file_set (update_health file_get file_set f r now) (pr_source_id r) rs
      = Inr (update_health file_get file_set f r now, outs) \<and>
    map pr_status outs = replicate (length rs) ''BLOCKED''"
proof -
  obtain h where "file_get (update_health file_get file_set f r now) (pr_source_id r) = Inr (Some h)"
    "hs_state h = BLOCKED_TERMINAL"
    using file_store.update_get [OF assms(1,2), of now "pr_source_id r"] outcome_terminal [OF assms(3)]
    by force
  from file_store.blocked_probes_frozen [OF this] show ?thesis
    by (metis map_replicate_const map_idI length_map map_cong)
qed

definition captcha_probe :: probe_result where
  "captcha_probe = \<lparr>pr_source_id = ''naver'', pr_status = ''FAILED'',
     pr_error_category = Some ''CAPTCHA_DETECTED'', pr_next_action = None, pr_probe_next_retry_at = None\<rparr>"

theorem terminal_outcome_freezes_witness:
  "\<exists>outs. gated_probes file_get file_set (update_health file_get file_set FileMissing captcha_probe 0) ''naver''
      [(captcha_probe, 1), (timeout_probe, 2)]
      = Inr (update_health file_get file_set FileMissing captcha_probe 0, outs) \<and>
    map pr_status outs = [''BLOCKED'', ''BLOCKED'']"
  using terminal_outcome_freezes [of FileMissing captcha_probe 0 "[(captcha_probe, 1), (timeout_probe, 2)]"]
  by (simp add: file_inv_def file_load_def captcha_probe_def terminal_outcome_def
      TERMINAL_BLOCKER_CATEGORIES_def numeral_2_eq_2)

text \<open>When no stored deadline is naive, \<open>list_due_for_retry\<close> returns exactly the sources under a retry
  state that \<open>should_skip\<close> lets through, in their order: the retry list and the gate never
  disagree on a deadline.\<close>

lemma due_list_is_gate_complement:
  assumes "\<forall>h \<in> set hs. \<exists>b r. should_skip (Some h) now = Inr (b, r)"
  shows "list_due_for_retry hs now =
    Inr (filter (\<lambda>h. retry_gated (hs_state h) \<and> (\<exists>r. should_skip (Some h) now = Inr (False, r))) hs)"
  using assms by (rule due_all)

definition cooling_source :: health_state where
  "cooling_source = \<lparr>hs_source_id = ''a'', hs_state = RATE_LIMITED_COOLDOWN, hs_failure_count = 0,
     hs_last_status = None, hs_last_error_category = None, hs_last_checked_at = None,
     hs_next_retry_at = Some ''1970-01-01T00:00:10Z'', hs_reason = []\<rparr>"

theorem due_list_is_gate_complement_witness:
  "list_due_for_retry [cooling_source, cooling_source\<lparr>hs_next_retry_at := None\<rparr>] 9000000
   = Inr [cooling_source\<lparr>hs_next_retry_at := None\<rparr>]"
proof -
  have a: "should_skip (Some cooling_source) 9000000
      = Inr (True, ''rate_limited_cooldown_until:1970-01-01T00:00:10Z'')"
    by code_simp
  have gated: "retry_gated (hs_state cooling_source)" by (simp add: cooling_source_def)
  have b: "should_skip (Some (cooling_source\<lparr>hs_next_retry_at := None\<rparr>)) 9000000 = Inr (False, [])"
    by code_simp
  show ?thesis
    using due_list_is_gate_complement [of "[cooling_source, cooling_source\<lparr>hs_next_retry_at := None\<rparr>]" 9000000]
    by (simp add: a b gated ex_bool_eq del: list_due_for_retry.simps)
qed

end
