(* ===== verification/Profiles.thy ===== *)
theory Profiles
  imports Py_Datetime
begin

text \<open>
  The source profiles (\<open>ingestion/orchestration/source_profile.py\<close>), the cycle planner
  (\<open>cycle_planner.py\<close>), the strategy memory (\<open>source_strategy_memory.py\<close>), the strategy
  router (\<open>strategy_router.py\<close>) and the source roles (\<open>source_role.py\<close>).

  A YAML file is what its parser returns, a \<^typ>\<open>json\<close> value; writing and reading one back
  is the identity on such values.
\<close>

section \<open>Profiles\<close>

definition COMMUNITY_DEFAULT_CONFIRMATION :: string where
  "COMMUNITY_DEFAULT_CONFIRMATION = ''unconfirmed_until_corroborated''"

definition PROFILE_STATUS_VALUES :: "string list" where
  "PROFILE_STATUS_VALUES =
     [''active'', ''caution'', ''needs_api_key'', ''needs_api'', ''blocked_policy'', ''disabled'',
      ''verify_required'']"

definition LIVE_ELIGIBLE_VALUES :: "string list" where
  "LIVE_ELIGIBLE_VALUES = [''true'', ''false'', ''conservative'']"

definition ALLOWED_FIELDS :: "string list" where
  "ALLOWED_FIELDS =
     [''enabled'', ''purpose'', ''freshness_bucket'', ''min_interval_seconds'', ''risk_level'',
      ''preferred_strategy'', ''requires_api_key'', ''is_community'', ''confirmation_policy'', ''notes'',
      ''profile_status'', ''live_eligible'', ''skip_reason'', ''source_group'', ''readiness_status'']"

record source_profile =
  sp_source_id :: string
  sp_enabled :: bool
  sp_purpose :: string
  sp_freshness_bucket :: string
  sp_min_interval_seconds :: int
  sp_risk_level :: string
  sp_preferred_strategy :: "string option"
  sp_requires_api_key :: bool
  sp_is_community :: bool
  sp_confirmation_policy :: string
  sp_notes :: "string option"
  sp_profile_status :: string
  sp_live_eligible :: string
  sp_skip_reason :: "string option"
  sp_source_group :: "string option"
  sp_readiness_status :: "string option"

definition is_live_eligible :: "source_profile \<Rightarrow> bool" where
  "is_live_eligible p \<longleftrightarrow> sp_enabled p \<and> sp_live_eligible p = ''true''"

definition new_profile :: "string \<Rightarrow> (string, json) dict \<Rightarrow> source_profile res" where
  "new_profile source_id d =
     bind_res (as_bool_or (dict_get d ''enabled'') True) (\<lambda>enabled.
     bind_res (as_str_or (dict_get d ''purpose'') ''news'') (\<lambda>purpose.
     bind_res (as_str_or (dict_get d ''freshness_bucket'') ''medium'') (\<lambda>bucket.
     bind_res (as_int_or (dict_get d ''min_interval_seconds'') 1800) (\<lambda>min_interval.
     bind_res (as_str_or (dict_get d ''risk_level'') ''low'') (\<lambda>risk.
     bind_res (as_opt_str (dict_get d ''preferred_strategy'')) (\<lambda>strategy.
     bind_res (as_bool_or (dict_get d ''requires_api_key'') False) (\<lambda>needs_key.
     bind_res (as_bool_or (dict_get d ''is_community'') False) (\<lambda>community.
     bind_res (as_str_or (dict_get d ''confirmation_policy'') ''standard'') (\<lambda>confirmation.
     bind_res (as_opt_str (dict_get d ''notes'')) (\<lambda>notes.
     bind_res (as_str_or (dict_get d ''profile_status'') ''active'') (\<lambda>status.
     bind_res (as_str_or (dict_get d ''live_eligible'') ''false'') (\<lambda>live.
     bind_res (as_opt_str (dict_get d ''skip_reason'')) (\<lambda>skip.
     bind_res (as_opt_str (dict_get d ''source_group'')) (\<lambda>grp.
     bind_res (as_opt_str (dict_get d ''readiness_status'')) (\<lambda>readiness.
       Inr \<lparr>sp_source_id = source_id, sp_enabled = enabled, sp_purpose = purpose,
            sp_freshness_bucket = bucket, sp_min_interval_seconds = min_interval,
            sp_risk_level = risk, sp_preferred_strategy = strategy,
            sp_requires_api_key = needs_key, sp_is_community = community,
            sp_confirmation_policy = confirmation, sp_notes = notes, sp_profile_status = status,
            sp_live_eligible = live, sp_skip_reason = skip, sp_source_group = grp,
            sp_readiness_status = readiness\<rparr>)))))))))))))))"

definition profile_from_dict :: "string \<Rightarrow> (string, json) dict \<Rightarrow> source_profile res" where
  "profile_from_dict source_id d =
     (let unknown = filter (\<lambda>k. k \<notin> set ALLOWED_FIELDS) (map fst d) in
      if unknown \<noteq> [] then
        Inl (ValueError (''source profile '' @ py_repr source_id @ '' has unknown fields: ''
          @ py_repr_list (sort unknown)))
      else bind_res (new_profile source_id d) (\<lambda>profile.
        if sp_profile_status profile \<notin> set PROFILE_STATUS_VALUES then
          Inl (ValueError (''source profile '' @ py_repr source_id @ '' has invalid profile_status: ''
            @ py_repr (sp_profile_status profile)))
        else if sp_live_eligible profile \<notin> set LIVE_ELIGIBLE_VALUES then
          Inl (ValueError (''source profile '' @ py_repr source_id @ '' has invalid live_eligible: ''
            @ py_repr (sp_live_eligible profile)))
        else Inr profile))"

text \<open>\<open>load_source_profiles\<close>; \<^term>\<open>None\<close> is a missing file.\<close>

definition profile_entry :: "string \<times> json \<Rightarrow> source_profile res" where
  "profile_entry = (\<lambda>(source_id, v). case v of
      JNull \<Rightarrow> profile_from_dict source_id []
    | JObj d \<Rightarrow> profile_from_dict source_id d
    | _ \<Rightarrow> Inl (ValueError (''source profile '' @ py_repr source_id @ '' must be a mapping'')))"

definition load_source_profiles :: "json option \<Rightarrow> source_profile list res" where
  "load_source_profiles f = (case f of None \<Rightarrow> Inr []
    | Some raw \<Rightarrow>
        if \<not> json_truthy raw then Inr []
        else (case raw of
          JObj doc \<Rightarrow> (case get_or doc ''profiles'' (JObj []) of
              JObj d \<Rightarrow> map_res profile_entry d
            | _ \<Rightarrow> Inl (ValueError ''source_profiles.yaml: 'profiles' must be a mapping''))
        | _ \<Rightarrow> Inl AttributeError))"

section \<open>The cycle planner\<close>

record source_schedule =
  ss_source_id :: string
  ss_min_interval_seconds :: int
  ss_last_run_at :: "datetime option"
  ss_freshness_bucket :: string
  ss_enabled :: bool

definition is_due :: "datetime \<Rightarrow> datetime option \<Rightarrow> int \<Rightarrow> bool" where
  "is_due now last_run_at min_interval_seconds = (case last_run_at of None \<Rightarrow> True
    | Some l \<Rightarrow> min_interval_seconds * sec \<le> dt_instant (assume_utc now) - dt_instant (assume_utc l))"

definition select_due_sources :: "source_schedule list \<Rightarrow> datetime \<Rightarrow> string list" where
  "select_due_sources schedules now =
     map ss_source_id (filter (\<lambda>s. ss_enabled s \<and>
       is_due now (ss_last_run_at s) (ss_min_interval_seconds s)) schedules)"

definition profiles_to_schedules ::
  "source_profile list \<Rightarrow> (string, datetime option) dict \<Rightarrow> source_schedule list" where
  "profiles_to_schedules profiles last_run =
     map (\<lambda>p. \<lparr>ss_source_id = sp_source_id p, ss_min_interval_seconds = sp_min_interval_seconds p,
                ss_last_run_at = get_or last_run (sp_source_id p) None,
                ss_freshness_bucket = sp_freshness_bucket p, ss_enabled = sp_enabled p\<rparr>) profiles"

section \<open>The strategy memory\<close>

record strategy_memory =
  sm_source_id :: string
  sm_previous_status :: string
  sm_final_status :: string
  sm_root_cause_before :: "string list"
  sm_root_cause_after :: "string list"
  sm_successful_strategy :: "string option"
  sm_failed_strategies :: "string list"
  sm_preferred_next_strategy :: "string option"
  sm_adapter_name :: "string option"
  sm_body_fetch_strategy :: "string option"
  sm_browser_strategy :: "string option"
  sm_parser_notes :: "string option"
  sm_cooldown_policy :: "string option"
  sm_safety_policy :: string
  sm_evidence :: "string option"
  sm_llm_agent_hints :: "string list"

definition to_plain :: "strategy_memory \<Rightarrow> (string, json) dict" where
  "to_plain m =
     [(''source_id'', JStr (sm_source_id m)), (''previous_status'', JStr (sm_previous_status m)),
      (''final_status'', JStr (sm_final_status m)),
      (''root_cause_before'', strs_json (sm_root_cause_before m)),
      (''root_cause_after'', strs_json (sm_root_cause_after m)),
      (''successful_strategy'', json_opt_str (sm_successful_strategy m)),
      (''failed_strategies'', strs_json (sm_failed_strategies m)),
      (''preferred_next_strategy'', json_opt_str (sm_preferred_next_strategy m)),
      (''adapter_name'', json_opt_str (sm_adapter_name m)),
      (''body_fetch_strategy'', json_opt_str (sm_body_fetch_strategy m)),
      (''browser_strategy'', json_opt_str (sm_browser_strategy m)),
      (''parser_notes'', json_opt_str (sm_parser_notes m)),
      (''cooldown_policy'', json_opt_str (sm_cooldown_policy m)),
      (''safety_policy'', JStr (sm_safety_policy m)),
      (''evidence'', json_opt_str (sm_evidence m))]
     @ (if sm_llm_agent_hints m = [] then []
        else [(''llm_agent_hints'', strs_json (sm_llm_agent_hints m))])"

text \<open>\<open>tup\<close>: a list of strings, or one string for a list with it.\<close>

definition plain_tup :: "(string, json) dict \<Rightarrow> string \<Rightarrow> string list res" where
  "plain_tup d k = (case dict_get d k of None \<Rightarrow> Inr []
    | Some v \<Rightarrow> if \<not> json_truthy v then Inr []
        else (case v of JList vs \<Rightarrow> json_strs vs | _ \<Rightarrow> json_strs [v]))"

definition from_plain :: "(string, json) dict \<Rightarrow> strategy_memory res" where
  "from_plain d =
     bind_res (as_str_req (dict_get d ''source_id'') ''source_id'') (\<lambda>sid.
     bind_res (as_str_or (dict_get d ''previous_status'') []) (\<lambda>prev.
     bind_res (as_str_or (dict_get d ''final_status'') []) (\<lambda>fin.
     bind_res (plain_tup d ''root_cause_before'') (\<lambda>before.
     bind_res (plain_tup d ''root_cause_after'') (\<lambda>after.
     bind_res (as_opt_str (dict_get d ''successful_strategy'')) (\<lambda>succ.
     bind_res (plain_tup d ''failed_strategies'') (\<lambda>failed.
     bind_res (as_opt_str (dict_get d ''preferred_next_strategy'')) (\<lambda>pref.
     bind_res (as_opt_str (dict_get d ''adapter_name'')) (\<lambda>adapter.
     bind_res (as_opt_str (dict_get d ''body_fetch_strategy'')) (\<lambda>body.
     bind_res (as_opt_str (dict_get d ''browser_strategy'')) (\<lambda>browser.
     bind_res (as_opt_str (dict_get d ''parser_notes'')) (\<lambda>parser.
     bind_res (as_opt_str (dict_get d ''cooldown_policy'')) (\<lambda>cooldown.
     bind_res (as_str_or (dict_get d ''safety_policy'') ''no_bypass'') (\<lambda>safety.
     bind_res (as_opt_str (dict_get d ''evidence'')) (\<lambda>evidence.
     bind_res (plain_tup d ''llm_agent_hints'') (\<lambda>hints.
       Inr \<lparr>sm_source_id = sid, sm_previous_status = prev, sm_final_status = fin,
            sm_root_cause_before = before, sm_root_cause_after = after,
            sm_successful_strategy = succ, sm_failed_strategies = failed,
            sm_preferred_next_strategy = pref, sm_adapter_name = adapter,
            sm_body_fetch_strategy = body, sm_browser_strategy = browser, sm_parser_notes = parser,
            sm_cooldown_policy = cooldown, sm_safety_policy = safety, sm_evidence = evidence,
            sm_llm_agent_hints = hints\<rparr>))))))))))))))))"

definition save_strategy_memory :: "strategy_memory list \<Rightarrow> string option \<Rightarrow> disk_file" where
  "save_strategy_memory entries run_id =
     FileJson (JObj [(''schema_version'', JInt 1), (''run_id'', json_opt_str run_id),
       (''entries'', JList (map (\<lambda>m. JObj (to_plain m)) (sort_key sm_source_id entries)))])"

type_synonym strategy_memories = "(string, strategy_memory) dict"

fun load_memory_entries :: "json list \<Rightarrow> strategy_memories \<Rightarrow> strategy_memories res" where
  "load_memory_entries [] out = Inr out"
| "load_memory_entries (JObj d # vs) out =
     (if json_truthy (get_or d ''source_id'' JNull)
      then bind_res (from_plain d) (\<lambda>m. load_memory_entries vs (dict_set (sm_source_id m) m out))
      else load_memory_entries vs out)"
| "load_memory_entries (v # vs) out = load_memory_entries vs out"

definition load_strategy_memory :: "disk_file \<Rightarrow> strategy_memories res" where
  "load_strategy_memory f = (case f of
      FileJson doc \<Rightarrow>
        if \<not> json_truthy doc then Inr []
        else (case doc of
          JObj d \<Rightarrow> (let es = get_or d ''entries'' (JList []) in
            if \<not> json_truthy es then Inr []
            else (case es of JList vs \<Rightarrow> load_memory_entries vs []
              | JObj _ \<Rightarrow> Inr [] | JStr _ \<Rightarrow> Inr [] | _ \<Rightarrow> Inl TypeError))
        | _ \<Rightarrow> Inl AttributeError)
    | _ \<Rightarrow> Inr [])"

definition preferred_strategy_for :: "string \<Rightarrow> strategy_memories \<Rightarrow> string option" where
  "preferred_strategy_for source_id memory = (case dict_get memory source_id of None \<Rightarrow> None
    | Some m \<Rightarrow> or_opt (sm_successful_strategy m) (sm_preferred_next_strategy m))"

text \<open>\<open>DATA_ALIVE_STATUSES\<close> of \<open>full_source_revival.py\<close>.\<close>

definition DATA_ALIVE_STATUSES :: "string list" where
  "DATA_ALIVE_STATUSES =
     [''ARTICLE_BODY_ALIVE'', ''ARTICLE_PARTIAL_ALIVE'', ''OFFICIAL_RECORD_ALIVE'',
      ''STRUCTURED_SIGNAL_ALIVE'', ''COMMUNITY_SIGNAL_ALIVE'', ''SEARCH_RESULT_ALIVE'']"

definition is_known_dead_end :: "string \<Rightarrow> strategy_memories \<Rightarrow> bool" where
  "is_known_dead_end source_id memory = (case dict_get memory source_id of None \<Rightarrow> False
    | Some m \<Rightarrow> sm_final_status m \<notin> set DATA_ALIVE_STATUSES \<and> sm_successful_strategy m = None)"

section \<open>The strategy router\<close>

record strategy_decision =
  sd_source_id :: string
  sd_purpose :: string
  sd_preferred_strategy :: "string option"
  sd_confirmation_policy :: string
  sd_risk_level :: string
  sd_should_enqueue_success :: bool
  sd_live_eligible :: string
  sd_profile_status :: string
  sd_skip_reason :: "string option"

definition decide_strategy :: "source_profile \<Rightarrow> strategy_decision" where
  "decide_strategy p =
     (let policy = sp_confirmation_policy p;
          policy' = (if sp_is_community p \<and> policy = ''standard'' then COMMUNITY_DEFAULT_CONFIRMATION
                     else policy)
      in \<lparr>sd_source_id = sp_source_id p, sd_purpose = sp_purpose p,
          sd_preferred_strategy = sp_preferred_strategy p, sd_confirmation_policy = policy',
          sd_risk_level = sp_risk_level p, sd_should_enqueue_success = sp_enabled p,
          sd_live_eligible = sp_live_eligible p, sd_profile_status = sp_profile_status p,
          sd_skip_reason = sp_skip_reason p\<rparr>)"

definition decide_strategy_with_memory :: "source_profile \<Rightarrow> strategy_memories \<Rightarrow> strategy_decision" where
  "decide_strategy_with_memory p memory =
     (let base = decide_strategy p in
      if memory = [] then base
      else let learned = preferred_strategy_for (sp_source_id p) memory in
        if truthy learned \<and> learned \<noteq> sd_preferred_strategy base
        then base\<lparr>sd_preferred_strategy := learned\<rparr> else base)"

section \<open>Source roles\<close>

definition ARTICLE_BODY :: string where "ARTICLE_BODY = ''ARTICLE_BODY_SOURCE''"
definition EXPANSION_SEARCH :: string where "EXPANSION_SEARCH = ''EXPANSION_SEARCH_SOURCE''"
definition OFFICIAL_RECORD :: string where "OFFICIAL_RECORD = ''OFFICIAL_RECORD_SOURCE''"
definition STRUCTURED_SIGNAL :: string where "STRUCTURED_SIGNAL = ''STRUCTURED_SIGNAL_SOURCE''"
definition COMMUNITY_EARLY_SIGNAL :: string where
  "COMMUNITY_EARLY_SIGNAL = ''COMMUNITY_EARLY_SIGNAL_SOURCE''"
definition ENRICHMENT_ONLY :: string where "ENRICHMENT_ONLY = ''ENRICHMENT_ONLY_SOURCE''"
definition PERIODIC_EVENT_QUEUE :: string where
  "PERIODIC_EVENT_QUEUE = ''PERIODIC_EVENT_QUEUE_SOURCE''"

record source_role_view =
  rv_source_id :: string
  rv_primary_role :: string
  rv_roles :: "string list"
  rv_routing_mode :: string
  rv_publication_policy :: string
  rv_body_policy :: string
  rv_source_group :: string
  rv_confirmation_policy :: string

definition derive_source_role :: "source_profile \<Rightarrow> source_role_view" where
  "derive_source_role p =
     (let grp = lower (or_str (sp_source_group p) []);
          is_comm = (sp_is_community p \<or> grp = ''community'');
          mk = (\<lambda>primary roles routing pub body.
            \<lparr>rv_source_id = sp_source_id p, rv_primary_role = primary, rv_roles = roles,
             rv_routing_mode = routing, rv_publication_policy = pub, rv_body_policy = body,
             rv_source_group = grp, rv_confirmation_policy = sp_confirmation_policy p\<rparr>)
      in
      if is_comm then
        mk COMMUNITY_EARLY_SIGNAL [COMMUNITY_EARLY_SIGNAL] ''hold_corroboration_required''
          ''hold_until_corroborated_never_direct_publish'' ''preview_only_no_body''
      else if grp = ''search'' then
        mk EXPANSION_SEARCH [EXPANSION_SEARCH] ''expansion_candidate_not_evidence''
          ''never_direct_publish_expansion_only'' ''snippet_only''
      else if grp = ''official'' then
        mk OFFICIAL_RECORD [OFFICIAL_RECORD, PERIODIC_EVENT_QUEUE] ''backend_sink_evidence_required''
          ''published_if_evidence_complete_else_hold'' ''schema_record_not_article_body''
      else if grp = ''market'' then
        mk STRUCTURED_SIGNAL [STRUCTURED_SIGNAL] ''structured_signal_or_expansion_seed''
          ''signal_only_not_article_card'' ''numeric_payload_no_body''
      else if grp = ''news'' then
        mk ARTICLE_BODY [ARTICLE_BODY, PERIODIC_EVENT_QUEUE] ''backend_sink_published_if_body_else_hold''
          ''published_if_body_and_evidence_else_hold'' ''body_or_snippet_hold''
      else
        mk ENRICHMENT_ONLY [ENRICHMENT_ONLY] ''enrichment_no_bulk_event_queue''
          ''enrichment_no_direct_publish'' ''metadata_only'')"

definition roles_by_source :: "source_profile list \<Rightarrow> (string, source_role_view) dict" where
  "roles_by_source profiles =
     dict_of (map (\<lambda>v. (rv_source_id v, v)) (map derive_source_role profiles))"

section \<open>Saving and loading the memory\<close>

lemma plain_tup_strs [simp]:
  "dict_get d k = Some (strs_json ss) \<Longrightarrow> plain_tup d k = Inr ss"
  by (auto simp: plain_tup_def strs_json_def json_truthy_def)

lemma plain_tup_missing [simp]: "dict_get d k = None \<Longrightarrow> plain_tup d k = Inr []"
  by (simp add: plain_tup_def)

lemma from_plain_to_plain [simp]: "from_plain (to_plain m) = Inr m"
  by (simp add: from_plain_def to_plain_def)

lemma to_plain_source_id [simp]: "get_or (to_plain m) ''source_id'' v = JStr (sm_source_id m)"
  by (simp add: to_plain_def get_or_def)

lemma load_memory_entries_plain:
  "load_memory_entries (map (\<lambda>m. JObj (to_plain m)) es) out =
     Inr (foldl (\<lambda>d (k, v). dict_set k v d) out
       (map (\<lambda>m. (sm_source_id m, m)) (filter (\<lambda>m. sm_source_id m \<noteq> []) es)))"
  by (induction es arbitrary: out) (auto simp: json_truthy_def)

lemma last_with_nonempty:
  "k \<noteq> [] \<Longrightarrow> last_with f k (filter (\<lambda>m. f m \<noteq> []) xs) = last_with f k xs"
  by (induction xs rule: rev_induct) auto

lemma load_save_memory:
  "\<exists>mem. load_strategy_memory (save_strategy_memory es run_id) = Inr mem \<and> dict_ok mem \<and>
     (\<forall>sid. dict_get mem sid = (if sid = [] then None else last_with sm_source_id sid es))"
proof -
  define mem where "mem = dict_of (map (\<lambda>m. (sm_source_id m, m))
    (filter (\<lambda>m. sm_source_id m \<noteq> []) (sort_key sm_source_id es)))"
  have "load_strategy_memory (save_strategy_memory es run_id) = Inr mem"
  proof (cases "es = []")
    case True
    then show ?thesis
      by (simp add: load_strategy_memory_def save_strategy_memory_def json_truthy_def get_or_def mem_def
          dict_of_def)
  next
    case False
    then have "map (\<lambda>m. JObj (to_plain m)) (sort_key sm_source_id es) \<noteq> []"
      by (metis map_is_Nil_conv set_empty set_sort)
    then show ?thesis
      by (simp add: load_strategy_memory_def save_strategy_memory_def json_truthy_def get_or_def
          load_memory_entries_plain mem_def dict_of_def)
  qed
  moreover have "dict_get mem sid = (if sid = [] then None else last_with sm_source_id sid es)" for sid
  proof -
    have "dict_get mem sid = last_with sm_source_id sid
        (filter (\<lambda>m. sm_source_id m \<noteq> []) (sort_key sm_source_id es))"
      by (simp add: mem_def dict_of_get last_with_def)
    moreover have "last_with sm_source_id [] (filter (\<lambda>m. sm_source_id m \<noteq> []) xs) = None" for xs
      by (induction xs rule: rev_induct) auto
    ultimately show ?thesis by (auto simp: last_with_nonempty)
  qed
  ultimately show ?thesis by (intro exI [of _ mem]) (simp add: mem_def)
qed

section \<open>Facts about the planner, the router and the roles\<close>

lemma profile_from_dict_valid:
  assumes "profile_from_dict sid d = Inr p"
  shows "sp_source_id p = sid" "sp_profile_status p \<in> set PROFILE_STATUS_VALUES"
    "sp_live_eligible p \<in> set LIVE_ELIGIBLE_VALUES" "set (map fst d) \<subseteq> set ALLOWED_FIELDS"
proof -
  have "filter (\<lambda>k. k \<notin> set ALLOWED_FIELDS) (map fst d) = []"
    using assms by (auto simp: profile_from_dict_def Let_def split: if_splits)
  then show "set (map fst d) \<subseteq> set ALLOWED_FIELDS" by (auto simp: filter_empty_conv)
  obtain p' where p': "new_profile sid d = Inr p'" "sp_profile_status p' \<in> set PROFILE_STATUS_VALUES"
    "sp_live_eligible p' \<in> set LIVE_ELIGIBLE_VALUES" "p' = p"
    using assms by (auto simp: profile_from_dict_def Let_def bind_res_Inr_iff split: if_splits)
  then show "sp_profile_status p \<in> set PROFILE_STATUS_VALUES" "sp_live_eligible p \<in> set LIVE_ELIGIBLE_VALUES"
    by simp_all
  from p'(1,4) show "sp_source_id p = sid" by (auto simp: new_profile_def bind_res_Inr_iff)
qed

lemma is_due_utc:
  "is_due (utc now) (Some (utc l)) k \<longleftrightarrow> l + k * sec \<le> now"
  by (auto simp: is_due_def)

lemma router_community:
  "sp_is_community p \<Longrightarrow> sp_confirmation_policy p = ''standard'' \<Longrightarrow>
   sd_confirmation_policy (decide_strategy_with_memory p memory) = COMMUNITY_DEFAULT_CONFIRMATION"
  by (simp add: decide_strategy_with_memory_def decide_strategy_def Let_def)

lemma router_keeps:
  "sd_should_enqueue_success (decide_strategy_with_memory p memory) = sp_enabled p"
  "sd_live_eligible (decide_strategy_with_memory p memory) = sp_live_eligible p"
  by (simp_all add: decide_strategy_with_memory_def decide_strategy_def Let_def)

section \<open>Properties\<close>

text \<open>Loading a saved strategy memory gives, for every source with an id, the last entry that was saved
  for it, field by field, and nothing else.\<close>

lemma strategy_memory_roundtrip:
  "\<exists>mem. load_strategy_memory (save_strategy_memory es run_id) = Inr mem \<and> dict_ok mem \<and>
     (\<forall>sid. dict_get mem sid = (if sid = [] then None else last_with sm_source_id sid es))"
  by (rule load_save_memory)

end
