(* ===== verification/Production_State.thy ===== *)
theory Production_State
  imports Source_Health Profiles
begin

text \<open>
  \<open>ingestion/orchestration/quarantine.py\<close> and \<open>production_state.py\<close>: when a failing source is
  quarantined, the production state of a source, derived from its profile, its strategy memory
  and its health, and the decision whether it may run.
\<close>

section \<open>Quarantine\<close>

definition POLICY_TERMINAL_CATEGORIES :: "string list" where
  "POLICY_TERMINAL_CATEGORIES =
     [''CAPTCHA_DETECTED'', ''LOGIN_WALL_DETECTED'', ''PAYWALL_DETECTED'', ''ROBOTS_BLOCKED'',
      ''LOGIN_WALL'', ''LICENSE_REQUIRED'']"

definition RETRYABLE_FAILURE :: "string list" where
  "RETRYABLE_FAILURE =
     [''NETWORK_ERROR'', ''TIMEOUT'', ''EXTERNAL_API_ERROR'', ''HTTP_5XX'', ''NETWORK_TIMEOUT'',
      ''NETWORK_CONNECTION_RESET'', ''FETCH_ERROR'']"

definition BODY_FETCH_FAILURE :: "string list" where
  "BODY_FETCH_FAILURE = [''BODY_FETCH_FAILED'', ''NO_BODY'', ''EXCERPT_ONLY'']"

record quarantine_decision =
  qd_source_id :: string
  qd_quarantined :: bool
  qd_quarantine_until :: "string option"
  qd_reason :: "string option"
  qd_recovery_strategy :: "string option"

definition evaluate_quarantine ::
  "string \<Rightarrow> string option \<Rightarrow> string option \<Rightarrow> int \<Rightarrow> int \<Rightarrow> int \<Rightarrow> bool \<Rightarrow> instant
   \<Rightarrow> quarantine_decision" where
  "evaluate_quarantine source_id last_status error_category consecutive_failure_count
     quarantine_threshold body_fetch_failures alternative_strategy_available now =
    (let cat = upper (or_str error_category []);
         status = upper (or_str last_status []);
         mk = (\<lambda>q u r s. \<lparr>qd_source_id = source_id, qd_quarantined = q, qd_quarantine_until = u,
                          qd_reason = r, qd_recovery_strategy = s\<rparr>);
         until = iso_z (dt_add_seconds (utc now) QUARANTINE_RECHECK_SECONDS);
         retryable =
           (if cat \<in> set RETRYABLE_FAILURE \<or> status \<in> set RETRYABLE_FAILURE \<or> status = ''EXTERNAL_API_ERROR''
            then if quarantine_threshold \<le> consecutive_failure_count then
                mk True (Some until) (Some (''consecutive_failures:'' @ int_str consecutive_failure_count))
                  (Some ''recovery_probe_after_cooldown'')
              else mk False None (Some (''transient_failure:'' @ int_str consecutive_failure_count))
                  (Some ''retry_next_cycle'')
            else mk False None None None)
     in
     if cat \<in> set POLICY_TERMINAL_CATEGORIES \<or>
        status \<in> {''PAYWALL_BLOCKED_NO_BYPASS'', ''LOGIN_BLOCKED_NO_BYPASS'',
                   ''CAPTCHA_BLOCKED_NO_BYPASS'', ''ROBOTS_BLOCKED_NO_BYPASS'', ''BLOCKED''} then
       mk False None (Some (''policy_terminal:'' @ (if cat \<noteq> [] then cat else status))) None
     else if status \<in> {''NOT_SERVICE_USEFUL'', ''DISABLE_RECOMMENDED''} then
       mk False None (Some ''not_service_useful'') None
     else if status \<in> {''REQUIRES_VENDOR_SPECIFIC_API_CONTRACT'', ''REQUIRES_TWO_STEP_DETAIL_FETCH''} then
       mk False None (Some ''vendor_contract_required'') (Some ''operator_configure_endpoint'')
     else if cat \<in> set BODY_FETCH_FAILURE \<or> status \<in> set BODY_FETCH_FAILURE then
       (if body_fetch_failures < quarantine_threshold \<and> alternative_strategy_available then
          mk False None (Some (''body_fetch_retry_alt_strategy:'' @ int_str body_fetch_failures))
            (Some ''try_alternative_body_strategy'')
        else if quarantine_threshold \<le> body_fetch_failures then
          mk True (Some until) (Some (''body_fetch_failed_repeated:'' @ int_str body_fetch_failures))
            (Some ''recheck_with_browser_after_cooldown'')
        else retryable)
     else retryable)"

definition is_quarantine_active :: "string option \<Rightarrow> instant \<Rightarrow> bool res" where
  "is_quarantine_active quarantine_until now =
     (if \<not> truthy quarantine_until then Inr False
      else case fromisoformat (py_replace ''Z'' ''+00:00'' (the quarantine_until)) of
        None \<Rightarrow> Inr False
      | Some deadline \<Rightarrow> dt_gt deadline (utc now))"

section \<open>Production states\<close>

definition PRODUCTION_READY :: string where "PRODUCTION_READY = ''PRODUCTION_READY''"
definition PRODUCTION_READY_DEGRADED :: string where
  "PRODUCTION_READY_DEGRADED = ''PRODUCTION_READY_DEGRADED''"
definition PRODUCTION_READY_COMMUNITY_PREVIEW :: string where
  "PRODUCTION_READY_COMMUNITY_PREVIEW = ''PRODUCTION_READY_COMMUNITY_PREVIEW''"
definition POLICY_EXCLUDED :: string where "POLICY_EXCLUDED = ''POLICY_EXCLUDED''"
definition POLICY_BLOCKED_NO_BYPASS :: string where
  "POLICY_BLOCKED_NO_BYPASS = ''POLICY_BLOCKED_NO_BYPASS''"
definition EXTERNAL_RATE_LIMITED :: string where
  "EXTERNAL_RATE_LIMITED = ''EXTERNAL_RATE_LIMITED''"
definition EXTERNAL_API_ERROR :: string where "EXTERNAL_API_ERROR = ''EXTERNAL_API_ERROR''"
definition VENDOR_CONTRACT_REQUIRED :: string where
  "VENDOR_CONTRACT_REQUIRED = ''VENDOR_CONTRACT_REQUIRED''"
definition NOT_SERVICE_USEFUL :: string where "NOT_SERVICE_USEFUL = ''NOT_SERVICE_USEFUL''"
definition QUARANTINED :: string where "QUARANTINED = ''QUARANTINED''"
definition COOLDOWN :: string where "COOLDOWN = ''COOLDOWN''"
definition DEAD_END_SKIPPED :: string where "DEAD_END_SKIPPED = ''DEAD_END_SKIPPED''"
definition NEEDS_OPERATOR_REVIEW :: string where
  "NEEDS_OPERATOR_REVIEW = ''NEEDS_OPERATOR_REVIEW''"
definition STATE_UNKNOWN :: string where "STATE_UNKNOWN = ''UNKNOWN''"

lemmas state_names = PRODUCTION_READY_def
  PRODUCTION_READY_DEGRADED_def
  PRODUCTION_READY_COMMUNITY_PREVIEW_def
  POLICY_EXCLUDED_def
  POLICY_BLOCKED_NO_BYPASS_def
  EXTERNAL_RATE_LIMITED_def
  EXTERNAL_API_ERROR_def
  VENDOR_CONTRACT_REQUIRED_def
  NOT_SERVICE_USEFUL_def
  QUARANTINED_def
  COOLDOWN_def
  DEAD_END_SKIPPED_def
  NEEDS_OPERATOR_REVIEW_def
  STATE_UNKNOWN_def

definition PRODUCTION_STATES :: "string list" where
  "PRODUCTION_STATES =
     [PRODUCTION_READY, PRODUCTION_READY_DEGRADED, PRODUCTION_READY_COMMUNITY_PREVIEW,
      POLICY_EXCLUDED, POLICY_BLOCKED_NO_BYPASS, EXTERNAL_RATE_LIMITED, EXTERNAL_API_ERROR,
      VENDOR_CONTRACT_REQUIRED, NOT_SERVICE_USEFUL, QUARANTINED, COOLDOWN, DEAD_END_SKIPPED,
      NEEDS_OPERATOR_REVIEW, STATE_UNKNOWN]"

definition SCHEDULABLE_STATES :: "string list" where
  "SCHEDULABLE_STATES =
     [PRODUCTION_READY, PRODUCTION_READY_DEGRADED, PRODUCTION_READY_COMMUNITY_PREVIEW]"

definition COMMUNITY_PREVIEW_ROLE_STATUSES :: "string list" where
  "COMMUNITY_PREVIEW_ROLE_STATUSES =
     [''COMMUNITY_PREVIEW_SIGNAL_ALIVE'']"

definition DEAD_END_STATES :: "string list" where
  "DEAD_END_STATES =
     [POLICY_EXCLUDED, POLICY_BLOCKED_NO_BYPASS, NOT_SERVICE_USEFUL, DEAD_END_SKIPPED]"

definition CONDITIONAL_SKIP_STATES :: "string list" where
  "CONDITIONAL_SKIP_STATES =
     [EXTERNAL_RATE_LIMITED, EXTERNAL_API_ERROR, VENDOR_CONTRACT_REQUIRED, QUARANTINED,
      COOLDOWN, NEEDS_OPERATOR_REVIEW]"

definition RESUMABLE_RATE_LIMIT_STATES :: "string list" where
  "RESUMABLE_RATE_LIMIT_STATES =
     [EXTERNAL_RATE_LIMITED, COOLDOWN]"

definition FINAL_STATUS_TO_STATE :: "(string, string) dict" where
  "FINAL_STATUS_TO_STATE =
     [(''EXTERNAL_RATE_LIMITED_WITH_RETRY_POLICY'', EXTERNAL_RATE_LIMITED),
      (''EXTERNAL_RATE_LIMITED_PENDING_RESUME'', EXTERNAL_RATE_LIMITED),
      (''EXTERNAL_RATE_LIMITED'', EXTERNAL_RATE_LIMITED),
      (''REQUIRES_OFFICIAL_API_KEY_OR_CONTRACT'', VENDOR_CONTRACT_REQUIRED),
      (''EXTERNAL_API_ERROR_WITH_EVIDENCE'', EXTERNAL_API_ERROR),
      (''EXTERNAL_API_ERROR'', EXTERNAL_API_ERROR),
      (''REQUIRES_VENDOR_SPECIFIC_API_CONTRACT'', VENDOR_CONTRACT_REQUIRED),
      (''REQUIRES_TWO_STEP_DETAIL_FETCH'', VENDOR_CONTRACT_REQUIRED),
      (''NOT_SERVICE_USEFUL'', NOT_SERVICE_USEFUL),
      (''DISABLE_RECOMMENDED'', NOT_SERVICE_USEFUL),
      (''POLICY_BLOCKED_NO_BYPASS'', POLICY_BLOCKED_NO_BYPASS),
      (''PAYWALL_BLOCKED_NO_BYPASS'', POLICY_BLOCKED_NO_BYPASS),
      (''LOGIN_BLOCKED_NO_BYPASS'', POLICY_BLOCKED_NO_BYPASS),
      (''CAPTCHA_BLOCKED_NO_BYPASS'', POLICY_BLOCKED_NO_BYPASS),
      (''ROBOTS_BLOCKED_NO_BYPASS'', POLICY_BLOCKED_NO_BYPASS),
      (''TOOL_UNAVAILABLE_FOR_REQUIRED_STRATEGY'', NEEDS_OPERATOR_REVIEW),
      (''BLOCKED_ENV_KEY'', NEEDS_OPERATOR_REVIEW),
      (''EXCLUDED_BY_USER'', POLICY_EXCLUDED)]"

definition SKIP_REASON_TO_STATE :: "(string, string) dict" where
  "SKIP_REASON_TO_STATE =
     [(''robots_or_policy_block'', POLICY_BLOCKED_NO_BYPASS),
      (''login_wall_no_bypass'', POLICY_BLOCKED_NO_BYPASS),
      (''paywall_no_bypass'', POLICY_BLOCKED_NO_BYPASS),
      (''captcha_no_bypass'', POLICY_BLOCKED_NO_BYPASS),
      (''disabled_by_policy'', POLICY_EXCLUDED),
      (''needs_api_integration'', VENDOR_CONTRACT_REQUIRED),
      (''requires_api_key'', NEEDS_OPERATOR_REVIEW),
      (''user_excluded'', POLICY_EXCLUDED)]"

definition HEALTH_TO_STATE :: "(string, string) dict" where
  "HEALTH_TO_STATE =
     [(''QUARANTINED_RETRYABLE'', QUARANTINED),
      (''RATE_LIMITED_COOLDOWN'', COOLDOWN),
      (''BLOCKED_TERMINAL'', POLICY_BLOCKED_NO_BYPASS)]"

definition EXPECTED_ALIVE_BY_GROUP :: "(string, string) dict" where
  "EXPECTED_ALIVE_BY_GROUP =
     [(''news'', ''ARTICLE_BODY_ALIVE''),
      (''community'', ''COMMUNITY_SIGNAL_ALIVE''),
      (''search'', ''SEARCH_RESULT_ALIVE''),
      (''official'', ''OFFICIAL_RECORD_ALIVE''),
      (''trend'', ''STRUCTURED_SIGNAL_ALIVE''),
      (''market'', ''STRUCTURED_SIGNAL_ALIVE''),
      (''domain'', ''OFFICIAL_RECORD_ALIVE'')]"

record production_source_state =
  ps_source_id :: string
  ps_enabled :: bool
  ps_excluded :: bool
  ps_source_group :: string
  ps_expected_alive_type :: string
  ps_current_status :: string
  ps_last_success_at :: "string option"
  ps_last_failure_at :: "string option"
  ps_last_attempt_at :: "string option"
  ps_failure_count :: int
  ps_consecutive_failure_count :: int
  ps_quarantine_until :: "string option"
  ps_cooldown_until :: "string option"
  ps_known_dead_end :: bool
  ps_best_strategy :: "string option"
  ps_next_strategy :: "string option"
  ps_next_due_at :: "string option"
  ps_rate_limit_status :: "string option"
  ps_production_ready :: bool
  ps_terminal_reason :: "string option"

definition ps_to_dict :: "production_source_state \<Rightarrow> (string, json) dict" where
  "ps_to_dict s =
     [(''source_id'', JStr (ps_source_id s)),
      (''enabled'', JBool (ps_enabled s)),
      (''excluded'', JBool (ps_excluded s)),
      (''source_group'', JStr (ps_source_group s)),
      (''expected_alive_type'', JStr (ps_expected_alive_type s)),
      (''current_status'', JStr (ps_current_status s)),
      (''last_success_at'', json_opt_str (ps_last_success_at s)),
      (''last_failure_at'', json_opt_str (ps_last_failure_at s)),
      (''last_attempt_at'', json_opt_str (ps_last_attempt_at s)),
      (''failure_count'', JInt (ps_failure_count s)),
      (''consecutive_failure_count'', JInt (ps_consecutive_failure_count s)),
      (''quarantine_until'', json_opt_str (ps_quarantine_until s)),
      (''cooldown_until'', json_opt_str (ps_cooldown_until s)),
      (''known_dead_end'', JBool (ps_known_dead_end s)),
      (''best_strategy'', json_opt_str (ps_best_strategy s)),
      (''next_strategy'', json_opt_str (ps_next_strategy s)),
      (''next_due_at'', json_opt_str (ps_next_due_at s)),
      (''rate_limit_status'', json_opt_str (ps_rate_limit_status s)),
      (''production_ready'', JBool (ps_production_ready s)),
      (''terminal_reason'', json_opt_str (ps_terminal_reason s))]"

text \<open>A missing required field raises \<open>TypeError\<close>, as the class's constructor does.\<close>

definition need :: "(string, json) dict \<Rightarrow> string \<Rightarrow> unit res" where
  "need d k = (if dict_get d k = None then Inl TypeError else Inr ())"

definition ps_from_dict :: "(string, json) dict \<Rightarrow> production_source_state res" where
  "ps_from_dict d =
     bind_res (need d ''source_id'') (\<lambda>_.
     bind_res (need d ''enabled'') (\<lambda>_.
     bind_res (need d ''excluded'') (\<lambda>_.
     bind_res (need d ''source_group'') (\<lambda>_.
     bind_res (need d ''expected_alive_type'') (\<lambda>_.
     bind_res (need d ''current_status'') (\<lambda>_.
     bind_res (as_str_or (dict_get d ''source_id'') []) (\<lambda>x0.
     bind_res (as_bool_or (dict_get d ''enabled'') False) (\<lambda>x1.
     bind_res (as_bool_or (dict_get d ''excluded'') False) (\<lambda>x2.
     bind_res (as_str_or (dict_get d ''source_group'') []) (\<lambda>x3.
     bind_res (as_str_or (dict_get d ''expected_alive_type'') []) (\<lambda>x4.
     bind_res (as_str_or (dict_get d ''current_status'') []) (\<lambda>x5.
     bind_res (as_opt_str (dict_get d ''last_success_at'')) (\<lambda>x6.
     bind_res (as_opt_str (dict_get d ''last_failure_at'')) (\<lambda>x7.
     bind_res (as_opt_str (dict_get d ''last_attempt_at'')) (\<lambda>x8.
     bind_res (as_int_or (dict_get d ''failure_count'') 0) (\<lambda>x9.
     bind_res (as_int_or (dict_get d ''consecutive_failure_count'') 0) (\<lambda>x10.
     bind_res (as_opt_str (dict_get d ''quarantine_until'')) (\<lambda>x11.
     bind_res (as_opt_str (dict_get d ''cooldown_until'')) (\<lambda>x12.
     bind_res (as_bool_or (dict_get d ''known_dead_end'') False) (\<lambda>x13.
     bind_res (as_opt_str (dict_get d ''best_strategy'')) (\<lambda>x14.
     bind_res (as_opt_str (dict_get d ''next_strategy'')) (\<lambda>x15.
     bind_res (as_opt_str (dict_get d ''next_due_at'')) (\<lambda>x16.
     bind_res (as_opt_str (dict_get d ''rate_limit_status'')) (\<lambda>x17.
     bind_res (as_bool_or (dict_get d ''production_ready'') False) (\<lambda>x18.
     bind_res (as_opt_str (dict_get d ''terminal_reason'')) (\<lambda>x19.
       Inr \<lparr>ps_source_id = x0,
            ps_enabled = x1,
            ps_excluded = x2,
            ps_source_group = x3,
            ps_expected_alive_type = x4,
            ps_current_status = x5,
            ps_last_success_at = x6,
            ps_last_failure_at = x7,
            ps_last_attempt_at = x8,
            ps_failure_count = x9,
            ps_consecutive_failure_count = x10,
            ps_quarantine_until = x11,
            ps_cooldown_until = x12,
            ps_known_dead_end = x13,
            ps_best_strategy = x14,
            ps_next_strategy = x15,
            ps_next_due_at = x16,
            ps_rate_limit_status = x17,
            ps_production_ready = x18,
            ps_terminal_reason = x19\<rparr>))))))))))))))))))))))))))"

lemma ps_from_dict_to_dict [simp]: "ps_from_dict (ps_to_dict s) = Inr s"
  by (simp add: ps_from_dict_def ps_to_dict_def need_def)

record production_strategy_decision =
  pd_source_id :: string
  pd_strategy :: "string option"
  pd_skip :: bool
  pd_skip_reason :: "string option"
  pd_dead_end :: bool

text \<open>The pattern \<open>next_resume_at=([0-9T:.+\-Z]+)\<close>, searched from the left.\<close>

definition resume_char :: "char \<Rightarrow> bool" where
  "resume_char c \<longleftrightarrow> is_digit c \<or> c \<in> set ''T:.+-Z''"

fun find_resume :: "string \<Rightarrow> string option" where
  "find_resume [] = None"
| "find_resume (c # cs) =
     (let g = takeWhile resume_char (drop (length ''next_resume_at='') (c # cs)) in
      if startswith (c # cs) ''next_resume_at='' \<and> g \<noteq> [] then Some g else find_resume cs)"

definition extract_resume_at :: "strategy_memory \<Rightarrow> string option" where
  "extract_resume_at mem =
     (let cp = or_str (sm_cooldown_policy mem) []; prefix = ''respect_cooldown_until:'' in
      if startswith cp prefix then non_empty (strip (drop (length prefix) cp))
      else case find_resume (or_str (sm_evidence mem) []) of None \<Rightarrow> None
        | Some g \<Rightarrow> if g \<noteq> ''None'' then Some g else None)"

definition cooldown_elapsed :: "string option \<Rightarrow> instant \<Rightarrow> bool" where
  "cooldown_elapsed cooldown_until now =
     (if \<not> truthy cooldown_until then False
      else case fromisoformat (py_replace ''Z'' ''+00:00'' (the cooldown_until)) of
        None \<Rightarrow> False
      | Some dt \<Rightarrow> dt_instant (assume_utc dt) \<le> now)"

text \<open>
  The fields that every branch of \<open>derive_production_state\<close> shares (\<open>base\<close>), with the
  remaining fields at their defaults.
\<close>

record derive_args =
  da_memory :: strategy_memories
  da_health :: "health_state option"
  da_api_key_ready :: "bool option"
  da_last_success_at :: "string option"
  da_last_failure_at :: "string option"
  da_failure_count :: int
  da_consecutive_failure_count :: int

definition state_base :: "source_profile \<Rightarrow> derive_args \<Rightarrow> production_source_state" where
  "state_base p a =
     (let sid = sp_source_id p;
          grp = or_str (sp_source_group p) (or_str (Some (sp_purpose p)) ''news'');
          best = preferred_strategy_for sid (da_memory a)
      in \<lparr>ps_source_id = sid, ps_enabled = sp_enabled p, ps_excluded = (\<not> sp_enabled p),
          ps_source_group = grp,
          ps_expected_alive_type = get_or EXPECTED_ALIVE_BY_GROUP grp ''ARTICLE_BODY_ALIVE'',
          ps_current_status = [], ps_last_success_at = da_last_success_at a,
          ps_last_failure_at = da_last_failure_at a, ps_last_attempt_at = None,
          ps_failure_count = da_failure_count a,
          ps_consecutive_failure_count = da_consecutive_failure_count a,
          ps_quarantine_until = None, ps_cooldown_until = None, ps_known_dead_end = False,
          ps_best_strategy = best, ps_next_strategy = or_opt best (sp_preferred_strategy p),
          ps_next_due_at = None, ps_rate_limit_status = None, ps_production_ready = False,
          ps_terminal_reason = None\<rparr>)"

definition with_status ::
  "production_source_state \<Rightarrow> string \<Rightarrow> bool \<Rightarrow> bool \<Rightarrow> string option \<Rightarrow> production_source_state" where
  "with_status s status ready dead_end reason =
     s\<lparr>ps_current_status := status, ps_production_ready := ready, ps_known_dead_end := dead_end,
       ps_terminal_reason := reason\<rparr>"

text \<open>The last part of \<open>derive_production_state\<close>: the profile without memory or health.\<close>

definition derive_from_profile ::
  "source_profile \<Rightarrow> derive_args \<Rightarrow> production_source_state" where
  "derive_from_profile p a =
     (let base = state_base p a; skip_reason = sp_skip_reason p; live = sp_live_eligible p in
      if skip_reason = Some ''requires_api_key'' then
        (if da_api_key_ready a = Some True then with_status base PRODUCTION_READY True False None
         else with_status base NEEDS_OPERATOR_REVIEW False False (Some ''api_key_missing''))
      else case (if truthy skip_reason then dict_get SKIP_REASON_TO_STATE (the skip_reason) else None) of
        Some mapped \<Rightarrow>
          with_status base mapped (mapped = PRODUCTION_READY) (mapped \<in> set DEAD_END_STATES) skip_reason
      | None \<Rightarrow>
          if live \<in> {''true'', ''conservative''} then with_status base PRODUCTION_READY True False None
          else with_status base NEEDS_OPERATOR_REVIEW False False (Some ''not_live_eligible_no_reason''))"

definition derive_from_memory ::
  "source_profile \<Rightarrow> derive_args \<Rightarrow> production_source_state" where
  "derive_from_memory p a = (case dict_get (da_memory a) (sp_source_id p) of
      None \<Rightarrow> derive_from_profile p a
    | Some mem \<Rightarrow>
      let base = state_base p a; fs = sm_final_status mem;
          causes = str_join '';'' (sm_root_cause_after mem);
          degraded = (sm_root_cause_after mem \<noteq> [])
      in
      if fs \<in> set COMMUNITY_PREVIEW_ROLE_STATUSES then
        with_status base PRODUCTION_READY_COMMUNITY_PREVIEW True False (non_empty causes)
      else if fs \<in> set DATA_ALIVE_STATUSES then
        with_status base (if degraded then PRODUCTION_READY_DEGRADED else PRODUCTION_READY) True False
          (if degraded then Some causes else None)
      else case dict_get FINAL_STATUS_TO_STATE fs of
        Some mapped \<Rightarrow>
          (with_status base mapped False (mapped \<in> set DEAD_END_STATES) (Some (or_str (Some causes) fs)))
          \<lparr>ps_rate_limit_status := (if mapped = EXTERNAL_RATE_LIMITED then Some ''rate_limited'' else None),
           ps_cooldown_until := (if mapped = EXTERNAL_RATE_LIMITED then extract_resume_at mem else None)\<rparr>
      | None \<Rightarrow> derive_from_profile p a)"

definition derive_production_state :: "source_profile \<Rightarrow> derive_args \<Rightarrow> production_source_state" where
  "derive_production_state p a =
     (let base = state_base p a in
      if \<not> sp_enabled p then
        with_status base POLICY_EXCLUDED False True (Some (or_str (sp_skip_reason p) ''excluded''))
      else case da_health a of None \<Rightarrow> derive_from_memory p a
        | Some h \<Rightarrow> (case dict_get HEALTH_TO_STATE (hs_state h) of
            None \<Rightarrow> derive_from_memory p a
          | Some hstate \<Rightarrow>
              (with_status base hstate False (hstate = POLICY_BLOCKED_NO_BYPASS) (Some (hs_reason h)))
              \<lparr>ps_quarantine_until := (if hstate = QUARANTINED then hs_next_retry_at h else None),
               ps_cooldown_until := (if hstate = COOLDOWN then hs_next_retry_at h else None),
               ps_rate_limit_status := (if hstate = COOLDOWN then Some ''cooldown'' else None)\<rparr>))"

definition decide_production_strategy ::
  "string \<Rightarrow> source_profile \<Rightarrow> strategy_memories \<Rightarrow> production_source_state option \<Rightarrow> instant
   \<Rightarrow> production_strategy_decision" where
  "decide_production_strategy source_id profile memory state now =
    (let skip = (\<lambda>strat reason dead. \<lparr>pd_source_id = source_id, pd_strategy = strat, pd_skip = True,
            pd_skip_reason = Some reason, pd_dead_end = dead\<rparr>);
         go = \<lparr>pd_source_id = source_id,
            pd_strategy = or_opt (preferred_strategy_for source_id memory) (sp_preferred_strategy profile),
            pd_skip = False, pd_skip_reason = None, pd_dead_end = False\<rparr>
     in case state of
       Some s \<Rightarrow>
         if ps_known_dead_end s then skip None (''dead_end:'' @ ps_current_status s) True
         else if \<not> ps_production_ready s \<and>
             \<not> (ps_current_status s \<in> set RESUMABLE_RATE_LIMIT_STATES \<and>
                cooldown_elapsed (ps_cooldown_until s) now)
           then skip (ps_next_strategy s) (''not_ready:'' @ ps_current_status s) False
         else go
     | None \<Rightarrow>
         if is_known_dead_end source_id memory then skip None ''dead_end:memory'' True else go)"

section \<open>The state file and the summary\<close>

definition save_production_state :: "production_source_state list \<Rightarrow> string option \<Rightarrow> disk_file" where
  "save_production_state states run_id =
     FileJson (JObj [(''schema_version'', JInt 1), (''run_id'', json_opt_str run_id),
       (''sources'', JObj (dict_of (map (\<lambda>s. (ps_source_id s, JObj (ps_to_dict s)))
          (sort_key ps_source_id states))))])"

fun load_state_entries ::
  "(string \<times> json) list \<Rightarrow> (string, production_source_state) dict res" where
  "load_state_entries [] = Inr []"
| "load_state_entries ((sid, JObj entry) # es) =
     bind_res (ps_from_dict entry) (\<lambda>s.
       bind_res (load_state_entries es) (\<lambda>out. Inr ((sid, s) # out)))"
| "load_state_entries ((sid, v) # es) = load_state_entries es"

definition load_production_state :: "disk_file \<Rightarrow> (string, production_source_state) dict res" where
  "load_production_state f = (case f of
      FileJson (JObj d) \<Rightarrow>
        (let es = get_or d ''sources'' JNull in
         if \<not> json_truthy es then Inr []
         else case es of JObj e \<Rightarrow> load_state_entries e | _ \<Rightarrow> Inl AttributeError)
    | FileJson _ \<Rightarrow> Inl AttributeError
    | _ \<Rightarrow> Inr [])"

record state_summary =
  su_total :: nat
  su_distribution :: "(string, nat) dict"
  su_production_ready :: nat
  su_production_ready_community_preview :: nat
  su_source_without_state :: nat
  su_unknown :: nat

fun count_states :: "production_source_state list \<Rightarrow> (string, nat) dict \<Rightarrow> nat \<Rightarrow> (string, nat) dict \<times> nat" where
  "count_states [] counts without = (counts, without)"
| "count_states (s # ss) counts without =
     (let st = ps_current_status s in
      count_states ss (dict_set st (get_or counts st 0 + 1) counts)
        (if st \<notin> set PRODUCTION_STATES \<or> st = STATE_UNKNOWN then without + 1 else without))"

definition summarize_states :: "production_source_state list \<Rightarrow> state_summary" where
  "summarize_states states =
     (let (counts, without) = count_states states [] 0 in
      \<lparr>su_total = length states, su_distribution = sort_key fst counts,
       su_production_ready = get_or counts PRODUCTION_READY 0 + get_or counts PRODUCTION_READY_DEGRADED 0
         + get_or counts PRODUCTION_READY_COMMUNITY_PREVIEW 0,
       su_production_ready_community_preview = get_or counts PRODUCTION_READY_COMMUNITY_PREVIEW 0,
       su_source_without_state = without, su_unknown = get_or counts STATE_UNKNOWN 0\<rparr>)"

section \<open>What a derived state says\<close>

lemmas table_simps = FINAL_STATUS_TO_STATE_def SKIP_REASON_TO_STATE_def HEALTH_TO_STATE_def
  PRODUCTION_STATES_def SCHEDULABLE_STATES_def DEAD_END_STATES_def RESUMABLE_RATE_LIMIT_STATES_def

definition well_classified :: "production_source_state \<Rightarrow> bool" where
  "well_classified s \<longleftrightarrow> ps_current_status s \<in> set PRODUCTION_STATES \<and> ps_current_status s \<noteq> STATE_UNKNOWN \<and>
     ps_production_ready s = (ps_current_status s \<in> set SCHEDULABLE_STATES) \<and>
     ps_known_dead_end s = (ps_current_status s \<in> set DEAD_END_STATES)"

text \<open>The states a table maps to: known, not schedulable; the dead ends among them are marked.\<close>

definition table_state :: "string \<Rightarrow> bool" where
  "table_state st \<longleftrightarrow> st \<in> set PRODUCTION_STATES \<and> st \<noteq> STATE_UNKNOWN \<and> st \<notin> set SCHEDULABLE_STATES"

lemma table_states:
  "dict_get FINAL_STATUS_TO_STATE k = Some st \<Longrightarrow> table_state st"
  "dict_get SKIP_REASON_TO_STATE k = Some st \<Longrightarrow> table_state st"
  "dict_get HEALTH_TO_STATE k = Some st \<Longrightarrow> table_state st"
proof -
  have "list_all (\<lambda>(k, st). table_state st) FINAL_STATUS_TO_STATE"
    "list_all (\<lambda>(k, st). table_state st) SKIP_REASON_TO_STATE"
    "list_all (\<lambda>(k, st). table_state st) HEALTH_TO_STATE"
    by code_simp+
  then show "dict_get FINAL_STATUS_TO_STATE k = Some st \<Longrightarrow> table_state st"
    "dict_get SKIP_REASON_TO_STATE k = Some st \<Longrightarrow> table_state st"
    "dict_get HEALTH_TO_STATE k = Some st \<Longrightarrow> table_state st"
    using dict_get_all [of _ k st "\<lambda>_. table_state"] by simp_all
qed

lemma with_status_fields [simp]:
  "ps_current_status (with_status s st r d t) = st"
  "ps_production_ready (with_status s st r d t) = r"
  "ps_known_dead_end (with_status s st r d t) = d"
  "ps_quarantine_until (with_status s st r d t) = ps_quarantine_until s"
  "ps_cooldown_until (with_status s st r d t) = ps_cooldown_until s"
  "ps_next_strategy (with_status s st r d t) = ps_next_strategy s"
  "ps_excluded (with_status s st r d t) = ps_excluded s"
  "ps_source_id (with_status s st r d t) = ps_source_id s"
  by (simp_all add: with_status_def)

lemma state_base_fields [simp]:
  "ps_source_id (state_base p a) = sp_source_id p" "ps_excluded (state_base p a) = (\<not> sp_enabled p)"
  "ps_quarantine_until (state_base p a) = None" "ps_cooldown_until (state_base p a) = None"
  by (simp_all add: state_base_def Let_def)

lemma dead_end_not_schedulable: "st \<in> set DEAD_END_STATES \<Longrightarrow> st \<notin> set SCHEDULABLE_STATES"
  by (auto simp: table_simps state_names)

lemma ready_states:
  assumes "st \<in> {PRODUCTION_READY, PRODUCTION_READY_DEGRADED, PRODUCTION_READY_COMMUNITY_PREVIEW}"
  shows "st \<in> set SCHEDULABLE_STATES" "st \<in> set PRODUCTION_STATES" "st \<noteq> STATE_UNKNOWN" "st \<notin> set DEAD_END_STATES"
  using assms by (auto simp: table_simps state_names)

lemma well_classified_ready:
  "st \<in> {PRODUCTION_READY, PRODUCTION_READY_DEGRADED, PRODUCTION_READY_COMMUNITY_PREVIEW} \<Longrightarrow>
   well_classified (with_status s st True False t)"
  using ready_states [of st] by (simp add: well_classified_def)

lemma well_classified_review: "well_classified (with_status s NEEDS_OPERATOR_REVIEW False False t)"
  by (simp add: well_classified_def table_simps state_names)

lemma well_classified_table:
  assumes "table_state st"
  shows "well_classified (with_status s st (st = PRODUCTION_READY) (st \<in> set DEAD_END_STATES) t)"
    "well_classified (with_status s st False (st \<in> set DEAD_END_STATES) t)"
  using assms by (auto simp: well_classified_def table_state_def SCHEDULABLE_STATES_def)

lemma well_classified_updates [simp]:
  "well_classified (s\<lparr>ps_rate_limit_status := x\<rparr>) = well_classified s"
  "well_classified (s\<lparr>ps_cooldown_until := x\<rparr>) = well_classified s"
  "well_classified (s\<lparr>ps_quarantine_until := x\<rparr>) = well_classified s"
  by (simp_all add: well_classified_def)

lemma derive_from_profile_classified: "well_classified (derive_from_profile p a)"
  using well_classified_ready well_classified_review
  by (auto simp: derive_from_profile_def Let_def table_states well_classified_table split: option.splits)

lemma derive_from_memory_classified: "well_classified (derive_from_memory p a)"
  using derive_from_profile_classified [of p a]
  by (auto simp: derive_from_memory_def Let_def table_states well_classified_table well_classified_ready
      split: option.splits)

lemma health_dead_end:
  "dict_get HEALTH_TO_STATE k = Some st \<Longrightarrow> (st = POLICY_BLOCKED_NO_BYPASS) = (st \<in> set DEAD_END_STATES)"
proof -
  have "list_all (\<lambda>(k, st). (st = POLICY_BLOCKED_NO_BYPASS) = (st \<in> set DEAD_END_STATES)) HEALTH_TO_STATE"
    by code_simp
  then show "dict_get HEALTH_TO_STATE k = Some st \<Longrightarrow> (st = POLICY_BLOCKED_NO_BYPASS) = (st \<in> set DEAD_END_STATES)"
    using dict_get_all [of _ k st "\<lambda>_ st. (st = POLICY_BLOCKED_NO_BYPASS) = (st \<in> set DEAD_END_STATES)"] by simp
qed

lemma well_classified_excluded: "well_classified (with_status s POLICY_EXCLUDED False True t)"
  by (simp add: well_classified_def table_simps state_names)

lemma well_classified_health:
  assumes "dict_get HEALTH_TO_STATE k = Some st"
  shows "well_classified (with_status s st False (st = POLICY_BLOCKED_NO_BYPASS) t)"
  using well_classified_table(2) [OF table_states(3) [OF assms]] health_dead_end [OF assms] by simp

lemma derive_classified: "well_classified (derive_production_state p a)"
proof (cases "sp_enabled p")
  case False
  then show ?thesis by (simp add: derive_production_state_def Let_def well_classified_excluded)
next
  case enabled: True
  show ?thesis
  proof (cases "da_health a")
    case None
    with enabled show ?thesis by (simp add: derive_production_state_def Let_def derive_from_memory_classified)
  next
    case (Some h)
    with enabled show ?thesis
      by (cases "dict_get HEALTH_TO_STATE (hs_state h)")
        (simp_all add: derive_production_state_def Let_def derive_from_memory_classified well_classified_health)
  qed
qed

lemma derive_source_id: "ps_source_id (derive_production_state p a) = sp_source_id p"
  by (auto simp: derive_production_state_def derive_from_memory_def derive_from_profile_def Let_def
      split: option.splits)

lemma count_states_result:
  "count_states ss counts without = (counts', without') \<Longrightarrow>
   without' = without + length (filter (\<lambda>s. ps_current_status s \<notin> set PRODUCTION_STATES \<or>
     ps_current_status s = STATE_UNKNOWN) ss) \<and>
   (\<forall>st. get_or counts' st 0 = get_or counts st 0 + length (filter (\<lambda>s. ps_current_status s = st) ss))"
  by (induction ss counts without arbitrary: counts' without' rule: count_states.induct)
    (auto simp: Let_def split: if_splits)

lemma count_three:
  assumes "a \<noteq> b" "a \<noteq> c" "b \<noteq> c"
  shows "length (filter (\<lambda>x. f x = a) xs) + length (filter (\<lambda>x. f x = b) xs)
    + length (filter (\<lambda>x. f x = c) xs) = length (filter (\<lambda>x. f x \<in> {a, b, c}) xs)"
  using assms by (induction xs) auto

lemma schedulable_count:
  "length (filter (\<lambda>s. ps_current_status s = PRODUCTION_READY) ss)
   + length (filter (\<lambda>s. ps_current_status s = PRODUCTION_READY_DEGRADED) ss)
   + length (filter (\<lambda>s. ps_current_status s = PRODUCTION_READY_COMMUNITY_PREVIEW) ss)
   = length (filter (\<lambda>s. ps_current_status s \<in> set SCHEDULABLE_STATES) ss)"
proof -
  have "PRODUCTION_READY \<noteq> PRODUCTION_READY_DEGRADED"
    "PRODUCTION_READY \<noteq> PRODUCTION_READY_COMMUNITY_PREVIEW"
    "PRODUCTION_READY_DEGRADED \<noteq> PRODUCTION_READY_COMMUNITY_PREVIEW"
    by (simp_all add: state_names)
  from count_three [OF this, of ps_current_status ss] show ?thesis
    by (simp add: SCHEDULABLE_STATES_def)
qed

section \<open>The state file\<close>

lemma load_state_entries_saved:
  "load_state_entries (map (\<lambda>(k, s). (k, JObj (ps_to_dict s))) d) = Inr d"
  by (induction d) auto

lemma dict_set_map_values:
  "dict_set k (g v) (map (\<lambda>(k, v). (k, g v)) d) = map (\<lambda>(k, v). (k, g v)) (dict_set k v d)"
  by (induction d) auto

lemma dict_of_map_values:
  "foldl (\<lambda>d (k, v). dict_set k v d) (map (\<lambda>(k, v). (k, g v)) d) (map (\<lambda>x. (f x, g x)) xs)
     = map (\<lambda>(k, v). (k, g v)) (foldl (\<lambda>d (k, v). dict_set k v d) d (map (\<lambda>x. (f x, x)) xs))"
  by (induction xs arbitrary: d) (simp_all add: dict_set_map_values)

lemma dict_of_Nil_iff [simp]: "dict_of ps = [] \<longleftrightarrow> ps = []"
proof
  show "ps = []" if "dict_of ps = []"
  proof (rule ccontr)
    assume "ps \<noteq> []"
    then obtain k v qs where "ps = qs @ [(k, v)]" by (metis rev_exhaust surj_pair)
    then have "dict_get (dict_of ps) k = Some v" by (simp add: dict_of_get)
    with that show False by simp
  qed
qed (simp add: dict_of_def)

lemma load_save_states:
  "load_production_state (save_production_state states run_id) =
     Inr (dict_of (map (\<lambda>s. (ps_source_id s, s)) (sort_key ps_source_id states)))"
proof -
  have "dict_of (map (\<lambda>s. (ps_source_id s, JObj (ps_to_dict s))) xs)
      = map (\<lambda>(k, s). (k, JObj (ps_to_dict s))) (dict_of (map (\<lambda>s. (ps_source_id s, s)) xs))" for xs
    using dict_of_map_values [of "\<lambda>s. JObj (ps_to_dict s)" "[]" ps_source_id xs] by (simp add: dict_of_def)
  then show ?thesis
    by (simp add: load_production_state_def save_production_state_def get_or_def json_truthy_def
        load_state_entries_saved Let_def) (simp add: dict_of_def)
qed

section \<open>Properties\<close>

text \<open>C25: Every source gets a known production state whatever its profile, memory and health say; it is marked
  ready exactly in the schedulable states and a dead end exactly in the dead-end states.\<close>

theorem derived_state_classified:
  "ps_current_status (derive_production_state p a) \<in> set PRODUCTION_STATES \<and>
   ps_current_status (derive_production_state p a) \<noteq> STATE_UNKNOWN \<and>
   ps_production_ready (derive_production_state p a)
     = (ps_current_status (derive_production_state p a) \<in> set SCHEDULABLE_STATES) \<and>
   ps_known_dead_end (derive_production_state p a)
     = (ps_current_status (derive_production_state p a) \<in> set DEAD_END_STATES)"
  using derive_classified [of p a] by (simp add: well_classified_def)

text \<open>The summary of derived states counts the ready sources, and finds none without a state.\<close>

lemma summary_counts_ready:
  "su_production_ready (summarize_states (map (\<lambda>(p, a). derive_production_state p a) ps))
     = length (filter ps_production_ready (map (\<lambda>(p, a). derive_production_state p a) ps)) \<and>
   su_source_without_state (summarize_states (map (\<lambda>(p, a). derive_production_state p a) ps)) = 0 \<and>
   su_unknown (summarize_states (map (\<lambda>(p, a). derive_production_state p a) ps)) = 0"
proof -
  define ss where "ss = map (\<lambda>(p, a). derive_production_state p a) ps"
  have cl: "well_classified s" if "s \<in> set ss" for s
    using that derive_classified by (auto simp: ss_def)
  obtain counts without where c: "count_states ss [] 0 = (counts, without)"
    by (cases "count_states ss [] 0")
  note r = count_states_result [OF c]
  have "filter (\<lambda>s. ps_current_status s \<notin> set PRODUCTION_STATES \<or> ps_current_status s = STATE_UNKNOWN) ss = []"
    and "filter (\<lambda>s. ps_current_status s = STATE_UNKNOWN) ss = []"
    using cl by (auto simp: well_classified_def filter_empty_conv)
  moreover have "filter (\<lambda>s. ps_current_status s \<in> set SCHEDULABLE_STATES) ss = filter ps_production_ready ss"
    using cl by (intro filter_cong) (auto simp: well_classified_def)
  ultimately show ?thesis
    using r schedulable_count [of ss] unfolding ss_def [symmetric]
    by (simp add: summarize_states_def c get_or_def [of "[]"])
qed

text \<open>Loading a saved production state file gives every source the last state saved for it, in the order of
  the source ids.\<close>

lemma production_state_roundtrip:
  "\<exists>d. load_production_state (save_production_state states run_id) = Inr d \<and> dict_ok d \<and>
     (\<forall>sid. dict_get d sid = last_with ps_source_id sid states)"
proof -
  have "dict_get (dict_of (map (\<lambda>s. (ps_source_id s, s)) (sort_key ps_source_id states))) sid
      = last_with ps_source_id sid states" for sid
    using last_with_sort_key [of ps_source_id sid states]
    by (simp only: dict_of_get last_with_def)
  then show ?thesis by (simp add: load_save_states)
qed

text \<open>An enabled source whose last run was rate limited with a recorded resume instant is skipped until that
  instant (in whole seconds) and may run from then on, without an operator.\<close>

lemma rate_limited_source_resumes:
  assumes "sp_enabled p" "dict_get (da_memory a) (sp_source_id p) = Some m"
    and "da_health a = None \<or> (\<exists>h. da_health a = Some h \<and> dict_get HEALTH_TO_STATE (hs_state h) = None)"
    and "sm_final_status m = ''EXTERNAL_RATE_LIMITED_PENDING_RESUME''"
    and "sm_cooldown_policy m = Some (''respect_cooldown_until:'' @ iso_z (utc t))" "in_range t"
  shows "pd_skip (decide_production_strategy (sp_source_id p) p (da_memory a)
      (Some (derive_production_state p a)) now) = (now < t - t mod sec)"
proof -
  have "derive_production_state p a = derive_from_memory p a"
    using assms(1,3) by (auto simp: derive_production_state_def Let_def)
  moreover have "extract_resume_at m = Some (iso_z (utc t))"
    by (simp add: extract_resume_at_def assms(5) or_str_def non_empty_def startswith_def Let_def)
  ultimately have "ps_cooldown_until (derive_production_state p a) = Some (iso_z (utc t))"
    "ps_current_status (derive_production_state p a) = EXTERNAL_RATE_LIMITED"
    "\<not> ps_production_ready (derive_production_state p a)" "\<not> ps_known_dead_end (derive_production_state p a)"
    by (simp_all add: derive_from_memory_def assms(2,4) Let_def COMMUNITY_PREVIEW_ROLE_STATUSES_def
        DATA_ALIVE_STATUSES_def FINAL_STATUS_TO_STATE_def) (simp_all add: DEAD_END_STATES_def state_names)
  moreover have "fromisoformat (py_replace ''Z'' ''+00:00'' (iso_z (utc t))) = Some (utc (t - t mod sec))"
    using parse_iso_iso_z [OF assms(6)] by (simp add: parse_iso_def)
  ultimately show ?thesis
    by (auto simp: decide_production_strategy_def Let_def RESUMABLE_RATE_LIMIT_STATES_def cooldown_elapsed_def)
qed

definition sample_profile :: source_profile where
  "sample_profile = \<lparr>sp_source_id = ''gdelt'', sp_enabled = True, sp_purpose = ''news'',
     sp_freshness_bucket = ''medium'', sp_min_interval_seconds = 1800, sp_risk_level = ''low'',
     sp_preferred_strategy = None, sp_requires_api_key = False, sp_is_community = False,
     sp_confirmation_policy = ''standard'', sp_notes = None, sp_profile_status = ''active'',
     sp_live_eligible = ''true'', sp_skip_reason = None, sp_source_group = Some ''official'',
     sp_readiness_status = None\<rparr>"

definition sample_memory :: strategy_memory where
  "sample_memory = \<lparr>sm_source_id = ''gdelt'', sm_previous_status = [],
     sm_final_status = ''EXTERNAL_RATE_LIMITED_PENDING_RESUME'', sm_root_cause_before = [],
     sm_root_cause_after = [], sm_successful_strategy = None, sm_failed_strategies = [],
     sm_preferred_next_strategy = None, sm_adapter_name = None, sm_body_fetch_strategy = None,
     sm_browser_strategy = None, sm_parser_notes = None,
     sm_cooldown_policy = Some (''respect_cooldown_until:'' @ iso_z (utc 900000000)),
     sm_safety_policy = ''no_bypass'', sm_evidence = None, sm_llm_agent_hints = []\<rparr>"

definition sample_args :: derive_args where
  "sample_args = \<lparr>da_memory = [(''gdelt'', sample_memory)], da_health = None, da_api_key_ready = None,
     da_last_success_at = None, da_last_failure_at = None, da_failure_count = 0,
     da_consecutive_failure_count = 0\<rparr>"

theorem rate_limited_source_resumes_witness:
  "pd_skip (decide_production_strategy ''gdelt'' sample_profile (da_memory sample_args)
      (Some (derive_production_state sample_profile sample_args)) 899999999) \<and>
   \<not> pd_skip (decide_production_strategy ''gdelt'' sample_profile (da_memory sample_args)
      (Some (derive_production_state sample_profile sample_args)) 900000000)"
proof -
  have "sp_enabled sample_profile" "sp_source_id sample_profile = ''gdelt''"
    "dict_get (da_memory sample_args) ''gdelt'' = Some sample_memory" "da_health sample_args = None"
    "sm_final_status sample_memory = ''EXTERNAL_RATE_LIMITED_PENDING_RESUME''"
    "sm_cooldown_policy sample_memory = Some (''respect_cooldown_until:'' @ iso_z (utc 900000000))"
    by (simp_all add: sample_profile_def sample_args_def sample_memory_def)
  then show ?thesis
    using rate_limited_source_resumes [of sample_profile sample_args sample_memory 900000000 899999999]
      rate_limited_source_resumes [of sample_profile sample_args sample_memory 900000000 900000000]
    by (simp add: sec_def)
qed

end
