(* ===== verification/Error_Taxonomy.thy ===== *)
theory Error_Taxonomy
  imports Prelude
begin

text \<open>
  \<open>ingestion/core/error_taxonomy.py\<close> and \<open>ingestion/core/retry_policy.py\<close>: the error
  types, how an HTTP status or a page body is classified, which errors may be retried, the
  ladder of fetch strategies and the back-off delay. Delays are Python floats; they are
  modelled by rationals, without rounding.

  The lemmas: retryable and blocking errors are disjoint, an HTTP status alone never
  classifies as a blocker, the ladder visits every strategy once and ends, and the delays
  are monotone and bounded.
\<close>

section \<open>Error types\<close>

datatype error_type =
    NETWORK_TIMEOUT | NETWORK_DNS_FAIL | NETWORK_CONNECTION_RESET | HTTP_4XX | RATE_LIMITED
  | HTTP_5XX | HTTP_REDIRECT_LOOP | CAPTCHA_DETECTED | LOGIN_WALL_DETECTED | PAYWALL_DETECTED
  | ROBOTS_BLOCKED | JS_RENDER_FAIL | DOM_PARSE_ERROR | EXTRACTION_EMPTY | EXTRACTION_TOO_SHORT
  | EXTRACTION_BOILERPLATE_ONLY | EXTRACTION_ENCODING_ERROR | QUALITY_BELOW_THRESHOLD
  | QUALITY_PARTIAL | LLM_PARSE_ERROR | LLM_TIMEOUT | LLM_RATE_LIMIT | SCREENSHOT_FAIL
  | DOM_SNAPSHOT_FAIL | CONFIG_ERROR | UNKNOWN_ERROR | PARAMETER_MISSING | ENDPOINT_INVALID
  | INVALID_KEY | QUERY_ENCODING_OR_PARAM_ERROR | INVALID_SYMBOL_OR_EMPTY_MARKET_DATA
  | XML_PARAMETER_ERROR | API_RETURNED_HTML_ERROR_PAGE | DYNAMIC_RENDER_REQUIRED
  | SELECTOR_MATCHED_BUT_URL_EMPTY | LOW_EVIDENCE_EXTERNAL_SIGNAL

definition RETRYABLE_ERRORS :: "error_type list" where
  "RETRYABLE_ERRORS =
     [NETWORK_TIMEOUT, NETWORK_CONNECTION_RESET, HTTP_5XX, JS_RENDER_FAIL, LLM_TIMEOUT,
      LLM_RATE_LIMIT]"

definition BLOCKED_ERRORS :: "error_type list" where
  "BLOCKED_ERRORS = [CAPTCHA_DETECTED, LOGIN_WALL_DETECTED, PAYWALL_DETECTED, ROBOTS_BLOCKED]"

record error_record =
  er_source_id :: string
  er_url :: string
  er_attempt_no :: int
  er_strategy :: string
  er_error_type :: error_type
  er_raw_message :: string
  er_screenshot_path :: "string option"
  er_dom_snapshot_path :: "string option"
  er_suggested_fix :: string
  er_retryable :: bool
  er_is_blocker :: bool

text \<open>The constructor: \<open>__post_init__\<close> computes the last two fields.\<close>

definition ErrorRecord ::
  "string \<Rightarrow> string \<Rightarrow> int \<Rightarrow> string \<Rightarrow> error_type \<Rightarrow> string \<Rightarrow> string option \<Rightarrow> string option
   \<Rightarrow> string \<Rightarrow> error_record" where
  "ErrorRecord sid url n strat et msg shot dom_path fix_text =
     \<lparr>er_source_id = sid, er_url = url, er_attempt_no = n, er_strategy = strat,
      er_error_type = et, er_raw_message = msg, er_screenshot_path = shot,
      er_dom_snapshot_path = dom_path, er_suggested_fix = fix_text,
      er_retryable = (et \<in> set RETRYABLE_ERRORS), er_is_blocker = (et \<in> set BLOCKED_ERRORS)\<rparr>"

definition classify_http_error :: "int \<Rightarrow> error_type" where
  "classify_http_error status_code =
     (if status_code = 0 then NETWORK_TIMEOUT
      else if status_code = 401 then INVALID_KEY
      else if status_code = 429 then RATE_LIMITED
      else if 400 \<le> status_code \<and> status_code < 500 then HTTP_4XX
      else if 500 \<le> status_code \<and> status_code < 600 then HTTP_5XX
      else UNKNOWN_ERROR)"

definition captcha_challenge_signals :: "string list" where
  "captcha_challenge_signals =
     [''cf-challenge'', ''just a moment...'', ''enable javascript and cookies to continue'',
      ''hcaptcha.com/1/api.js'', ''__cf_chl_opt'', ''solve the captcha'',
      ''complete the captcha'', ''verify you are human'', ''i'' @ [CHR 0x27] @ ''m not a robot'',
      ''i am not a robot'', ''press and hold to confirm'']"

definition login_signals :: "string list" where
  "login_signals =
     [''sign in to continue'', ''log in to view'', ''login to read'',
      ''please log in to access'', ''you must be logged in'']"

text \<open>The third signal is Korean, written as its UTF-8 bytes.\<close>

definition paywall_signals :: "string list" where
  "paywall_signals =
     [''subscribe to read'', ''subscription required'',
      [CHR 0xEA, CHR 0xB5, CHR 0xAC, CHR 0xEB, CHR 0x8F, CHR 0x85, CHR 0x20,
       CHR 0xED, CHR 0x9B, CHR 0x84, CHR 0x20,
       CHR 0xEC, CHR 0x9D, CHR 0xB4, CHR 0xEC, CHR 0x9A, CHR 0xA9],
      ''subscribe now to access'']"

definition any_in :: "string list \<Rightarrow> string \<Rightarrow> bool" where
  "any_in signals s \<longleftrightarrow> list_ex (\<lambda>sig. contains sig s) signals"

definition classify_content_blocker :: "string \<Rightarrow> error_type option" where
  "classify_content_blocker html_lower =
     (if any_in captcha_challenge_signals html_lower then Some CAPTCHA_DETECTED
      else if any_in login_signals html_lower then Some LOGIN_WALL_DETECTED
      else if any_in paywall_signals html_lower then Some PAYWALL_DETECTED
      else None)"

definition RATE_LIMITED_SIGNALS :: "string list" where
  "RATE_LIMITED_SIGNALS =
     [''429 too many requests'', ''too many requests'', ''rate limit exceeded'', ''rate limited'',
      ''you have been rate limited'', ''temporarily blocked'', ''slow down'', ''quota exceeded'',
      ''limit requests'']"

definition is_rate_limited_text :: "string \<Rightarrow> bool" where
  "is_rate_limited_text text = any_in RATE_LIMITED_SIGNALS (lower text)"

lemma classify_http_error_not_blocked: "classify_http_error c \<notin> set BLOCKED_ERRORS"
  by (simp add: classify_http_error_def BLOCKED_ERRORS_def)

lemma classify_http_error_rate_limited [simp]:
  "classify_http_error c = RATE_LIMITED \<longleftrightarrow> c = 429"
  by (simp add: classify_http_error_def)

lemma retryable_blocked_disjoint: "set RETRYABLE_ERRORS \<inter> set BLOCKED_ERRORS = {}"
  by (simp add: RETRYABLE_ERRORS_def BLOCKED_ERRORS_def)

lemma classify_content_blocker_blocked:
  "classify_content_blocker h = Some e \<Longrightarrow> e \<in> set BLOCKED_ERRORS"
  by (auto simp: classify_content_blocker_def BLOCKED_ERRORS_def split: if_splits)

section \<open>Retry policy\<close>

definition STRATEGY_SEQUENCE :: "string list" where
  "STRATEGY_SEQUENCE =
     [''httpx_direct'', ''httpx_mobile_ua'', ''httpx_random_ua'', ''readability'', ''trafilatura'',
      ''dom_heuristic'', ''playwright_basic'', ''playwright_scroll'',
      ''playwright_wait_network_idle'', ''playwright_click_more'']"

record retry_policy =
  max_attempts :: int
  max_strategies_per_url :: int
  initial_delay_sec :: rat
  max_delay_sec :: rat
  exponential_base :: rat
  retry_on :: "string list"
  per_source_budget :: "(string, int) dict"

text \<open>\<open>RetryPolicy()\<close> with every argument at its default, \<open>__post_init__\<close> included.\<close>

definition default_retry_policy :: retry_policy where
  "default_retry_policy =
     \<lparr>max_attempts = 5, max_strategies_per_url = 3, initial_delay_sec = 2, max_delay_sec = 30,
      exponential_base = 2,
      retry_on = [''NETWORK_TIMEOUT'', ''NETWORK_CONNECTION_RESET'', ''HTTP_5XX'',
        ''JS_RENDER_FAIL'', ''LLM_TIMEOUT'', ''LLM_RATE_LIMIT''],
      per_source_budget = []\<rparr>"

definition budget_for :: "retry_policy \<Rightarrow> string \<Rightarrow> int" where
  "budget_for p source_id = get_or (per_source_budget p) source_id (max_strategies_per_url p)"

fun index_of :: "'a list \<Rightarrow> 'a \<Rightarrow> nat option" where
  "index_of [] x = None"
| "index_of (y # ys) x = (if y = x then Some 0 else map_option Suc (index_of ys x))"

definition next_strategy :: "string \<Rightarrow> string option" where
  "next_strategy current =
     (case index_of STRATEGY_SEQUENCE current of
        None \<Rightarrow> Some (STRATEGY_SEQUENCE ! 0)
      | Some idx \<Rightarrow>
          if idx + 1 < length STRATEGY_SEQUENCE then Some (STRATEGY_SEQUENCE ! (idx + 1)) else None)"

definition delay_for_attempt :: "retry_policy \<Rightarrow> int \<Rightarrow> rat" where
  "delay_for_attempt p attempt_no =
     min (initial_delay_sec p * exponential_base p ^ nat (max 0 (attempt_no - 1))) (max_delay_sec p)"

definition should_retry :: "retry_policy \<Rightarrow> string \<Rightarrow> bool" where
  "should_retry p error_type = (error_type \<in> set (retry_on p))"

text \<open>Following the ladder from a strategy, for at most \<open>fuel\<close> steps.\<close>

fun ladder :: "nat \<Rightarrow> string \<Rightarrow> string list" where
  "ladder 0 s = []"
| "ladder (Suc fuel) s = (case next_strategy s of None \<Rightarrow> [] | Some s' \<Rightarrow> s' # ladder fuel s')"

lemma index_of_Some: "index_of xs x = Some i \<Longrightarrow> i < length xs \<and> xs ! i = x"
  by (induction xs arbitrary: i) (auto split: if_splits)

lemma index_of_None: "index_of xs x = None \<longleftrightarrow> x \<notin> set xs"
  by (induction xs) auto

lemma index_of_nth: "distinct xs \<Longrightarrow> i < length xs \<Longrightarrow> index_of xs (xs ! i) = Some i"
  by (induction xs arbitrary: i) (auto simp: nth_Cons split: nat.splits)

lemma STRATEGY_SEQUENCE_facts: "distinct STRATEGY_SEQUENCE" "length STRATEGY_SEQUENCE = 10"
  by (simp_all add: STRATEGY_SEQUENCE_def)

lemma next_strategy_nth:
  "i < 10 \<Longrightarrow> next_strategy (STRATEGY_SEQUENCE ! i) =
     (if i + 1 < 10 then Some (STRATEGY_SEQUENCE ! (i + 1)) else None)"
  using STRATEGY_SEQUENCE_facts by (simp add: next_strategy_def index_of_nth)

lemma ladder_nth:
  "i < 10 \<Longrightarrow> 10 \<le> i + fuel \<Longrightarrow> ladder fuel (STRATEGY_SEQUENCE ! i) = drop (Suc i) STRATEGY_SEQUENCE"
proof (induction fuel arbitrary: i)
  case 0
  then show ?case by simp
next
  case (Suc fuel)
  show ?case
  proof (cases "i + 1 < 10")
    case True
    with Suc.IH [of "i + 1"] Suc.prems show ?thesis
      by (simp add: next_strategy_nth Cons_nth_drop_Suc STRATEGY_SEQUENCE_facts)
  next
    case False
    with Suc.prems show ?thesis
      by (simp add: next_strategy_nth STRATEGY_SEQUENCE_facts)
  qed
qed

lemma next_strategy_unknown:
  "s \<notin> set STRATEGY_SEQUENCE \<Longrightarrow> next_strategy s = Some (STRATEGY_SEQUENCE ! 0)"
  by (simp add: next_strategy_def index_of_None [symmetric])

text \<open>From any known strategy the ladder goes through the rest of the sequence and stops.\<close>

lemma ladder_visits:
  assumes "s \<in> set STRATEGY_SEQUENCE"
  shows "ladder 10 s = drop (Suc (the (index_of STRATEGY_SEQUENCE s))) STRATEGY_SEQUENCE"
proof -
  obtain i where i: "index_of STRATEGY_SEQUENCE s = Some i"
    using assms index_of_None [of STRATEGY_SEQUENCE s] by (cases "index_of STRATEGY_SEQUENCE s") auto
  from index_of_Some [OF i] STRATEGY_SEQUENCE_facts have "i < 10" "STRATEGY_SEQUENCE ! i = s"
    by simp_all
  with ladder_nth [of i 10] i show ?thesis by simp
qed

lemma delay_for_attempt_mono:
  assumes "1 \<le> exponential_base p" "0 \<le> initial_delay_sec p" "m \<le> n"
  shows "delay_for_attempt p m \<le> delay_for_attempt p n"
proof -
  have "nat (max 0 (m - 1)) \<le> nat (max 0 (n - 1))" using assms(3) by auto
  then have "exponential_base p ^ nat (max 0 (m - 1)) \<le> exponential_base p ^ nat (max 0 (n - 1))"
    using assms(1) by (rule power_increasing)
  then have "initial_delay_sec p * exponential_base p ^ nat (max 0 (m - 1))
      \<le> initial_delay_sec p * exponential_base p ^ nat (max 0 (n - 1))"
    using assms(2) by (rule mult_left_mono)
  then show ?thesis unfolding delay_for_attempt_def by (rule min.mono) simp
qed

lemma delay_for_attempt_le: "delay_for_attempt p n \<le> max_delay_sec p"
  by (simp add: delay_for_attempt_def)

section \<open>Properties\<close>

text \<open>Escalating from any strategy of the sequence visits each later strategy once, in order, and stops:
  the escalation never repeats a strategy and ends within ten steps.\<close>

lemma escalation_ends:
  assumes "s \<in> set STRATEGY_SEQUENCE"
  shows "\<exists>i. STRATEGY_SEQUENCE ! i = s \<and> i < 10 \<and> ladder 10 s = drop (Suc i) STRATEGY_SEQUENCE \<and>
    distinct (s # ladder 10 s)"
proof -
  obtain i where i: "i < 10" "STRATEGY_SEQUENCE ! i = s"
    using assms STRATEGY_SEQUENCE_facts(2) by (auto simp: in_set_conv_nth)
  have "ladder 10 s = drop (Suc i) STRATEGY_SEQUENCE" using ladder_nth [of i 10] i by simp
  moreover have "s # drop (Suc i) STRATEGY_SEQUENCE = drop i STRATEGY_SEQUENCE"
    using i STRATEGY_SEQUENCE_facts(2) Cons_nth_drop_Suc [of i STRATEGY_SEQUENCE] by simp
  ultimately show ?thesis using i distinct_drop [OF STRATEGY_SEQUENCE_facts(1), of i] by auto
qed

theorem escalation_ends_witness:
  "\<exists>i. STRATEGY_SEQUENCE ! i = ''playwright_basic'' \<and> i < 10 \<and>
    ladder 10 ''playwright_basic'' = drop (Suc i) STRATEGY_SEQUENCE \<and>
    distinct (''playwright_basic'' # ladder 10 ''playwright_basic'')"
  using escalation_ends [of "''playwright_basic''"] by (simp add: STRATEGY_SEQUENCE_def)

end
