(* ===== verification/Rate_Gates.thy ===== *)
theory Rate_Gates
  imports Py_Datetime Error_Taxonomy
begin

text \<open>
  The two gates in front of a network call: the host gate
  (\<open>ingestion/orchestration/host_rate_gate.py\<close>), whose file is shared by several processes,
  and the per-source governor (\<open>ingestion/orchestration/rate_limit_governor.py\<close>); and the
  collection of one source that goes through both (\<open>gdelt_strategy.py\<close>).

  A gate object is its in-memory table; the host gate's file is a separate argument, read
  again by every operation. \<open>now\<close> is the injected instant. A stamp read from a file may be
  naive: comparing it raises \<open>TypeError\<close>, which the operations pass on.
\<close>

type_synonym gate_table = "(string, (string, json) dict) dict"

section \<open>The host gate\<close>

definition GDELT_HOST :: string where "GDELT_HOST = ''api.gdeltproject.org''"
definition GDELT_HOST_MIN_SPACING_SECONDS :: int where "GDELT_HOST_MIN_SPACING_SECONDS = 10"

definition HOST_GATED_SOURCES :: "(string, string \<times> int) dict" where
  "HOST_GATED_SOURCES = [(''gdelt'', (GDELT_HOST, GDELT_HOST_MIN_SPACING_SECONDS))]"

record host_gate_decision =
  hd_host :: string
  hd_allowed :: bool
  hd_reason :: "string option"
  hd_last_call_at :: "json option"
  hd_next_allowed_at :: "string option"
  hd_min_spacing_seconds :: int

record host_gate =
  hg_backed :: bool \<comment> \<open>has a state file\<close>
  hg_state :: gate_table

text \<open>\<open>_parse_iso\<close> of this module, which applies \<open>str\<close> first; floats are not read as stamps.\<close>

definition hg_parse_iso :: "json option \<Rightarrow> datetime option" where
  "hg_parse_iso v = (case v of Some (JStr s) \<Rightarrow> parse_iso (Some s)
     | Some (JInt n) \<Rightarrow> if n = 0 then None else parse_iso (Some (int_str n))
     | _ \<Rightarrow> None)"

definition hg_reload :: "host_gate \<Rightarrow> disk_file \<Rightarrow> host_gate" where
  "hg_reload g f =
     (if hg_backed g then (case f of FileJson (JObj raw) \<Rightarrow> g\<lparr>hg_state := obj_entries raw\<rparr> | _ \<Rightarrow> g)
      else g)"

definition hg_open :: "bool \<Rightarrow> disk_file \<Rightarrow> host_gate" where
  "hg_open backed f = hg_reload \<lparr>hg_backed = backed, hg_state = []\<rparr> f"

definition hg_persist :: "host_gate \<Rightarrow> disk_file \<Rightarrow> disk_file" where
  "hg_persist g f = (if hg_backed g then FileJson (entries_json (hg_state g)) else f)"

definition hg_last_iso :: "host_gate \<Rightarrow> string \<Rightarrow> json option" where
  "hg_last_iso g host = dict_get (get_or (hg_state g) host []) ''last_call_at''"

definition hg_decide ::
  "host_gate \<Rightarrow> disk_file \<Rightarrow> string \<Rightarrow> int \<Rightarrow> instant \<Rightarrow> (host_gate \<times> host_gate_decision) res" where
  "hg_decide g0 f host min_spacing_seconds now =
    (let g = hg_reload g0 f;
         last_iso = hg_last_iso g host;
         allow = \<lparr>hd_host = host, hd_allowed = True, hd_reason = None, hd_last_call_at = last_iso,
                  hd_next_allowed_at = None, hd_min_spacing_seconds = min_spacing_seconds\<rparr>
     in case hg_parse_iso last_iso of None \<Rightarrow> Inr (g, allow)
      | Some last_dt \<Rightarrow> bind_res (dt_diff (utc now) last_dt) (\<lambda>elapsed.
          if elapsed < min_spacing_seconds * sec then
            Inr (g, \<lparr>hd_host = host, hd_allowed = False,
              hd_reason = Some (''host_min_spacing_not_elapsed:'' @ int_str (int_seconds elapsed)
                @ ''<'' @ int_str min_spacing_seconds),
              hd_last_call_at = last_iso,
              hd_next_allowed_at = Some (iso_z (dt_add_seconds last_dt min_spacing_seconds)),
              hd_min_spacing_seconds = min_spacing_seconds\<rparr>)
          else Inr (g, allow)))"

definition hg_last_call_at :: "host_gate \<Rightarrow> disk_file \<Rightarrow> string \<Rightarrow> host_gate \<times> json option" where
  "hg_last_call_at g0 f host = (let g = hg_reload g0 f in (g, hg_last_iso g host))"

definition hg_record_call ::
  "host_gate \<Rightarrow> disk_file \<Rightarrow> string \<Rightarrow> instant \<Rightarrow> host_gate \<times> disk_file \<times> string" where
  "hg_record_call g0 f host now =
    (let g = hg_reload g0 f;
         ts = iso_z (utc now);
         g' = g\<lparr>hg_state := dict_set host
                 (dict_set ''last_call_at'' (JStr ts) (get_or (hg_state g) host [])) (hg_state g)\<rparr>
     in (g', hg_persist g' f, ts))"

lemma hg_backed_ops [simp]:
  "hg_backed (hg_reload g f) = hg_backed g"
  "hg_backed (fst (hg_record_call g f h t)) = hg_backed g"
  by (auto simp: hg_reload_def hg_record_call_def Let_def split: disk_file.splits json.splits)

lemma hg_reload_persist [simp]:
  "hg_backed g \<Longrightarrow> hg_backed g' \<Longrightarrow> hg_reload g (hg_persist g' f) = g\<lparr>hg_state := hg_state g'\<rparr>"
  by (simp add: hg_reload_def hg_persist_def entries_json_def)

text \<open>
  What one process records, every process sees: after a recorded call, a decision of any gate
  on the same file is taken against that call, and other hosts keep their last call.
\<close>

lemma hg_last_after_record:
  assumes "hg_backed g" "hg_backed g'" "hg_record_call g f host t = (g1, f1, ts)"
  shows "hg_last_iso (hg_reload g' f1) h =
    (if h = host then Some (JStr (iso_z (utc t))) else hg_last_iso (hg_reload g f) h)"
proof -
  have "hg_backed g1" using assms by (metis fst_conv hg_backed_ops(2))
  with assms show ?thesis
    by (auto simp: hg_record_call_def hg_last_iso_def Let_def get_or_def)
qed

lemma hg_decide_after_record:
  assumes "hg_backed g" "hg_backed g'" "hg_record_call g f host t = (g1, f1, ts)" "in_range t"
  shows "\<exists>g2 d. hg_decide g' f1 host spacing now = Inr (g2, d) \<and>
    hd_allowed d = (spacing * sec \<le> now - (t - t mod sec)) \<and>
    (\<not> hd_allowed d \<longrightarrow> hd_next_allowed_at d = Some (iso_z (utc (t - t mod sec + spacing * sec))))"
  using hg_last_after_record [OF assms(1-3), of host] parse_iso_iso_z [OF assms(4)]
  by (auto simp: hg_decide_def hg_parse_iso_def Let_def not_le)

lemma hg_decide_fresh:
  assumes "hg_last_iso (hg_reload g f) host = None"
  shows "\<exists>d. hg_decide g f host spacing now = Inr (hg_reload g f, d) \<and> hd_allowed d"
  using assms by (simp add: hg_decide_def hg_parse_iso_def Let_def)

section \<open>Several processes on one gate file\<close>

text \<open>
  A process decides and, when allowed, records just before its call. The steps of the
  processes interleave; the file is shared, each process keeps the instant it was allowed at.
\<close>

datatype gate_event = GDecide nat instant | GRecord nat instant

record gate_world =
  gw_file :: disk_file
  gw_allowed :: "nat \<Rightarrow> bool"
  gw_calls :: "instant list" \<comment> \<open>the calls made, latest first\<close>

definition gate_step :: "string \<Rightarrow> int \<Rightarrow> gate_world \<Rightarrow> gate_event \<Rightarrow> gate_world" where
  "gate_step host spacing w e = (case e of
      GDecide p now \<Rightarrow>
        (case hg_decide \<lparr>hg_backed = True, hg_state = []\<rparr> (gw_file w) host spacing now of
           Inl _ \<Rightarrow> w
         | Inr (_, d) \<Rightarrow> w\<lparr>gw_allowed := (gw_allowed w)(p := hd_allowed d)\<rparr>)
    | GRecord p now \<Rightarrow>
        if gw_allowed w p then
          (let (_, f, _) = hg_record_call \<lparr>hg_backed = True, hg_state = []\<rparr> (gw_file w) host now
           in w\<lparr>gw_file := f, gw_allowed := (gw_allowed w)(p := False), gw_calls := now # gw_calls w\<rparr>)
        else w)"

definition gate_run :: "string \<Rightarrow> int \<Rightarrow> gate_world \<Rightarrow> gate_event list \<Rightarrow> gate_world" where
  "gate_run host spacing = foldl (gate_step host spacing)"

definition gate_start :: gate_world where
  "gate_start = \<lparr>gw_file = FileMissing, gw_allowed = (\<lambda>_. False), gw_calls = []\<rparr>"

text \<open>One process's turn with no other process in between.\<close>

definition gate_turn :: "string \<Rightarrow> int \<Rightarrow> gate_world \<Rightarrow> nat \<times> instant \<Rightarrow> gate_world" where
  "gate_turn host spacing w = (\<lambda>(p, now). gate_run host spacing w [GDecide p now, GRecord p now])"

definition gate_turns :: "string \<Rightarrow> int \<Rightarrow> gate_world \<Rightarrow> (nat \<times> instant) list \<Rightarrow> gate_world" where
  "gate_turns host spacing = foldl (gate_turn host spacing)"

fun spaced :: "int \<Rightarrow> instant list \<Rightarrow> bool" where
  "spaced k [] = True"
| "spaced k [t] = True"
| "spaced k (t # u # ts) = (k \<le> t - (u - u mod sec) \<and> spaced k (u # ts))"

definition gate_inv :: "string \<Rightarrow> int \<Rightarrow> gate_world \<Rightarrow> bool" where
  "gate_inv host spacing w \<longleftrightarrow>
     spaced (spacing * sec) (gw_calls w) \<and> list_all in_range (gw_calls w) \<and>
     hg_last_iso (hg_reload \<lparr>hg_backed = True, hg_state = []\<rparr> (gw_file w)) host =
       (case gw_calls w of [] \<Rightarrow> None | t # _ \<Rightarrow> Some (JStr (iso_z (utc t))))"

lemma gate_inv_start: "gate_inv host spacing gate_start"
  by (simp add: gate_inv_def gate_start_def hg_reload_def hg_last_iso_def get_or_def)

lemma gate_turn_inv:
  assumes "gate_inv host spacing w" "in_range now"
  shows "gate_inv host spacing (gate_turn host spacing w (p, now))"
proof -
  let ?g = "\<lparr>hg_backed = True, hg_state = []\<rparr>"
  obtain g1 f1 ts where rc: "hg_record_call ?g (gw_file w) host now = (g1, f1, ts)"
    by (cases "hg_record_call ?g (gw_file w) host now")
  have after: "hg_last_iso (hg_reload ?g f1) host = Some (JStr (iso_z (utc now)))"
    using hg_last_after_record [OF _ _ rc, of ?g host] by simp
  show ?thesis
  proof (cases "gw_calls w")
    case Nil
    with assms rc after show ?thesis
      by (auto simp: gate_turn_def gate_run_def gate_step_def gate_inv_def hg_decide_def
          hg_parse_iso_def Let_def)
  next
    case (Cons t ts')
    then have "in_range t" using assms(1) by (simp add: gate_inv_def)
    note p = parse_iso_iso_z [OF this]
    from Cons assms rc after p show ?thesis
      by (auto simp: gate_turn_def gate_run_def gate_step_def gate_inv_def hg_decide_def
          hg_parse_iso_def Let_def)
  qed
qed

lemma gate_turns_inv:
  "gate_inv host spacing w \<Longrightarrow> list_all (\<lambda>(p, t). in_range t) evs \<Longrightarrow>
   gate_inv host spacing (gate_turns host spacing w evs)"
proof (induction evs arbitrary: w)
  case Nil
  then show ?case by (simp add: gate_turns_def)
next
  case (Cons e evs)
  then show ?case
    using gate_turn_inv [of host spacing w "snd e" "fst e"]
    by (cases e) (simp add: gate_turns_def)
qed

section \<open>Properties\<close>

text \<open>When the turns of the processes that share a gate file do not interleave, any two successive calls
  to the host are at least the spacing apart, the earlier one cut to whole seconds as the file
  keeps it, whatever processes make them and whatever instants they run at.\<close>

lemma atomic_turns_keep_spacing:
  assumes "list_all (\<lambda>(p, t). in_range t) evs"
  shows "spaced (spacing * sec) (gw_calls (gate_turns host spacing gate_start evs))"
  using gate_turns_inv [OF gate_inv_start assms] by (simp add: gate_inv_def)

theorem atomic_turns_keep_spacing_witness:
  "spaced 10000000 (gw_calls (gate_turns ''h'' 10 gate_start [(1, 0), (2, 5000000), (2, 10000000)]))"
  using atomic_turns_keep_spacing [of "[(1, 0), (2, 5000000), (2, 10000000)]" 10 "''h''"]
  by (simp add: sec_def)

text \<open>The gate is not atomic across processes: two that decide before either records both call the
  host at the same instant, which breaks the spacing (the module names this race).\<close>

lemma interleaved_turns_break_spacing:
  "gw_calls (gate_run GDELT_HOST GDELT_HOST_MIN_SPACING_SECONDS gate_start
     [GDecide 1 0, GDecide 2 0, GRecord 1 0, GRecord 2 0]) = [0, 0]"
  by (simp add: gate_run_def gate_step_def gate_start_def hg_decide_def hg_reload_def hg_last_iso_def
      hg_parse_iso_def get_or_def hg_record_call_def Let_def)

text \<open>C19: What one process records binds every other: after a call recorded by a gate on a shared file, a
  gate of any other process on it allows the host exactly when the spacing has passed since that
  call (in whole seconds), and otherwise answers the instant from which it will.\<close>

theorem recorded_call_binds_every_process:
  assumes "hg_backed g" "hg_backed g'" "hg_record_call g f host t = (g1, f1, ts)" "in_range t"
  shows "\<exists>g2 d. hg_decide g' f1 host spacing now = Inr (g2, d) \<and>
    hd_allowed d = (spacing * sec \<le> now - (t - t mod sec)) \<and>
    hd_next_allowed_at d =
      (if hd_allowed d then None else Some (iso_z (utc (t - t mod sec + spacing * sec))))"
  using hg_last_after_record [OF assms(1-3), of host] parse_iso_iso_z [OF assms(4)]
  by (auto simp: hg_decide_def hg_parse_iso_def Let_def not_le)

theorem recorded_call_binds_every_process_witness:
  "\<exists>g2 d. hg_decide (hg_open True FileMissing)
      (fst (snd (hg_record_call (hg_open True FileMissing) FileMissing ''h'' 1500000))) ''h'' 10 9999999
      = Inr (g2, d) \<and> \<not> hd_allowed d \<and> hd_next_allowed_at d = Some (iso_z (utc 11000000))"
  using recorded_call_binds_every_process [of "hg_open True FileMissing" "hg_open True FileMissing"
      FileMissing "''h''" 1500000 _ _ _ 10 9999999]
  by (cases "hg_record_call (hg_open True FileMissing) FileMissing ''h'' 1500000")
    (auto simp: hg_open_def sec_def)

end
