(* ===== verification/Governor.thy ===== *)
theory Governor
  imports Rate_Gates
begin

text \<open>
  The per-source governor of \<open>ingestion/orchestration/rate_limit_governor.py\<close> (call spacing
  and cooldowns in a table that is read once, at construction) and the spaced collection of
  \<open>gdelt_strategy.py\<close>, which asks the governor and the host gate before its probes.
\<close>

definition DEFAULT_COOLDOWN_SECONDS :: "(string, int) dict" where
  "DEFAULT_COOLDOWN_SECONDS =
     [(''near_real_time'', 900), (''short'', 1800), (''medium'', 3600), (''daily'', 21600)]"

definition CONSERVATIVE_COOLDOWN_SECONDS :: int where "CONSERVATIVE_COOLDOWN_SECONDS = 3600"
definition MAX_COOLDOWN_SECONDS :: int where "MAX_COOLDOWN_SECONDS = 86400"

record rate_decision =
  rd_source_id :: string
  rd_allowed :: bool
  rd_reason :: "string option"
  rd_cooldown_until :: "json option"
  rd_min_interval_seconds :: int

type_synonym governor = gate_table

definition gov_open :: "disk_file \<Rightarrow> governor" where
  "gov_open f = (case f of FileJson (JObj raw) \<Rightarrow> obj_entries raw | _ \<Rightarrow> [])"

definition gov_save :: "governor \<Rightarrow> disk_file" where
  "gov_save g = FileJson (entries_json g)"

text \<open>\<open>_parse_iso\<close> of this module calls a string method on any true value.\<close>

definition gov_parse_iso :: "json option \<Rightarrow> datetime option res" where
  "gov_parse_iso v = (case v of None \<Rightarrow> Inr None
    | Some (JStr s) \<Rightarrow> Inr (parse_iso (Some s))
    | Some j \<Rightarrow> if json_truthy j then Inl AttributeError else Inr None)"

definition detect_rate_limit_signal :: "int option \<Rightarrow> string option \<Rightarrow> bool" where
  "detect_rate_limit_signal http_status payload_text =
    ((case http_status of None \<Rightarrow> False | Some c \<Rightarrow> classify_http_error c = RATE_LIMITED) \<or>
     (truthy payload_text \<and>
       (let text = py_take 4000 (the payload_text); low = lower text in
          is_rate_limited_text text \<or>
          (contains ''your query'' low \<and> (contains ''too'' low \<or> contains ''limit'' low)))))"

text \<open>
  A \<open>Retry-After\<close> value: a number, or text. \<open>http_date\<close> is \<open>email.utils.parsedate_to_datetime\<close>
  as an instant, \<^term>\<open>None\<close> where it raises \<open>TypeError\<close> or \<open>ValueError\<close>; \<open>clock\<close> is the real
  clock, which this function reads instead of the injected one.
\<close>

datatype retry_after = RaNone | RaNum rat | RaText string

definition rat_trunc :: "rat \<Rightarrow> int" where
  "rat_trunc r = (if r < 0 then - \<lfloor>- r\<rfloor> else \<lfloor>r\<rfloor>)"

definition extract_retry_after_seconds ::
  "(string \<Rightarrow> instant option) \<Rightarrow> instant \<Rightarrow> retry_after \<Rightarrow> int option" where
  "extract_retry_after_seconds http_date clock ra = (case ra of RaNone \<Rightarrow> None
    | RaNum r \<Rightarrow> Some (max 0 (rat_trunc r))
    | RaText raw \<Rightarrow>
        let s = strip raw in
        if s \<noteq> [] \<and> list_all is_digit s then py_int s
        else case http_date s of None \<Rightarrow> None | Some t \<Rightarrow> Some (max 0 (int_seconds (t - clock))))"

definition gov_decide :: "governor \<Rightarrow> string \<Rightarrow> int \<Rightarrow> instant \<Rightarrow> rate_decision res" where
  "gov_decide g source_id min_interval_seconds now =
    (let entry = get_or g source_id [];
         cooldown_until = dict_get entry ''cooldown_until'';
         mk = (\<lambda>ok rs cd. \<lparr>rd_source_id = source_id, rd_allowed = ok, rd_reason = rs,
                rd_cooldown_until = cd, rd_min_interval_seconds = min_interval_seconds\<rparr>)
     in
     bind_res (gov_parse_iso cooldown_until) (\<lambda>cd.
     bind_res (case cd of None \<Rightarrow> Inr False | Some c \<Rightarrow> dt_gt c (utc now)) (\<lambda>cooling.
       if cooling then
         Inr (mk False (Some (''cooldown_active:'' @
           (case dict_get entry ''reason'' of None \<Rightarrow> ''rate_limited''
            | Some j \<Rightarrow> if json_truthy j then json_show j else ''rate_limited''))) cooldown_until)
       else
         bind_res (gov_parse_iso (dict_get entry ''last_call_at'')) (\<lambda>last_dt.
         bind_res (case last_dt of None \<Rightarrow> Inr None
             | Some l \<Rightarrow> bind_res (dt_diff (utc now) l) (\<lambda>e. Inr (Some e))) (\<lambda>elapsed.
           case elapsed of
             Some e \<Rightarrow>
               if e < min_interval_seconds * sec then
                 Inr (mk False (Some (''min_interval_not_elapsed:'' @ int_str (int_seconds e) @ ''<''
                   @ int_str min_interval_seconds)) None)
               else Inr (mk True None None)
           | None \<Rightarrow> Inr (mk True None None))))))"

definition gov_record_call :: "governor \<Rightarrow> string \<Rightarrow> instant \<Rightarrow> governor" where
  "gov_record_call g source_id now =
     dict_set source_id (dict_set ''last_call_at'' (JStr (iso_z (utc now))) (get_or g source_id [])) g"

definition cooldown_seconds ::
  "(string \<Rightarrow> instant option) \<Rightarrow> instant \<Rightarrow> retry_after \<Rightarrow> string \<Rightarrow> int" where
  "cooldown_seconds http_date clock ra freshness_bucket =
     max 1 (min (case extract_retry_after_seconds http_date clock ra of
         None \<Rightarrow> get_or DEFAULT_COOLDOWN_SECONDS freshness_bucket CONSERVATIVE_COOLDOWN_SECONDS
       | Some n \<Rightarrow> n) MAX_COOLDOWN_SECONDS)"

definition gov_record_rate_limited ::
  "(string \<Rightarrow> instant option) \<Rightarrow> instant \<Rightarrow> governor \<Rightarrow> string \<Rightarrow> retry_after \<Rightarrow> string \<Rightarrow> string
   \<Rightarrow> instant \<Rightarrow> governor \<times> string" where
  "gov_record_rate_limited http_date clock g source_id ra freshness_bucket reason now =
    (let secs = cooldown_seconds http_date clock ra freshness_bucket;
         cooldown_until = iso_z (dt_add_seconds (utc now) secs);
         entry = dict_set ''reason'' (JStr reason)
                  (dict_set ''cooldown_until'' (JStr cooldown_until)
                    (dict_set ''last_call_at'' (JStr (iso_z (utc now))) (get_or g source_id [])))
     in (dict_set source_id entry g, cooldown_until))"

definition gov_cooldown_until :: "governor \<Rightarrow> string \<Rightarrow> json option" where
  "gov_cooldown_until g source_id = dict_get (get_or g source_id []) ''cooldown_until''"

definition gov_clear_cooldown :: "governor \<Rightarrow> string \<Rightarrow> governor" where
  "gov_clear_cooldown g source_id = (case dict_get g source_id of None \<Rightarrow> g
    | Some entry \<Rightarrow>
        if entry = [] then g
        else dict_set source_id (dict_pop ''reason'' (dict_pop ''cooldown_until'' entry)) g)"

section \<open>What the governor promises\<close>

lemma cooldown_seconds_range: "1 \<le> cooldown_seconds hdt c ra b \<and> cooldown_seconds hdt c ra b \<le> 86400"
  by (simp add: cooldown_seconds_def MAX_COOLDOWN_SECONDS_def)

lemma gov_parse_stamp [simp]:
  "in_range t \<Longrightarrow> gov_parse_iso (Some (JStr (iso_z (utc t)))) = Inr (Some (utc (t - t mod sec)))"
  by (simp add: gov_parse_iso_def parse_iso_iso_z)

lemma gov_save_open [simp]: "gov_open (gov_save g) = g"
  by (simp add: gov_open_def gov_save_def entries_json_def)

lemma gov_decide_cooling:
  assumes "gov_record_rate_limited hdt clock g sid ra b rs now = (g', ts)"
    and "secs = cooldown_seconds hdt clock ra b" "in_range (now + secs * sec)"
    and "now' < now + secs * sec - (now + secs * sec) mod sec"
  shows "\<exists>d. gov_decide g' sid k now' = Inr d \<and> \<not> rd_allowed d \<and> rd_cooldown_until d = Some (JStr ts)"
  using assms by (auto simp: gov_record_rate_limited_def gov_decide_def Let_def)

lemma gov_decide_cooled:
  assumes "gov_record_rate_limited hdt clock g sid ra b rs now = (g', ts)"
    and "secs = cooldown_seconds hdt clock ra b" "in_range now" "in_range (now + secs * sec)"
    and "now + secs * sec - (now + secs * sec) mod sec \<le> now'"
  shows "\<exists>d. gov_decide g' sid k now' = Inr d \<and> rd_allowed d = (k * sec \<le> now' - (now - now mod sec))"
  using assms by (auto simp: gov_record_rate_limited_def gov_decide_def Let_def)

lemma gov_decide_spacing:
  assumes "gov_cooldown_until g sid = None" "in_range now"
  shows "\<exists>d. gov_decide (gov_record_call g sid now) sid k now' = Inr d \<and>
    rd_allowed d = (k * sec \<le> now' - (now - now mod sec))"
  using assms
  by (auto simp: gov_record_call_def gov_decide_def gov_cooldown_until_def Let_def gov_parse_iso_def
      parse_iso_iso_z)

lemma gov_other_source:
  "sid' \<noteq> sid \<Longrightarrow> gov_decide (gov_record_call g sid now) sid' k t = gov_decide g sid' k t"
  "sid' \<noteq> sid \<Longrightarrow> gov_decide (fst (gov_record_rate_limited hdt c g sid ra b rs now)) sid' k t
     = gov_decide g sid' k t"
  by (simp_all add: gov_record_call_def gov_record_rate_limited_def gov_decide_def Let_def)

lemma gov_clear:
  "gov_cooldown_until (gov_clear_cooldown g sid) sid = None"
  by (auto simp: gov_clear_cooldown_def gov_cooldown_until_def get_or_def split: option.splits)

section \<open>The spaced collection of one source\<close>

record 'r vendor_result =
  vr_success :: bool
  vr_status_code :: "int option"
  vr_records :: "'r list"
  vr_error :: "string option"
  vr_item_count :: int

record 'r gdelt_result =
  gr_success :: bool
  gr_status_code :: "int option"
  gr_records :: "'r list"
  gr_item_count :: int
  gr_attempts :: "string list"
  gr_final_status :: string
  gr_cooldown_until :: "json option"
  gr_next_resume_at :: "json option"
  gr_error :: "string option"

text \<open>
  The state of a run: the governor, the host gate (if one is given) with its file, and the
  number of calls to the vendor. \<open>vendor_fetch\<close> is the network call, by its query and the
  number of calls made before. \<open>now\<close> is the injected instant of the run.
\<close>

record gdelt_world =
  gd_gov :: governor
  gd_gate :: "host_gate option"
  gd_file :: disk_file
  gd_calls :: nat

definition DEFAULT_LADDER :: "(string \<times> string \<times> int \<times> string) list" where
  "DEFAULT_LADDER =
     [(''broad'', ''climate OR economy OR election'', 5, ''1d''),
      (''single_keyword'', ''economy'', 3, ''6h''),
      (''narrow'', ''election'', 1, ''1h'')]"

definition pending_resume ::
  "int option \<Rightarrow> string list \<Rightarrow> json option \<Rightarrow> string option \<Rightarrow> 'r gdelt_result" where
  "pending_resume status attempts resume err =
     \<lparr>gr_success = False, gr_status_code = status, gr_records = [], gr_item_count = 0,
      gr_attempts = attempts, gr_final_status = ''EXTERNAL_RATE_LIMITED_PENDING_RESUME'',
      gr_cooldown_until = resume, gr_next_resume_at = resume, gr_error = err\<rparr>"

definition gdelt_cool ::
  "gdelt_world \<Rightarrow> string \<Rightarrow> instant \<Rightarrow> gdelt_world \<times> string" where
  "gdelt_cool w reason now =
     (let (g, cd) = gov_record_rate_limited (\<lambda>_. None) now (gd_gov w) ''gdelt'' RaNone
            ''near_real_time'' reason now
      in (w\<lparr>gd_gov := g\<rparr>, cd))"

definition gdelt_record :: "gdelt_world \<Rightarrow> string \<Rightarrow> instant \<Rightarrow> gdelt_world" where
  "gdelt_record w host now =
     (let w1 = (case gd_gate w of None \<Rightarrow> w
          | Some gate \<Rightarrow> (let (gate', f, _) = hg_record_call gate (gd_file w) host now
              in w\<lparr>gd_gate := Some gate', gd_file := f\<rparr>))
      in w1\<lparr>gd_gov := gov_record_call (gd_gov w1) ''gdelt'' now\<rparr>)"

fun gdelt_probes ::
  "(string \<times> int \<times> string \<Rightarrow> nat \<Rightarrow> 'r vendor_result) \<Rightarrow> string \<Rightarrow> instant
   \<Rightarrow> (string \<times> string \<times> int \<times> string) list \<Rightarrow> string list \<Rightarrow> int option \<Rightarrow> string option
   \<Rightarrow> gdelt_world \<Rightarrow> gdelt_world \<times> 'r gdelt_result" where
  "gdelt_probes fetch host now [] attempts last_status last_error w =
     (let (w', cd) = gdelt_cool w
            (''gdelt_no_records:'' @ (case last_error of None \<Rightarrow> ''None'' | Some e \<Rightarrow> e)) now
      in (w', pending_resume last_status attempts (Some (JStr cd)) (Some (or_str last_error ''no_records''))))"
| "gdelt_probes fetch host now ((label, query, limit, timespan) # rest) attempts last_status last_error w =
     (let w1 = gdelt_record w host now;
          res = fetch (query, limit, timespan) (gd_calls w1);
          w2 = w1\<lparr>gd_calls := Suc (gd_calls w1)\<rparr>;
          attempts' = attempts @ [label]
      in if vr_success res \<and> vr_records res \<noteq> [] then
           (w2, \<lparr>gr_success = True, gr_status_code = vr_status_code res, gr_records = vr_records res,
                 gr_item_count = vr_item_count res, gr_attempts = attempts',
                 gr_final_status = ''OFFICIAL_RECORD_ALIVE'', gr_cooldown_until = None,
                 gr_next_resume_at = None, gr_error = None\<rparr>)
         else if vr_status_code res = Some 429 \<or> vr_error res = Some ''provider_rate_limited'' then
           (let (w3, cd) = gdelt_cool w2 ''gdelt_provider_429'' now
            in (w3, pending_resume (vr_status_code res) attempts' (Some (JStr cd))
                  (Some ''provider_rate_limited'')))
         else gdelt_probes fetch host now rest attempts' (vr_status_code res) (vr_error res) w2)"

definition collect_gdelt ::
  "(string \<times> int \<times> string \<Rightarrow> nat \<Rightarrow> 'r vendor_result) \<Rightarrow> int \<Rightarrow> nat \<Rightarrow> instant
   \<Rightarrow> (string \<times> string \<times> int \<times> string) list \<Rightarrow> string \<Rightarrow> int option \<Rightarrow> gdelt_world
   \<Rightarrow> (gdelt_world \<times> 'r gdelt_result) res" where
  "collect_gdelt fetch min_interval_seconds max_probes now ladder_steps host host_min_spacing w =
    (let spacing = (case host_min_spacing of None \<Rightarrow> min_interval_seconds | Some s \<Rightarrow> s);
         run = (\<lambda>w. Inr (gdelt_probes fetch host now (take max_probes ladder_steps) [] None None w))
     in
     bind_res (gov_decide (gd_gov w) ''gdelt'' min_interval_seconds now) (\<lambda>decision.
       if \<not> rd_allowed decision then
         Inr (w, pending_resume None [] (rd_cooldown_until decision) (rd_reason decision))
       else case gd_gate w of None \<Rightarrow> run w
         | Some gate \<Rightarrow> bind_res (hg_decide gate (gd_file w) host spacing now) (\<lambda>(gate', hd).
             let w' = w\<lparr>gd_gate := Some gate'\<rparr> in
             if \<not> hd_allowed hd then
               Inr (w', pending_resume None [] (map_option JStr (hd_next_allowed_at hd))
                 (Some (''host_gate_block:'' @ (case hd_reason hd of None \<Rightarrow> ''None'' | Some r \<Rightarrow> r))))
             else run w')))"

lemma gdelt_probe_cases:
  fixes res :: "'r vendor_result"
  obtains (ok) "vr_success res \<and> vr_records res \<noteq> []"
  | (limited) "\<not> (vr_success res \<and> vr_records res \<noteq> [])"
      "vr_status_code res = Some 429 \<or> vr_error res = Some ''provider_rate_limited''"
  | (next_step) "\<not> (vr_success res \<and> vr_records res \<noteq> [])"
      "\<not> (vr_status_code res = Some 429 \<or> vr_error res = Some ''provider_rate_limited'')"
  by blast

lemma gdelt_world_calls [simp]:
  "gd_calls (gdelt_record w host now) = gd_calls w"
  "gdelt_cool w reason now = (w', cd) \<Longrightarrow> gd_calls w' = gd_calls w"
  by (auto simp: gdelt_record_def gdelt_cool_def Let_def split: option.splits prod.splits)

lemma gdelt_probes_calls:
  "gdelt_probes fetch host now steps att st er w = (w', r) \<Longrightarrow>
   \<exists>n. n \<le> length steps \<and> gd_calls w' = gd_calls w + n \<and> length (gr_attempts r) = length att + n"
proof (induction fetch host now steps att st er w rule: gdelt_probes.induct)
  case (1 fetch host now attempts ls le w)
  then show ?case
    by (auto simp: Let_def pending_resume_def split: prod.splits)
next
  case (2 fetch host now label query limit timespan rest attempts ls le w)
  let ?w1 = "gdelt_record w host now"
  let ?res = "fetch (query, limit, timespan) (gd_calls ?w1)"
  show ?case
  proof (cases rule: gdelt_probe_cases [of ?res])
    case ok
    with "2.prems" show ?thesis by (auto simp: Let_def intro!: exI [of _ 1])
  next
    case limited
    with "2.prems" show ?thesis
      by (auto simp: Let_def pending_resume_def split: prod.splits intro!: exI [of _ 1])
  next
    case next_step
    with "2.prems" have "gdelt_probes fetch host now rest (attempts @ [label]) (vr_status_code ?res)
        (vr_error ?res) (?w1\<lparr>gd_calls := Suc (gd_calls ?w1)\<rparr>) = (w', r)"
      by (simp only: gdelt_probes.simps Let_def next_step if_False)
    from "2.IH" [OF refl refl refl refl next_step this] obtain n where "n \<le> length rest"
      "gd_calls w' = Suc (gd_calls w) + n" "length (gr_attempts r) = Suc (length attempts) + n"
      by auto
    then show ?thesis by (intro exI [of _ "Suc n"]) auto
  qed
qed

text \<open>
  A run that ends without records leaves the governor on a cooldown of 900 seconds, whatever
  the vendor answered.
\<close>

lemma gdelt_cool_blocks:
  assumes "gdelt_cool w reason now = (w', cd)" "in_range (now + 900 * sec)"
    and "now' < now + 900 * sec - (now + 900 * sec) mod sec"
  shows "\<exists>d. gov_decide (gd_gov w') ''gdelt'' k now' = Inr d \<and> \<not> rd_allowed d \<and>
    rd_cooldown_until d = Some (JStr cd)"
proof -
  have s: "900 = cooldown_seconds (\<lambda>_. None) now RaNone ''near_real_time''"
    by (simp add: cooldown_seconds_def extract_retry_after_seconds_def DEFAULT_COOLDOWN_SECONDS_def
        get_or_def MAX_COOLDOWN_SECONDS_def)
  obtain g' where g: "gov_record_rate_limited (\<lambda>_. None) now (gd_gov w) ''gdelt'' RaNone
      ''near_real_time'' reason now = (g', cd)" "gd_gov w' = g'"
    using assms(1) by (auto simp: gdelt_cool_def split: prod.splits)
  from gov_decide_cooling [OF g(1) s assms(2,3)] g(2) show ?thesis by simp
qed

lemma gdelt_probes_fail_cools:
  assumes "gdelt_probes fetch host now steps att st er w = (w', r)" "\<not> gr_success r"
  shows "\<exists>v reason cd. gdelt_cool v reason now = (w', cd) \<and> gr_next_resume_at r = Some (JStr cd)"
  using assms
proof (induction fetch host now steps att st er w rule: gdelt_probes.induct)
  case 1
  then show ?case
    by (force simp: Let_def pending_resume_def split: prod.splits)
next
  case (2 fetch host now label query limit timespan rest attempts ls le w)
  let ?w1 = "gdelt_record w host now"
  let ?res = "fetch (query, limit, timespan) (gd_calls ?w1)"
  show ?case
  proof (cases rule: gdelt_probe_cases [of ?res])
    case ok
    with 2 show ?thesis by (auto simp: Let_def)
  next
    case limited
    with 2 show ?thesis by (force simp: Let_def pending_resume_def split: prod.splits)
  next
    case next_step
    with "2.prems"(1) have "gdelt_probes fetch host now rest (attempts @ [label]) (vr_status_code ?res)
        (vr_error ?res) (?w1\<lparr>gd_calls := Suc (gd_calls ?w1)\<rparr>) = (w', r)"
      by (simp only: gdelt_probes.simps Let_def next_step if_False)
    from "2.IH" [OF refl refl refl refl next_step this "2.prems"(2)] show ?thesis .
  qed
qed

section \<open>Properties\<close>

text \<open>A rate limit that is recorded with any \<open>Retry-After\<close> closes the governor for its source, whatever
  the requested interval, for between one second and a day; from the end of the cooldown (in
  whole seconds) only the spacing since the recorded call decides.\<close>

lemma rate_limit_closes_governor:
  assumes "gov_record_rate_limited hdt clock g sid ra b rs now = (g', ts)"
    and "in_range now" "in_range (now + cooldown_seconds hdt clock ra b * sec)"
  shows "\<exists>secs d. 1 \<le> secs \<and> secs \<le> MAX_COOLDOWN_SECONDS \<and> ts = iso_z (utc (now + secs * sec)) \<and>
    gov_decide g' sid k now' = Inr d \<and>
    rd_allowed d = (now + secs * sec - (now + secs * sec) mod sec \<le> now' \<and>
      k * sec \<le> now' - (now - now mod sec))"
proof -
  define secs where "secs = cooldown_seconds hdt clock ra b"
  have "1 \<le> secs" "secs \<le> MAX_COOLDOWN_SECONDS"
    using cooldown_seconds_range [of hdt clock ra b] by (simp_all add: secs_def MAX_COOLDOWN_SECONDS_def)
  moreover have "ts = iso_z (utc (now + secs * sec))"
    using assms(1) by (auto simp: gov_record_rate_limited_def secs_def Let_def)
  moreover have "\<exists>d. gov_decide g' sid k now' = Inr d \<and>
      rd_allowed d = (now + secs * sec - (now + secs * sec) mod sec \<le> now' \<and>
        k * sec \<le> now' - (now - now mod sec))"
    using gov_decide_cooling [OF assms(1) secs_def, of now' k]
      gov_decide_cooled [OF assms(1) secs_def assms(2), of now' k] assms(3)
    unfolding secs_def [symmetric] by (cases "now + secs * sec - (now + secs * sec) mod sec \<le> now'") auto
  ultimately show ?thesis by blast
qed

theorem rate_limit_closes_governor_witness:
  "\<exists>secs d. 1 \<le> secs \<and> secs \<le> MAX_COOLDOWN_SECONDS \<and>
    snd (gov_record_rate_limited (\<lambda>_. None) 0 [] ''gdelt'' (RaText ''120'') ''daily'' ''429'' 0)
      = iso_z (utc (0 + secs * sec)) \<and>
    gov_decide (fst (gov_record_rate_limited (\<lambda>_. None) 0 [] ''gdelt'' (RaText ''120'') ''daily'' ''429'' 0))
      ''gdelt'' 60 1000000 = Inr d \<and>
    rd_allowed d = (0 + secs * sec - (0 + secs * sec) mod sec \<le> 1000000 \<and> 60 * sec \<le> 1000000 - (0 - 0 mod sec))"
proof -
  have c: "cooldown_seconds (\<lambda>_. None) 0 (RaText ''120'') ''daily'' \<le> 86400"
    "1 \<le> cooldown_seconds (\<lambda>_. None) 0 (RaText ''120'') ''daily''"
    using cooldown_seconds_range by blast+
  then have "in_range (0 + cooldown_seconds (\<lambda>_. None) 0 (RaText ''120'') ''daily'' * sec)"
    by (simp add: sec_def)
  moreover have "in_range 0" by (simp add: sec_def)
  ultimately show ?thesis
    using rate_limit_closes_governor [of "\<lambda>_. None" 0 "[]" "''gdelt''" "RaText ''120''" "''daily''" "''429''" 0
        "fst (gov_record_rate_limited (\<lambda>_. None) 0 [] ''gdelt'' (RaText ''120'') ''daily'' ''429'' 0)"
        "snd (gov_record_rate_limited (\<lambda>_. None) 0 [] ''gdelt'' (RaText ''120'') ''daily'' ''429'' 0)" 60 1000000]
    by simp
qed

text \<open>A GDELT collection calls the vendor at most \<open>max_probes\<close> times, once per attempt it reports, and
  not at all when it ends without an attempt; a collection that ends without records leaves the
  governor closed for the next fifteen minutes whenever it has called the vendor.\<close>

lemma gdelt_collection_is_bounded:
  assumes "collect_gdelt fetch k max_probes now steps host sp w = Inr (w', r)"
    and "in_range (now + 900 * sec)"
  shows "gd_calls w' = gd_calls w + length (gr_attempts r) \<and> length (gr_attempts r) \<le> max_probes \<and>
    (gr_success r \<or> gr_attempts r = [] \<or>
     (\<exists>d. gov_decide (gd_gov w') ''gdelt'' k2 (now + 899 * sec) = Inr d \<and> \<not> rd_allowed d \<and>
        gr_next_resume_at r = rd_cooldown_until d))"
proof -
  have run: ?thesis if probes: "gdelt_probes fetch host now (take max_probes steps) [] None None v = (w', r)"
      and calls: "gd_calls v = gd_calls w" for v
  proof -
    obtain n where n: "n \<le> length (take max_probes steps)" "gd_calls w' = gd_calls v + n"
      "length (gr_attempts r) = n"
      using gdelt_probes_calls [OF probes] by auto
    have "\<exists>d. gov_decide (gd_gov w') ''gdelt'' k2 (now + 899 * sec) = Inr d \<and> \<not> rd_allowed d \<and>
        gr_next_resume_at r = rd_cooldown_until d" if fails: "\<not> gr_success r"
    proof -
      obtain u reason cd where u: "gdelt_cool u reason now = (w', cd)" "gr_next_resume_at r = Some (JStr cd)"
        using gdelt_probes_fail_cools [OF probes fails] by blast
      have "(now + 900 * sec) mod sec < sec" by simp
      then have "now + 899 * sec < now + 900 * sec - (now + 900 * sec) mod sec" by linarith
      from gdelt_cool_blocks [OF u(1) assms(2) this, of k2] u(2) show ?thesis by auto
    qed
    with n calls show ?thesis by auto
  qed
  show ?thesis
  proof (cases "gd_gate w")
    case None
    with assms(1) run [of w] show ?thesis
      by (auto simp: collect_gdelt_def bind_res_Inr_iff pending_resume_def Let_def split: if_splits)
  next
    case (Some gate)
    with assms(1) run show ?thesis
      by (auto simp: collect_gdelt_def bind_res_Inr_iff pending_resume_def Let_def split: if_splits prod.splits)
  qed
qed

definition empty_fetch :: "string \<times> int \<times> string \<Rightarrow> nat \<Rightarrow> unit vendor_result" where
  "empty_fetch q n = \<lparr>vr_success = True, vr_status_code = Some 200, vr_records = [], vr_error = None,
     vr_item_count = 0\<rparr>"

definition gdelt_fresh :: gdelt_world where
  "gdelt_fresh = \<lparr>gd_gov = [], gd_gate = None, gd_file = FileMissing, gd_calls = 0\<rparr>"

theorem gdelt_collection_is_bounded_witness:
  "\<exists>w' r. collect_gdelt empty_fetch 60 2 0 DEFAULT_LADDER GDELT_HOST None gdelt_fresh = Inr (w', r) \<and>
    gd_calls w' = gd_calls gdelt_fresh + length (gr_attempts r) \<and> length (gr_attempts r) \<le> 2 \<and>
    gr_attempts r = [''broad'', ''single_keyword'']"
proof -
  define out where "out = gdelt_probes empty_fetch GDELT_HOST 0 (take 2 DEFAULT_LADDER) [] None None gdelt_fresh"
  have "collect_gdelt empty_fetch 60 2 0 DEFAULT_LADDER GDELT_HOST None gdelt_fresh = Inr (fst out, snd out)"
    by (simp add: collect_gdelt_def out_def gdelt_fresh_def gov_decide_def get_or_def gov_parse_iso_def Let_def)
  moreover have "gr_attempts (snd out) = [''broad'', ''single_keyword'']"
    by (simp add: out_def empty_fetch_def DEFAULT_LADDER_def Let_def pending_resume_def split: prod.splits)
  moreover have "in_range (0 + 900 * sec)" by (simp add: sec_def)
  ultimately show ?thesis
    using gdelt_collection_is_bounded [of empty_fetch 60 2 0 DEFAULT_LADDER GDELT_HOST None gdelt_fresh
        "fst out" "snd out" 0] by blast
qed

end
