(* ===== verification/Scheduler.thy ===== *)
theory Scheduler
  imports Production_State Governor "HOL-Library.Multiset"
begin

text \<open>
  \<open>ingestion/orchestration/production_scheduler.py\<close>: the plan of one production run. The loop
  over the profiles is split into the decision on one profile (\<open>plan_one\<close>) and the collection
  of the decisions (\<open>plan_all\<close>). \<open>now\<close> is the injected instant.

  The lemmas: the sources of the plan are exactly those that pass every guard, in profile
  order and up to the cap; every profile is either due or skipped; the counts by category add
  up to the skipped sources.
\<close>

definition MODE_PRODUCTION :: string where "MODE_PRODUCTION = ''production''"
definition MODE_VALIDATION :: string where "MODE_VALIDATION = ''production-validation''"
definition MODE_DRY_RUN :: string where "MODE_DRY_RUN = ''production-dry-run''"
definition MODE_AUDIT :: string where "MODE_AUDIT = ''audit''"

record production_run_plan =
  rp_run_id :: string
  rp_created_at :: string
  rp_due_sources :: "string list"
  rp_skipped_sources :: "string list"
  rp_skipped_reasons :: "(string, string) dict"
  rp_expected_calls :: nat
  rp_strategy_by_source :: "(string, string) dict"
  rp_mode :: string
  rp_skip_category_counts :: "(string, nat) dict"

definition skip_category :: "string \<Rightarrow> string" where
  "skip_category reason =
     (if startswith reason ''policy_excluded'' then ''skipped_policy''
      else if startswith reason ''dead_end'' then ''skipped_dead_end''
      else if startswith reason ''quarantine'' then ''skipped_quarantine''
      else if startswith reason ''cooldown'' \<or> startswith reason ''rate_limit'' \<or>
          contains ''min_interval'' reason \<or> contains ''EXTERNAL_RATE_LIMITED'' reason \<or>
          contains ''COOLDOWN'' reason then ''skipped_cooldown''
      else if startswith reason ''not_due'' then ''skipped_not_due''
      else if startswith reason ''not_ready'' then ''skipped_not_ready''
      else ''skipped_other'')"

record plan_env =
  pe_states :: "(string, production_source_state) dict"
  pe_memory :: strategy_memories
  pe_last_run :: "(string, datetime option) dict"
  pe_governor :: "governor option"
  pe_now :: instant
  pe_mode :: string

datatype plan_step = PSkip string | PDue "string option"

definition plan_one :: "plan_env \<Rightarrow> source_profile \<Rightarrow> plan_step res" where
  "plan_one env profile =
    (let sid = sp_source_id profile; now = pe_now env in
     case dict_get (pe_states env) sid of None \<Rightarrow> Inr (PSkip ''no_state'')
     | Some state \<Rightarrow>
       if \<not> sp_enabled profile \<or> ps_excluded state then
         Inr (PSkip (''policy_excluded:'' @ or_str (ps_terminal_reason state) ''excluded''))
       else
         let decision = decide_production_strategy sid profile (pe_memory env) (Some state) now in
         if pd_skip decision then
           Inr (PSkip (or_str (pd_skip_reason decision) (''not_ready:'' @ ps_current_status state)))
         else bind_res (is_quarantine_active (ps_quarantine_until state) now) (\<lambda>quarantined.
           if quarantined then
             Inr (PSkip (''quarantine_until:'' @ the (ps_quarantine_until state)))
           else bind_res (case parse_iso (ps_cooldown_until state) of None \<Rightarrow> Inr False
               | Some cd \<Rightarrow> dt_gt cd (utc now)) (\<lambda>cooling.
             if cooling then Inr (PSkip (''cooldown_until:'' @ the (ps_cooldown_until state)))
             else
               let min_interval = sp_min_interval_seconds profile in
               bind_res (case pe_governor env of None \<Rightarrow> Inr None
                   | Some g \<Rightarrow> bind_res (gov_decide g sid min_interval now) (\<lambda>d. Inr (Some d))) (\<lambda>g.
                 case g of
                   Some d \<Rightarrow>
                     if \<not> rd_allowed d then Inr (PSkip (or_str (rd_reason d) ''rate_limit_skip''))
                     else if pe_mode env \<noteq> MODE_VALIDATION \<and>
                        \<not> is_due (utc now) (get_or (pe_last_run env) sid None) min_interval
                       then Inr (PSkip (''not_due:interval_'' @ int_str min_interval @ ''s''))
                     else Inr (PDue (pd_strategy decision))
                 | None \<Rightarrow>
                     if pe_mode env \<noteq> MODE_VALIDATION \<and>
                        \<not> is_due (utc now) (get_or (pe_last_run env) sid None) min_interval
                       then Inr (PSkip (''not_due:interval_'' @ int_str min_interval @ ''s''))
                     else Inr (PDue (pd_strategy decision))))))"

record plan_acc =
  pa_due :: "string list"
  pa_skipped :: "string list"
  pa_reasons :: "(string, string) dict"
  pa_strategies :: "(string, string) dict"

definition plan_add :: "string \<Rightarrow> plan_step \<Rightarrow> plan_acc \<Rightarrow> plan_acc" where
  "plan_add sid step acc = (case step of
      PSkip reason \<Rightarrow>
        acc\<lparr>pa_skipped := pa_skipped acc @ [sid], pa_reasons := dict_set sid reason (pa_reasons acc)\<rparr>
    | PDue strategy \<Rightarrow>
        (let acc1 = acc\<lparr>pa_due := pa_due acc @ [sid]\<rparr> in
         if truthy strategy
         then acc1\<lparr>pa_strategies := dict_set sid (the strategy) (pa_strategies acc1)\<rparr> else acc1))"

fun plan_all :: "plan_env \<Rightarrow> source_profile list \<Rightarrow> plan_acc \<Rightarrow> plan_acc res" where
  "plan_all env [] acc = Inr acc"
| "plan_all env (p # ps) acc =
     bind_res (plan_one env p) (\<lambda>step. plan_all env ps (plan_add (sp_source_id p) step acc))"

text \<open>The position of a slice bound in a list of length \<open>n\<close>.\<close>

definition slice_at :: "int \<Rightarrow> nat \<Rightarrow> nat" where
  "slice_at i n = (if i < 0 then nat (int n + i) else nat i)"

definition cap_due :: "int option \<Rightarrow> plan_acc \<Rightarrow> plan_acc" where
  "cap_due max_sources acc = (case max_sources of None \<Rightarrow> acc
    | Some m \<Rightarrow>
        if m < int (length (pa_due acc)) then
          (let k = slice_at m (length (pa_due acc)); overflow = drop k (pa_due acc) in
           acc\<lparr>pa_due := take k (pa_due acc), pa_skipped := pa_skipped acc @ overflow,
               pa_reasons := foldl (\<lambda>r sid. dict_set sid ''deferred:max_sources_cap'' r) (pa_reasons acc)
                 overflow\<rparr>)
        else acc)"

fun count_categories ::
  "(string, string) dict \<Rightarrow> string list \<Rightarrow> (string, nat) dict \<Rightarrow> (string, nat) dict" where
  "count_categories reasons [] counts = counts"
| "count_categories reasons (sid # sids) counts =
     (let cat = skip_category (get_or reasons sid []) in
      count_categories reasons sids (dict_set cat (get_or counts cat 0 + 1) counts))"

definition build_production_run_plan ::
  "plan_env \<Rightarrow> source_profile list \<Rightarrow> int option \<Rightarrow> string \<Rightarrow> production_run_plan res" where
  "build_production_run_plan env profiles max_sources run_id =
     bind_res (plan_all env profiles \<lparr>pa_due = [], pa_skipped = [], pa_reasons = [], pa_strategies = []\<rparr>)
       (\<lambda>acc0. let acc = cap_due max_sources acc0 in
         Inr \<lparr>rp_run_id = run_id, rp_created_at = iso_z (utc (pe_now env)),
              rp_due_sources = pa_due acc, rp_skipped_sources = pa_skipped acc,
              rp_skipped_reasons = pa_reasons acc, rp_expected_calls = length (pa_due acc),
              rp_strategy_by_source = pa_strategies acc, rp_mode = pe_mode env,
              rp_skip_category_counts = count_categories (pa_reasons acc) (pa_skipped acc) []\<rparr>)"

section \<open>Which sources are due\<close>

text \<open>The guards of the plan, read off the state of a source.\<close>

definition may_start :: "production_source_state \<Rightarrow> instant \<Rightarrow> bool" where
  "may_start s now \<longleftrightarrow> \<not> ps_known_dead_end s \<and>
     (ps_production_ready s \<or>
      ps_current_status s \<in> set RESUMABLE_RATE_LIMIT_STATES \<and> cooldown_elapsed (ps_cooldown_until s) now)"

definition runnable :: "plan_env \<Rightarrow> source_profile \<Rightarrow> bool" where
  "runnable env p \<longleftrightarrow> (case dict_get (pe_states env) (sp_source_id p) of None \<Rightarrow> False
    | Some s \<Rightarrow> sp_enabled p \<and> \<not> ps_excluded s \<and> may_start s (pe_now env) \<and>
        is_quarantine_active (ps_quarantine_until s) (pe_now env) = Inr False \<and>
        (case parse_iso (ps_cooldown_until s) of None \<Rightarrow> True
         | Some cd \<Rightarrow> dt_gt cd (utc (pe_now env)) = Inr False) \<and>
        (case pe_governor env of None \<Rightarrow> True
         | Some g \<Rightarrow> (case gov_decide g (sp_source_id p) (sp_min_interval_seconds p) (pe_now env) of
              Inl _ \<Rightarrow> False | Inr d \<Rightarrow> rd_allowed d)) \<and>
        (pe_mode env = MODE_VALIDATION \<or>
         is_due (utc (pe_now env)) (get_or (pe_last_run env) (sp_source_id p) None)
           (sp_min_interval_seconds p)))"

lemma decide_skip_iff:
  "pd_skip (decide_production_strategy sid p mem (Some s) now) \<longleftrightarrow> \<not> may_start s now"
  by (auto simp: decide_production_strategy_def may_start_def Let_def)

lemma plan_one_due:
  assumes "plan_one env p = Inr step"
  shows "runnable env p \<longleftrightarrow> (\<exists>st. step = PDue st)"
  using assms
  by (auto simp: plan_one_def runnable_def decide_skip_iff Let_def bind_res_Inr_iff
      split: option.splits if_splits sum.splits)

lemma plan_all_due:
  "plan_all env ps acc = Inr acc' \<Longrightarrow>
   pa_due acc' = pa_due acc @ map sp_source_id (filter (runnable env) ps) \<and>
   mset (pa_due acc') + mset (pa_skipped acc') =
     mset (pa_due acc) + mset (pa_skipped acc) + mset (map sp_source_id ps)"
proof (induction ps arbitrary: acc)
  case Nil
  then show ?case by simp
next
  case (Cons p ps)
  then obtain step where step: "plan_one env p = Inr step"
    "plan_all env ps (plan_add (sp_source_id p) step acc) = Inr acc'"
    by (auto simp: bind_res_Inr_iff)
  from Cons.IH [OF step(2)] plan_one_due [OF step(1)] show ?case
    by (cases step) (auto simp: plan_add_def Let_def split: if_splits)
qed

lemma cap_due_mset: "mset (pa_due (cap_due m acc)) + mset (pa_skipped (cap_due m acc))
    = mset (pa_due acc) + mset (pa_skipped acc)"
  by (auto simp: cap_due_def Let_def split: option.splits)
    (metis append_take_drop_id mset_append union_code)

lemma cap_due_take:
  "pa_due (cap_due (Some (int k)) acc) = take k (pa_due acc)"
  "pa_due (cap_due None acc) = pa_due acc"
  by (simp_all add: cap_due_def Let_def slice_at_def)

definition total :: "(string, nat) dict \<Rightarrow> nat" where
  "total counts = sum_list (map snd counts)"

lemma total_bump: "total (dict_set k (get_or counts k 0 + 1) counts) = total counts + 1"
  by (induction counts) (auto simp: total_def get_or_def)

lemma total_categories: "total (count_categories reasons sids counts) = total counts + length sids"
  by (induction reasons sids counts rule: count_categories.induct)
    (simp_all add: Let_def total_bump [simplified])

section \<open>Properties\<close>


text \<open>A plan accounts for every profile: each is either due or skipped, as often as it occurs; the expected
  calls are the due sources, the counts by category add up to the skipped sources.\<close>

lemma plan_accounts_for_every_source:
  assumes "build_production_run_plan env profiles max_sources run_id = Inr plan"
  shows "mset (rp_due_sources plan) + mset (rp_skipped_sources plan) = mset (map sp_source_id profiles) \<and>
    rp_expected_calls plan = length (rp_due_sources plan) \<and>
    total (rp_skip_category_counts plan) = length (rp_skipped_sources plan)"
proof -
  obtain acc where acc: "plan_all env profiles \<lparr>pa_due = [], pa_skipped = [], pa_reasons = [], pa_strategies = []\<rparr>
      = Inr acc" "rp_due_sources plan = pa_due (cap_due max_sources acc)"
    "rp_skipped_sources plan = pa_skipped (cap_due max_sources acc)"
    "rp_expected_calls plan = length (rp_due_sources plan)"
    "rp_skip_category_counts plan
      = count_categories (pa_reasons (cap_due max_sources acc)) (rp_skipped_sources plan) []"
    using assms by (auto simp: build_production_run_plan_def bind_res_Inr_iff Let_def)
  have "mset (pa_due acc) + mset (pa_skipped acc) = mset (map sp_source_id profiles)"
    using conjunct2 [OF plan_all_due [OF acc(1)]] by simp
  then have "mset (rp_due_sources plan) + mset (rp_skipped_sources plan) = mset (map sp_source_id profiles)"
    using cap_due_mset [of max_sources acc] acc(2,3) by simp
  with acc(4,5) show ?thesis by (simp add: total_categories) (simp add: total_def)
qed

text \<open>A source whose health is terminally blocked or quarantined is in no plan built from its derived state,
  at any time and in any mode. For a quarantined source this holds also after its quarantine has
  expired: only a new health state brings it back.\<close>

lemma unhealthy_source_never_planned:
  assumes "build_production_run_plan env profiles (map_option int cap) run_id = Inr plan"
    and "da_health a = Some h" "hs_state h \<in> {BLOCKED_TERMINAL, QUARANTINED_RETRYABLE}"
    and "dict_get (pe_states env) (sp_source_id p) = Some (derive_production_state p a)"
  shows "sp_source_id p \<notin> set (rp_due_sources plan)"
proof -
  have "\<not> may_start (derive_production_state p a) now" for now
  proof (cases "sp_enabled p")
    case True
    have "hs_state h = ''BLOCKED_TERMINAL'' \<or> hs_state h = ''QUARANTINED_RETRYABLE''"
      using assms(3) by (simp add: health_names)
    with True assms(2) show ?thesis
      by (elim disjE) (simp_all add: may_start_def derive_production_state_def HEALTH_TO_STATE_def Let_def
          RESUMABLE_RATE_LIMIT_STATES_def state_names)
  qed (simp add: may_start_def derive_production_state_def Let_def)
  then have "\<not> runnable env q" if "sp_source_id q = sp_source_id p" for q
    using assms(4) that by (simp add: runnable_def)
  then have "sp_source_id p \<notin> set (map sp_source_id (filter (runnable env) profiles))"
    by auto
  moreover have "set (rp_due_sources plan) \<subseteq> set (map sp_source_id (filter (runnable env) profiles))"
  proof -
    obtain acc where acc: "plan_all env profiles \<lparr>pa_due = [], pa_skipped = [], pa_reasons = [], pa_strategies = []\<rparr>
        = Inr acc" "rp_due_sources plan = pa_due (cap_due (map_option int cap) acc)"
      using assms(1) by (auto simp: build_production_run_plan_def bind_res_Inr_iff Let_def)
    with plan_all_due [OF acc(1)] show ?thesis
      by (cases cap) (auto simp: cap_due_take dest: in_set_takeD)
  qed
  ultimately show ?thesis by blast
qed

definition sample_env :: plan_env where
  "sample_env = \<lparr>pe_states = [(''gdelt'', derive_production_state sample_profile sample_args)],
     pe_memory = da_memory sample_args, pe_last_run = [], pe_governor = None, pe_now = 900000000,
     pe_mode = MODE_PRODUCTION\<rparr>"

definition quarantined_args :: derive_args where
  "quarantined_args = sample_args\<lparr>da_health := Some \<lparr>hs_source_id = ''gdelt'', hs_state = QUARANTINED_RETRYABLE,
     hs_failure_count = 3, hs_last_status = None, hs_last_error_category = None, hs_last_checked_at = None,
     hs_next_retry_at = Some ''1970-01-01T06:00:00Z'', hs_reason = ''consecutive_failures:3''\<rparr>\<rparr>"

definition quarantined_env :: plan_env where
  "quarantined_env = sample_env\<lparr>pe_states := [(''gdelt'', derive_production_state sample_profile quarantined_args)],
     pe_now := 90000000000\<rparr>"


theorem plan_accounts_for_every_source_witness:
  "\<exists>plan. build_production_run_plan sample_env [sample_profile, sample_profile] (Some 1) ''r'' = Inr plan \<and>
    mset (rp_due_sources plan) + mset (rp_skipped_sources plan) = {#''gdelt'', ''gdelt''#}"
proof -
  have "case build_production_run_plan sample_env [sample_profile, sample_profile] (Some 1) ''r'' of
      Inl _ \<Rightarrow> False | Inr _ \<Rightarrow> True"
    by code_simp
  then obtain plan where "build_production_run_plan sample_env [sample_profile, sample_profile] (Some 1) ''r'' = Inr plan"
    by (auto split: sum.splits)
  with plan_accounts_for_every_source [OF this] show ?thesis by (simp add: sample_profile_def)
qed

theorem unhealthy_source_never_planned_witness:
  "\<exists>plan. build_production_run_plan quarantined_env [sample_profile] None ''r'' = Inr plan \<and>
    ''gdelt'' \<notin> set (rp_due_sources plan)"
proof -
  have "case build_production_run_plan quarantined_env [sample_profile] None ''r'' of Inl _ \<Rightarrow> False | Inr _ \<Rightarrow> True"
    by code_simp
  then obtain plan where plan: "build_production_run_plan quarantined_env [sample_profile] (map_option int None) ''r''
      = Inr plan"
    by (auto split: sum.splits)
  have "sp_source_id sample_profile = ''gdelt''" by (simp add: sample_profile_def)
  with unhealthy_source_never_planned [OF plan, of quarantined_args _ sample_profile] plan show ?thesis
    by (auto simp: quarantined_args_def quarantined_env_def)
qed

end
