(* ===== verification/Queue.thy ===== *)
theory Queue
  imports Py_Datetime
begin

text \<open>
  The message path of the ingest worker: \<open>workers/queue/producer.py\<close>,
  \<open>workers/pipelines/ingest_pipeline.py\<close>, \<open>workers/queue/consumer.py\<close>, \<open>workers/queue/dlq.py\<close>
  and \<open>workers/tools/run_recovery_scheduler.py\<close>.

  Redis is an outside service: its client is the parameter \<^emph>\<open>client\<close>, a record of actions on a
  state \<^emph>\<open>'s\<close> of which the model knows nothing. What the code relies on is the predicate
  \<open>stream_ok\<close>, over two observers: the messages ever added to each stream, and the messages
  that a group has still to acknowledge. A command that raises may have been carried out or not.
  The JSON text codec (\<open>json.dumps\<close>, \<open>json.loads\<close>) is a parameter as well.

  The lemmas: a failing message is kept, as it was or as a copy with the same payload, whatever
  command raises; it is retried a bounded number of times; the reaper's counts are those of the
  copies it made; what the producer writes, the pipeline reads back.
\<close>

section \<open>Streams\<close>

type_synonym fields = "(string, string) dict"

record 's stream_client =
  sc_xadd :: "string \<Rightarrow> fields \<Rightarrow> ('s, string) act"
  sc_xack :: "string \<Rightarrow> string \<Rightarrow> string \<Rightarrow> ('s, unit) act"
  sc_xautoclaim :: "string \<Rightarrow> string \<Rightarrow> string \<Rightarrow> int \<Rightarrow> string \<Rightarrow> int
    \<Rightarrow> ('s, string \<times> (string \<times> fields option) list) act"

section \<open>Retries and the dead-letter queue\<close>

definition RETRY_FIELD :: string where "RETRY_FIELD = ''_retry_count''"
definition DLQ_REASON_FIELD :: string where "DLQ_REASON_FIELD = ''_dlq_reason''"
definition DLQ_ORIGINAL_ID_FIELD :: string where "DLQ_ORIGINAL_ID_FIELD = ''_original_msg_id''"
definition DLQ_SOURCE_STREAM_FIELD :: string where "DLQ_SOURCE_STREAM_FIELD = ''_source_stream''"
definition DEFAULT_MAX_RETRIES :: int where "DEFAULT_MAX_RETRIES = 3"

lemmas dlq_names = RETRY_FIELD_def DLQ_REASON_FIELD_def DLQ_ORIGINAL_ID_FIELD_def
  DLQ_SOURCE_STREAM_FIELD_def

definition retry_count :: "fields \<Rightarrow> int" where
  "retry_count f = (case dict_get f RETRY_FIELD of None \<Rightarrow> 0
     | Some v \<Rightarrow> (case py_int v of None \<Rightarrow> 0 | Some n \<Rightarrow> n))"

definition retry_fields :: "fields \<Rightarrow> fields" where
  "retry_fields f = dict_set RETRY_FIELD (int_str (retry_count f + 1))
     (filter (\<lambda>(k, v). \<not> startswith k ''_dlq'') f)"

definition dlq_fields :: "string \<Rightarrow> string \<Rightarrow> string \<Rightarrow> fields \<Rightarrow> fields" where
  "dlq_fields stream msg_id reason f =
     dict_set DLQ_SOURCE_STREAM_FIELD stream
       (dict_set DLQ_ORIGINAL_ID_FIELD msg_id
         (dict_set RETRY_FIELD (int_str (retry_count f))
           (dict_set DLQ_REASON_FIELD (py_take 480 reason) f)))"

definition route_failure ::
  "'s stream_client \<Rightarrow> string \<Rightarrow> string \<Rightarrow> string \<Rightarrow> fields \<Rightarrow> string \<Rightarrow> string \<Rightarrow> int
   \<Rightarrow> ('s, string) act" where
  "route_failure client stream grp msg_id f reason dlq_stream max_retries =
     (if retry_count f < max_retries then
        bind_act (sc_xadd client stream (retry_fields f)) (\<lambda>_.
        bind_act (sc_xack client stream grp msg_id) (\<lambda>_. ret_act ''retried''))
      else
        bind_act (sc_xadd client dlq_stream (dlq_fields stream msg_id reason f)) (\<lambda>_.
        bind_act (sc_xack client stream grp msg_id) (\<lambda>_. ret_act ''dead_lettered'')))"

record reap_stats =
  st_claimed :: nat
  st_retried :: nat
  st_dead_lettered :: nat

definition count_outcome :: "string \<Rightarrow> reap_stats \<Rightarrow> reap_stats" where
  "count_outcome outcome st =
     (if outcome = ''retried'' then st\<lparr>st_retried := st_retried st + 1\<rparr>
      else st\<lparr>st_dead_lettered := st_dead_lettered st + 1\<rparr>)"

fun reap_claimed ::
  "'s stream_client \<Rightarrow> string \<Rightarrow> string \<Rightarrow> string \<Rightarrow> int \<Rightarrow> (string \<times> fields option) list \<Rightarrow> reap_stats
   \<Rightarrow> ('s, reap_stats) act" where
  "reap_claimed client stream grp dlq_stream max_retries [] st = ret_act st"
| "reap_claimed client stream grp dlq_stream max_retries ((msg_id, f) # claimed) st =
     bind_act (route_failure client stream grp msg_id (case f of None \<Rightarrow> [] | Some d \<Rightarrow> d)
         ''reaper: stale pending (worker crash / unacked)'' dlq_stream max_retries)
       (\<lambda>outcome. reap_claimed client stream grp dlq_stream max_retries claimed
         (count_outcome outcome (st\<lparr>st_claimed := st_claimed st + 1\<rparr>)))"

text \<open>The loop of \<open>reap_pending\<close>; its bound of 1000 rounds is the first argument.\<close>

fun reap_rounds ::
  "nat \<Rightarrow> 's stream_client \<Rightarrow> string \<Rightarrow> string \<Rightarrow> string \<Rightarrow> int \<Rightarrow> string \<Rightarrow> int \<Rightarrow> int \<Rightarrow> string
   \<Rightarrow> reap_stats \<Rightarrow> ('s, reap_stats) act" where
  "reap_rounds 0 client stream grp consumer min_idle dlq_stream max_retries count cursor st = ret_act st"
| "reap_rounds (Suc n) client stream grp consumer min_idle dlq_stream max_retries count cursor st =
     bind_act (sc_xautoclaim client stream grp consumer min_idle cursor count) (\<lambda>(next_cursor, claimed).
     bind_act (reap_claimed client stream grp dlq_stream max_retries claimed st) (\<lambda>st'.
       if claimed = [] \<or> next_cursor \<in> {''0-0'', ''0''} then ret_act st'
       else reap_rounds n client stream grp consumer min_idle dlq_stream max_retries count
         next_cursor st'))"

definition reap_pending ::
  "'s stream_client \<Rightarrow> string \<Rightarrow> string \<Rightarrow> string \<Rightarrow> int \<Rightarrow> string \<Rightarrow> int \<Rightarrow> int \<Rightarrow> ('s, reap_stats) act" where
  "reap_pending client stream grp consumer min_idle dlq_stream max_retries count =
     reap_rounds 1000 client stream grp consumer min_idle dlq_stream max_retries count ''0-0''
       \<lparr>st_claimed = 0, st_retried = 0, st_dead_lettered = 0\<rparr>"

section \<open>Producer, pipeline and consumer\<close>

record raw_event =
  rw_source :: string
  rw_url :: string
  rw_fetched_at :: datetime
  rw_raw_text :: string
  rw_raw_metadata :: "(string, json) dict"
  rw_raw_event_id :: "string option"

definition RAW_STREAM :: string where "RAW_STREAM = ''stream:raw_events''"
definition TO_AGENT_STREAM :: string where "TO_AGENT_STREAM = ''stream:to_agent''"
definition INGEST_GROUP :: string where "INGEST_GROUP = ''group:ingest''"
definition RAW_DLQ_STREAM :: string where "RAW_DLQ_STREAM = ''stream:raw_events:dlq''"

lemmas stream_names = RAW_STREAM_def TO_AGENT_STREAM_def INGEST_GROUP_def RAW_DLQ_STREAM_def

definition raw_payload :: "(json \<Rightarrow> string) \<Rightarrow> raw_event \<Rightarrow> fields" where
  "raw_payload dumps raw =
     [(''source'', rw_source raw), (''url'', rw_url raw), (''fetched_at'', isoformat (rw_fetched_at raw)),
      (''raw_text'', rw_raw_text raw), (''raw_metadata'', dumps (JObj (rw_raw_metadata raw))),
      (''raw_event_id'', or_str (rw_raw_event_id raw) [])]"

definition enqueue_raw_event ::
  "(json \<Rightarrow> string) \<Rightarrow> 's stream_client \<Rightarrow> raw_event \<Rightarrow> ('s, string) act" where
  "enqueue_raw_event dumps client raw = sc_xadd client RAW_STREAM (raw_payload dumps raw)"

text \<open>
  \<open>process\<close> in two parts: reading the message (\<open>utcnow\<close> is the naive clock that it reads for a
  missing stamp), and forwarding it.
\<close>

definition parse_message ::
  "(string \<Rightarrow> json option) \<Rightarrow> datetime \<Rightarrow> fields \<Rightarrow> raw_event res" where
  "parse_message loads utcnow f =
     (let stamp = get_or f ''fetched_at'' (isoformat utcnow); meta = get_or f ''raw_metadata'' ''{}'' in
      case fromisoformat stamp of
        None \<Rightarrow> Inl (ValueError (''Invalid isoformat string: '' @ py_repr stamp))
      | Some fetched \<Rightarrow> (case loads meta of
          None \<Rightarrow> Inl (ValueError meta)
        | Some (JObj d) \<Rightarrow>
            Inr \<lparr>rw_source = get_or f ''source'' ''unknown'', rw_url = get_or f ''url'' [],
                 rw_fetched_at = fetched, rw_raw_text = get_or f ''raw_text'' [],
                 rw_raw_metadata = d, rw_raw_event_id = non_empty (get_or f ''raw_event_id'' [])\<rparr>
        | Some _ \<Rightarrow> Inl (ExternalError ''ValidationError'')))"

definition process_message ::
  "(json \<Rightarrow> string) \<Rightarrow> (string \<Rightarrow> json option) \<Rightarrow> datetime \<Rightarrow> 's stream_client \<Rightarrow> fields
   \<Rightarrow> ('s, unit) act" where
  "process_message dumps loads utcnow client f = (case parse_message loads utcnow f of
      Inl _ \<Rightarrow> ret_act ()
    | Inr raw \<Rightarrow> bind_act (sc_xadd client TO_AGENT_STREAM (raw_payload dumps raw)) (\<lambda>_. ret_act ()))"

text \<open>One message of the consumer's loop; an error in the failure routing is only logged.\<close>

definition consume_message ::
  "(json \<Rightarrow> string) \<Rightarrow> (string \<Rightarrow> json option) \<Rightarrow> datetime \<Rightarrow> 's stream_client \<Rightarrow> string \<times> fields
   \<Rightarrow> ('s, unit) act" where
  "consume_message dumps loads utcnow client = (\<lambda>(msg_id, f).
     try_act
       (bind_act (process_message dumps loads utcnow client f)
          (\<lambda>_. sc_xack client RAW_STREAM INGEST_GROUP msg_id))
       (\<lambda>exc. try_act
          (bind_act (route_failure client RAW_STREAM INGEST_GROUP msg_id f
              (exn_name exc @ '': '' @ exn_str exc) RAW_DLQ_STREAM 3) (\<lambda>_. ret_act ()))
          (\<lambda>_. ret_act ())))"

fun consume_batch ::
  "(json \<Rightarrow> string) \<Rightarrow> (string \<Rightarrow> json option) \<Rightarrow> datetime \<Rightarrow> 's stream_client
   \<Rightarrow> (string \<times> fields) list \<Rightarrow> ('s, unit) act" where
  "consume_batch dumps loads utcnow client [] = ret_act ()"
| "consume_batch dumps loads utcnow client (m # ms) =
     bind_act (consume_message dumps loads utcnow client m)
       (\<lambda>_. consume_batch dumps loads utcnow client ms)"

section \<open>The recovery scheduler\<close>

text \<open>
  An action of a recovery cycle is a call that returns a JSON object or raises. The cycle keeps
  the results by action name, an error as \<open>{"error": ...}\<close>.
\<close>

fun run_recovery_cycle ::
  "(string \<times> ('s, (string, json) dict) act) list \<Rightarrow> (string, (string, json) dict) dict
   \<Rightarrow> ('s, (string, (string, json) dict) dict) act" where
  "run_recovery_cycle [] results = ret_act results"
| "run_recovery_cycle ((name, fn) # actions) results =
     bind_act (try_act fn (\<lambda>exc. ret_act
         [(''error'', JStr (exn_name exc @ '': '' @ py_take 200 (exn_str exc)))]))
       (\<lambda>r. run_recovery_cycle actions (dict_set name r results))"

definition is_error_result :: "(string, json) dict \<Rightarrow> bool" where
  "is_error_result r \<longleftrightarrow> dict_get r ''error'' \<noteq> None"

text \<open>The exit code of \<open>main --once\<close>.\<close>

definition once_exit_code :: "(string, (string, json) dict) dict \<Rightarrow> int" where
  "once_exit_code results =
     (if results \<noteq> [] \<and> list_all (\<lambda>(name, r). is_error_result r) results then 1 else 0)"

section \<open>What the code relies on\<close>

definition stream_ok ::
  "('s \<Rightarrow> string \<Rightarrow> fields list) \<Rightarrow> ('s \<Rightarrow> (string \<times> string \<times> string) set) \<Rightarrow> 's stream_client \<Rightarrow> bool" where
  "stream_ok entries pending client \<longleftrightarrow>
     (\<forall>stream f s r s'. sc_xadd client stream f s = (r, s') \<longrightarrow>
        pending s' = pending s \<and>
        (entries s' = (entries s)(stream := entries s stream @ [f]) \<or> (\<exists>e. r = Inl e) \<and> entries s' = entries s)) \<and>
     (\<forall>stream g i s r s'. sc_xack client stream g i s = (r, s') \<longrightarrow>
        entries s' = entries s \<and>
        (pending s' = pending s - {(stream, g, i)} \<or> (\<exists>e. r = Inl e) \<and> pending s' = pending s)) \<and>
     (\<forall>stream g c idle start n s r s'. sc_xautoclaim client stream g c idle start n s = (r, s') \<longrightarrow>
        entries s' = entries s)"

lemma stream_ok_xadd_any:
  assumes "stream_ok entries pending client" "sc_xadd client stream f s = (r, s')"
  shows "pending s' = pending s \<and>
    (entries s' = (entries s)(stream := entries s stream @ [f]) \<or> (\<exists>e. r = Inl e) \<and> entries s' = entries s)"
  using conjunct1 [OF iffD1 [OF stream_ok_def assms(1)]] assms(2) by metis

lemma stream_ok_xadd:
  assumes "stream_ok entries pending client" "sc_xadd client stream f s = (Inr i, s')"
  shows "pending s' = pending s" "entries s' = (entries s)(stream := entries s stream @ [f])"
  using stream_ok_xadd_any [OF assms] by auto

lemma stream_ok_xack:
  assumes "stream_ok entries pending client" "sc_xack client stream g i s = (r, s')"
  shows "entries s' = entries s" "pending s - {(stream, g, i)} \<subseteq> pending s'"
proof -
  have "entries s' = entries s \<and> (pending s' = pending s - {(stream, g, i)} \<or>
      (\<exists>e. r = Inl e) \<and> pending s' = pending s)"
    using conjunct1 [OF conjunct2 [OF iffD1 [OF stream_ok_def assms(1)]]] assms(2) by metis
  then show "entries s' = entries s" "pending s - {(stream, g, i)} \<subseteq> pending s'" by auto
qed

lemma stream_ok_claim:
  assumes "stream_ok entries pending client" "sc_xautoclaim client stream g c idle start n s = (r, s')"
  shows "entries s' = entries s"
  using conjunct2 [OF conjunct2 [OF iffD1 [OF stream_ok_def assms(1)]]] assms(2) by metis

section \<open>Messages are kept\<close>

text \<open>The payload of a message: its fields without the bookkeeping of the queue.\<close>

definition payload :: "fields \<Rightarrow> fields" where
  "payload f = filter (\<lambda>(k, v). \<not> startswith k ''_'') f"

lemma payload_set: "startswith k ''_'' \<Longrightarrow> payload (dict_set k v f) = payload f"
  by (induction f) (auto simp: payload_def split: if_splits)

lemma payload_retry [simp]: "payload (retry_fields f) = payload f"
proof -
  have "startswith k ''_''" if "startswith k ''_dlq''" for k :: string
    using that by (cases k) auto
  then have "payload (filter (\<lambda>(k, v). \<not> startswith k ''_dlq'') f) = payload f"
    by (auto simp: payload_def intro!: filter_cong)
  then show ?thesis
    by (simp add: retry_fields_def payload_set RETRY_FIELD_def)
qed

lemma payload_dlq [simp]: "payload (dlq_fields stream i reason f) = payload f"
  by (simp add: dlq_fields_def payload_set dlq_names)

definition kept ::
  "('s \<Rightarrow> string \<Rightarrow> fields list) \<Rightarrow> ('s \<Rightarrow> (string \<times> string \<times> string) set) \<Rightarrow> string \<Rightarrow> string \<Rightarrow> string
   \<Rightarrow> string \<Rightarrow> fields \<Rightarrow> 's \<Rightarrow> bool" where
  "kept entries pending stream g dlq_stream i f s \<longleftrightarrow>
     (stream, g, i) \<in> pending s \<or>
     payload f \<in> payload ` (set (entries s stream) \<union> set (entries s dlq_stream))"

lemma route_failure_kept:
  assumes ok: "stream_ok entries pending client" and p: "(stream, g, i) \<in> pending s"
    and r: "route_failure client stream g i f reason dlq_stream m s = (r, s')"
  shows "kept entries pending stream g dlq_stream i f s'"
proof -
  have main: "kept entries pending stream g dlq_stream i f s'"
    if b: "bind_act (sc_xadd client st fs) (\<lambda>_. bind_act (sc_xack client stream g i) (\<lambda>_. ret_act x)) s = (r, s')"
      and st: "st \<in> {stream, dlq_stream}" "payload fs = payload f" for st fs x
    using b
  proof (cases rule: bind_act_cases)
    case (raised e)
    then show ?thesis
      using stream_ok_xadd_any [OF ok raised(1)] p by (simp add: kept_def)
  next
    case (next_act y s1)
    have "entries s' = entries s1"
      using next_act(2) by (cases rule: bind_act_cases) (auto dest: stream_ok_xack(1) [OF ok])
    then have "fs \<in> set (entries s' st)"
      using stream_ok_xadd(2) [OF ok next_act(1)] by simp
    then have "payload f \<in> payload ` set (entries s' st)" using st(2) by (metis imageI)
    then show ?thesis using st(1) by (auto simp: kept_def)
  qed
  show ?thesis
    using r main [of stream "retry_fields f" "''retried''"]
      main [of dlq_stream "dlq_fields stream i reason f" "''dead_lettered''"]
    by (auto simp: route_failure_def split: if_splits)
qed

lemma route_failure_grows:
  assumes ok: "stream_ok entries pending client"
    and r: "route_failure client stream g i f reason dlq_stream m s = (r, s')"
  shows "set (entries s st) \<subseteq> set (entries s' st)"
proof -
  have add: "set (entries s st) \<subseteq> set (entries s1 st)" if "sc_xadd client a b s = (x, s1)" for a b x s1
  proof -
    have "entries s1 = (entries s)(a := entries s a @ [b]) \<or> entries s1 = entries s"
      using stream_ok_xadd_any [OF ok that] by auto
    then show ?thesis by auto
  qed
  have "set (entries s st) \<subseteq> set (entries s' st)"
    if "bind_act (sc_xadd client a b) (\<lambda>_. bind_act (sc_xack client stream g i) (\<lambda>_. ret_act x)) s = (r, s')"
    for a b x
    using that
  proof (cases rule: bind_act_cases)
    case (raised e)
    then show ?thesis using add by simp
  next
    case (next_act y s1)
    from next_act(2) have "entries s' = entries s1"
      by (cases rule: bind_act_cases) (auto dest: stream_ok_xack(1) [OF ok])
    with add [OF next_act(1)] show ?thesis by simp
  qed
  with r show ?thesis by (auto simp: route_failure_def split: if_splits)
qed

section \<open>Retries are bounded\<close>

lemma retry_count_retry [simp]: "retry_count (retry_fields f) = retry_count f + 1"
  by (simp add: retry_count_def retry_fields_def)

lemma retry_count_iterate: "retry_count ((retry_fields ^^ n) f) = retry_count f + int n"
  by (induction n) simp_all

lemma payload_iterate: "payload ((retry_fields ^^ n) f) = payload f"
  by (induction n) simp_all

section \<open>The reaper's counts\<close>

lemma count_outcome_claimed [simp]: "st_claimed (count_outcome x st) = st_claimed st"
  by (simp add: count_outcome_def)

lemma route_failure_counts:
  assumes ok: "stream_ok entries pending client" and ne: "stream \<noteq> dlq_stream"
    and r: "route_failure client stream g i f reason dlq_stream m s = (Inr x, s')"
  shows "x = ''retried'' \<and> length (entries s' stream) = length (entries s stream) + 1
      \<and> length (entries s' dlq_stream) = length (entries s dlq_stream)
    \<or> x = ''dead_lettered'' \<and> length (entries s' stream) = length (entries s stream)
      \<and> length (entries s' dlq_stream) = length (entries s dlq_stream) + 1"
proof -
  have main: "x = y \<and> entries s' = (entries s)(st := entries s st @ [fs])"
    if b: "bind_act (sc_xadd client st fs) (\<lambda>_. bind_act (sc_xack client stream g i) (\<lambda>_. ret_act y)) s
      = (Inr x, s')" for st fs y
    using b
  proof (cases rule: bind_act_cases)
    case (next_act z s1)
    from next_act(2) have "entries s' = entries s1 \<and> x = y"
      by (cases rule: bind_act_cases) (auto dest: stream_ok_xack(1) [OF ok])
    with stream_ok_xadd(2) [OF ok next_act(1)] show ?thesis by simp
  qed simp
  show ?thesis
    using r ne main [of stream "retry_fields f" "''retried''"]
      main [of dlq_stream "dlq_fields stream i reason f" "''dead_lettered''"]
    by (auto simp: route_failure_def split: if_splits)
qed

text \<open>How the counts of the reaper relate to the streams before and after.\<close>

definition counts_match ::
  "('s \<Rightarrow> string \<Rightarrow> fields list) \<Rightarrow> string \<Rightarrow> string \<Rightarrow> 's \<Rightarrow> reap_stats \<Rightarrow> 's \<Rightarrow> reap_stats \<Rightarrow> bool" where
  "counts_match entries stream dlq_stream s st s' st' \<longleftrightarrow>
     length (entries s' stream) + st_retried st = length (entries s stream) + st_retried st' \<and>
     length (entries s' dlq_stream) + st_dead_lettered st
       = length (entries s dlq_stream) + st_dead_lettered st' \<and>
     st_claimed st' + st_retried st + st_dead_lettered st
       = st_claimed st + st_retried st' + st_dead_lettered st'"

lemma counts_match_refl [simp]: "counts_match entries stream dlq_stream s st s st"
  by (simp add: counts_match_def)

lemma counts_match_trans:
  "counts_match entries stream dlq_stream s st s1 st1 \<Longrightarrow>
   counts_match entries stream dlq_stream s1 st1 s2 st2 \<Longrightarrow> counts_match entries stream dlq_stream s st s2 st2"
  by (simp add: counts_match_def)

lemma reap_claimed_counts:
  assumes ok: "stream_ok entries pending client" and ne: "stream \<noteq> dlq_stream"
  shows "reap_claimed client stream g dlq_stream m claimed st s = (Inr st', s') \<Longrightarrow>
    counts_match entries stream dlq_stream s st s' st'"
proof (induction claimed arbitrary: st s)
  case Nil
  then show ?case by simp
next
  case (Cons c claimed)
  obtain i f where c: "c = (i, f)" by (cases c)
  from Cons.prems show ?case
    unfolding c reap_claimed.simps
  proof (cases rule: bind_act_cases)
    case (next_act x s1)
    have "counts_match entries stream dlq_stream s st s1
        (count_outcome x (st\<lparr>st_claimed := st_claimed st + 1\<rparr>))"
      using route_failure_counts [OF ok ne next_act(1)] by (auto simp: counts_match_def count_outcome_def)
    with Cons.IH [OF next_act(2)] show ?thesis by (rule counts_match_trans [rotated])
  qed simp
qed

lemma reap_rounds_counts:
  assumes ok: "stream_ok entries pending client" and ne: "stream \<noteq> dlq_stream"
  shows "reap_rounds n client stream g consumer idle dlq_stream m count cursor st s = (Inr st', s') \<Longrightarrow>
    counts_match entries stream dlq_stream s st s' st'"
proof (induction n arbitrary: cursor st s)
  case 0
  then show ?case by simp
next
  case (Suc n)
  from Suc.prems show ?case
    unfolding reap_rounds.simps
  proof (cases rule: bind_act_cases)
    case (next_act x s1)
    obtain nc claimed where x: "x = (nc, claimed)" by (cases x)
    have e: "entries s1 = entries s"
      using stream_ok_claim [OF ok next_act(1)] .
    from next_act(2) x have "bind_act (reap_claimed client stream g dlq_stream m claimed st) (\<lambda>st'.
        if claimed = [] \<or> nc \<in> {''0-0'', ''0''} then ret_act st'
        else reap_rounds n client stream g consumer idle dlq_stream m count nc st') s1 = (Inr st', s')"
      by simp
    then show ?thesis
    proof (cases rule: bind_act_cases)
      case (next_act st1 s2)
      from reap_claimed_counts [OF ok ne next_act(1)] have c: "counts_match entries stream dlq_stream s st s2 st1"
        by (simp add: counts_match_def e)
      from next_act(2) have "(st' = st1 \<and> s' = s2) \<or>
          reap_rounds n client stream g consumer idle dlq_stream m count nc st1 s2 = (Inr st', s')"
        by (auto split: if_splits)
      with c Suc.IH [of nc st1 s2] show ?thesis by (auto intro: counts_match_trans)
    qed simp
  qed simp
qed

section \<open>Reading back what was written\<close>

lemma parse_raw_payload:
  assumes "loads (dumps (JObj (rw_raw_metadata raw))) = Some (JObj (rw_raw_metadata raw))"
    and "rw_fetched_at raw = utc t" "in_range t" "rw_raw_event_id raw \<noteq> Some []"
  shows "parse_message loads utcnow (raw_payload dumps raw) = Inr raw"
proof -
  have "non_empty (or_str (rw_raw_event_id raw) []) = rw_raw_event_id raw"
    using assms(4) by (cases "rw_raw_event_id raw") (auto simp: non_empty_def or_str_def)
  then show ?thesis
    using assms(1-3) fromisoformat_isoformat [OF assms(3)]
    by (simp add: parse_message_def raw_payload_def get_or_def Let_def)
qed

lemma process_message_effect:
  assumes ok: "stream_ok entries pending client" and parse: "parse_message loads utcnow f = Inr raw"
    and r: "process_message dumps loads utcnow client f s = (r, s')"
  shows "pending s' = pending s"
    "r = Inr u \<Longrightarrow> raw_payload dumps raw \<in> set (entries s' TO_AGENT_STREAM)"
proof -
  from r have "bind_act (sc_xadd client TO_AGENT_STREAM (raw_payload dumps raw)) (\<lambda>_. ret_act ()) s = (r, s')"
    by (simp add: process_message_def parse)
  then have "pending s' = pending s \<and> (r = Inr u \<longrightarrow> raw_payload dumps raw \<in> set (entries s' TO_AGENT_STREAM))"
    by (cases rule: bind_act_cases) (auto dest: stream_ok_xadd [OF ok] stream_ok_xadd_any [OF ok])
  then show "pending s' = pending s"
    "r = Inr u \<Longrightarrow> raw_payload dumps raw \<in> set (entries s' TO_AGENT_STREAM)" by auto
qed

lemma consume_message_kept:
  assumes ok: "stream_ok entries pending client" and p: "(RAW_STREAM, INGEST_GROUP, i) \<in> pending s"
    and parse: "parse_message loads utcnow f = Inr raw"
    and r: "consume_message dumps loads utcnow client (i, f) s = (r, s')"
  shows "raw_payload dumps raw \<in> set (entries s' TO_AGENT_STREAM) \<or>
    kept entries pending RAW_STREAM INGEST_GROUP RAW_DLQ_STREAM i f s'"
proof -
  have "try_act (bind_act (process_message dumps loads utcnow client f)
        (\<lambda>_. sc_xack client RAW_STREAM INGEST_GROUP i))
      (\<lambda>exc. try_act (bind_act (route_failure client RAW_STREAM INGEST_GROUP i f
          (exn_name exc @ '': '' @ exn_str exc) RAW_DLQ_STREAM 3) (\<lambda>_. ret_act ())) (\<lambda>_. ret_act ())) s = (r, s')"
    using r by (simp add: consume_message_def)
  then show ?thesis
  proof (cases rule: try_act_cases)
    case (returned x)
    from returned(1) show ?thesis
    proof (cases rule: bind_act_cases)
      case (next_act y s1)
      have "raw_payload dumps raw \<in> set (entries s1 TO_AGENT_STREAM)"
        by (rule process_message_effect(2) [OF ok parse next_act(1) refl])
      then show ?thesis using stream_ok_xack(1) [OF ok next_act(2)] by simp
    qed simp
  next
    case (caught e s1)
    have "(RAW_STREAM, INGEST_GROUP, i) \<in> pending s1 \<or> raw_payload dumps raw \<in> set (entries s1 TO_AGENT_STREAM)"
      using caught(1)
    proof (cases rule: bind_act_cases)
      case (raised e')
      have "pending s1 = pending s"
        by (rule process_message_effect(1) [OF ok parse raised(1)])
      with p show ?thesis by simp
    next
      case (next_act y s2)
      have "raw_payload dumps raw \<in> set (entries s2 TO_AGENT_STREAM)"
        by (rule process_message_effect(2) [OF ok parse next_act(1) refl])
      then show ?thesis using stream_ok_xack(1) [OF ok next_act(2)] by simp
    qed
    moreover obtain r2 s2 where r2: "route_failure client RAW_STREAM INGEST_GROUP i f
        (exn_name e @ '': '' @ exn_str e) RAW_DLQ_STREAM 3 s1 = (r2, s2)"
      by (cases "route_failure client RAW_STREAM INGEST_GROUP i f
        (exn_name e @ '': '' @ exn_str e) RAW_DLQ_STREAM 3 s1")
    moreover have "s' = s2"
      using caught(2) r2 by (cases r2) (auto simp: try_act_def bind_act_def)
    moreover have "set (entries s1 TO_AGENT_STREAM) \<subseteq> set (entries s2 TO_AGENT_STREAM)"
      using route_failure_grows [OF ok r2] by blast
    ultimately show ?thesis
      using route_failure_kept [OF ok _ r2] by blast
  qed
qed

lemma route_failure_adds:
  assumes ok: "stream_ok entries pending client"
    and r: "route_failure client stream g i f reason dlq_stream m s = (Inr x, s')"
  shows "if retry_count f < m
    then x = ''retried'' \<and> entries s' = (entries s)(stream := entries s stream @ [retry_fields f])
    else x = ''dead_lettered'' \<and>
      entries s' = (entries s)(dlq_stream := entries s dlq_stream @ [dlq_fields stream i reason f])"
proof -
  have "x = y \<and> entries s' = (entries s)(st := entries s st @ [fs])"
    if b: "bind_act (sc_xadd client st fs) (\<lambda>_. bind_act (sc_xack client stream g i) (\<lambda>_. ret_act y)) s
      = (Inr x, s')" for st fs y
    using b
  proof (cases rule: bind_act_cases)
    case (next_act z s1)
    from next_act(2) have "entries s' = entries s1 \<and> x = y"
      by (cases rule: bind_act_cases) (auto dest: stream_ok_xack(1) [OF ok])
    with stream_ok_xadd(2) [OF ok next_act(1)] show ?thesis by simp
  qed simp
  with r show ?thesis by (auto simp: route_failure_def split: if_splits)
qed

lemma recovery_cycle_total:
  "\<exists>results' s'. run_recovery_cycle actions results s = (Inr results', s') \<and>
     fst ` set results' = fst ` set actions \<union> fst ` set results"
proof (induction actions arbitrary: results s)
  case Nil
  then show ?case by simp
next
  case (Cons a actions)
  obtain name fn where a: "a = (name, fn)" by (cases a)
  obtain r s1 where "try_act fn (\<lambda>exc. ret_act
      [(''error'', JStr (exn_name exc @ '': '' @ py_take 200 (exn_str exc)))]) s = (Inr r, s1)"
  proof -
    obtain x s2 where "fn s = (x, s2)" by (cases "fn s")
    then show thesis by (cases x) (simp_all add: try_act_def that)
  qed
  then have "run_recovery_cycle (a # actions) results s = run_recovery_cycle actions (dict_set name r results) s1"
    by (simp add: a bind_act_def)
  then show ?case using Cons.IH [of "dict_set name r results" s1] by (simp add: a)
qed

section \<open>A stream to evaluate on\<close>

text \<open>
  A small stream that satisfies \<open>stream_ok\<close>: messages with their stream and id, and the messages
  delivered and not acknowledged. The witnesses of the properties run on it.
\<close>

record stream_state =
  ref_log :: "(string \<times> string \<times> fields) list"
  ref_delivered :: "(string \<times> string \<times> string) list"

definition ref_client :: "stream_state stream_client" where
  "ref_client = \<lparr>
     sc_xadd = (\<lambda>st f s. let i = nat_str (length (ref_log s)) in
       (Inr i, s\<lparr>ref_log := ref_log s @ [(st, i, f)]\<rparr>)),
     sc_xack = (\<lambda>st g i s. (Inr (), s\<lparr>ref_delivered := filter (\<lambda>p. p \<noteq> (st, g, i)) (ref_delivered s)\<rparr>)),
     sc_xautoclaim = (\<lambda>st g c idle start n s.
       (Inr (''0-0'', map (\<lambda>(st', g', i). (i, map_of (map snd (ref_log s)) i))
          (filter (\<lambda>(st', g', i). st' = st \<and> g' = g) (ref_delivered s))), s))\<rparr>"

definition ref_entries :: "stream_state \<Rightarrow> string \<Rightarrow> fields list" where
  "ref_entries s st = map (snd \<circ> snd) (filter (\<lambda>e. fst e = st) (ref_log s))"

definition ref_pending :: "stream_state \<Rightarrow> (string \<times> string \<times> string) set" where
  "ref_pending s = set (ref_delivered s)"

lemma ref_client_ok: "stream_ok ref_entries ref_pending ref_client"
  by (auto simp: stream_ok_def ref_client_def ref_entries_def ref_pending_def Let_def fun_eq_iff)

definition sample_raw :: raw_event where
  "sample_raw = \<lparr>rw_source = ''rss:bbc'', rw_url = ''https://x'', rw_fetched_at = utc 1500000,
     rw_raw_text = ''text'', rw_raw_metadata = [], rw_raw_event_id = Some ''id-1''\<rparr>"

definition ref_dumps :: "json \<Rightarrow> string" where "ref_dumps j = ''{}''"
definition ref_loads :: "string \<Rightarrow> json option" where
  "ref_loads s = (if s = ''{}'' then Some (JObj []) else None)"

definition ref_start :: stream_state where
  "ref_start = \<lparr>ref_log = [(RAW_STREAM, ''0'', raw_payload ref_dumps sample_raw)],
     ref_delivered = [(RAW_STREAM, INGEST_GROUP, ''0'')]\<rparr>"

lemma sample_message: "parse_message ref_loads (utc 0) (raw_payload ref_dumps sample_raw) = Inr sample_raw"
  by (rule parse_raw_payload [of _ _ _ 1500000]) (simp_all add: sample_raw_def ref_loads_def ref_dumps_def)

section \<open>Properties\<close>

text \<open>C5: A well-formed message that the consumer handles is never lost, whichever Redis command raises and whether
  or not that command was carried out: it is forwarded to the agents, or still pending in its
  group, or a copy with the same payload is in its stream or in the dead-letter stream.\<close>

theorem consumed_message_is_kept:
  assumes "stream_ok entries pending client" "(RAW_STREAM, INGEST_GROUP, i) \<in> pending s"
    and "parse_message loads utcnow f = Inr raw"
    and "consume_message dumps loads utcnow client (i, f) s = (r, s')"
  shows "raw_payload dumps raw \<in> set (entries s' TO_AGENT_STREAM) \<or>
    (RAW_STREAM, INGEST_GROUP, i) \<in> pending s' \<or>
    payload f \<in> payload ` (set (entries s' RAW_STREAM) \<union> set (entries s' RAW_DLQ_STREAM))"
  using consume_message_kept [OF assms] by (simp add: kept_def)

theorem consumed_message_is_kept_witness:
  "\<exists>r s'. consume_message ref_dumps ref_loads (utc 0) ref_client (''0'', raw_payload ref_dumps sample_raw) ref_start
      = (r, s') \<and>
    (raw_payload ref_dumps sample_raw \<in> set (ref_entries s' TO_AGENT_STREAM) \<or>
     (RAW_STREAM, INGEST_GROUP, ''0'') \<in> ref_pending s' \<or>
     payload (raw_payload ref_dumps sample_raw)
       \<in> payload ` (set (ref_entries s' RAW_STREAM) \<union> set (ref_entries s' RAW_DLQ_STREAM)))"
proof -
  obtain r s' where run: "consume_message ref_dumps ref_loads (utc 0) ref_client
      (''0'', raw_payload ref_dumps sample_raw) ref_start = (r, s')"
    by (cases "consume_message ref_dumps ref_loads (utc 0) ref_client
      (''0'', raw_payload ref_dumps sample_raw) ref_start")
  have "(RAW_STREAM, INGEST_GROUP, ''0'') \<in> ref_pending ref_start"
    by (simp add: ref_pending_def ref_start_def)
  from consumed_message_is_kept [OF ref_client_ok this sample_message run] run show ?thesis by blast
qed

text \<open>A message that cannot be parsed is acknowledged and gone: no copy of it is added to any stream, neither
  for a retry nor in the dead-letter stream.\<close>

lemma malformed_message_is_dropped:
  assumes "stream_ok entries pending client" "parse_message loads utcnow f = Inl e"
    and "sc_xack client RAW_STREAM INGEST_GROUP i s = (Inr u, s1)"
  shows "consume_message dumps loads utcnow client (i, f) s = (Inr u, s1) \<and> entries s1 = entries s"
  using assms(2,3) stream_ok_xack(1) [OF assms(1,3)]
  by (simp add: consume_message_def process_message_def try_act_def bind_act_def)

theorem malformed_message_is_dropped_witness:
  "\<exists>s1. consume_message ref_dumps ref_loads (utc 0) ref_client (''0'', [(''fetched_at'', ''yesterday'')]) ref_start
      = (Inr (), s1) \<and> ref_entries s1 = ref_entries ref_start"
proof -
  obtain s1 where a: "sc_xack ref_client RAW_STREAM INGEST_GROUP ''0'' ref_start = (Inr (), s1)"
    by (simp add: ref_client_def)
  have "\<exists>e. parse_message ref_loads (utc 0) [(''fetched_at'', ''yesterday'')] = Inl e"
  proof -
    have "fromisoformat ''yesterday'' = None" by code_simp
    then show ?thesis by (simp add: parse_message_def get_or_def Let_def)
  qed
  then obtain e where e: "parse_message ref_loads (utc 0) [(''fetched_at'', ''yesterday'')] = Inl e" by blast
  from malformed_message_is_dropped [OF ref_client_ok e a] show ?thesis by blast
qed

text \<open>A message that keeps failing is retried at most until its counter reaches the limit: the \<open>n\<close>-th failure
  adds the next copy to the stream while the counter is below the limit, with the counter one
  higher, and otherwise moves the message to the dead-letter stream.\<close>

lemma poison_message_dead_letters:
  assumes "stream_ok entries pending client"
    and "route_failure client stream g i ((retry_fields ^^ n) f) reason dlq_stream m s = (Inr x, s')"
  shows "if retry_count f + int n < m
    then x = ''retried'' \<and>
      entries s' = (entries s)(stream := entries s stream @ [(retry_fields ^^ Suc n) f]) \<and>
      retry_count ((retry_fields ^^ Suc n) f) = retry_count f + int n + 1
    else x = ''dead_lettered'' \<and> entries s' = (entries s)(dlq_stream :=
      entries s dlq_stream @ [dlq_fields stream i reason ((retry_fields ^^ n) f)])"
  using route_failure_adds [OF assms] by (simp add: retry_count_iterate)

theorem poison_message_dead_letters_witness:
  "\<exists>s'. route_failure ref_client RAW_STREAM INGEST_GROUP ''0'' ((retry_fields ^^ 3) [(''url'', ''u'')]) ''boom''
      RAW_DLQ_STREAM DEFAULT_MAX_RETRIES ref_start = (Inr ''dead_lettered'', s') \<and>
    ref_entries s' = (ref_entries ref_start)(RAW_DLQ_STREAM := ref_entries ref_start RAW_DLQ_STREAM @
      [dlq_fields RAW_STREAM ''0'' ''boom'' ((retry_fields ^^ 3) [(''url'', ''u'')])])"
proof -
  have c: "retry_count [(''url'', ''u'')] = 0" by (simp add: retry_count_def RETRY_FIELD_def)
  obtain x s' where run: "route_failure ref_client RAW_STREAM INGEST_GROUP ''0'' ((retry_fields ^^ 3) [(''url'', ''u'')])
      ''boom'' RAW_DLQ_STREAM DEFAULT_MAX_RETRIES ref_start = (Inr x, s')"
    using retry_count_iterate [of 3 "[(''url'', ''u'')]"] c
    by (simp add: route_failure_def bind_act_def ref_client_def DEFAULT_MAX_RETRIES_def Let_def
        del: funpow.simps)
  from poison_message_dead_letters [OF ref_client_ok run] run c show ?thesis
    by (simp add: DEFAULT_MAX_RETRIES_def del: funpow.simps)
qed

text \<open>The statistics of the reaper are exact: the messages it reports as retried and as dead-lettered are those
  it added to the two streams, and together they are the messages it claimed.\<close>

lemma reaper_counts_are_exact:
  assumes "stream_ok entries pending client" "stream \<noteq> dlq_stream"
    and "reap_pending client stream g consumer idle dlq_stream m count s = (Inr st, s')"
  shows "length (entries s' stream) = length (entries s stream) + st_retried st \<and>
    length (entries s' dlq_stream) = length (entries s dlq_stream) + st_dead_lettered st \<and>
    st_claimed st = st_retried st + st_dead_lettered st"
proof -
  have "counts_match entries stream dlq_stream s \<lparr>st_claimed = 0, st_retried = 0, st_dead_lettered = 0\<rparr> s' st"
    using assms(3) unfolding reap_pending_def by (rule reap_rounds_counts [OF assms(1,2)])
  then show ?thesis by (simp add: counts_match_def)
qed

theorem reaper_counts_are_exact_witness:
  "\<exists>st s'. reap_pending ref_client RAW_STREAM INGEST_GROUP ''r'' 60000 RAW_DLQ_STREAM 3 100 ref_start = (Inr st, s') \<and>
    st_claimed st = 1 \<and> length (ref_entries s' RAW_STREAM) = 2"
proof -
  have one: "\<exists>s'. reap_rounds (Suc k) ref_client RAW_STREAM INGEST_GROUP ''r'' 60000 RAW_DLQ_STREAM 3 100 ''0-0''
      \<lparr>st_claimed = 0, st_retried = 0, st_dead_lettered = 0\<rparr> ref_start
      = (Inr \<lparr>st_claimed = 1, st_retried = 1, st_dead_lettered = 0\<rparr>, s')" for k
    by (simp add: bind_act_def ref_client_def ref_start_def route_failure_def retry_count_def
        count_outcome_def raw_payload_def RETRY_FIELD_def Let_def)
  then obtain s' where "reap_pending ref_client RAW_STREAM INGEST_GROUP ''r'' 60000 RAW_DLQ_STREAM 3 100 ref_start
      = (Inr \<lparr>st_claimed = 1, st_retried = 1, st_dead_lettered = 0\<rparr>, s')"
    using one [of 999] by (auto simp: reap_pending_def)
  moreover have "RAW_STREAM \<noteq> RAW_DLQ_STREAM" by (simp add: stream_names)
  moreover have "length (ref_entries ref_start RAW_STREAM) = 1" by (simp add: ref_entries_def ref_start_def)
  ultimately show ?thesis
    using reaper_counts_are_exact [OF ref_client_ok, of RAW_STREAM RAW_DLQ_STREAM INGEST_GROUP "''r''" 60000 3 100 ref_start]
    by fastforce
qed

text \<open>What the producer writes to the stream, the pipeline reads back as the same event, for every event fetched
  at a UTC instant whose metadata survives the JSON codec.\<close>

lemma producer_pipeline_roundtrip:
  assumes "loads (dumps (JObj (rw_raw_metadata raw))) = Some (JObj (rw_raw_metadata raw))"
    and "rw_fetched_at raw = utc t" "in_range t" "rw_raw_event_id raw \<noteq> Some []"
  shows "parse_message loads utcnow (raw_payload dumps raw) = Inr raw"
  using assms by (rule parse_raw_payload)

text \<open>A recovery cycle runs every action and reports a result for each, whatever the actions raise; the cycle
  itself never raises.\<close>

lemma recovery_cycle_isolates_failures:
  "\<exists>results s'. run_recovery_cycle actions [] s = (Inr results, s') \<and> fst ` set results = fst ` set actions"
  using recovery_cycle_total [of actions "[]" s] by simp

end
