(* ===== verification/Raw_Events.thy ===== *)
theory Raw_Events
  imports Queue
begin

text \<open>
  The raw event store: \<open>backend/app/services/raw_event_service.py\<close> and
  \<open>reconciler_service.py\<close>. The table \<open>raw_events\<close> is a list of rows in the order of
  insertion; a statement of the code is an operation on that list, and statements do not fail.
  The world of an operation is the table with the state of the stream client; \<open>now\<close> is what the
  clock returns. A new row's id (\<open>uuid4\<close>) is an argument.

  The step relation \<open>raw_step\<close> holds the operations that the API offers; the invariant of the
  table is proved for every world they reach.
\<close>

section \<open>The table\<close>

record raw_row =
  row_id :: string
  row_source_type :: string
  row_source_name :: string
  row_external_id :: "string option"
  row_url :: string
  row_title :: "string option"
  row_raw_text :: string
  row_published_at :: "instant option"
  row_collected_at :: instant
  row_content_hash :: string
  row_theme_hint :: "string option"
  row_status :: string
  row_enqueued_msg_id :: "string option"
  row_error_reason :: "string option"
  row_event_card_id :: "string option"
  row_processed_at :: "instant option"
  row_raw_metadata :: "(string, json) dict"
  row_created_at :: instant
  row_updated_at :: instant

record raw_event_create =
  rc_source_type :: string
  rc_source_name :: string
  rc_external_id :: "string option"
  rc_url :: string
  rc_title :: "string option"
  rc_raw_text :: string
  rc_published_at :: "instant option"
  rc_content_hash :: string
  rc_theme_hint :: "string option"
  rc_raw_metadata :: "(string, json) dict"

record create_response =
  cr_record :: raw_row
  cr_is_duplicate :: bool
  cr_enqueued_msg_id :: "string option"

record 's raw_world =
  db_rows :: "raw_row list"
  db_queue :: 's

definition MAX_URL_LEN :: nat where "MAX_URL_LEN = 2048"
definition XADD_FAILED_PREFIX :: string where "XADD_FAILED_PREFIX = ''xadd_failed:''"

definition update_where :: "(raw_row \<Rightarrow> bool) \<Rightarrow> (raw_row \<Rightarrow> raw_row) \<Rightarrow> raw_row list \<Rightarrow> raw_row list" where
  "update_where p f rows = map (\<lambda>r. if p r then f r else r) rows"

definition row_by_id :: "raw_row list \<Rightarrow> string \<Rightarrow> raw_row option" where
  "row_by_id rows i = find (\<lambda>r. row_id r = i) rows"

definition set_row :: "string \<Rightarrow> (raw_row \<Rightarrow> raw_row) \<Rightarrow> 's raw_world \<Rightarrow> 's raw_world" where
  "set_row i f w = w\<lparr>db_rows := update_where (\<lambda>r. row_id r = i) f (db_rows w)\<rparr>"

text \<open>An action of the stream client, inside the world.\<close>

definition on_queue :: "('s, 'a) act \<Rightarrow> ('s raw_world, 'a) act" where
  "on_queue m = (\<lambda>w. case m (db_queue w) of (r, q) \<Rightarrow> (r, w\<lparr>db_queue := q\<rparr>))"

section \<open>The service\<close>

definition new_row :: "string \<Rightarrow> instant \<Rightarrow> raw_event_create \<Rightarrow> raw_row" where
  "new_row i now p =
     \<lparr>row_id = i, row_source_type = rc_source_type p, row_source_name = rc_source_name p,
      row_external_id = rc_external_id p, row_url = py_take MAX_URL_LEN (rc_url p),
      row_title = rc_title p, row_raw_text = rc_raw_text p, row_published_at = rc_published_at p,
      row_collected_at = now, row_content_hash = rc_content_hash p, row_theme_hint = rc_theme_hint p,
      row_status = ''collected'', row_enqueued_msg_id = None, row_error_reason = None,
      row_event_card_id = None, row_processed_at = None, row_raw_metadata = rc_raw_metadata p,
      row_created_at = now, row_updated_at = now\<rparr>"

definition insert_row :: "raw_row \<Rightarrow> raw_row list \<Rightarrow> raw_row list" where
  "insert_row r rows =
     (if \<exists>x \<in> set rows. row_content_hash x = row_content_hash r then rows else rows @ [r])"

definition event_of_new :: "instant \<Rightarrow> raw_event_create \<Rightarrow> raw_row \<Rightarrow> raw_event" where
  "event_of_new now p r =
     \<lparr>rw_source = ''rss:'' @ rc_source_name p, rw_url = row_url r, rw_fetched_at = utc now,
      rw_raw_text = rc_raw_text p, rw_raw_metadata = rc_raw_metadata p, rw_raw_event_id = Some (row_id r)\<rparr>"

definition mark_enqueued :: "string \<Rightarrow> instant \<Rightarrow> raw_row \<Rightarrow> raw_row" where
  "mark_enqueued msg now r = r\<lparr>row_status := ''enqueued'', row_enqueued_msg_id := Some msg, row_updated_at := now\<rparr>"

definition mark_xadd_failed :: "string \<Rightarrow> instant \<Rightarrow> raw_row \<Rightarrow> raw_row" where
  "mark_xadd_failed msg now r =
     r\<lparr>row_status := ''failed'', row_error_reason := Some (''xadd_failed: '' @ py_take 480 msg),
       row_updated_at := now\<rparr>"

text \<open>The part of \<open>create_raw_event\<close> after the insertion, for a row that is new.\<close>

definition publish_new ::
  "(json \<Rightarrow> string) \<Rightarrow> 's stream_client \<Rightarrow> instant \<Rightarrow> raw_event_create \<Rightarrow> raw_row
   \<Rightarrow> ('s raw_world, create_response) act" where
  "publish_new dumps client now p r = (\<lambda>w.
     case on_queue (enqueue_raw_event dumps client (event_of_new now p r)) w of
       (Inr msg, w1) \<Rightarrow>
         (Inr \<lparr>cr_record = mark_enqueued msg now r, cr_is_duplicate = False, cr_enqueued_msg_id = Some msg\<rparr>,
          set_row (row_id r) (mark_enqueued msg now) w1)
     | (Inl exc, w1) \<Rightarrow>
         (Inr \<lparr>cr_record = mark_xadd_failed (exn_str exc) now r, cr_is_duplicate = False,
               cr_enqueued_msg_id = None\<rparr>,
          set_row (row_id r) (mark_xadd_failed (exn_str exc) now) w1))"

definition create_raw_event ::
  "(json \<Rightarrow> string) \<Rightarrow> 's stream_client \<Rightarrow> string \<Rightarrow> instant \<Rightarrow> raw_event_create
   \<Rightarrow> ('s raw_world, create_response) act" where
  "create_raw_event dumps client new_id now p = (\<lambda>w0.
     let w = w0\<lparr>db_rows := insert_row (new_row new_id now p) (db_rows w0)\<rparr> in
     case find (\<lambda>r. row_content_hash r = rc_content_hash p) (db_rows w) of
       None \<Rightarrow> (Inl (NoResultFound ''No row was found when one was required''), w)
     | Some r \<Rightarrow>
       if row_id r \<noteq> new_id then
         (Inr \<lparr>cr_record = r, cr_is_duplicate = True, cr_enqueued_msg_id = None\<rparr>, w)
       else publish_new dumps client now p r w)"

definition not_found :: "string \<Rightarrow> py_exn" where
  "not_found i = NoResultFound (''raw_event_id='' @ i @ '' not found'')"

definition apply_status ::
  "string \<Rightarrow> string option \<Rightarrow> string option \<Rightarrow> instant \<Rightarrow> raw_row \<Rightarrow> raw_row" where
  "apply_status status error_reason card_id now r =
     (let r1 = r\<lparr>row_status := status, row_updated_at := now\<rparr>;
          r2 = (if status \<in> {''processed'', ''failed''} then r1\<lparr>row_processed_at := Some now\<rparr> else r1);
          r3 = (case error_reason of None \<Rightarrow> r2 | Some m \<Rightarrow> r2\<lparr>row_error_reason := Some (py_take 500 m)\<rparr>)
      in (case card_id of None \<Rightarrow> r3 | Some c \<Rightarrow> r3\<lparr>row_event_card_id := Some c\<rparr>))"

definition update_status ::
  "string \<Rightarrow> string \<Rightarrow> string option \<Rightarrow> string option \<Rightarrow> instant \<Rightarrow> ('s raw_world, raw_row) act" where
  "update_status i status error_reason card_id now = (\<lambda>w.
     let w' = set_row i (apply_status status error_reason card_id now) w in
     case row_by_id (db_rows w') i of None \<Rightarrow> (Inl (not_found i), w') | Some r \<Rightarrow> (Inr r, w'))"

definition get_raw_event :: "string \<Rightarrow> ('s raw_world, raw_row) act" where
  "get_raw_event i = (\<lambda>w. case row_by_id (db_rows w) i of None \<Rightarrow> (Inl (not_found i), w) | Some r \<Rightarrow> (Inr r, w))"

definition event_of_row :: "instant \<Rightarrow> raw_row \<Rightarrow> raw_event" where
  "event_of_row now r =
     \<lparr>rw_source = row_source_type r @ '':'' @ row_source_name r, rw_url = row_url r, rw_fetched_at = utc now,
      rw_raw_text = row_raw_text r, rw_raw_metadata = row_raw_metadata r, rw_raw_event_id = Some (row_id r)\<rparr>"

definition requeue_count :: "raw_row \<Rightarrow> int res" where
  "requeue_count r = json_int (get_or (row_raw_metadata r) ''requeue_count'' (JInt 0))"

definition mark_requeued :: "string \<Rightarrow> int \<Rightarrow> instant \<Rightarrow> raw_row \<Rightarrow> raw_row" where
  "mark_requeued msg n now r =
     r\<lparr>row_status := ''enqueued'', row_enqueued_msg_id := Some msg, row_error_reason := None,
       row_processed_at := None,
       row_raw_metadata := dict_set ''requeue_count'' (JInt n) (row_raw_metadata r), row_updated_at := now\<rparr>"

definition requeue_raw_event ::
  "(json \<Rightarrow> string) \<Rightarrow> 's stream_client \<Rightarrow> instant \<Rightarrow> string \<Rightarrow> bool
   \<Rightarrow> ('s raw_world, raw_row \<times> string \<times> int) act" where
  "requeue_raw_event dumps client now i force = (\<lambda>w.
     case row_by_id (db_rows w) i of None \<Rightarrow> (Inl (not_found i), w)
     | Some r \<Rightarrow>
       if row_status r = ''processed'' \<and> \<not> force then
         (Inl (ValueError ''requeue refused: row already processed; pass force=true to override''), w)
       else bind_act (on_queue (enqueue_raw_event dumps client (event_of_row now r))) (\<lambda>msg.
         bind_act (lift_res (requeue_count r)) (\<lambda>n w1.
           (Inr (mark_requeued msg (n + 1) now r, msg, n + 1),
            set_row i (mark_requeued msg (n + 1) now) w1))) w)"

definition list_by_status_older_than ::
  "raw_row list \<Rightarrow> instant \<Rightarrow> string option \<Rightarrow> int option \<Rightarrow> nat \<Rightarrow> string option \<Rightarrow> nat \<Rightarrow> bool
   \<Rightarrow> raw_row list" where
  "list_by_status_older_than rows now status before_seconds limit source_type offset descending =
     (let sel = filter (\<lambda>r. (case status of None \<Rightarrow> True | Some s \<Rightarrow> row_status r = s) \<and>
            (case before_seconds of None \<Rightarrow> True | Some b \<Rightarrow> row_updated_at r < now - b * sec) \<and>
            (case source_type of None \<Rightarrow> True | Some t \<Rightarrow> row_source_type r = t)) rows;
          sorted_rows = sort_key (\<lambda>r. if descending then - row_updated_at r else row_updated_at r) sel
      in take limit (drop offset sorted_rows))"

section \<open>The reconciler\<close>

definition list_stuck_enqueued :: "raw_row list \<Rightarrow> instant \<Rightarrow> int \<Rightarrow> nat \<Rightarrow> raw_row list" where
  "list_stuck_enqueued rows now before_seconds limit =
     list_by_status_older_than rows now (Some ''enqueued'') (Some before_seconds) limit None 0 False"

definition mark_stuck :: "string \<Rightarrow> instant \<Rightarrow> raw_row \<Rightarrow> raw_row" where
  "mark_stuck reason now r =
     r\<lparr>row_status := ''failed'', row_error_reason := Some (py_take 500 reason),
       row_processed_at := Some now, row_updated_at := now\<rparr>"

definition mark_stuck_as_failed ::
  "instant \<Rightarrow> int \<Rightarrow> nat \<Rightarrow> string \<Rightarrow> bool \<Rightarrow> ('s raw_world, raw_row list \<times> nat) act" where
  "mark_stuck_as_failed now before_seconds limit reason dry_run = (\<lambda>w.
     let items = list_stuck_enqueued (db_rows w) now before_seconds limit in
     if dry_run \<or> items = [] then (Inr (items, 0), w)
     else (Inr (items, length items),
       w\<lparr>db_rows := update_where (\<lambda>r. row_id r \<in> set (map row_id items)) (mark_stuck reason now) (db_rows w)\<rparr>))"

fun select_targets :: "int \<Rightarrow> raw_row list \<Rightarrow> raw_row list res" where
  "select_targets max_requeue [] = Inr []"
| "select_targets max_requeue (r # rs) =
     (if \<not> startswith (or_str (row_error_reason r) []) XADD_FAILED_PREFIX then select_targets max_requeue rs
      else bind_res (requeue_count r) (\<lambda>n.
        bind_res (select_targets max_requeue rs) (\<lambda>ts.
          Inr (if max_requeue \<le> n then ts else r # ts))))"

definition list_failed_xadd :: "raw_row list \<Rightarrow> instant \<Rightarrow> nat \<Rightarrow> int \<Rightarrow> raw_row list res" where
  "list_failed_xadd rows now limit max_requeue =
     select_targets max_requeue (list_by_status_older_than rows now (Some ''failed'') None limit None 0 False)"

fun requeue_all ::
  "(json \<Rightarrow> string) \<Rightarrow> 's stream_client \<Rightarrow> instant \<Rightarrow> raw_row list \<Rightarrow> nat \<Rightarrow> ('s raw_world, nat) act" where
  "requeue_all dumps client now [] requeued = ret_act requeued"
| "requeue_all dumps client now (r # rs) requeued = (\<lambda>w.
     case requeue_raw_event dumps client now (row_id r) False w of
       (Inr _, w') \<Rightarrow> requeue_all dumps client now rs (requeued + 1) w'
     | (Inl _, w') \<Rightarrow> requeue_all dumps client now rs requeued w')"

definition requeue_failed_xadd ::
  "(json \<Rightarrow> string) \<Rightarrow> 's stream_client \<Rightarrow> instant \<Rightarrow> nat \<Rightarrow> int \<Rightarrow> bool
   \<Rightarrow> ('s raw_world, raw_row list \<times> nat) act" where
  "requeue_failed_xadd dumps client now limit max_requeue dry_run = (\<lambda>w.
     bind_act (lift_res (list_failed_xadd (db_rows w) now limit max_requeue)) (\<lambda>targets.
       if dry_run \<or> targets = [] then ret_act (targets, 0)
       else bind_act (requeue_all dumps client now targets 0) (\<lambda>n. ret_act (targets, n))) w)"

section \<open>Facts about the table\<close>

lemma update_where_ids [simp]:
  "(\<And>r. row_id (f r) = row_id r) \<Longrightarrow> map row_id (update_where p f rows) = map row_id rows"
  by (simp add: update_where_def cong: map_cong)

lemma row_by_id_Some: "row_by_id rows i = Some r \<Longrightarrow> r \<in> set rows \<and> row_id r = i"
  by (auto simp: row_by_id_def find_Some_iff)

lemma row_by_id_unique:
  "distinct (map row_id rows) \<Longrightarrow> r \<in> set rows \<Longrightarrow> row_by_id rows (row_id r) = Some r"
  by (induction rows) (auto simp: row_by_id_def)

lemma set_row_simps [simp]:
  "db_queue (set_row i f w) = db_queue w"
  "db_rows (set_row i f w) = update_where (\<lambda>r. row_id r = i) f (db_rows w)"
  by (simp_all add: set_row_def)

lemma on_queue_rows: "on_queue m w = (r, w') \<Longrightarrow> db_rows w' = db_rows w"
  by (auto simp: on_queue_def split: prod.splits)

lemma mark_ids [simp]:
  "row_id (mark_enqueued m now r) = row_id r" "row_id (mark_xadd_failed m now r) = row_id r"
  "row_id (apply_status s e c now r) = row_id r" "row_id (mark_requeued m n now r) = row_id r"
  "row_id (mark_stuck s now r) = row_id r"
  by (auto simp: mark_enqueued_def mark_xadd_failed_def apply_status_def mark_requeued_def mark_stuck_def
      Let_def split: option.splits)

text \<open>What identifies the event in a row; no operation changes it.\<close>

definition row_event :: "raw_row \<Rightarrow> string \<times> string \<times> string \<times> string \<times> string \<times> string" where
  "row_event r = (row_id r, row_source_type r, row_source_name r, row_url r, row_raw_text r, row_content_hash r)"

lemma mark_events [simp]:
  "row_event (mark_enqueued m now r) = row_event r" "row_event (mark_xadd_failed m now r) = row_event r"
  "row_event (apply_status s e c now r) = row_event r" "row_event (mark_requeued m n now r) = row_event r"
  "row_event (mark_stuck s now r) = row_event r"
  by (auto simp: row_event_def mark_enqueued_def mark_xadd_failed_def apply_status_def mark_requeued_def
      mark_stuck_def Let_def split: option.splits)

lemma update_where_events [simp]:
  "(\<And>r. row_event (f r) = row_event r) \<Longrightarrow> map row_event (update_where p f rows) = map row_event rows"
  by (simp add: update_where_def cong: map_cong)

lemma events_set_row [simp]:
  "(\<And>r. row_event (f r) = row_event r) \<Longrightarrow> map row_event (db_rows (set_row i f w)) = map row_event (db_rows w)"
  by simp

definition table_ok :: "raw_row list \<Rightarrow> bool" where
  "table_ok rows \<longleftrightarrow> distinct (map row_id rows) \<and> distinct (map row_content_hash rows)"

lemma table_ok_events:
  assumes "map row_event rows' = map row_event rows"
  shows "table_ok rows' = table_ok rows"
proof -
  have "map row_id rows' = map row_id rows" "map row_content_hash rows' = map row_content_hash rows"
    using arg_cong [OF assms, of "map fst"] arg_cong [OF assms, of "map (snd \<circ> snd \<circ> snd \<circ> snd \<circ> snd)"]
    by (simp_all add: row_event_def comp_def)
  then show ?thesis by (simp add: table_ok_def)
qed

lemma insert_row_ok:
  "table_ok rows \<Longrightarrow> row_id r \<notin> set (map row_id rows) \<Longrightarrow> table_ok (insert_row r rows)"
  by (auto simp: table_ok_def insert_row_def)

lemma publish_new_events:
  assumes "publish_new dumps client now p row w = (r, w')"
  shows "map row_event (db_rows w') = map row_event (db_rows w)"
proof -
  obtain x w2 where q: "on_queue (enqueue_raw_event dumps client (event_of_new now p row)) w = (x, w2)"
    by (cases "on_queue (enqueue_raw_event dumps client (event_of_new now p row)) w")
  have "db_rows w2 = db_rows w" using on_queue_rows [OF q] .
  with assms q show ?thesis
    by (cases x) (auto simp: publish_new_def)
qed

lemma create_events:
  assumes "create_raw_event dumps client i now p w = (r, w')"
  shows "map row_event (db_rows w') = map row_event (insert_row (new_row i now p) (db_rows w))"
proof -
  define w1 where "w1 = w\<lparr>db_rows := insert_row (new_row i now p) (db_rows w)\<rparr>"
  have "w' = w1 \<or> (\<exists>row. publish_new dumps client now p row w1 = (r, w'))"
    using assms unfolding create_raw_event_def Let_def w1_def [symmetric]
    by (auto split: option.splits if_splits)
  then have "map row_event (db_rows w') = map row_event (db_rows w1)"
    using publish_new_events by blast
  then show ?thesis by (simp add: w1_def)
qed

lemma update_status_events:
  "update_status i s e c now w = (r, w') \<Longrightarrow> map row_event (db_rows w') = map row_event (db_rows w)"
  by (auto simp: update_status_def Let_def split: option.splits)

lemma requeue_events:
  assumes "requeue_raw_event dumps client now i force w = (r, w')"
  shows "map row_event (db_rows w') = map row_event (db_rows w)"
proof (cases "row_by_id (db_rows w) i")
  case None
  with assms show ?thesis by (simp add: requeue_raw_event_def)
next
  case (Some row)
  show ?thesis
  proof (cases "row_status row = ''processed'' \<and> \<not> force")
    case True
    with Some assms show ?thesis by (simp add: requeue_raw_event_def)
  next
    case False
    have "bind_act (on_queue (enqueue_raw_event dumps client (event_of_row now row))) (\<lambda>msg.
         bind_act (lift_res (requeue_count row)) (\<lambda>n w1.
           (Inr (mark_requeued msg (n + 1) now row, msg, n + 1),
            set_row i (mark_requeued msg (n + 1) now) w1))) w = (r, w')"
      using assms Some False by (auto simp: requeue_raw_event_def)
    then show ?thesis
    proof (cases rule: bind_act_cases)
      case (raised e)
      then show ?thesis using on_queue_rows by metis
    next
      case (next_act msg w1)
      from next_act(2) have "map row_event (db_rows w') = map row_event (db_rows w1)"
        by (cases rule: bind_act_cases) auto
      then show ?thesis using on_queue_rows [OF next_act(1)] by simp
    qed
  qed
qed

lemma requeue_all_events:
  "requeue_all dumps client now rs n w = (r, w') \<Longrightarrow> map row_event (db_rows w') = map row_event (db_rows w)"
proof (induction rs arbitrary: n w)
  case Nil
  then show ?case by simp
next
  case (Cons row rs)
  obtain x w1 where x: "requeue_raw_event dumps client now (row_id row) False w = (x, w1)"
    by (cases "requeue_raw_event dumps client now (row_id row) False w")
  with Cons.prems obtain n' where "requeue_all dumps client now rs n' w1 = (r, w')"
    by (cases x) auto
  with Cons.IH requeue_events [OF x] show ?case by fastforce
qed

lemma requeue_failed_events:
  assumes "requeue_failed_xadd dumps client now limit m dry w = (r, w')"
  shows "map row_event (db_rows w') = map row_event (db_rows w)"
proof (cases "list_failed_xadd (db_rows w) now limit m")
  case (Inl e)
  with assms show ?thesis by (simp add: requeue_failed_xadd_def bind_act_def)
next
  case (Inr ts)
  obtain x w1 where x: "requeue_all dumps client now ts 0 w = (x, w1)"
    by (cases "requeue_all dumps client now ts 0 w")
  from assms Inr x requeue_all_events [OF x] show ?thesis
    by (cases x) (auto simp: requeue_failed_xadd_def bind_act_def split: if_splits)
qed

lemma mark_stuck_events:
  "mark_stuck_as_failed now b limit reason dry w = (r, w') \<Longrightarrow>
   map row_event (db_rows w') = map row_event (db_rows w)"
  by (auto simp: mark_stuck_as_failed_def Let_def split: if_splits)

section \<open>The worlds that the operations reach\<close>

inductive raw_step :: "(json \<Rightarrow> string) \<Rightarrow> 's stream_client \<Rightarrow> 's raw_world \<Rightarrow> 's raw_world \<Rightarrow> bool"
  for dumps client where
  step_create: "i \<notin> set (map row_id (db_rows w)) \<Longrightarrow> create_raw_event dumps client i now p w = (r, w') \<Longrightarrow>
    raw_step dumps client w w'"
| step_status: "update_status i s e c now w = (r, w') \<Longrightarrow> raw_step dumps client w w'"
| step_requeue: "requeue_raw_event dumps client now i force w = (r, w') \<Longrightarrow> raw_step dumps client w w'"
| step_stuck: "mark_stuck_as_failed now b limit reason dry w = (r, w') \<Longrightarrow> raw_step dumps client w w'"
| step_recover: "requeue_failed_xadd dumps client now limit m dry w = (r, w') \<Longrightarrow> raw_step dumps client w w'"

inductive raw_reach :: "(json \<Rightarrow> string) \<Rightarrow> 's stream_client \<Rightarrow> 's raw_world \<Rightarrow> 's raw_world \<Rightarrow> bool"
  for dumps client where
  reach_refl: "raw_reach dumps client w w"
| reach_step: "raw_reach dumps client w w1 \<Longrightarrow> raw_step dumps client w1 w2 \<Longrightarrow> raw_reach dumps client w w2"

text \<open>A step keeps the events of the table, and adds at most one, with a new id and a new hash.\<close>

lemma raw_step_events:
  assumes "raw_step dumps client w w'"
  shows "\<exists>new. map row_event (db_rows w') = map row_event (db_rows w) @ map row_event new \<and>
    (table_ok (db_rows w) \<longrightarrow> table_ok (db_rows w'))"
proof -
  have same: "\<exists>new. map row_event (db_rows w') = map row_event (db_rows w) @ map row_event new \<and>
      (table_ok (db_rows w) \<longrightarrow> table_ok (db_rows w'))"
    if "map row_event (db_rows w') = map row_event (db_rows w)"
    using that table_ok_events [OF that] by (intro exI [of _ "[]"]) simp
  from assms show ?thesis
  proof cases
  case (step_create i now p r)
  have ev: "map row_event (db_rows w') = map row_event (insert_row (new_row i now p) (db_rows w))"
    using create_events [OF step_create(2)] .
  moreover have "\<exists>new. insert_row (new_row i now p) (db_rows w) = db_rows w @ new"
    by (auto simp: insert_row_def)
  moreover have "table_ok (db_rows w) \<longrightarrow> table_ok (db_rows w')"
    using table_ok_events [OF ev] insert_row_ok [of "db_rows w" "new_row i now p"] step_create(1)
    by (simp add: new_row_def)
  ultimately show ?thesis by auto
next
  case (step_status i s e c now r)
  show ?thesis using same [OF update_status_events [OF step_status]] .
next
  case (step_requeue now i force r)
  show ?thesis using same [OF requeue_events [OF step_requeue]] .
next
  case (step_stuck now b limit reason dry r)
  show ?thesis using same [OF mark_stuck_events [OF step_stuck]] .
next
  case (step_recover now limit m dry r)
  show ?thesis using same [OF requeue_failed_events [OF step_recover]] .
  qed
qed

lemma raw_reach_events:
  "raw_reach dumps client w w' \<Longrightarrow> table_ok (db_rows w) \<Longrightarrow>
   table_ok (db_rows w') \<and> (\<exists>new. map row_event (db_rows w') = map row_event (db_rows w) @ map row_event new)"
proof (induction rule: raw_reach.induct)
  case (reach_refl w)
  then show ?case by (auto intro: exI [of _ "[]"])
next
  case (reach_step w w1 w2)
  then obtain n1 n2 where "map row_event (db_rows w1) = map row_event (db_rows w) @ map row_event n1"
    "map row_event (db_rows w2) = map row_event (db_rows w1) @ map row_event n2" "table_ok (db_rows w2)"
    using raw_step_events by blast
  then show ?case by (intro conjI exI [of _ "n1 @ n2"]) simp_all
qed

section \<open>What a requeue changes\<close>

lemma requeue_rows:
  assumes "requeue_raw_event dumps client now i force w = (x, w')"
  shows "db_rows w' = db_rows w \<or> (\<exists>r msg n. row_by_id (db_rows w) i = Some r \<and> requeue_count r = Inr n \<and>
    db_rows w' = update_where (\<lambda>r. row_id r = i) (mark_requeued msg (n + 1) now) (db_rows w))"
proof (cases "row_by_id (db_rows w) i")
  case None
  with assms show ?thesis by (simp add: requeue_raw_event_def)
next
  case (Some row)
  show ?thesis
  proof (cases "row_status row = ''processed'' \<and> \<not> force")
    case True
    with Some assms show ?thesis by (simp add: requeue_raw_event_def)
  next
    case False
    have "bind_act (on_queue (enqueue_raw_event dumps client (event_of_row now row))) (\<lambda>msg.
         bind_act (lift_res (requeue_count row)) (\<lambda>n w1.
           (Inr (mark_requeued msg (n + 1) now row, msg, n + 1),
            set_row i (mark_requeued msg (n + 1) now) w1))) w = (x, w')"
      using assms Some False by (auto simp: requeue_raw_event_def)
    then show ?thesis
    proof (cases rule: bind_act_cases)
      case (raised e)
      then show ?thesis using on_queue_rows by blast
    next
      case (next_act msg w1)
      note rows = on_queue_rows [OF next_act(1)]
      from next_act(2) show ?thesis
        by (cases rule: bind_act_cases) (use rows Some in auto)
    qed
  qed
qed

text \<open>Row by row: a row is as it was, or it is one of the given rows and was requeued once.\<close>

definition requeued_of :: "instant \<Rightarrow> string set \<Rightarrow> raw_row \<Rightarrow> raw_row \<Rightarrow> bool" where
  "requeued_of now ids r r' \<longleftrightarrow> r' = r \<or>
     row_id r \<in> ids \<and> (\<exists>msg n. requeue_count r = Inr n \<and> r' = mark_requeued msg (n + 1) now r)"

lemma requeue_rows_pointwise:
  assumes "distinct (map row_id (db_rows w))" "requeue_raw_event dumps client now i force w = (x, w')"
  shows "list_all2 (requeued_of now {i}) (db_rows w) (db_rows w')"
  using requeue_rows [OF assms(2)]
proof (elim disjE exE conjE)
  assume "db_rows w' = db_rows w"
  then show ?thesis by (simp add: list_all2_same requeued_of_def)
next
  fix r msg n
  assume r: "row_by_id (db_rows w) i = Some r" "requeue_count r = Inr n"
    "db_rows w' = update_where (\<lambda>r. row_id r = i) (mark_requeued msg (n + 1) now) (db_rows w)"
  have "row = r" if "row \<in> set (db_rows w)" "row_id row = i" for row
    using row_by_id_unique [OF assms(1) that(1)] that(2) r(1) by simp
  then show ?thesis
    using r(2,3) by (auto simp: update_where_def list_all2_map2 list_all2_same requeued_of_def)
qed

lemma requeue_all_pointwise:
  assumes "distinct (map row_id (db_rows w))" "distinct (map row_id ts)"
    and "requeue_all dumps client now ts k w = (x, w')"
  shows "list_all2 (requeued_of now (row_id ` set ts)) (db_rows w) (db_rows w')"
  using assms
proof (induction ts arbitrary: k w)
  case Nil
  then show ?case by (simp add: list_all2_same requeued_of_def)
next
  case (Cons t ts)
  obtain y w1 where y: "requeue_raw_event dumps client now (row_id t) False w = (y, w1)"
    by (cases "requeue_raw_event dumps client now (row_id t) False w")
  with Cons.prems(3) obtain k' where rest: "requeue_all dumps client now ts k' w1 = (x, w')"
    by (cases y) auto
  have ids: "map row_id (db_rows w1) = map row_id (db_rows w)"
    using arg_cong [OF requeue_events [OF y], of "map fst"] by (simp add: row_event_def comp_def)
  have a: "list_all2 (requeued_of now {row_id t}) (db_rows w) (db_rows w1)"
    using requeue_rows_pointwise [OF Cons.prems(1) y] .
  have b: "list_all2 (requeued_of now (row_id ` set ts)) (db_rows w1) (db_rows w')"
    using Cons.IH [of w1 k'] Cons.prems(1,2) rest ids by simp
  have "requeued_of now (row_id ` set (t # ts)) r r2"
    if "requeued_of now {row_id t} r r1" "requeued_of now (row_id ` set ts) r1 r2" for r r1 r2
    using that Cons.prems(2) by (auto simp: requeued_of_def)
  with a b show ?case by (rule list_all2_trans [rotated 1])
qed

lemma list_by_status_mem:
  "r \<in> set (list_by_status_older_than rows now st b limit src off desc) \<Longrightarrow>
   r \<in> set rows \<and> (case st of None \<Rightarrow> True | Some s \<Rightarrow> row_status r = s) \<and>
   (case b of None \<Rightarrow> True | Some k \<Rightarrow> row_updated_at r < now - k * sec)"
  by (auto simp: list_by_status_older_than_def Let_def dest!: in_set_takeD in_set_dropD)

lemma list_by_status_distinct:
  assumes "distinct (map row_id rows)"
  shows "distinct (map row_id (list_by_status_older_than rows now st b limit src off desc))"
proof -
  have "distinct (map row_id (sort_key k (filter P rows)))" for P k
    using assms by (auto simp: distinct_map intro: inj_on_subset)
  then show ?thesis
    unfolding list_by_status_older_than_def Let_def take_map [symmetric] drop_map [symmetric]
    by (intro distinct_take distinct_drop)
qed

lemma select_targets_mem:
  "select_targets m rs = Inr ts \<Longrightarrow> set ts \<subseteq> set rs \<and> (distinct (map row_id rs) \<longrightarrow> distinct (map row_id ts)) \<and>
   (\<forall>t \<in> set ts. startswith (or_str (row_error_reason t) []) XADD_FAILED_PREFIX \<and>
      (\<exists>n. requeue_count t = Inr n \<and> n < m))"
proof (induction rs arbitrary: ts)
  case Nil
  then show ?case by simp
next
  case (Cons r rs)
  show ?case
  proof (cases "startswith (or_str (row_error_reason r) []) XADD_FAILED_PREFIX")
    case False
    with Cons show ?thesis by auto
  next
    case True
    with Cons.prems obtain n ts1 where n: "requeue_count r = Inr n" "select_targets m rs = Inr ts1"
      "ts = (if m \<le> n then ts1 else r # ts1)"
      by (auto simp: bind_res_Inr_iff)
    from Cons.IH [OF n(2)] n True show ?thesis by (auto split: if_splits)
  qed
qed

lemma requeue_failed_pointwise:
  assumes ok: "distinct (map row_id (db_rows w))"
    and r: "requeue_failed_xadd dumps client now limit m dry w = (x, w')"
  shows "list_all2 (\<lambda>r r'. r' = r \<or>
      row_status r = ''failed'' \<and> startswith (or_str (row_error_reason r) []) XADD_FAILED_PREFIX \<and>
      (\<exists>msg n. requeue_count r = Inr n \<and> n < m \<and> r' = mark_requeued msg (n + 1) now r))
    (db_rows w) (db_rows w')"
proof (cases "list_failed_xadd (db_rows w) now limit m")
  case (Inl e)
  with r show ?thesis by (simp add: requeue_failed_xadd_def bind_act_def list_all2_same)
next
  case (Inr ts)
  have ts: "set ts \<subseteq> set (list_by_status_older_than (db_rows w) now (Some ''failed'') None limit None 0 False)"
    "distinct (map row_id ts)"
    "\<forall>t \<in> set ts. startswith (or_str (row_error_reason t) []) XADD_FAILED_PREFIX \<and>
      (\<exists>n. requeue_count t = Inr n \<and> n < m)"
    using select_targets_mem [OF Inr [unfolded list_failed_xadd_def]] list_by_status_distinct [OF ok] by auto
  obtain y w1 where y: "requeue_all dumps client now ts 0 w = (y, w1)"
    by (cases "requeue_all dumps client now ts 0 w")
  have all: "list_all2 (requeued_of now (row_id ` set ts)) (db_rows w) (db_rows w1)"
    using requeue_all_pointwise [OF ok ts(2) y] .
  have "r' = r \<or> row_status r = ''failed'' \<and> startswith (or_str (row_error_reason r) []) XADD_FAILED_PREFIX \<and>
      (\<exists>msg n. requeue_count r = Inr n \<and> n < m \<and> r' = mark_requeued msg (n + 1) now r)"
    if "r \<in> set (db_rows w)" "requeued_of now (row_id ` set ts) r r'" for r r'
  proof (cases "r' = r")
    case False
    with that(2) obtain msg n where n: "row_id r \<in> row_id ` set ts" "requeue_count r = Inr n"
      "r' = mark_requeued msg (n + 1) now r"
      by (auto simp: requeued_of_def)
    then obtain t where t: "t \<in> set ts" "row_id t = row_id r" by auto
    then have "t \<in> set (db_rows w)" "row_status t = ''failed''"
      using ts(1) list_by_status_mem by fastforce+
    moreover have "t = r"
      using ok \<open>t \<in> set (db_rows w)\<close> that(1) t(2) by (auto simp: distinct_map inj_on_def)
    ultimately show ?thesis using ts(3) t(1) n(2,3) by auto
  qed simp
  then have "list_all2 (\<lambda>r r'. r' = r \<or>
      row_status r = ''failed'' \<and> startswith (or_str (row_error_reason r) []) XADD_FAILED_PREFIX \<and>
      (\<exists>msg n. requeue_count r = Inr n \<and> n < m \<and> r' = mark_requeued msg (n + 1) now r)) (db_rows w) (db_rows w1)"
    using all by (auto simp: list_all2_conv_all_nth)
  moreover have "db_rows w' = db_rows w1 \<or> db_rows w' = db_rows w"
    using r Inr y by (cases y) (auto simp: requeue_failed_xadd_def bind_act_def split: if_splits)
  ultimately show ?thesis by (auto simp: list_all2_same)
qed

section \<open>Recovery of a failed publication\<close>

lemma find_new_row:
  assumes "\<forall>x \<in> set rows. row_content_hash x \<noteq> rc_content_hash p"
  shows "insert_row (new_row i now p) rows = rows @ [new_row i now p]"
    "find (\<lambda>r. row_content_hash r = rc_content_hash p) (rows @ [new_row i now p]) = Some (new_row i now p)"
proof -
  show "insert_row (new_row i now p) rows = rows @ [new_row i now p]"
    using assms by (auto simp: insert_row_def new_row_def)
  show "find (\<lambda>r. row_content_hash r = rc_content_hash p) (rows @ [new_row i now p]) = Some (new_row i now p)"
    using assms by (induction rows) (auto simp: new_row_def)
qed

lemma update_where_new:
  assumes "i \<notin> set (map row_id rows)" "row_id r = i"
  shows "update_where (\<lambda>r. row_id r = i) f (rows @ [r]) = rows @ [f r]"
proof -
  have "map (\<lambda>x. if row_id x = i then f x else x) rows = rows"
    using assms(1) by (intro map_idI) auto
  then show ?thesis using assms(2) by (simp add: update_where_def)
qed

lemma create_failed_rows:
  assumes "i \<notin> set (map row_id (db_rows w))"
    and "\<forall>x \<in> set (db_rows w). row_content_hash x \<noteq> rc_content_hash p"
    and "enqueue_raw_event dumps client (event_of_new now p (new_row i now p)) (db_queue w) = (Inl e, q)"
  shows "create_raw_event dumps client i now p w =
    (Inr \<lparr>cr_record = mark_xadd_failed (exn_str e) now (new_row i now p), cr_is_duplicate = False,
          cr_enqueued_msg_id = None\<rparr>,
     \<lparr>db_rows = db_rows w @ [mark_xadd_failed (exn_str e) now (new_row i now p)], db_queue = q\<rparr>)"
proof -
  have "row_id (new_row i now p) = i" by (simp add: new_row_def)
  with assms(1,3) find_new_row [OF assms(2), of i now] update_where_new [of i "db_rows w" "new_row i now p"]
  show ?thesis
    by (simp add: create_raw_event_def publish_new_def on_queue_def set_row_def)
qed

lemma requeue_new_row:
  assumes "i \<notin> set (map row_id rows)" "row_id r = i" "row_status r = ''failed''" "requeue_count r = Inr n"
    and "enqueue_raw_event dumps client (event_of_row now r) q = (Inr msg, q')"
  shows "requeue_raw_event dumps client now i False \<lparr>db_rows = rows @ [r], db_queue = q\<rparr> =
    (Inr (mark_requeued msg (n + 1) now r, msg, n + 1),
     \<lparr>db_rows = rows @ [mark_requeued msg (n + 1) now r], db_queue = q'\<rparr>)"
proof -
  have "row_by_id (rows @ [r]) i = Some r"
    using assms(1,2) by (induction rows) (auto simp: row_by_id_def)
  with assms update_where_new [OF assms(1,2)] show ?thesis
    by (simp add: requeue_raw_event_def bind_act_def on_queue_def set_row_def)
qed

section \<open>Properties\<close>


text \<open>Creating an event whose content hash is stored already answers the stored row as a duplicate and changes
  neither the table nor the stream.\<close>

lemma duplicate_create_changes_nothing:
  assumes "table_ok (db_rows w)" "r \<in> set (db_rows w)" "row_content_hash r = rc_content_hash p"
    and "i \<notin> set (map row_id (db_rows w))"
  shows "create_raw_event dumps client i now p w =
    (Inr \<lparr>cr_record = r, cr_is_duplicate = True, cr_enqueued_msg_id = None\<rparr>, w)"
proof -
  have "find (\<lambda>x. row_content_hash x = rc_content_hash p) rows = Some r"
    if "distinct (map row_content_hash rows)" "r \<in> set rows" for rows
    using that assms(3) by (induction rows) (auto simp: image_iff)
  moreover have "insert_row (new_row i now p) (db_rows w) = db_rows w"
    using assms(2,3) by (auto simp: insert_row_def new_row_def)
  moreover have "row_id r \<noteq> i" using assms(2,4) by auto
  ultimately show ?thesis
    using assms(1,2) by (simp add: create_raw_event_def table_ok_def)
qed


text \<open>The automatic requeue touches only rows that failed on publication and whose counter is below the limit,
  and raises that counter by one: a row is requeued automatically at most \<open>max_requeue\<close> times, and
  every other row, processed ones included, stays as it is.\<close>

lemma automatic_requeue_is_bounded:
  assumes "table_ok (db_rows w)" "requeue_failed_xadd dumps client now limit m dry w = (x, w')"
  shows "list_all2 (\<lambda>r r'. r' = r \<or>
      row_status r = ''failed'' \<and> startswith (or_str (row_error_reason r) []) XADD_FAILED_PREFIX \<and>
      (\<exists>n. requeue_count r = Inr n \<and> n < m \<and> requeue_count r' = Inr (n + 1) \<and> row_status r' = ''enqueued''))
    (db_rows w) (db_rows w')"
proof (rule list_all2_mono)
  show "list_all2 (\<lambda>r r'. r' = r \<or>
      row_status r = ''failed'' \<and> startswith (or_str (row_error_reason r) []) XADD_FAILED_PREFIX \<and>
      (\<exists>msg n. requeue_count r = Inr n \<and> n < m \<and> r' = mark_requeued msg (n + 1) now r)) (db_rows w) (db_rows w')"
    using requeue_failed_pointwise [OF _ assms(2)] assms(1) by (simp add: table_ok_def)
qed (auto simp: mark_requeued_def requeue_count_def)

text \<open>Reconciling stuck rows marks exactly the reported rows as failed, at most \<open>limit\<close> of them, each one
  enqueued and untouched for longer than the given time; with the default reason none of them is a
  candidate of the automatic requeue afterwards.\<close>

lemma stuck_rows_are_failed:
  assumes "table_ok (db_rows w)"
    and "mark_stuck_as_failed now b limit ''reconciler: stuck enqueued'' False w = (Inr (items, n), w')"
    and "list_failed_xadd (db_rows w') later limit2 m = Inr targets"
  shows "db_rows w' = map (\<lambda>r. if r \<in> set items then mark_stuck ''reconciler: stuck enqueued'' now r else r) (db_rows w)
    \<and> set items \<subseteq> set (filter (\<lambda>r. row_status r = ''enqueued'' \<and> row_updated_at r < now - b * sec) (db_rows w))
    \<and> n = length items \<and> n \<le> limit \<and> row_id ` set items \<inter> row_id ` set targets = {}"
proof -
  have items: "items = list_stuck_enqueued (db_rows w) now b limit" "n = length items"
    using assms(2) by (auto simp: mark_stuck_as_failed_def Let_def split: if_splits)
  have sub: "r \<in> set (db_rows w) \<and> row_status r = ''enqueued'' \<and> row_updated_at r < now - b * sec"
    if "r \<in> set items" for r
    using that list_by_status_mem [of r "db_rows w" now "Some ''enqueued''" "Some b" limit None 0 False]
    by (simp add: items(1) list_stuck_enqueued_def)
  have eq: "row_id r \<in> row_id ` set items \<longleftrightarrow> r \<in> set items" if "r \<in> set (db_rows w)" for r
    using assms(1) sub that by (auto simp: table_ok_def distinct_map inj_on_def)
  have rows: "db_rows w' = map (\<lambda>r. if r \<in> set items then mark_stuck ''reconciler: stuck enqueued'' now r else r)
      (db_rows w)"
    using assms(2) eq
    by (auto simp: mark_stuck_as_failed_def Let_def update_where_def items(1) [symmetric] split: if_splits)
  have "n \<le> limit"
    by (simp add: items list_stuck_enqueued_def list_by_status_older_than_def Let_def)
  moreover have "row_id ` set items \<inter> row_id ` set targets = {}"
  proof (rule ccontr)
    assume "row_id ` set items \<inter> row_id ` set targets \<noteq> {}"
    then obtain r t where rt: "r \<in> set items" "t \<in> set targets" "row_id t = row_id r" by fastforce
    have t: "startswith (or_str (row_error_reason t) []) XADD_FAILED_PREFIX" "t \<in> set (db_rows w')"
      using select_targets_mem [OF assms(3) [unfolded list_failed_xadd_def]] rt(2)
        list_by_status_mem [of t "db_rows w'"] by fastforce+
    then obtain r0 where r0: "r0 \<in> set (db_rows w)"
      "t = (if r0 \<in> set items then mark_stuck ''reconciler: stuck enqueued'' now r0 else r0)"
      using rows by auto
    then have "row_id r0 = row_id r" using rt(3) by (auto split: if_splits)
    then have "r0 \<in> set items" using eq [OF r0(1)] rt(1) by auto
    then have "row_error_reason t = Some (py_take 500 ''reconciler: stuck enqueued'')"
      using r0(2) by (simp add: mark_stuck_def)
    moreover have "\<not> startswith (or_str (Some (py_take 500 ''reconciler: stuck enqueued'')) []) XADD_FAILED_PREFIX"
      by code_simp
    ultimately show False using t(1) by simp
  qed
  ultimately show ?thesis using rows sub items(2) by auto
qed

section \<open>Witnesses\<close>

definition sample_create :: raw_event_create where
  "sample_create = \<lparr>rc_source_type = ''rss'', rc_source_name = ''bbc'', rc_external_id = None,
     rc_url = ''https://x'', rc_title = None, rc_raw_text = ''t'', rc_published_at = None,
     rc_content_hash = ''h1'', rc_theme_hint = None, rc_raw_metadata = []\<rparr>"

definition empty_world :: "stream_state raw_world" where
  "empty_world = \<lparr>db_rows = [], db_queue = \<lparr>ref_log = [], ref_delivered = []\<rparr>\<rparr>"

text \<open>A client whose first \<open>XADD\<close> raises.\<close>

definition flaky_client :: "bool stream_client" where
  "flaky_client = \<lparr>
     sc_xadd = (\<lambda>st f up. if up then (Inr ''1-0'', True) else (Inl (ExternalError ''connection refused''), True)),
     sc_xack = (\<lambda>st g i up. (Inr (), up)),
     sc_xautoclaim = (\<lambda>st g c idle start n up. (Inr (''0-0'', []), up))\<rparr>"

definition enqueued_world :: "stream_state raw_world" where
  "enqueued_world = \<lparr>db_rows = [mark_enqueued ''0'' 0 (new_row ''id-1'' 0 sample_create)],
     db_queue = \<lparr>ref_log = [], ref_delivered = []\<rparr>\<rparr>"


theorem duplicate_create_changes_nothing_witness:
  "create_raw_event ref_dumps ref_client ''id-2'' 5 sample_create enqueued_world =
    (Inr \<lparr>cr_record = mark_enqueued ''0'' 0 (new_row ''id-1'' 0 sample_create), cr_is_duplicate = True,
          cr_enqueued_msg_id = None\<rparr>, enqueued_world)"
  by (rule duplicate_create_changes_nothing)
    (simp_all add: enqueued_world_def table_ok_def mark_enqueued_def new_row_def)


theorem automatic_requeue_is_bounded_witness:
  "\<exists>x w'. requeue_failed_xadd ref_dumps ref_client 0 100 3 False enqueued_world = (x, w') \<and>
    list_all2 (\<lambda>r r'. r' = r \<or>
      row_status r = ''failed'' \<and> startswith (or_str (row_error_reason r) []) XADD_FAILED_PREFIX \<and>
      (\<exists>n. requeue_count r = Inr n \<and> n < 3 \<and> requeue_count r' = Inr (n + 1) \<and> row_status r' = ''enqueued''))
    (db_rows enqueued_world) (db_rows w')"
proof -
  obtain x w' where run: "requeue_failed_xadd ref_dumps ref_client 0 100 3 False enqueued_world = (x, w')"
    by (cases "requeue_failed_xadd ref_dumps ref_client 0 100 3 False enqueued_world")
  have "table_ok (db_rows enqueued_world)" by (simp add: enqueued_world_def table_ok_def)
  from automatic_requeue_is_bounded [OF this run] run show ?thesis by blast
qed

theorem stuck_rows_are_failed_witness:
  "\<exists>items n w' targets. mark_stuck_as_failed 700000000 600 100 ''reconciler: stuck enqueued'' False enqueued_world
      = (Inr (items, n), w') \<and> list_failed_xadd (db_rows w') 700000000 100 3 = Inr targets \<and>
    n \<le> 100 \<and> row_id ` set items \<inter> row_id ` set targets = {}"
proof -
  obtain items n w' where run: "mark_stuck_as_failed 700000000 600 100 ''reconciler: stuck enqueued'' False enqueued_world
      = (Inr (items, n), w')"
    by (cases "list_stuck_enqueued (db_rows enqueued_world) 700000000 600 100 = []")
      (auto simp: mark_stuck_as_failed_def Let_def)
  have t: "table_ok (db_rows enqueued_world)" by (simp add: enqueued_world_def table_ok_def)
  have "case list_failed_xadd (db_rows (snd (mark_stuck_as_failed 700000000 600 100 ''reconciler: stuck enqueued''
      False enqueued_world))) 700000000 100 3 of Inl _ \<Rightarrow> False | Inr _ \<Rightarrow> True"
    by code_simp
  then obtain targets where "list_failed_xadd (db_rows w') 700000000 100 3 = Inr targets"
    unfolding run by (auto split: sum.splits)
  from stuck_rows_are_failed [OF t run this] run this show ?thesis by blast
qed

end
