(* ===== verification/Rate_Store.thy ===== *)
theory Rate_Store
  imports Py_Datetime
begin

text \<open>
  \<open>ingestion/core/rate_limit_store.py\<close> and \<open>ingestion/core/rate_limit_policy.py\<close>: the stores
  that remember when a key was last called and until when it is on cooldown, and the policy
  functions on top of them. Clocks are integers in microseconds: the in-memory store reads a
  monotonic clock, the file store the wall clock, and both are the argument \<open>t\<close> here. The
  Redis store is a client of an outside service and is not modelled.

  Both stores satisfy the contract \<open>rate_store\<close>; the policy functions take the store's
  operations as arguments and are proved correct once, from the contract.
\<close>

section \<open>The stores\<close>

record mem_rate_store =
  ms_backing :: "(string, int) dict"
  ms_next_retry :: "(string, string) dict"
  ms_next_retry_reason :: "(string, string) dict"

definition ms_age_seconds :: "mem_rate_store \<Rightarrow> int \<Rightarrow> string \<Rightarrow> int option" where
  "ms_age_seconds s t key = (case dict_get (ms_backing s) key of None \<Rightarrow> None | Some last_t \<Rightarrow> Some (t - last_t))"

definition ms_record :: "string \<Rightarrow> int \<Rightarrow> int \<Rightarrow> mem_rate_store \<Rightarrow> mem_rate_store" where
  "ms_record key ttl_seconds t s = s\<lparr>ms_backing := dict_set key t (ms_backing s)\<rparr>"

definition ms_get_next_retry_at :: "mem_rate_store \<Rightarrow> string \<Rightarrow> string option" where
  "ms_get_next_retry_at s key = dict_get (ms_next_retry s) key"

definition ms_set_next_retry_at :: "string \<Rightarrow> string \<Rightarrow> string \<Rightarrow> mem_rate_store \<Rightarrow> mem_rate_store" where
  "ms_set_next_retry_at key iso_ts reason s =
     (let s1 = s\<lparr>ms_next_retry := dict_set key iso_ts (ms_next_retry s)\<rparr> in
      if reason \<noteq> [] then s1\<lparr>ms_next_retry_reason := dict_set key reason (ms_next_retry_reason s)\<rparr>
      else s1)"

text \<open>
  The file store keeps its state in memory and writes all of it after each change. The file
  is modelled by its content: \<^term>\<open>None\<close> when it is missing or unreadable.
\<close>

record call_entry =
  ce_epoch :: int
  ce_recorded_at :: string
  ce_ttl_seconds :: int

record retry_entry =
  re_at :: string
  re_reason :: string

record rate_content =
  rc_calls :: "(string, call_entry) dict"
  rc_next_retry :: "(string, retry_entry) dict"

record local_rate_store =
  ls_state :: rate_content
  ls_file :: "rate_content option"

definition ls_load :: "rate_content option \<Rightarrow> rate_content" where
  "ls_load f = (case f of None \<Rightarrow> \<lparr>rc_calls = [], rc_next_retry = []\<rparr> | Some c \<Rightarrow> c)"

definition ls_open :: "rate_content option \<Rightarrow> local_rate_store" where
  "ls_open f = \<lparr>ls_state = ls_load f, ls_file = f\<rparr>"

definition ls_save :: "local_rate_store \<Rightarrow> local_rate_store" where
  "ls_save s = s\<lparr>ls_file := Some (ls_state s)\<rparr>"

definition ls_age_seconds :: "local_rate_store \<Rightarrow> int \<Rightarrow> string \<Rightarrow> int option" where
  "ls_age_seconds s t key =
     (case dict_get (rc_calls (ls_state s)) key of None \<Rightarrow> None
      | Some entry \<Rightarrow> let age = t - ce_epoch entry in if age < 0 then None else Some age)"

definition ls_record :: "string \<Rightarrow> int \<Rightarrow> int \<Rightarrow> local_rate_store \<Rightarrow> local_rate_store" where
  "ls_record key ttl_seconds t s =
     ls_save (s\<lparr>ls_state := (ls_state s)\<lparr>rc_calls := dict_set key
       \<lparr>ce_epoch = t, ce_recorded_at = iso_z (utc t), ce_ttl_seconds = ttl_seconds\<rparr>
       (rc_calls (ls_state s))\<rparr>\<rparr>)"

definition ls_get_next_retry_at :: "local_rate_store \<Rightarrow> string \<Rightarrow> string option" where
  "ls_get_next_retry_at s key =
     (case dict_get (rc_next_retry (ls_state s)) key of None \<Rightarrow> None | Some e \<Rightarrow> Some (re_at e))"

definition ls_set_next_retry_at :: "string \<Rightarrow> string \<Rightarrow> string \<Rightarrow> local_rate_store \<Rightarrow> local_rate_store" where
  "ls_set_next_retry_at key iso_ts reason s =
     ls_save (s\<lparr>ls_state := (ls_state s)\<lparr>rc_next_retry := dict_set key
       \<lparr>re_at = iso_ts, re_reason = reason\<rparr> (rc_next_retry (ls_state s))\<rparr>\<rparr>)"

text \<open>A process that ends and one that opens the same file.\<close>

definition ls_restart :: "local_rate_store \<Rightarrow> local_rate_store" where
  "ls_restart s = ls_open (ls_file s)"

definition ls_synced :: "local_rate_store \<Rightarrow> bool" where
  "ls_synced s \<longleftrightarrow> ls_load (ls_file s) = ls_state s"

lemma ls_synced_ops [simp, intro]:
  "ls_synced (ls_open f)" "ls_synced (ls_record k ttl t s)" "ls_synced (ls_set_next_retry_at k i r s)"
  by (simp_all add: ls_synced_def ls_open_def ls_record_def ls_set_next_retry_at_def ls_save_def ls_load_def)

lemma ls_restart_synced: "ls_synced s \<Longrightarrow> ls_state (ls_restart s) = ls_state s"
  by (simp add: ls_synced_def ls_restart_def ls_open_def)

section \<open>Choosing a backend\<close>

datatype rate_backend = RedisStore | LocalStore | MemoryStore

text \<open>
  \<open>_build_store\<close>: \<open>redis_ready\<close> says that the Redis store came up, \<open>local_ok\<close> that opening
  the file store did not raise.
\<close>

definition build_store :: "string \<Rightarrow> bool \<Rightarrow> bool \<Rightarrow> rate_backend" where
  "build_store backend redis_ready local_ok =
     (if backend = ''redis'' \<and> redis_ready then RedisStore
      else let backend' = (if backend = ''redis'' then ''local_file'' else backend) in
        if backend' = ''local_file'' \<and> local_ok then LocalStore else MemoryStore)"

definition selected_backend :: "string \<Rightarrow> string option \<Rightarrow> string" where
  "selected_backend env cfg_backend =
     (if env \<noteq> [] then env else case cfg_backend of None \<Rightarrow> ''memory'' | Some b \<Rightarrow> b)"

section \<open>Policies\<close>

record rate_policy =
  rp_min_interval_seconds :: rat
  rp_max_calls_per_run :: int
  rp_cooldown_on_429_seconds :: int
  rp_max_retries_on_429 :: int
  rp_cache_ttl_seconds :: int

definition default_rate_policy :: rate_policy where
  "default_rate_policy =
     \<lparr>rp_min_interval_seconds = 0, rp_max_calls_per_run = 1, rp_cooldown_on_429_seconds = 60,
      rp_max_retries_on_429 = 1, rp_cache_ttl_seconds = 0\<rparr>"

text \<open>
  \<open>load_rate_limit_policy\<close>: \<open>raw\<close> is the parsed YAML file as two tables, \<^term>\<open>None\<close> when
  reading it raised. A value that \<open>int\<close> or \<open>float\<close> refuses raises.
\<close>

record policy_file =
  pf_default :: "(string, json) dict"
  pf_per_source :: "(string, (string, json) dict) dict"

definition dict_merge :: "('k, 'v) dict \<Rightarrow> ('k, 'v) dict \<Rightarrow> ('k, 'v) dict" where
  "dict_merge a b = foldl (\<lambda>d (k, v). dict_set k v d) a b"

definition load_rate_limit_policy :: "policy_file option \<Rightarrow> string \<Rightarrow> rate_policy res" where
  "load_rate_limit_policy raw source_id = (case raw of None \<Rightarrow> Inr default_rate_policy
    | Some f \<Rightarrow>
      let merged = dict_merge (pf_default f) (get_or (pf_per_source f) source_id []) in
      bind_res (json_num (get_or merged ''min_interval_seconds'' (JInt 0))) (\<lambda>mi.
      bind_res (json_int (get_or merged ''max_calls_per_run'' (JInt 1))) (\<lambda>mc.
      bind_res (json_int (get_or merged ''cooldown_on_429_seconds'' (JInt 60))) (\<lambda>cd.
      bind_res (json_int (get_or merged ''max_retries_on_429'' (JInt 1))) (\<lambda>mr.
      bind_res (json_int (get_or merged ''cache_ttl_seconds'' (JInt 0))) (\<lambda>ttl.
        Inr \<lparr>rp_min_interval_seconds = mi, rp_max_calls_per_run = mc,
             rp_cooldown_on_429_seconds = cd, rp_max_retries_on_429 = mr,
             rp_cache_ttl_seconds = ttl\<rparr>))))))"

definition cache_key :: "string \<Rightarrow> string \<Rightarrow> string" where
  "cache_key source_id query = source_id @ '':'' @ query"

definition is_cached ::
  "('s \<Rightarrow> int \<Rightarrow> string \<Rightarrow> int option) \<Rightarrow> policy_file option \<Rightarrow> 's \<Rightarrow> int \<Rightarrow> string \<Rightarrow> string
   \<Rightarrow> bool res" where
  "is_cached age_of raw s t source_id query =
    bind_res (load_rate_limit_policy raw source_id) (\<lambda>policy.
      if rp_cache_ttl_seconds policy \<le> 0 then Inr False
      else case age_of s t (cache_key source_id query) of None \<Rightarrow> Inr False
        | Some age \<Rightarrow> Inr (age < rp_cache_ttl_seconds policy * sec))"

definition record_call ::
  "(string \<Rightarrow> int \<Rightarrow> int \<Rightarrow> 's \<Rightarrow> 's) \<Rightarrow> policy_file option \<Rightarrow> 's \<Rightarrow> int \<Rightarrow> string \<Rightarrow> string \<Rightarrow> 's res" where
  "record_call rec raw s t source_id query =
    bind_res (load_rate_limit_policy raw source_id) (\<lambda>policy.
      Inr (rec (cache_key source_id query) (rp_cache_ttl_seconds policy) t s))"

definition record_rate_limited ::
  "(string \<Rightarrow> string \<Rightarrow> string \<Rightarrow> 's \<Rightarrow> 's) \<Rightarrow> policy_file option \<Rightarrow> 's \<Rightarrow> instant \<Rightarrow> string \<Rightarrow> string
   \<Rightarrow> int option \<Rightarrow> ('s \<times> string) res" where
  "record_rate_limited set_next raw s now source_id query cooldown_seconds =
    bind_res (case cooldown_seconds of Some c \<Rightarrow> Inr c
        | None \<Rightarrow> bind_res (load_rate_limit_policy raw source_id) (\<lambda>p. Inr (rp_cooldown_on_429_seconds p)))
      (\<lambda>c. let iso_ts = iso_z (dt_add_seconds (utc now) c) in
        Inr (set_next (cache_key source_id query) iso_ts ''429_rate_limited'' s, iso_ts))"

definition in_cooldown ::
  "('s \<Rightarrow> string \<Rightarrow> string option) \<Rightarrow> 's \<Rightarrow> instant \<Rightarrow> string \<Rightarrow> string \<Rightarrow> (bool \<times> string option) res" where
  "in_cooldown get_next s now source_id query =
    (let iso_ts = get_next s (cache_key source_id query) in
     if \<not> truthy iso_ts then Inr (False, None)
     else case parse_iso iso_ts of None \<Rightarrow> Inr (False, None)
       | Some deadline \<Rightarrow> bind_res (dt_gt deadline (utc now)) (\<lambda>later.
           Inr (if later then (True, iso_ts) else (False, None))))"

text \<open>Keys of different sources never meet, as long as no source id holds a colon.\<close>

lemma cache_key_inj:
  assumes "CHR '':'' \<notin> set a" "CHR '':'' \<notin> set b" "cache_key a q = cache_key b r"
  shows "a = b \<and> q = r"
proof -
  have "a = b" if "a @ CHR '':'' # q = b @ CHR '':'' # r" "CHR '':'' \<notin> set a" "CHR '':'' \<notin> set b" for a b
    using that by (induction a arbitrary: b) (auto simp: Cons_eq_append_conv append_eq_Cons_conv)
  with assms show ?thesis by (auto simp: cache_key_def)
qed

lemma dict_merge_get:
  "dict_ok b \<Longrightarrow> dict_get (dict_merge a b) k =
     (case dict_get b k of None \<Rightarrow> dict_get a k | Some v \<Rightarrow> Some v)"
proof (induction b arbitrary: a rule: rev_induct)
  case Nil
  then show ?case by (simp add: dict_merge_def)
next
  case (snoc p b)
  obtain k' v where p: "p = (k', v)" by (cases p)
  have ok: "dict_ok b" "k' \<notin> fst ` set b" using snoc.prems p by (auto simp: dict_ok_def)
  have "dict_get (b @ [(k', v)]) k = (case dict_get b k of None \<Rightarrow> if k' = k then Some v else None
      | Some w \<Rightarrow> Some w)"
    by (induction b) auto
  moreover have "dict_get b k' = None"
    using ok(2) by (simp add: dict_get_def map_of_eq_None_iff)
  ultimately show ?case
    using snoc.IH [OF ok(1), of a] p by (auto simp: dict_merge_def split: option.splits)
qed

section \<open>The store contract\<close>

locale rate_store =
  fixes age_of :: "'s \<Rightarrow> int \<Rightarrow> string \<Rightarrow> int option"
    and rec :: "string \<Rightarrow> int \<Rightarrow> int \<Rightarrow> 's \<Rightarrow> 's"
    and get_next :: "'s \<Rightarrow> string \<Rightarrow> string option"
    and set_next :: "string \<Rightarrow> string \<Rightarrow> string \<Rightarrow> 's \<Rightarrow> 's"
  assumes age_record: "t \<le> t' \<Longrightarrow>
      age_of (rec k ttl t s) t' k' = (if k' = k then Some (t' - t) else age_of s t' k')"
    and age_set_next: "age_of (set_next k i r s) t' k' = age_of s t' k'"
    and next_record: "get_next (rec k ttl t s) k' = get_next s k'"
    and next_set_next: "get_next (set_next k i r s) k' = (if k' = k then Some i else get_next s k')"
begin

text \<open>A recorded call is served from the cache exactly for the source's time to live.\<close>

lemma cached_after_record:
  assumes "load_rate_limit_policy raw sid = Inr p" "t \<le> t'"
    and "record_call rec raw s t sid q = Inr s'"
  shows "is_cached age_of raw s' t' sid q =
    Inr (0 < rp_cache_ttl_seconds p \<and> t' - t < rp_cache_ttl_seconds p * sec)"
  using assms by (auto simp: record_call_def is_cached_def age_record)

lemma cached_other:
  assumes "cache_key sid' q' \<noteq> cache_key sid q" "t \<le> t'" "record_call rec raw s t sid q = Inr s'"
  shows "is_cached age_of raw s' t' sid' q' = is_cached age_of raw s t' sid' q'"
proof -
  have "age_of s' t' (cache_key sid' q') = age_of s t' (cache_key sid' q')"
    using assms by (auto simp: record_call_def age_record bind_res_Inr_iff)
  then show ?thesis by (simp add: is_cached_def cong: if_cong)
qed

text \<open>A recorded 429 keeps the key on cooldown until the deadline, cut to whole seconds.\<close>

lemma cooldown_after_429:
  assumes "record_rate_limited set_next raw s now sid q (Some c) = Inr (s', ts)"
    and "in_range (now + c * sec)"
  shows "in_cooldown get_next s' now' sid q =
    (if now' < now + c * sec - (now + c * sec) mod sec then Inr (True, Some ts) else Inr (False, None))"
proof -
  define t where "t = now + c * sec"
  have ts: "ts = iso_z (utc t)" "s' = set_next (cache_key sid q) ts ''429_rate_limited'' s"
    using assms(1) by (auto simp: record_rate_limited_def t_def Let_def)
  have p: "parse_iso (Some ts) = Some (utc (t - t mod sec))"
    using parse_iso_iso_z assms(2) by (simp add: ts(1) t_def)
  then have "truthy (Some ts)" by (auto simp: parse_iso_def)
  with p show ?thesis
    by (simp add: in_cooldown_def ts(2) next_set_next t_def)
qed

lemma cooldown_other:
  assumes "record_rate_limited set_next raw s now sid q c = Inr (s', ts)"
    and "cache_key sid' q' \<noteq> cache_key sid q"
  shows "in_cooldown get_next s' now' sid' q' = in_cooldown get_next s now' sid' q'"
proof -
  have "get_next s' (cache_key sid' q') = get_next s (cache_key sid' q')"
    using assms by (auto simp: record_rate_limited_def next_set_next Let_def bind_res_Inr_iff)
  then show ?thesis by (simp add: in_cooldown_def cong: if_cong)
qed

lemma record_keeps_cooldown:
  "record_call rec raw s t sid q = Inr s' \<Longrightarrow>
   in_cooldown get_next s' now sid' q' = in_cooldown get_next s now sid' q'"
  by (auto simp: record_call_def in_cooldown_def next_record bind_res_Inr_iff)

end

interpretation mem_rate: rate_store ms_age_seconds ms_record ms_get_next_retry_at ms_set_next_retry_at
  by unfold_locales
    (simp_all add: ms_age_seconds_def ms_record_def ms_get_next_retry_at_def ms_set_next_retry_at_def Let_def)

interpretation local_rate: rate_store ls_age_seconds ls_record ls_get_next_retry_at ls_set_next_retry_at
  by unfold_locales
    (auto simp: ls_age_seconds_def ls_record_def ls_get_next_retry_at_def ls_set_next_retry_at_def
      ls_save_def Let_def)

text \<open>What the file store answers does not change when the process is restarted.\<close>

lemma ls_restart_answers:
  assumes "ls_synced s"
  shows "ls_age_seconds (ls_restart s) t k = ls_age_seconds s t k"
    "ls_get_next_retry_at (ls_restart s) k = ls_get_next_retry_at s k"
  using ls_restart_synced [OF assms]
  by (simp_all add: ls_age_seconds_def ls_get_next_retry_at_def)

section \<open>Properties\<close>

text \<open>On the file store, a recorded 429 keeps its key on cooldown exactly until the deadline (in whole
  seconds), also when the process is restarted in between, and recording calls of any source
  after it does not shorten it.\<close>

lemma cooldown_survives_restart:
  assumes "record_rate_limited ls_set_next_retry_at raw s now sid q (Some c) = Inr (s', ts)"
    and "in_range (now + c * sec)"
    and "record_call ls_record raw (ls_restart s') t sid2 q2 = Inr s2"
  shows "in_cooldown ls_get_next_retry_at s2 now' sid q =
    (if now' < now + c * sec - (now + c * sec) mod sec then Inr (True, Some ts) else Inr (False, None))"
proof -
  have "ls_synced s'"
    using assms(1) by (auto simp: record_rate_limited_def Let_def)
  then have "in_cooldown ls_get_next_retry_at (ls_restart s') now' sid q =
      in_cooldown ls_get_next_retry_at s' now' sid q"
    by (simp add: in_cooldown_def ls_restart_answers cong: if_cong)
  then show ?thesis
    using local_rate.record_keeps_cooldown [OF assms(3), of now' sid q]
      local_rate.cooldown_after_429 [OF assms(1,2), of now'] by simp
qed

theorem cooldown_survives_restart_witness:
  "\<exists>s' ts s2. record_rate_limited ls_set_next_retry_at None (ls_open None) 500000 ''gdelt'' ''q'' (Some 60)
      = Inr (s', ts) \<and>
    record_call ls_record None (ls_restart s') 1000000 ''gdelt'' ''q'' = Inr s2 \<and>
    in_cooldown ls_get_next_retry_at s2 59999999 ''gdelt'' ''q'' = Inr (True, Some ts) \<and>
    in_cooldown ls_get_next_retry_at s2 60000000 ''gdelt'' ''q'' = Inr (False, None)"
proof -
  obtain s' ts where s': "record_rate_limited ls_set_next_retry_at None (ls_open None) 500000 ''gdelt'' ''q''
      (Some 60) = Inr (s', ts)"
    by (simp add: record_rate_limited_def Let_def)
  obtain s2 where s2: "record_call ls_record None (ls_restart s') 1000000 ''gdelt'' ''q'' = Inr s2"
    by (simp add: record_call_def load_rate_limit_policy_def)
  show ?thesis
    using cooldown_survives_restart [OF s' _ s2, of 59999999] cooldown_survives_restart [OF s' _ s2, of 60000000] s' s2
    by (simp add: sec_def)
qed

text \<open>A recorded call answers \<open>is_cached\<close> for its own source and query exactly during the source's
  time to live, and changes the answer of no other key.\<close>

lemma cache_ttl_exact:
  assumes "load_rate_limit_policy raw sid = Inr p" "t \<le> t'"
    and "record_call ls_record raw s t sid q = Inr s'"
    and "CHR '':'' \<notin> set sid" "CHR '':'' \<notin> set sid'"
  shows "is_cached ls_age_seconds raw s' t' sid' q' =
    (if sid' = sid \<and> q' = q
     then Inr (0 < rp_cache_ttl_seconds p \<and> t' - t < rp_cache_ttl_seconds p * sec)
     else is_cached ls_age_seconds raw s t' sid' q')"
  using local_rate.cached_after_record [OF assms(1-3)]
    local_rate.cached_other [OF _ assms(2,3), of sid' q'] cache_key_inj [OF assms(5,4), of q' q]
  by auto

definition ttl_file :: policy_file where
  "ttl_file = \<lparr>pf_default = [(''cache_ttl_seconds'', JInt 30)],
     pf_per_source = [(''gdelt'', [(''cache_ttl_seconds'', JInt 900)])]\<rparr>"

theorem cache_ttl_exact_witness:
  "\<exists>s'. record_call ls_record (Some ttl_file) (ls_open None) 0 ''gdelt'' ''q'' = Inr s' \<and>
    is_cached ls_age_seconds (Some ttl_file) s' 899999999 ''gdelt'' ''q'' = Inr True \<and>
    is_cached ls_age_seconds (Some ttl_file) s' 900000000 ''gdelt'' ''q'' = Inr False"
proof -
  obtain p where p: "load_rate_limit_policy (Some ttl_file) ''gdelt'' = Inr p" "rp_cache_ttl_seconds p = 900"
    by (simp add: load_rate_limit_policy_def ttl_file_def dict_merge_def get_or_def json_num_def json_int_def)
  obtain s' where s': "record_call ls_record (Some ttl_file) (ls_open None) 0 ''gdelt'' ''q'' = Inr s'"
    using p by (simp add: record_call_def)
  show ?thesis
    using cache_ttl_exact [OF p(1) _ s', of 899999999 "''gdelt''" "''q''"]
      cache_ttl_exact [OF p(1) _ s', of 900000000 "''gdelt''" "''q''"] s' p(2)
    by (simp add: sec_def)
qed

end
