(* ===== verification/Dedup.thy ===== *)
theory Dedup
  imports Py_Datetime
begin

text \<open>
  What identifies a collected record: \<open>ingestion/orchestration/time_normalizer.py\<close> and
  \<open>eventqueue_dedup.py\<close>.

  The regular expressions of the modules are fixed shapes and are written as recognisers.
  \<open>digest\<close> is the first 16 hexadecimal digits of \<open>hashlib.sha1\<close>, and \<open>parsedate\<close> is
  \<open>email.utils.parsedate_to_datetime\<close>, \<^term>\<open>None\<close> where it raises. A record is read as
  strings that may be missing.
\<close>

section \<open>Patterns\<close>

text \<open>\<open>re.search\<close>: the first position from which the recogniser accepts.\<close>

fun search_from :: "(string \<Rightarrow> 'a option) \<Rightarrow> string \<Rightarrow> 'a option" where
  "search_from f [] = f []"
| "search_from f (c # cs) = (case f (c # cs) of Some x \<Rightarrow> Some x | None \<Rightarrow> search_from f cs)"

text \<open>A prefix of the given shape, and what follows it.\<close>

fun take_shape :: "(char \<Rightarrow> bool) list \<Rightarrow> string \<Rightarrow> (string \<times> string) option" where
  "take_shape [] s = Some ([], s)"
| "take_shape (p # ps) [] = None"
| "take_shape (p # ps) (c # cs) =
     (if p c then map_option (\<lambda>(a, r). (c # a, r)) (take_shape ps cs) else None)"

definition digits :: "nat \<Rightarrow> (char \<Rightarrow> bool) list" where
  "digits n = replicate n is_digit"

definition lit :: "string \<Rightarrow> (char \<Rightarrow> bool) list" where
  "lit s = map (\<lambda>c d. d = c) s"

definition has_shape :: "(char \<Rightarrow> bool) list \<Rightarrow> string \<Rightarrow> bool" where
  "has_shape ps s = (case take_shape ps s of Some (_, r) \<Rightarrow> r = [] | None \<Rightarrow> False)"

definition skip_opt :: "char \<Rightarrow> string \<Rightarrow> string" where
  "skip_opt c s = (case s of d # ds \<Rightarrow> if d = c then ds else s | [] \<Rightarrow> [])"

text \<open>\<open>\s+\<close> replaced by one blank.\<close>

fun collapse_ws :: "string \<Rightarrow> string" where
  "collapse_ws [] = []"
| "collapse_ws (c # cs) =
     (if is_blank c then (case cs of d # ds \<Rightarrow> if is_blank d then collapse_ws cs else CHR '' '' # collapse_ws cs
        | [] \<Rightarrow> [CHR '' '']) else c # collapse_ws cs)"

definition norm_title :: "string option \<Rightarrow> string" where
  "norm_title title = collapse_ws (lower (strip (or_str title [])))"

section \<open>Times\<close>

definition PRECISION_DATETIME :: string where "PRECISION_DATETIME = ''datetime''"
definition PRECISION_DATE :: string where "PRECISION_DATE = ''date''"
definition PRECISION_MONTH :: string where "PRECISION_MONTH = ''month''"
definition PRECISION_UNKNOWN :: string where "PRECISION_UNKNOWN = ''unknown''"
definition CONFIDENCE_HIGH :: string where "CONFIDENCE_HIGH = ''high''"
definition CONFIDENCE_MEDIUM :: string where "CONFIDENCE_MEDIUM = ''medium''"
definition CONFIDENCE_LOW :: string where "CONFIDENCE_LOW = ''low''"

record normalized_time =
  nt_value :: "string option"
  nt_precision :: string
  nt_source_field :: "string option"
  nt_confidence :: string
  nt_warning :: "string option"

definition utc_iso :: "datetime \<Rightarrow> string" where
  "utc_iso d = isoformat (astimezone_utc (assume_utc d))"

text \<open>\<open>datetime(y, m, d, h, mi, s, tzinfo=utc)\<close>, \<^term>\<open>None\<close> for a \<open>ValueError\<close>.\<close>

definition mk_datetime :: "int \<Rightarrow> int \<Rightarrow> int \<Rightarrow> int \<Rightarrow> int \<Rightarrow> int \<Rightarrow> datetime option" where
  "mk_datetime y m d h mi s =
     (if y < 1 \<or> 9999 < y \<or> m < 1 \<or> 12 < m \<or> d < 1 \<or> days_in_month y (nat m) < d \<or> 23 < h \<or> 59 < mi \<or> 59 < s
      then None
      else Some (utc ((ymd_ord y (nat m) d - 1) * day_us + ((h * 60 + mi) * 60 + s) * sec)))"

definition num_at :: "nat \<Rightarrow> nat \<Rightarrow> string \<Rightarrow> int" where
  "num_at i k s = (case take_num 0 k (drop i s) of Some (n, _) \<Rightarrow> n | None \<Rightarrow> 0)"

definition has_time :: "string \<Rightarrow> bool" where
  "has_time s \<longleftrightarrow> search_from (\<lambda>r. case take_shape ((\<lambda>c. c = CHR ''T'' \<or> c = CHR '' '') # digits 2) r of
       None \<Rightarrow> None | Some (_, r2) \<Rightarrow> take_shape (digits 2) (skip_opt CHR '':'' r2)) s \<noteq> None"

definition DATE_ONLY :: "(char \<Rightarrow> bool) list" where
  "DATE_ONLY = digits 4 @ lit ''-'' @ digits 2 @ lit ''-'' @ digits 2"

definition MONTH_ONLY :: "(char \<Rightarrow> bool) list" where
  "MONTH_ONLY = digits 4 @ lit ''-'' @ digits 2"

text \<open>\<open>^(\d{8})T?(\d{6})Z?$\<close>: the fourteen digits.\<close>

definition gdelt_seendate :: "string \<Rightarrow> string option" where
  "gdelt_seendate s = (case take_shape (digits 8) s of None \<Rightarrow> None
    | Some (d, r) \<Rightarrow> (case take_shape (digits 6) (skip_opt CHR ''T'' r) of None \<Rightarrow> None
      | Some (t, r2) \<Rightarrow> if skip_opt CHR ''Z'' r2 = [] then Some (d @ t) else None))"

text \<open>
  \<open>^(\d{4})\D+(\d{1,2})\D+(\d{1,2})\D*$\<close>: each run of digits is whole, so nothing is tried twice.
  What the pattern with \<open>[./]\<close> accepts, it accepts with the same groups.
\<close>

definition digit_run :: "nat \<Rightarrow> nat \<Rightarrow> string \<Rightarrow> (string \<times> string) option" where
  "digit_run lo hi s = (let d = takeWhile is_digit s in
     if lo \<le> length d \<and> length d \<le> hi then Some (d, dropWhile is_digit s) else None)"

definition skip_sep :: "string \<Rightarrow> string option" where
  "skip_sep s = (case s of [] \<Rightarrow> None | c # cs \<Rightarrow> if is_digit c then None else Some (dropWhile (\<lambda>c. \<not> is_digit c) cs))"

definition run_num :: "string \<Rightarrow> int" where
  "run_num s = num_at 0 (length s) s"

definition ko_ymd :: "string \<Rightarrow> (int \<times> int \<times> int) option" where
  "ko_ymd s =
     Option.bind (digit_run 4 4 s) (\<lambda>(y, r1).
     Option.bind (skip_sep r1) (\<lambda>r2.
     Option.bind (digit_run 1 2 r2) (\<lambda>(m, r3).
     Option.bind (skip_sep r3) (\<lambda>r4.
     Option.bind (digit_run 1 2 r4) (\<lambda>(d, r5).
       if list_all (\<lambda>c. \<not> is_digit c) r5 then Some (run_num y, run_num m, run_num d) else None)))))"

definition ymd_slash :: "string \<Rightarrow> (int \<times> int \<times> int) option" where
  "ymd_slash s = (let sep = (\<lambda>r. case r of c # cs \<Rightarrow> if c = CHR ''.'' \<or> c = CHR ''/'' then Some cs else None | [] \<Rightarrow> None) in
     Option.bind (digit_run 4 4 s) (\<lambda>(y, r1).
     Option.bind (sep r1) (\<lambda>r2.
     Option.bind (digit_run 1 2 r2) (\<lambda>(m, r3).
     Option.bind (sep r3) (\<lambda>r4.
     Option.bind (digit_run 1 2 r4) (\<lambda>(d, r5).
       if r5 = [] then Some (run_num y, run_num m, run_num d) else None))))))"

definition mk_nt :: "string option \<Rightarrow> datetime \<Rightarrow> string \<Rightarrow> string \<Rightarrow> string option \<Rightarrow> normalized_time" where
  "mk_nt field d precision conf warning = \<lparr>nt_value = Some (utc_iso d), nt_precision = precision,
     nt_source_field = field, nt_confidence = conf, nt_warning = warning\<rparr>"

definition no_nt :: "string option \<Rightarrow> string \<Rightarrow> normalized_time" where
  "no_nt field warning = \<lparr>nt_value = None, nt_precision = PRECISION_UNKNOWN, nt_source_field = field,
     nt_confidence = CONFIDENCE_LOW, nt_warning = Some warning\<rparr>"

fun first_some :: "(unit \<Rightarrow> 'a option) list \<Rightarrow> 'a option" where
  "first_some [] = None"
| "first_some (f # fs) = (case f () of Some x \<Rightarrow> Some x | None \<Rightarrow> first_some fs)"

text \<open>The forms that are tried, in order.\<close>

definition as_month :: "string option \<Rightarrow> string \<Rightarrow> normalized_time option" where
  "as_month field s = (if has_shape MONTH_ONLY s then
     map_option (\<lambda>d. mk_nt field d PRECISION_MONTH CONFIDENCE_LOW (Some ''precision_month_only''))
       (mk_datetime (num_at 0 4 s) (num_at 5 2 s) 1 0 0 0) else None)"

definition as_iso :: "string option \<Rightarrow> string \<Rightarrow> normalized_time option" where
  "as_iso field s = map_option (\<lambda>d.
     mk_nt field d (if has_time s then PRECISION_DATETIME else PRECISION_DATE)
       (if has_time s \<and> utcoff d \<noteq> None then CONFIDENCE_HIGH else CONFIDENCE_MEDIUM)
       (if has_time s then (if utcoff d \<noteq> None then None else Some ''tz_assumed_utc'')
        else Some ''precision_lost_date_only''))
     (fromisoformat (py_replace ''Z'' ''+00:00'' s))"

definition as_mail :: "(string \<Rightarrow> datetime option) \<Rightarrow> string option \<Rightarrow> string \<Rightarrow> normalized_time option" where
  "as_mail parsedate field s = map_option (\<lambda>d.
     mk_nt field d PRECISION_DATETIME (if utcoff d \<noteq> None then CONFIDENCE_HIGH else CONFIDENCE_MEDIUM)
       (if utcoff d \<noteq> None then None else Some ''tz_assumed_utc'')) (parsedate s)"

definition as_gdelt :: "string option \<Rightarrow> string \<Rightarrow> normalized_time option" where
  "as_gdelt field s = Option.bind (gdelt_seendate s) (\<lambda>t.
     map_option (\<lambda>d. mk_nt field d PRECISION_DATETIME CONFIDENCE_HIGH None)
       (mk_datetime (num_at 0 4 t) (num_at 4 2 t) (num_at 6 2 t) (num_at 8 2 t) (num_at 10 2 t) (num_at 12 2 t)))"

definition as_date :: "string option \<Rightarrow> (int \<times> int \<times> int) option \<Rightarrow> normalized_time option" where
  "as_date field ymd = Option.bind ymd (\<lambda>(y, m, d).
     map_option (\<lambda>d. mk_nt field d PRECISION_DATE CONFIDENCE_MEDIUM (Some ''precision_lost_date_only''))
       (mk_datetime y m d 0 0 0))"

definition normalize_time ::
  "(string \<Rightarrow> datetime option) \<Rightarrow> string option \<Rightarrow> string option \<Rightarrow> normalized_time" where
  "normalize_time parsedate raw field = (case raw of None \<Rightarrow> no_nt field ''absent'' | Some r \<Rightarrow>
     let s = strip r in
     if s = [] then no_nt field ''empty''
     else case first_some
       [\<lambda>_. as_month field s, \<lambda>_. as_iso field s, \<lambda>_. as_mail parsedate field s, \<lambda>_. as_gdelt field s,
        \<lambda>_. as_date field (if has_shape (digits 8) s then Some (num_at 0 4 s, num_at 4 2 s, num_at 6 2 s) else None),
        \<lambda>_. as_date field (if has_shape DATE_ONLY s then Some (num_at 0 4 s, num_at 5 2 s, num_at 8 2 s) else None),
        \<lambda>_. as_date field (ymd_slash s), \<lambda>_. as_date field (ko_ymd s)]
     of Some nt \<Rightarrow> nt | None \<Rightarrow> no_nt field ''unrecognized_format'')"

record record_times =
  rt_primary :: normalized_time
  rt_primary_kind :: string
  rt_published :: "normalized_time option"
  rt_observed :: "normalized_time option"
  rt_collected :: "normalized_time option"

definition normalize_record_times ::
  "(string \<Rightarrow> datetime option) \<Rightarrow> string option \<Rightarrow> string option \<Rightarrow> string option \<Rightarrow> string \<Rightarrow> record_times" where
  "normalize_record_times parsedate published_at observed_at collected_at record_type =
     (let norm = (\<lambda>raw field. map_option (\<lambda>r. normalize_time parsedate (Some r) (Some field)) raw);
          pub = norm published_at ''published_at''; obs = norm observed_at ''observed_at'';
          col = norm collected_at ''collected_at'';
          (primary, kind) =
            (if record_type = ''structured_signal''
             then (if obs \<noteq> None then (obs, ''observed_at'') else (pub, ''published_at''))
             else (if pub \<noteq> None then (pub, ''published_at'') else (obs, ''observed_at'')))
      in \<lparr>rt_primary = (case primary of Some p \<Rightarrow> p | None \<Rightarrow> no_nt None ''no_event_time''),
          rt_primary_kind = (if primary = None then ''none'' else kind),
          rt_published = pub, rt_observed = obs, rt_collected = col\<rparr>)"

definition precision_counts :: "normalized_time option list \<Rightarrow> (string, nat) dict" where
  "precision_counts ts = foldl (\<lambda>d t. case t of None \<Rightarrow> d
      | Some nt \<Rightarrow> dict_set (nt_precision nt) (get_or d (nt_precision nt) 0 + 1) d)
    [(PRECISION_DATETIME, 0), (PRECISION_DATE, 0), (PRECISION_MONTH, 0), (PRECISION_UNKNOWN, 0)] ts"

definition summarize_precision :: "normalized_time option list \<Rightarrow> (string, nat) dict \<times> nat" where
  "summarize_precision ts = (precision_counts ts,
     length (filter (\<lambda>t. case t of None \<Rightarrow> False
       | Some nt \<Rightarrow> truthy (nt_warning nt) \<and> nt_warning nt \<noteq> Some ''absent'') ts))"

section \<open>Record keys\<close>

record common_record =
  cr_record_type :: "string option"
  cr_source_id :: "string option"
  cr_title_or_label :: "string option"
  cr_canonical_url :: "string option"
  cr_source_url_or_evidence :: "string option"
  cr_published_at_or_observed_at :: "string option"
  cr_body_state_or_signal :: "string option"
  cr_ref :: "string option" \<comment> \<open>\<open>_ref\<close>\<close>

record dedup_decision =
  dd_record_key :: "string option"
  dd_is_duplicate :: bool
  dd_reason :: "string option"
  dd_existing_ref :: "string option"

definition hash_parts :: "(string \<Rightarrow> string) \<Rightarrow> string list \<Rightarrow> string" where
  "hash_parts digest parts = digest (str_join ''|'' parts)"

definition is_http :: "string \<Rightarrow> bool" where
  "is_http u \<longleftrightarrow> startswith u ''http://'' \<or> startswith u ''https://''"

definition external_url :: "common_record \<Rightarrow> string option" where
  "external_url r = (case cr_source_url_or_evidence r of None \<Rightarrow> None
     | Some u \<Rightarrow> if is_http u then Some u else None)"

definition ACCESSION :: "(char \<Rightarrow> bool) list" where
  "ACCESSION = digits 10 @ lit ''-'' @ digits 2 @ lit ''-'' @ digits 6"

definition rcept_no :: "string \<Rightarrow> string option" where
  "rcept_no s = (case take_shape (lit ''rcpNo='') s of None \<Rightarrow> None
     | Some (_, r) \<Rightarrow> non_empty (takeWhile is_digit r))"

definition GENERIC_ID_NAMES :: "string list" where
  "GENERIC_ID_NAMES = [''id'', ''docId'', ''document_id'', ''contentId'', ''mt20id'']"

definition generic_id :: "string \<Rightarrow> string option" where
  "generic_id s = (case s of [] \<Rightarrow> None | c # cs \<Rightarrow>
     if c \<noteq> CHR ''?'' \<and> c \<noteq> CHR ''&'' then None
     else case find (\<lambda>n. startswith (lower cs) (lower n @ ''='')) GENERIC_ID_NAMES of
       None \<Rightarrow> None
     | Some n \<Rightarrow> non_empty (takeWhile (\<lambda>d. d \<noteq> CHR ''&'') (drop (Suc (length n)) cs)))"

definition official_id :: "string option \<Rightarrow> string option" where
  "official_id url = (case url of None \<Rightarrow> None | Some u \<Rightarrow>
     if u = [] then None
     else case search_from (\<lambda>s. map_option fst (take_shape ACCESSION s)) u of
       Some i \<Rightarrow> Some i
     | None \<Rightarrow> (case search_from rcept_no u of Some i \<Rightarrow> Some i | None \<Rightarrow> search_from generic_id u))"

text \<open>The normalised instant of a field, and \<open>[]\<close> where the code has \<open>""\<close> or \<open>None\<close>.\<close>

definition norm_instant :: "(string \<Rightarrow> datetime option) \<Rightarrow> string option \<Rightarrow> string" where
  "norm_instant parsedate raw = (if truthy raw then or_str (nt_value (normalize_time parsedate raw None)) [] else [])"

definition compute_record_key ::
  "(string \<Rightarrow> string) \<Rightarrow> (string \<Rightarrow> datetime option) \<Rightarrow> common_record \<Rightarrow> (string \<times> string) option" where
  "compute_record_key digest parsedate r =
    (let rt = or_str (cr_record_type r) []; source_id = or_str (cr_source_id r) [];
         ext = external_url r;
         oid = (if rt = ''official_record'' then official_id ext else None);
         title = norm_title (cr_title_or_label r);
         when_at = norm_instant parsedate (cr_published_at_or_observed_at r)
     in if truthy (cr_canonical_url r) then
          Some (''canon:'' @ hash_parts digest [or_str (cr_canonical_url r) []], ''canonical_url'')
        else if truthy oid then
          Some (''officialid:'' @ source_id @ '':'' @ hash_parts digest [or_str oid []], ''official_id'')
        else if rt = ''structured_signal'' then
          Some (''signal:'' @ hash_parts digest [source_id, or_str (cr_body_state_or_signal r) ''signal'', when_at],
            ''signal_key'')
        else case ext of
          Some u \<Rightarrow>
            if rt = ''search_result'' then
              Some (''search:'' @ hash_parts digest [source_id, title, u], ''search_title_url'')
            else Some (''url:'' @ hash_parts digest [u], ''source_url'')
        | None \<Rightarrow>
            if title = [] \<and> when_at = [] then None
            else Some (''meta:'' @ hash_parts digest [source_id, title, when_at], ''fallback_title_time''))"

section \<open>The index of seen keys\<close>

type_synonym dedup_index = "(string, string) dict"

text \<open>The index with its file: a missing, unreadable or malformed file gives an empty index.\<close>

definition load_index :: "disk_file \<Rightarrow> dedup_index" where
  "load_index file = (case file of FileJson (JObj d) \<Rightarrow>
       (case dict_get d ''seen'' of Some (JObj s) \<Rightarrow> map (\<lambda>(k, v). (k, json_show v)) s | _ \<Rightarrow> [])
     | _ \<Rightarrow> [])"

definition save_index :: "dedup_index \<Rightarrow> disk_file" where
  "save_index ix = FileJson (JObj [(''schema_version'', JInt 1), (''seen'', JObj (map (\<lambda>(k, v). (k, JStr v)) ix))])"

definition check_key :: "dedup_index \<Rightarrow> string option \<Rightarrow> bool \<times> string option" where
  "check_key ix key = (case key of None \<Rightarrow> (False, None) | Some k \<Rightarrow> (dict_get ix k \<noteq> None, dict_get ix k))"

definition add_key :: "string option \<Rightarrow> string \<Rightarrow> dedup_index \<Rightarrow> dedup_index" where
  "add_key key ref ix = (case key of None \<Rightarrow> ix
     | Some k \<Rightarrow> if dict_get ix k = None then dict_set k ref ix else ix)"

definition decide ::
  "(string \<Rightarrow> string) \<Rightarrow> (string \<Rightarrow> datetime option) \<Rightarrow> common_record \<Rightarrow> string \<Rightarrow> dedup_index
   \<Rightarrow> dedup_decision \<times> dedup_index" where
  "decide digest parsedate r ref ix = (case compute_record_key digest parsedate r of
      None \<Rightarrow> (\<lparr>dd_record_key = None, dd_is_duplicate = False, dd_reason = Some ''no_dedup_key'',
        dd_existing_ref = None\<rparr>, ix)
    | Some (key, basis) \<Rightarrow>
        (let (is_dup, existing) = check_key ix (Some key) in
         if is_dup then (\<lparr>dd_record_key = Some key, dd_is_duplicate = True,
           dd_reason = Some (''duplicate:'' @ basis), dd_existing_ref = existing\<rparr>, ix)
         else (\<lparr>dd_record_key = Some key, dd_is_duplicate = False, dd_reason = Some (''new:'' @ basis),
           dd_existing_ref = None\<rparr>, add_key (Some key) ref ix)))"

fun dedup_from ::
  "(string \<Rightarrow> string) \<Rightarrow> (string \<Rightarrow> datetime option) \<Rightarrow> nat \<Rightarrow> common_record list \<Rightarrow> dedup_index
   \<Rightarrow> (common_record \<times> dedup_decision) list \<times> dedup_index" where
  "dedup_from digest parsedate i [] ix = ([], ix)"
| "dedup_from digest parsedate i (r # rs) ix =
     (let (d, ix1) = decide digest parsedate r (or_str (cr_ref r) (''batch:'' @ nat_str i)) ix;
          (ds, ix2) = dedup_from digest parsedate (Suc i) rs ix1
      in ((r, d) # ds, ix2))"

definition dedup_records ::
  "(string \<Rightarrow> string) \<Rightarrow> (string \<Rightarrow> datetime option) \<Rightarrow> common_record list \<Rightarrow> dedup_index
   \<Rightarrow> (common_record \<times> dedup_decision) list \<times> dedup_index" where
  "dedup_records digest parsedate rs ix = dedup_from digest parsedate 0 rs ix"

section \<open>Correctness\<close>

definition key_of ::
  "(string \<Rightarrow> string) \<Rightarrow> (string \<Rightarrow> datetime option) \<Rightarrow> common_record \<Rightarrow> string option" where
  "key_of digest parsedate r = map_option fst (compute_record_key digest parsedate r)"

lemma decide_key [simp]: "dd_record_key (fst (decide digest parsedate r ref ix)) = key_of digest parsedate r"
  by (auto simp: decide_def key_of_def split: option.split prod.split)

lemma decide_duplicate:
  "dd_is_duplicate (fst (decide digest parsedate r ref ix)) \<longleftrightarrow>
    (\<exists>k. key_of digest parsedate r = Some k \<and> dict_get ix k \<noteq> None)"
  "dict_get (snd (decide digest parsedate r ref ix)) k \<noteq> None \<longleftrightarrow>
    dict_get ix k \<noteq> None \<or> key_of digest parsedate r = Some k"
  by (auto simp: decide_def key_of_def check_key_def add_key_def split: option.splits prod.splits)

lemma dedup_from_spec:
  assumes "dedup_from digest parsedate i rs ix = (ds, ix')"
  shows "map fst ds = rs \<and> map (dd_record_key \<circ> snd) ds = map (key_of digest parsedate) rs \<and>
    (\<forall>j < length rs. dd_is_duplicate (snd (ds ! j)) \<longleftrightarrow>
      (\<exists>k. key_of digest parsedate (rs ! j) = Some k \<and>
        (dict_get ix k \<noteq> None \<or> (\<exists>l < j. key_of digest parsedate (rs ! l) = Some k)))) \<and>
    (\<forall>k. dict_get ix' k \<noteq> None \<longleftrightarrow> dict_get ix k \<noteq> None \<or> (\<exists>r \<in> set rs. key_of digest parsedate r = Some k))"
  using assms
proof (induction rs arbitrary: i ix ds ix')
  case Nil
  then show ?case by simp
next
  case (Cons r rs)
  let ?ref = "or_str (cr_ref r) (''batch:'' @ nat_str i)"
  obtain d ix1 where d: "decide digest parsedate r ?ref ix = (d, ix1)" by (cases "decide digest parsedate r ?ref ix")
  obtain ds2 ix2 where r: "dedup_from digest parsedate (Suc i) rs ix1 = (ds2, ix2)"
    by (cases "dedup_from digest parsedate (Suc i) rs ix1")
  have ds: "ds = (r, d) # ds2" "ix' = ix2" using Cons.prems d r by auto
  have one: "dd_record_key d = key_of digest parsedate r"
    "dd_is_duplicate d \<longleftrightarrow> (\<exists>k. key_of digest parsedate r = Some k \<and> dict_get ix k \<noteq> None)"
    "\<And>k. dict_get ix1 k \<noteq> None \<longleftrightarrow> dict_get ix k \<noteq> None \<or> key_of digest parsedate r = Some k"
    using decide_key [of digest parsedate r ?ref ix] decide_duplicate(1) [of digest parsedate r ?ref ix]
      decide_duplicate(2) [of digest parsedate r ?ref ix] unfolding d by simp_all
  note IH = Cons.IH [OF r]
  have "dd_is_duplicate (snd (ds ! j)) \<longleftrightarrow>
      (\<exists>k. key_of digest parsedate ((r # rs) ! j) = Some k \<and>
        (dict_get ix k \<noteq> None \<or> (\<exists>l < j. key_of digest parsedate ((r # rs) ! l) = Some k)))"
    if "j < length (r # rs)" for j
  proof (cases j)
    case 0
    then show ?thesis using one(2) ds by simp
  next
    case (Suc j')
    then have "j' < length rs" using that by simp
    with IH have "dd_is_duplicate (snd (ds2 ! j')) \<longleftrightarrow>
      (\<exists>k. key_of digest parsedate (rs ! j') = Some k \<and>
        (dict_get ix1 k \<noteq> None \<or> (\<exists>l < j'. key_of digest parsedate (rs ! l) = Some k)))" by blast
    then show ?thesis
      unfolding one(3) Suc ds by (simp add: Ex_less_Suc2)
  qed
  moreover have "dict_get ix' k \<noteq> None \<longleftrightarrow> dict_get ix k \<noteq> None \<or> (\<exists>x \<in> set (r # rs). key_of digest parsedate x = Some k)" for k
    using IH one(3) [of k] ds by auto
  ultimately show ?case using IH ds one(1) by simp
qed

lemma dedup_from_facts:
  assumes "dedup_from digest parsedate i rs ix = (ds, ix')"
  shows "map fst ds = rs"
    "j < length rs \<Longrightarrow> dd_is_duplicate (snd (ds ! j)) \<longleftrightarrow>
      (\<exists>k. key_of digest parsedate (rs ! j) = Some k \<and>
        (dict_get ix k \<noteq> None \<or> (\<exists>l < j. key_of digest parsedate (rs ! l) = Some k)))"
    "r \<in> set rs \<Longrightarrow> key_of digest parsedate r = Some k \<Longrightarrow> dict_get ix' k \<noteq> None"
proof -
  note spec = dedup_from_spec [OF assms]
  show "map fst ds = rs" by (rule conjunct1 [OF spec])
  note s2 = conjunct2 [OF conjunct2 [OF spec]]
  show "j < length rs \<Longrightarrow> dd_is_duplicate (snd (ds ! j)) \<longleftrightarrow>
      (\<exists>k. key_of digest parsedate (rs ! j) = Some k \<and>
        (dict_get ix k \<noteq> None \<or> (\<exists>l < j. key_of digest parsedate (rs ! l) = Some k)))"
    using conjunct1 [OF s2] by (rule allE) (erule mp)
  show "r \<in> set rs \<Longrightarrow> key_of digest parsedate r = Some k \<Longrightarrow> dict_get ix' k \<noteq> None"
    using spec [THEN conjunct2, THEN conjunct2, THEN conjunct2, rule_format, of k] by auto
qed

lemma load_save_index [simp]: "load_index (save_index ix) = ix"
  by (induction ix) (auto simp: load_index_def save_index_def json_show_def)

definition plain_record :: "string \<Rightarrow> string option \<Rightarrow> common_record" where
  "plain_record rt url = \<lparr>cr_record_type = Some rt, cr_source_id = Some ''s'', cr_title_or_label = Some ''T'',
     cr_canonical_url = url, cr_source_url_or_evidence = url, cr_published_at_or_observed_at = None,
     cr_body_state_or_signal = None, cr_ref = None\<rparr>"

definition no_digest :: "string \<Rightarrow> string" where "no_digest s = s"
definition no_mail_date :: "string \<Rightarrow> datetime option" where "no_mail_date s = None"

text \<open>C18: of the records with one key exactly the first new one passes: a record is a duplicate just when
  its key is in the index already or an earlier record of the batch has it. After a restart from the
  saved index every keyed record of the batch is a duplicate.\<close>

theorem first_record_of_a_key_passes:
  assumes "dedup_records digest parsedate rs ix = (ds, ix')" "j < length rs"
  shows "fst (ds ! j) = rs ! j \<and>
    (dd_is_duplicate (snd (ds ! j)) \<longleftrightarrow> (\<exists>k. key_of digest parsedate (rs ! j) = Some k \<and>
      (dict_get ix k \<noteq> None \<or> (\<exists>l < j. key_of digest parsedate (rs ! l) = Some k)))) \<and>
    (dd_is_duplicate (snd (fst (dedup_records digest parsedate rs (load_index (save_index ix'))) ! j)) \<longleftrightarrow>
      key_of digest parsedate (rs ! j) \<noteq> None)"
proof -
  obtain ds2 ix2 where again: "dedup_records digest parsedate rs ix' = (ds2, ix2)"
    by (cases "dedup_records digest parsedate rs ix'")
  note first = dedup_from_facts [OF assms(1) [unfolded dedup_records_def]]
  note second = dedup_from_facts [OF again [unfolded dedup_records_def]]
  have "dd_is_duplicate (snd (ds2 ! j)) \<longleftrightarrow> key_of digest parsedate (rs ! j) \<noteq> None"
    unfolding second(2) [OF assms(2)] using first(3) [OF nth_mem [OF assms(2)]] by auto
  moreover have "fst (ds ! j) = rs ! j" using first(1) assms(2) by (metis length_map nth_map)
  moreover have "fst (dedup_records digest parsedate rs (load_index (save_index ix'))) = ds2"
    unfolding load_save_index again by (rule fst_conv)
  ultimately show ?thesis using first(2) [OF assms(2)] by (simp only:)
qed

lemma first_record_of_a_key_passes_witness:
  "\<exists>ds ix'. dedup_records no_digest no_mail_date
      [plain_record ''article_candidate'' (Some ''https://a''), plain_record ''search_result'' (Some ''https://a'')] []
      = (ds, ix') \<and> dd_is_duplicate (snd (ds ! 1))"
proof -
  let ?rs = "[plain_record ''article_candidate'' (Some ''https://a''), plain_record ''search_result'' (Some ''https://a'')]"
  obtain ds ix' where run: "dedup_records no_digest no_mail_date ?rs [] = (ds, ix')"
    by (cases "dedup_records no_digest no_mail_date ?rs []")
  have "key_of no_digest no_mail_date (plain_record ''article_candidate'' (Some ''https://a'')) = Some ''canon:https://a''"
    "key_of no_digest no_mail_date (plain_record ''search_result'' (Some ''https://a'')) = Some ''canon:https://a''"
    by code_simp+
  then have key: "key_of no_digest no_mail_date (?rs ! 0) = Some ''canon:https://a''"
    "key_of no_digest no_mail_date (?rs ! 1) = Some ''canon:https://a''" by (simp_all only: nth_Cons_0 nth_Cons_Suc One_nat_def)
  have "\<exists>l < (1 :: nat). key_of no_digest no_mail_date (?rs ! l) = Some ''canon:https://a''"
    using key(1) zero_less_one by blast
  then have "dd_is_duplicate (snd (ds ! 1))"
    using key(2) conjunct1 [OF conjunct2 [OF first_record_of_a_key_passes [OF run, of 1]]] by (metis length_Cons lessI list.size(3) One_nat_def)
  with run show ?thesis by blast
qed

end
