(* ===== verification/Clusters.thy ===== *)
theory Clusters
  imports Dedup "HOL-Library.Multiset" "HOL-Library.Product_Lexorder"
begin

text \<open>
  Clusters of records of several sources: \<open>ingestion/orchestration/cross_source_dedup.py\<close>.

  A union-find over the positions of the records joins those that share a canonical URL, an official
  id or a signal, and those of one day with similar titles. \<open>find\<close> runs a loop that ends only on a
  sound parent array, so it is a partial function; the lemmas show that it returns here. A Python
  \<open>set\<close> of pairs is a list without order; the union-find does not depend on the order, as a root is
  the least member of its class.
\<close>

section \<open>Titles and days\<close>

definition XC_DUPLICATE :: string where "XC_DUPLICATE = ''duplicate''"
definition XC_POSSIBLE :: string where "XC_POSSIBLE = ''possible_duplicate''"
definition TITLE_JACCARD_THRESHOLD :: rat where "TITLE_JACCARD_THRESHOLD = 4 / 5"
definition MIN_SEMANTIC_TOKENS :: nat where "MIN_SEMANTIC_TOKENS = 4"

definition STOPWORDS :: "string list" where
  "STOPWORDS = [''the'', ''a'', ''an'', ''of'', ''to'', ''in'', ''on'', ''for'', ''and'', ''or'', ''with'',
     ''is'', ''are'', ''was'', ''were'', ''says'', ''say'', ''after'', ''as'', ''at'', ''by'']"

definition PUBLISHABLE_RECORD_TYPES :: "string list" where
  "PUBLISHABLE_RECORD_TYPES = [''official_record'', ''article_candidate'']"

text \<open>The code points of a string, each with its bytes.\<close>

function code_points :: "string \<Rightarrow> string list" where
  "code_points [] = []"
| "code_points (c # cs) = (c # takeWhile is_cont cs) # code_points (dropWhile is_cont cs)"
  by pat_completeness auto
termination
  by (relation "measure length") (auto simp: length_dropWhile_le less_Suc_eq_le)

text \<open>\<open>[0-9A-Za-z]\<close> and the Hangul syllables U+AC00 to U+D7A3.\<close>

definition hangul :: "string \<Rightarrow> bool" where
  "hangul cp \<longleftrightarrow> length cp = 3 \<and> [CHR 0xEA, CHR 0xB0, CHR 0x80] \<le> cp \<and> cp \<le> [CHR 0xED, CHR 0x9E, CHR 0xA3]"

definition token_char :: "string \<Rightarrow> bool" where
  "token_char cp \<longleftrightarrow> (case cp of [c] \<Rightarrow> is_digit c \<or> is_upper c \<or> is_lower c | _ \<Rightarrow> hangul cp)"

fun runs :: "('a \<Rightarrow> bool) \<Rightarrow> 'a list \<Rightarrow> 'a list \<Rightarrow> 'a list list" where
  "runs p acc [] = (if acc = [] then [] else [rev acc])"
| "runs p acc (x # xs) =
     (if p x then runs p (x # acc) xs else (if acc = [] then [] else [rev acc]) @ runs p [] xs)"

definition title_tokens :: "string option \<Rightarrow> string list" where
  "title_tokens title = remdups (map concat (filter (\<lambda>t. 1 < length t \<and> concat t \<notin> set STOPWORDS)
     (runs token_char [] (code_points (lower (or_str title []))))))"

definition date_bucket :: "(string \<Rightarrow> datetime option) \<Rightarrow> common_record \<Rightarrow> string" where
  "date_bucket parsedate r = py_take 10 (norm_instant parsedate (cr_published_at_or_observed_at r))"

definition jaccard :: "string list \<Rightarrow> string list \<Rightarrow> rat" where
  "jaccard a b = (if a = [] \<or> b = [] then 0
     else of_nat (length (filter (\<lambda>x. x \<in> set b) a)) / of_nat (length (remdups (a @ b))))"

definition titles_similar :: "string option \<Rightarrow> string option \<Rightarrow> rat \<Rightarrow> bool" where
  "titles_similar a b threshold \<longleftrightarrow> norm_title a \<noteq> [] \<and> norm_title b \<noteq> [] \<and>
     (norm_title a = norm_title b \<or> threshold \<le> jaccard (title_tokens a) (title_tokens b))"

definition semantic_identity_fingerprint ::
  "(string \<Rightarrow> string) \<Rightarrow> (string \<Rightarrow> datetime option) \<Rightarrow> string option \<Rightarrow> string option \<Rightarrow> string option" where
  "semantic_identity_fingerprint digest parsedate title observed_at =
    (let tokens = title_tokens title; bucket = py_take 10 (norm_instant parsedate observed_at) in
     if length tokens < MIN_SEMANTIC_TOKENS \<or> bucket = [] then None
     else Some (''sem:'' @ digest (str_join '' '' (sort tokens) @ ''|'' @ bucket)))"

section \<open>Union-find\<close>

partial_function (option) uf_find :: "nat list \<Rightarrow> nat \<Rightarrow> (nat list \<times> nat) option" where
  "uf_find p x =
     (if p ! x \<noteq> x then let p' = p[x := p ! (p ! x)] in uf_find p' (p' ! x) else Some (p, x))"

declare uf_find.simps [code]

definition uf_union :: "nat list \<Rightarrow> nat \<Rightarrow> nat \<Rightarrow> nat list option" where
  "uf_union p a b = Option.bind (uf_find p a) (\<lambda>(p1, ra). Option.bind (uf_find p1 b) (\<lambda>(p2, rb).
     Some (if ra \<noteq> rb then p2[max ra rb := min ra rb] else p2)))"

fun union_all :: "nat list \<Rightarrow> (nat \<times> nat) list \<Rightarrow> nat list option" where
  "union_all p [] = Some p"
| "union_all p ((a, b) # ps) = Option.bind (uf_union p a b) (\<lambda>p1. union_all p1 ps)"

fun uf_roots :: "nat list \<Rightarrow> nat list \<Rightarrow> (nat list \<times> nat list) option" where
  "uf_roots p [] = Some (p, [])"
| "uf_roots p (x # xs) = Option.bind (uf_find p x) (\<lambda>(p1, r).
     Option.bind (uf_roots p1 xs) (\<lambda>(p2, rs). Some (p2, r # rs)))"

text \<open>\<open>groups.setdefault(find(x), []).append(x)\<close> for the elements in order.\<close>

definition group_by_root :: "nat list \<Rightarrow> nat list \<Rightarrow> (nat, nat list) dict" where
  "group_by_root xs roots = foldl (\<lambda>d (x, r). dict_set r (get_or d r [] @ [x]) d) [] (zip xs roots)"

section \<open>Links between records\<close>

record strong_state =
  ss_uf :: "nat list"
  ss_pairs :: "(nat \<times> nat) list"
  ss_canon :: "(string, nat) dict"
  ss_official :: "(string, nat) dict"
  ss_signal :: "(string, nat) dict"

definition canon_key :: "common_record \<Rightarrow> string option" where
  "canon_key r = (if truthy (cr_canonical_url r) then cr_canonical_url r else None)"

definition official_key :: "common_record \<Rightarrow> string option" where
  "official_key r = (if truthy (official_id (external_url r)) then official_id (external_url r) else None)"

definition signal_key :: "(string \<Rightarrow> datetime option) \<Rightarrow> common_record \<Rightarrow> string option" where
  "signal_key parsedate r = (if cr_record_type r = Some ''structured_signal'' then
     Some ((case cr_body_state_or_signal r of None \<Rightarrow> ''None'' | Some s \<Rightarrow> s) @ ''|'' @ date_bucket parsedate r @
       ''|'' @ norm_title (cr_title_or_label r)) else None)"

text \<open>One index: a key seen before joins the record with the first one, a new key is entered.\<close>

definition link_key ::
  "string option \<Rightarrow> nat \<Rightarrow> (string, nat) dict \<Rightarrow> nat list \<times> (nat \<times> nat) list
   \<Rightarrow> ((string, nat) dict \<times> nat list \<times> (nat \<times> nat) list) option" where
  "link_key key i idx up = (case key of None \<Rightarrow> Some (idx, up) | Some k \<Rightarrow>
     (case dict_get idx k of
        Some j \<Rightarrow> Option.bind (uf_union (fst up) j i) (\<lambda>p. Some (idx, p, (min j i, max j i) # snd up))
      | None \<Rightarrow> Some (dict_set k i idx, up)))"

definition strong_step ::
  "(string \<Rightarrow> datetime option) \<Rightarrow> nat \<Rightarrow> common_record \<Rightarrow> strong_state \<Rightarrow> strong_state option" where
  "strong_step parsedate i r st =
     Option.bind (link_key (canon_key r) i (ss_canon st) (ss_uf st, ss_pairs st)) (\<lambda>(canon, up1).
     Option.bind (link_key (official_key r) i (ss_official st) up1) (\<lambda>(official, up2).
     Option.bind (link_key (signal_key parsedate r) i (ss_signal st) up2) (\<lambda>(signal, up3).
       Some \<lparr>ss_uf = fst up3, ss_pairs = snd up3, ss_canon = canon, ss_official = official, ss_signal = signal\<rparr>)))"

fun strong_all ::
  "(string \<Rightarrow> datetime option) \<Rightarrow> nat \<Rightarrow> common_record list \<Rightarrow> strong_state \<Rightarrow> strong_state option" where
  "strong_all parsedate i [] st = Some st"
| "strong_all parsedate i (r # rs) st = Option.bind (strong_step parsedate i r st) (strong_all parsedate (Suc i) rs)"

definition strong_links :: "(string \<Rightarrow> datetime option) \<Rightarrow> common_record list \<Rightarrow> strong_state option" where
  "strong_links parsedate rs = strong_all parsedate 0 rs
     \<lparr>ss_uf = [0..<length rs], ss_pairs = [], ss_canon = [], ss_official = [], ss_signal = []\<rparr>"

definition by_bucket :: "(string \<Rightarrow> datetime option) \<Rightarrow> common_record list \<Rightarrow> (string, nat list) dict" where
  "by_bucket parsedate rs = foldl (\<lambda>d i. let b = date_bucket parsedate (rs ! i) in
     if b \<noteq> [] then dict_set b (get_or d b [] @ [i]) d else d) [] [0..<length rs]"

fun later_pairs :: "'a list \<Rightarrow> ('a \<times> 'a) list" where
  "later_pairs [] = []"
| "later_pairs (x # xs) = map (Pair x) xs @ later_pairs xs"

text \<open>The weak link of two records of one day, with its similarity.\<close>

definition title_link :: "common_record list \<Rightarrow> nat \<Rightarrow> nat \<Rightarrow> rat option" where
  "title_link rs i j =
    (let ti = cr_title_or_label (rs ! i); tj = cr_title_or_label (rs ! j);
         jac = (if norm_title ti = norm_title tj then 1 else jaccard (title_tokens ti) (title_tokens tj))
     in if norm_title ti \<noteq> [] \<and> norm_title tj \<noteq> [] \<and> TITLE_JACCARD_THRESHOLD \<le> jac then Some jac else None)"

definition weak_links ::
  "(string \<Rightarrow> datetime option) \<Rightarrow> common_record list \<Rightarrow> ((nat \<times> nat) \<times> rat) list" where
  "weak_links parsedate rs = List.map_filter
     (\<lambda>(i, j). map_option (\<lambda>jac. ((min i j, max i j), jac)) (title_link rs i j))
     (concat (map (\<lambda>(b, idxs). later_pairs idxs) (by_bucket parsedate rs)))"

section \<open>The clusters\<close>

record cross_source_result =
  xs_cluster_id :: string
  xs_duplicate_group :: "string list"
  xs_primary_record_key :: string
  xs_duplicate_record_keys :: "string list"
  xs_confidence :: string
  xs_reason :: string
  xs_signal_strength :: rat
  xs_clique_ok :: bool
  xs_weak_only_members :: "string list"

definition record_keys ::
  "(string \<Rightarrow> string) \<Rightarrow> (string \<Rightarrow> datetime option) \<Rightarrow> common_record list \<Rightarrow> string list" where
  "record_keys digest parsedate rs = map (\<lambda>(i, r). or_str (map_option fst (compute_record_key digest parsedate r))
     (''rec:'' @ nat_str i)) (enumerate 0 rs)"

text \<open>\<open>min(items, key=...)\<close>: the first item with the least key.\<close>

definition first_min :: "('a \<Rightarrow> 'k::linorder) \<Rightarrow> 'a list \<Rightarrow> 'a" where
  "first_min key xs = foldl (\<lambda>m x. if key x < key m then x else m) (hd xs) (tl xs)"

definition list_min :: "'a::linorder list \<Rightarrow> 'a" where
  "list_min xs = foldl min (hd xs) (tl xs)"

definition list_max :: "rat list \<Rightarrow> rat" where
  "list_max xs = foldl max (hd xs) (tl xs)"

definition inside :: "nat list \<Rightarrow> (nat \<times> nat) list \<Rightarrow> (nat \<times> nat) list" where
  "inside members = filter (\<lambda>(a, b). a \<in> set members \<and> b \<in> set members)"

definition pos_of :: "nat list \<Rightarrow> nat \<Rightarrow> nat" where
  "pos_of members m = length (takeWhile (\<lambda>x. x \<noteq> m) members)"

text \<open>The component that strong links join, to which the others are attached by titles only.\<close>

definition primary_component ::
  "common_record list \<Rightarrow> string list \<Rightarrow> nat list \<Rightarrow> (nat, nat list) dict \<Rightarrow> nat" where
  "primary_component rs keys members comps = fst (first_min
     (\<lambda>(root, ps). (- int (length ps),
        \<not> list_ex (\<lambda>p. cr_record_type (rs ! (members ! p)) \<in> Some ` set PUBLISHABLE_RECORD_TYPES) ps,
        list_min (map (\<lambda>p. keys ! (members ! p)) ps))) comps)"

definition weak_only ::
  "common_record list \<Rightarrow> string list \<Rightarrow> nat list \<Rightarrow> (nat \<times> nat) list \<Rightarrow> nat list option" where
  "weak_only rs keys members strong_in =
     Option.bind (union_all [0..<length members] (map (\<lambda>(a, b). (pos_of members a, pos_of members b)) strong_in)) (\<lambda>suf.
     Option.bind (uf_roots suf [0..<length members]) (\<lambda>(suf1, roots).
       let root = primary_component rs keys members (group_by_root [0..<length members] roots) in
       map_option (\<lambda>(_, rs2). map fst (filter (\<lambda>(m, r). r \<noteq> root) (zip members rs2)))
         (uf_roots suf1 (map (pos_of members) members))))"

definition cluster_of_group ::
  "common_record list \<Rightarrow> string list \<Rightarrow> (nat \<times> nat) list \<Rightarrow> ((nat \<times> nat) \<times> rat) list \<Rightarrow> nat list
   \<Rightarrow> cross_source_result option" where
  "cluster_of_group rs keys strong weak grp =
    (let members = sort_key (\<lambda>m. keys ! m) grp;
         strong_in = inside members strong;
         weak_in = filter (\<lambda>(p, jac). fst p \<in> set members \<and> snd p \<in> set members) weak
     in map_option (\<lambda>wo.
       \<lparr>xs_cluster_id = ''xcluster:'' @ keys ! (members ! 0), xs_duplicate_group = map (\<lambda>m. keys ! m) members,
        xs_primary_record_key = keys ! (members ! 0), xs_duplicate_record_keys = map (\<lambda>m. keys ! m) (tl members),
        xs_confidence = (if strong_in \<noteq> [] then XC_DUPLICATE else XC_POSSIBLE),
        xs_reason = (if strong_in \<noteq> [] then ''strong_key_match'' else ''title_date_similarity''),
        xs_signal_strength = (if strong_in \<noteq> [] then 1 else if weak_in \<noteq> [] then list_max (map snd weak_in) else 0),
        xs_clique_ok = (wo = []), xs_weak_only_members = map (\<lambda>m. keys ! m) wo\<rparr>)
       (weak_only rs keys members strong_in))"

text \<open>The positions of each cluster, by root, with the links found.\<close>

definition cluster_groups ::
  "(string \<Rightarrow> datetime option) \<Rightarrow> common_record list
   \<Rightarrow> (nat list list \<times> (nat \<times> nat) list \<times> ((nat \<times> nat) \<times> rat) list) option" where
  "cluster_groups parsedate rs =
     Option.bind (strong_links parsedate rs) (\<lambda>st. let weak = weak_links parsedate rs in
     Option.bind (union_all (ss_uf st) (map fst weak)) (\<lambda>p.
     Option.bind (uf_roots p [0..<length rs]) (\<lambda>(_, roots).
       Some (filter (\<lambda>g. 2 \<le> length g) (map snd (sort_key fst (group_by_root [0..<length rs] roots))),
         ss_pairs st, weak))))"

fun all_some :: "'a option list \<Rightarrow> 'a list option" where
  "all_some [] = Some []"
| "all_some (x # xs) = Option.bind x (\<lambda>y. map_option ((#) y) (all_some xs))"

definition cluster_records ::
  "(string \<Rightarrow> string) \<Rightarrow> (string \<Rightarrow> datetime option) \<Rightarrow> common_record list
   \<Rightarrow> cross_source_result list option" where
  "cluster_records digest parsedate rs =
     (if length rs < 2 then Some []
      else Option.bind (cluster_groups parsedate rs) (\<lambda>(groups, strong, weak).
        all_some (map (cluster_of_group rs (record_keys digest parsedate rs) strong weak) groups)))"

record cluster_summary =
  cs_clusters :: nat
  cs_duplicate :: nat
  cs_possible :: nat
  cs_collapsed :: nat

definition summarize_clusters :: "cross_source_result list \<Rightarrow> cluster_summary" where
  "summarize_clusters cs =
     \<lparr>cs_clusters = length cs, cs_duplicate = length (filter (\<lambda>c. xs_confidence c = XC_DUPLICATE) cs),
      cs_possible = length (filter (\<lambda>c. xs_confidence c = XC_POSSIBLE) cs),
      cs_collapsed = sum_list (map (\<lambda>c. length (xs_duplicate_record_keys c)) cs)\<rparr>"

section \<open>The union-find is sound\<close>

text \<open>A sound parent array points down; \<open>root\<close> is where its chain ends.\<close>

definition uf_ok :: "nat list \<Rightarrow> bool" where
  "uf_ok p \<longleftrightarrow> (\<forall>x < length p. p ! x \<le> x)"

function uf_root :: "nat list \<Rightarrow> nat \<Rightarrow> nat" where
  "uf_root p x = (if x < length p \<and> p ! x < x then uf_root p (p ! x) else x)"
  by pat_completeness auto
termination
  by (relation "measure snd") auto

declare uf_root.simps [simp del]

lemma uf_okD: "uf_ok p \<Longrightarrow> x < length p \<Longrightarrow> p ! x \<le> x"
  by (simp add: uf_ok_def)

lemma root_parent: "uf_ok p \<Longrightarrow> x < length p \<Longrightarrow> uf_root p (p ! x) = uf_root p x"
  by (metis uf_okD le_neq_implies_less uf_root.simps)

lemma root_facts:
  assumes "uf_ok p" "x < length p"
  shows "uf_root p x \<le> x" "uf_root p x < length p" "p ! uf_root p x = uf_root p x"
  using assms
proof (induction x rule: less_induct)
  case (less x)
  {
    case 1
    show ?case
    proof (cases "p ! x < x")
      case True
      then have "uf_root p (p ! x) \<le> p ! x" using less(1) [of "p ! x"] 1 by simp
      then show ?thesis using True 1 by (simp add: uf_root.simps [of p x])
    qed (simp add: uf_root.simps [of p x])
  next
    case 2
    show ?case
    proof (cases "p ! x < x")
      case True
      then have "uf_root p (p ! x) < length p" using less(2) [of "p ! x"] 2 by simp
      then show ?thesis using True 2 by (simp add: uf_root.simps [of p x])
    qed (use 2 in \<open>simp add: uf_root.simps [of p x]\<close>)
  next
    case 3
    show ?case
    proof (cases "p ! x < x")
      case True
      then have "p ! uf_root p (p ! x) = uf_root p (p ! x)" using less(3) [of "p ! x"] 3 by simp
      then show ?thesis using True 3 by (simp add: uf_root.simps [of p x])
    next
      case False
      then show ?thesis using 3 uf_okD [of p x] by (simp add: uf_root.simps [of p x])
    qed
  }
qed

lemma root_fixed: "uf_ok p \<Longrightarrow> x < length p \<Longrightarrow> p ! x = x \<Longrightarrow> uf_root p x = x"
  by (simp add: uf_root.simps)

lemma root_root [simp]: "uf_ok p \<Longrightarrow> x < length p \<Longrightarrow> uf_root p (uf_root p x) = uf_root p x"
  using root_facts root_fixed by blast

text \<open>Halving a path keeps every root.\<close>

lemma halve_ok: "uf_ok p \<Longrightarrow> x < length p \<Longrightarrow> uf_ok (p[x := p ! (p ! x)])"
proof -
  assume p: "uf_ok p" "x < length p"
  then have "p ! (p ! x) \<le> x" using uf_okD [OF p] uf_okD [OF p(1), of "p ! x"] by simp
  with p show ?thesis unfolding uf_ok_def by (simp add: nth_list_update)
qed

lemma halve_root:
  assumes "uf_ok p" "x < length p" "y < length p"
  shows "uf_root (p[x := p ! (p ! x)]) y = uf_root p y"
  using assms(3)
proof (induction y rule: less_induct)
  case (less y)
  let ?q = "p[x := p ! (p ! x)]"
  have le: "p ! x \<le> x" "p ! x < length p" "p ! (p ! x) \<le> p ! x"
    using assms(1,2) uf_okD [of p x] uf_okD [of p "p ! x"] by auto
  show ?case
  proof (cases "y = x")
    case True
    then have q: "?q ! y = p ! (p ! x)" using assms(2) by simp
    show ?thesis
    proof (cases "p ! (p ! x) < x")
      case True
      then have "uf_root ?q y = uf_root ?q (p ! (p ! x))"
        using q \<open>y = x\<close> assms(2) by (subst uf_root.simps) simp
      also have "\<dots> = uf_root p (p ! (p ! x))" using less.IH [of "p ! (p ! x)"] True \<open>y = x\<close> le by simp
      also have "\<dots> = uf_root p y" using root_parent assms(1,2) le \<open>y = x\<close> by metis
      finally show ?thesis .
    next
      case False
      then have "p ! x = x" using le by simp
      then have "?q = p" using list_update_id [of p x] by simp
      then show ?thesis by simp
    qed
  next
    case False
    then have "?q ! y = p ! y" by simp
    then show ?thesis
      using less.IH [of "p ! y"] less.prems by (simp add: uf_root.simps [of ?q y] uf_root.simps [of p y])
  qed
qed

lemma uf_find_ok:
  assumes "uf_ok p" "x < length p"
  shows "\<exists>q. uf_find p x = Some (q, uf_root p x) \<and> uf_ok q \<and> length q = length p \<and>
    (\<forall>y < length p. uf_root q y = uf_root p y)"
  using assms
proof (induction x arbitrary: p rule: less_induct)
  case (less x)
  show ?case
  proof (cases "p ! x = x")
    case True
    then show ?thesis using less.prems root_fixed by (subst uf_find.simps) auto
  next
    case False
    let ?q = "p[x := p ! (p ! x)]"
    have lt: "p ! x < x" using False uf_okD [OF less.prems] by simp
    have q: "uf_ok ?q" "?q ! x = p ! (p ! x)" using halve_ok less.prems by auto
    have small: "?q ! x < x" "?q ! x < length ?q"
      using q(2) lt uf_okD [OF less.prems(1), of "p ! x"] less.prems(2) by auto
    obtain r where r: "uf_find ?q (?q ! x) = Some (r, uf_root ?q (?q ! x))" "uf_ok r" "length r = length ?q"
      "\<forall>y < length ?q. uf_root r y = uf_root ?q y"
      using less.IH [OF small(1) q(1) small(2)] by blast
    have "uf_root ?q (?q ! x) = uf_root ?q x" using root_parent q(1) less.prems(2) by (metis length_list_update)
    then have "uf_root ?q (?q ! x) = uf_root p x" using halve_root less.prems by metis
    then have "uf_find p x = Some (r, uf_root p x)"
      using False r(1) by (subst uf_find.simps) (simp add: Let_def)
    moreover have "\<forall>y < length p. uf_root r y = uf_root p y" using r(4) halve_root [OF less.prems] by simp
    ultimately show ?thesis using r(2,3) by simp
  qed
qed

lemma link_root:
  assumes "uf_ok p" "M < length p" "p ! M = M" "m < M" "p ! m = m" "y < length p"
  shows "uf_root (p[M := m]) y = (if uf_root p y = M then m else uf_root p y)"
  using assms(6)
proof (induction y rule: less_induct)
  case (less y)
  let ?q = "p[M := m]"
  show ?case
  proof (cases "y = M")
    case True
    have "uf_root ?q y = uf_root ?q m" using True assms by (subst uf_root.simps) simp
    also have "\<dots> = m" using assms by (simp add: uf_root.simps [of ?q m])
    finally show ?thesis using True root_fixed [OF assms(1-3)] by simp
  next
    case False
    show ?thesis
    proof (cases "p ! y < y")
      case True
      then show ?thesis
        using False less by (simp add: uf_root.simps [of ?q y] uf_root.simps [of p y])
    next
      case neq: False
      then show ?thesis using False by (simp add: uf_root.simps [of ?q y] uf_root.simps [of p y])
    qed
  qed
qed

lemma link_ok: "uf_ok p \<Longrightarrow> m < M \<Longrightarrow> uf_ok (p[M := m])"
  unfolding uf_ok_def by (metis length_list_update less_imp_le nth_list_update_eq nth_list_update_neq)

lemma uf_union_ok:
  assumes "uf_ok p" "a < length p" "b < length p"
  shows "\<exists>q. uf_union p a b = Some q \<and> uf_ok q \<and> length q = length p \<and>
    (\<forall>y < length p. uf_root q y =
      (if uf_root p y \<in> {uf_root p a, uf_root p b} then min (uf_root p a) (uf_root p b) else uf_root p y))"
proof -
  obtain p1 where p1: "uf_find p a = Some (p1, uf_root p a)" "uf_ok p1" "length p1 = length p"
    "\<forall>y < length p. uf_root p1 y = uf_root p y"
    using uf_find_ok [OF assms(1,2)] by blast
  obtain p2 where p2: "uf_find p1 b = Some (p2, uf_root p1 b)" "uf_ok p2" "length p2 = length p"
    "\<forall>y < length p. uf_root p2 y = uf_root p1 y"
    using uf_find_ok [OF p1(2), of b] assms(3) p1(3) by auto
  let ?ra = "uf_root p a" and ?rb = "uf_root p b"
  have same: "uf_root p2 y = uf_root p y" if "y < length p" for y using p1(4) p2(4) that by simp
  have rb: "uf_root p1 b = ?rb" using p1(4) assms(3) by simp
  have fx: "p2 ! ?ra = ?ra" "p2 ! ?rb = ?rb" "?ra < length p" "?rb < length p"
    using root_facts [OF p2(2), of a] root_facts [OF p2(2), of b] assms(2,3) p2(3) same by auto
  show ?thesis
  proof (cases "?ra = ?rb")
    case True
    then show ?thesis
      using p1(1) p2 rb same by (auto simp: uf_union_def)
  next
    case False
    let ?M = "max ?ra ?rb" and ?m = "min ?ra ?rb"
    have Mm: "?M < length p2" "p2 ! ?M = ?M" "?m < ?M" "p2 ! ?m = ?m"
      using fx False p2(3) by (auto simp: max_def min_def)
    have "uf_union p a b = Some (p2[?M := ?m])" using p1(1) p2(1) rb False by (simp add: uf_union_def)
    moreover have "uf_ok (p2[?M := ?m])"
      using link_ok [OF p2(2) Mm(3)] .
    moreover have "uf_root (p2[?M := ?m]) y =
      (if uf_root p y \<in> {?ra, ?rb} then ?m else uf_root p y)" if "y < length p" for y
      using link_root [OF p2(2) Mm, of y] that p2(3) same [OF that] by (auto simp: max_def min_def)
    ultimately show ?thesis using p2(3) by auto
  qed
qed

text \<open>A union-find holds a set of links when its classes are the connected components.\<close>

definition conn :: "(nat \<times> nat) set \<Rightarrow> (nat \<times> nat) set" where
  "conn E = (E \<union> E\<inverse>)\<^sup>*"

definition uf_repr :: "nat list \<Rightarrow> (nat \<times> nat) set \<Rightarrow> bool" where
  "uf_repr p E \<longleftrightarrow> uf_ok p \<and> (\<forall>x < length p. \<forall>y < length p. uf_root p x = uf_root p y \<longleftrightarrow> (x, y) \<in> conn E)"

lemma conn_refl [simp]: "(x, x) \<in> conn E"
  by (simp add: conn_def)

lemma conn_sym: "(x, y) \<in> conn E \<Longrightarrow> (y, x) \<in> conn E"
  using sym_rtrancl [of "E \<union> E\<inverse>"] unfolding conn_def by (auto simp: sym_def sym_Un_converse)

lemma conn_trans [trans]: "(x, y) \<in> conn E \<Longrightarrow> (y, z) \<in> conn E \<Longrightarrow> (x, z) \<in> conn E"
  unfolding conn_def by (rule rtrancl_trans)

lemma conn_edge: "(x, y) \<in> E \<Longrightarrow> (x, y) \<in> conn E"
  unfolding conn_def by auto

lemma conn_mono: "E \<subseteq> conn F \<Longrightarrow> conn E \<subseteq> conn F"
proof -
  assume "E \<subseteq> conn F"
  then have "E \<union> E\<inverse> \<subseteq> conn F" using conn_sym by blast
  then have "(E \<union> E\<inverse>)\<^sup>* \<subseteq> (conn F)\<^sup>*" by (rule rtrancl_mono)
  then show ?thesis by (simp add: conn_def)
qed

lemma conn_insert:
  "(x, y) \<in> conn (insert (a, b) E) \<longleftrightarrow> (x, y) \<in> conn E \<or> (x, a) \<in> conn E \<and> (b, y) \<in> conn E \<or>
    (x, b) \<in> conn E \<and> (a, y) \<in> conn E"
proof -
  have "insert (a, b) E \<union> (insert (a, b) E)\<inverse> = insert (a, b) (insert (b, a) (E \<union> E\<inverse>))" by auto
  then have "conn (insert (a, b) E) = (insert (a, b) (insert (b, a) (E \<union> E\<inverse>)))\<^sup>*" by (simp add: conn_def)
  also have "\<dots> = {(x, y). (x, y) \<in> conn E \<or> (x, b) \<in> conn E \<and> (a, y) \<in> conn E \<or>
      ((x, a) \<in> conn E \<or> (x, b) \<in> conn E \<and> (a, a) \<in> conn E) \<and> ((b, y) \<in> conn E \<or> (b, b) \<in> conn E \<and> (a, y) \<in> conn E)}"
    unfolding rtrancl_insert conn_def [symmetric] by auto
  finally have "(x, y) \<in> conn (insert (a, b) E) \<longleftrightarrow> (x, y) \<in> conn E \<or> (x, b) \<in> conn E \<and> (a, y) \<in> conn E \<or>
      ((x, a) \<in> conn E \<or> (x, b) \<in> conn E) \<and> ((b, y) \<in> conn E \<or> (a, y) \<in> conn E)" by simp
  then show ?thesis using conn_trans [of x a E y] conn_trans [of x b E y] by blast
qed

lemma merge_eq:
  "((if rx \<in> {ra, rb} then min ra rb else rx) = (if ry \<in> {ra, rb} then min ra rb else ry)) \<longleftrightarrow>
    rx = ry \<or> rx = ra \<and> rb = ry \<or> rx = rb \<and> ra = (ry :: nat)"
  by (auto simp: min_def)

lemma uf_repr_union:
  assumes "uf_repr p E" "a < length p" "b < length p"
  shows "\<exists>q. uf_union p a b = Some q \<and> length q = length p \<and> uf_repr q (insert (a, b) E)"
proof -
  have ok: "uf_ok p" and rel: "\<And>x y. x < length p \<Longrightarrow> y < length p \<Longrightarrow> uf_root p x = uf_root p y \<longleftrightarrow> (x, y) \<in> conn E"
    using assms(1) by (auto simp: uf_repr_def)
  obtain q where q: "uf_union p a b = Some q" "uf_ok q" "length q = length p"
    "\<And>y. y < length p \<Longrightarrow> uf_root q y =
      (if uf_root p y \<in> {uf_root p a, uf_root p b} then min (uf_root p a) (uf_root p b) else uf_root p y)"
    using uf_union_ok [OF ok assms(2,3)] by blast
  have "uf_root q x = uf_root q y \<longleftrightarrow> (x, y) \<in> conn (insert (a, b) E)" if xy: "x < length p" "y < length p" for x y
    unfolding q(4) [OF xy(1)] q(4) [OF xy(2)] merge_eq conn_insert
    by (simp only: rel xy assms(2,3))
  then show ?thesis using q(1-3) by (auto simp: uf_repr_def)
qed

lemma uf_repr_init: "uf_repr [0..<n] {}"
  by (auto simp: uf_repr_def uf_ok_def conn_def uf_root.simps)

lemma uf_repr_union_all:
  assumes "uf_repr p E" "\<forall>(a, b) \<in> set ps. a < length p \<and> b < length p"
  shows "\<exists>q. union_all p ps = Some q \<and> length q = length p \<and> uf_repr q (E \<union> set ps)"
  using assms
proof (induction ps arbitrary: p E)
  case Nil
  then show ?case by simp
next
  case (Cons e ps)
  obtain a b where e: "e = (a, b)" by (cases e)
  obtain p1 where p1: "uf_union p a b = Some p1" "length p1 = length p" "uf_repr p1 (insert (a, b) E)"
    using uf_repr_union [OF Cons.prems(1), of a b] Cons.prems(2) e by auto
  obtain q where "union_all p1 ps = Some q" "length q = length p1" "uf_repr q (insert (a, b) E \<union> set ps)"
    using Cons.IH [OF p1(3)] Cons.prems(2) p1(2) by auto
  then show ?case using p1 e by auto
qed

lemma uf_roots_ok:
  assumes "uf_ok p" "\<forall>x \<in> set xs. x < length p"
  shows "\<exists>q. uf_roots p xs = Some (q, map (uf_root p) xs) \<and> uf_ok q \<and> length q = length p \<and>
    (\<forall>y < length p. uf_root q y = uf_root p y)"
  using assms
proof (induction xs arbitrary: p)
  case Nil
  then show ?case by simp
next
  case (Cons x xs)
  obtain p1 where p1: "uf_find p x = Some (p1, uf_root p x)" "uf_ok p1" "length p1 = length p"
    "\<forall>y < length p. uf_root p1 y = uf_root p y"
    using uf_find_ok [OF Cons.prems(1), of x] Cons.prems(2) by auto
  obtain q where q: "uf_roots p1 xs = Some (q, map (uf_root p1) xs)" "uf_ok q" "length q = length p1"
    "\<forall>y < length p1. uf_root q y = uf_root p1 y"
    using Cons.IH [OF p1(2)] Cons.prems(2) p1(3) by auto
  have "map (uf_root p1) xs = map (uf_root p) xs" using p1(4) Cons.prems(2) by simp
  then show ?case using p1 q by simp
qed

section \<open>Grouping\<close>

lemma group_fold:
  "dict_ok (foldl (\<lambda>d x. dict_set (f x) (get_or d (f x) [] @ [x]) d) [] xs)"
  "dict_get (foldl (\<lambda>d x. dict_set (f x) (get_or d (f x) [] @ [x]) d) [] xs) r =
    (if filter (\<lambda>x. f x = r) xs = [] then None else Some (filter (\<lambda>x. f x = r) xs))"
  by (induction xs arbitrary: r rule: rev_induct) (auto simp: get_or_def)

lemma group_fold_values:
  "(\<exists>r. (r, g) \<in> set (foldl (\<lambda>d x. dict_set (f x) (get_or d (f x) [] @ [x]) d) [] xs)) \<longleftrightarrow>
    (\<exists>x \<in> set xs. g = filter (\<lambda>y. f y = f x) xs)"
  (is "(\<exists>r. (r, g) \<in> set ?d) \<longleftrightarrow> _")
proof
  assume "\<exists>r. (r, g) \<in> set ?d"
  then obtain r where "(r, g) \<in> set ?d" by blast
  then have "dict_get ?d r = Some g" by (rule dict_ok_mem_get [OF group_fold(1)])
  then have g: "g = filter (\<lambda>x. f x = r) xs" "g \<noteq> []" unfolding group_fold(2) by (auto split: if_splits)
  then obtain x where "x \<in> set xs" "f x = r" by (auto simp: filter_empty_conv)
  then show "\<exists>x \<in> set xs. g = filter (\<lambda>y. f y = f x) xs" using g(1) by blast
next
  assume "\<exists>x \<in> set xs. g = filter (\<lambda>y. f y = f x) xs"
  then obtain x where x: "x \<in> set xs" "g = filter (\<lambda>y. f y = f x) xs" by blast
  then have "dict_get ?d (f x) = Some g" unfolding group_fold(2) by (auto simp: filter_empty_conv)
  from dict_get_mem [OF this] show "\<exists>r. (r, g) \<in> set ?d" by (rule exI)
qed

lemma group_by_root_map:
  "group_by_root xs (map f xs) = foldl (\<lambda>d x. dict_set (f x) (get_or d (f x) [] @ [x]) d) [] xs"
proof -
  have "zip xs (map f xs) = map (\<lambda>x. (x, f x)) xs" by (simp add: zip_map2 zip_same_conv_map)
  then show ?thesis by (simp add: group_by_root_def foldl_map)
qed

lemma foldl_filter: "foldl (\<lambda>d x. if P x then h d x else d) d xs = foldl h d (filter P xs)"
  by (induction xs arbitrary: d) auto

lemma by_bucket_fold:
  "by_bucket parsedate rs = foldl (\<lambda>d i. dict_set (date_bucket parsedate (rs ! i))
      (get_or d (date_bucket parsedate (rs ! i)) [] @ [i]) d) []
    (filter (\<lambda>i. date_bucket parsedate (rs ! i) \<noteq> []) [0..<length rs])"
  by (simp add: by_bucket_def Let_def foldl_filter)

lemma set_later_pairs:
  "sorted_wrt (<) (xs :: nat list) \<Longrightarrow> set (later_pairs xs) = {(x, y). x \<in> set xs \<and> y \<in> set xs \<and> x < y}"
  by (induction xs) (auto dest: less_asym)

section \<open>Links and components\<close>

definition strong_rel :: "(string \<Rightarrow> datetime option) \<Rightarrow> common_record list \<Rightarrow> (nat \<times> nat) set" where
  "strong_rel parsedate rs = {(i, j). i < j \<and> j < length rs \<and>
     (\<exists>key \<in> {canon_key, official_key, signal_key parsedate}. key (rs ! i) = key (rs ! j) \<and> key (rs ! i) \<noteq> None)}"

definition weak_rel :: "(string \<Rightarrow> datetime option) \<Rightarrow> common_record list \<Rightarrow> (nat \<times> nat) set" where
  "weak_rel parsedate rs = {(i, j). i < j \<and> j < length rs \<and>
     date_bucket parsedate (rs ! i) = date_bucket parsedate (rs ! j) \<and> date_bucket parsedate (rs ! i) \<noteq> [] \<and>
     titles_similar (cr_title_or_label (rs ! i)) (cr_title_or_label (rs ! j)) TITLE_JACCARD_THRESHOLD}"

lemma title_link_similar:
  "title_link rs i j \<noteq> None \<longleftrightarrow>
    titles_similar (cr_title_or_label (rs ! i)) (cr_title_or_label (rs ! j)) TITLE_JACCARD_THRESHOLD"
  by (auto simp: title_link_def titles_similar_def Let_def TITLE_JACCARD_THRESHOLD_def)

lemma bucket_pairs:
  "set (concat (map (\<lambda>(b, idxs). later_pairs idxs) (by_bucket parsedate rs))) =
    {(i, j). i < j \<and> j < length rs \<and> date_bucket parsedate (rs ! i) = date_bucket parsedate (rs ! j) \<and>
      date_bucket parsedate (rs ! i) \<noteq> []}" (is "?L = ?R")
proof -
  let ?f = "\<lambda>i. date_bucket parsedate (rs ! i)" and ?xs = "filter (\<lambda>i. date_bucket parsedate (rs ! i) \<noteq> []) [0..<length rs]"
  have "e \<in> ?L \<longleftrightarrow> e \<in> ?R" for e
  proof -
    obtain i j where e: "e = (i, j)" by (cases e)
    have "(i, j) \<in> ?L \<longleftrightarrow> (\<exists>g. (\<exists>r. (r, g) \<in> set (by_bucket parsedate rs)) \<and> (i, j) \<in> set (later_pairs g))"
      by force
    also have "\<dots> \<longleftrightarrow> (\<exists>x \<in> set ?xs. (i, j) \<in> set (later_pairs (filter (\<lambda>y. ?f y = ?f x) ?xs)))"
      unfolding by_bucket_fold group_fold_values by blast
    also have "\<dots> \<longleftrightarrow> (i, j) \<in> ?R"
    proof -
      have "sorted_wrt (<) (filter (\<lambda>y. ?f y = ?f x) ?xs)" for x by (intro sorted_wrt_filter) simp
      then show ?thesis by (auto simp: set_later_pairs)
    qed
    finally show ?thesis by (simp only: e)
  qed
  then show ?thesis by (rule set_eqI)
qed

lemma set_weak_links: "set (map fst (weak_links parsedate rs)) = weak_rel parsedate rs"
proof -
  have "set (map fst (weak_links parsedate rs)) =
    {(min i j, max i j) | i j. (i, j) \<in> set (concat (map (\<lambda>(b, idxs). later_pairs idxs) (by_bucket parsedate rs))) \<and>
      title_link rs i j \<noteq> None}"
    by (force simp: weak_links_def List.map_filter_def)
  also have "\<dots> = weak_rel parsedate rs"
    unfolding bucket_pairs title_link_similar weak_rel_def by (fastforce simp: min_def max_def)
  finally show ?thesis .
qed

text \<open>An index after the first \<open>m\<close> records: it knows each key, and the first record with it.\<close>

definition idx_inv :: "(nat \<Rightarrow> string option) \<Rightarrow> nat \<Rightarrow> (string, nat) dict \<Rightarrow> (nat \<times> nat) set \<Rightarrow> bool" where
  "idx_inv f m idx E \<longleftrightarrow> (\<forall>k j. dict_get idx k = Some j \<longrightarrow> j < m \<and> f j = Some k) \<and>
     (\<forall>j < m. \<forall>k. f j = Some k \<longrightarrow> (\<exists>l. dict_get idx k = Some l \<and> (l, j) \<in> conn E))"

lemma conn_subset: "E \<subseteq> F \<Longrightarrow> (x, y) \<in> conn E \<Longrightarrow> (x, y) \<in> conn F"
proof -
  assume sub: "E \<subseteq> F" and xy: "(x, y) \<in> conn E"
  have "E \<subseteq> conn F" using sub by (auto intro: conn_edge)
  from conn_mono [OF this] xy show ?thesis by (rule subsetD)
qed

lemma idx_inv_mono: "idx_inv f m idx E \<Longrightarrow> E \<subseteq> F \<Longrightarrow> idx_inv f m idx F"
  unfolding idx_inv_def using conn_subset [of E F] by blast

lemma idx_invD:
  assumes "idx_inv f m idx E"
  shows "dict_get idx k = Some j \<Longrightarrow> j < m \<and> f j = Some k"
    "j < m \<Longrightarrow> f j = Some k \<Longrightarrow> \<exists>l. dict_get idx k = Some l \<and> (l, j) \<in> conn E"
  using assms unfolding idx_inv_def by blast+

lemma idx_inv_Suc:
  assumes "idx_inv f m idx E" "\<And>k. f m = Some k \<Longrightarrow> \<exists>l. dict_get idx k = Some l \<and> (l, m) \<in> conn E"
  shows "idx_inv f (Suc m) idx E"
  using assms idx_invD [OF assms(1)] unfolding idx_inv_def by (metis less_Suc_eq)

lemma idx_inv_new:
  assumes "idx_inv f m idx E" "f m = Some k" "dict_get idx k = None"
  shows "idx_inv f (Suc m) (dict_set k m idx) E"
  unfolding idx_inv_def
proof (intro conjI allI impI)
  show "j < Suc m" "f j = Some k'" if "dict_get (dict_set k m idx) k' = Some j" for k' j
    using that assms(2) idx_invD(1) [OF assms(1), of k' j] by (auto split: if_splits)
  show "\<exists>l. dict_get (dict_set k m idx) k' = Some l \<and> (l, j) \<in> conn E" if jk: "j < Suc m" "f j = Some k'" for j k'
  proof (cases "j = m")
    case True
    then show ?thesis using jk(2) assms(2) by simp
  next
    case False
    then obtain l where "dict_get idx k' = Some l" "(l, j) \<in> conn E"
      using idx_invD(2) [OF assms(1), of j k'] jk by auto
    then show ?thesis using assms(3) by auto
  qed
qed

lemma link_key_ok:
  assumes "uf_repr p (set prs)" "i < length p" "idx_inv f i idx (set prs)"
  shows "\<exists>idx' q prs'. link_key (f i) i idx (p, prs) = Some (idx', q, prs') \<and> uf_repr q (set prs') \<and>
    length q = length p \<and> set prs \<subseteq> set prs' \<and> idx_inv f (Suc i) idx' (set prs') \<and>
    (\<forall>(a, b) \<in> set prs' - set prs. a < b \<and> b = i \<and> f a = f b \<and> f a \<noteq> None)"
proof (cases "f i")
  case None
  have "idx_inv f (Suc i) idx (set prs)" by (rule idx_inv_Suc [OF assms(3)]) (simp add: None)
  with None assms show ?thesis by (simp add: link_key_def)
next
  case (Some k)
  show ?thesis
  proof (cases "dict_get idx k")
    case None
    have "idx_inv f (Suc i) (dict_set k i idx) (set prs)" by (rule idx_inv_new [OF assms(3) Some None])
    with assms Some None show ?thesis by (simp add: link_key_def)
  next
    case j: (Some j)
    then have ji: "j < i" "f j = Some k" using idx_invD(1) [OF assms(3) j] by auto
    obtain q where q: "uf_union p j i = Some q" "length q = length p" "uf_repr q (insert (j, i) (set prs))"
      using uf_repr_union [OF assms(1), of j i] ji assms(2) by auto
    have e: "(j, i) \<in> conn (insert (j, i) (set prs))" by (rule conn_edge) simp
    have "idx_inv f (Suc i) idx (insert (j, i) (set prs))"
      by (rule idx_inv_Suc [OF idx_inv_mono [OF assms(3)]]) (use Some j e in auto)
    with q Some j ji show ?thesis by (auto simp: link_key_def min_def max_def)
  qed
qed

definition strong_inv ::
  "(string \<Rightarrow> datetime option) \<Rightarrow> common_record list \<Rightarrow> nat \<Rightarrow> strong_state \<Rightarrow> bool" where
  "strong_inv parsedate rs m st \<longleftrightarrow> length (ss_uf st) = length rs \<and> uf_repr (ss_uf st) (set (ss_pairs st)) \<and>
     set (ss_pairs st) \<subseteq> strong_rel parsedate rs \<and>
     idx_inv (\<lambda>i. canon_key (rs ! i)) m (ss_canon st) (set (ss_pairs st)) \<and>
     idx_inv (\<lambda>i. official_key (rs ! i)) m (ss_official st) (set (ss_pairs st)) \<and>
     idx_inv (\<lambda>i. signal_key parsedate (rs ! i)) m (ss_signal st) (set (ss_pairs st))"

lemma strong_step_ok:
  assumes "strong_inv parsedate rs i st" "i < length rs"
  shows "\<exists>st'. strong_step parsedate i (rs ! i) st = Some st' \<and> strong_inv parsedate rs (Suc i) st'"
proof -
  let ?c = "\<lambda>i. canon_key (rs ! i)" and ?o = "\<lambda>i. official_key (rs ! i)" and ?s = "\<lambda>i. signal_key parsedate (rs ! i)"
  have st: "length (ss_uf st) = length rs" "uf_repr (ss_uf st) (set (ss_pairs st))"
    "set (ss_pairs st) \<subseteq> strong_rel parsedate rs" "idx_inv ?c i (ss_canon st) (set (ss_pairs st))"
    "idx_inv ?o i (ss_official st) (set (ss_pairs st))" "idx_inv ?s i (ss_signal st) (set (ss_pairs st))"
    using assms(1) by (simp_all add: strong_inv_def)
  obtain c1 p1 e1 where 1: "link_key (?c i) i (ss_canon st) (ss_uf st, ss_pairs st) = Some (c1, p1, e1)"
    "uf_repr p1 (set e1)" "length p1 = length rs" "set (ss_pairs st) \<subseteq> set e1" "idx_inv ?c (Suc i) c1 (set e1)"
    "\<forall>(a, b) \<in> set e1 - set (ss_pairs st). a < b \<and> b = i \<and> ?c a = ?c b \<and> ?c a \<noteq> None"
    using link_key_ok [OF st(2) _ st(4)] assms(2) st(1) by auto
  obtain o1 p2 e2 where 2: "link_key (?o i) i (ss_official st) (p1, e1) = Some (o1, p2, e2)"
    "uf_repr p2 (set e2)" "length p2 = length rs" "set e1 \<subseteq> set e2" "idx_inv ?o (Suc i) o1 (set e2)"
    "\<forall>(a, b) \<in> set e2 - set e1. a < b \<and> b = i \<and> ?o a = ?o b \<and> ?o a \<noteq> None"
    using link_key_ok [OF 1(2) _ idx_inv_mono [OF st(5) 1(4)]] assms(2) 1(3) by auto
  obtain s1 p3 e3 where 3: "link_key (?s i) i (ss_signal st) (p2, e2) = Some (s1, p3, e3)"
    "uf_repr p3 (set e3)" "length p3 = length rs" "set e2 \<subseteq> set e3" "idx_inv ?s (Suc i) s1 (set e3)"
    "\<forall>(a, b) \<in> set e3 - set e2. a < b \<and> b = i \<and> ?s a = ?s b \<and> ?s a \<noteq> None"
    using link_key_ok [OF 2(2) _ idx_inv_mono [OF st(6) subset_trans [OF 1(4) 2(4)]]] assms(2) 2(3) by auto
  define st' where "st' = \<lparr>ss_uf = p3, ss_pairs = e3, ss_canon = c1, ss_official = o1, ss_signal = s1\<rparr>"
  have "strong_step parsedate i (rs ! i) st = Some st'"
    using 1(1) 2(1) 3(1) by (simp add: strong_step_def st'_def)
  moreover have "set e3 \<subseteq> strong_rel parsedate rs"
  proof
    fix e assume e: "e \<in> set e3"
    obtain a b where ab: "e = (a, b)" by (cases e)
    show "e \<in> strong_rel parsedate rs"
    proof (cases "e \<in> set (ss_pairs st)")
      case True
      then show ?thesis using st(3) by blast
    next
      case False
      then have "a < b \<and> b = i \<and> (?c a = ?c b \<and> ?c a \<noteq> None \<or> ?o a = ?o b \<and> ?o a \<noteq> None \<or> ?s a = ?s b \<and> ?s a \<noteq> None)"
        using bspec [OF 1(6), of e] bspec [OF 2(6), of e] bspec [OF 3(6), of e] e ab by auto
      then show ?thesis using ab assms(2) by (auto simp: strong_rel_def)
    qed
  qed
  moreover have "idx_inv ?c (Suc i) c1 (set e3)" using idx_inv_mono [OF 1(5)] 2(4) 3(4) by blast
  moreover have "idx_inv ?o (Suc i) o1 (set e3)" using idx_inv_mono [OF 2(5)] 3(4) by blast
  ultimately show ?thesis using 3 by (simp add: strong_inv_def st'_def)
qed

lemma strong_all_ok:
  "strong_inv parsedate rs i st \<Longrightarrow> i \<le> length rs \<Longrightarrow>
    \<exists>st'. strong_all parsedate i (drop i rs) st = Some st' \<and> strong_inv parsedate rs (length rs) st'"
proof (induction "length rs - i" arbitrary: i st)
  case 0
  then show ?case by simp
next
  case (Suc n)
  then have i: "i < length rs" by simp
  obtain st1 where "strong_step parsedate i (rs ! i) st = Some st1" "strong_inv parsedate rs (Suc i) st1"
    using strong_step_ok [OF Suc.prems(1) i] by blast
  moreover have "drop i rs = rs ! i # drop (Suc i) rs" using i by (simp add: Cons_nth_drop_Suc)
  ultimately show ?case using Suc.hyps(1) [of "Suc i" st1] Suc.hyps(2) i by auto
qed

lemma strong_links_ok:
  "\<exists>st. strong_links parsedate rs = Some st \<and> length (ss_uf st) = length rs \<and>
    uf_repr (ss_uf st) (set (ss_pairs st)) \<and> set (ss_pairs st) \<subseteq> strong_rel parsedate rs \<and>
    conn (set (ss_pairs st)) = conn (strong_rel parsedate rs)"
proof -
  let ?st0 = "\<lparr>ss_uf = [0..<length rs], ss_pairs = [], ss_canon = [], ss_official = [], ss_signal = []\<rparr>"
  have "strong_inv parsedate rs 0 ?st0" by (simp add: strong_inv_def uf_repr_init idx_inv_def)
  from strong_all_ok [OF this] obtain st where st: "strong_links parsedate rs = Some st"
    "strong_inv parsedate rs (length rs) st"
    by (auto simp: strong_links_def)
  let ?E = "set (ss_pairs st)"
  have idx: "idx_inv (\<lambda>i. canon_key (rs ! i)) (length rs) (ss_canon st) ?E"
    "idx_inv (\<lambda>i. official_key (rs ! i)) (length rs) (ss_official st) ?E"
    "idx_inv (\<lambda>i. signal_key parsedate (rs ! i)) (length rs) (ss_signal st) ?E"
    and sub: "?E \<subseteq> strong_rel parsedate rs"
    using st(2) by (simp_all add: strong_inv_def)
  have same: "(i, j) \<in> conn ?E"
    if inv: "idx_inv f (length rs) d ?E" and ij: "i < length rs" "j < length rs" "f i = f j" "f i \<noteq> None" for f d i j
  proof -
    obtain k where k: "f i = Some k" "f j = Some k" using ij(3,4) by auto
    obtain l where "dict_get d k = Some l" "(l, i) \<in> conn ?E" using idx_invD(2) [OF inv ij(1) k(1)] by blast
    moreover obtain l' where "dict_get d k = Some l'" "(l', j) \<in> conn ?E" using idx_invD(2) [OF inv ij(2) k(2)] by blast
    ultimately show ?thesis using conn_sym [of l i ?E] conn_trans [of i l ?E j] by simp
  qed
  have "strong_rel parsedate rs \<subseteq> conn ?E"
  proof
    fix e assume "e \<in> strong_rel parsedate rs"
    then obtain i j where ij: "e = (i, j)" "i < j" "j < length rs"
      "\<exists>key \<in> {canon_key, official_key, signal_key parsedate}. key (rs ! i) = key (rs ! j) \<and> key (rs ! i) \<noteq> None"
      unfolding strong_rel_def by blast
    then obtain key where "e = (i, j)" "i < length rs" "j < length rs"
      "key \<in> {canon_key, official_key, signal_key parsedate}" "key (rs ! i) = key (rs ! j)" "key (rs ! i) \<noteq> None"
      by fastforce
    then show "e \<in> conn ?E"
      using same [OF idx(1), of i j] same [OF idx(2), of i j] same [OF idx(3), of i j] by auto
  qed
  then have "conn (strong_rel parsedate rs) \<subseteq> conn ?E" by (rule conn_mono)
  moreover have "?E \<subseteq> conn (strong_rel parsedate rs)" using sub by (auto intro: conn_edge)
  then have "conn ?E \<subseteq> conn (strong_rel parsedate rs)" by (rule conn_mono)
  ultimately have "conn ?E = conn (strong_rel parsedate rs)" by (rule subset_antisym [rotated])
  with st sub show ?thesis by (auto simp: strong_inv_def)
qed

definition links :: "(string \<Rightarrow> datetime option) \<Rightarrow> common_record list \<Rightarrow> (nat \<times> nat) set" where
  "links parsedate rs = strong_rel parsedate rs \<union> weak_rel parsedate rs"

text \<open>What the grouping is: the positions with one root, for each root with at least two.\<close>

lemma cluster_groups_ok:
  "\<exists>gs strong. cluster_groups parsedate rs = Some (gs, strong, weak_links parsedate rs) \<and>
    set strong \<subseteq> strong_rel parsedate rs \<and> conn (set strong) = conn (strong_rel parsedate rs) \<and>
    (\<forall>g. g \<in> set gs \<longleftrightarrow> 2 \<le> length g \<and>
      (\<exists>i < length rs. g = filter (\<lambda>j. (j, i) \<in> conn (links parsedate rs)) [0..<length rs]))"
proof -
  let ?n = "length rs"
  obtain st where st: "strong_links parsedate rs = Some st" "length (ss_uf st) = ?n"
    "uf_repr (ss_uf st) (set (ss_pairs st))" "set (ss_pairs st) \<subseteq> strong_rel parsedate rs"
    "conn (set (ss_pairs st)) = conn (strong_rel parsedate rs)"
    using strong_links_ok by blast
  let ?E = "set (ss_pairs st) \<union> set (map fst (weak_links parsedate rs))"
  have "\<forall>(a, b) \<in> set (map fst (weak_links parsedate rs)). a < length (ss_uf st) \<and> b < length (ss_uf st)"
    unfolding set_weak_links st(2) by (auto simp: weak_rel_def)
  from uf_repr_union_all [OF st(3) this] obtain p where p:
    "union_all (ss_uf st) (map fst (weak_links parsedate rs)) = Some p" "length p = ?n" "uf_repr p ?E"
    using st(2) by auto
  have "conn ?E = conn (links parsedate rs)"
  proof (rule subset_antisym)
    have "?E \<subseteq> links parsedate rs" using st(4) unfolding set_weak_links links_def by blast
    then show "conn ?E \<subseteq> conn (links parsedate rs)" by (rule conn_mono [OF subset_trans]) (auto intro: conn_edge)
    have "strong_rel parsedate rs \<subseteq> conn ?E"
    proof
      fix e assume "e \<in> strong_rel parsedate rs"
      then have "e \<in> conn (set (ss_pairs st))" using st(5) conn_edge by (cases e) blast
      then show "e \<in> conn ?E" using conn_subset [of "set (ss_pairs st)" ?E] by (cases e) blast
    qed
    moreover have "weak_rel parsedate rs \<subseteq> conn ?E" unfolding set_weak_links by (auto intro: conn_edge)
    ultimately show "conn (links parsedate rs) \<subseteq> conn ?E" by (intro conn_mono) (simp add: links_def)
  qed
  then have rel: "uf_root p x = uf_root p y \<longleftrightarrow> (x, y) \<in> conn (links parsedate rs)" if "x < ?n" "y < ?n" for x y
    using p(2,3) that by (simp add: uf_repr_def)
  obtain q where "uf_roots p [0..<?n] = Some (q, map (uf_root p) [0..<?n])"
    using uf_roots_ok [of p "[0..<?n]"] p(2,3) by (auto simp: uf_repr_def)
  then have run: "cluster_groups parsedate rs = Some (filter (\<lambda>g. 2 \<le> length g)
      (map snd (sort_key fst (group_by_root [0..<?n] (map (uf_root p) [0..<?n])))), ss_pairs st, weak_links parsedate rs)"
    using st(1) p(1) by (simp add: cluster_groups_def Let_def)
  have "g \<in> set (filter (\<lambda>g. 2 \<le> length g) (map snd (sort_key fst (group_by_root [0..<?n] (map (uf_root p) [0..<?n])))))
    \<longleftrightarrow> 2 \<le> length g \<and> (\<exists>i < ?n. g = filter (\<lambda>j. (j, i) \<in> conn (links parsedate rs)) [0..<?n])" for g
  proof -
    have "(\<exists>r. (r, g) \<in> set (group_by_root [0..<?n] (map (uf_root p) [0..<?n]))) \<longleftrightarrow>
      (\<exists>i < ?n. g = filter (\<lambda>j. uf_root p j = uf_root p i) [0..<?n])"
      unfolding group_by_root_map group_fold_values by auto
    also have "\<dots> \<longleftrightarrow> (\<exists>i < ?n. g = filter (\<lambda>j. (j, i) \<in> conn (links parsedate rs)) [0..<?n])"
    proof -
      have "filter (\<lambda>j. uf_root p j = uf_root p i) [0..<?n] = filter (\<lambda>j. (j, i) \<in> conn (links parsedate rs)) [0..<?n]"
        if "i < ?n" for i
        by (rule filter_cong) (use rel that in auto)
      then show ?thesis by (metis (no_types, lifting))
    qed
    finally show ?thesis by force
  qed
  with run st(4,5) show ?thesis by blast
qed

text \<open>The positions of the members of a group.\<close>

lemma pos_of_nth: "distinct xs \<Longrightarrow> k < length xs \<Longrightarrow> pos_of xs (xs ! k) = k"
proof -
  assume d: "distinct xs" "k < length xs"
  have "takeWhile (\<lambda>x. x \<noteq> xs ! k) xs = take k xs"
    by (rule takeWhile_eq_take_P_nth) (use d in \<open>auto simp: nth_eq_iff_index_eq\<close>)
  then show ?thesis using d by (simp add: pos_of_def)
qed

lemma nth_pos_of: "m \<in> set xs \<Longrightarrow> pos_of xs m < length xs \<and> xs ! pos_of xs m = m"
  unfolding pos_of_def by (induction xs) auto

lemma conn_image:
  assumes "inj_on f A" "E \<subseteq> A \<times> A" "x \<in> A" "y \<in> A"
  shows "(f x, f y) \<in> conn ((\<lambda>(a, b). (f a, f b)) ` E) \<longleftrightarrow> (x, y) \<in> conn E"
proof
  let ?F = "(\<lambda>(a, b). (f a, f b)) ` E"
  show "(f x, f y) \<in> conn ?F" if "(x, y) \<in> conn E"
    using that unfolding conn_def
  proof (induction rule: rtrancl_induct)
    case (step y z)
    then have "(f y, f z) \<in> ?F \<union> ?F\<inverse>" by force
    with step(3) show ?case by (rule rtrancl_into_rtrancl)
  qed simp
  have lift: "\<exists>v \<in> A. w = f v \<and> (x, v) \<in> conn E" if "(f x, w) \<in> conn ?F" for w
    using that unfolding conn_def
  proof (induction rule: rtrancl_induct)
    case base
    then show ?case using assms(3) by blast
  next
    case (step w z)
    then obtain v where v: "v \<in> A" "w = f v" "(x, v) \<in> (E \<union> E\<inverse>)\<^sup>*" by blast
    from step(2) v(2) have "\<exists>a b. (a, b) \<in> E \<union> E\<inverse> \<and> f a = f v \<and> z = f b" by fastforce
    then obtain a b where ab: "(a, b) \<in> E \<union> E\<inverse>" "f a = f v" "z = f b" by blast
    then have "a = v" "b \<in> A" using assms(1,2) v(1) by (auto dest: inj_onD)
    moreover have "(x, b) \<in> (E \<union> E\<inverse>)\<^sup>*" using v(3) ab(1) \<open>a = v\<close> rtrancl_into_rtrancl by metis
    ultimately show ?case using ab(3) by blast
  qed
  show "(x, y) \<in> conn E" if "(f x, f y) \<in> conn ?F"
    using lift [OF that] assms(1,4) by (auto dest: inj_onD)
qed

lemma conn_inside:
  assumes "\<And>a b. (a, b) \<in> E \<Longrightarrow> a \<in> A \<longleftrightarrow> b \<in> A" "x \<in> A"
  shows "(x, y) \<in> conn (E \<inter> A \<times> A) \<longleftrightarrow> (x, y) \<in> conn E"
proof
  show "(x, y) \<in> conn (E \<inter> A \<times> A) \<Longrightarrow> (x, y) \<in> conn E" using conn_subset by blast
  show "(x, y) \<in> conn (E \<inter> A \<times> A)" if "(x, y) \<in> conn E"
  proof -
    have "(x, y) \<in> conn (E \<inter> A \<times> A) \<and> y \<in> A"
      using that unfolding conn_def
    proof (induction rule: rtrancl_induct)
      case (step y z)
      then have "z \<in> A" "(y, z) \<in> (E \<inter> A \<times> A) \<union> (E \<inter> A \<times> A)\<inverse>" using assms(1) by auto
      with step(3) show ?case by (meson rtrancl_into_rtrancl)
    qed (simp add: assms(2))
    then show ?thesis ..
  qed
qed

lemma first_min_mem: "xs \<noteq> [] \<Longrightarrow> first_min key xs \<in> set xs"
proof -
  have "foldl (\<lambda>m x. if key x < key m then x else m) m ys \<in> insert m (set ys)" for m ys
    by (induction ys arbitrary: m) auto
  then show "xs \<noteq> [] \<Longrightarrow> first_min key xs \<in> set xs"
    by (cases xs) (auto simp: first_min_def)
qed

lemma zip_map_filter: "map fst (filter (\<lambda>(m, r). r \<noteq> R) (zip ms (map f ms))) = filter (\<lambda>m. f m \<noteq> R) ms"
  by (induction ms) auto

lemma weak_only_ok:
  assumes "distinct members" "members \<noteq> []" "set strong_in \<subseteq> set members \<times> set members"
  shows "\<exists>wo. weak_only rs keys members strong_in = Some wo \<and> set wo \<subseteq> set members \<and>
    (wo = [] \<longleftrightarrow> (\<forall>a \<in> set members. \<forall>b \<in> set members. (a, b) \<in> conn (set strong_in)))"
proof -
  let ?n = "length members" and ?pos = "pos_of members"
  let ?ps = "map (\<lambda>(a, b). (?pos a, ?pos b)) strong_in"
  have pos: "?pos m < ?n" "members ! ?pos m = m" if "m \<in> set members" for m
    using nth_pos_of [OF that] by auto
  have "\<forall>(a, b) \<in> set ?ps. a < length [0..<?n] \<and> b < length [0..<?n]" using assms(3) pos(1) by fastforce
  from uf_repr_union_all [OF uf_repr_init this] obtain p where p: "union_all [0..<?n] ?ps = Some p"
    "length p = ?n" "uf_repr p (set ?ps)" by auto
  then have ok: "uf_ok p" by (simp add: uf_repr_def)
  obtain q where q: "uf_roots p [0..<?n] = Some (q, map (uf_root p) [0..<?n])" "uf_ok q" "length q = ?n"
    "\<And>y. y < ?n \<Longrightarrow> uf_root q y = uf_root p y"
    using uf_roots_ok [OF ok, of "[0..<?n]"] p(2) by auto
  let ?g = "group_by_root [0..<?n] (map (uf_root p) [0..<?n])"
  define R where "R = primary_component rs keys members ?g"
  have "dict_get ?g (uf_root p 0) \<noteq> None"
    unfolding group_by_root_map group_fold(2) using assms(2) by (auto simp: filter_empty_conv intro!: bexI [of _ 0])
  then have "?g \<noteq> []" by auto
  then have "\<exists>e \<in> set ?g. R = fst e"
    unfolding R_def primary_component_def by (intro bexI [OF refl first_min_mem])
  then obtain xs where "(R, xs) \<in> set ?g" by auto
  then have "dict_get ?g R \<noteq> None" by (auto simp: dict_get_def dest: weak_map_of_SomeI)
  then obtain x where x: "x < ?n" "uf_root p x = R"
    unfolding group_by_root_map group_fold(2) by (auto simp: filter_empty_conv split: if_splits)
  obtain q2 where q2: "uf_roots q (map ?pos members) = Some (q2, map (uf_root q) (map ?pos members))"
    using uf_roots_ok [OF q(2), of "map ?pos members"] q(3) pos(1) by auto
  have same: "map (uf_root q) (map ?pos members) = map (\<lambda>m. uf_root p (?pos m)) members"
    using q(4) pos(1) by simp
  have "weak_only rs keys members strong_in =
      Some (map fst (filter (\<lambda>(m, r). r \<noteq> R) (zip members (map (\<lambda>m. uf_root p (?pos m)) members))))"
    using p(1) q(1) q2 [unfolded same] by (simp add: weak_only_def Let_def R_def)
  then have run: "weak_only rs keys members strong_in = Some (filter (\<lambda>m. uf_root p (?pos m) \<noteq> R) members)"
    unfolding zip_map_filter .
  have inj: "inj_on ?pos (set members)" using pos(2) by (metis inj_onI)
  have rel: "uf_root p (?pos a) = uf_root p (?pos b) \<longleftrightarrow> (a, b) \<in> conn (set strong_in)"
    if "a \<in> set members" "b \<in> set members" for a b
  proof -
    have "uf_root p (?pos a) = uf_root p (?pos b) \<longleftrightarrow> (?pos a, ?pos b) \<in> conn (set ?ps)"
      using p(2,3) pos(1) that by (simp add: uf_repr_def)
    then show ?thesis using conn_image [OF inj assms(3) that] by simp
  qed
  have "(\<forall>m \<in> set members. uf_root p (?pos m) = R) \<longleftrightarrow>
      (\<forall>a \<in> set members. \<forall>b \<in> set members. uf_root p (?pos a) = uf_root p (?pos b))"
    using x pos_of_nth [OF assms(1) x(1)] nth_mem [OF x(1)] by metis
  then have "filter (\<lambda>m. uf_root p (?pos m) \<noteq> R) members = [] \<longleftrightarrow>
      (\<forall>a \<in> set members. \<forall>b \<in> set members. (a, b) \<in> conn (set strong_in))"
    using rel by (simp add: filter_empty_conv)
  with run show ?thesis by auto
qed

lemma cluster_of_group_ok:
  assumes "distinct g" "g \<noteq> []" "\<And>a b. (a, b) \<in> set strong \<Longrightarrow> a \<in> set g \<longleftrightarrow> b \<in> set g"
  shows "\<exists>c. cluster_of_group rs keys strong weak g = Some c \<and>
    mset (xs_duplicate_group c) = mset (map (\<lambda>m. keys ! m) g) \<and>
    length (xs_duplicate_record_keys c) = length g - 1 \<and>
    set (xs_weak_only_members c) \<subseteq> set (xs_duplicate_group c) \<and>
    xs_confidence c = (if \<exists>a \<in> set g. \<exists>b. (a, b) \<in> set strong then XC_DUPLICATE else XC_POSSIBLE) \<and>
    xs_clique_ok c = (\<forall>a \<in> set g. \<forall>b \<in> set g. (a, b) \<in> conn (set strong)) \<and>
    (xs_clique_ok c \<longrightarrow> xs_weak_only_members c = [])"
proof -
  let ?m = "sort_key (\<lambda>m. keys ! m) g" and ?in = "inside (sort_key (\<lambda>m. keys ! m) g) strong"
  have inside: "set ?in = set strong \<inter> set g \<times> set g" by (auto simp: inside_def)
  then have "set ?in \<subseteq> set ?m \<times> set ?m" by auto
  obtain wo where wo: "weak_only rs keys ?m ?in = Some wo" "set wo \<subseteq> set ?m"
    "wo = [] \<longleftrightarrow> (\<forall>a \<in> set ?m. \<forall>b \<in> set ?m. (a, b) \<in> conn (set ?in))"
  proof -
    have "distinct ?m" using assms(1) by simp
    moreover have "?m \<noteq> []" using assms(2) by (metis length_0_conv length_sort)
    ultimately show ?thesis using weak_only_ok [OF _ _ \<open>set ?in \<subseteq> _\<close>, of rs keys] that by blast
  qed
  have "(a, b) \<in> conn (set ?in) \<longleftrightarrow> (a, b) \<in> conn (set strong)" if "a \<in> set g" for a b
    unfolding inside using conn_inside [of "set strong" "set g" a b] assms(3) that by blast
  then have clique: "wo = [] \<longleftrightarrow> (\<forall>a \<in> set g. \<forall>b \<in> set g. (a, b) \<in> conn (set strong))"
    using wo(3) by simp
  have "?in \<noteq> [] \<longleftrightarrow> set ?in \<noteq> {}" by simp
  also have "\<dots> \<longleftrightarrow> (\<exists>a \<in> set g. \<exists>b. (a, b) \<in> set strong)" unfolding inside using assms(3) by blast
  finally have conf: "?in \<noteq> [] \<longleftrightarrow> (\<exists>a \<in> set g. \<exists>b. (a, b) \<in> set strong)" .
  have perm: "mset (map ((!) keys) ?m) = mset (map ((!) keys) g)" unfolding mset_map by simp
  show ?thesis
    using wo(1,2) clique conf perm by (auto simp: cluster_of_group_def Let_def)
qed

lemma all_some_map: "\<forall>x \<in> set xs. f x \<noteq> None \<Longrightarrow> all_some (map f xs) = Some (map (\<lambda>x. the (f x)) xs)"
  by (induction xs) auto

text \<open>A strong link inside a group shows up as a pair that was recorded.\<close>

lemma conn_first_edge: "(a, b) \<in> conn E \<Longrightarrow> a \<noteq> b \<Longrightarrow> \<exists>x. (a, x) \<in> E \<or> (x, a) \<in> E"
  unfolding conn_def by (erule converse_rtranclE) auto

lemma strong_pair_inside:
  assumes "set strong \<subseteq> E" "conn (set strong) = conn E" "\<And>a b. (a, b) \<in> E \<Longrightarrow> a \<noteq> b \<and> (a \<in> A \<longleftrightarrow> b \<in> A)"
  shows "(\<exists>a \<in> A. \<exists>b. (a, b) \<in> set strong) \<longleftrightarrow> (\<exists>a \<in> A. \<exists>b \<in> A. (a, b) \<in> E)"
proof
  assume "\<exists>a \<in> A. \<exists>b. (a, b) \<in> set strong"
  then show "\<exists>a \<in> A. \<exists>b \<in> A. (a, b) \<in> E" using assms(1,3) by blast
next
  assume "\<exists>a \<in> A. \<exists>b \<in> A. (a, b) \<in> E"
  then obtain a b where ab: "a \<in> A" "(a, b) \<in> E" "a \<noteq> b" using assms(3) by blast
  then have "(a, b) \<in> conn (set strong)" using assms(2) conn_edge by blast
  from conn_first_edge [OF this ab(3)] obtain x where "(a, x) \<in> set strong \<or> (x, a) \<in> set strong" by blast
  then show "\<exists>a \<in> A. \<exists>b. (a, b) \<in> set strong" using ab(1) assms(1,3) by blast
qed

section \<open>Correctness\<close>

text \<open>C10: the groups are the connected components of the links. Two records are in one group exactly
  when a chain of records leads from one to the other, each sharing with the next a canonical URL, an
  official id or a signal, or a day and a similar title.\<close>

theorem clusters_are_connected_components:
  "\<exists>gs strong weak. cluster_groups parsedate rs = Some (gs, strong, weak) \<and>
    (\<forall>i < length rs. \<forall>j < length rs. i \<noteq> j \<longrightarrow>
      ((\<exists>g \<in> set gs. i \<in> set g \<and> j \<in> set g) \<longleftrightarrow> (i, j) \<in> (links parsedate rs \<union> (links parsedate rs)\<inverse>)\<^sup>*))"
proof -
  let ?n = "length rs" and ?C = "conn (links parsedate rs)"
  obtain gs strong where run: "cluster_groups parsedate rs = Some (gs, strong, weak_links parsedate rs)"
    and gs: "\<And>g. g \<in> set gs \<longleftrightarrow> 2 \<le> length g \<and> (\<exists>i < ?n. g = filter (\<lambda>j. (j, i) \<in> ?C) [0..<?n])"
    using cluster_groups_ok by blast
  have "(\<exists>g \<in> set gs. i \<in> set g \<and> j \<in> set g) \<longleftrightarrow> (i, j) \<in> ?C" if ij: "i < ?n" "j < ?n" "i \<noteq> j" for i j
  proof
    assume "\<exists>g \<in> set gs. i \<in> set g \<and> j \<in> set g"
    then obtain g where g: "g \<in> set gs" "i \<in> set g" "j \<in> set g" by blast
    then obtain l where "g = filter (\<lambda>j. (j, l) \<in> ?C) [0..<?n]" using gs [THEN iffD1, OF g(1)] by blast
    then have "(i, l) \<in> ?C" "(j, l) \<in> ?C" using g(2,3) by simp_all
    then show "(i, j) \<in> ?C" using conn_sym conn_trans by metis
  next
    assume c: "(i, j) \<in> ?C"
    let ?g = "filter (\<lambda>l. (l, j) \<in> ?C) [0..<?n]"
    have "i \<in> set ?g" "j \<in> set ?g" using c ij by auto
    moreover have "2 \<le> length ?g"
    proof -
      have "{i, j} \<subseteq> set ?g" using c ij by auto
      then have "card {i, j} \<le> card (set ?g)" by (rule card_mono [rotated]) simp
      then show ?thesis using ij(3) card_length [of ?g] by simp
    qed
    moreover have "?g \<in> set gs" if "2 \<le> length ?g" using gs [THEN iffD2, of ?g] that ij(2) by blast
    ultimately show "\<exists>g \<in> set gs. i \<in> set g \<and> j \<in> set g" by blast
  qed
  with run show ?thesis unfolding conn_def by blast
qed

lemma clusters_are_connected_components_witness:
  "\<exists>gs strong weak. cluster_groups no_mail_date
      [plain_record ''article_candidate'' (Some ''https://a''), plain_record ''search_result'' (Some ''https://a'')]
      = Some (gs, strong, weak) \<and> (\<exists>g \<in> set gs. 0 \<in> set g \<and> 1 \<in> set g)"
proof -
  let ?r1 = "plain_record ''article_candidate'' (Some ''https://a'')"
  let ?r2 = "plain_record ''search_result'' (Some ''https://a'')"
  let ?rs = "[?r1, ?r2]"
  obtain gs strong weak where g: "cluster_groups no_mail_date ?rs = Some (gs, strong, weak)"
    "\<forall>i < length ?rs. \<forall>j < length ?rs. i \<noteq> j \<longrightarrow>
      ((\<exists>g \<in> set gs. i \<in> set g \<and> j \<in> set g) \<longleftrightarrow> (i, j) \<in> (links no_mail_date ?rs \<union> (links no_mail_date ?rs)\<inverse>)\<^sup>*)"
    using clusters_are_connected_components by blast
  have "canon_key ?r1 = Some ''https://a''" "canon_key ?r2 = Some ''https://a''" by code_simp+
  then have "(0, 1) \<in> links no_mail_date ?rs" by (simp add: links_def strong_rel_def)
  then have "(0, 1) \<in> (links no_mail_date ?rs \<union> (links no_mail_date ?rs)\<inverse>)\<^sup>*" by blast
  moreover have "0 < length ?rs" "1 < length ?rs" by simp_all
  ultimately have "\<exists>g \<in> set gs. 0 \<in> set g \<and> 1 \<in> set g" using g(2) zero_neq_one by blast
  with g(1) show ?thesis by blast
qed

lemma cluster_results:
  "\<exists>gs strong weak cs. cluster_groups parsedate rs = Some (gs, strong, weak) \<and>
    cluster_records digest parsedate rs = Some cs \<and> length cs = length gs \<and>
    (\<forall>k < length gs.
      mset (xs_duplicate_group (cs ! k)) = mset (map (\<lambda>m. record_keys digest parsedate rs ! m) (gs ! k)) \<and>
      (xs_confidence (cs ! k) = XC_DUPLICATE \<longleftrightarrow>
        (\<exists>a \<in> set (gs ! k). \<exists>b \<in> set (gs ! k). (a, b) \<in> strong_rel parsedate rs)) \<and>
      (xs_clique_ok (cs ! k) \<longleftrightarrow> (\<forall>a \<in> set (gs ! k). \<forall>b \<in> set (gs ! k).
        (a, b) \<in> (strong_rel parsedate rs \<union> (strong_rel parsedate rs)\<inverse>)\<^sup>*)) \<and>
      (xs_clique_ok (cs ! k) \<longrightarrow> xs_weak_only_members (cs ! k) = []))"
proof -
  let ?n = "length rs" and ?C = "conn (links parsedate rs)" and ?S = "strong_rel parsedate rs"
  define keys where "keys = record_keys digest parsedate rs"
  obtain gs strong where run: "cluster_groups parsedate rs = Some (gs, strong, weak_links parsedate rs)"
    and st: "set strong \<subseteq> ?S" "conn (set strong) = conn ?S"
    and gs: "\<And>g. g \<in> set gs \<longleftrightarrow> 2 \<le> length g \<and> (\<exists>i < ?n. g = filter (\<lambda>j. (j, i) \<in> ?C) [0..<?n])"
    using cluster_groups_ok by blast
  let ?w = "weak_links parsedate rs"
  define f where "f = cluster_of_group rs keys strong ?w"
  have group: "\<exists>c. f g = Some c \<and> mset (xs_duplicate_group c) = mset (map (\<lambda>m. keys ! m) g) \<and>
      (xs_confidence c = XC_DUPLICATE \<longleftrightarrow> (\<exists>a \<in> set g. \<exists>b \<in> set g. (a, b) \<in> ?S)) \<and>
      (xs_clique_ok c \<longleftrightarrow> (\<forall>a \<in> set g. \<forall>b \<in> set g. (a, b) \<in> conn ?S)) \<and>
      (xs_clique_ok c \<longrightarrow> xs_weak_only_members c = [])" if gm: "g \<in> set gs" for g
  proof -
    obtain i where g: "2 \<le> length g" "g = filter (\<lambda>j. (j, i) \<in> ?C) [0..<?n]" using gs [THEN iffD1, OF gm] by blast
    have closed: "a \<noteq> b \<and> (a \<in> set g \<longleftrightarrow> b \<in> set g)" if "(a, b) \<in> ?S" for a b
    proof -
      have "(a, b) \<in> ?C" by (rule conn_edge) (simp add: links_def that)
      then have "(a, i) \<in> ?C \<longleftrightarrow> (b, i) \<in> ?C" using conn_sym conn_trans by metis
      then show ?thesis using that unfolding g(2) by (auto simp: strong_rel_def)
    qed
    have "distinct g" "g \<noteq> []" using g by auto
    moreover have "(a, b) \<in> set strong \<Longrightarrow> a \<in> set g \<longleftrightarrow> b \<in> set g" for a b using closed st(1) by blast
    ultimately obtain c where c: "f g = Some c" "mset (xs_duplicate_group c) = mset (map (\<lambda>m. keys ! m) g)"
      "xs_confidence c = (if \<exists>a \<in> set g. \<exists>b. (a, b) \<in> set strong then XC_DUPLICATE else XC_POSSIBLE)"
      "xs_clique_ok c = (\<forall>a \<in> set g. \<forall>b \<in> set g. (a, b) \<in> conn (set strong))"
      "xs_clique_ok c \<longrightarrow> xs_weak_only_members c = []"
      using cluster_of_group_ok [of g strong rs keys ?w] unfolding f_def by blast
    then show ?thesis
      using strong_pair_inside [OF st, of "set g"] closed unfolding st(2) by (auto simp: XC_DUPLICATE_def XC_POSSIBLE_def)
  qed
  have "all_some (map f gs) = Some (map (\<lambda>g. the (f g)) gs)" using group by (intro all_some_map) blast
  moreover have "gs = []" if "?n < 2"
  proof (rule ccontr)
    assume "gs \<noteq> []"
    then obtain g where "g \<in> set gs" by (cases gs) auto
    then obtain i where "2 \<le> length g" "g = filter (\<lambda>j. (j, i) \<in> ?C) [0..<?n]" using gs [THEN iffD1] by blast
    moreover have "length (filter (\<lambda>j. (j, i) \<in> ?C) [0..<?n]) \<le> ?n" using length_filter_le [of _ "[0..<?n]"] by simp
    ultimately show False using that by simp
  qed
  ultimately have rec: "cluster_records digest parsedate rs = Some (map (\<lambda>g. the (f g)) gs)"
    unfolding cluster_records_def run by (auto simp: f_def keys_def)
  show ?thesis
    unfolding conn_def [symmetric] keys_def [symmetric]
  proof (intro exI conjI allI impI)
    fix k assume "k < length gs"
    then have "gs ! k \<in> set gs" "map (\<lambda>g. the (f g)) gs ! k = the (f (gs ! k))" by simp_all
    then show "mset (xs_duplicate_group (map (\<lambda>g. the (f g)) gs ! k)) = mset (map (\<lambda>m. keys ! m) (gs ! k))"
      "xs_confidence (map (\<lambda>g. the (f g)) gs ! k) = XC_DUPLICATE \<longleftrightarrow>
        (\<exists>a \<in> set (gs ! k). \<exists>b \<in> set (gs ! k). (a, b) \<in> ?S)"
      "xs_clique_ok (map (\<lambda>g. the (f g)) gs ! k) \<longleftrightarrow> (\<forall>a \<in> set (gs ! k). \<forall>b \<in> set (gs ! k). (a, b) \<in> conn ?S)"
      using group [of "gs ! k"] by auto
    show "xs_weak_only_members (map (\<lambda>g. the (f g)) gs ! k) = []" if "xs_clique_ok (map (\<lambda>g. the (f g)) gs ! k)"
      using group [of "gs ! k"] that \<open>k < length gs\<close> by auto
  qed (use run rec in auto)
qed

lemma cluster_records_returns: "\<exists>cs. cluster_records digest parsedate rs = Some cs"
  using cluster_results by blast

text \<open>clustering always returns, with one result per group. A result names the keys of its members;
  it is a duplicate exactly when a strong link joins two of them, and a clique exactly when strong links
  alone join them all, and then it has no weak members.\<close>

lemma cluster_results_are_justified:
  "\<exists>gs strong weak cs. cluster_groups parsedate rs = Some (gs, strong, weak) \<and>
    cluster_records digest parsedate rs = Some cs \<and> length cs = length gs \<and>
    (\<forall>k < length gs.
      mset (xs_duplicate_group (cs ! k)) = mset (map (\<lambda>m. record_keys digest parsedate rs ! m) (gs ! k)) \<and>
      (xs_confidence (cs ! k) = XC_DUPLICATE \<longleftrightarrow>
        (\<exists>a \<in> set (gs ! k). \<exists>b \<in> set (gs ! k). (a, b) \<in> strong_rel parsedate rs)) \<and>
      (xs_clique_ok (cs ! k) \<longleftrightarrow> (\<forall>a \<in> set (gs ! k). \<forall>b \<in> set (gs ! k).
        (a, b) \<in> (strong_rel parsedate rs \<union> (strong_rel parsedate rs)\<inverse>)\<^sup>*)) \<and>
      (xs_clique_ok (cs ! k) \<longrightarrow> xs_weak_only_members (cs ! k) = []))"
  by (rule cluster_results)

lemma cluster_results_are_justified_witness:
  "\<exists>gs strong weak cs. cluster_groups no_mail_date
      [plain_record ''article_candidate'' (Some ''https://a''), plain_record ''search_result'' (Some ''https://a'')]
      = Some (gs, strong, weak) \<and>
    cluster_records no_digest no_mail_date
      [plain_record ''article_candidate'' (Some ''https://a''), plain_record ''search_result'' (Some ''https://a'')]
      = Some cs \<and> length cs = length gs"
  using cluster_results_are_justified [of no_mail_date
      "[plain_record ''article_candidate'' (Some ''https://a''), plain_record ''search_result'' (Some ''https://a'')]" no_digest]
  by blast

end
