(* ===== verification/Timeline.thy ===== *)
theory Timeline
  imports Py_Datetime
begin

text \<open>
  The event timeline: \<open>backend/app/services/event_resolver.py\<close> (what to do with a cluster),
  \<open>event_timeline_service.py\<close> (the tables) and \<open>event_resolution_pipeline.py\<close> (from a cluster
  to the tables).

  The state \<^emph>\<open>timeline\<close> holds the tables as lists and dictionaries. An operation that changes
  it is a transaction: it returns its value with the new state, or raises and leaves the state to
  the last commit. Ids come from \<open>uuid4\<close>, the parameter \<^emph>\<open>uuid\<close> with a counter in the state.
  Foreign keys are checked on insertion. \<open>rival\<close> is what other sessions commit between the
  lookup and the insertion of a cluster mapping.
\<close>

section \<open>Routing\<close>

definition CONF_DUPLICATE :: string where "CONF_DUPLICATE = ''duplicate''"
definition ACTION_APPEND :: string where "ACTION_APPEND = ''APPEND''"
definition ACTION_CREATE :: string where "ACTION_CREATE = ''CREATE''"
definition ACTION_HOLD :: string where "ACTION_HOLD = ''HOLD''"
definition ACTION_WITHHELD :: string where "ACTION_WITHHELD = ''WITHHELD''"

lemmas action_names = ACTION_APPEND_def ACTION_CREATE_def ACTION_HOLD_def ACTION_WITHHELD_def

definition PUBLISHABLE_SOURCE_TYPES :: "string list" where
  "PUBLISHABLE_SOURCE_TYPES = [''official'', ''article'']"

definition has_publishable :: "string list \<Rightarrow> bool" where
  "has_publishable types \<longleftrightarrow> list_ex (\<lambda>st. st \<in> set PUBLISHABLE_SOURCE_TYPES) types"

definition homogeneous_publishable :: "string list \<Rightarrow> bool" where
  "homogeneous_publishable types \<longleftrightarrow> length (remdups types) = 1 \<and> types ! 0 \<in> set PUBLISHABLE_SOURCE_TYPES"

record routing_decision =
  dc_cluster_id :: string
  dc_action :: string
  dc_event_id :: "string option"
  dc_reason :: string
  dc_held_members :: "string list"

definition resolve_routing ::
  "string \<Rightarrow> string \<Rightarrow> bool \<Rightarrow> string list \<Rightarrow> string list \<Rightarrow> string option \<Rightarrow> string list
   \<Rightarrow> routing_decision" where
  "resolve_routing cluster_id confidence clique_ok member_keys weak_only mapped types =
    (let is_strong = (confidence = CONF_DUPLICATE);
         mk = (\<lambda>action ev reason held. \<lparr>dc_cluster_id = cluster_id, dc_action = action, dc_event_id = ev,
                 dc_reason = reason, dc_held_members = held\<rparr>)
     in case mapped of
       Some e \<Rightarrow>
         if is_strong \<and> clique_ok then mk ACTION_APPEND mapped ''strong_clique_append'' []
         else if is_strong \<and> \<not> clique_ok then mk ACTION_APPEND mapped ''strong_core_append_weak_hold'' weak_only
         else mk ACTION_HOLD mapped ''weak_signal_possible_link'' member_keys
     | None \<Rightarrow>
         if \<not> has_publishable types then mk ACTION_WITHHELD None ''non_publishable_source_type'' member_keys
         else if \<not> is_strong \<and> \<not> homogeneous_publishable types then
           mk ACTION_WITHHELD None ''weak_cluster_not_homogeneous_publishable'' member_keys
         else if is_strong \<and> clique_ok then mk ACTION_CREATE None ''new_event_strong_clique'' []
         else if is_strong \<and> \<not> clique_ok then
           mk ACTION_CREATE None ''new_event_strong_core_weak_hold'' weak_only
         else mk ACTION_CREATE None ''new_event_low_confidence'' weak_only)"

section \<open>The tables\<close>

record event_row =
  ev_id :: string
  ev_canonical_title :: string
  ev_status :: string
  ev_first_seen_at :: instant
  ev_last_update_at :: instant
  ev_heat :: rat
  ev_domains :: "string list"
  ev_tags :: "string list"
  ev_primary_entity_ids :: "string list"
  ev_snapshot_card_id :: "string option"

record update_row =
  up_id :: string
  up_event_id :: string
  up_observed_at :: instant
  up_delta_summary :: string
  up_evidence :: "(string, json) dict list"
  up_added_domains :: "string list"
  up_source_refs :: "string list"
  up_heat_delta :: rat

record link_row =
  ln_id :: string
  ln_event_id :: string
  ln_linked_event_id :: string
  ln_status :: string
  ln_reason :: "string option"

record timeline =
  tl_next :: nat
  tl_events :: "event_row list"
  tl_updates :: "update_row list"
  tl_links :: "link_row list"
  tl_clusters :: "(string, string) dict"
  tl_identities :: "(string, string) dict"
  tl_candidates :: "(string, string) dict"
  tl_cards :: "(string, string option) dict" \<comment> \<open>card id to the card's event id\<close>

record candidate =
  cd_canonical_title :: string
  cd_observed_at :: datetime
  cd_delta_summary :: string
  cd_domains :: "string list"
  cd_tags :: "string list"
  cd_primary_entity_ids :: "string list"
  cd_evidence :: "json list"
  cd_added_domains :: "string list"
  cd_source_refs :: "string list"
  cd_heat_delta :: rat
  cd_primary_member_key :: "string option"
  cd_core_source_types :: "string list"
  cd_identity_keys :: "string list"
  cd_semantic_fingerprints :: "string list"

record apply_result =
  ar_action :: string
  ar_event_id :: "string option"
  ar_held_event_ids :: "string list"
  ar_link_ids :: "string list"

section \<open>What is stored of the evidence\<close>

definition EVIDENCE_ALLOWED_KEYS :: "string list" where
  "EVIDENCE_ALLOWED_KEYS = [''url'', ''source_type'', ''role'', ''confidence'', ''relation'', ''observed_at'']"

definition MAX_EVIDENCE_STR_LEN :: nat where "MAX_EVIDENCE_STR_LEN = 2048"
definition MAX_SOURCE_REF_LEN :: nat where "MAX_SOURCE_REF_LEN = 256"

definition evidence_scalar :: "json \<Rightarrow> bool" where
  "evidence_scalar v = (case v of JStr s \<Rightarrow> True | JInt n \<Rightarrow> True | JFloat r \<Rightarrow> True | JBool b \<Rightarrow> True | _ \<Rightarrow> False)"

definition evidence_value_ok :: "json \<Rightarrow> bool" where
  "evidence_value_ok v \<longleftrightarrow> evidence_scalar v \<and>
     (case v of JStr s \<Rightarrow> py_len s \<le> MAX_EVIDENCE_STR_LEN | _ \<Rightarrow> True)"

fun sanitize_evidence :: "json list \<Rightarrow> (string, json) dict list" where
  "sanitize_evidence [] = []"
| "sanitize_evidence (it # items) = (case it of
      JStr s \<Rightarrow>
        if s \<noteq> [] \<and> py_len s \<le> MAX_EVIDENCE_STR_LEN then [(''url'', it)] # sanitize_evidence items
        else sanitize_evidence items
    | JObj d \<Rightarrow>
        (let clean = filter (\<lambda>(k, v). k \<in> set EVIDENCE_ALLOWED_KEYS \<and> evidence_value_ok v) d in
         if clean \<noteq> [] then clean # sanitize_evidence items else sanitize_evidence items)
    | _ \<Rightarrow> sanitize_evidence items)"

definition sanitize_source_refs :: "string list \<Rightarrow> string list" where
  "sanitize_source_refs items = filter (\<lambda>s. s \<noteq> [] \<and> py_len s \<le> MAX_SOURCE_REF_LEN) items"

section \<open>Operations on the tables\<close>

definition event_ids :: "timeline \<Rightarrow> string set" where
  "event_ids t = set (map ev_id (tl_events t))"

definition fk_error :: py_exn where "fk_error = ExternalError ''IntegrityError''"

definition fresh_id :: "(nat \<Rightarrow> string) \<Rightarrow> timeline \<Rightarrow> string \<times> timeline" where
  "fresh_id uuid t = (uuid (tl_next t), t\<lparr>tl_next := Suc (tl_next t)\<rparr>)"

definition observed :: "datetime \<Rightarrow> instant" where
  "observed d = dt_instant (assume_utc d)"

definition insert_event :: "string \<Rightarrow> candidate \<Rightarrow> timeline \<Rightarrow> timeline" where
  "insert_event i c t = t\<lparr>tl_events := tl_events t @
     [\<lparr>ev_id = i, ev_canonical_title = cd_canonical_title c, ev_status = ''active'',
       ev_first_seen_at = observed (cd_observed_at c), ev_last_update_at = observed (cd_observed_at c),
       ev_heat = 0, ev_domains = cd_domains c, ev_tags = cd_tags c,
       ev_primary_entity_ids = cd_primary_entity_ids c, ev_snapshot_card_id = None\<rparr>]\<rparr>"

definition create_event :: "(nat \<Rightarrow> string) \<Rightarrow> candidate \<Rightarrow> timeline \<Rightarrow> string \<times> timeline" where
  "create_event uuid c t = (let (i, t1) = fresh_id uuid t in (i, insert_event i c t1))"

definition widen_event :: "instant \<Rightarrow> event_row \<Rightarrow> event_row" where
  "widen_event o_at e = e\<lparr>ev_last_update_at := max (ev_last_update_at e) o_at,
     ev_first_seen_at := min (ev_first_seen_at e) o_at\<rparr>"

definition update_record :: "string \<Rightarrow> string \<Rightarrow> candidate \<Rightarrow> update_row" where
  "update_record i eid c =
     \<lparr>up_id = i, up_event_id = eid, up_observed_at = observed (cd_observed_at c),
      up_delta_summary = cd_delta_summary c, up_evidence = sanitize_evidence (cd_evidence c),
      up_added_domains = cd_added_domains c, up_source_refs = sanitize_source_refs (cd_source_refs c),
      up_heat_delta = cd_heat_delta c\<rparr>"

definition append_update ::
  "(nat \<Rightarrow> string) \<Rightarrow> string \<Rightarrow> candidate \<Rightarrow> timeline \<Rightarrow> (string \<times> timeline) res" where
  "append_update uuid eid c t =
     (let (i, t1) = fresh_id uuid t in
      if eid \<notin> event_ids t then Inl fk_error
      else Inr (i, t1\<lparr>tl_updates := tl_updates t1 @ [update_record i eid c],
        tl_events := map (\<lambda>e. if ev_id e = eid then widen_event (observed (cd_observed_at c)) e else e)
          (tl_events t1)\<rparr>))"

definition get_event :: "timeline \<Rightarrow> string \<Rightarrow> (event_row \<times> update_row list) option" where
  "get_event t eid = (case find (\<lambda>e. ev_id e = eid) (tl_events t) of None \<Rightarrow> None
    | Some e \<Rightarrow> Some (e, sort_key up_observed_at (filter (\<lambda>u. up_event_id u = eid) (tl_updates t))))"

definition mapped_event :: "timeline \<Rightarrow> string \<Rightarrow> bool" where
  "mapped_event t eid \<longleftrightarrow> list_ex (\<lambda>(c, e). e = eid) (tl_clusters t)"

definition get_public_event :: "timeline \<Rightarrow> string \<Rightarrow> (event_row \<times> update_row list) option" where
  "get_public_event t eid = (if mapped_event t eid then get_event t eid else None)"

text \<open>\<open>list_events\<close>: latest update first, then the greater id.\<close>

definition list_events :: "timeline \<Rightarrow> nat \<Rightarrow> nat \<Rightarrow> event_row list" where
  "list_events t limit offset = take limit (drop offset
     (rev (sort_key ev_last_update_at (sort_key ev_id (filter (\<lambda>e. mapped_event t (ev_id e)) (tl_events t))))))"

definition get_cluster_event :: "timeline \<Rightarrow> string \<Rightarrow> string option" where
  "get_cluster_event t cid = dict_get (tl_clusters t) cid"

definition insert_new :: "'k \<Rightarrow> 'v \<Rightarrow> ('k, 'v) dict \<Rightarrow> ('k, 'v) dict" where
  "insert_new k v d = (if dict_get d k = None then dict_set k v d else d)"

definition map_cluster :: "string \<Rightarrow> string \<Rightarrow> timeline \<Rightarrow> (string \<times> timeline) res" where
  "map_cluster cid eid t =
     (if dict_get (tl_clusters t) cid = None \<and> eid \<notin> event_ids t then Inl fk_error
      else let t' = t\<lparr>tl_clusters := insert_new cid eid (tl_clusters t)\<rparr> in
        Inr (case get_cluster_event t' cid of Some e \<Rightarrow> e | None \<Rightarrow> eid, t'))"

definition event_by_id :: "timeline \<Rightarrow> string \<Rightarrow> event_row option" where
  "event_by_id t i = find (\<lambda>e. ev_id e = i) (tl_events t)"

definition find_held_parents :: "timeline \<Rightarrow> string list \<Rightarrow> (string \<times> string) list" where
  "find_held_parents t member_keys =
     (let keys = filter (\<lambda>k. k \<noteq> []) member_keys;
          rows = concat (map (\<lambda>l. case (event_by_id t (ln_event_id l), event_by_id t (ln_linked_event_id l)) of
              (Some de, Some pe) \<Rightarrow>
                if ev_canonical_title de \<in> set keys \<and> ln_status l = ''possible'' \<and>
                   mapped_event t (ln_linked_event_id l)
                then [(ln_linked_event_id l, ev_canonical_title pe)] else []
            | _ \<Rightarrow> []) (tl_links t))
      in if keys = [] then [] else remdups_adj (sort_key fst rows))"

definition find_by_keys :: "(string, string) dict \<Rightarrow> string list \<Rightarrow> string list" where
  "find_by_keys d ks = sort (remdups (List.map_filter (dict_get d) (filter (\<lambda>k. k \<noteq> []) ks)))"

definition find_events_by_identity :: "timeline \<Rightarrow> string list \<Rightarrow> string list" where
  "find_events_by_identity t ks = find_by_keys (tl_identities t) ks"

definition find_event_candidates_by_fingerprint :: "timeline \<Rightarrow> string list \<Rightarrow> string list" where
  "find_event_candidates_by_fingerprint t ks = find_by_keys (tl_candidates t) ks"

definition insert_keys :: "string list \<Rightarrow> string \<Rightarrow> (string, string) dict \<Rightarrow> (string, string) dict" where
  "insert_keys ks eid d = foldl (\<lambda>d k. insert_new k eid d) d (filter (\<lambda>k. k \<noteq> []) ks)"

definition map_event_identities :: "string list \<Rightarrow> string \<Rightarrow> timeline \<Rightarrow> timeline" where
  "map_event_identities ks eid t = t\<lparr>tl_identities := insert_keys ks eid (tl_identities t)\<rparr>"

definition map_event_candidate_fingerprints :: "string list \<Rightarrow> string \<Rightarrow> timeline \<Rightarrow> timeline" where
  "map_event_candidate_fingerprints ks eid t = t\<lparr>tl_candidates := insert_keys ks eid (tl_candidates t)\<rparr>"

definition hold_link ::
  "(nat \<Rightarrow> string) \<Rightarrow> string \<Rightarrow> string \<Rightarrow> string option \<Rightarrow> timeline \<Rightarrow> (string \<times> timeline) res" where
  "hold_link uuid eid linked reason t =
     (let (i, t1) = fresh_id uuid t in
      if eid \<notin> event_ids t \<or> linked \<notin> event_ids t then Inl fk_error
      else Inr (i, t1\<lparr>tl_links := tl_links t1 @
        [\<lparr>ln_id = i, ln_event_id = eid, ln_linked_event_id = linked, ln_status = ''possible'',
          ln_reason = reason\<rparr>]\<rparr>))"

definition is_snapshot_bidirectional ::
  "string \<Rightarrow> string option \<Rightarrow> string \<Rightarrow> string option \<Rightarrow> bool" where
  "is_snapshot_bidirectional event_id snapshot_card_id card_id card_event_id \<longleftrightarrow>
     event_id \<noteq> [] \<and> truthy snapshot_card_id \<and> card_id \<noteq> [] \<and> truthy card_event_id \<and>
     snapshot_card_id = Some card_id \<and> card_event_id = Some event_id"

definition card_event :: "timeline \<Rightarrow> string \<Rightarrow> string option" where
  "card_event t cid = get_or (tl_cards t) cid None"

definition set_snapshot :: "string \<Rightarrow> string \<Rightarrow> timeline \<Rightarrow> (unit \<times> timeline) res" where
  "set_snapshot eid cid t =
     (if card_event t cid \<noteq> None \<and> card_event t cid \<noteq> Some eid then
        Inl (ValueError ''set_snapshot refused: card already linked to a different event'')
      else if dict_get (tl_cards t) cid \<noteq> None \<and> eid \<notin> event_ids t then Inl fk_error
      else if eid \<in> event_ids t \<and> dict_get (tl_cards t) cid = None then Inl fk_error
      else
        let t' = t\<lparr>tl_cards := (if dict_get (tl_cards t) cid = None then tl_cards t
                                else dict_set cid (Some eid) (tl_cards t)),
                   tl_events := map (\<lambda>e. if ev_id e = eid then e\<lparr>ev_snapshot_card_id := Some cid\<rparr> else e)
                     (tl_events t)\<rparr>
        in if is_snapshot_bidirectional eid
             (case event_by_id t' eid of None \<Rightarrow> None | Some e \<Rightarrow> ev_snapshot_card_id e) cid (card_event t' cid)
           then Inr ((), t')
           else Inl (ValueError ''set_snapshot invariant violated: not bidirectional after write''))"

section \<open>Applying a decision\<close>

text \<open>The primary event of a \<open>CREATE\<close>: reused, new, or the winner's after a lost race.\<close>

definition create_primary ::
  "(nat \<Rightarrow> string) \<Rightarrow> (timeline \<Rightarrow> timeline) \<Rightarrow> string \<Rightarrow> candidate \<Rightarrow> timeline
   \<Rightarrow> (string \<times> timeline) res" where
  "create_primary uuid rival cid c t = (case get_cluster_event t cid of
      Some existing \<Rightarrow> bind_res (append_update uuid existing c t) (\<lambda>(_, t1). Inr (existing, t1))
    | None \<Rightarrow>
        let (new_id, t0) = fresh_id uuid t; committed = rival t0 in
        bind_res (map_cluster cid new_id (insert_event new_id c committed)) (\<lambda>(mapped, t1).
          if mapped \<noteq> new_id then
            bind_res (append_update uuid mapped c committed) (\<lambda>(_, t2). Inr (mapped, t2))
          else bind_res (append_update uuid new_id c t1) (\<lambda>(_, t2). Inr (mapped, t2))))"

definition held_candidate :: "string \<Rightarrow> datetime \<Rightarrow> candidate" where
  "held_candidate title when_at = \<lparr>cd_canonical_title = title, cd_observed_at = when_at, cd_delta_summary = [],
     cd_domains = [], cd_tags = [], cd_primary_entity_ids = [], cd_evidence = [], cd_added_domains = [],
     cd_source_refs = [], cd_heat_delta = 0, cd_primary_member_key = None, cd_core_source_types = [],
     cd_identity_keys = [], cd_semantic_fingerprints = []\<rparr>"

fun hold_members ::
  "(nat \<Rightarrow> string) \<Rightarrow> string \<Rightarrow> string option \<Rightarrow> string \<Rightarrow> datetime \<Rightarrow> string list \<Rightarrow> apply_result \<Rightarrow> timeline
   \<Rightarrow> (apply_result \<times> timeline) res" where
  "hold_members uuid reason primary_key primary_id when_at [] r t = Inr (r, t)"
| "hold_members uuid reason primary_key primary_id when_at (m # ms) r t =
     (if primary_key = Some m then hold_members uuid reason primary_key primary_id when_at ms r t
      else let (held, t1) = create_event uuid (held_candidate m when_at) t in
        bind_res (hold_link uuid held primary_id (Some (reason @ '':'' @ m)) t1) (\<lambda>(link, t2).
          hold_members uuid reason primary_key primary_id when_at ms
            (r\<lparr>ar_held_event_ids := ar_held_event_ids r @ [held], ar_link_ids := ar_link_ids r @ [link]\<rparr>) t2))"

definition apply_routing ::
  "(nat \<Rightarrow> string) \<Rightarrow> (timeline \<Rightarrow> timeline) \<Rightarrow> routing_decision \<Rightarrow> candidate \<Rightarrow> datetime option \<Rightarrow> timeline
   \<Rightarrow> (apply_result \<times> timeline) res" where
  "apply_routing uuid rival d c held_at t =
    (if dc_action d = ACTION_WITHHELD then
       Inr (\<lparr>ar_action = ACTION_WITHHELD, ar_event_id = None, ar_held_event_ids = [], ar_link_ids = []\<rparr>, t)
     else
       bind_res
         (if dc_action d = ACTION_CREATE then
            bind_res (create_primary uuid rival (dc_cluster_id d) c t) (\<lambda>(e, t1). Inr (Some e, t1))
          else if dc_action d = ACTION_APPEND then
            (case dc_event_id d of None \<Rightarrow> Inl (ValueError ''APPEND decision missing event_id'')
             | Some e \<Rightarrow> bind_res (append_update uuid e c t) (\<lambda>(_, t1). Inr (Some e, t1)))
          else if dc_action d = ACTION_HOLD then Inr (dc_event_id d, t)
          else Inl (ValueError (''unknown action: '' @ py_repr (dc_action d))))
       (\<lambda>(primary, t1).
         let r = \<lparr>ar_action = dc_action d, ar_event_id = primary, ar_held_event_ids = [], ar_link_ids = []\<rparr>;
             when_at = (case held_at of None \<Rightarrow> cd_observed_at c | Some h \<Rightarrow> h)
         in
         bind_res (case primary of None \<Rightarrow> Inr (r, t1)
             | Some e \<Rightarrow> hold_members uuid (dc_reason d) (cd_primary_member_key c) e when_at (dc_held_members d) r t1)
         (\<lambda>(r2, t2).
           Inr (r2, case primary of None \<Rightarrow> t2
             | Some e \<Rightarrow>
                 if dc_action d \<in> {ACTION_CREATE, ACTION_APPEND} then
                   map_event_candidate_fingerprints (cd_semantic_fingerprints c) e
                     (map_event_identities (cd_identity_keys c) e t2)
                 else t2))))"

section \<open>From a cluster to the tables\<close>

record cluster =
  cl_cluster_id :: string
  cl_confidence :: string
  cl_clique_ok :: bool
  cl_duplicate_group :: "string list"
  cl_weak_only_members :: "string list"

text \<open>The event that an unmapped cluster is promoted to, and the semantic candidate.\<close>

definition held_parent ::
  "timeline \<Rightarrow> cluster \<Rightarrow> candidate \<Rightarrow> (string \<Rightarrow> string \<Rightarrow> bool) option \<Rightarrow> string option" where
  "held_parent t cl c matcher = (case matcher of None \<Rightarrow> None
    | Some m \<Rightarrow> map_option fst (find (\<lambda>(pid, title). m (cd_canonical_title c) title)
        (find_held_parents t (cl_duplicate_group cl))))"

definition identity_parent :: "timeline \<Rightarrow> candidate \<Rightarrow> string option" where
  "identity_parent t c = (case find_events_by_identity t (cd_identity_keys c) of [e] \<Rightarrow> Some e | _ \<Rightarrow> None)"

definition semantic_parent :: "timeline \<Rightarrow> candidate \<Rightarrow> string option" where
  "semantic_parent t c =
     (case find_event_candidates_by_fingerprint t (cd_semantic_fingerprints c) of [e] \<Rightarrow> Some e | _ \<Rightarrow> None)"

definition member_source_types :: "candidate \<Rightarrow> string list" where
  "member_source_types c =
     (if cd_core_source_types c \<noteq> [] then cd_core_source_types c
      else List.map_filter (\<lambda>e. case dict_get (obj_of e) ''source_type'' of
             Some (JStr s) \<Rightarrow> (if s \<noteq> [] then Some s else None) | _ \<Rightarrow> None) (cd_evidence c))"

text \<open>A transaction: a raise leaves the state to the last commit.\<close>

definition transaction :: "(timeline \<Rightarrow> ('a \<times> timeline) res) \<Rightarrow> (timeline, 'a) act" where
  "transaction m = (\<lambda>t. case m t of Inl e \<Rightarrow> (Inl e, t) | Inr (x, t') \<Rightarrow> (Inr x, t'))"

definition resolve_and_apply_cluster ::
  "(nat \<Rightarrow> string) \<Rightarrow> (timeline \<Rightarrow> timeline) \<Rightarrow> (string \<Rightarrow> string \<Rightarrow> bool) option \<Rightarrow> cluster \<Rightarrow> candidate
   \<Rightarrow> (timeline, apply_result) act" where
  "resolve_and_apply_cluster uuid rival matcher cl c = (\<lambda>t.
     let direct = get_cluster_event t (cl_cluster_id cl);
         parent = (if direct = None then held_parent t cl c matcher else None);
         same = (if direct = None \<and> parent = None then identity_parent t c else None);
         promoted = (parent \<noteq> None \<or> same \<noteq> None);
         mapped = (case direct of Some e \<Rightarrow> Some e | None \<Rightarrow>
                    (case parent of Some e \<Rightarrow> Some e | None \<Rightarrow> same));
         sem = (if mapped = None \<and> \<not> promoted then semantic_parent t c else None);
         d = resolve_routing (cl_cluster_id cl) (cl_confidence cl) (cl_clique_ok cl) (cl_duplicate_group cl)
               (cl_weak_only_members cl) mapped (member_source_types c)
     in
     bind_act (transaction (apply_routing uuid rival d c None)) (\<lambda>r.
     bind_act (case ar_event_id r of
         Some e \<Rightarrow>
           if promoted \<and> ar_action r = ACTION_APPEND then
             bind_act (transaction (map_cluster (cl_cluster_id cl) e)) (\<lambda>_. ret_act ())
           else ret_act ()
       | None \<Rightarrow> ret_act ()) (\<lambda>_.
     bind_act (case (sem, ar_event_id r) of
         (Some s, Some e) \<Rightarrow>
           if ar_action r = ACTION_CREATE \<and> e \<noteq> s then
             bind_act (transaction (hold_link uuid e s (Some ''semantic_cross_batch_candidate''))) (\<lambda>_. ret_act ())
           else ret_act ()
       | _ \<Rightarrow> ret_act ()) (\<lambda>_. ret_act r))) t)"

fun resolve_and_apply_clusters ::
  "(nat \<Rightarrow> string) \<Rightarrow> (timeline \<Rightarrow> timeline) \<Rightarrow> (string \<Rightarrow> string \<Rightarrow> bool) option \<Rightarrow> (cluster \<times> candidate) list
   \<Rightarrow> (timeline, apply_result list) act" where
  "resolve_and_apply_clusters uuid rival matcher [] = ret_act []"
| "resolve_and_apply_clusters uuid rival matcher ((cl, c) # cs) =
     bind_act (resolve_and_apply_cluster uuid rival matcher cl c) (\<lambda>r.
     bind_act (resolve_and_apply_clusters uuid rival matcher cs) (\<lambda>rs. ret_act (r # rs)))"

section \<open>The invariant of the tables\<close>

definition updated_ids :: "timeline \<Rightarrow> string set" where
  "updated_ids t = up_event_id ` set (tl_updates t)"

definition window_ok :: "timeline \<Rightarrow> bool" where
  "window_ok t \<longleftrightarrow> (\<forall>e \<in> set (tl_events t). ev_first_seen_at e \<le> ev_last_update_at e \<and>
     (\<forall>u \<in> set (tl_updates t). up_event_id u = ev_id e \<longrightarrow>
        ev_first_seen_at e \<le> up_observed_at u \<and> up_observed_at u \<le> ev_last_update_at e))"

text \<open>
  Ids are unique and drawn from the supply, every reference names a stored event, and an
  event's window covers its updates; \<open>tl_ok\<close>: also every mapped event has an update.
\<close>

definition tl_fk :: "(nat \<Rightarrow> string) \<Rightarrow> timeline \<Rightarrow> bool" where
  "tl_fk uuid t \<longleftrightarrow>
     distinct (map ev_id (tl_events t)) \<and> event_ids t \<subseteq> uuid ` {..<tl_next t} \<and>
     updated_ids t \<subseteq> event_ids t \<and>
     ln_event_id ` set (tl_links t) \<union> ln_linked_event_id ` set (tl_links t) \<subseteq> event_ids t \<and>
     snd ` set (tl_clusters t) \<union> snd ` set (tl_identities t) \<union> snd ` set (tl_candidates t) \<subseteq> event_ids t \<and>
     window_ok t"

definition tl_ok :: "(nat \<Rightarrow> string) \<Rightarrow> timeline \<Rightarrow> bool" where
  "tl_ok uuid t \<longleftrightarrow> tl_fk uuid t \<and> snd ` set (tl_clusters t) \<subseteq> updated_ids t"

text \<open>Other sessions keep the invariant and draw other ids.\<close>

definition rival_ok :: "(nat \<Rightarrow> string) \<Rightarrow> (timeline \<Rightarrow> timeline) \<Rightarrow> bool" where
  "rival_ok uuid rival \<longleftrightarrow> (\<forall>t. tl_ok uuid t \<longrightarrow> tl_ok uuid (rival t) \<and>
     tl_next t \<le> tl_next (rival t) \<and> event_ids t \<subseteq> event_ids (rival t) \<and>
     event_ids (rival t) \<subseteq> event_ids t \<union> uuid ` {tl_next t..})"

lemma tl_fkD:
  assumes "tl_fk uuid t"
  shows "ln_event_id ` set (tl_links t) \<union> ln_linked_event_id ` set (tl_links t) \<subseteq> event_ids t"
    "snd ` set (tl_clusters t) \<subseteq> event_ids t" "snd ` set (tl_identities t) \<subseteq> event_ids t"
    "snd ` set (tl_candidates t) \<subseteq> event_ids t" "updated_ids t \<subseteq> event_ids t" "window_ok t"
    "event_ids t \<subseteq> uuid ` {..<tl_next t}" "distinct (map ev_id (tl_events t))"
  using assms unfolding tl_fk_def by simp_all

lemma window_okD:
  assumes "window_ok t" "e \<in> set (tl_events t)"
  shows "ev_first_seen_at e \<le> ev_last_update_at e"
    "u \<in> set (tl_updates t) \<Longrightarrow> up_event_id u = ev_id e \<Longrightarrow>
      ev_first_seen_at e \<le> up_observed_at u \<and> up_observed_at u \<le> ev_last_update_at e"
  using assms unfolding window_ok_def by blast+

lemma tl_fk_change:
  assumes "tl_fk uuid t" "tl_events t' = tl_events t" "tl_updates t' = tl_updates t" "tl_next t \<le> tl_next t'"
    and "ln_event_id ` set (tl_links t') \<union> ln_linked_event_id ` set (tl_links t') \<subseteq> event_ids t"
    and "snd ` set (tl_clusters t') \<union> snd ` set (tl_identities t') \<union> snd ` set (tl_candidates t') \<subseteq> event_ids t"
  shows "tl_fk uuid t'" "event_ids t' = event_ids t" "updated_ids t' = updated_ids t"
proof -
  show ids: "event_ids t' = event_ids t" "updated_ids t' = updated_ids t"
    using assms(2,3) by (simp_all add: event_ids_def updated_ids_def)
  have "window_ok t'" using assms(1-3) by (simp add: tl_fk_def window_ok_def)
  moreover have "event_ids t \<subseteq> uuid ` {..<tl_next t'}"
    using assms(1,4) unfolding tl_fk_def by (meson image_mono lessThan_subset_iff subset_trans)
  ultimately show "tl_fk uuid t'"
    using assms unfolding tl_fk_def ids by simp
qed

lemma tl_fk_next: "tl_fk uuid t \<Longrightarrow> tl_fk uuid (t\<lparr>tl_next := Suc (tl_next t)\<rparr>)"
  by (rule tl_fk_change(1)) (auto simp: tl_fk_def)

lemma tl_ok_next: "tl_ok uuid t \<Longrightarrow> tl_ok uuid (t\<lparr>tl_next := Suc (tl_next t)\<rparr>)"
  using tl_fk_next by (auto simp: tl_ok_def updated_ids_def)

lemma fresh_not_event:
  assumes "inj uuid" "tl_fk uuid t"
  shows "uuid (tl_next t) \<notin> event_ids t"
  using assms by (auto simp: tl_fk_def dest: injD)

lemma insert_event_fk:
  assumes "tl_fk uuid t" "i \<notin> event_ids t" "i \<in> uuid ` {..<tl_next t}"
  shows "tl_fk uuid (insert_event i c t)" "event_ids (insert_event i c t) = insert i (event_ids t)"
    "updated_ids (insert_event i c t) = updated_ids t" "tl_clusters (insert_event i c t) = tl_clusters t"
    "tl_next (insert_event i c t) = tl_next t"
proof -
  show ids: "event_ids (insert_event i c t) = insert i (event_ids t)"
    by (auto simp: insert_event_def event_ids_def)
  show "updated_ids (insert_event i c t) = updated_ids t" "tl_clusters (insert_event i c t) = tl_clusters t"
    "tl_next (insert_event i c t) = tl_next t"
    by (simp_all add: insert_event_def updated_ids_def)
  have "window_ok (insert_event i c t)"
    using assms by (auto simp: window_ok_def insert_event_def tl_fk_def updated_ids_def)
  moreover have "distinct (map ev_id (tl_events (insert_event i c t)))"
    using assms by (auto simp: insert_event_def tl_fk_def event_ids_def)
  ultimately show "tl_fk uuid (insert_event i c t)"
    using assms ids unfolding tl_fk_def
    by (auto simp: insert_event_def updated_ids_def)
qed

lemma create_event_fk:
  assumes "inj uuid" "tl_fk uuid t" "create_event uuid c t = (i, t')"
  shows "tl_fk uuid t'" "event_ids t' = insert i (event_ids t)" "i \<notin> event_ids t" "updated_ids t' = updated_ids t"
    "tl_clusters t' = tl_clusters t"
proof -
  let ?t1 = "t\<lparr>tl_next := Suc (tl_next t)\<rparr>"
  have i: "i = uuid (tl_next t)" "t' = insert_event i c ?t1"
    using assms(3) by (auto simp: create_event_def fresh_id_def)
  have "event_ids ?t1 = event_ids t" by (simp add: event_ids_def)
  moreover have "i \<notin> event_ids t" using fresh_not_event [OF assms(1,2)] i by simp
  ultimately show "tl_fk uuid t'" "event_ids t' = insert i (event_ids t)" "i \<notin> event_ids t"
    "updated_ids t' = updated_ids t" "tl_clusters t' = tl_clusters t"
    using insert_event_fk [OF tl_fk_next [OF assms(2)], of i c] i
    by (simp_all add: updated_ids_def)
qed

lemma append_update_fk:
  assumes "tl_fk uuid t" "eid \<in> event_ids t"
  shows "\<exists>i t'. append_update uuid eid c t = Inr (i, t') \<and> tl_fk uuid t' \<and> event_ids t' = event_ids t \<and>
    updated_ids t' = insert eid (updated_ids t) \<and> tl_clusters t' = tl_clusters t"
proof -
  let ?o = "observed (cd_observed_at c)"
  define u where "u = update_record (uuid (tl_next t)) eid c"
  define t' where "t' = t\<lparr>tl_next := Suc (tl_next t), tl_updates := tl_updates t @ [u],
    tl_events := map (\<lambda>e. if ev_id e = eid then widen_event ?o e else e) (tl_events t)\<rparr>"
  have ap: "append_update uuid eid c t = Inr (uuid (tl_next t), t')"
    using assms(2) by (simp add: t'_def u_def append_update_def fresh_id_def)
  have u: "up_event_id u = eid" "up_observed_at u = ?o" "tl_updates t' = tl_updates t @ [u]"
    by (simp_all add: u_def t'_def update_record_def)
  have ev: "tl_events t' = map (\<lambda>e. if ev_id e = eid then widen_event ?o e else e) (tl_events t)"
    and same: "tl_links t' = tl_links t" "tl_clusters t' = tl_clusters t" "tl_identities t' = tl_identities t"
    "tl_candidates t' = tl_candidates t" "tl_next t' = Suc (tl_next t)"
    by (simp_all add: t'_def)
  have mids: "map ev_id (tl_events t') = map ev_id (tl_events t)"
    by (simp add: ev widen_event_def cong: map_cong)
  then have ids: "event_ids t' = event_ids t" by (simp add: event_ids_def)
  have upd: "updated_ids t' = insert eid (updated_ids t)" by (auto simp: updated_ids_def u)
  have "window_ok t'"
    unfolding window_ok_def
  proof
    fix e' assume "e' \<in> set (tl_events t')"
    then obtain e where e: "e \<in> set (tl_events t)" "e' = (if ev_id e = eid then widen_event ?o e else e)"
      by (auto simp: ev)
    note w = window_okD [OF tl_fkD(6) [OF assms(1)] e(1)]
    show "ev_first_seen_at e' \<le> ev_last_update_at e' \<and> (\<forall>u \<in> set (tl_updates t').
        up_event_id u = ev_id e' \<longrightarrow> ev_first_seen_at e' \<le> up_observed_at u \<and> up_observed_at u \<le> ev_last_update_at e')"
    proof (cases "ev_id e = eid")
      case True
      then have "e' = widen_event ?o e" using e(2) by simp
      with w u True show ?thesis by (fastforce simp: widen_event_def)
    next
      case False
      then have "e' = e" using e(2) by simp
      with w u False show ?thesis by auto
    qed
  qed
  moreover have "event_ids t' \<subseteq> uuid ` {..<tl_next t'}"
    using assms(1) same(5) unfolding tl_fk_def ids by (auto simp: less_Suc_eq)
  ultimately have "tl_fk uuid t'"
    using assms unfolding tl_fk_def ids upd same mids by auto
  with ap ids upd same(2) show ?thesis by blast
qed

lemma hold_link_fk:
  assumes "tl_fk uuid t" "eid \<in> event_ids t" "linked \<in> event_ids t"
  shows "\<exists>i t'. hold_link uuid eid linked r t = Inr (i, t') \<and> tl_fk uuid t' \<and> event_ids t' = event_ids t \<and>
    updated_ids t' = updated_ids t \<and> tl_clusters t' = tl_clusters t"
proof -
  define l where "l = \<lparr>ln_id = uuid (tl_next t), ln_event_id = eid, ln_linked_event_id = linked,
    ln_status = ''possible'', ln_reason = r\<rparr>"
  define t' where "t' = t\<lparr>tl_next := Suc (tl_next t), tl_links := tl_links t @ [l]\<rparr>"
  have "hold_link uuid eid linked r t = Inr (uuid (tl_next t), t')"
    using assms(2,3) by (simp add: hold_link_def fresh_id_def t'_def l_def)
  moreover have "tl_fk uuid t'" "event_ids t' = event_ids t" "updated_ids t' = updated_ids t"
    using tl_fkD [OF assms(1)] assms(2,3) by (intro tl_fk_change [OF assms(1)]; simp add: t'_def l_def)+
  ultimately show ?thesis by (simp add: t'_def)
qed

lemma hold_members_fk:
  assumes "inj uuid"
  shows "tl_fk uuid t \<Longrightarrow> primary \<in> event_ids t \<Longrightarrow>
    \<exists>r' t'. hold_members uuid reason pk primary when_at ms r t = Inr (r', t') \<and> tl_fk uuid t' \<and>
      event_ids t \<subseteq> event_ids t' \<and> updated_ids t' = updated_ids t \<and> tl_clusters t' = tl_clusters t \<and>
      ar_action r' = ar_action r \<and> ar_event_id r' = ar_event_id r \<and> (ms = [] \<longrightarrow> t' = t)"
proof (induction ms arbitrary: r t)
  case Nil
  then show ?case by simp
next
  case (Cons m ms)
  show ?case
  proof (cases "pk = Some m")
    case True
    with Cons show ?thesis by fastforce
  next
    case False
    obtain i t1 where c: "create_event uuid (held_candidate m when_at) t = (i, t1)"
      by (cases "create_event uuid (held_candidate m when_at) t")
    note f = create_event_fk [OF assms Cons.prems(1) c]
    obtain l t2 where h: "hold_link uuid i primary (Some (reason @ '':'' @ m)) t1 = Inr (l, t2)" "tl_fk uuid t2"
      "event_ids t2 = event_ids t1" "updated_ids t2 = updated_ids t1" "tl_clusters t2 = tl_clusters t1"
      using hold_link_fk [of uuid t1 i primary "Some (reason @ '':'' @ m)"] f Cons.prems(2) by auto
    have "primary \<in> event_ids t2" using h(3) f(2) Cons.prems(2) by simp
    from Cons.IH [OF h(2) this, of "r\<lparr>ar_held_event_ids := ar_held_event_ids r @ [i], ar_link_ids := ar_link_ids r @ [l]\<rparr>"]
    show ?thesis using False c h f by auto
  qed
qed

lemma dict_set_values: "snd ` set (dict_set k v d) \<subseteq> insert v (snd ` set d)"
  using set_dict_set_subset [of k v d] by auto

lemma cluster_value: "get_cluster_event t cid = Some e \<Longrightarrow> e \<in> snd ` set (tl_clusters t)"
  using dict_get_mem [of "tl_clusters t" cid e] by (force simp: get_cluster_event_def)

lemma insert_subsetI: "x \<in> A \<Longrightarrow> B \<subseteq> A \<Longrightarrow> insert x B \<subseteq> A" by simp

lemma insert_keys_values: "snd ` set (insert_keys ks e d) \<subseteq> insert e (snd ` set d)"
proof -
  have one: "snd ` set (insert_new k e d) \<subseteq> insert e (snd ` set d)" for k and d :: "(string, string) dict"
    using dict_set_values [of k e d] by (auto simp: insert_new_def)
  have "snd ` set (foldl (\<lambda>d k. insert_new k e d) d xs) \<subseteq> insert e (snd ` set d)" for xs
  proof (induction xs arbitrary: d)
    case (Cons x xs)
    have "snd ` set (foldl (\<lambda>d k. insert_new k e d) d (x # xs)) \<subseteq> insert e (snd ` set (insert_new x e d))"
      using Cons.IH [of "insert_new x e d"] by simp
    also have "\<dots> \<subseteq> insert e (snd ` set d)" using one [of x d] by blast
    finally show ?case .
  qed auto
  then show ?thesis by (simp add: insert_keys_def)
qed

lemma map_keys_same [simp]:
  "event_ids (map_event_candidate_fingerprints fs e (map_event_identities ks e t)) = event_ids t"
  "updated_ids (map_event_candidate_fingerprints fs e (map_event_identities ks e t)) = updated_ids t"
  "tl_clusters (map_event_candidate_fingerprints fs e (map_event_identities ks e t)) = tl_clusters t"
  by (simp_all add: map_event_candidate_fingerprints_def map_event_identities_def event_ids_def updated_ids_def)

lemma map_keys_fk:
  assumes "tl_fk uuid t" "e \<in> event_ids t"
  shows "tl_fk uuid (map_event_candidate_fingerprints fs e (map_event_identities ks e t))"
proof -
  have "snd ` set (insert_keys ks e (tl_identities t)) \<subseteq> event_ids t"
    "snd ` set (insert_keys fs e (tl_candidates t)) \<subseteq> event_ids t"
    using subset_trans [OF insert_keys_values insert_subsetI [OF assms(2) tl_fkD(3) [OF assms(1)]]]
      subset_trans [OF insert_keys_values insert_subsetI [OF assms(2) tl_fkD(4) [OF assms(1)]]] .
  then show ?thesis
    using tl_fkD [OF assms(1)] by (intro tl_fk_change(1) [OF assms(1)])
      (simp_all add: map_event_candidate_fingerprints_def map_event_identities_def)
qed

lemma map_cluster_fk:
  assumes "tl_fk uuid t" "eid \<in> event_ids t"
  shows "\<exists>e t'. map_cluster cid eid t = Inr (e, t') \<and> tl_fk uuid t' \<and> event_ids t' = event_ids t \<and>
    updated_ids t' = updated_ids t \<and> get_cluster_event t' cid = Some e \<and> e \<in> event_ids t \<and>
    (get_cluster_event t cid = None \<and> e = eid \<and> tl_clusters t' = dict_set cid eid (tl_clusters t) \<or>
     get_cluster_event t cid = Some e \<and> t' = t)"
proof (cases "get_cluster_event t cid")
  case None
  let ?t' = "t\<lparr>tl_clusters := dict_set cid eid (tl_clusters t)\<rparr>"
  have "snd ` set (dict_set cid eid (tl_clusters t)) \<subseteq> event_ids t"
    by (rule subset_trans [OF dict_set_values insert_subsetI [OF assms(2) tl_fkD(2) [OF assms(1)]]])
  then have "tl_fk uuid ?t'" "event_ids ?t' = event_ids t" "updated_ids ?t' = updated_ids t"
    using tl_fkD [OF assms(1)] by (intro tl_fk_change [OF assms(1)]; simp)+
  with None assms show ?thesis
    by (simp add: map_cluster_def get_cluster_event_def insert_new_def)
next
  case (Some e)
  then have "e \<in> event_ids t"
    using tl_fkD(2) [OF assms(1)] cluster_value by blast
  with Some assms show ?thesis
    by (auto simp: map_cluster_def get_cluster_event_def insert_new_def)
qed

text \<open>After a \<open>CREATE\<close> the cluster is mapped to the event that got the update.\<close>

lemma create_primary_ok:
  assumes "inj uuid" "rival_ok uuid rival" "tl_ok uuid t"
  shows "\<exists>e t'. create_primary uuid rival cid c t = Inr (e, t') \<and> tl_ok uuid t' \<and> e \<in> event_ids t' \<and>
    event_ids t \<subseteq> event_ids t' \<and> get_cluster_event t' cid = Some e"
proof (cases "get_cluster_event t cid")
  case (Some e)
  have "e \<in> updated_ids t" "tl_fk uuid t"
    using Some assms(3) dict_get_mem [of "tl_clusters t" cid e] by (force simp: tl_ok_def get_cluster_event_def)+
  then have "e \<in> event_ids t" by (auto simp: tl_fk_def)
  with Some append_update_fk [OF \<open>tl_fk uuid t\<close> this, of c] assms(3) show ?thesis
    by (fastforce simp: create_primary_def tl_ok_def get_cluster_event_def)
next
  case None
  define new_id t0 where "new_id = uuid (tl_next t)" and "t0 = t\<lparr>tl_next := Suc (tl_next t)\<rparr>"
  define w where "w = rival t0"
  have fr: "fresh_id uuid t = (new_id, t0)" by (simp add: fresh_id_def new_id_def t0_def)
  have "tl_ok uuid t0" unfolding t0_def by (rule tl_ok_next [OF assms(3)])
  then have w: "tl_ok uuid w" "tl_next t0 \<le> tl_next w" "event_ids w \<subseteq> event_ids t0 \<union> uuid ` {tl_next t0..}"
    using assms(2) by (auto simp: rival_ok_def w_def)
  have grow: "event_ids t \<subseteq> event_ids w"
  proof -
    have "event_ids t0 = event_ids t" by (simp add: t0_def event_ids_def)
    then show ?thesis using assms(2) \<open>tl_ok uuid t0\<close> unfolding rival_ok_def w_def by metis
  qed
  have wfk: "tl_fk uuid w" using w(1) by (simp add: tl_ok_def)
  have "new_id \<notin> event_ids t0"
    using fresh_not_event [OF assms(1), of t] assms(3) by (simp add: new_id_def t0_def tl_ok_def event_ids_def)
  moreover have "new_id \<notin> uuid ` {tl_next t0..}"
    using assms(1) by (auto simp: new_id_def t0_def dest: injD)
  ultimately have nw: "new_id \<notin> event_ids w" "new_id \<in> uuid ` {..<tl_next w}"
    using w(2,3) by (auto simp: new_id_def t0_def)
  note ins = insert_event_fk [OF wfk nw, of c]
  obtain m t1 where m: "map_cluster cid new_id (insert_event new_id c w) = Inr (m, t1)" "tl_fk uuid t1"
    "event_ids t1 = insert new_id (event_ids w)" "updated_ids t1 = updated_ids w" "get_cluster_event t1 cid = Some m"
    "get_cluster_event w cid = None \<and> m = new_id \<and> tl_clusters t1 = dict_set cid new_id (tl_clusters w) \<or>
     get_cluster_event w cid = Some m"
    using map_cluster_fk [OF ins(1), of new_id cid] ins by (auto simp: get_cluster_event_def)
  show ?thesis
  proof (cases "m = new_id")
    case True
    obtain i t2 where ap: "append_update uuid new_id c t1 = Inr (i, t2)" "tl_fk uuid t2" "event_ids t2 = event_ids t1"
      "updated_ids t2 = insert new_id (updated_ids t1)" "tl_clusters t2 = tl_clusters t1"
      using append_update_fk [OF m(2), of new_id c] m(3) by auto
    have "get_cluster_event w cid = None"
    proof (rule ccontr)
      assume "get_cluster_event w cid \<noteq> None"
      then have "get_cluster_event w cid = Some new_id" using m(6) True by auto
      then show False using cluster_value tl_fkD(2) [OF wfk] nw(1) by blast
    qed
    then have "tl_clusters t1 = dict_set cid new_id (tl_clusters w)" using m(6) by auto
    then have "snd ` set (tl_clusters t2) \<subseteq> insert new_id (snd ` set (tl_clusters w))"
      using ap(5) dict_set_values [of cid new_id "tl_clusters w"] by simp
    also have "\<dots> \<subseteq> updated_ids t2"
      using ap(4) m(4) w(1) by (simp add: tl_ok_def subset_insertI2)
    finally have "snd ` set (tl_clusters t2) \<subseteq> updated_ids t2" .
    then have "tl_ok uuid t2" using ap(2) by (simp add: tl_ok_def)
    moreover have "get_cluster_event t2 cid = Some new_id" using m(5) ap(5) True by (simp add: get_cluster_event_def)
    ultimately show ?thesis
      using None fr m(1) True ap(1,3) m(3) grow by (auto simp: create_primary_def Let_def simp flip: w_def)
  next
    case False
    then have wm: "get_cluster_event w cid = Some m" using m(6) by auto
    then have "m \<in> updated_ids w"
      using w(1) cluster_value unfolding tl_ok_def by blast
    then have "m \<in> event_ids w" using tl_fkD(5) [OF wfk] by blast
    then obtain i t2 where ap: "append_update uuid m c w = Inr (i, t2)" "tl_fk uuid t2" "event_ids t2 = event_ids w"
      "updated_ids t2 = insert m (updated_ids w)" "tl_clusters t2 = tl_clusters w"
      using append_update_fk [OF wfk, of m c] by auto
    have "tl_ok uuid t2" using ap(2,4,5) w(1) by (auto simp: tl_ok_def)
    with None fr m(1) False ap wm grow \<open>m \<in> event_ids w\<close> show ?thesis
      by (simp add: create_primary_def Let_def get_cluster_event_def flip: w_def)
  qed
qed

section \<open>A cluster is resolved\<close>

text \<open>What \<open>resolve_routing\<close> hands to \<open>apply_routing\<close>.\<close>

definition decision_ok :: "timeline \<Rightarrow> routing_decision \<Rightarrow> bool" where
  "decision_ok t d \<longleftrightarrow> dc_action d \<in> {ACTION_CREATE, ACTION_APPEND, ACTION_HOLD, ACTION_WITHHELD} \<and>
     (dc_action d \<in> {ACTION_APPEND, ACTION_HOLD} \<longrightarrow> (\<exists>e \<in> event_ids t. dc_event_id d = Some e))"

lemma resolve_routing_ok:
  "(\<And>e. mapped = Some e \<Longrightarrow> e \<in> event_ids t) \<Longrightarrow>
    decision_ok t (resolve_routing cid conf cq ms ws mapped types)"
  by (auto simp: resolve_routing_def decision_ok_def action_names Let_def split: option.split)

lemma resolve_routing_id [simp]: "dc_cluster_id (resolve_routing cid conf cq ms ws mapped types) = cid"
  by (auto simp: resolve_routing_def Let_def split: option.split)

lemma resolve_routing_action:
  "dc_action (resolve_routing cid conf cq ms ws (Some e) types) \<in> {ACTION_APPEND, ACTION_HOLD}"
  "dc_action (resolve_routing cid conf cq ms ws None types) \<in> {ACTION_CREATE, ACTION_WITHHELD}"
  "dc_event_id (resolve_routing cid conf cq ms ws mapped types) = mapped"
  by (auto simp: resolve_routing_def Let_def split: option.split)

lemma actions_distinct [simp]:
  "ACTION_CREATE \<noteq> ACTION_APPEND" "ACTION_CREATE \<noteq> ACTION_HOLD" "ACTION_CREATE \<noteq> ACTION_WITHHELD"
  "ACTION_APPEND \<noteq> ACTION_HOLD" "ACTION_APPEND \<noteq> ACTION_WITHHELD" "ACTION_HOLD \<noteq> ACTION_WITHHELD"
  "ACTION_APPEND \<noteq> ACTION_CREATE" "ACTION_HOLD \<noteq> ACTION_CREATE" "ACTION_WITHHELD \<noteq> ACTION_CREATE"
  "ACTION_HOLD \<noteq> ACTION_APPEND" "ACTION_WITHHELD \<noteq> ACTION_APPEND" "ACTION_WITHHELD \<noteq> ACTION_HOLD"
  by (simp_all add: action_names)

lemma primary_ok:
  assumes "inj uuid" "rival_ok uuid rival" "tl_ok uuid t" "decision_ok t d" "dc_action d \<noteq> ACTION_WITHHELD"
  shows "\<exists>e t'. (if dc_action d = ACTION_CREATE then
            bind_res (create_primary uuid rival (dc_cluster_id d) c t) (\<lambda>(e, t1). Inr (Some e, t1))
          else if dc_action d = ACTION_APPEND then
            (case dc_event_id d of None \<Rightarrow> Inl (ValueError ''APPEND decision missing event_id'')
             | Some e \<Rightarrow> bind_res (append_update uuid e c t) (\<lambda>(_, t1). Inr (Some e, t1)))
          else if dc_action d = ACTION_HOLD then Inr (dc_event_id d, t)
          else Inl (ValueError (''unknown action: '' @ py_repr (dc_action d)))) = Inr (Some e, t') \<and>
    tl_ok uuid t' \<and> e \<in> event_ids t' \<and> event_ids t \<subseteq> event_ids t' \<and>
    (dc_action d = ACTION_CREATE \<longrightarrow> get_cluster_event t' (dc_cluster_id d) = Some e) \<and>
    (dc_action d = ACTION_APPEND \<longrightarrow> dc_event_id d = Some e \<and> e \<in> updated_ids t' \<and>
       tl_clusters t' = tl_clusters t \<and> event_ids t' = event_ids t) \<and>
    (dc_action d = ACTION_HOLD \<longrightarrow> dc_event_id d = Some e \<and> tl_clusters t' = tl_clusters t)"
proof -
  have fk: "tl_fk uuid t" using assms(3) by (simp add: tl_ok_def)
  consider (create) "dc_action d = ACTION_CREATE"
    | (append) e where "dc_action d = ACTION_APPEND" "dc_event_id d = Some e" "e \<in> event_ids t"
    | (hold) e where "dc_action d = ACTION_HOLD" "dc_event_id d = Some e" "e \<in> event_ids t"
    using assms(4,5) unfolding decision_ok_def by auto
  then show ?thesis
  proof cases
    case create
    with create_primary_ok [OF assms(1-3), of "dc_cluster_id d" c] show ?thesis by auto
  next
    case append
    obtain i t' where a: "append_update uuid e c t = Inr (i, t')" "tl_fk uuid t'" "event_ids t' = event_ids t"
      "updated_ids t' = insert e (updated_ids t)" "tl_clusters t' = tl_clusters t"
      using append_update_fk [OF fk append(3), of c] by blast
    then have "tl_ok uuid t'" using assms(3) by (auto simp: tl_ok_def)
    with a append show ?thesis by simp
  next
    case hold
    with assms(3) show ?thesis by simp
  qed
qed

lemma apply_routing_ok:
  assumes "inj uuid" "rival_ok uuid rival" "tl_ok uuid t" "decision_ok t d"
  shows "\<exists>r t'. apply_routing uuid rival d c h t = Inr (r, t') \<and> tl_ok uuid t' \<and> ar_action r = dc_action d \<and>
    event_ids t \<subseteq> event_ids t' \<and> (\<forall>e. ar_event_id r = Some e \<longrightarrow> e \<in> event_ids t') \<and>
    (dc_action d = ACTION_WITHHELD \<longrightarrow> ar_event_id r = None \<and> t' = t) \<and>
    (dc_action d \<noteq> ACTION_WITHHELD \<longrightarrow> ar_event_id r \<noteq> None) \<and>
    (dc_action d = ACTION_CREATE \<longrightarrow> get_cluster_event t' (dc_cluster_id d) = ar_event_id r) \<and>
    (dc_action d = ACTION_APPEND \<longrightarrow> ar_event_id r = dc_event_id d \<and> the (ar_event_id r) \<in> updated_ids t' \<and>
       tl_clusters t' = tl_clusters t \<and> (dc_held_members d = [] \<longrightarrow> event_ids t' = event_ids t)) \<and>
    (dc_action d = ACTION_HOLD \<longrightarrow> ar_event_id r = dc_event_id d \<and> tl_clusters t' = tl_clusters t)"
proof (cases "dc_action d = ACTION_WITHHELD")
  case True
  with assms(3) show ?thesis by (simp add: apply_routing_def)
next
  case False
  obtain e t1 where p: "(if dc_action d = ACTION_CREATE then
            bind_res (create_primary uuid rival (dc_cluster_id d) c t) (\<lambda>(e, t1). Inr (Some e, t1))
          else if dc_action d = ACTION_APPEND then
            (case dc_event_id d of None \<Rightarrow> Inl (ValueError ''APPEND decision missing event_id'')
             | Some e \<Rightarrow> bind_res (append_update uuid e c t) (\<lambda>(_, t1). Inr (Some e, t1)))
          else if dc_action d = ACTION_HOLD then Inr (dc_event_id d, t)
          else Inl (ValueError (''unknown action: '' @ py_repr (dc_action d)))) = Inr (Some e, t1)"
    and t1: "tl_ok uuid t1" "e \<in> event_ids t1" "event_ids t \<subseteq> event_ids t1"
      "dc_action d = ACTION_CREATE \<Longrightarrow> get_cluster_event t1 (dc_cluster_id d) = Some e"
      "dc_action d = ACTION_APPEND \<Longrightarrow> dc_event_id d = Some e \<and> e \<in> updated_ids t1 \<and>
        tl_clusters t1 = tl_clusters t \<and> event_ids t1 = event_ids t"
      "dc_action d = ACTION_HOLD \<Longrightarrow> dc_event_id d = Some e \<and> tl_clusters t1 = tl_clusters t"
    using primary_ok [OF assms False] by blast
  have fk1: "tl_fk uuid t1" using t1(1) by (simp add: tl_ok_def)
  define r0 where "r0 = \<lparr>ar_action = dc_action d, ar_event_id = Some e, ar_held_event_ids = [], ar_link_ids = []\<rparr>"
  define w where "w = (case h of None \<Rightarrow> cd_observed_at c | Some h \<Rightarrow> h)"
  obtain r2 t2 where hm: "hold_members uuid (dc_reason d) (cd_primary_member_key c) e w (dc_held_members d) r0 t1
      = Inr (r2, t2)" "tl_fk uuid t2" "event_ids t1 \<subseteq> event_ids t2" "updated_ids t2 = updated_ids t1"
      "tl_clusters t2 = tl_clusters t1" "ar_action r2 = dc_action d" "ar_event_id r2 = Some e"
      "dc_held_members d = [] \<Longrightarrow> t2 = t1"
    using hold_members_fk [OF assms(1) fk1 t1(2), of "dc_reason d" "cd_primary_member_key c" w "dc_held_members d" r0]
    by (auto simp: r0_def)
  define t3 where "t3 = (if dc_action d \<in> {ACTION_CREATE, ACTION_APPEND} then
      map_event_candidate_fingerprints (cd_semantic_fingerprints c) e
        (map_event_identities (cd_identity_keys c) e t2) else t2)"
  have same: "event_ids t3 = event_ids t2" "updated_ids t3 = updated_ids t2" "tl_clusters t3 = tl_clusters t2"
    by (simp_all add: t3_def)
  have e2: "e \<in> event_ids t2" using t1(2) hm(3) by blast
  have "tl_fk uuid t3" using map_keys_fk [OF hm(2) e2] hm(2) by (simp add: t3_def)
  then have ok: "tl_ok uuid t3" using t1(1) hm(4,5) by (simp add: tl_ok_def same)
  have run: "apply_routing uuid rival d c h t = Inr (r2, t3)"
    using hm(1) False unfolding apply_routing_def p by (simp add: r0_def w_def t3_def)
  show ?thesis
    using run ok hm(3-8) t1(3-6) e2 False same by (auto simp: get_cluster_event_def)
qed

text \<open>The events a cluster may be promoted to are stored events.\<close>

lemma event_by_id_ids: "Some e = event_by_id t i \<Longrightarrow> i \<in> event_ids t"
  by (auto simp: event_by_id_def event_ids_def find_Some_iff2 dest: nth_mem)

lemma find_held_parents_ids: "(p, title) \<in> set (find_held_parents t ks) \<Longrightarrow> p \<in> event_ids t"
  by (auto simp: event_by_id_ids find_held_parents_def Let_def split: if_splits option.splits)

lemma find_by_keys_values: "e \<in> set (find_by_keys d ks) \<Longrightarrow> e \<in> snd ` set d"
  using dict_get_mem [of d _ e] by (force simp: find_by_keys_def List.map_filter_def)

lemma parent_ids:
  "held_parent t cl c matcher = Some e \<Longrightarrow> e \<in> event_ids t"
  using find_held_parents_ids
  by (fastforce simp: held_parent_def find_Some_iff split: option.splits dest: nth_mem)

lemma key_parent_ids:
  assumes "tl_fk uuid t"
  shows "identity_parent t c = Some e \<Longrightarrow> e \<in> event_ids t" "semantic_parent t c = Some e \<Longrightarrow> e \<in> event_ids t"
  using find_by_keys_values [of e "tl_identities t" "cd_identity_keys c"]
    find_by_keys_values [of e "tl_candidates t" "cd_semantic_fingerprints c"] tl_fkD(3,4) [OF assms]
  by (auto simp: identity_parent_def semantic_parent_def find_events_by_identity_def
      find_event_candidates_by_fingerprint_def split: list.splits)

text \<open>After the routing the remaining steps neither raise nor touch a mapping already made.\<close>

lemma transaction_Inr: "m t = Inr (x, t') \<Longrightarrow> transaction m t = (Inr x, t')"
  by (simp add: transaction_def)

lemma bind_act_Inr: "m t = (Inr x, t') \<Longrightarrow> bind_act m f t = f x t'"
  by (simp add: bind_act_def)

definition mapped_target :: "timeline \<Rightarrow> (string \<Rightarrow> string \<Rightarrow> bool) option \<Rightarrow> cluster \<Rightarrow> candidate \<Rightarrow> string option" where
  "mapped_target t matcher cl c = (case get_cluster_event t (cl_cluster_id cl) of Some e \<Rightarrow> Some e
     | None \<Rightarrow> (case held_parent t cl c matcher of Some e \<Rightarrow> Some e | None \<Rightarrow> identity_parent t c))"

definition routing_of :: "timeline \<Rightarrow> (string \<Rightarrow> string \<Rightarrow> bool) option \<Rightarrow> cluster \<Rightarrow> candidate \<Rightarrow> routing_decision" where
  "routing_of t matcher cl c = resolve_routing (cl_cluster_id cl) (cl_confidence cl) (cl_clique_ok cl)
     (cl_duplicate_group cl) (cl_weak_only_members cl) (mapped_target t matcher cl c) (member_source_types c)"

definition after_routing ::
  "(nat \<Rightarrow> string) \<Rightarrow> string \<Rightarrow> bool \<Rightarrow> string option \<Rightarrow> apply_result \<Rightarrow> (timeline, apply_result) act" where
  "after_routing uuid cid promoted sem r =
     bind_act (case ar_event_id r of
         Some e \<Rightarrow>
           if promoted \<and> ar_action r = ACTION_APPEND then
             bind_act (transaction (map_cluster cid e)) (\<lambda>_. ret_act ())
           else ret_act ()
       | None \<Rightarrow> ret_act ()) (\<lambda>_.
     bind_act (case (sem, ar_event_id r) of
         (Some s, Some e) \<Rightarrow>
           if ar_action r = ACTION_CREATE \<and> e \<noteq> s then
             bind_act (transaction (hold_link uuid e s (Some ''semantic_cross_batch_candidate''))) (\<lambda>_. ret_act ())
           else ret_act ()
       | _ \<Rightarrow> ret_act ()) (\<lambda>_. ret_act r))"

lemma resolve_unfold:
  "resolve_and_apply_cluster uuid rival matcher cl c t =
     bind_act (transaction (apply_routing uuid rival (routing_of t matcher cl c) c None))
       (after_routing uuid (cl_cluster_id cl)
         (get_cluster_event t (cl_cluster_id cl) = None \<and> mapped_target t matcher cl c \<noteq> None)
         (if mapped_target t matcher cl c = None then semantic_parent t c else None)) t"
  unfolding resolve_and_apply_cluster_def Let_def after_routing_def routing_of_def mapped_target_def
  by (cases "get_cluster_event t (cl_cluster_id cl)"; cases "held_parent t cl c matcher";
      cases "identity_parent t c"; simp cong: option.case_cong if_cong)

lemma mapped_target_ids:
  assumes "tl_fk uuid t" "mapped_target t matcher cl c = Some e"
  shows "e \<in> event_ids t"
  using assms cluster_value [of t "cl_cluster_id cl" e] tl_fkD(2) [OF assms(1)] parent_ids key_parent_ids(1)
  by (auto simp: mapped_target_def split: option.splits)

lemma resolve_cluster_ok:
  assumes "inj uuid" "rival_ok uuid rival" "tl_ok uuid t" and d_def: "d = routing_of t matcher cl c"
  shows "\<exists>r t'. resolve_and_apply_cluster uuid rival matcher cl c t = (Inr r, t') \<and> tl_ok uuid t' \<and>
    event_ids t \<subseteq> event_ids t' \<and> ar_action r = dc_action d \<and>
    (dc_action d = ACTION_WITHHELD \<longrightarrow> t' = t \<and> ar_event_id r = None) \<and>
    (dc_action d \<in> {ACTION_CREATE, ACTION_APPEND} \<longrightarrow>
       (\<exists>e. ar_event_id r = Some e \<and> get_cluster_event t' (cl_cluster_id cl) = Some e)) \<and>
    (dc_action d = ACTION_APPEND \<longrightarrow> ar_event_id r = mapped_target t matcher cl c \<and>
       (dc_held_members d = [] \<longrightarrow> event_ids t' = event_ids t))"
proof -
  let ?cid = "cl_cluster_id cl"
  have fk: "tl_fk uuid t" using assms(3) by (simp add: tl_ok_def)
  define promoted where "promoted = (get_cluster_event t ?cid = None \<and> mapped_target t matcher cl c \<noteq> None)"
  define sem where "sem = (if mapped_target t matcher cl c = None then semantic_parent t c else None)"
  have "decision_ok t d"
    unfolding d_def routing_of_def by (rule resolve_routing_ok) (rule mapped_target_ids [OF fk])
  from apply_routing_ok [OF assms(1-3) this, of c None]
  obtain r t1 where run: "apply_routing uuid rival d c None t = Inr (r, t1)"
    and r: "tl_ok uuid t1" "ar_action r = dc_action d" "event_ids t \<subseteq> event_ids t1"
      "\<And>e. ar_event_id r = Some e \<Longrightarrow> e \<in> event_ids t1"
      "dc_action d = ACTION_WITHHELD \<Longrightarrow> ar_event_id r = None \<and> t1 = t"
      "dc_action d \<noteq> ACTION_WITHHELD \<Longrightarrow> ar_event_id r \<noteq> None"
      "dc_action d = ACTION_CREATE \<Longrightarrow> get_cluster_event t1 (dc_cluster_id d) = ar_event_id r"
      "dc_action d = ACTION_APPEND \<Longrightarrow> ar_event_id r = dc_event_id d \<and> the (ar_event_id r) \<in> updated_ids t1 \<and>
         tl_clusters t1 = tl_clusters t \<and> (dc_held_members d = [] \<longrightarrow> event_ids t1 = event_ids t)"
    by blast
  have did: "dc_cluster_id d = ?cid" "dc_event_id d = mapped_target t matcher cl c"
    by (simp_all add: d_def routing_of_def resolve_routing_action)
  have "resolve_and_apply_cluster uuid rival matcher cl c t = after_routing uuid ?cid promoted sem r t1"
    unfolding resolve_unfold promoted_def [symmetric] sem_def [symmetric] d_def [symmetric]
    by (simp add: bind_act_def transaction_def run)
  note body = this [unfolded after_routing_def]
  consider (withheld) "dc_action d = ACTION_WITHHELD" | (hold) e where "dc_action d = ACTION_HOLD" "ar_event_id r = Some e"
    | (create) e where "dc_action d = ACTION_CREATE" "ar_event_id r = Some e" "get_cluster_event t1 ?cid = Some e"
    | (append) e where "dc_action d = ACTION_APPEND" "ar_event_id r = Some e" "mapped_target t matcher cl c = Some e"
    using \<open>decision_ok t d\<close> r(6,7,8) did unfolding decision_ok_def by fastforce
  then show ?thesis
  proof cases
    case withheld
    with r(1,2,5) show ?thesis unfolding body by (auto simp: bind_act_def split: option.split)
  next
    case hold
    with r(1,2,3) show ?thesis unfolding body by (auto simp: bind_act_def split: option.split)
  next
    case create
    show ?thesis
    proof (cases "sem = None \<or> sem = Some e")
      case True
      with create r(1,2,3) show ?thesis unfolding body by (auto simp: bind_act_def split: option.split)
    next
      case False
      then obtain s where s: "sem = Some s" "s \<noteq> e" by auto
      then have "s \<in> event_ids t1"
        using key_parent_ids(2) [OF fk, of c s] r(3) by (auto simp: sem_def split: if_splits)
      moreover have "e \<in> event_ids t1" using r(4) create(2) .
      ultimately obtain l t2 where h: "hold_link uuid e s (Some ''semantic_cross_batch_candidate'') t1 = Inr (l, t2)"
        "tl_fk uuid t2" "event_ids t2 = event_ids t1" "updated_ids t2 = updated_ids t1" "tl_clusters t2 = tl_clusters t1"
        using hold_link_fk [of uuid t1 e s "Some ''semantic_cross_batch_candidate''"] r(1)
        by (auto simp: tl_ok_def)
      have ok2: "tl_ok uuid t2" using h(2,4,5) r(1) by (simp add: tl_ok_def)
      have "get_cluster_event t2 ?cid = Some e" using create(3) h(5) by (simp add: get_cluster_event_def)
      moreover have "event_ids t \<subseteq> event_ids t2" using r(3) h(3) by simp
      moreover have "resolve_and_apply_cluster uuid rival matcher cl c t = (Inr r, t2)"
        using h(1) s create(1,2) r(2) unfolding body by (simp add: bind_act_def transaction_def)
      ultimately show ?thesis using ok2 create(1,2) r(2) by auto
    qed
  next
    case append
    have ns: "sem = None" using append(3) by (simp add: sem_def)
    show ?thesis
    proof (cases promoted)
      case False
      then have "get_cluster_event t ?cid = Some e"
        using append(3) by (auto simp: promoted_def mapped_target_def split: option.splits)
      then have "get_cluster_event t1 ?cid = Some e" using r(8) append(1) by (simp add: get_cluster_event_def)
      with False append ns r(1,2,3,8) show ?thesis unfolding body by (simp add: bind_act_def)
    next
      case True
      then have un: "get_cluster_event t1 ?cid = None" using r(8) append(1) by (simp add: promoted_def get_cluster_event_def)
      have e: "e \<in> event_ids t1" "e \<in> updated_ids t1" using r(4,8) append(1,2) by auto
      obtain e' t2 where m: "map_cluster ?cid e t1 = Inr (e', t2)" "tl_fk uuid t2" "event_ids t2 = event_ids t1"
        "updated_ids t2 = updated_ids t1" "e' = e" "get_cluster_event t2 ?cid = Some e'"
        "tl_clusters t2 = dict_set ?cid e (tl_clusters t1)"
        using map_cluster_fk [of uuid t1 e ?cid] r(1) e(1) un unfolding tl_ok_def by auto
      have "snd ` set (tl_clusters t2) \<subseteq> updated_ids t2"
        unfolding m(4,7) using r(1) e(2) by (intro subset_trans [OF dict_set_values insert_subsetI]) (auto simp: tl_ok_def)
      then have ok2: "tl_ok uuid t2" using m(2) by (simp add: tl_ok_def)
      moreover have "event_ids t \<subseteq> event_ids t2" using r(3) m(3) by simp
      moreover have "resolve_and_apply_cluster uuid rival matcher cl c t = (Inr r, t2)"
        using m(1) True ns append(1,2) r(2) unfolding body by (simp add: bind_act_def transaction_def)
      moreover have "dc_held_members d = [] \<Longrightarrow> event_ids t2 = event_ids t" using r(8) append(1) m(3) by simp
      ultimately show ?thesis using append r(2) m(5,6) by auto
    qed
  qed
qed

section \<open>The update log\<close>

text \<open>
  The abstract timeline: for each event the list of its updates, in the order they were written.
  Routing a cluster appends one entry to the log of one event, or none.
\<close>

definition contents :: "update_row \<Rightarrow> update_row" where
  "contents u = u\<lparr>up_id := []\<rparr>"

definition update_log :: "timeline \<Rightarrow> string \<Rightarrow> update_row list" where
  "update_log t e = map contents (filter (\<lambda>u. up_event_id u = e) (tl_updates t))"

definition log_add :: "string \<Rightarrow> candidate \<Rightarrow> (string \<Rightarrow> update_row list) \<Rightarrow> string \<Rightarrow> update_row list" where
  "log_add e c l = l(e := l e @ [update_record [] e c])"

lemma update_log_same: "tl_updates t' = tl_updates t \<Longrightarrow> update_log t' = update_log t"
  by (simp add: update_log_def fun_eq_iff)

lemma append_update_log: "append_update uuid e c t = Inr (i, t') \<Longrightarrow> update_log t' = log_add e c (update_log t)"
  by (auto simp: append_update_def fresh_id_def update_log_def log_add_def contents_def update_record_def
      Let_def fun_eq_iff split: if_splits)

lemma hold_link_updates: "hold_link uuid e l r t = Inr (i, t') \<Longrightarrow> tl_updates t' = tl_updates t"
  by (auto simp: hold_link_def fresh_id_def Let_def split: if_splits)

lemma map_cluster_updates: "map_cluster cid e t = Inr (i, t') \<Longrightarrow> tl_updates t' = tl_updates t"
  by (auto simp: map_cluster_def Let_def split: if_splits)

lemma hold_members_updates:
  "hold_members uuid reason pk p w ms r t = Inr (r', t') \<Longrightarrow> tl_updates t' = tl_updates t \<and> ar_event_id r' = ar_event_id r \<and> ar_action r' = ar_action r"
proof (induction uuid reason pk p w ms r t rule: hold_members.induct)
  case (2 uuid reason pk p w m ms r t)
  show ?case
  proof (cases "pk = Some m")
    case True
    with 2 show ?thesis by simp
  next
    case False
    obtain i t1 where c: "create_event uuid (held_candidate m w) t = (i, t1)"
      by (cases "create_event uuid (held_candidate m w) t")
    from 2(3) False c obtain l t2 where h: "hold_link uuid i p (Some (reason @ '':'' @ m)) t1 = Inr (l, t2)"
      and rest: "hold_members uuid reason pk p w ms
         (r\<lparr>ar_held_event_ids := ar_held_event_ids r @ [i], ar_link_ids := ar_link_ids r @ [l]\<rparr>) t2 = Inr (r', t')"
      by (auto simp: bind_res_def split: sum.splits)
    have "tl_updates t1 = tl_updates t"
      using c by (auto simp: create_event_def fresh_id_def insert_event_def)
    with 2(2) [OF False c [symmetric] refl rest] hold_link_updates [OF h] show ?thesis by simp
  qed
qed simp

lemma create_primary_log:
  assumes "create_primary uuid rival cid c t = Inr (e, t')"
  shows "update_log t' = log_add e c (update_log
    (if get_cluster_event t cid = None then rival (t\<lparr>tl_next := Suc (tl_next t)\<rparr>) else t))"
proof (cases "get_cluster_event t cid")
  case (Some e0)
  with assms show ?thesis
    by (auto simp: create_primary_def bind_res_def split: sum.splits dest: append_update_log)
next
  case None
  let ?w = "rival (t\<lparr>tl_next := Suc (tl_next t)\<rparr>)" and ?i = "uuid (tl_next t)"
  from assms None obtain m t1 where m: "map_cluster cid ?i (insert_event ?i c ?w) = Inr (m, t1)"
    by (auto simp: create_primary_def fresh_id_def bind_res_def Let_def split: sum.splits)
  have l1: "update_log t1 = update_log ?w"
    using map_cluster_updates [OF m] by (intro update_log_same) (simp add: insert_event_def)
  show ?thesis
    using assms None m l1
    by (auto simp: create_primary_def fresh_id_def bind_res_def Let_def split: sum.splits if_splits dest!: append_update_log)
qed

text \<open>Where the log of a \<open>CREATE\<close> starts: other sessions may have committed since the lookup.\<close>

definition log_base :: "(timeline \<Rightarrow> timeline) \<Rightarrow> routing_decision \<Rightarrow> timeline \<Rightarrow> timeline" where
  "log_base rival d t =
     (if dc_action d = ACTION_CREATE \<and> get_cluster_event t (dc_cluster_id d) = None
      then rival (t\<lparr>tl_next := Suc (tl_next t)\<rparr>) else t)"

definition log_routed ::
  "routing_decision \<Rightarrow> string option \<Rightarrow> candidate \<Rightarrow> (string \<Rightarrow> update_row list) \<Rightarrow> string \<Rightarrow> update_row list" where
  "log_routed d ev c l = (if dc_action d \<in> {ACTION_CREATE, ACTION_APPEND} then log_add (the ev) c l else l)"

lemma apply_routing_log:
  assumes "apply_routing uuid rival d c h t = Inr (r, t')"
  shows "update_log t' = log_routed d (ar_event_id r) c (update_log (log_base rival d t))"
proof -
  define P where "P = (if dc_action d = ACTION_CREATE then
            bind_res (create_primary uuid rival (dc_cluster_id d) c t) (\<lambda>(e, t1). Inr (Some e, t1))
          else if dc_action d = ACTION_APPEND then
            (case dc_event_id d of None \<Rightarrow> Inl (ValueError ''APPEND decision missing event_id'')
             | Some e \<Rightarrow> bind_res (append_update uuid e c t) (\<lambda>(_, t1). Inr (Some e, t1)))
          else if dc_action d = ACTION_HOLD then Inr (dc_event_id d, t)
          else Inl (ValueError (''unknown action: '' @ py_repr (dc_action d))))"
  show ?thesis
  proof (cases "dc_action d = ACTION_WITHHELD")
    case True
    with assms show ?thesis by (auto simp: apply_routing_def log_routed_def log_base_def)
  next
    case False
    obtain ev t1 where p: "P = Inr (ev, t1)"
      using assms False unfolding apply_routing_def P_def [symmetric] by (auto simp: bind_res_Inr_iff)
    have rest: "tl_updates t' = tl_updates t1 \<and> ar_event_id r = ev"
      using assms False unfolding apply_routing_def P_def [symmetric] p
      by (auto simp: bind_res_Inr_iff Let_def map_event_identities_def map_event_candidate_fingerprints_def
          split: option.splits if_splits dest!: hold_members_updates)
    have "update_log t1 = log_routed d ev c (update_log (log_base rival d t))"
    proof (cases "dc_action d = ACTION_CREATE")
      case True
      then obtain e where "create_primary uuid rival (dc_cluster_id d) c t = Inr (e, t1)" "ev = Some e"
        using p by (auto simp: P_def bind_res_Inr_iff)
      with create_primary_log [OF this(1)] True show ?thesis by (simp add: log_routed_def log_base_def)
    next
      case nc: False
      show ?thesis
      proof (cases "dc_action d = ACTION_APPEND")
        case True
        then obtain a i where "dc_event_id d = Some a" "ev = Some a" "append_update uuid a c t = Inr (i, t1)"
          using p by (cases "dc_event_id d") (auto simp: P_def bind_res_Inr_iff)
        then show ?thesis
          using append_update_log True by (auto simp: log_routed_def log_base_def)
      next
        case False
        then show ?thesis using p nc by (auto simp: P_def log_routed_def log_base_def split: if_splits)
      qed
    qed
    with rest update_log_same [of t' t1] show ?thesis by simp
  qed
qed

lemma map_cluster_act_updates: "transaction (map_cluster cid e) t = (x, t') \<Longrightarrow> tl_updates t' = tl_updates t"
  by (auto simp: transaction_def split: sum.splits dest: map_cluster_updates)

lemma hold_link_act_updates: "transaction (hold_link uuid e s m) t = (x, t') \<Longrightarrow> tl_updates t' = tl_updates t"
  by (auto simp: transaction_def split: sum.splits dest: hold_link_updates)

lemma after_routing_updates:
  assumes "after_routing uuid cid promoted sem r t = (x, t')"
  shows "tl_updates t' = tl_updates t \<and> (x = Inr r' \<longrightarrow> r' = r)"
  using assms unfolding after_routing_def
  by (auto simp: bind_act_def split: prod.splits sum.splits option.splits if_splits
      dest!: map_cluster_act_updates hold_link_act_updates)

lemma url_allowed: "''url'' \<in> set EVIDENCE_ALLOWED_KEYS"
  by (simp add: EVIDENCE_ALLOWED_KEYS_def)

lemma sanitize_evidence_entry:
  "d \<in> set (sanitize_evidence items) \<Longrightarrow>
    d \<noteq> [] \<and> (\<forall>(k, v) \<in> set d. k \<in> set EVIDENCE_ALLOWED_KEYS \<and> evidence_value_ok v)"
proof (induction items)
  case (Cons it items)
  then show ?case
    by (cases it) (auto simp: Let_def url_allowed evidence_value_ok_def evidence_scalar_def split: if_splits)
qed simp

section \<open>Correctness\<close>

definition empty_timeline :: timeline where
  "empty_timeline = \<lparr>tl_next = 0, tl_events = [], tl_updates = [], tl_links = [], tl_clusters = [],
     tl_identities = [], tl_candidates = [], tl_cards = []\<rparr>"

lemma empty_timeline_ok: "tl_ok uuid empty_timeline"
  by (simp add: empty_timeline_def tl_ok_def tl_fk_def event_ids_def updated_ids_def window_ok_def)

definition unary_id :: "nat \<Rightarrow> string" where "unary_id n = replicate n (CHR ''x'')"

lemma inj_unary_id: "inj unary_id"
  by (auto simp: inj_def unary_id_def dest: arg_cong [of _ _ size])

lemma rival_idle: "rival_ok uuid (\<lambda>t. t)"
  by (auto simp: rival_ok_def)

definition article :: "string \<Rightarrow> candidate" where
  "article title = (held_candidate title (utc 0))\<lparr>cd_core_source_types := [''article'']\<rparr>"

definition cluster_of :: "string \<Rightarrow> string \<Rightarrow> cluster" where
  "cluster_of cid conf = \<lparr>cl_cluster_id = cid, cl_confidence = conf, cl_clique_ok = True,
     cl_duplicate_group = [''a'', ''b''], cl_weak_only_members = []\<rparr>"

text \<open>C2: a cluster that no stored event claims and whose core members are not publishable (or,
  for a weak cluster, not of one publishable type) is withheld: no table changes.\<close>

theorem unpublishable_cluster_is_withheld:
  assumes "mapped_target t matcher cl c = None"
    and "\<not> has_publishable (member_source_types c) \<or>
      cl_confidence cl \<noteq> CONF_DUPLICATE \<and> \<not> homogeneous_publishable (member_source_types c)"
  shows "resolve_and_apply_cluster uuid rival matcher cl c t =
    (Inr \<lparr>ar_action = ACTION_WITHHELD, ar_event_id = None, ar_held_event_ids = [], ar_link_ids = []\<rparr>, t)"
proof -
  have "dc_action (routing_of t matcher cl c) = ACTION_WITHHELD"
    using assms by (auto simp: routing_of_def resolve_routing_def Let_def)
  then show ?thesis
    unfolding resolve_unfold by (simp add: apply_routing_def bind_act_def transaction_def after_routing_def
        split: option.split)
qed

lemma unpublishable_cluster_is_withheld_witness:
  "resolve_and_apply_cluster unary_id (\<lambda>t. t) None (cluster_of ''c1'' ''possible'')
     ((article ''Talk'')\<lparr>cd_core_source_types := [''community'', ''article'']\<rparr>) empty_timeline =
    (Inr \<lparr>ar_action = ACTION_WITHHELD, ar_event_id = None, ar_held_event_ids = [], ar_link_ids = []\<rparr>, empty_timeline)"
  by (rule unpublishable_cluster_is_withheld) code_simp+



text \<open>C22: a published cluster is public and never splits: when a run created or extended an event,
  a later run of the cluster, now a strong clique, appends to that event and creates none.\<close>

theorem published_cluster_never_splits:
  assumes "inj uuid" "rival_ok uuid rival" "tl_ok uuid t"
    and "resolve_and_apply_cluster uuid rival matcher cl c t = (Inr r, t')"
    and "ar_action r \<in> {ACTION_CREATE, ACTION_APPEND}"
    and "cl_cluster_id cl2 = cl_cluster_id cl" "cl_confidence cl2 = CONF_DUPLICATE" "cl_clique_ok cl2"
  shows "\<exists>e r2 t2. ar_event_id r = Some e \<and> get_public_event t' e \<noteq> None \<and>
    resolve_and_apply_cluster uuid rival matcher cl2 c2 t' = (Inr r2, t2) \<and> ar_action r2 = ACTION_APPEND \<and>
    ar_event_id r2 = Some e \<and> event_ids t2 = event_ids t'"
proof -
  obtain e where e: "tl_ok uuid t'" "ar_event_id r = Some e" "get_cluster_event t' (cl_cluster_id cl) = Some e"
    using resolve_cluster_ok [OF assms(1-3) refl, of matcher cl c] assms(4,5) by auto
  have d: "mapped_target t' matcher cl2 c2 = Some e" using e(3) assms(6) by (simp add: mapped_target_def)
  then have "dc_action (routing_of t' matcher cl2 c2) = ACTION_APPEND" "dc_held_members (routing_of t' matcher cl2 c2) = []"
    using assms(7,8) by (simp_all add: routing_of_def resolve_routing_def)
  with resolve_cluster_ok [OF assms(1,2) e(1) refl, of matcher cl2 c2] d obtain r2 t2 where
    "resolve_and_apply_cluster uuid rival matcher cl2 c2 t' = (Inr r2, t2)" "ar_action r2 = ACTION_APPEND"
    "ar_event_id r2 = Some e" "event_ids t2 = event_ids t'"
    by auto
  moreover have "get_public_event t' e \<noteq> None"
  proof -
    have "(cl_cluster_id cl, e) \<in> set (tl_clusters t')" using e(3) dict_get_mem by (simp add: get_cluster_event_def)
    then have "mapped_event t' e" by (auto simp: mapped_event_def list_ex_iff)
    moreover have "e \<in> event_ids t'"
      using cluster_value [OF e(3)] tl_fkD(2) [of uuid t'] e(1) by (auto simp: tl_ok_def)
    then have "find (\<lambda>x. ev_id x = e) (tl_events t') \<noteq> None" by (auto simp: find_None_iff event_ids_def)
    ultimately show ?thesis by (auto simp: get_public_event_def get_event_def)
  qed
  ultimately show ?thesis using e(2) by blast
qed

lemma published_cluster_never_splits_witness:
  "\<exists>r t' e r2 t2.
    resolve_and_apply_cluster unary_id (\<lambda>t. t) None (cluster_of ''c1'' ''possible'') (article ''A'') empty_timeline
      = (Inr r, t') \<and>
    ar_event_id r = Some e \<and> get_public_event t' e \<noteq> None \<and>
    resolve_and_apply_cluster unary_id (\<lambda>t. t) None (cluster_of ''c1'' ''duplicate'') (article ''B'') t' = (Inr r2, t2) \<and>
    ar_action r2 = ACTION_APPEND \<and> ar_event_id r2 = Some e \<and> event_ids t2 = event_ids t'"
proof -
  let ?run = "resolve_and_apply_cluster unary_id (\<lambda>t. t) None (cluster_of ''c1'' ''possible'') (article ''A'') empty_timeline"
  have "case ?run of (Inr r, t') \<Rightarrow> ar_action r = ACTION_CREATE | _ \<Rightarrow> False" by code_simp
  then obtain r t' where run: "?run = (Inr r, t')" "ar_action r = ACTION_CREATE"
    by (auto split: prod.splits sum.splits)
  then have act: "ar_action r \<in> {ACTION_CREATE, ACTION_APPEND}" by simp
  have cl: "cl_cluster_id (cluster_of ''c1'' ''duplicate'') = cl_cluster_id (cluster_of ''c1'' ''possible'')"
    "cl_confidence (cluster_of ''c1'' ''duplicate'') = CONF_DUPLICATE" "cl_clique_ok (cluster_of ''c1'' ''duplicate'')"
    by (simp_all add: cluster_of_def CONF_DUPLICATE_def)
  from published_cluster_never_splits [OF inj_unary_id rival_idle empty_timeline_ok run(1) act cl, of "article ''B''"]
  show ?thesis using run(1) by blast
qed

text \<open>C9: the tables refine a log of updates per event: a resolved cluster appends one entry, with the
  evidence cut to the allowed fields, to the log of the event it returns, on top of what other
  sessions committed, and a held or withheld cluster leaves the log as it is.\<close>

theorem resolving_refines_the_update_log:
  assumes "resolve_and_apply_cluster uuid rival matcher cl c t = (Inr r, t')"
  defines "d \<equiv> routing_of t matcher cl c"
  shows "update_log t' = log_routed d (ar_event_id r) c (update_log (log_base rival d t))"
proof (cases "apply_routing uuid rival d c None t")
  case (Inl e)
  with assms show ?thesis by (simp add: resolve_unfold bind_act_def transaction_def)
next
  case (Inr p)
  obtain r1 t1 where p: "p = (r1, t1)" by (cases p)
  then have a: "apply_routing uuid rival d c None t = Inr (r1, t1)" using Inr by simp
  from assms(1) after_routing_updates [of uuid "cl_cluster_id cl" _ _ r1 t1 "Inr r" t' r]
  have "tl_updates t' = tl_updates t1" "r = r1"
    unfolding resolve_unfold d_def [symmetric] by (auto simp: bind_act_def transaction_def a)
  with apply_routing_log [OF a] update_log_same show ?thesis by metis
qed

lemma resolving_refines_the_update_log_witness:
  "\<exists>r t'. resolve_and_apply_cluster unary_id (\<lambda>t. t) None (cluster_of ''c1'' ''duplicate'') (article ''A'') empty_timeline
      = (Inr r, t') \<and>
    update_log t' = log_add (the (ar_event_id r)) (article ''A'') (\<lambda>_. [])"
proof -
  let ?cl = "cluster_of ''c1'' ''duplicate''"
  let ?run = "resolve_and_apply_cluster unary_id (\<lambda>t. t) None ?cl (article ''A'') empty_timeline"
  have "case ?run of (Inr r, t') \<Rightarrow> True | _ \<Rightarrow> False" by code_simp
  then obtain r t' where run: "?run = (Inr r, t')" by (auto split: prod.splits sum.splits)
  have d: "dc_action (routing_of empty_timeline None ?cl (article ''A'')) = ACTION_CREATE" by code_simp
  have "update_log (empty_timeline\<lparr>tl_next := k\<rparr>) = (\<lambda>_. [])" for k
    by (simp add: update_log_def empty_timeline_def fun_eq_iff)
  moreover have "update_log empty_timeline = (\<lambda>_. [])"
    by (simp add: update_log_def empty_timeline_def fun_eq_iff)
  ultimately show ?thesis
    using resolving_refines_the_update_log [OF run] run d by (simp add: log_routed_def log_base_def split: if_splits)
qed

text \<open>what is stored of the evidence is bounded: allowed fields only, scalar values, strings of at
  most 2048 characters, and no empty entry.\<close>

lemma stored_evidence_is_bounded:
  assumes "append_update uuid eid c t = Inr (i, t')" "u \<in> set (tl_updates t')" "u \<notin> set (tl_updates t)"
    and "d \<in> set (up_evidence u)"
  shows "d \<noteq> [] \<and> (\<forall>(k, v) \<in> set d. k \<in> set EVIDENCE_ALLOWED_KEYS \<and> evidence_scalar v \<and>
    (\<forall>s. v = JStr s \<longrightarrow> py_len s \<le> 2048))"
proof -
  have "d \<in> set (sanitize_evidence (cd_evidence c))"
    using assms by (auto simp: append_update_def fresh_id_def Let_def update_record_def split: if_splits)
  from sanitize_evidence_entry [OF this] show ?thesis
    by (fastforce simp: evidence_value_ok_def MAX_EVIDENCE_STR_LEN_def)
qed

lemma stored_evidence_is_bounded_witness:
  "\<exists>t' i. append_update unary_id (unary_id 0)
      ((article ''A'')\<lparr>cd_evidence := [JObj [(''url'', JStr ''u''), (''body'', JStr ''full text'')], JNull]\<rparr>)
      (insert_event (unary_id 0) (article ''A'') empty_timeline) = Inr (i, t') \<and>
    up_evidence (tl_updates t' ! 0) = [[(''url'', JStr ''u'')]] \<and>
    (\<forall>(k, v) \<in> set [(''url'', JStr ''u'')]. k \<in> set EVIDENCE_ALLOWED_KEYS \<and> evidence_scalar v \<and>
      (\<forall>s. v = JStr s \<longrightarrow> py_len s \<le> 2048))"
proof -
  let ?t = "insert_event (unary_id 0) (article ''A'') empty_timeline"
  let ?run = "append_update unary_id (unary_id 0)
    ((article ''A'')\<lparr>cd_evidence := [JObj [(''url'', JStr ''u''), (''body'', JStr ''full text'')], JNull]\<rparr>) ?t"
  have "case ?run of Inr (i, t') \<Rightarrow> map up_evidence (tl_updates t') = [[[(''url'', JStr ''u'')]]] | _ \<Rightarrow> False"
    by code_simp
  then obtain i t' where run: "?run = Inr (i, t')" "map up_evidence (tl_updates t') = [[[(''url'', JStr ''u'')]]]"
    by (auto split: sum.splits)
  then obtain u where u: "tl_updates t' = [u]" "up_evidence u = [[(''url'', JStr ''u'')]]" by auto
  have "u \<notin> set (tl_updates ?t)" by (simp add: insert_event_def empty_timeline_def)
  from stored_evidence_is_bounded [OF run(1) _ this, of "[(''url'', JStr ''u'')]"] u run(1)
  show ?thesis by auto
qed

end
