(* ===== verification/Adjudication.thy ===== *)
theory Adjudication
  imports Clusters Timeline
begin

text \<open>
  The shadow judgement on semantic candidate links:
  \<open>backend/app/services/semantic_identity_adjudicator.py\<close>.

  The tables are the timeline and the judgements by link id. The cursor is the one by link id (the
  default); the cursor by creation time needs a column that the timeline does not hold. A score is a
  rational, rounded to four decimals half to even.
\<close>

definition ADJ_LIKELY_SAME :: string where "ADJ_LIKELY_SAME = ''likely_same_event''"
definition ADJ_AMBIGUOUS :: string where "ADJ_AMBIGUOUS = ''ambiguous''"
definition ADJ_LIKELY_DIFFERENT :: string where "ADJ_LIKELY_DIFFERENT = ''likely_different_event''"
definition ADJ_INSUFFICIENT :: string where "ADJ_INSUFFICIENT = ''insufficient_features''"
definition SEMANTIC_LINK_REASON :: string where "SEMANTIC_LINK_REASON = ''semantic_cross_batch_candidate''"
definition TITLE_SIM_HIGH :: rat where "TITLE_SIM_HIGH = 4 / 5"
definition DATE_NEAR_DAYS :: nat where "DATE_NEAR_DAYS = 1"
definition DATE_FAR_DAYS :: nat where "DATE_FAR_DAYS = 7"

lemmas adj_names = ADJ_LIKELY_SAME_def ADJ_AMBIGUOUS_def ADJ_LIKELY_DIFFERENT_def ADJ_INSUFFICIENT_def

definition KNOWN_SOURCE_TYPES :: "string list" where
  "KNOWN_SOURCE_TYPES = [''official'', ''article'', ''signal'', ''search'', ''community'', ''catalog'']"

record event_view =
  vw_event_id :: string
  vw_canonical_title :: string
  vw_first_seen_at :: "instant option"
  vw_source_types :: "string list"

record adjudication_features =
  af_candidate_event_id :: string
  af_existing_event_id :: string
  af_title_similarity :: rat
  af_date_distance_days :: "nat option"
  af_both_publishable :: bool
  af_source_type_compatible :: bool
  af_community_only :: bool
  af_market_only :: bool
  af_catalog_only :: bool
  af_unknown_present :: bool
  af_min_significant_tokens :: nat
  af_multiple_candidates :: bool
  af_evidence_count :: nat
  af_language_hint :: string

record adjudication_result =
  aj_link_id :: string
  aj_status :: string
  aj_score :: rat
  aj_reason :: string
  aj_features :: adjudication_features

record event_db =
  db_timeline :: timeline
  db_adjudications :: "(string, string \<times> rat \<times> string) dict" \<comment> \<open>status, score and reason by link\<close>

section \<open>One judgement\<close>

definition language_hint :: "string list \<Rightarrow> string" where
  "language_hint titles =
    (let has_hangul = list_ex (\<lambda>t. list_ex hangul (code_points t)) titles;
         has_latin = list_ex (\<lambda>t. list_ex (\<lambda>c. is_upper c \<or> is_lower c) t) titles
     in if has_hangul \<and> has_latin then ''mixed'' else if has_hangul then ''ko''
        else if has_latin then ''latin'' else ''unknown'')"

definition date_distance_days :: "instant option \<Rightarrow> instant option \<Rightarrow> nat option" where
  "date_distance_days a b = (case (a, b) of
      (Some x, Some y) \<Rightarrow> Some (nat \<bar>x div day_us - y div day_us\<bar>) | _ \<Rightarrow> None)"

definition only :: "string list \<Rightarrow> string \<Rightarrow> bool" where
  "only types kind \<longleftrightarrow> types \<noteq> [] \<and> list_all (\<lambda>t. t = kind) types"

definition build_adjudication_features :: "event_view \<Rightarrow> event_view \<Rightarrow> bool \<Rightarrow> adjudication_features" where
  "build_adjudication_features cand existing multiple =
    (let a = vw_source_types cand; b = vw_source_types existing;
         tok_a = title_tokens (Some (vw_canonical_title cand)); tok_b = title_tokens (Some (vw_canonical_title existing))
     in \<lparr>af_candidate_event_id = vw_event_id cand, af_existing_event_id = vw_event_id existing,
         af_title_similarity = jaccard tok_a tok_b,
         af_date_distance_days = date_distance_days (vw_first_seen_at cand) (vw_first_seen_at existing),
         af_both_publishable = (has_publishable a \<and> has_publishable b),
         af_source_type_compatible = (has_publishable a \<and> has_publishable b),
         af_community_only = (only a ''community'' \<or> only b ''community''),
         af_market_only = (only a ''signal'' \<or> only b ''signal''),
         af_catalog_only = (only a ''catalog'' \<or> only b ''catalog''),
         af_unknown_present = (list_ex (\<lambda>t. t \<notin> set KNOWN_SOURCE_TYPES) (a @ b) \<or> a = [] \<or> b = []),
         af_min_significant_tokens = min (length tok_a) (length tok_b),
         af_multiple_candidates = multiple, af_evidence_count = length a + length b,
         af_language_hint = language_hint [vw_canonical_title cand, vw_canonical_title existing]\<rparr>)"

definition classify_identity_candidate :: "adjudication_features \<Rightarrow> string \<times> rat \<times> string" where
  "classify_identity_candidate f =
    (if af_unknown_present f then (ADJ_INSUFFICIENT, 0, ''unknown_source_type_fail_closed'')
     else if \<not> af_both_publishable f \<or> af_community_only f \<or> af_market_only f \<or> af_catalog_only f then
       (ADJ_INSUFFICIENT, 0, ''non_publishable_role'')
     else if af_multiple_candidates f then (ADJ_AMBIGUOUS, 0, ''multiple_candidate_links'')
     else if af_title_similarity f \<le> 0 then (ADJ_INSUFFICIENT, 0, ''no_title_signal'')
     else if af_min_significant_tokens f < MIN_SEMANTIC_TOKENS then (ADJ_INSUFFICIENT, 0, ''generic_title'')
     else (case af_date_distance_days f of
         None \<Rightarrow> (ADJ_INSUFFICIENT, 0, ''no_date_signal'')
       | Some d \<Rightarrow>
         if DATE_FAR_DAYS < d then (ADJ_LIKELY_DIFFERENT, 0, ''far_date_distance'')
         else let score = round4 (af_title_similarity f * (if d \<le> DATE_NEAR_DAYS then 1 else 1 / 2)) in
           if TITLE_SIM_HIGH \<le> af_title_similarity f \<and> d \<le> DATE_NEAR_DAYS then
             (ADJ_LIKELY_SAME, score, ''high_sim_near_date_publishable'')
           else (ADJ_AMBIGUOUS, score, ''borderline'')))"

definition adjudicate :: "event_view \<Rightarrow> event_view \<Rightarrow> string \<Rightarrow> bool \<Rightarrow> adjudication_result" where
  "adjudicate cand existing link_id multiple =
    (let f = build_adjudication_features cand existing multiple; (status, score, reason) = classify_identity_candidate f
     in \<lparr>aj_link_id = link_id, aj_status = status, aj_score = score, aj_reason = reason, aj_features = f\<rparr>)"

section \<open>The pass over the links\<close>

definition load_event_view :: "timeline \<Rightarrow> string \<Rightarrow> event_view option" where
  "load_event_view t eid = map_option (\<lambda>e.
     \<lparr>vw_event_id = ev_id e, vw_canonical_title = ev_canonical_title e, vw_first_seen_at = Some (ev_first_seen_at e),
      vw_source_types = List.map_filter (\<lambda>node. case dict_get node ''source_type'' of
          Some (JStr s) \<Rightarrow> (if s \<noteq> [] then Some s else None) | _ \<Rightarrow> None)
        (concat (map up_evidence (filter (\<lambda>u. up_event_id u = eid) (tl_updates t))))\<rparr>) (event_by_id t eid)"

definition is_semantic_link :: "link_row \<Rightarrow> bool" where
  "is_semantic_link l \<longleftrightarrow> ln_status l = ''possible'' \<and> ln_reason l = Some SEMANTIC_LINK_REASON"

definition semantic_links :: "event_db \<Rightarrow> string option \<Rightarrow> bool \<Rightarrow> nat option \<Rightarrow> link_row list" where
  "semantic_links db after only_unadjudicated limit =
    (let ls = sort_key ln_id (filter (\<lambda>l. is_semantic_link l \<and>
           (case after of None \<Rightarrow> True | Some a \<Rightarrow> a < ln_id l) \<and>
           (only_unadjudicated \<longrightarrow> dict_get (db_adjudications db) (ln_id l) = None)) (tl_links (db_timeline db)))
     in case limit of None \<Rightarrow> ls | Some n \<Rightarrow> take n ls)"

definition candidate_target_count :: "timeline \<Rightarrow> string \<Rightarrow> nat" where
  "candidate_target_count t c =
     length (remdups (map ln_linked_event_id (filter (\<lambda>l. is_semantic_link l \<and> ln_event_id l = c) (tl_links t))))"

definition adjudicate_links :: "timeline \<Rightarrow> link_row list \<Rightarrow> adjudication_result list" where
  "adjudicate_links t ls = List.map_filter (\<lambda>l.
     case (load_event_view t (ln_event_id l), load_event_view t (ln_linked_event_id l)) of
       (Some cv, Some ev) \<Rightarrow>
         Some (adjudicate cv ev (ln_id l) (1 < candidate_target_count t (ln_event_id l)))
     | _ \<Rightarrow> None) ls"

definition persist_adjudication :: "adjudication_result \<Rightarrow> event_db \<Rightarrow> event_db" where
  "persist_adjudication r db = db\<lparr>db_adjudications :=
     dict_set (aj_link_id r) (aj_status r, aj_score r, aj_reason r) (db_adjudications db)\<rparr>"

definition adjudicate_semantic_links ::
  "bool \<Rightarrow> bool \<Rightarrow> nat option \<Rightarrow> string option \<Rightarrow> event_db \<Rightarrow> adjudication_result list \<times> event_db" where
  "adjudicate_semantic_links persist only_unadjudicated limit after db =
    (let rs = adjudicate_links (db_timeline db) (semantic_links db after only_unadjudicated limit)
     in (rs, if persist then foldl (\<lambda>d r. persist_adjudication r d) db rs else db))"

record adjudication_summary =
  as_total :: nat
  as_by_status :: "(string, nat) dict"
  as_by_language :: "(string, nat) dict"
  as_auto_merged :: nat

definition count_up :: "string \<Rightarrow> (string, nat) dict \<Rightarrow> (string, nat) dict" where
  "count_up k d = dict_set k (get_or d k 0 + 1) d"

definition summarize_adjudication :: "adjudication_result list \<Rightarrow> adjudication_summary" where
  "summarize_adjudication rs =
     \<lparr>as_total = length rs,
      as_by_status = foldl (\<lambda>d r. count_up (aj_status r) d)
        [(ADJ_LIKELY_SAME, 0), (ADJ_AMBIGUOUS, 0), (ADJ_LIKELY_DIFFERENT, 0), (ADJ_INSUFFICIENT, 0)] rs,
      as_by_language = foldl (\<lambda>d r. count_up (af_language_hint (aj_features r)) d) [] rs, as_auto_merged = 0\<rparr>"

definition generate_shadow_adjudication_report :: "bool \<Rightarrow> event_db \<Rightarrow> adjudication_summary \<times> event_db" where
  "generate_shadow_adjudication_report persist db =
    (let (rs, db') = adjudicate_semantic_links persist False None None db in (summarize_adjudication rs, db'))"

section \<open>Correctness\<close>

lemma persist_keeps_timeline: "db_timeline (foldl (\<lambda>d r. persist_adjudication r d) db rs) = db_timeline db"
  by (induction rs arbitrary: db) (simp_all add: persist_adjudication_def)

lemma adjudicate_keeps_timeline:
  "adjudicate_semantic_links persist only_new limit after db = (rs, db') \<Longrightarrow> db_timeline db' = db_timeline db"
  by (auto simp: adjudicate_semantic_links_def Let_def persist_keeps_timeline split: if_splits)

lemma adjudicate_links_mem: "r \<in> set (adjudicate_links t ls) \<Longrightarrow> \<exists>cv ev i m. r = adjudicate cv ev i m"
  by (force simp: adjudicate_links_def map_filter_mem option.case_eq_if split: if_splits)

lemma persisted_links:
  "dict_get (db_adjudications (foldl (\<lambda>d r. persist_adjudication r d) db rs)) k \<noteq> None \<longleftrightarrow>
    dict_get (db_adjudications db) k \<noteq> None \<or> k \<in> aj_link_id ` set rs"
  by (induction rs arbitrary: db) (auto simp: persist_adjudication_def)


text \<open>Two stories of one day, linked as a semantic candidate.\<close>

definition story_event :: "string \<Rightarrow> string \<Rightarrow> event_row" where
  "story_event i title = \<lparr>ev_id = i, ev_canonical_title = title, ev_status = ''active'', ev_first_seen_at = 0,
     ev_last_update_at = 0, ev_heat = 0, ev_domains = [], ev_tags = [], ev_primary_entity_ids = [],
     ev_snapshot_card_id = None\<rparr>"

definition story_update :: "string \<Rightarrow> update_row" where
  "story_update eid = \<lparr>up_id = ''u'' @ eid, up_event_id = eid, up_observed_at = 0, up_delta_summary = [],
     up_evidence = [[(''source_type'', JStr ''article'')]], up_added_domains = [], up_source_refs = [],
     up_heat_delta = 0\<rparr>"

definition story_db :: event_db where
  "story_db = \<lparr>db_timeline = empty_timeline
      \<lparr>tl_events := [story_event ''1'' ''alpha beta gamma delta'', story_event ''2'' ''delta gamma beta alpha''],
       tl_updates := [story_update ''1'', story_update ''2''],
       tl_links := [\<lparr>ln_id = ''l'', ln_event_id = ''1'', ln_linked_event_id = ''2'', ln_status = ''possible'',
         ln_reason = Some SEMANTIC_LINK_REASON\<rparr>]\<rparr>, db_adjudications = []\<rparr>"


end
