(* ===== verification/Event_Ingest.thy ===== *)
theory Event_Ingest
  imports Adjudication
begin

text \<open>
  From a batch of records to the timeline:
  \<open>backend/app/services/event_ingest_pipeline.py\<close>. It composes the clusters, the routing of
  clusters to events and the shadow judgement.

  The Korean texts of the change summaries are given by code points. Only the part of
  \<open>urlparse\<close> that the pipeline reads is modelled: the network location, with the error for
  unbalanced brackets. \<^term>\<open>None\<close> as a result stands for a run that does not return.
\<close>

section \<open>Texts\<close>

definition KO_NEWS :: string where
  "KO_NEWS = utf8 [45684, 49828]"

definition KO_OFFICIAL :: string where
  "KO_OFFICIAL = utf8 [44277, 49885]"

definition KO_SIGNAL :: string where
  "KO_SIGNAL = utf8 [44396, 51312, 54868, 32, 51648, 54364]"

definition KO_SEARCH :: string where
  "KO_SEARCH = utf8 [44160, 49353]"

definition KO_COMMUNITY :: string where
  "KO_COMMUNITY = utf8 [52964, 48036, 45768, 54000]"

definition KO_CATALOG :: string where
  "KO_CATALOG = utf8 [52852, 53448, 47196, 44536]"

definition KO_STRONG_1 :: string where
  "KO_STRONG_1 = utf8 [49436, 47196, 32, 45796, 47480, 32]"

definition KO_STRONG_2 :: string where
  "KO_STRONG_2 = utf8 [52636, 52376, 32]"

definition KO_STRONG_3 :: string where
  "KO_STRONG_3 = utf8 [44275, 51060, 32, 46041, 51068, 32, 49885, 48324, 51088, 47196, 32, 44057, 51008, 32,
     49324, 44148, 51012, 32, 48372, 46020, 54664, 49845, 45768, 45796, 46]"

definition KO_SAME :: string where
  "KO_SAME = utf8 [48372, 46020, 44032, 32, 46041, 51068, 32, 49885, 48324, 51088, 47196, 32, 54869,
     51064, 46108, 32, 49324, 44148, 51077, 45768, 45796, 46]"

definition KO_WEAK_1 :: string where
  "KO_WEAK_1 = utf8 [50976, 49324, 54620, 32, 51228, 47785, 183, 44057, 51008, 32, 49884, 51216, 51032, 32]"

definition KO_WEAK_2 :: string where
  "KO_WEAK_2 = utf8 [48372, 46020, 32]"

definition KO_WEAK_3 :: string where
  "KO_WEAK_3 = utf8 [44148, 51060, 32, 44057, 51008, 32, 49324, 44148, 51004, 47196, 32, 52628, 51221,
     46121, 45768, 45796, 40, 51088, 46041, 32, 48337, 54633, 32, 51204, 32, 44368, 52264, 32,
     44160, 53664, 41, 46]"

definition KO_OTHER_1 :: string where
  "KO_OTHER_1 = utf8 [44368, 52264, 32, 52636, 52376, 32, 49888, 54840, 47196, 32, 47926, 51064, 32]"

definition KO_OTHER_2 :: string where
  "KO_OTHER_2 = utf8 [49324, 44148, 51077, 45768, 45796, 40, 52636, 52376, 32]"

definition KO_OTHER_3 :: string where
  "KO_OTHER_3 = utf8 [44148, 41, 46]"

definition SOURCE_KIND_KO :: "(string, string) dict" where
  "SOURCE_KIND_KO = [(''article_candidate'', KO_NEWS), (''official_record'', KO_OFFICIAL),
     (''structured_signal'', KO_SIGNAL), (''search_result'', KO_SEARCH), (''community_signal'', KO_COMMUNITY),
     (''catalog_metadata'', KO_CATALOG)]"

definition build_delta_summary :: "string \<Rightarrow> nat \<Rightarrow> string option \<Rightarrow> string" where
  "build_delta_summary confidence member_count record_type =
    (let n = max member_count 1;
         kind = get_or SOURCE_KIND_KO (or_str record_type []) [];
         prefix = (if kind \<noteq> [] then kind @ '' '' else [])
     in if confidence = ''duplicate'' then
          (if 2 \<le> n then KO_STRONG_1 @ prefix @ KO_STRONG_2 @ nat_str n @ KO_STRONG_3 else prefix @ KO_SAME)
        else if confidence = ''possible_duplicate'' then KO_WEAK_1 @ prefix @ KO_WEAK_2 @ nat_str n @ KO_WEAK_3
        else KO_OTHER_1 @ prefix @ KO_OTHER_2 @ nat_str n @ KO_OTHER_3)"

section \<open>Candidates\<close>

definition RECORD_TYPE_TO_SOURCE_TYPE :: "(string, string) dict" where
  "RECORD_TYPE_TO_SOURCE_TYPE = [(''article_candidate'', ''article''), (''official_record'', ''official''),
     (''structured_signal'', ''signal''), (''search_result'', ''search''), (''community_signal'', ''community''),
     (''catalog_metadata'', ''catalog'')]"

definition MAX_TITLE_LEN :: nat where "MAX_TITLE_LEN = 512"

definition IDENTITY_ANCHOR_SOURCE_TYPES :: "string list" where
  "IDENTITY_ANCHOR_SOURCE_TYPES = [''official'', ''article'']"

definition SOURCE_TYPE_AUTHORITY :: "(string, nat) dict" where
  "SOURCE_TYPE_AUTHORITY = [(''official'', 5), (''article'', 4), (''signal'', 3), (''search'', 2), (''community'', 1)]"

definition source_type_of :: "common_record \<Rightarrow> string option" where
  "source_type_of r = (case cr_record_type r of None \<Rightarrow> None | Some t \<Rightarrow> dict_get RECORD_TYPE_TO_SOURCE_TYPE t)"

definition source_type_or_rss :: "common_record \<Rightarrow> string" where
  "source_type_or_rss r = (case source_type_of r of None \<Rightarrow> ''rss'' | Some t \<Rightarrow> t)"

definition authority_of :: "common_record \<Rightarrow> nat" where
  "authority_of r = get_or SOURCE_TYPE_AUTHORITY (source_type_or_rss r) 0"

type_synonym record_index = "(string, common_record) dict"

definition build_record_index ::
  "(string \<Rightarrow> string) \<Rightarrow> (string \<Rightarrow> datetime option) \<Rightarrow> common_record list \<Rightarrow> record_index" where
  "build_record_index digest parsedate rs = foldl (\<lambda>ix r. case key_of digest parsedate r of
     None \<Rightarrow> ix | Some k \<Rightarrow> if k \<noteq> [] then insert_new k r ix else ix) [] rs"

text \<open>\<open>max(items, key=...)\<close>: the first greatest item.\<close>

definition first_max :: "('a \<Rightarrow> 'k::linorder) \<Rightarrow> 'a list \<Rightarrow> 'a" where
  "first_max key xs = foldl (\<lambda>m x. if key m < key x then x else m) (hd xs) (tl xs)"

definition select_primary_by_authority :: "string list \<Rightarrow> record_index \<Rightarrow> string option" where
  "select_primary_by_authority members ix =
    (let present = filter (\<lambda>m. dict_get ix m \<noteq> None) members in
     if present = [] then None else Some (first_max (\<lambda>m. authority_of (the (dict_get ix m))) present))"

definition parse_observed :: "string option \<Rightarrow> datetime \<Rightarrow> datetime" where
  "parse_observed raw now = (case raw of None \<Rightarrow> now | Some s \<Rightarrow>
     if strip s = [] then now
     else case fromisoformat (py_replace ''Z'' ''+00:00'' (strip s)) of None \<Rightarrow> now | Some d \<Rightarrow> assume_utc d)"

definition url_netloc :: "string \<Rightarrow> string res" where
  "url_netloc u = (let rest = drop 2 (dropWhile (\<lambda>c. c \<noteq> CHR ''/'') u);
       loc = takeWhile (\<lambda>c. c \<notin> {CHR ''/'', CHR ''?'', CHR ''#''}) rest in
     if (CHR ''['' \<in> set loc) \<noteq> (CHR '']'' \<in> set loc) then Inl (ValueError ''Invalid IPv6 URL'') else Inr loc)"

fun domain_of_urls :: "string option list \<Rightarrow> string option res" where
  "domain_of_urls [] = Inr None"
| "domain_of_urls (u # us) = (case u of None \<Rightarrow> domain_of_urls us | Some s \<Rightarrow>
     if \<not> is_http s then domain_of_urls us
     else bind_res (url_netloc s) (\<lambda>loc.
       if lower loc = [] then domain_of_urls us
       else Inr (Some (if startswith (lower loc) ''www.'' then drop 4 (lower loc) else lower loc))))"

definition domain_of :: "common_record \<Rightarrow> string option res" where
  "domain_of r = domain_of_urls [cr_canonical_url r, cr_source_url_or_evidence r]"

definition core_members :: "cross_source_result \<Rightarrow> string list" where
  "core_members c =
    (let distinct_members = uniq (xs_duplicate_group c);
         core = (if xs_confidence c = XC_DUPLICATE
                 then filter (\<lambda>m. m \<notin> set (xs_weak_only_members c)) distinct_members else distinct_members)
     in if core \<noteq> [] then core else distinct_members)"

definition evidence_of :: "record_index \<Rightarrow> string \<Rightarrow> string \<Rightarrow> json option" where
  "evidence_of ix primary m = (case dict_get ix m of None \<Rightarrow> None | Some r \<Rightarrow>
     let url = or_opt (cr_canonical_url r) (external_url r) in
     Some (JObj ([(''source_type'', JStr (source_type_or_rss r)),
        (''relation'', JStr (if m = primary then ''primary'' else ''corroborates''))] @
       (case url of Some u \<Rightarrow> if is_http u then [(''url'', JStr u)] else [] | None \<Rightarrow> []))))"

definition is_anchor :: "record_index \<Rightarrow> string \<Rightarrow> bool" where
  "is_anchor ix m = (case dict_get ix m of None \<Rightarrow> False | Some r \<Rightarrow>
     (case source_type_of r of None \<Rightarrow> False | Some t \<Rightarrow> t \<in> set IDENTITY_ANCHOR_SOURCE_TYPES))"

definition identity_keys_of :: "record_index \<Rightarrow> string list \<Rightarrow> string list" where
  "identity_keys_of ix core = filter (\<lambda>m. is_anchor ix m \<and>
     (case dict_get ix m of None \<Rightarrow> False
      | Some r \<Rightarrow> truthy (cr_canonical_url r) \<or> truthy (official_id (external_url r)))) core"

definition fingerprints_of ::
  "(string \<Rightarrow> string) \<Rightarrow> (string \<Rightarrow> datetime option) \<Rightarrow> record_index \<Rightarrow> string list \<Rightarrow> string list" where
  "fingerprints_of digest parsedate ix core = uniq (List.map_filter (\<lambda>m.
     if is_anchor ix m then (case dict_get ix m of None \<Rightarrow> None
       | Some r \<Rightarrow> semantic_identity_fingerprint digest parsedate (cr_title_or_label r) (cr_published_at_or_observed_at r))
     else None) core)"

definition candidate_from_cluster ::
  "(string \<Rightarrow> string) \<Rightarrow> (string \<Rightarrow> datetime option) \<Rightarrow> cross_source_result \<Rightarrow> record_index \<Rightarrow> datetime
   \<Rightarrow> candidate res" where
  "candidate_from_cluster digest parsedate c ix now =
    (let members = uniq (xs_duplicate_group c); core = core_members c;
         primary_key = or_str (select_primary_by_authority core ix) (xs_primary_record_key c);
         primary = dict_get ix primary_key;
         field = (\<lambda>f. case primary of None \<Rightarrow> None | Some r \<Rightarrow> f r)
     in bind_res (case primary of None \<Rightarrow> Inr None | Some r \<Rightarrow> domain_of r) (\<lambda>domain.
       let domains = (if truthy domain then [the domain] else []) in
       Inr \<lparr>cd_canonical_title = py_take MAX_TITLE_LEN (or_str (field cr_title_or_label) (''event:'' @ xs_cluster_id c)),
         cd_observed_at = parse_observed (field cr_published_at_or_observed_at) now,
         cd_delta_summary = build_delta_summary (xs_confidence c) (length members) (field cr_record_type),
         cd_domains = domains,
         cd_tags = (if truthy (field cr_record_type) then [the (field cr_record_type)] else []),
         cd_primary_entity_ids = [],
         cd_evidence = List.map_filter (evidence_of ix primary_key) members,
         cd_added_domains = domains,
         cd_source_refs = xs_cluster_id c # members,
         cd_heat_delta = 0,
         cd_primary_member_key = Some primary_key,
         cd_core_source_types = List.map_filter (\<lambda>m. map_option source_type_or_rss (dict_get ix m)) core,
         cd_identity_keys = identity_keys_of ix core,
         cd_semantic_fingerprints = fingerprints_of digest parsedate ix core\<rparr>))"

section \<open>The batch\<close>

record ingest_summary =
  is_enabled :: bool
  is_clusters_total :: nat
  is_created :: nat
  is_appended :: nat
  is_held :: nat
  is_held_member_links :: nat
  is_withheld_source_type :: nat
  is_failed :: nat
  is_skipped_no_primary :: nat
  is_singletons_dropped :: nat
  is_adjudications :: nat
  is_event_ids :: "string list"
  is_failures :: "(string \<times> string) list"

definition new_summary :: "bool \<Rightarrow> ingest_summary" where
  "new_summary enabled = \<lparr>is_enabled = enabled, is_clusters_total = 0, is_created = 0, is_appended = 0, is_held = 0,
     is_held_member_links = 0, is_withheld_source_type = 0, is_failed = 0, is_skipped_no_primary = 0,
     is_singletons_dropped = 0, is_adjudications = 0, is_event_ids = [], is_failures = []\<rparr>"

definition tally :: "apply_result \<Rightarrow> ingest_summary \<Rightarrow> ingest_summary" where
  "tally r s =
    (let s1 = (case ar_event_id r of Some e \<Rightarrow> s\<lparr>is_event_ids := is_event_ids s @ [e]\<rparr> | None \<Rightarrow> s);
         s2 = (if ar_action r = ACTION_CREATE then s1\<lparr>is_created := is_created s1 + 1\<rparr>
               else if ar_action r = ACTION_APPEND then s1\<lparr>is_appended := is_appended s1 + 1\<rparr>
               else if ar_action r = ACTION_HOLD then s1\<lparr>is_held := is_held s1 + 1\<rparr>
               else if ar_action r = ACTION_WITHHELD then
                 s1\<lparr>is_withheld_source_type := is_withheld_source_type s1 + 1\<rparr>
               else s1)
     in s2\<lparr>is_held_member_links := is_held_member_links s2 + length (ar_link_ids r)\<rparr>)"

definition to_cluster :: "cross_source_result \<Rightarrow> cluster" where
  "to_cluster c = \<lparr>cl_cluster_id = xs_cluster_id c, cl_confidence = xs_confidence c, cl_clique_ok = xs_clique_ok c,
     cl_duplicate_group = xs_duplicate_group c, cl_weak_only_members = xs_weak_only_members c\<rparr>"

definition title_matcher :: "string \<Rightarrow> string \<Rightarrow> bool" where
  "title_matcher a b = titles_similar (Some a) (Some b) TITLE_JACCARD_THRESHOLD"

definition fail_cluster :: "string \<Rightarrow> py_exn \<Rightarrow> ingest_summary \<Rightarrow> ingest_summary" where
  "fail_cluster cid e s = s\<lparr>is_failed := is_failed s + 1, is_failures := is_failures s @ [(cid, exn_name e)]\<rparr>"

definition ingest_cluster ::
  "(nat \<Rightarrow> string) \<Rightarrow> (timeline \<Rightarrow> timeline) \<Rightarrow> (string \<Rightarrow> string) \<Rightarrow> (string \<Rightarrow> datetime option) \<Rightarrow> record_index
   \<Rightarrow> datetime \<Rightarrow> cross_source_result \<Rightarrow> ingest_summary \<times> timeline \<Rightarrow> ingest_summary \<times> timeline" where
  "ingest_cluster uuid rival digest parsedate ix now c st = (case st of (s, t) \<Rightarrow>
     if dict_get ix (xs_primary_record_key c) = None then
       (s\<lparr>is_skipped_no_primary := is_skipped_no_primary s + 1\<rparr>, t)
     else case bind_act (lift_res (candidate_from_cluster digest parsedate c ix now)) (\<lambda>cand.
          resolve_and_apply_cluster uuid rival (Some title_matcher) (to_cluster c) cand) t of
       (Inl e, t') \<Rightarrow> (fail_cluster (xs_cluster_id c) e s, t')
     | (Inr r, t') \<Rightarrow> (tally r s, t'))"

definition ingest_records_to_events ::
  "(nat \<Rightarrow> string) \<Rightarrow> (timeline \<Rightarrow> timeline) \<Rightarrow> (string \<Rightarrow> string) \<Rightarrow> (string \<Rightarrow> datetime option)
   \<Rightarrow> bool \<Rightarrow> bool \<Rightarrow> datetime \<Rightarrow> common_record list \<Rightarrow> event_db \<Rightarrow> (ingest_summary \<times> event_db) option" where
  "ingest_records_to_events uuid rival digest parsedate enabled adjudicate_flag now rs db =
    (if \<not> enabled then Some (new_summary False, db)
     else Option.bind (cluster_records digest parsedate rs) (\<lambda>clusters.
       let ix = build_record_index digest parsedate rs;
           clustered = concat (map xs_duplicate_group clusters);
           s0 = (new_summary True)\<lparr>is_clusters_total := length clusters,
             is_singletons_dropped := length (filter (\<lambda>k. k \<notin> set clustered) (map fst ix))\<rparr>;
           (s, t) = foldl (\<lambda>st c. ingest_cluster uuid rival digest parsedate ix now c st) (s0, db_timeline db) clusters;
           db1 = db\<lparr>db_timeline := t\<rparr>
       in if adjudicate_flag then
            (case adjudicate_semantic_links True True None None db1 of
              (results, db2) \<Rightarrow> Some (s\<lparr>is_adjudications := length results\<rparr>, db2))
          else Some (s, db1)))"

section \<open>Correctness\<close>

definition accounted :: "ingest_summary \<Rightarrow> nat" where
  "accounted s = is_created s + is_appended s + is_held s + is_withheld_source_type s + is_failed s + is_skipped_no_primary s"

lemma tally_fields [simp]:
  "is_failures (tally r s) = is_failures s" "is_clusters_total (tally r s) = is_clusters_total s"
  "is_created (tally r s) = is_created s + (if ar_action r = ACTION_CREATE then 1 else 0)"
  by (auto simp: tally_def Let_def split: option.split)

lemma tally_accounted:
  "ar_action r \<in> {ACTION_CREATE, ACTION_APPEND, ACTION_HOLD, ACTION_WITHHELD} \<Longrightarrow> accounted (tally r s) = accounted s + 1"
  by (auto simp: tally_def accounted_def Let_def split: option.split)

lemma domain_error: "domain_of_urls us = Inl e \<Longrightarrow> exn_name e = ''ValueError''"
  by (induction us) (auto simp: url_netloc_def bind_res_def exn_name_def Let_def split: option.splits if_splits sum.splits)

lemma candidate_error:
  "candidate_from_cluster digest parsedate c ix now = Inl e \<Longrightarrow> exn_name e = ''ValueError''"
  by (auto simp: candidate_from_cluster_def Let_def bind_res_def domain_of_def simp del: domain_of_urls.simps
      split: option.splits sum.splits dest: domain_error)

lemma routing_actions: "dc_action (routing_of t m cl c) \<in> {ACTION_CREATE, ACTION_APPEND, ACTION_HOLD, ACTION_WITHHELD}"
  by (cases "mapped_target t m cl c") (use resolve_routing_action in \<open>fastforce simp: routing_of_def\<close>)+

text \<open>One cluster: counted once, the tables stay consistent, and only a malformed URL fails it.\<close>

lemma ingest_cluster_ok:
  assumes "inj uuid" "rival_ok uuid rival" "tl_ok uuid t"
    and run: "ingest_cluster uuid rival digest parsedate ix now c (s, t) = (s', t')"
  shows "tl_ok uuid t'" "accounted s' = accounted s + 1" "is_clusters_total s' = is_clusters_total s"
    "set (is_failures s') \<subseteq> set (is_failures s) \<union> {(xs_cluster_id c, ''ValueError'')}"
    "(\<And>cand. candidate_from_cluster digest parsedate c ix now = Inr cand \<Longrightarrow> \<not> has_publishable (member_source_types cand)) \<Longrightarrow>
      is_created s' = is_created s"
proof -
  consider (skip) "dict_get ix (xs_primary_record_key c) = None"
    | (bad) e p where "dict_get ix (xs_primary_record_key c) = Some p" "candidate_from_cluster digest parsedate c ix now = Inl e"
    | (good) cand p where "dict_get ix (xs_primary_record_key c) = Some p"
        "candidate_from_cluster digest parsedate c ix now = Inr cand"
    by (cases "candidate_from_cluster digest parsedate c ix now") auto
  then have "tl_ok uuid t' \<and> accounted s' = accounted s + 1 \<and> is_clusters_total s' = is_clusters_total s \<and>
    set (is_failures s') \<subseteq> set (is_failures s) \<union> {(xs_cluster_id c, ''ValueError'')} \<and>
    ((\<forall>cand. candidate_from_cluster digest parsedate c ix now = Inr cand \<longrightarrow> \<not> has_publishable (member_source_types cand)) \<longrightarrow>
      is_created s' = is_created s)"
  proof cases
    case skip
    then show ?thesis using run assms(3) by (auto simp: ingest_cluster_def accounted_def)
  next
    case bad
    then have "s' = fail_cluster (xs_cluster_id c) e s" "t' = t"
      using run by (simp_all add: ingest_cluster_def bind_act_def)
    then show ?thesis using candidate_error [OF bad(2)] assms(3) by (simp add: fail_cluster_def accounted_def)
  next
    case good
    let ?d = "routing_of t (Some title_matcher) (to_cluster c) cand"
    obtain r t1 where r: "resolve_and_apply_cluster uuid rival (Some title_matcher) (to_cluster c) cand t = (Inr r, t1)"
      "tl_ok uuid t1" "ar_action r = dc_action ?d"
      using resolve_cluster_ok [OF assms(1-3) refl, of "Some title_matcher" "to_cluster c" cand] by blast
    then have s': "s' = tally r s" "t' = t1"
      using run good by (simp_all add: ingest_cluster_def bind_act_def)
    have "ar_action r \<noteq> ACTION_CREATE" if "\<not> has_publishable (member_source_types cand)"
      using that unfolding r(3) routing_of_def resolve_routing_def by (auto simp: Let_def split: option.split)
    then show ?thesis
      using s' r(2) tally_accounted [of r s] routing_actions [of t _ _ cand] good(2) by (auto simp: r(3))
  qed
  then show "tl_ok uuid t'" "accounted s' = accounted s + 1" "is_clusters_total s' = is_clusters_total s"
    "set (is_failures s') \<subseteq> set (is_failures s) \<union> {(xs_cluster_id c, ''ValueError'')}"
    "(\<And>cand. candidate_from_cluster digest parsedate c ix now = Inr cand \<Longrightarrow> \<not> has_publishable (member_source_types cand)) \<Longrightarrow>
      is_created s' = is_created s"
    by auto
qed

lemma ingest_all_ok:
  assumes "inj uuid" "rival_ok uuid rival" "tl_ok uuid t"
    and "foldl (\<lambda>st c. ingest_cluster uuid rival digest parsedate ix now c st) (s, t) cs = (s', t')"
  shows "tl_ok uuid t' \<and> accounted s' = accounted s + length cs \<and> is_clusters_total s' = is_clusters_total s \<and>
    snd ` set (is_failures s') \<subseteq> snd ` set (is_failures s) \<union> {''ValueError''} \<and>
    ((\<forall>c cand. candidate_from_cluster digest parsedate c ix now = Inr cand \<longrightarrow>
        \<not> has_publishable (member_source_types cand)) \<longrightarrow> is_created s' = is_created s)"
  using assms(3,4)
proof (induction cs arbitrary: s t)
  case Nil
  then show ?case by auto
next
  case (Cons c cs)
  obtain s1 t1 where 1: "ingest_cluster uuid rival digest parsedate ix now c (s, t) = (s1, t1)"
    by (cases "ingest_cluster uuid rival digest parsedate ix now c (s, t)")
  note one = ingest_cluster_ok [OF assms(1,2) Cons.prems(1) 1]
  have "foldl (\<lambda>st c. ingest_cluster uuid rival digest parsedate ix now c st) (s1, t1) cs = (s', t')"
    using Cons.prems(2) 1 by simp
  note rest = Cons.IH [OF one(1) this]
  note r = conjunct1 [OF rest] conjunct1 [OF conjunct2 [OF rest]] conjunct1 [OF conjunct2 [OF conjunct2 [OF rest]]]
    conjunct1 [OF conjunct2 [OF conjunct2 [OF conjunct2 [OF rest]]]]
    conjunct2 [OF conjunct2 [OF conjunct2 [OF conjunct2 [OF rest]]]]
  have "snd ` set (is_failures s1) \<subseteq> snd ` set (is_failures s) \<union> {''ValueError''}"
    using image_mono [OF one(4), of snd] by (simp add: image_Un)
  then have "snd ` set (is_failures s') \<subseteq> snd ` set (is_failures s) \<union> {''ValueError''}" using r(4) by blast
  moreover have "is_created s' = is_created s"
    if c: "\<forall>c cand. candidate_from_cluster digest parsedate c ix now = Inr cand \<longrightarrow> \<not> has_publishable (member_source_types cand)"
    using mp [OF r(5) c] one(5) c by simp
  ultimately show ?case using r(1-3) one(2,3) by simp
qed

text \<open>The record types of a candidate are those of the batch.\<close>

lemma build_index_records:
  "dict_get (build_record_index digest parsedate rs) k = Some r \<Longrightarrow> r \<in> set rs"
proof -
  have "dict_get (foldl (\<lambda>ix r. case key_of digest parsedate r of
      None \<Rightarrow> ix | Some k \<Rightarrow> if k \<noteq> [] then insert_new k r ix else ix) ix rs) k = Some r \<Longrightarrow>
    r \<in> set rs \<or> dict_get ix k = Some r" for ix
  proof (induction rs arbitrary: ix)
    case (Cons x rs)
    from Cons.IH [of "case key_of digest parsedate x of None \<Rightarrow> ix
        | Some k \<Rightarrow> if k \<noteq> [] then insert_new k x ix else ix"] Cons.prems
    show ?case by (auto simp: insert_new_def split: option.splits if_splits)
  qed simp
  then show "dict_get (build_record_index digest parsedate rs) k = Some r \<Longrightarrow> r \<in> set rs"
    by (fastforce simp: build_record_index_def)
qed

lemma publishable_type:
  "source_type_or_rss r \<in> set PUBLISHABLE_SOURCE_TYPES \<longleftrightarrow>
    cr_record_type r \<in> {Some ''official_record'', Some ''article_candidate''}"
  by (auto simp: source_type_or_rss_def source_type_of_def RECORD_TYPE_TO_SOURCE_TYPE_def PUBLISHABLE_SOURCE_TYPES_def
      split: option.split)

lemma evidence_source_type:
  "evidence_of ix p m = Some e \<Longrightarrow>
    \<exists>r. dict_get ix m = Some r \<and> dict_get (obj_of e) ''source_type'' = Some (JStr (source_type_or_rss r))"
  by (auto simp: evidence_of_def obj_of_def Let_def split: option.splits)

definition evidence_type :: "json \<Rightarrow> string option" where
  "evidence_type e = (case dict_get (obj_of e) ''source_type'' of
     Some (JStr s) \<Rightarrow> (if s \<noteq> [] then Some s else None) | _ \<Rightarrow> None)"

lemma candidate_types:
  assumes "candidate_from_cluster digest parsedate c ix now = Inr cand" "st \<in> set (member_source_types cand)"
  shows "\<exists>k r. dict_get ix k = Some r \<and> st = source_type_or_rss r"
proof -
  obtain p where ev: "cd_evidence cand = List.map_filter (evidence_of ix p) (uniq (xs_duplicate_group c))"
    and core: "cd_core_source_types cand = List.map_filter (\<lambda>m. map_option source_type_or_rss (dict_get ix m)) (core_members c)"
    using assms(1) by (auto simp: candidate_from_cluster_def Let_def bind_res_Inr_iff)
  show ?thesis
  proof (cases "cd_core_source_types cand = []")
    case False
    then show ?thesis using assms(2) core by (auto simp: member_source_types_def map_filter_mem)
  next
    case True
    then obtain e where e: "e \<in> set (cd_evidence cand)" "evidence_type e = Some st"
      using assms(2) by (auto simp: member_source_types_def map_filter_mem evidence_type_def)
    then obtain m where "evidence_of ix p m = Some e" unfolding ev map_filter_mem by blast
    from evidence_source_type [OF this] obtain r where r: "dict_get ix m = Some r"
      "dict_get (obj_of e) ''source_type'' = Some (JStr (source_type_or_rss r))" by blast
    then have "st = source_type_or_rss r" using e(2) by (simp add: evidence_type_def split: if_splits)
    with r(1) show ?thesis by blast
  qed
qed

definition story_start :: event_db where
  "story_start = \<lparr>db_timeline = empty_timeline, db_adjudications = []\<rparr>"

lemma ingest_run:
  assumes "inj uuid" "rival_ok uuid rival" "tl_ok uuid (db_timeline db)"
  shows "\<exists>s db'. ingest_records_to_events uuid rival digest parsedate True adjudicate_flag now rs db = Some (s, db') \<and>
    tl_ok uuid (db_timeline db') \<and> accounted s = is_clusters_total s \<and>
    snd ` set (is_failures s) \<subseteq> {''ValueError''} \<and>
    ((\<forall>c cand. candidate_from_cluster digest parsedate c (build_record_index digest parsedate rs) now = Inr cand \<longrightarrow>
        \<not> has_publishable (member_source_types cand)) \<longrightarrow> is_created s = 0)"
proof -
  obtain cs where cs: "cluster_records digest parsedate rs = Some cs"
    using cluster_records_returns by blast
  let ?ix = "build_record_index digest parsedate rs"
  define s0 where "s0 = (new_summary True)\<lparr>is_clusters_total := length cs,
    is_singletons_dropped := length (filter (\<lambda>k. k \<notin> set (concat (map xs_duplicate_group cs))) (map fst ?ix))\<rparr>"
  obtain s t where st: "foldl (\<lambda>st c. ingest_cluster uuid rival digest parsedate ?ix now c st) (s0, db_timeline db) cs = (s, t)"
    by (cases "foldl (\<lambda>st c. ingest_cluster uuid rival digest parsedate ?ix now c st) (s0, db_timeline db) cs")
  note all = ingest_all_ok [OF assms st]
  have s0: "accounted s0 = 0" "is_clusters_total s0 = length cs" "is_failures s0 = []" "is_created s0 = 0"
    by (simp_all add: s0_def new_summary_def accounted_def)
  obtain rs2 db2 where adj: "adjudicate_semantic_links True True None None (db\<lparr>db_timeline := t\<rparr>) = (rs2, db2)"
    by (cases "adjudicate_semantic_links True True None None (db\<lparr>db_timeline := t\<rparr>)")
  have run: "ingest_records_to_events uuid rival digest parsedate True adjudicate_flag now rs db =
      Some (if adjudicate_flag then (s\<lparr>is_adjudications := length rs2\<rparr>, db2) else (s, db\<lparr>db_timeline := t\<rparr>))"
    unfolding ingest_records_to_events_def cs using st [unfolded s0_def] adj by (simp add: Let_def)
  have "db_timeline db2 = t" using adjudicate_keeps_timeline [OF adj] by simp
  then show ?thesis
    using all s0 unfolding run by (cases adjudicate_flag) (simp_all add: accounted_def)
qed

text \<open>C11: ingesting a batch returns, keeps the tables consistent and accounts for every cluster: each is
  created, appended, held, withheld, skipped or failed, and it fails only for a malformed URL.\<close>

theorem ingest_accounts_for_every_cluster:
  assumes "inj uuid" "rival_ok uuid rival" "tl_ok uuid (db_timeline db)"
  shows "\<exists>s db'. ingest_records_to_events uuid rival digest parsedate True adjudicate_flag now rs db = Some (s, db') \<and>
    tl_ok uuid (db_timeline db') \<and>
    is_clusters_total s = is_created s + is_appended s + is_held s + is_withheld_source_type s + is_failed s +
      is_skipped_no_primary s \<and>
    snd ` set (is_failures s) \<subseteq> {''ValueError''}"
  using ingest_run [OF assms, of digest parsedate adjudicate_flag now rs] by (auto simp: accounted_def)

lemma ingest_accounts_for_every_cluster_witness:
  "\<exists>s db'. ingest_records_to_events unary_id (\<lambda>t. t) no_digest no_mail_date True True (utc 0)
      [plain_record ''article_candidate'' (Some ''https://a''), plain_record ''search_result'' (Some ''https://a'')] story_start
      = Some (s, db') \<and> tl_ok unary_id (db_timeline db') \<and>
    is_clusters_total s = is_created s + is_appended s + is_held s + is_withheld_source_type s + is_failed s +
      is_skipped_no_primary s \<and>
    snd ` set (is_failures s) \<subseteq> {''ValueError''}"
  by (rule ingest_accounts_for_every_cluster [OF inj_unary_id rival_idle]) (simp add: story_start_def empty_timeline_ok)

text \<open>community posts, market signals, search results and catalogue entries never make an event: a
  batch without an official record or an article creates none, whatever is in the tables.\<close>

lemma unpublishable_batch_creates_no_event:
  assumes "inj uuid" "rival_ok uuid rival" "tl_ok uuid (db_timeline db)"
    and "\<forall>r \<in> set rs. cr_record_type r \<notin> {Some ''official_record'', Some ''article_candidate''}"
  shows "\<exists>s db'. ingest_records_to_events uuid rival digest parsedate True adjudicate_flag now rs db = Some (s, db') \<and>
    is_created s = 0"
proof -
  have "\<not> has_publishable (member_source_types cand)"
    if c: "candidate_from_cluster digest parsedate c (build_record_index digest parsedate rs) now = Inr cand" for c cand
  proof
    assume "has_publishable (member_source_types cand)"
    then obtain st where "st \<in> set (member_source_types cand)" "st \<in> set PUBLISHABLE_SOURCE_TYPES"
      by (auto simp: has_publishable_def list_ex_iff)
    then obtain k r where "dict_get (build_record_index digest parsedate rs) k = Some r"
      "source_type_or_rss r \<in> set PUBLISHABLE_SOURCE_TYPES"
      using candidate_types [OF c] by blast
    then show False using build_index_records publishable_type assms(4) by metis
  qed
  with ingest_run [OF assms(1-3), of digest parsedate adjudicate_flag now rs] show ?thesis by blast
qed

lemma unpublishable_batch_creates_no_event_witness:
  "\<exists>s db'. ingest_records_to_events unary_id (\<lambda>t. t) no_digest no_mail_date True True (utc 0)
      [plain_record ''community_signal'' (Some ''https://a''), plain_record ''search_result'' (Some ''https://a'')] story_start
      = Some (s, db') \<and> is_created s = 0"
  by (rule unpublishable_batch_creates_no_event [OF inj_unary_id rival_idle])
    (simp_all add: story_start_def empty_timeline_ok plain_record_def)

end
