(* ===== verification/Py_Url.thy ===== *)
theory Py_Url
  imports Prelude
begin

text \<open>
  The parts of \<open>urllib.parse\<close> and \<open>ipaddress\<close> (Python 3.11) that the evidence rules of the agents
  use: \<open>urlparse\<close>, \<open>hostname\<close>, \<open>urljoin\<close>, \<open>ip_address\<close> and \<open>is_global\<close>. The one table that is not
  written out is Unicode's: the NFKC normal form of a netloc outside ASCII is the argument \<open>nfkc\<close>.
\<close>

section \<open>Splitting strings\<close>

definition before :: "char \<Rightarrow> string \<Rightarrow> string" where
  "before c s = takeWhile (\<lambda>x. x \<noteq> c) s"

definition after :: "char \<Rightarrow> string \<Rightarrow> string" where
  "after c s = drop 1 (dropWhile (\<lambda>x. x \<noteq> c) s)"

definition after_last :: "char \<Rightarrow> string \<Rightarrow> string" where
  "after_last c s = rev (takeWhile (\<lambda>x. x \<noteq> c) (rev s))"

definition upto_last :: "char \<Rightarrow> string \<Rightarrow> string" where
  "upto_last c s = take (length s - length (after_last c s)) s"

definition is_ascii :: "string \<Rightarrow> bool" where
  "is_ascii s \<longleftrightarrow> list_all (\<lambda>c. (of_char c :: nat) < 128) s"

definition is_hex :: "char \<Rightarrow> bool" where
  "is_hex c \<longleftrightarrow> is_digit c \<or> c \<in> set ''abcdefABCDEF''"

definition hex_val :: "char \<Rightarrow> nat" where
  "hex_val c = (if is_digit c then digit_val c else if is_lower c then of_char c - 87 else of_char c - 55)"

definition hex_num :: "string \<Rightarrow> int" where
  "hex_num s = foldl (\<lambda>n c. n * 16 + int (hex_val c)) 0 s"

definition hex_digit :: "int \<Rightarrow> char" where
  "hex_digit n = (if n < 10 then digit (nat n) else char_of (87 + nat n))"

text \<open>\<open>'%x' % n\<close> for \<open>n < 65536\<close>.\<close>

definition hex_str :: "int \<Rightarrow> string" where
  "hex_str n = (let s = dropWhile (\<lambda>c. c = CHR ''0'')
       (map hex_digit [n div 4096 mod 16, n div 256 mod 16, n div 16 mod 16, n mod 16])
     in if s = [] then ''0'' else s)"

section \<open>IP addresses\<close>

datatype ip_addr = IPv4 int | IPv6 int

definition parse_octet :: "string \<Rightarrow> int option" where
  "parse_octet s = (if s = [] \<or> \<not> list_all is_digit s \<or> length s > 3 \<or> (s \<noteq> ''0'' \<and> hd s = CHR ''0'') then None
     else case digits_val 0 False s of None \<Rightarrow> None | Some n \<Rightarrow> if n > 255 then None else Some (int n))"

definition parse_ipv4 :: "string \<Rightarrow> int option" where
  "parse_ipv4 s = (case map parse_octet (split_on CHR ''.'' s) of
      [Some a, Some b, Some c, Some d] \<Rightarrow> Some (((a * 256 + b) * 256 + c) * 256 + d)
    | _ \<Rightarrow> None)"

definition parse_hextet :: "string \<Rightarrow> int option" where
  "parse_hextet s = (if s = [] \<or> \<not> list_all is_hex s \<or> length s > 4 then None else Some (hex_num s))"

fun hextets :: "int \<Rightarrow> string list \<Rightarrow> int option" where
  "hextets n [] = Some n"
| "hextets n (p # ps) = (case parse_hextet p of None \<Rightarrow> None | Some h \<Rightarrow> hextets (n * 65536 + h) ps)"

text \<open>An IPv4 suffix is two hextets.\<close>

definition v6_parts :: "string \<Rightarrow> string list option" where
  "v6_parts s = (let parts = split_on CHR '':'' s in
     if length parts < 3 then None
     else if CHR ''.'' \<in> set (last parts) then
       (case parse_ipv4 (last parts) of None \<Rightarrow> None
        | Some n \<Rightarrow> Some (butlast parts @ [hex_str (n div 65536), hex_str (n mod 65536)]))
     else Some parts)"

definition v6_number :: "string list \<Rightarrow> int option" where
  "v6_number parts =
    (let skips = filter (\<lambda>i. parts ! i = []) [1..<length parts - 1] in
     if length parts > 9 then None
     else case skips of
       [] \<Rightarrow> if length parts \<noteq> 8 then None else hextets 0 parts
     | [k] \<Rightarrow>
        let hi = (if hd parts = [] then k - 1 else k);
            below = length parts - k - 1;
            lo = (if last parts = [] then below - 1 else below) in
        if (hd parts = [] \<and> hi \<noteq> 0) \<or> (last parts = [] \<and> lo \<noteq> 0) \<or> hi + lo \<ge> 8 then None
        else (case hextets 0 (take hi parts) of None \<Rightarrow> None
              | Some n \<Rightarrow> hextets (n * 65536 ^ (8 - (hi + lo))) (drop (length parts - lo) parts))
     | _ \<Rightarrow> None)"

definition parse_ipv6 :: "string \<Rightarrow> int option" where
  "parse_ipv6 s =
    (if CHR ''%'' \<in> set s \<and> (after CHR ''%'' s = [] \<or> CHR ''%'' \<in> set (after CHR ''%'' s)) then None
     else if before CHR ''%'' s = [] then None
     else case v6_parts (before CHR ''%'' s) of None \<Rightarrow> None | Some parts \<Rightarrow> v6_number parts)"

definition ip_address :: "string \<Rightarrow> ip_addr option" where
  "ip_address s = (if CHR ''/'' \<in> set s then None
     else case parse_ipv4 s of Some n \<Rightarrow> Some (IPv4 n) | None \<Rightarrow> map_option IPv6 (parse_ipv6 s))"

text \<open>A network is its address and its prefix length.\<close>

definition in_nets :: "nat \<Rightarrow> int \<Rightarrow> (int \<times> nat) list \<Rightarrow> bool" where
  "in_nets w n nets \<longleftrightarrow> list_ex (\<lambda>(a, p). n div 2 ^ (w - p) = a div 2 ^ (w - p)) nets"

definition ip4 :: "int \<Rightarrow> int \<Rightarrow> int \<Rightarrow> int \<Rightarrow> int" where
  "ip4 a b c d = ((a * 256 + b) * 256 + c) * 256 + d"

definition ip6 :: "int list \<Rightarrow> int" where
  "ip6 hs = foldl (\<lambda>n h. n * 65536 + h) 0 hs * 65536 ^ (8 - length hs)"

definition PRIVATE_V4 :: "(int \<times> nat) list" where
  "PRIVATE_V4 = [(0, 8), (ip4 10 0 0 0, 8), (ip4 127 0 0 0, 8), (ip4 169 254 0 0, 16), (ip4 172 16 0 0, 12),
     (ip4 192 0 0 0, 24), (ip4 192 0 0 170, 31), (ip4 192 0 2 0, 24), (ip4 192 168 0 0, 16),
     (ip4 198 18 0 0, 15), (ip4 198 51 100 0, 24), (ip4 203 0 113 0, 24), (ip4 240 0 0 0, 4),
     (ip4 255 255 255 255, 32)]"

definition PRIVATE_V4_EXCEPTIONS :: "(int \<times> nat) list" where
  "PRIVATE_V4_EXCEPTIONS = [(ip4 192 0 0 9, 32), (ip4 192 0 0 10, 32)]"

definition PRIVATE_V6 :: "(int \<times> nat) list" where
  "PRIVATE_V6 = [(1, 128), (0, 128), (ip6 [0, 0, 0, 0, 0, 65535], 96), (ip6 [0x64, 0xff9b, 1], 48),
     (ip6 [0x100], 64), (ip6 [0x2001], 23), (ip6 [0x2001, 0xdb8], 32), (ip6 [0x2002], 16),
     (ip6 [0xfc00], 7), (ip6 [0xfe80], 10)]"

definition PRIVATE_V6_EXCEPTIONS :: "(int \<times> nat) list" where
  "PRIVATE_V6_EXCEPTIONS = [(ip6 [0x2001, 1, 0, 0, 0, 0, 0, 1], 128), (ip6 [0x2001, 1, 0, 0, 0, 0, 0, 2], 128),
     (ip6 [0x2001, 3], 32), (ip6 [0x2001, 4, 0x112], 48), (ip6 [0x2001, 0x20], 28), (ip6 [0x2001, 0x30], 28)]"

definition ipv4_mapped :: "ip_addr \<Rightarrow> ip_addr option" where
  "ipv4_mapped ip = (case ip of IPv4 _ \<Rightarrow> None
     | IPv6 n \<Rightarrow> if n div 2 ^ 32 = 65535 then Some (IPv4 (n mod 2 ^ 32)) else None)"

definition v4_private :: "int \<Rightarrow> bool" where
  "v4_private n \<longleftrightarrow> in_nets 32 n PRIVATE_V4 \<and> \<not> in_nets 32 n PRIVATE_V4_EXCEPTIONS"

definition is_global :: "ip_addr \<Rightarrow> bool" where
  "is_global ip = (case ip of
      IPv4 n \<Rightarrow> \<not> in_nets 32 n [(ip4 100 64 0 0, 10)] \<and> \<not> v4_private n
    | IPv6 n \<Rightarrow> (case ipv4_mapped ip of
        Some (IPv4 m) \<Rightarrow> \<not> v4_private m
      | _ \<Rightarrow> \<not> (in_nets 128 n PRIVATE_V6 \<and> \<not> in_nets 128 n PRIVATE_V6_EXCEPTIONS)))"

section \<open>URLs\<close>

record split_url =
  su_scheme :: string
  su_netloc :: string
  su_path :: string
  su_params :: string
  su_query :: string
  su_fragment :: string

definition USES_RELATIVE :: "string list" where
  "USES_RELATIVE = [[], ''ftp'', ''http'', ''gopher'', ''nntp'', ''imap'', ''wais'', ''file'', ''https'', ''shttp'', ''mms'',
     ''prospero'', ''rtsp'', ''rtsps'', ''rtspu'', ''sftp'', ''svn'', ''svn+ssh'', ''ws'', ''wss'']"

definition USES_NETLOC :: "string list" where
  "USES_NETLOC = [[], ''ftp'', ''http'', ''gopher'', ''nntp'', ''telnet'', ''imap'', ''wais'', ''file'', ''mms'', ''https'',
     ''shttp'', ''snews'', ''prospero'', ''rtsp'', ''rtsps'', ''rtspu'', ''rsync'', ''svn'', ''svn+ssh'', ''sftp'', ''nfs'',
     ''git'', ''git+ssh'', ''ws'', ''wss'']"

definition USES_PARAMS :: "string list" where
  "USES_PARAMS = [[], ''ftp'', ''hdl'', ''prospero'', ''http'', ''imap'', ''https'', ''shttp'', ''rtsp'', ''rtsps'', ''rtspu'',
     ''sip'', ''sips'', ''mms'', ''sftp'', ''tel'']"

definition is_alpha :: "char \<Rightarrow> bool" where
  "is_alpha c \<longleftrightarrow> is_upper c \<or> is_lower c"

definition scheme_char :: "char \<Rightarrow> bool" where
  "scheme_char c \<longleftrightarrow> is_alpha c \<or> is_digit c \<or> c \<in> set ''+-.''"

definition bracketed_ok :: "string \<Rightarrow> bool" where
  "bracketed_ok h =
    (if startswith h ''v'' then
       takeWhile is_hex (tl h) \<noteq> [] \<and>
       (case dropWhile is_hex (tl h) of c # r \<Rightarrow> c = CHR ''.'' \<and> r \<noteq> [] | [] \<Rightarrow> False)
     else case ip_address h of Some (IPv6 _) \<Rightarrow> True | _ \<Rightarrow> False)"

definition netloc_ok :: "(string \<Rightarrow> string) \<Rightarrow> string \<Rightarrow> bool" where
  "netloc_ok nfkc loc = (loc = [] \<or> is_ascii loc \<or>
     (let n = filter (\<lambda>c. c \<notin> set ''@:#?'') loc in nfkc n = n \<or> list_all (\<lambda>c. c \<notin> set (nfkc n)) ''/?#@:''))"

definition netloc_end :: "char \<Rightarrow> bool" where
  "netloc_end c \<longleftrightarrow> c \<in> set ''/?#''"

definition split_params :: "string \<Rightarrow> string \<times> string" where
  "split_params path = (let seg = after_last CHR ''/'' path in
     if CHR '';'' \<in> set seg then (upto_last CHR ''/'' path @ before CHR '';'' seg, after CHR '';'' seg) else (path, []))"

text \<open>\<open>urlsplit(url, scheme)\<close> and \<open>urlparse(url, scheme)\<close>, which may raise a \<open>ValueError\<close>.\<close>

definition urlsplit :: "(string \<Rightarrow> string) \<Rightarrow> string \<Rightarrow> string \<Rightarrow> split_url res" where
  "urlsplit nfkc url0 scheme0 =
    (let url = filter (\<lambda>c. c \<notin> {CHR 0x09, CHR 0x0A, CHR 0x0D}) (dropWhile (\<lambda>c. (of_char c :: nat) \<le> 32) url0);
         pre = before CHR '':'' url;
         has = CHR '':'' \<in> set url \<and> pre \<noteq> [] \<and> is_alpha (hd pre) \<and> list_all scheme_char pre;
         scheme = (if has then lower pre else scheme0);
         u = (if has then after CHR '':'' url else url);
         loc = (if startswith u ''//'' then takeWhile (\<lambda>c. \<not> netloc_end c) (drop 2 u) else []);
         rest = (if startswith u ''//'' then dropWhile (\<lambda>c. \<not> netloc_end c) (drop 2 u) else u);
         u1 = before CHR ''#'' rest
     in if (CHR ''['' \<in> set loc) \<noteq> (CHR '']'' \<in> set loc) then Inl (ValueError ''Invalid IPv6 URL'')
        else if CHR ''['' \<in> set loc \<and> \<not> bracketed_ok (before CHR '']'' (after CHR ''['' loc)) then Inl (ValueError loc)
        else if \<not> netloc_ok nfkc loc then Inl (ValueError loc)
        else Inr \<lparr>su_scheme = scheme, su_netloc = loc, su_path = before CHR ''?'' u1, su_params = [],
                 su_query = after CHR ''?'' u1, su_fragment = after CHR ''#'' rest\<rparr>)"

definition urlparse :: "(string \<Rightarrow> string) \<Rightarrow> string \<Rightarrow> string \<Rightarrow> split_url res" where
  "urlparse nfkc url scheme = (case urlsplit nfkc url scheme of
      Inl e \<Rightarrow> Inl e
    | Inr u \<Rightarrow>
        if su_scheme u \<in> set USES_PARAMS \<and> CHR '';'' \<in> set (su_path u)
        then Inr (u\<lparr>su_path := fst (split_params (su_path u)), su_params := snd (split_params (su_path u))\<rparr>)
        else Inr u)"

text \<open>\<open>parsed.hostname\<close>; \<open>None\<close> and the empty host are the same to the code.\<close>

definition hostname :: "split_url \<Rightarrow> string" where
  "hostname u =
    (let info = after_last CHR ''@'' (su_netloc u);
         host = (if CHR ''['' \<in> set info then before CHR '']'' (after CHR ''['' info) else before CHR '':'' info)
     in lower (before CHR ''%'' host) @ (if CHR ''%'' \<in> set host then CHR ''%'' # after CHR ''%'' host else []))"

definition urlunparse :: "split_url \<Rightarrow> string" where
  "urlunparse u =
    (let path = su_path u @ (if su_params u \<noteq> [] then CHR '';'' # su_params u else []);
         located = su_netloc u \<noteq> [] \<or> (su_scheme u \<noteq> [] \<and> su_scheme u \<in> set USES_NETLOC) \<or> startswith path ''//'';
         body = (if located then ''//'' @ su_netloc u @
                   (if path \<noteq> [] \<and> \<not> startswith path ''/'' then CHR ''/'' # path else path) else path)
     in (if su_scheme u \<noteq> [] then su_scheme u @ '':'' @ body else body) @
        (if su_query u \<noteq> [] then CHR ''?'' # su_query u else []) @
        (if su_fragment u \<noteq> [] then CHR ''#'' # su_fragment u else []))"

fun resolve_dots :: "string list \<Rightarrow> string list \<Rightarrow> string list" where
  "resolve_dots done [] = done"
| "resolve_dots done (seg # segs) =
     (if seg = ''..'' then resolve_dots (butlast done) segs
      else if seg = ''.'' then resolve_dots done segs
      else resolve_dots (done @ [seg]) segs)"

definition join_path :: "string \<Rightarrow> string \<Rightarrow> string" where
  "join_path bpath path =
    (let base = split_on CHR ''/'' bpath;
         base = (if last base \<noteq> [] then butlast base else base);
         all = base @ split_on CHR ''/'' path;
         segments = (if startswith path ''/'' then split_on CHR ''/'' path
                     else if length all < 2 then all
                     else hd all # filter (\<lambda>s. s \<noteq> []) (butlast (tl all)) @ [last all]);
         resolved = resolve_dots [] segments @ (if last segments \<in> {''.'', ''..''} then [[]] else []);
         joined = str_join ''/'' resolved
     in if joined = [] then ''/'' else joined)"

definition urljoin :: "(string \<Rightarrow> string) \<Rightarrow> string \<Rightarrow> string \<Rightarrow> string res" where
  "urljoin nfkc base url =
    (if base = [] then Inr url else if url = [] then Inr base
     else bind_res (urlparse nfkc base []) (\<lambda>b. bind_res (urlparse nfkc url (su_scheme b)) (\<lambda>u.
       if su_scheme u \<noteq> su_scheme b \<or> su_scheme u \<notin> set USES_RELATIVE then Inr url
       else if su_scheme u \<in> set USES_NETLOC \<and> su_netloc u \<noteq> [] then Inr (urlunparse u)
       else
         let u = (if su_scheme u \<in> set USES_NETLOC then u\<lparr>su_netloc := su_netloc b\<rparr> else u) in
         if su_path u = [] \<and> su_params u = [] then
           Inr (urlunparse (u\<lparr>su_path := su_path b, su_params := su_params b,
                              su_query := (if su_query u = [] then su_query b else su_query u)\<rparr>))
         else Inr (urlunparse (u\<lparr>su_path := join_path (su_path b) (su_path u)\<rparr>)))))"

section \<open>User and port\<close>

definition userinfo :: "split_url \<Rightarrow> string option" where
  "userinfo u = (if CHR ''@'' \<in> set (su_netloc u) then Some (butlast (upto_last CHR ''@'' (su_netloc u))) else None)"

definition url_username :: "split_url \<Rightarrow> string option" where
  "url_username u = map_option (before CHR '':'') (userinfo u)"

definition url_password :: "split_url \<Rightarrow> string option" where
  "url_password u = (case userinfo u of None \<Rightarrow> None
     | Some i \<Rightarrow> if CHR '':'' \<in> set i then Some (after CHR '':'' i) else None)"

text \<open>\<open>parsed.port\<close>: a number up to 65535 or a \<open>ValueError\<close>.\<close>

definition url_port :: "split_url \<Rightarrow> nat option res" where
  "url_port u =
    (let info = after_last CHR ''@'' (su_netloc u);
         port = (if CHR ''['' \<in> set info then after CHR '':'' (after CHR '']'' (after CHR ''['' info)) else after CHR '':'' info)
     in if port = [] then Inr None
        else if \<not> list_all is_digit port then Inl (ValueError ''Port could not be cast to integer value'')
        else case digits_val 0 False port of
            None \<Rightarrow> Inl (ValueError ''Port could not be cast to integer value'')
          | Some n \<Rightarrow> if n > 65535 then Inl (ValueError ''Port out of range 0-65535'') else Inr (Some n))"

section \<open>Query strings\<close>

text \<open>The ranges of the bytes that may follow a lead byte, and the decoder that writes U+FFFD for each bad part.\<close>

definition follow_ranges :: "nat \<Rightarrow> (nat \<times> nat) list option" where
  "follow_ranges b =
    (if b < 128 then Some []
     else if b < 194 then None
     else if b < 224 then Some [(128, 191)]
     else if b = 224 then Some [(160, 191), (128, 191)]
     else if b = 237 then Some [(128, 159), (128, 191)]
     else if b < 240 then Some [(128, 191), (128, 191)]
     else if b = 240 then Some [(144, 191), (128, 191), (128, 191)]
     else if b < 244 then Some [(128, 191), (128, 191), (128, 191)]
     else if b = 244 then Some [(128, 143), (128, 191), (128, 191)]
     else None)"

fun good_prefix :: "(nat \<times> nat) list \<Rightarrow> string \<Rightarrow> nat" where
  "good_prefix [] s = 0"
| "good_prefix (r # rs) [] = 0"
| "good_prefix ((lo, hi) # rs) (c # cs) =
     (if lo \<le> of_char c \<and> of_char c \<le> hi then Suc (good_prefix rs cs) else 0)"

definition REPLACEMENT :: string where
  "REPLACEMENT = [CHR 0xEF, CHR 0xBF, CHR 0xBD]"

function utf8_fix :: "string \<Rightarrow> string" where
  "utf8_fix [] = []"
| "utf8_fix (c # cs) = (case follow_ranges (of_char c) of
      None \<Rightarrow> REPLACEMENT @ utf8_fix cs
    | Some rs \<Rightarrow>
        if good_prefix rs cs = length rs then (c # take (length rs) cs) @ utf8_fix (drop (length rs) cs)
        else REPLACEMENT @ utf8_fix (drop (good_prefix rs cs) cs))"
  by pat_completeness auto
termination
  by (relation "measure length") auto

fun percent_decode :: "string \<Rightarrow> string" where
  "percent_decode (CHR ''%'' # a # b # s) =
     (if is_hex a \<and> is_hex b then char_of (hex_val a * 16 + hex_val b) # percent_decode s
      else CHR ''%'' # percent_decode (a # b # s))"
| "percent_decode (c # s) = c # percent_decode s"
| "percent_decode [] = []"

text \<open>\<open>unquote\<close> decodes each run of ASCII characters by itself.\<close>

function unquote :: "string \<Rightarrow> string" where
  "unquote [] = []"
| "unquote (c # cs) =
     (let ascii = (\<lambda>x. (of_char x :: nat) < 128) in
      if ascii c then utf8_fix (percent_decode (takeWhile ascii (c # cs))) @ unquote (dropWhile ascii (c # cs))
      else c # unquote cs)"
  by pat_completeness auto
termination
  by (relation "measure length") (auto intro: le_imp_less_Suc length_dropWhile_le)

definition unquote_plus :: "string \<Rightarrow> string" where
  "unquote_plus s = (let t = map (\<lambda>c. if c = CHR ''+'' then CHR '' '' else c) s
     in if CHR ''%'' \<in> set t then unquote t else t)"

text \<open>\<open>parse_qsl(qs, keep_blank_values=True)\<close>.\<close>

definition parse_qsl :: "string \<Rightarrow> (string \<times> string) list" where
  "parse_qsl qs = map (\<lambda>nv. (unquote_plus (before CHR ''='' nv), unquote_plus (after CHR ''='' nv)))
     (filter (\<lambda>nv. nv \<noteq> []) (split_on CHR ''&'' qs))"

definition always_safe :: "char \<Rightarrow> bool" where
  "always_safe c \<longleftrightarrow> is_alpha c \<or> is_digit c \<or> c \<in> set ''_.-~''"

definition upper_hex :: "nat \<Rightarrow> char" where
  "upper_hex n = (if n < 10 then digit n else char_of (55 + n))"

definition quote_char :: "char \<Rightarrow> string" where
  "quote_char c = (if always_safe c then [c] else if c = CHR '' '' then ''+''
     else [CHR ''%'', upper_hex (of_char c div 16), upper_hex (of_char c mod 16)])"

definition quote_plus :: "string \<Rightarrow> string" where
  "quote_plus s = concat (map quote_char s)"

definition urlencode :: "(string \<times> string) list \<Rightarrow> string" where
  "urlencode kvs = str_join ''&'' (map (\<lambda>(k, v). quote_plus k @ ''='' @ quote_plus v) kvs)"

end
