(* ===== verification/Evidence.thy ===== *)
theory Evidence
  imports Py_Url
begin

text \<open>
  Which URLs may carry a published card: the structural rules of \<open>agents/nodes/evidence_rules.py\<close>
  and the reachability check of \<open>agents/nodes/evidence_reachability.py\<close>. The resolver and the HTTP
  client are arguments that act on a state of the network; they may answer anything and may raise.
\<close>

section \<open>Structural rules\<close>

definition SYNTHETIC_MARKERS :: "string list" where
  "SYNTHETIC_MARKERS = [''mock'', ''synthetic'', ''placeholder'', ''localhost'']"

definition RESERVED_HOSTS :: "string list" where
  "RESERVED_HOSTS = [''example.com'', ''example.org'', ''example.net'']"

definition RESERVED_HOST_SUFFIXES :: "string list" where
  "RESERVED_HOST_SUFFIXES = [''.test'', ''.invalid'', ''.localhost'', ''.example'']"

definition ip_is_public :: "string \<Rightarrow> bool" where
  "ip_is_public value = (case ip_address value of
      None \<Rightarrow> False
    | Some ip \<Rightarrow> is_global (case ipv4_mapped ip of Some m \<Rightarrow> m | None \<Rightarrow> ip))"

definition host_is_disallowed_ip :: "string \<Rightarrow> bool" where
  "host_is_disallowed_ip host = (case ip_address host of None \<Rightarrow> False | Some _ \<Rightarrow> \<not> ip_is_public host)"

definition is_valid_evidence_url :: "(string \<Rightarrow> string) \<Rightarrow> string \<Rightarrow> bool" where
  "is_valid_evidence_url nfkc value =
    (let candidate = strip value; low = lower candidate in
     if candidate = [] then False
     else if list_ex (\<lambda>marker. contains marker low) SYNTHETIC_MARKERS then False
     else if startswith low ''['' \<or> startswith low ''<'' then False
     else case urlparse nfkc candidate [] of
       Inl _ \<Rightarrow> False
     | Inr parsed \<Rightarrow>
        if su_scheme parsed \<notin> {''http'', ''https''} then False
        else
          let host = hostname parsed in
          if host = [] then False
          else if host \<in> set RESERVED_HOSTS then False
          else if list_ex (\<lambda>suffix. endswith host suffix) RESERVED_HOST_SUFFIXES then False
          else \<not> host_is_disallowed_ip host)"

definition has_grounded_evidence :: "(string \<Rightarrow> string) \<Rightarrow> string list \<Rightarrow> bool" where
  "has_grounded_evidence nfkc evidence = list_ex (is_valid_evidence_url nfkc) evidence"

section \<open>Reachability\<close>

definition REDIRECT_CODES :: "int list" where
  "REDIRECT_CODES = [301, 302, 303, 307, 308]"

definition HEAD_UNSUPPORTED_CODES :: "int list" where
  "HEAD_UNSUPPORTED_CODES = [403, 405, 501]"

record reachability_result =
  rr_url :: string
  rr_reachable :: bool
  rr_status :: string
  rr_detail :: string
  rr_http_status :: "int option"

text \<open>
  What a request gives: a response with its status and \<open>Location\<close>, or an \<open>httpx.HTTPError\<close> by its class
  name. Any other exception is raised by the action itself.
\<close>

datatype http_reply = HttpResponse int "string option" | HttpError string

type_synonym 's resolver = "string \<Rightarrow> ('s, string list) act"
type_synonym 's http_client = "string \<Rightarrow> string \<Rightarrow> ('s, http_reply) act"

definition resolved_host_is_safe :: "'s resolver \<Rightarrow> string \<Rightarrow> ('s, bool \<times> string) act" where
  "resolved_host_is_safe resolver host =
    (if host = [] then ret_act (False, ''dns_error:no_host'')
     else try_act
       (bind_act (resolver host) (\<lambda>ips.
          if ips = [] then ret_act (False, ''dns_error:empty'')
          else case List.find (\<lambda>ip. \<not> ip_is_public ip) ips of
              Some ip \<Rightarrow> ret_act (False, ''ssrf_blocked:'' @ ip)
            | None \<Rightarrow> ret_act (True, [])))
       (\<lambda>exc. ret_act (False, ''dns_error:'' @ exn_name exc)))"

text \<open>One turn of the loop: a result, or the next URL, method and number of redirects.\<close>

datatype hop = Done reachability_result | Next string string int

definition judge_response :: "(string \<Rightarrow> string) \<Rightarrow> int \<Rightarrow> int \<Rightarrow> string \<Rightarrow> string \<Rightarrow> int \<Rightarrow> string option \<Rightarrow> hop res" where
  "judge_response nfkc max_redirects redirects current meth code location =
    (if code \<in> set REDIRECT_CODES then
       (if \<not> truthy location then Inr (Done \<lparr>rr_url = current, rr_reachable = False, rr_status = ''http_error'',
           rr_detail = ''redirect_no_location'', rr_http_status = Some code\<rparr>)
        else bind_res (urljoin nfkc current (the location)) (\<lambda>nxt.
          if \<not> is_valid_evidence_url nfkc nxt then Inr (Done \<lparr>rr_url = nxt, rr_reachable = False,
            rr_status = ''ssrf_blocked'', rr_detail = ''redirect_target_invalid'', rr_http_status = Some code\<rparr>)
          else if redirects + 1 > max_redirects then Inr (Done \<lparr>rr_url = current, rr_reachable = False,
            rr_status = ''too_many_redirects'', rr_detail = ''>'' @ int_str max_redirects, rr_http_status = Some code\<rparr>)
          else Inr (Next nxt ''HEAD'' (redirects + 1))))
     else if meth = ''HEAD'' \<and> code \<in> set HEAD_UNSUPPORTED_CODES then Inr (Next current ''GET'' redirects)
     else if code < 400 then Inr (Done \<lparr>rr_url = current, rr_reachable = True, rr_status = ''ok'',
       rr_detail = meth, rr_http_status = Some code\<rparr>)
     else Inr (Done \<lparr>rr_url = current, rr_reachable = False, rr_status = ''http_error'',
       rr_detail = ''status='' @ int_str code, rr_http_status = Some code\<rparr>))"

definition reach_hop ::
  "(string \<Rightarrow> string) \<Rightarrow> 's resolver \<Rightarrow> 's http_client \<Rightarrow> int \<Rightarrow> int \<Rightarrow> string \<Rightarrow> string \<Rightarrow> ('s, hop) act" where
  "reach_hop nfkc resolver client max_redirects redirects current meth =
    bind_act (lift_res (urlparse nfkc current [])) (\<lambda>parsed.
    bind_act (resolved_host_is_safe resolver (hostname parsed)) (\<lambda>(safe, reason).
      if \<not> safe then ret_act (Done \<lparr>rr_url = current, rr_reachable = False,
        rr_status = (if startswith reason ''ssrf'' then ''ssrf_blocked'' else ''dns_error''), rr_detail = reason,
        rr_http_status = None\<rparr>)
      else bind_act (client meth current) (\<lambda>reply. case reply of
          HttpError name \<Rightarrow> ret_act (Done \<lparr>rr_url = current, rr_reachable = False, rr_status = ''unreachable'',
            rr_detail = name, rr_http_status = None\<rparr>)
        | HttpResponse code location \<Rightarrow> lift_res (judge_response nfkc max_redirects redirects current meth code location))))"

text \<open>A turn that goes on has followed a redirect within the limit, or has given up \<open>HEAD\<close> for \<open>GET\<close>.\<close>

lemma judge_response_next:
  assumes "judge_response nfkc mx n u m code loc = Inr (Next u' m' n')"
  shows "(n' = n + 1 \<and> n' \<le> mx \<and> m' = ''HEAD'' \<and> is_valid_evidence_url nfkc u') \<or>
         (n' = n \<and> u' = u \<and> m = ''HEAD'' \<and> m' = ''GET'')"
  using assms by (auto simp: judge_response_def bind_res_def split: if_splits sum.splits)

lemma reach_hop_judged:
  assumes "reach_hop nfkc rs cl mx n u m s = (Inr (Next u' m' n'), s')"
  obtains code loc where "judge_response nfkc mx n u m code loc = Inr (Next u' m' n')"
  using assms unfolding reach_hop_def
  by (auto elim!: bind_act_cases split: if_splits http_reply.splits intro: that)

lemma reach_hop_next:
  assumes "reach_hop nfkc rs cl mx n u m s = (Inr (Next u' m' n'), s')"
  shows "(n' = n + 1 \<and> n' \<le> mx \<and> m' = ''HEAD'' \<and> is_valid_evidence_url nfkc u') \<or>
         (n' = n \<and> u' = u \<and> m = ''HEAD'' \<and> m' = ''GET'')"
  using assms by (rule reach_hop_judged) (erule judge_response_next)

function reach_loop ::
  "(string \<Rightarrow> string) \<Rightarrow> 's resolver \<Rightarrow> 's http_client \<Rightarrow> int \<Rightarrow> int \<Rightarrow> string \<Rightarrow> string
   \<Rightarrow> ('s, reachability_result) act" where
  "reach_loop nfkc resolver client max_redirects redirects current meth s =
    (case reach_hop nfkc resolver client max_redirects redirects current meth s of
      (Inl e, s') \<Rightarrow> (Inl e, s')
    | (Inr (Done r), s') \<Rightarrow> (Inr r, s')
    | (Inr (Next u m n), s') \<Rightarrow> reach_loop nfkc resolver client max_redirects n u m s')"
  by pat_completeness auto
termination
  by (relation "measure (\<lambda>(nfkc, rs, cl, mx, n, u, m, s). 2 * nat (mx + 1 - n) + (if m = ''HEAD'' then 1 else 0))")
    (auto dest!: sym [of "(_, _)" "reach_hop _ _ _ _ _ _ _ _"] reach_hop_next)

declare reach_loop.simps [simp del]

definition check_evidence_reachable ::
  "(string \<Rightarrow> string) \<Rightarrow> 's resolver \<Rightarrow> 's http_client \<Rightarrow> int \<Rightarrow> string \<Rightarrow> ('s, reachability_result) act" where
  "check_evidence_reachable nfkc resolver client max_redirects url =
    (if \<not> is_valid_evidence_url nfkc url then ret_act \<lparr>rr_url = url, rr_reachable = False,
       rr_status = ''structural_reject'', rr_detail = ''is_valid_evidence_url=False'', rr_http_status = None\<rparr>
     else reach_loop nfkc resolver client max_redirects 0 url ''HEAD'')"

section \<open>The conversation with the network\<close>

text \<open>A resolver and a client that keep a log of what they are asked.\<close>

datatype net_event = Resolved string "string list res" | Requested string string

definition log_resolver :: "'s resolver \<Rightarrow> ('s \<times> net_event list) resolver" where
  "log_resolver resolver host = (\<lambda>(s, l). case resolver host s of (r, s') \<Rightarrow> (r, (s', l @ [Resolved host r])))"

definition log_client :: "'s http_client \<Rightarrow> ('s \<times> net_event list) http_client" where
  "log_client client meth url = (\<lambda>(s, l). case client meth url s of (r, s') \<Rightarrow> (r, (s', l @ [Requested meth url])))"

definition is_request :: "net_event \<Rightarrow> bool" where
  "is_request e = (case e of Requested _ _ \<Rightarrow> True | _ \<Rightarrow> False)"

text \<open>The name lookup before a request found only public addresses for the host of its URL.\<close>

definition vetted :: "(string \<Rightarrow> string) \<Rightarrow> string \<Rightarrow> string list res \<Rightarrow> string \<Rightarrow> bool" where
  "vetted nfkc host found u = (case (urlparse nfkc u [], found) of
      (Inr parsed, Inr ips) \<Rightarrow> host = hostname parsed \<and> ips \<noteq> [] \<and> list_all ip_is_public ips
    | _ \<Rightarrow> False)"

text \<open>Every request is for a valid URL and comes right after a lookup that vets it.\<close>

fun vetted_log :: "(string \<Rightarrow> string) \<Rightarrow> net_event list \<Rightarrow> bool" where
  "vetted_log nfkc [] = True"
| "vetted_log nfkc (Requested m u # l) = False"
| "vetted_log nfkc (Resolved h x # Requested m u # l) =
     (is_valid_evidence_url nfkc u \<and> vetted nfkc h x u \<and> vetted_log nfkc l)"
| "vetted_log nfkc (Resolved h x # l) = vetted_log nfkc l"

definition requests :: "net_event list \<Rightarrow> nat" where
  "requests l = length (filter is_request l)"

lemma requests_simps [simp]:
  "requests [] = 0" "requests (Requested m u # l) = Suc (requests l)" "requests (Resolved h x # l) = requests l"
  by (simp_all add: requests_def is_request_def)

lemma log_simps [simp]:
  "log_resolver rs h (w, l) = (case rs h w of (r, w') \<Rightarrow> (r, (w', l @ [Resolved h r])))"
  "log_client cl m u (w, l) = (case cl m u w of (r, w') \<Rightarrow> (r, (w', l @ [Requested m u])))"
  by (simp_all add: log_resolver_def log_client_def)

lemma host_check_log:
  assumes "resolved_host_is_safe (log_resolver rs) h (w, l) = (r, (w', l'))"
  obtains safe reason where "r = Inr (safe, reason)"
    "safe \<Longrightarrow> \<exists>ips. l' = l @ [Resolved h (Inr ips)] \<and> ips \<noteq> [] \<and> list_all ip_is_public ips"
    "l' = l \<or> (\<exists>x. l' = l @ [Resolved h x])"
proof (cases "h = []")
  case True
  with assms show thesis by (auto simp: resolved_host_is_safe_def intro: that)
next
  case False
  obtain x w1 where x: "rs h w = (x, w1)" by (cases "rs h w")
  show thesis
  proof (cases x)
    case (Inl e)
    with assms False x show thesis
      by (intro that [of False]) (auto simp: resolved_host_is_safe_def try_act_def bind_act_def)
  next
    case (Inr ips)
    have "list_all ip_is_public ips" if "List.find (\<lambda>ip. \<not> ip_is_public ip) ips = None"
      using that by (auto simp: find_None_iff list_all_iff)
    with assms False x Inr show thesis
      by (cases "ips = []"; cases "List.find (\<lambda>ip. \<not> ip_is_public ip) ips")
        (auto simp: resolved_host_is_safe_def try_act_def bind_act_def intro: that)
  qed
qed

lemma judge_response_reachable:
  "judge_response nfkc mx n u m code loc = Inr (Done r) \<Longrightarrow> rr_reachable r \<Longrightarrow> rr_url r = u \<and> code < 400"
  by (auto simp: judge_response_def bind_res_def split: if_splits sum.splits)

text \<open>What one turn adds to the log.\<close>

lemma reach_hop_log:
  assumes run: "reach_hop nfkc (log_resolver rs) (log_client cl) mx n u m (w, l) = (r, (w', l'))"
  obtains (no_request) d where "l' = l @ d" "d = [] \<or> (\<exists>h x. d = [Resolved h x])"
      "\<And>x. r = Inr x \<Longrightarrow> \<exists>y. x = Done y \<and> \<not> rr_reachable y"
    | (request) h x where "l' = l @ [Resolved h x, Requested m u]" "vetted nfkc h x u"
      "\<And>y. r = Inr (Done y) \<Longrightarrow> rr_reachable y \<Longrightarrow> rr_url y = u"
proof (cases "urlparse nfkc u []")
  case (Inl e)
  with run show thesis by (intro no_request [of "[]"]) (auto simp: reach_hop_def bind_act_def)
next
  case (Inr p)
  obtain r1 w1 l1 where c: "resolved_host_is_safe (log_resolver rs) (hostname p) (w, l) = (r1, (w1, l1))"
    by (cases "resolved_host_is_safe (log_resolver rs) (hostname p) (w, l)") auto
  then obtain safe reason where r1: "r1 = Inr (safe, reason)"
    and s: "safe \<Longrightarrow> \<exists>ips. l1 = l @ [Resolved (hostname p) (Inr ips)] \<and> ips \<noteq> [] \<and> list_all ip_is_public ips"
    and l1: "l1 = l \<or> (\<exists>x. l1 = l @ [Resolved (hostname p) x])"
    by (rule host_check_log) blast
  show thesis
  proof (cases safe)
    case False
    with run Inr c r1 l1 show thesis
      by (intro no_request [of "drop (length l) l'"]) (auto simp: reach_hop_def bind_act_def)
  next
    case True
    with s obtain ips where ips: "l1 = l @ [Resolved (hostname p) (Inr ips)]" "ips \<noteq> []" "list_all ip_is_public ips"
      by blast
    obtain rep w2 where rep: "cl m u w1 = (rep, w2)" by (cases "cl m u w1")
    from True run Inr c r1 ips rep have l': "l' = l @ [Resolved (hostname p) (Inr ips), Requested m u]"
      by (auto simp: reach_hop_def bind_act_def split: sum.splits http_reply.splits)
    have "rr_url y = u" if "r = Inr (Done y)" "rr_reachable y" for y
      using that True run Inr c r1 ips rep
      by (auto simp: reach_hop_def bind_act_def split: sum.splits http_reply.splits dest: judge_response_reachable)
    with l' ips Inr show thesis by (intro request) (auto simp: vetted_def)
  qed
qed

definition request_budget :: "int \<Rightarrow> int \<Rightarrow> string \<Rightarrow> nat" where
  "request_budget mx n m = 2 * nat (mx - n) + (if m = ''HEAD'' then 2 else 1)"

definition reached :: "reachability_result res \<Rightarrow> net_event list \<Rightarrow> bool" where
  "reached r l = (case r of Inr x \<Rightarrow> rr_reachable x \<longrightarrow> (\<exists>m. l \<noteq> [] \<and> last l = Requested m (rr_url x)) | Inl _ \<Rightarrow> True)"

lemma reach_loop_log:
  assumes "is_valid_evidence_url nfkc u"
    and "reach_loop nfkc (log_resolver rs) (log_client cl) mx n u m (w, l) = (r, (w', l'))"
  shows "\<exists>d. l' = l @ d \<and> vetted_log nfkc d \<and> requests d \<le> request_budget mx n m \<and> reached r d"
  using assms
proof (induction "2 * nat (mx + 1 - n) + (if m = ''HEAD'' then 1 else 0)" arbitrary: n u m w l rule: less_induct)
  case less
  obtain r1 w1 l1 where hop: "reach_hop nfkc (log_resolver rs) (log_client cl) mx n u m (w, l) = (r1, (w1, l1))"
    by (cases "reach_hop nfkc (log_resolver rs) (log_client cl) mx n u m (w, l)") auto
  note run = less.prems(2) [unfolded reach_loop.simps [of _ _ _ _ _ _ _ "(w, l)"] hop]
  from hop show ?case
  proof (cases rule: reach_hop_log)
    case (no_request d)
    have "vetted_log nfkc d" "requests d = 0" using no_request(2) by auto
    moreover have "l' = l @ d" "reached r d"
      using run no_request by (auto simp: reached_def split: sum.splits hop.splits)
    ultimately show ?thesis by auto
  next
    case (request h x)
    have one: "1 \<le> request_budget mx n m" by (simp add: request_budget_def)
    show ?thesis
    proof (cases "\<exists>u' m' n'. r1 = Inr (Next u' m' n')")
      case False
      have "l' = l1" "reached r [Resolved h x, Requested m u]"
        using run False request(3) by (auto simp: reached_def split: sum.splits hop.splits)
      with request less.prems(1) one show ?thesis
        by (intro exI [of _ "[Resolved h x, Requested m u]"]) simp
    next
      case True
      then obtain u' m' n' where r1: "r1 = Inr (Next u' m' n')" by blast
      note nx = reach_hop_next [OF hop [unfolded r1]]
      have v: "is_valid_evidence_url nfkc u'" using nx less.prems(1) by auto
      have run': "reach_loop nfkc (log_resolver rs) (log_client cl) mx n' u' m' (w1, l1) = (r, (w', l'))"
        using run r1 by simp
      have "2 * nat (mx + 1 - n') + (if m' = ''HEAD'' then 1 else 0) < 2 * nat (mx + 1 - n) + (if m = ''HEAD'' then 1 else 0)"
        using nx by auto
      from less.hyps [OF this v run'] obtain d where
        d: "l' = l1 @ d" "vetted_log nfkc d" "requests d \<le> request_budget mx n' m'" "reached r d" by blast
      have "Suc (request_budget mx n' m') \<le> request_budget mx n m"
        using nx by (auto simp: request_budget_def)
      moreover have "reached r (Resolved h x # Requested m u # d)"
        using d(4) by (auto simp: reached_def split: sum.splits)
      ultimately show ?thesis
        using request d less.prems(1) by (intro exI [of _ "Resolved h x # Requested m u # d"]) simp
    qed
  qed
qed

section \<open>Examples\<close>

text \<open>Multicast addresses count as public, which the comment on \<open>ip_is_public\<close> denies.\<close>

lemma multicast_is_public: "ip_is_public ''224.0.0.1''"
  by code_simp

text \<open>A malformed \<open>Location\<close> raises out of the check.\<close>

definition ascii_nfkc :: "string \<Rightarrow> string" where "ascii_nfkc s = s"

definition SITE_URL :: string where "SITE_URL = ''https://a.com/''"

lemma site_url_parsed:
  "urlparse ascii_nfkc SITE_URL [] = Inr \<lparr>su_scheme = ''https'', su_netloc = ''a.com'', su_path = ''/'', su_params = [],
     su_query = [], su_fragment = []\<rparr>"
  by code_simp

lemma site_url_valid: "is_valid_evidence_url ascii_nfkc SITE_URL"
  by code_simp

lemma malformed_redirect_raises:
  "judge_response ascii_nfkc 3 0 SITE_URL ''HEAD'' 302 (Some ''http://[x'') = Inl (ValueError ''Invalid IPv6 URL'')"
proof -
  have "urlparse ascii_nfkc ''http://[x'' ''https'' = Inl (ValueError ''Invalid IPv6 URL'')" by code_simp
  moreover have "SITE_URL \<noteq> []" by (simp add: SITE_URL_def)
  ultimately show ?thesis by (simp add: judge_response_def REDIRECT_CODES_def urljoin_def site_url_parsed)
qed

section \<open>Properties\<close>

text \<open>C4: The check ends after at most two requests per redirect allowed and two more, whatever the resolver and
  the servers answer. Each request is for a structurally valid URL and comes right after a lookup that found only
  public addresses for its host, redirects included, and a URL counts as reachable only when it was requested
  last.\<close>

theorem reachability_check_is_vetted:
  assumes "check_evidence_reachable nfkc (log_resolver rs) (log_client cl) mx url (w, []) = (r, (w', l))"
  shows "vetted_log nfkc l \<and> requests l \<le> 2 * nat mx + 2 \<and> reached r l"
proof (cases "is_valid_evidence_url nfkc url")
  case True
  with assms reach_loop_log [OF True, of rs cl mx 0 "''HEAD''" w "[]" r w' l] show ?thesis
    by (simp add: check_evidence_reachable_def request_budget_def)
next
  case False
  with assms show ?thesis by (auto simp: check_evidence_reachable_def reached_def)
qed

text \<open>A host that redirects to itself for ever, named by the public address \<open>8.8.8.8\<close>.\<close>

definition public_resolver :: "'s resolver" where "public_resolver host = ret_act [''8.8.8.8'']"
definition loop_client :: "'s http_client" where "loop_client meth url = ret_act (HttpResponse 302 (Some SITE_URL))"

theorem reachability_check_is_vetted_witness:
  "\<exists>r l. check_evidence_reachable ascii_nfkc (log_resolver public_resolver) (log_client loop_client) 3 SITE_URL ((), []) = (r, ((), l)) \<and>
     vetted_log ascii_nfkc l \<and> requests l \<le> 8 \<and> reached r l"
proof -
  obtain r w l where run: "check_evidence_reachable ascii_nfkc (log_resolver public_resolver) (log_client loop_client) 3 SITE_URL ((), [])
      = (r, (w :: unit, l))"
    by (metis prod.collapse)
  from reachability_check_is_vetted [OF run] run show ?thesis by auto
qed

end
