(* ===== verification/Baselines.thy ===== *)
theory Baselines
  imports Evidence "HOL-Library.Product_Lexorder"
begin

text \<open>
  The deterministic baselines of \<open>agents/nodes/baselines.py\<close>: entities by proper-noun sequences,
  sectors by keywords, an extractive summary, the structural fact check and the sentinels of
  synthetic text. The argument \<open>uword\<close> tells whether a character outside ASCII is a word character
  to Python's \<open>re\<close>.
\<close>

section \<open>Word lists\<close>

definition LEADING_STOPWORDS :: "string list" where
  "LEADING_STOPWORDS =
    [''the'', ''a'', ''an'', ''this'', ''that'', ''these'', ''those'', ''his'', ''her'', ''their'',
     ''its'', ''our'', ''your'', ''my'', ''in'', ''on'', ''at'', ''for'', ''to'', ''of'', ''and'',
     ''but'', ''or'', ''as'', ''by'', ''with'', ''from'', ''after'', ''before'', ''while'',
     ''when'', ''where'', ''why'', ''how'', ''it'', ''he'', ''she'', ''they'', ''we'', ''i'',
     ''new'', ''us'', ''uk'', ''eu'']"

definition ENTITY_NOISE :: "string list" where
  "ENTITY_NOISE =
    [''Monday'', ''Tuesday'', ''Wednesday'', ''Thursday'', ''Friday'', ''Saturday'', ''Sunday'',
     ''January'', ''February'', ''March'', ''April'', ''May'', ''June'', ''July'', ''August'',
     ''September'', ''October'', ''November'', ''December'', ''Reuters'', ''Bloomberg'']"

definition SECTOR_KEYWORDS :: "(string, string list) dict" where
  "SECTOR_KEYWORDS =
    [(''energy'', [''oil'', ''gas'', ''opec'', ''crude'', ''lng'', ''pipeline'', ''refinery'',
        ''barrel'', ''energy'', ''petroleum'', ''electricity'', ''power grid'']),
     (''finance'', [''bank'', ''fed'', ''interest rate'', ''inflation'', ''bond'', ''equity'',
        ''stocks'', ''ipo'', ''merger'', ''acquisition'', ''earnings'', ''central bank'',
        ''treasury'', ''currency'', ''forex'']),
     (''technology'', [''chip'', ''semiconductor'', ''artificial intelligence'', '' ai '',
        ''software'', ''cyber'', ''cloud'', ''data center'', ''tech'', ''startup'']),
     (''defense'', [''military'', ''defense'', ''missile'', ''troops'', ''weapon'', ''nato'',
        ''army'', ''navy'', ''airstrike'', ''warfare'', ''armed forces'']),
     (''health'', [''virus'', ''vaccine'', ''fda'', ''drug'', ''pandemic'', ''outbreak'',
        ''hospital'', ''disease'', ''clinical'']),
     (''politics'', [''election'', ''parliament'', ''sanction'', ''treaty'', ''congress'',
        ''government'', ''minister'', ''president'', ''senate'', ''diplomatic'']),
     (''commodities'', [''gold'', ''copper'', ''wheat'', ''metal'', ''mining'', ''silver'', ''corn'']),
     (''transport'', [''airline'', ''shipping'', ''port'', ''freight'', ''rail'', ''aviation''])]"

definition MOCK_SENTINELS :: "string list" where
  "MOCK_SENTINELS = [''[mock'', ''[fallback'', ''[skip'', ''[no title]'']"

definition MAX_ENTITIES :: nat where "MAX_ENTITIES = 8"
definition MAX_SECTORS :: nat where "MAX_SECTORS = 4"

text \<open>The code flattens its arguments to a list of texts first.\<close>

definition has_sentinel :: "string \<Rightarrow> bool" where
  "has_sentinel text = list_ex (\<lambda>marker. contains marker (lower text)) MOCK_SENTINELS"

definition contains_mock_sentinel :: "string list \<Rightarrow> bool" where
  "contains_mock_sentinel texts = list_ex has_sentinel texts"

section \<open>Proper nouns\<close>

text \<open>The ways a regular expression can match a prefix, in the order in which \<open>re\<close> tries them: (match, rest).\<close>

fun rx_star :: "(char \<Rightarrow> bool) \<Rightarrow> string \<Rightarrow> (string \<times> string) list" where
  "rx_star p [] = [([], [])]"
| "rx_star p (c # cs) = (if p c then map (\<lambda>(m, r). (c # m, r)) (rx_star p cs) else []) @ [([], c # cs)]"

definition rx_plus :: "(char \<Rightarrow> bool) \<Rightarrow> string \<Rightarrow> (string \<times> string) list" where
  "rx_plus p s = filter (\<lambda>(m, r). m \<noteq> []) (rx_star p s)"

definition noun_char :: "char \<Rightarrow> bool" where
  "noun_char c \<longleftrightarrow> is_alpha c \<or> is_digit c \<or> c \<in> set ''&.-''"

definition rx_noun :: "string \<Rightarrow> (string \<times> string) list" where
  "rx_noun s = (case s of [] \<Rightarrow> []
     | c # cs \<Rightarrow> if is_upper c then map (\<lambda>(m, r). (c # m, r)) (rx_star noun_char cs) else [])"

fun rx_more :: "nat \<Rightarrow> string \<Rightarrow> (string \<times> string) list" where
  "rx_more 0 s = [([], s)]"
| "rx_more (Suc k) s =
     concat (map (\<lambda>(w, r1). concat (map (\<lambda>(m, r2). map (\<lambda>(t, r3). (w @ m @ t, r3)) (rx_more k r2)) (rx_noun r1)))
       (rx_plus is_blank s)) @ [([], s)]"

definition rx_nouns :: "string \<Rightarrow> (string \<times> string) list" where
  "rx_nouns s = concat (map (\<lambda>(m, r). map (\<lambda>(t, r'). (m @ t, r')) (rx_more 3 r)) (rx_noun s))"

definition code_point :: "string \<Rightarrow> string" where
  "code_point s = (case s of [] \<Rightarrow> [] | c # cs \<Rightarrow> c # takeWhile is_cont cs)"

definition word_char :: "(string \<Rightarrow> bool) \<Rightarrow> string \<Rightarrow> bool" where
  "word_char uword cp = (case cp of [] \<Rightarrow> False
     | [c] \<Rightarrow> is_alpha c \<or> is_digit c \<or> c = CHR ''_'' | _ \<Rightarrow> uword cp)"

text \<open>The match of \<open>_PROPER_NOUN\<close> at the start of \<open>s\<close>; \<open>prev\<close> tells whether a word character comes before.\<close>

definition proper_noun :: "(string \<Rightarrow> bool) \<Rightarrow> bool \<Rightarrow> string \<Rightarrow> (string \<times> string) option" where
  "proper_noun uword prev s = (if prev then None
     else List.find (\<lambda>(m, r). word_char uword [last m] \<noteq> word_char uword (code_point r)) (rx_nouns s))"

lemma rx_star_splits: "(m, r) \<in> set (rx_star p s) \<Longrightarrow> s = m @ r"
  by (induction s arbitrary: m) (auto split: if_splits)

lemma rx_noun_splits: "(m, r) \<in> set (rx_noun s) \<Longrightarrow> s = m @ r \<and> m \<noteq> []"
  by (auto simp: rx_noun_def dest: rx_star_splits split: list.splits if_splits)

lemma rx_more_splits: "(m, r) \<in> set (rx_more k s) \<Longrightarrow> s = m @ r"
proof (induction k arbitrary: m r s)
  case (Suc k)
  then show ?case by (auto simp: rx_plus_def dest!: rx_star_splits rx_noun_splits)
qed simp

lemma rx_nouns_splits: "(m, r) \<in> set (rx_nouns s) \<Longrightarrow> s = m @ r \<and> m \<noteq> []"
  by (auto simp: rx_nouns_def dest!: rx_noun_splits rx_more_splits)

lemma proper_noun_splits: "proper_noun uword prev s = Some (m, r) \<Longrightarrow> s = m @ r \<and> m \<noteq> []"
  by (rule rx_nouns_splits) (auto simp: proper_noun_def find_Some_iff in_set_conv_nth split: if_splits)

function find_nouns :: "(string \<Rightarrow> bool) \<Rightarrow> bool \<Rightarrow> string \<Rightarrow> string list" where
  "find_nouns uword prev [] = []"
| "find_nouns uword prev (c # cs) = (case proper_noun uword prev (c # cs) of
      Some (m, r) \<Rightarrow> m # find_nouns uword (word_char uword [last m]) r
    | None \<Rightarrow> find_nouns uword (word_char uword (code_point (c # cs))) (dropWhile is_cont cs))"
  by pat_completeness auto
termination
proof (relation "measure (\<lambda>(uword, prev, s). length s)")
  show "wf (measure (\<lambda>(uword :: string \<Rightarrow> bool, prev :: bool, s :: string). length s))" by simp
next
  fix uword prev c cs x m r
  assume "proper_noun uword prev (c # cs) = Some x" "(m, r) = x"
  then have "c # cs = m @ r" "m \<noteq> []" using proper_noun_splits by blast+
  then have "length r < length (c # cs)" by (metis length_append length_greater_0_conv less_add_same_cancel2)
  then show "((uword, word_char uword [last m], r), uword, prev, c # cs) \<in> measure (\<lambda>(uword, prev, s). length s)"
    by simp
next
  fix uword prev c cs
  show "((uword, word_char uword (code_point (c # cs)), dropWhile is_cont cs), uword, prev, c # cs)
      \<in> measure (\<lambda>(uword, prev, s). length s)"
    using length_dropWhile_le [of is_cont cs] by simp
qed

section \<open>Entities\<close>

definition strip_chars :: "string \<Rightarrow> string \<Rightarrow> string" where
  "strip_chars cs s = rev (dropWhile (\<lambda>c. c \<in> set cs) (rev (dropWhile (\<lambda>c. c \<in> set cs) s)))"

definition is_acronym :: "string \<Rightarrow> bool" where
  "is_acronym t \<longleftrightarrow> list_ex is_upper t \<and> \<not> list_ex is_lower t \<and> length t \<ge> 2"

definition entity_of_match :: "string \<Rightarrow> string option" where
  "entity_of_match m =
    (let tokens = dropWhile (\<lambda>t. lower t \<in> set LEADING_STOPWORDS) (words (strip_chars '' .-&'' m)) in
     case tokens of
       [] \<Rightarrow> None
     | [t] \<Rightarrow> if t \<in> set ENTITY_NOISE \<or> (\<not> is_acronym t \<and> length t < 4) then None else Some t
     | _ \<Rightarrow> Some (str_join '' '' tokens))"

fun collect_entities :: "string list \<Rightarrow> string list \<Rightarrow> string list" where
  "collect_entities found [] = found"
| "collect_entities found (m # ms) = (case entity_of_match m of
      None \<Rightarrow> collect_entities found ms
    | Some phrase \<Rightarrow>
        if lower phrase \<in> set (map lower found) then collect_entities found ms
        else if length found + 1 \<ge> MAX_ENTITIES then found @ [phrase]
        else collect_entities (found @ [phrase]) ms)"

definition extract_entities :: "(string \<Rightarrow> bool) \<Rightarrow> string \<Rightarrow> string \<Rightarrow> string list" where
  "extract_entities uword title body =
    (let text = strip (title @ ''. '' @ body) in
     if text = [] then [] else collect_entities [] (find_nouns uword False text))"

section \<open>Sectors, impact and summary\<close>

definition sector_hits :: "string \<Rightarrow> (string \<times> nat) list" where
  "sector_hits text =
    filter (\<lambda>(s, hits). hits \<noteq> 0)
      (map (\<lambda>(s, keywords). (s, length (filter (\<lambda>kw. contains kw text) keywords))) SECTOR_KEYWORDS)"

definition map_sectors :: "string \<Rightarrow> string \<Rightarrow> string \<times> string list" where
  "map_sectors title body =
    (let matched = sector_hits (lower ('' '' @ title @ '' '' @ body @ '' '')) in
     if matched = [] then (''general'', [])
     else let sectors = map fst (take MAX_SECTORS (sort_key (\<lambda>(s, hits). (- int hits, s)) matched))
          in (hd sectors, sectors))"

definition impact_baseline :: "string list \<Rightarrow> string" where
  "impact_baseline sectors =
    (if sectors \<noteq> [] then
       ''Relevant to '' @ str_join '', '' sectors @ '' sector(s). Quantitative impact not assessed '' @
       ''(deterministic baseline; no LLM impact model applied).''
     else ''Sector relevance undetermined. Impact not assessed '' @
       ''(deterministic baseline; no LLM impact model applied).'')"

text \<open>\<open>re.split(r"(?<=[.!?])\s+", body)\<close>.\<close>

function split_sentences :: "bool \<Rightarrow> string \<Rightarrow> string \<Rightarrow> string list" where
  "split_sentences ended cur [] = [cur]"
| "split_sentences ended cur (c # cs) =
     (if ended \<and> is_blank c then cur # split_sentences False [] (dropWhile is_blank cs)
      else split_sentences (c \<in> set ''.!?'') (cur @ [c]) cs)"
  by pat_completeness auto
termination
  by (relation "measure (\<lambda>(e, cur, s). length s)") (auto intro: le_imp_less_Suc length_dropWhile_le)

fun build_summary :: "string \<Rightarrow> string list \<Rightarrow> string" where
  "build_summary summary [] = summary"
| "build_summary summary (s # ss) =
     (if summary = [] then build_summary (strip s) ss
      else if py_len summary + py_len s + 1 \<le> 280 then build_summary (summary @ '' '' @ strip s) ss
      else summary)"

definition summary_baseline :: "string \<Rightarrow> string \<Rightarrow> string" where
  "summary_baseline title body0 =
    (let body = strip body0 in
     if body = [] then (if strip title = [] then ''[no content]'' else strip title)
     else let summary = strip (py_take 280 (build_summary [] (split_sentences False [] body)))
          in if summary = [] then strip title else summary)"

definition structural_fact_check :: "(string \<Rightarrow> string) \<Rightarrow> string \<Rightarrow> string list \<Rightarrow> string" where
  "structural_fact_check nfkc body evidence =
    (let text = strip body in
     if text = [] then ''hold''
     else if has_sentinel text then ''hold''
     else if \<not> has_grounded_evidence nfkc evidence then ''hold''
     else ''pass'')"

section \<open>What the baselines guarantee\<close>

lemma collect_entities_bound: "length found < MAX_ENTITIES \<Longrightarrow> length (collect_entities found ms) \<le> MAX_ENTITIES"
  by (induction found ms rule: collect_entities.induct) (auto split: option.split)

lemma collect_entities_distinct:
  "distinct (map lower found) \<Longrightarrow> distinct (map lower (collect_entities found ms))"
  by (induction found ms rule: collect_entities.induct) (auto split: option.split)

text \<open>At most eight entities, no two of them equal up to case.\<close>

lemma entities_bounded_distinct:
  "length (extract_entities uword title body) \<le> MAX_ENTITIES"
  "distinct (map lower (extract_entities uword title body))"
  using collect_entities_bound [of "[]"] collect_entities_distinct [of "[]"]
  by (simp_all add: extract_entities_def Let_def MAX_ENTITIES_def)

text \<open>The theme is the first sector, and there are at most four, each with a keyword in the text.\<close>

lemma sectors_of_text:
  assumes "map_sectors title body = (theme, sectors)"
  shows "length sectors \<le> MAX_SECTORS" and "sectors \<noteq> [] \<Longrightarrow> theme = hd sectors" and "sectors = [] \<Longrightarrow> theme = ''general''"
    and "s \<in> set sectors \<Longrightarrow> \<exists>kws. (s, kws) \<in> set SECTOR_KEYWORDS \<and>
           (\<exists>kw \<in> set kws. contains kw (lower ('' '' @ title @ '' '' @ body @ '' '')))"
proof -
  define txt0 where "txt0 = lower ('' '' @ title @ '' '' @ body @ '' '')"
  let ?f = "\<lambda>(s, hits). (- int hits, s)"
  have m: "map_sectors title body = (if sector_hits txt0 = [] then (''general'', [])
      else (hd (map fst (take MAX_SECTORS (sort_key ?f (sector_hits txt0)))),
            map fst (take MAX_SECTORS (sort_key ?f (sector_hits txt0)))))"
    by (simp add: map_sectors_def txt0_def Let_def)
  have ne: "sector_hits txt0 \<noteq> [] \<Longrightarrow> take MAX_SECTORS (sort_key ?f (sector_hits txt0)) \<noteq> []"
    by (metis MAX_SECTORS_def length_0_conv length_sort take_eq_Nil zero_neq_numeral)
  show "length sectors \<le> MAX_SECTORS" "sectors \<noteq> [] \<Longrightarrow> theme = hd sectors" "sectors = [] \<Longrightarrow> theme = ''general''"
    using assms m ne by (auto split: if_splits)
  assume "s \<in> set sectors"
  then have "s \<in> fst ` set (sector_hits txt0)"
    using assms m by (fastforce split: if_splits dest: in_set_takeD)
  then obtain hits where "(s, hits) \<in> set (sector_hits txt0)" by auto
  then obtain kws where k: "(s, kws) \<in> set SECTOR_KEYWORDS" "filter (\<lambda>kw. contains kw txt0) kws \<noteq> []"
    by (auto simp: sector_hits_def)
  then show "\<exists>kws. (s, kws) \<in> set SECTOR_KEYWORDS \<and>
      (\<exists>kw \<in> set kws. contains kw (lower ('' '' @ title @ '' '' @ body @ '' '')))"
    unfolding txt0_def by (metis (no_types, lifting) filter_False)
qed

end
