(* ===== verification/Agents.thy ===== *)
theory Agents
  imports Baselines Queue
begin

text \<open>
  The agent pipeline: the LLM client (\<open>backend/app/services/llm_client.py\<close>), the tools and nodes of
  \<open>agents/\<close>, the graph that runs them in a line, and one message of the agent worker. The network, the
  OpenAI service, the vector search and the backend act on a state of type \<open>'s\<close> and may answer anything.
\<close>

section \<open>The LLM client\<close>

record impact_output =
  io_impact :: string
  io_horizon :: string
  io_confidence :: rat

record fact_check_output =
  fo_status :: string
  fo_reasoning :: string

record summary_output =
  so_summary :: string
  so_headline :: string

text \<open>The services the agents call, and the settings: validation is that of pydantic, \<open>raises\<close> any exception.\<close>

record 's agent_env =
  ae_llm_provider :: string
  ae_llm_model :: string
  ae_openai_key :: string
  ae_openai :: "string \<Rightarrow> ('s, string) act"
  ae_loads :: "string \<Rightarrow> json option"
  ae_valid_impact :: "json \<Rightarrow> impact_output option"
  ae_valid_fact_check :: "json \<Rightarrow> fact_check_output option"
  ae_valid_summary :: "json \<Rightarrow> summary_output option"
  ae_prompt_file :: "string \<Rightarrow> string res"
  ae_search_similar :: "string \<Rightarrow> string \<Rightarrow> ('s, (string \<times> string) list) act"
  ae_check_reachability :: bool
  ae_max_redirects :: int
  ae_resolver :: "'s resolver"
  ae_http :: "'s http_client"
  ae_nfkc :: "string \<Rightarrow> string"
  ae_uword :: "string \<Rightarrow> bool"
  ae_sha256 :: "string \<Rightarrow> string"
  ae_normalized_id :: string
  ae_card_id :: string

datatype llm_client = MockLLMClient | OpenAILLMClient

definition mock_complete :: "string \<Rightarrow> string" where
  "mock_complete prompt =
    (let p = lower prompt in
     if contains ''impact'' p then ''[mock] medium-term supply disruption risk''
     else if contains ''fact_check'' p \<or> contains ''fact check'' p then
       ''{\"status\":\"pass\",\"reasoning\":\"[mock] no contradictions\"}''
     else if contains ''summary'' p \<or> contains ''summarize'' p \<or> contains ''headline'' p then
       ''[mock] summary: '' @ py_take 40 prompt
     else ''[mock] response for prompt length='' @ nat_str (py_len prompt))"

definition create_llm_client :: "'s agent_env \<Rightarrow> llm_client res" where
  "create_llm_client env = (if ae_llm_provider env = ''openai'' then
       (if ae_openai_key env = [] then Inl (ValueError ''OPENAI_API_KEY is not set (len=0)'') else Inr OpenAILLMClient)
     else Inr MockLLMClient)"

definition complete :: "'s agent_env \<Rightarrow> llm_client \<Rightarrow> string \<Rightarrow> ('s, string) act" where
  "complete env client prompt = (case client of
      MockLLMClient \<Rightarrow> ret_act (mock_complete prompt)
    | OpenAILLMClient \<Rightarrow> ae_openai env prompt)"

text \<open>\<open>complete_json\<close>; the mock's own answer depends on the schema only.\<close>

definition complete_json ::
  "'s agent_env \<Rightarrow> llm_client \<Rightarrow> (json \<Rightarrow> 'a option) \<Rightarrow> 'a \<Rightarrow> string \<Rightarrow> ('s, 'a option) act" where
  "complete_json env client validate mock prompt = (case client of
      MockLLMClient \<Rightarrow> ret_act (Some mock)
    | OpenAILLMClient \<Rightarrow> try_act
        (bind_act (complete env client prompt) (\<lambda>raw.
          ret_act (case ae_loads env raw of None \<Rightarrow> None | Some data \<Rightarrow> validate data)))
        (\<lambda>_. ret_act None))"

definition MOCK_IMPACT :: impact_output where
  "MOCK_IMPACT = \<lparr>io_impact = ''[mock] medium-term supply disruption risk'', io_horizon = ''medium'', io_confidence = 3 / 4\<rparr>"

definition MOCK_FACT_CHECK :: fact_check_output where
  "MOCK_FACT_CHECK = \<lparr>fo_status = ''pass'', fo_reasoning = ''[mock] no contradictions''\<rparr>"

definition MOCK_SUMMARY :: summary_output where
  "MOCK_SUMMARY = \<lparr>so_summary = ''[mock summary] event details'', so_headline = ''[mock headline]''\<rparr>"

section \<open>Tools\<close>

text \<open>\<open>template.format(...)\<close> for fields \<open>{name}\<close> without conversions, as in the prompt files.\<close>

function py_format :: "(string, string) dict \<Rightarrow> string \<Rightarrow> string res" where
  "py_format args [] = Inr []"
| "py_format args (c # cs) =
     (if c = CHR ''{'' then
        (if startswith cs ''{'' then bind_res (py_format args (tl cs)) (\<lambda>t. Inr (CHR ''{'' # t))
         else if CHR ''}'' \<notin> set cs then Inl (ValueError ''expected '' )
         else case dict_get args (before CHR ''}'' cs) of
             None \<Rightarrow> Inl (KeyError (before CHR ''}'' cs))
           | Some v \<Rightarrow> bind_res (py_format args (after CHR ''}'' cs)) (\<lambda>t. Inr (v @ t)))
      else if c = CHR ''}'' then
        (if startswith cs ''}'' then bind_res (py_format args (tl cs)) (\<lambda>t. Inr (CHR ''}'' # t))
         else Inl (ValueError ''Single } encountered in format string''))
      else bind_res (py_format args cs) (\<lambda>t. Inr (c # t)))"
  by pat_completeness auto
termination
  by (relation "measure (\<lambda>(args, s). length s)")
    (auto simp: after_def le_diff_conv less_Suc_eq_le intro: le_SucI length_dropWhile_le)

text \<open>A tool formats its prompt, asks the client, and falls back when there is no valid answer.\<close>

definition ask_llm ::
  "'s agent_env \<Rightarrow> string \<Rightarrow> (string, string) dict \<Rightarrow> (json \<Rightarrow> 'a option) \<Rightarrow> 'a \<Rightarrow> 'a \<Rightarrow> ('s, 'a) act" where
  "ask_llm env name args validate mock fallback =
    bind_act (lift_res (bind_res (ae_prompt_file env name) (py_format args))) (\<lambda>prompt.
    bind_act (lift_res (create_llm_client env)) (\<lambda>client.
    bind_act (complete_json env client validate mock prompt) (\<lambda>result.
      ret_act (case result of None \<Rightarrow> fallback | Some out \<Rightarrow> out))))"

definition or_else :: "string list \<Rightarrow> string \<Rightarrow> string \<Rightarrow> string" where
  "or_else xs sep none = (if xs = [] then none else str_join sep xs)"

definition analyze_impact :: "'s agent_env \<Rightarrow> string \<Rightarrow> string \<Rightarrow> string \<Rightarrow> string list \<Rightarrow> ('s, impact_output) act" where
  "analyze_impact env title body theme sectors =
    ask_llm env ''impact_analysis''
      [(''title'', title), (''body'', body), (''theme'', theme), (''sectors'', or_else sectors '', '' ''unknown'')]
      (ae_valid_impact env) MOCK_IMPACT
      \<lparr>io_impact = ''[fallback] medium-term supply disruption risk'', io_horizon = ''medium'', io_confidence = 1 / 2\<rparr>"

definition fact_check_claims :: "'s agent_env \<Rightarrow> string \<Rightarrow> string \<Rightarrow> string list \<Rightarrow> ('s, fact_check_output) act" where
  "fact_check_claims env title body evidence =
    ask_llm env ''fact_check''
      [(''title'', title), (''body'', body), (''evidence'', or_else evidence [nl] ''No supporting evidence provided.'')]
      (ae_valid_fact_check env) MOCK_FACT_CHECK
      \<lparr>fo_status = ''pass'', fo_reasoning = ''[fallback] no contradictions''\<rparr>"

definition fallback_summary :: "string \<Rightarrow> string \<Rightarrow> summary_output" where
  "fallback_summary title body = \<lparr>so_summary = ''[fallback summary] '' @ py_take 120 body,
     so_headline = ''[fallback] '' @ py_take 60 title\<rparr>"

definition summarize_event :: "'s agent_env \<Rightarrow> string \<Rightarrow> string \<Rightarrow> ('s, summary_output) act" where
  "summarize_event env title body =
    ask_llm env ''summarize_event'' [(''title'', title), (''body'', body)]
      (ae_valid_summary env) MOCK_SUMMARY (fallback_summary title body)"

definition write_final_card ::
  "'s agent_env \<Rightarrow> string \<Rightarrow> string \<Rightarrow> string list \<Rightarrow> string \<Rightarrow> string list \<Rightarrow> ('s, summary_output) act" where
  "write_final_card env title body entities theme past_context =
    ask_llm env ''final_card_writer''
      [(''title'', title), (''body'', body), (''entities'', or_else entities '', '' ''none''), (''theme'', theme),
       (''past_context'', or_else past_context [nl] ''none'')]
      (ae_valid_summary env) MOCK_SUMMARY (fallback_summary title body)"

section \<open>The state of the graph\<close>

record normalized_event =
  ne_id :: string
  ne_source :: string
  ne_title :: string
  ne_body :: string
  ne_occurred_at :: datetime
  ne_language :: string
  ne_hash :: string

record final_card =
  fc_id :: string
  fc_title :: string
  fc_summary :: string
  fc_theme :: string
  fc_sectors :: "string list"
  fc_entities :: "string list"
  fc_impact_path :: string
  fc_evidence :: "string list"
  fc_confidence_score :: rat
  fc_status :: string

record event_state =
  es_raw :: raw_event
  es_raw_event_id :: "string option"
  es_normalized :: "normalized_event option"
  es_dedupe_key :: "string option"
  es_entities :: "string list"
  es_theme :: string
  es_sectors :: "string list"
  es_past_context :: "string list"
  es_retrieved_context :: "(string \<times> string) list"
  es_impact :: string
  es_evidence :: "string list"
  es_evidence_status :: "string option"
  es_fact_check :: string
  es_final_card :: "final_card option"
  es_status :: string
  es_llm_provider :: string
  es_llm_errors :: "string list"
  es_model_used :: "string option"

text \<open>The title and the body of the normalized event, empty without one.\<close>

definition norm_field :: "(normalized_event \<Rightarrow> string) \<Rightarrow> event_state \<Rightarrow> string" where
  "norm_field f st = (case es_normalized st of None \<Rightarrow> [] | Some n \<Rightarrow> f n)"

definition body_or_raw :: "event_state \<Rightarrow> string" where
  "body_or_raw st = (if norm_field ne_body st \<noteq> [] then norm_field ne_body st else rw_raw_text (es_raw st))"

definition log_error :: "string \<Rightarrow> py_exn \<Rightarrow> event_state \<Rightarrow> event_state" where
  "log_error node e st = st\<lparr>es_llm_errors := es_llm_errors st @ [node @ '': '' @ exn_name e @ '': '' @ exn_str e]\<rparr>"

section \<open>The nodes\<close>

definition source_parse :: "'s agent_env \<Rightarrow> event_state \<Rightarrow> event_state" where
  "source_parse env st =
    (let raw = es_raw st in
     st\<lparr>es_normalized := Some \<lparr>ne_id = ae_normalized_id env, ne_source = rw_source raw,
          ne_title = strip (py_take 80 (rw_raw_text raw)), ne_body = rw_raw_text raw,
          ne_occurred_at = rw_fetched_at raw, ne_language = ''en'',
          ne_hash = take 16 (ae_sha256 env (rw_raw_text raw))\<rparr>\<rparr>)"

definition normalize_event :: "event_state \<Rightarrow> event_state" where
  "normalize_event st = st"

definition deduplicate_event :: "event_state \<Rightarrow> event_state" where
  "deduplicate_event st = st\<lparr>es_dedupe_key := Some (case es_normalized st of Some n \<Rightarrow> ne_hash n | None \<Rightarrow> ''unknown'')\<rparr>"

definition entity_linking :: "'s agent_env \<Rightarrow> event_state \<Rightarrow> event_state" where
  "entity_linking env st = st\<lparr>es_entities := extract_entities (ae_uword env) (norm_field ne_title st) (body_or_raw st)\<rparr>"

definition theme_sector_mapping :: "event_state \<Rightarrow> event_state" where
  "theme_sector_mapping st = (case map_sectors (norm_field ne_title st) (body_or_raw st) of
      (theme, sectors) \<Rightarrow> st\<lparr>es_theme := theme, es_sectors := sectors\<rparr>)"

definition retrieve_past_context :: "'s agent_env \<Rightarrow> event_state \<Rightarrow> ('s, event_state) act" where
  "retrieve_past_context env st = (case es_normalized st of
      None \<Rightarrow> ret_act (st\<lparr>es_past_context := [], es_retrieved_context := []\<rparr>)
    | Some n \<Rightarrow> try_act
        (bind_act (ae_search_similar env (ne_title n @ [nl] @ py_take 500 (ne_body n)) (ne_id n)) (\<lambda>hits.
           ret_act (st\<lparr>es_past_context := map (\<lambda>(title, summary). title @ '': '' @ py_take 200 summary) hits,
                       es_retrieved_context := hits\<rparr>)))
        (\<lambda>exc. ret_act (st\<lparr>es_past_context := [''[fallback-context]''], es_retrieved_context := [],
           es_llm_errors := es_llm_errors st @ [''retrieve_past_context: '' @ exn_str exc]\<rparr>)))"

definition impact_analysis :: "'s agent_env \<Rightarrow> event_state \<Rightarrow> ('s, event_state) act" where
  "impact_analysis env st = (case es_normalized st of
      None \<Rightarrow> ret_act (st\<lparr>es_impact := ''[skip] no normalized event''\<rparr>)
    | Some n \<Rightarrow>
        if ae_llm_provider env = ''openai'' then
          try_act
            (bind_act (analyze_impact env (ne_title n) (ne_body n) (es_theme st) (es_sectors st)) (\<lambda>result.
               ret_act (if contains_mock_sentinel [io_impact result]
                        then st\<lparr>es_impact := impact_baseline (es_sectors st)\<rparr>
                        else st\<lparr>es_impact := io_impact result\<rparr>)))
            (\<lambda>e. ret_act (log_error ''impact_analysis'' e (st\<lparr>es_impact := impact_baseline (es_sectors st)\<rparr>)))
        else ret_act (st\<lparr>es_impact := impact_baseline (es_sectors st)\<rparr>))"

definition evidence_check :: "'s agent_env \<Rightarrow> event_state \<Rightarrow> ('s, event_state) act" where
  "evidence_check env st =
    (let url = rw_url (es_raw st) in
     if \<not> is_valid_evidence_url (ae_nfkc env) url then
       ret_act (st\<lparr>es_evidence := [], es_evidence_status := Some ''invalid''\<rparr>)
     else if \<not> ae_check_reachability env then
       ret_act (st\<lparr>es_evidence := [url], es_evidence_status := Some ''structural_ok''\<rparr>)
     else bind_act (check_evidence_reachable (ae_nfkc env) (ae_resolver env) (ae_http env) (ae_max_redirects env) url)
       (\<lambda>result. ret_act (if rr_reachable result
          then st\<lparr>es_evidence := [url], es_evidence_status := Some ''reachable_ok''\<rparr>
          else st\<lparr>es_evidence := [], es_evidence_status := Some (''unreachable:'' @ rr_status result)\<rparr>)))"

definition fact_check :: "'s agent_env \<Rightarrow> event_state \<Rightarrow> ('s, event_state) act" where
  "fact_check env st =
    (let structural = structural_fact_check (ae_nfkc env) (norm_field ne_body st) (es_evidence st) in
     case es_normalized st of
       Some n \<Rightarrow>
         if ae_llm_provider env = ''openai'' \<and> structural = ''pass'' then
           try_act
             (bind_act (fact_check_claims env (ne_title n) (ne_body n) (es_evidence st)) (\<lambda>result.
                ret_act (st\<lparr>es_fact_check := (if fo_status result \<noteq> ''pass'' then ''hold'' else ''pass'')\<rparr>)))
             (\<lambda>e. ret_act (log_error ''fact_check'' e (st\<lparr>es_fact_check := structural\<rparr>)))
         else ret_act (st\<lparr>es_fact_check := structural\<rparr>)
     | None \<Rightarrow> ret_act (st\<lparr>es_fact_check := structural\<rparr>))"

definition final_summary :: "'s agent_env \<Rightarrow> event_state \<Rightarrow> ('s, event_state \<times> string) act" where
  "final_summary env st =
    (let title = norm_field ne_title st; body = norm_field ne_body st; summary = summary_baseline title body in
     if ae_llm_provider env = ''openai'' then
       try_act
         (bind_act (write_final_card env title body (es_entities st) (es_theme st) (es_past_context st)) (\<lambda>out.
            ret_act (st, if \<not> contains_mock_sentinel [so_summary out] then so_summary out else summary)))
         (\<lambda>e. ret_act (log_error ''final_card_writer'' e st, summary))
     else ret_act (st, summary))"

definition final_card_writer :: "'s agent_env \<Rightarrow> event_state \<Rightarrow> ('s, event_state) act" where
  "final_card_writer env st0 =
    bind_act (final_summary env st0) (\<lambda>(st, summary).
      let title = norm_field ne_title st in
      ret_act (st\<lparr>es_final_card := Some \<lparr>fc_id = ae_card_id env,
        fc_title = (if title \<noteq> [] then title else ''[no title]''), fc_summary = summary, fc_theme = es_theme st,
        fc_sectors = es_sectors st, fc_entities = es_entities st, fc_impact_path = es_impact st,
        fc_evidence = es_evidence st, fc_confidence_score = 3 / 4, fc_status = ''hold''\<rparr>\<rparr>))"

definition CORROBORATION_REQUIRED_POLICIES :: "string list" where
  "CORROBORATION_REQUIRED_POLICIES =
    [''unconfirmed_until_corroborated'', ''internal_queue_only'', ''publish_blocked_until_corrob'']"

text \<open>A list or an object is not hashable: asking whether it is in the set raises.\<close>

definition requires_corroboration :: "event_state \<Rightarrow> bool res" where
  "requires_corroboration st =
    (let meta = rw_raw_metadata (es_raw st) in
     case dict_get meta ''confirmation_policy'' of
       Some (JList _) \<Rightarrow> Inl TypeError
     | Some (JObj _) \<Rightarrow> Inl TypeError
     | Some (JStr policy) \<Rightarrow> Inr (policy \<in> set CORROBORATION_REQUIRED_POLICIES \<or>
         dict_get meta ''corroboration_required'' = Some (JBool True))
     | _ \<Rightarrow> Inr (dict_get meta ''corroboration_required'' = Some (JBool True)))"

definition has_body :: "event_state \<Rightarrow> bool" where
  "has_body st \<longleftrightarrow> strip (norm_field ne_body st) \<noteq> []"

definition set_status :: "string \<Rightarrow> event_state \<Rightarrow> event_state" where
  "set_status status st =
    st\<lparr>es_final_card := map_option (fc_status_update (\<lambda>_. status)) (es_final_card st), es_status := status\<rparr>"

definition card_texts :: "event_state \<Rightarrow> string list" where
  "card_texts st = (case es_final_card st of
      None \<Rightarrow> [[], [], es_impact st]
    | Some c \<Rightarrow> [fc_summary c, fc_impact_path c] @ fc_entities c @ [es_impact st])"

definition publish_or_hold :: "'s agent_env \<Rightarrow> event_state \<Rightarrow> event_state res" where
  "publish_or_hold env st =
    bind_res (requires_corroboration st) (\<lambda>corroborate.
      if corroborate then Inr (set_status ''hold'' st)
      else
        let publishable = es_fact_check st = ''pass'' \<and> has_grounded_evidence (ae_nfkc env) (es_evidence st) \<and>
              has_body st \<and> \<not> contains_mock_sentinel (card_texts st)
        in Inr (set_status (if publishable then ''published'' else ''hold'') st))"

section \<open>The graph\<close>

definition initial_state :: "'s agent_env \<Rightarrow> raw_event \<Rightarrow> event_state" where
  "initial_state env raw = \<lparr>es_raw = raw, es_raw_event_id = rw_raw_event_id raw, es_normalized = None, es_dedupe_key = None,
     es_entities = [], es_theme = [], es_sectors = [], es_past_context = [], es_retrieved_context = [], es_impact = [],
     es_evidence = [], es_evidence_status = None, es_fact_check = [], es_final_card = None, es_status = [],
     es_llm_provider = ae_llm_provider env, es_llm_errors = [],
     es_model_used = (if ae_llm_provider env = ''openai'' then Some (ae_llm_model env) else None)\<rparr>"

text \<open>The edges of the graph, up to the card and then the gate.\<close>

definition graph_to_evidence :: "'s agent_env \<Rightarrow> raw_event \<Rightarrow> ('s, event_state) act" where
  "graph_to_evidence env raw =
    bind_act (retrieve_past_context env (theme_sector_mapping (entity_linking env (deduplicate_event
      (normalize_event (source_parse env (initial_state env raw))))))) (\<lambda>st.
    bind_act (impact_analysis env st) (\<lambda>st. evidence_check env st))"

definition run_graph :: "'s agent_env \<Rightarrow> raw_event \<Rightarrow> ('s, final_card) act" where
  "run_graph env raw =
    bind_act (graph_to_evidence env raw) (\<lambda>st.
    bind_act (fact_check env st) (\<lambda>st.
    bind_act (final_card_writer env st) (\<lambda>st.
    bind_act (lift_res (publish_or_hold env st)) (\<lambda>st.
      case es_final_card st of
        None \<Rightarrow> raise_act (RuntimeError ''EventProcessingGraph produced no final_card'')
      | Some c \<Rightarrow> ret_act c))))"

section \<open>The worker\<close>

definition AGENT_GROUP :: string where "AGENT_GROUP = ''group:agent''"

text \<open>The backend as the worker sees it: a call gives the status of the response or raises.\<close>

record 's agent_io =
  ai_post_card :: "final_card \<Rightarrow> ('s, int) act"
  ai_patch :: "string \<Rightarrow> string \<Rightarrow> string option \<Rightarrow> string option \<Rightarrow> ('s, int) act"
  ai_transport_error :: "py_exn \<Rightarrow> bool"
  ai_stream :: "'s stream_client"

definition HTTP_STATUS_ERROR :: py_exn where "HTTP_STATUS_ERROR = ExternalError ''HTTPStatusError''"

definition raise_for_status :: "int \<Rightarrow> ('s, unit) act" where
  "raise_for_status code = (if 200 \<le> code \<and> code < 300 then ret_act () else raise_act HTTP_STATUS_ERROR)"

definition publish_card :: "'s agent_io \<Rightarrow> final_card \<Rightarrow> ('s, bool) act" where
  "publish_card io c = try_act
     (bind_act (ai_post_card io c) (\<lambda>code. bind_act (raise_for_status code) (\<lambda>_. ret_act True)))
     (\<lambda>_. ret_act False)"

text \<open>Up to three attempts, on transport and status errors only.\<close>

fun patch_status :: "'s agent_io \<Rightarrow> nat \<Rightarrow> string \<Rightarrow> string \<Rightarrow> string option \<Rightarrow> string option \<Rightarrow> ('s, unit) act" where
  "patch_status io 0 rid status reason card_id = raise_act (ExternalError ''RetryError'')"
| "patch_status io (Suc k) rid status reason card_id =
     try_act (bind_act (ai_patch io rid status reason card_id) raise_for_status)
       (\<lambda>e. if ai_transport_error io e \<or> e = HTTP_STATUS_ERROR then patch_status io k rid status reason card_id
            else raise_act e)"

definition notify_status ::
  "'s agent_io \<Rightarrow> string option \<Rightarrow> string \<Rightarrow> string option \<Rightarrow> string option \<Rightarrow> ('s, unit) act" where
  "notify_status io rid status reason card_id = (case rid of
      None \<Rightarrow> ret_act ()
    | Some i \<Rightarrow> try_act (patch_status io 3 i status reason card_id) (\<lambda>_. ret_act ()))"

definition entry_id :: "fields \<Rightarrow> string option" where
  "entry_id f = non_empty (get_or f ''raw_event_id'' [])"

definition process_entry ::
  "'s agent_env \<Rightarrow> 's agent_io \<Rightarrow> datetime \<Rightarrow> fields \<Rightarrow> ('s, unit) act" where
  "process_entry env io utcnow f =
    bind_act (lift_res (parse_message (ae_loads env) utcnow f)) (\<lambda>raw.
    bind_act (run_graph env raw) (\<lambda>c.
    bind_act (publish_card io c) (\<lambda>_.
      notify_status io (entry_id f) ''processed'' None (Some (fc_id c)))))"

definition handle_entry ::
  "'s agent_env \<Rightarrow> 's agent_io \<Rightarrow> datetime \<Rightarrow> string \<times> fields \<Rightarrow> ('s, unit) act" where
  "handle_entry env io utcnow = (\<lambda>(msg_id, f).
     bind_act (try_act (process_entry env io utcnow f)
         (\<lambda>exc. notify_status io (entry_id f) ''failed'' (Some (py_take 500 (exn_str exc))) None))
       (\<lambda>_. sc_xack (ai_stream io) TO_AGENT_STREAM AGENT_GROUP msg_id))"

fun handle_entries ::
  "'s agent_env \<Rightarrow> 's agent_io \<Rightarrow> datetime \<Rightarrow> (string \<times> fields) list \<Rightarrow> ('s, unit) act" where
  "handle_entries env io utcnow [] = ret_act ()"
| "handle_entries env io utcnow (m # ms) =
     bind_act (handle_entry env io utcnow m) (\<lambda>_. handle_entries env io utcnow ms)"

section \<open>What each node keeps\<close>

definition same_source :: "event_state \<Rightarrow> event_state \<Rightarrow> bool" where
  "same_source st st' \<longleftrightarrow> es_raw st' = es_raw st \<and> es_normalized st' = es_normalized st"

lemma same_source_trans: "same_source a b \<Longrightarrow> same_source b c \<Longrightarrow> same_source a c"
  by (simp add: same_source_def)

lemma retrieve_keeps: "retrieve_past_context env st s = (r, s') \<Longrightarrow> \<exists>st'. r = Inr st' \<and> same_source st st'"
  by (auto simp: retrieve_past_context_def same_source_def split: option.splits elim!: try_act_cases bind_act_cases)

lemma impact_keeps: "impact_analysis env st s = (r, s') \<Longrightarrow> \<exists>st'. r = Inr st' \<and> same_source st st'"
  by (auto simp: impact_analysis_def same_source_def log_error_def split: option.splits if_splits
      elim!: try_act_cases bind_act_cases)

text \<open>The evidence is the URL of the event, valid and, when asked for, reachable; or there is none.\<close>

definition grounded :: "'s agent_env \<Rightarrow> string \<Rightarrow> bool" where
  "grounded env url \<longleftrightarrow> is_valid_evidence_url (ae_nfkc env) url \<and>
     (ae_check_reachability env \<longrightarrow> (\<exists>s s' r. check_evidence_reachable (ae_nfkc env) (ae_resolver env) (ae_http env)
        (ae_max_redirects env) url s = (Inr r, s') \<and> rr_reachable r))"

lemma evidence_keeps:
  "evidence_check env st s = (Inr st', s') \<Longrightarrow> same_source st st' \<and>
     (es_evidence st' = [] \<or> es_evidence st' = [rw_url (es_raw st)] \<and> grounded env (rw_url (es_raw st)))"
  by (auto simp: evidence_check_def same_source_def grounded_def Let_def split: if_splits elim!: bind_act_cases) blast

lemma fact_check_keeps:
  "fact_check env st s = (r, s') \<Longrightarrow> \<exists>st'. r = Inr st' \<and> same_source st st' \<and> es_evidence st' = es_evidence st \<and>
     (es_fact_check st' = ''pass'' \<longrightarrow> structural_fact_check (ae_nfkc env) (norm_field ne_body st) (es_evidence st) = ''pass'')"
  by (auto simp: fact_check_def same_source_def log_error_def Let_def split: option.splits if_splits
      elim!: try_act_cases bind_act_cases)

lemma final_summary_keeps:
  "final_summary env st s = (r, s') \<Longrightarrow> \<exists>st' t. r = Inr (st', t) \<and> same_source st st' \<and>
     es_evidence st' = es_evidence st \<and> es_fact_check st' = es_fact_check st \<and> es_entities st' = es_entities st"
  by (auto simp: final_summary_def same_source_def log_error_def Let_def split: option.splits if_splits
      elim!: try_act_cases bind_act_cases)

lemma final_card_keeps:
  assumes "final_card_writer env st s = (r, s')"
  shows "\<exists>st' c. r = Inr st' \<and> same_source st st' \<and> es_evidence st' = es_evidence st \<and>
     es_fact_check st' = es_fact_check st \<and> es_final_card st' = Some c \<and> fc_evidence c = es_evidence st \<and>
     fc_impact_path c = es_impact st' \<and> fc_status c = ''hold''"
  using assms unfolding final_card_writer_def
  by (auto simp: Let_def same_source_def dest!: final_summary_keeps elim!: bind_act_cases)

lemma publish_or_hold_published:
  assumes "publish_or_hold env st = Inr st'" "es_final_card st = Some c" "fc_status c = ''hold''"
    and "es_final_card st' = Some c'" "fc_status c' = ''published''"
  shows "requires_corroboration st = Inr False \<and> es_fact_check st = ''pass'' \<and> has_body st \<and>
     has_grounded_evidence (ae_nfkc env) (es_evidence st) \<and> \<not> contains_mock_sentinel (card_texts st) \<and>
     c' = fc_status_update (\<lambda>_. ''published'') c"
  using assms by (auto simp: publish_or_hold_def set_status_def Let_def bind_res_def split: sum.splits if_splits)

lemma structural_pass:
  "structural_fact_check nfkc body evidence = ''pass'' \<Longrightarrow>
   strip body \<noteq> [] \<and> \<not> has_sentinel (strip body) \<and> has_grounded_evidence nfkc evidence"
  by (auto simp: structural_fact_check_def Let_def split: if_splits)

text \<open>The event that reaches the gate.\<close>

lemma graph_to_evidence_keeps:
  assumes "graph_to_evidence env raw s = (Inr st, s')"
  shows "es_raw st = raw" "norm_field ne_body st = rw_raw_text raw"
    "es_evidence st = [] \<or> es_evidence st = [rw_url raw] \<and> grounded env (rw_url raw)"
proof -
  let ?st0 = "theme_sector_mapping (entity_linking env (deduplicate_event (normalize_event
      (source_parse env (initial_state env raw)))))"
  have z: "es_raw ?st0 = raw" "norm_field ne_body ?st0 = rw_raw_text raw"
    by (simp_all add: theme_sector_mapping_def entity_linking_def deduplicate_event_def normalize_event_def
        source_parse_def initial_state_def norm_field_def Let_def split: prod.split)
  from assms obtain st1 s1 st2 s2 where
    "retrieve_past_context env ?st0 s = (Inr st1, s1)" "impact_analysis env st1 s1 = (Inr st2, s2)"
    "evidence_check env st2 s2 = (Inr st, s')"
    unfolding graph_to_evidence_def by (auto elim!: bind_act_cases)
  note parts = this
  have st1: "same_source ?st0 st1" using retrieve_keeps [OF parts(1)] by simp
  have st2: "same_source st1 st2" using impact_keeps [OF parts(2)] by simp
  note e = evidence_keeps [OF parts(3)]
  have "same_source ?st0 st2" using st1 st2 by (rule same_source_trans)
  with e have "same_source ?st0 st" "same_source ?st0 st2" using same_source_trans by blast+
  with z e show "es_raw st = raw" "norm_field ne_body st = rw_raw_text raw"
    "es_evidence st = [] \<or> es_evidence st = [rw_url raw] \<and> grounded env (rw_url raw)"
    by (auto simp: same_source_def norm_field_def)
qed

definition needs_corroboration :: "raw_event \<Rightarrow> bool" where
  "needs_corroboration raw \<longleftrightarrow>
     (\<exists>p \<in> set CORROBORATION_REQUIRED_POLICIES. dict_get (rw_raw_metadata raw) ''confirmation_policy'' = Some (JStr p)) \<or>
     dict_get (rw_raw_metadata raw) ''corroboration_required'' = Some (JBool True)"

lemma not_corroborated: "requires_corroboration st = Inr False \<Longrightarrow> \<not> needs_corroboration (es_raw st)"
  by (auto simp: requires_corroboration_def needs_corroboration_def Let_def split: option.splits json.splits)

lemma run_graph_published:
  assumes run: "run_graph env raw s = (Inr c, s')" and pub: "fc_status c = ''published''"
  shows "\<not> needs_corroboration raw \<and> fc_evidence c = [rw_url raw] \<and> grounded env (rw_url raw) \<and>
     strip (rw_raw_text raw) \<noteq> [] \<and> \<not> has_sentinel (strip (rw_raw_text raw)) \<and>
     \<not> contains_mock_sentinel (fc_summary c # fc_impact_path c # fc_entities c)"
proof -
  from run obtain st1 s1 st2 s2 st3 st4 where
    g: "graph_to_evidence env raw s = (Inr st1, s1)" and f: "fact_check env st1 s1 = (Inr st2, s2)"
    and w: "final_card_writer env st2 s2 = (Inr st3, s')" and p: "publish_or_hold env st3 = Inr st4"
    and c: "es_final_card st4 = Some c"
    unfolding run_graph_def by (auto elim!: bind_act_cases split: option.splits)
  note k1 = graph_to_evidence_keeps [OF g]
  from fact_check_keeps [OF f] have k2: "same_source st1 st2" "es_evidence st2 = es_evidence st1"
    "es_fact_check st2 = ''pass'' \<longrightarrow> structural_fact_check (ae_nfkc env) (norm_field ne_body st1) (es_evidence st1) = ''pass''"
    by blast+
  from final_card_keeps [OF w] obtain c0 where k3: "same_source st2 st3" "es_evidence st3 = es_evidence st2"
    "es_fact_check st3 = es_fact_check st2" "es_final_card st3 = Some c0" "fc_evidence c0 = es_evidence st2"
    "fc_impact_path c0 = es_impact st3" "fc_status c0 = ''hold''"
    by blast
  from publish_or_hold_published [OF p k3(4) k3(7) c pub] have k4: "requires_corroboration st3 = Inr False"
    "es_fact_check st3 = ''pass''" "\<not> contains_mock_sentinel (card_texts st3)"
    "c = fc_status_update (\<lambda>_. ''published'') c0"
    by blast+
  have raw: "es_raw st3 = raw" using k1(1) k2(1) k3(1) by (simp add: same_source_def)
  have st: "strip (rw_raw_text raw) \<noteq> [] \<and> \<not> has_sentinel (strip (rw_raw_text raw)) \<and>
      has_grounded_evidence (ae_nfkc env) (es_evidence st1)"
    using structural_pass k1(2) k2(3) k3(3) k4(2) by metis
  then have "es_evidence st1 \<noteq> []" by (auto simp: has_grounded_evidence_def)
  with k1(3) have ev: "es_evidence st1 = [rw_url raw]" "grounded env (rw_url raw)" by blast+
  have "\<not> contains_mock_sentinel (fc_summary c # fc_impact_path c # fc_entities c)"
    using k4(3,4) k3(4) by (simp add: card_texts_def contains_mock_sentinel_def)
  moreover have "fc_evidence c = [rw_url raw]" using k4(4) k3(5) k2(2) ev by simp
  moreover have "\<not> needs_corroboration raw" using not_corroborated [OF k4(1)] raw by simp
  ultimately show ?thesis using st ev by blast
qed

lemma notify_total: "\<exists>s'. notify_status io rid status reason card_id s = (Inr (), s')"
proof -
  obtain r s' where "notify_status io rid status reason card_id s = (r, s')" by (meson surj_pair)
  then show ?thesis by (auto simp: notify_status_def split: option.splits elim: try_act_cases)
qed

lemma publish_total: "\<exists>b s'. publish_card io c s = (Inr b, s')"
proof -
  obtain r s' where "publish_card io c s = (r, s')" by (meson surj_pair)
  then show ?thesis unfolding publish_card_def
    by (cases rule: try_act_cases) (auto simp: publish_card_def try_act_def split: sum.split prod.split)
qed

section \<open>Examples\<close>

text \<open>A run without LLM and network, and a backend that refuses every card; the state logs what is done.\<close>

definition no_uword :: "string \<Rightarrow> bool" where "no_uword cp = False"

definition demo_env :: "'s agent_env" where
  "demo_env = \<lparr>ae_llm_provider = ''mock'', ae_llm_model = ''gpt-4o-mini'', ae_openai_key = [],
     ae_openai = (\<lambda>_. raise_act TypeError), ae_loads = ref_loads, ae_valid_impact = (\<lambda>_. None),
     ae_valid_fact_check = (\<lambda>_. None), ae_valid_summary = (\<lambda>_. None), ae_prompt_file = (\<lambda>_. Inr []),
     ae_search_similar = (\<lambda>_ _. ret_act []), ae_check_reachability = False, ae_max_redirects = 3,
     ae_resolver = (\<lambda>_. raise_act TypeError), ae_http = (\<lambda>_ _. raise_act TypeError), ae_nfkc = ascii_nfkc,
     ae_uword = no_uword, ae_sha256 = (\<lambda>_. ''0123456789abcdef''), ae_normalized_id = ''n1'', ae_card_id = ''c1''\<rparr>"

definition demo_raw :: "string \<Rightarrow> raw_event" where
  "demo_raw txt = \<lparr>rw_source = ''rss'', rw_url = SITE_URL, rw_fetched_at = utc 1500000, rw_raw_text = txt,
     rw_raw_metadata = [], rw_raw_event_id = Some ''r1''\<rparr>"

definition demo_io :: "string list agent_io" where
  "demo_io = \<lparr>ai_post_card = (\<lambda>_ l. (Inr 503, l @ [''post''])),
     ai_patch = (\<lambda>rid status reason card_id l. (Inr 200, l @ [status])), ai_transport_error = (\<lambda>_. False),
     ai_stream = \<lparr>sc_xadd = (\<lambda>_ _. ret_act []), sc_xack = (\<lambda>_ _ i l. (Inr (), l @ [''ack''])),
       sc_xautoclaim = (\<lambda>_ _ _ _ _ _. ret_act ([], []))\<rparr>\<rparr>"

lemma demo_run:
  assumes e: "extract_entities no_uword (strip (py_take 80 txt)) txt = []"
    and m: "map_sectors (strip (py_take 80 txt)) txt = (''general'', [])"
    and b: "summary_baseline (strip (py_take 80 txt)) txt = summary" "\<not> has_sentinel summary"
    and t: "txt \<noteq> []" "strip txt \<noteq> []" "\<not> has_sentinel (strip txt)"
  shows "run_graph demo_env (demo_raw txt) s = (Inr \<lparr>fc_id = ''c1'',
     fc_title = (if strip (py_take 80 txt) \<noteq> [] then strip (py_take 80 txt) else ''[no title]''), fc_summary = summary,
     fc_theme = ''general'', fc_sectors = [], fc_entities = [], fc_impact_path = impact_baseline [],
     fc_evidence = [SITE_URL], fc_confidence_score = 3 / 4, fc_status = ''published''\<rparr>, s)"
proof -
  have i: "\<not> has_sentinel (impact_baseline [])" by code_simp
  have sf: "structural_fact_check ascii_nfkc txt [SITE_URL] = ''pass''"
    using t by (simp add: structural_fact_check_def has_grounded_evidence_def site_url_valid)
  have gr: "has_grounded_evidence ascii_nfkc [SITE_URL]" by (simp add: has_grounded_evidence_def site_url_valid)
  show ?thesis
    using assms i sf gr
    by (simp add: run_graph_def graph_to_evidence_def bind_act_def try_act_def retrieve_past_context_def impact_analysis_def
        evidence_check_def fact_check_def final_card_writer_def final_summary_def publish_or_hold_def set_status_def
        requires_corroboration_def has_body_def card_texts_def contains_mock_sentinel_def theme_sector_mapping_def
        entity_linking_def body_or_raw_def deduplicate_event_def normalize_event_def source_parse_def initial_state_def
        norm_field_def demo_env_def demo_raw_def site_url_valid Let_def)
qed

definition ok_text :: string where "ok_text = ''ok.''"
definition padded_text :: string where "padded_text = replicate 80 CHR '' '' @ ''ok.''"

definition published_demo :: "string \<Rightarrow> final_card" where
  "published_demo title = \<lparr>fc_id = ''c1'', fc_title = title, fc_summary = ok_text, fc_theme = ''general'', fc_sectors = [],
     fc_entities = [], fc_impact_path = impact_baseline [], fc_evidence = [SITE_URL], fc_confidence_score = 3 / 4,
     fc_status = ''published''\<rparr>"

lemma ok_text_runs: "run_graph demo_env (demo_raw ok_text) s = (Inr (published_demo ok_text), s)"
proof -
  have t: "strip (py_take 80 ok_text) = ok_text" by code_simp
  have "extract_entities no_uword ok_text ok_text = []" "map_sectors ok_text ok_text = (''general'', [])"
    "summary_baseline ok_text ok_text = ok_text" "\<not> has_sentinel ok_text" "ok_text \<noteq> []" "strip ok_text = ok_text"
    by code_simp+
  with t show ?thesis
    by (subst demo_run [of ok_text ok_text]) (simp_all add: published_demo_def)
qed

text \<open>The placeholder title is one of the sentinels, and the gate does not look at the title.\<close>

lemma untitled_card_is_published:
  "run_graph demo_env (demo_raw padded_text) s = (Inr (published_demo ''[no title]''), s)"
  "has_sentinel (fc_title (published_demo ''[no title]''))"
proof -
  have t: "strip (py_take 80 padded_text) = []" by code_simp
  have "extract_entities no_uword [] padded_text = []" "map_sectors [] padded_text = (''general'', [])"
    "summary_baseline [] padded_text = ok_text" "\<not> has_sentinel ok_text" "padded_text \<noteq> []" "strip padded_text = ok_text"
    "ok_text \<noteq> []"
    by code_simp+
  with t show "run_graph demo_env (demo_raw padded_text) s = (Inr (published_demo ''[no title]''), s)"
    by (subst demo_run [of padded_text ok_text]) (simp_all add: published_demo_def)
  show "has_sentinel (fc_title (published_demo ''[no title]''))" by code_simp
qed

lemma demo_parses: "parse_message (ae_loads demo_env) (utc 0) (raw_payload ref_dumps (demo_raw ok_text)) = Inr (demo_raw ok_text)"
  unfolding demo_env_def
  by simp (rule parse_raw_payload [of _ _ _ 1500000], simp_all add: demo_raw_def ref_loads_def ref_dumps_def)

section \<open>Properties\<close>



text \<open>A message of the agent stream is acknowledged whatever happens to it. An event whose card is made is
  reported as processed even when the backend did not store the card, and one that raises is reported as failed;
  neither is tried again.\<close>

lemma agent_message_is_settled:
  "(\<exists>s1. handle_entry env io utcnow (msg_id, f) s = sc_xack (ai_stream io) TO_AGENT_STREAM AGENT_GROUP msg_id s1) \<and>
   (\<forall>raw c s1. parse_message (ae_loads env) utcnow f = Inr raw \<longrightarrow> run_graph env raw s = (Inr c, s1) \<longrightarrow>
      (\<exists>stored s2. publish_card io c s1 = (Inr stored, s2) \<and>
         handle_entry env io utcnow (msg_id, f) s =
           bind_act (notify_status io (entry_id f) ''processed'' None (Some (fc_id c)))
             (\<lambda>_. sc_xack (ai_stream io) TO_AGENT_STREAM AGENT_GROUP msg_id) s2))"
proof (intro conjI allI impI)
  obtain r s0 where p: "process_entry env io utcnow f s = (r, s0)" by (meson surj_pair)
  show "\<exists>s1. handle_entry env io utcnow (msg_id, f) s = sc_xack (ai_stream io) TO_AGENT_STREAM AGENT_GROUP msg_id s1"
  proof (cases r)
    case (Inl e)
    obtain s1 where "notify_status io (entry_id f) ''failed'' (Some (py_take 500 (exn_str e))) None s0 = (Inr (), s1)"
      using notify_total [of io "entry_id f" "''failed''" "Some (py_take 500 (exn_str e))" None s0] by auto
    with p Inl show ?thesis by (auto simp: handle_entry_def bind_act_def try_act_def)
  next
    case (Inr u)
    with p show ?thesis by (auto simp: handle_entry_def bind_act_def try_act_def)
  qed
next
  fix raw c s1
  assume a: "parse_message (ae_loads env) utcnow f = Inr raw" "run_graph env raw s = (Inr c, s1)"
  obtain stored s2 where b: "publish_card io c s1 = (Inr stored, s2)" using publish_total [of io c s1] by blast
  obtain s3 where n: "notify_status io (entry_id f) ''processed'' None (Some (fc_id c)) s2 = (Inr (), s3)"
    using notify_total [of io "entry_id f" "''processed''" None "Some (fc_id c)" s2] by auto
  from a b n have "handle_entry env io utcnow (msg_id, f) s =
      bind_act (notify_status io (entry_id f) ''processed'' None (Some (fc_id c)))
        (\<lambda>_. sc_xack (ai_stream io) TO_AGENT_STREAM AGENT_GROUP msg_id) s2"
    by (simp add: handle_entry_def process_entry_def bind_act_def try_act_def)
  with b show "\<exists>stored s2. publish_card io c s1 = (Inr stored, s2) \<and>
      handle_entry env io utcnow (msg_id, f) s =
        bind_act (notify_status io (entry_id f) ''processed'' None (Some (fc_id c)))
          (\<lambda>_. sc_xack (ai_stream io) TO_AGENT_STREAM AGENT_GROUP msg_id) s2"
    by blast
qed

theorem agent_message_is_settled_witness:
  "handle_entry demo_env demo_io (utc 0) (''1-0'', raw_payload ref_dumps (demo_raw ok_text)) [] =
     (Inr (), [''post'', ''processed'', ''ack''])"
proof -
  have id: "entry_id (raw_payload ref_dumps (demo_raw ok_text)) = Some ''r1''"
    by (simp add: entry_id_def raw_payload_def demo_raw_def get_or_def non_empty_def)
  have pub: "publish_card demo_io (published_demo ok_text) [] = (Inr False, [''post''])"
    by (simp add: publish_card_def demo_io_def bind_act_def try_act_def raise_for_status_def)
  have n: "notify_status demo_io (Some ''r1'') ''processed'' None i [''post''] = (Inr (), [''post'', ''processed''])" for i
    by (simp add: notify_status_def demo_io_def bind_act_def try_act_def raise_for_status_def numeral_3_eq_3)
  from agent_message_is_settled [of demo_env demo_io "utc 0" "''1-0''" "raw_payload ref_dumps (demo_raw ok_text)" "[]"]
  have "handle_entry demo_env demo_io (utc 0) (''1-0'', raw_payload ref_dumps (demo_raw ok_text)) [] =
      bind_act (notify_status demo_io (Some ''r1'') ''processed'' None (Some (fc_id (published_demo ok_text))))
        (\<lambda>_. sc_xack (ai_stream demo_io) TO_AGENT_STREAM AGENT_GROUP ''1-0'') [''post'']"
    using demo_parses ok_text_runs id pub by fastforce
  with n show ?thesis by (simp add: bind_act_def) (simp add: demo_io_def)
qed

end
