(* ===== verification/Py_Lines.thy ===== *)
theory Py_Lines
  imports Prelude
begin

text \<open>
  Python's \<open>str.splitlines\<close> on UTF-8 bytes: besides the line feed it breaks at the other line boundaries.
\<close>

section \<open>Lines of a text\<close>

text \<open>The length of the line boundary at the start of a text, 0 if there is none.\<close>

definition break_len :: "string \<Rightarrow> nat" where
  "break_len s =
    (if startswith s [CHR 0x0D, CHR 0x0A] then 2
     else if s \<noteq> [] \<and> hd s \<in> {CHR 0x0A, CHR 0x0B, CHR 0x0C, CHR 0x0D, CHR 0x1C, CHR 0x1D, CHR 0x1E} then 1
     else if startswith s [CHR 0xC2, CHR 0x85] then 2
     else if startswith s [CHR 0xE2, CHR 0x80, CHR 0xA8] \<or> startswith s [CHR 0xE2, CHR 0x80, CHR 0xA9] then 3
     else 0)"

function splitlines_from :: "string \<Rightarrow> string \<Rightarrow> string list" where
  "splitlines_from cur [] = (if cur = [] then [] else [cur])"
| "splitlines_from cur (c # cs) =
     (if break_len (c # cs) = 0 then splitlines_from (cur @ [c]) cs
      else cur # splitlines_from [] (drop (break_len (c # cs)) (c # cs)))"
  by pat_completeness auto
termination
  by (relation "measure (\<lambda>(cur, s). length s)") auto

definition splitlines :: "string \<Rightarrow> string list" where
  "splitlines s = splitlines_from [] s"

fun no_breaks :: "string \<Rightarrow> bool" where
  "no_breaks [] = True"
| "no_breaks (c # cs) = (break_len (c # cs) = 0 \<and> no_breaks cs)"

text \<open>A line separator (U+2028) inside a line breaks it.\<close>

definition LINE_SEPARATOR :: string where
  "LINE_SEPARATOR = [CHR 0xE2, CHR 0x80, CHR 0xA8]"

lemma splitlines_separator:
  "no_breaks l \<Longrightarrow> splitlines_from cur (l @ LINE_SEPARATOR @ rest) = (cur @ l) # splitlines_from [] rest"
proof (induction l arbitrary: cur)
  case Nil
  then show ?case by (simp add: break_len_def LINE_SEPARATOR_def)
next
  case (Cons c l)
  then have "break_len (c # l @ LINE_SEPARATOR @ rest) = 0"
    by (cases l; cases "tl l") (auto simp: break_len_def startswith_def LINE_SEPARATOR_def split: if_splits)
  with Cons show ?case by simp
qed

text \<open>\<open>splitlines(keepends=True)\<close>.\<close>

function keepends_from :: "string \<Rightarrow> string \<Rightarrow> string list" where
  "keepends_from cur [] = (if cur = [] then [] else [cur])"
| "keepends_from cur (c # cs) =
     (let n = break_len (c # cs) in
      if n = 0 then keepends_from (cur @ [c]) cs
      else (cur @ take n (c # cs)) # keepends_from [] (drop n (c # cs)))"
  by pat_completeness auto
termination
  by (relation "measure (\<lambda>(cur, s). length s)") auto

definition splitlines_keepends :: "string \<Rightarrow> string list" where
  "splitlines_keepends s = keepends_from [] s"

definition write_lines :: "string list \<Rightarrow> string" where
  "write_lines ls = concat (map (\<lambda>l. l @ [nl]) ls)"

lemma break_len_nl: "break_len (nl # s) = 1"
  by (simp add: break_len_def)

lemma break_len_append_nl: "break_len (c # l) = 0 \<Longrightarrow> break_len (c # l @ nl # rest) = 0"
  by (cases l; cases "tl l") (auto simp: break_len_def startswith_def split: if_splits)

lemma splitlines_line:
  "no_breaks l \<Longrightarrow> splitlines_from cur (l @ nl # rest) = (cur @ l) # splitlines_from [] rest"
proof (induction l arbitrary: cur)
  case Nil
  then show ?case by (simp add: break_len_nl)
next
  case (Cons c l)
  then show ?case using break_len_append_nl [of c l rest] by simp
qed

lemma splitlines_write: "list_all no_breaks ls \<Longrightarrow> splitlines (write_lines ls) = ls"
  unfolding splitlines_def write_lines_def by (induction ls) (simp_all add: splitlines_line)

lemma concat_keepends_from: "concat (keepends_from cur s) = cur @ s"
  by (induction cur s rule: keepends_from.induct) (simp_all add: Let_def)

lemma concat_keepends [simp]: "concat (splitlines_keepends s) = s"
  by (simp add: splitlines_keepends_def concat_keepends_from)

end
