(* ===== verification/Jsonl_Queue.thy ===== *)
theory Jsonl_Queue
  imports Queue Py_Lines
begin

text \<open>
  The durable queue of \<open>ingestion/pipeline/event_queue.py\<close>: a JSONL file with one record per line, or a
  Redis stream. The JSON codec is the pair of arguments \<open>dumps\<close> and \<open>loads\<close>.
\<close>

section \<open>Records of the file queue\<close>

type_synonym queue_record = "(string, json) dict"
type_synonym queue_file = "string option"

definition PENDING :: string where "PENDING = ''pending''"
definition PROCESSING :: string where "PROCESSING = ''processing''"
definition DONE :: string where "DONE = ''done''"

text \<open>\<open>{"_id": ..., "_status": ..., **item}\<close>: the keys of the item win.\<close>

definition new_record :: "string \<Rightarrow> string \<Rightarrow> queue_record \<Rightarrow> queue_record" where
  "new_record item_id status item =
    foldl (\<lambda>d (k, v). dict_set k v d) [(''_id'', JStr item_id), (''_status'', JStr status)] item"

definition is_pending :: "queue_record \<Rightarrow> bool" where
  "is_pending r \<longleftrightarrow> dict_get r ''_status'' = Some (JStr PENDING)"

definition set_record_status :: "string \<Rightarrow> queue_record \<Rightarrow> queue_record" where
  "set_record_status status r = dict_set ''_status'' (JStr status) r"

definition read_record :: "(string \<Rightarrow> json option) \<Rightarrow> string \<Rightarrow> queue_record res" where
  "read_record loads line = (case loads line of
      None \<Rightarrow> Inl (ValueError line)
    | Some (JObj d) \<Rightarrow> Inr d
    | Some _ \<Rightarrow> Inl AttributeError)"

definition record_lines :: "string \<Rightarrow> string list" where
  "record_lines content = filter (\<lambda>line. strip line \<noteq> []) (splitlines content)"

definition file_of_lines :: "string list \<Rightarrow> string" where
  "file_of_lines ls = str_join [nl] ls @ [nl]"

definition jsonl_enqueue :: "(json \<Rightarrow> string) \<Rightarrow> string \<Rightarrow> queue_record \<Rightarrow> queue_file \<Rightarrow> string \<times> queue_file" where
  "jsonl_enqueue dumps item_id item file =
    (let record = new_record item_id PENDING item
     in (item_id, Some ((case file of None \<Rightarrow> [] | Some content \<Rightarrow> content) @ dumps (JObj record) @ [nl])))"

text \<open>The loop of \<open>_jsonl_dequeue\<close>: the claimed records and all records, claimed ones updated.\<close>

fun claim :: "int \<Rightarrow> queue_record list \<Rightarrow> queue_record list \<Rightarrow> queue_record list \<times> queue_record list" where
  "claim count taken [] = (taken, [])"
| "claim count taken (r # rs) =
     (if is_pending r \<and> int (length taken) < count then
        (let r' = set_record_status PROCESSING r; (taken', rs') = claim count (taken @ [r']) rs in (taken', r' # rs'))
      else (let (taken', rs') = claim count taken rs in (taken', r # rs')))"

definition jsonl_dequeue ::
  "(json \<Rightarrow> string) \<Rightarrow> (string \<Rightarrow> json option) \<Rightarrow> int \<Rightarrow> queue_file \<Rightarrow> queue_record list res \<times> queue_file" where
  "jsonl_dequeue dumps loads count file = (case file of
      None \<Rightarrow> (Inr [], None)
    | Some content \<Rightarrow> (case map_res (read_record loads) (record_lines content) of
        Inl e \<Rightarrow> (Inl e, file)
      | Inr rs \<Rightarrow> (case claim count [] rs of
          (taken, rs') \<Rightarrow> (Inr taken, Some (file_of_lines (map (\<lambda>r. dumps (JObj r)) rs'))))))"

fun peek_lines :: "(string \<Rightarrow> json option) \<Rightarrow> int \<Rightarrow> queue_record list \<Rightarrow> string list \<Rightarrow> queue_record list res" where
  "peek_lines loads count acc [] = Inr acc"
| "peek_lines loads count acc (l # ls) = bind_res (read_record loads l) (\<lambda>r.
     if is_pending r then
       (if int (length acc) + 1 \<ge> count then Inr (acc @ [r]) else peek_lines loads count (acc @ [r]) ls)
     else peek_lines loads count acc ls)"

definition jsonl_peek :: "(string \<Rightarrow> json option) \<Rightarrow> int \<Rightarrow> queue_file \<Rightarrow> queue_record list res" where
  "jsonl_peek loads count file = (case file of
      None \<Rightarrow> Inr []
    | Some content \<Rightarrow> peek_lines loads count [] (record_lines content))"

definition mark_record :: "string \<Rightarrow> queue_record \<Rightarrow> queue_record" where
  "mark_record item_id r = (if dict_get r ''_id'' = Some (JStr item_id) then set_record_status DONE r else r)"

definition jsonl_mark_done ::
  "(json \<Rightarrow> string) \<Rightarrow> (string \<Rightarrow> json option) \<Rightarrow> string \<Rightarrow> queue_file \<Rightarrow> unit res \<times> queue_file" where
  "jsonl_mark_done dumps loads item_id file = (case file of
      None \<Rightarrow> (Inr (), None)
    | Some content \<Rightarrow> (case map_res (read_record loads) (record_lines content) of
        Inl e \<Rightarrow> (Inl e, file)
      | Inr rs \<Rightarrow> (Inr (), Some (file_of_lines (map (\<lambda>r. dumps (JObj (mark_record item_id r))) rs)))))"

section \<open>The Redis stream\<close>

record 's queue_redis =
  qr_xgroup_create :: "string \<Rightarrow> string \<Rightarrow> ('s, unit) act"
  qr_xadd :: "string \<Rightarrow> fields \<Rightarrow> ('s, string) act"
  qr_xreadgroup :: "string \<Rightarrow> string \<Rightarrow> string \<Rightarrow> int \<Rightarrow> ('s, (string \<times> (string \<times> fields) list) list) act"
  qr_xrange :: "string \<Rightarrow> int \<Rightarrow> ('s, (string \<times> fields) list) act"
  qr_xack :: "string \<Rightarrow> string \<Rightarrow> string \<Rightarrow> ('s, unit) act"

definition QUEUE_STREAM :: string where "QUEUE_STREAM = ''stream:ingestion_eventqueue''"
definition QUEUE_GROUP :: string where "QUEUE_GROUP = ''group:ingestion''"
definition QUEUE_CONSUMER :: string where "QUEUE_CONSUMER = ''ingestion-1''"

text \<open>The state is that of Redis with the flag \<open>_group_ready\<close> of the queue object.\<close>

definition on_redis :: "('s, 'a) act \<Rightarrow> ('s \<times> bool, 'a) act" where
  "on_redis m = (\<lambda>(s, ready). case m s of (r, s') \<Rightarrow> (r, (s', ready)))"

definition ensure_group :: "'s queue_redis \<Rightarrow> ('s \<times> bool, unit) act" where
  "ensure_group c = (\<lambda>(s, ready).
     if ready then (Inr (), (s, ready))
     else case qr_xgroup_create c QUEUE_STREAM QUEUE_GROUP s of
         (Inr _, s') \<Rightarrow> (Inr (), (s', True))
       | (Inl e, s') \<Rightarrow> if contains ''BUSYGROUP'' (exn_str e) then (Inr (), (s', True)) else (Inl e, (s', False)))"

definition redis_enqueue :: "(json \<Rightarrow> string) \<Rightarrow> 's queue_redis \<Rightarrow> queue_record \<Rightarrow> ('s \<times> bool, string) act" where
  "redis_enqueue dumps c item = on_redis (qr_xadd c QUEUE_STREAM [(''data'', dumps (JObj item))])"

definition redis_record :: "(string \<Rightarrow> json option) \<Rightarrow> string \<Rightarrow> string \<times> fields \<Rightarrow> queue_record res" where
  "redis_record loads status = (\<lambda>(msg_id, f). case loads (get_or f ''data'' ''{}'') of
      None \<Rightarrow> Inl (ValueError (get_or f ''data'' ''{}''))
    | Some (JObj item) \<Rightarrow> Inr (new_record msg_id status item)
    | Some _ \<Rightarrow> Inl TypeError)"

definition redis_dequeue ::
  "(string \<Rightarrow> json option) \<Rightarrow> 's queue_redis \<Rightarrow> int \<Rightarrow> ('s \<times> bool, queue_record list) act" where
  "redis_dequeue loads c count =
    bind_act (ensure_group c) (\<lambda>_.
    bind_act (on_redis (qr_xreadgroup c QUEUE_GROUP QUEUE_CONSUMER QUEUE_STREAM count)) (\<lambda>resp.
      lift_res (map_res (redis_record loads PROCESSING) (concat (map snd resp)))))"

definition redis_peek :: "(string \<Rightarrow> json option) \<Rightarrow> 's queue_redis \<Rightarrow> int \<Rightarrow> ('s \<times> bool, queue_record list) act" where
  "redis_peek loads c count =
    bind_act (try_act (on_redis (qr_xrange c QUEUE_STREAM count)) (\<lambda>_. ret_act [])) (\<lambda>entries.
      lift_res (map_res (redis_record loads PENDING) entries))"

definition redis_mark_done :: "'s queue_redis \<Rightarrow> string \<Rightarrow> ('s \<times> bool, unit) act" where
  "redis_mark_done c item_id =
    bind_act (ensure_group c) (\<lambda>_. on_redis (qr_xack c QUEUE_STREAM QUEUE_GROUP item_id))"

section \<open>The file as a list of records\<close>

text \<open>A record whose line is written without a line boundary and read back as it is.\<close>

definition line_safe :: "(json \<Rightarrow> string) \<Rightarrow> (string \<Rightarrow> json option) \<Rightarrow> queue_record \<Rightarrow> bool" where
  "line_safe dumps loads r \<longleftrightarrow> loads (dumps (JObj r)) = Some (JObj r) \<and> no_breaks (dumps (JObj r)) \<and>
     strip (dumps (JObj r)) \<noteq> []"

definition holds :: "(json \<Rightarrow> string) \<Rightarrow> queue_record list \<Rightarrow> queue_file \<Rightarrow> bool" where
  "holds dumps rs q \<longleftrightarrow> (case q of
      None \<Rightarrow> rs = []
    | Some content \<Rightarrow> \<exists>blank \<in> {[], [nl]}. content = blank @ write_lines (map (\<lambda>r. dumps (JObj r)) rs))"

lemma file_of_lines: "ls \<noteq> [] \<Longrightarrow> file_of_lines ls = write_lines ls"
  unfolding file_of_lines_def write_lines_def by (induction ls rule: induct_list012) simp_all

lemma holds_file_of_lines: "holds dumps rs (Some (file_of_lines (map (\<lambda>r. dumps (JObj r)) rs)))"
  by (cases "rs = []") (simp_all add: holds_def file_of_lines, simp add: file_of_lines_def write_lines_def)

lemma record_lines_write:
  assumes "list_all (line_safe dumps loads) rs"
  shows "record_lines (write_lines (map (\<lambda>r. dumps (JObj r)) rs)) = map (\<lambda>r. dumps (JObj r)) rs"
proof -
  have "list_all no_breaks (map (\<lambda>r. dumps (JObj r)) rs)"
    using assms by (auto simp: list_all_iff line_safe_def)
  then show ?thesis
    using assms by (auto simp: record_lines_def splitlines_write list_all_iff line_safe_def filter_id_conv)
qed

lemma read_records:
  assumes "list_all (line_safe dumps loads) rs"
  shows "map_res (read_record loads) (map (\<lambda>r. dumps (JObj r)) rs) = Inr rs"
  using assms by (subst map_res_map, subst map_res_all [of _ _ "\<lambda>r. r"])
    (auto simp: list_all_iff line_safe_def read_record_def)

lemma blank_line: "record_lines (nl # content) = record_lines content"
  by (simp add: record_lines_def splitlines_def break_len_nl strip_def lstrip_def rstrip_def)

lemma holds_content:
  assumes "holds dumps rs (Some content)" "list_all (line_safe dumps loads) rs"
  shows "record_lines content = map (\<lambda>r. dumps (JObj r)) rs"
  using assms record_lines_write [OF assms(2)] by (auto simp: holds_def blank_line)

text \<open>Each operation on the file is the operation on the list.\<close>

lemma enqueue_holds:
  "holds dumps rs q \<Longrightarrow> holds dumps (rs @ [new_record i PENDING item]) (snd (jsonl_enqueue dumps i item q))"
  by (auto simp: jsonl_enqueue_def holds_def write_lines_def Let_def split: option.splits)

lemma dequeue_holds:
  assumes "holds dumps rs q" "list_all (line_safe dumps loads) rs"
  obtains q' where "jsonl_dequeue dumps loads count q = (Inr (fst (claim count [] rs)), q')"
    "holds dumps (snd (claim count [] rs)) q'"
proof (cases q)
  case None
  with assms have "rs = []" by (simp add: holds_def)
  with None show thesis by (intro that [of None]) (simp_all add: jsonl_dequeue_def holds_def)
next
  case (Some content)
  with assms have "record_lines content = map (\<lambda>r. dumps (JObj r)) rs" by (simp add: holds_content)
  with Some assms(2) show thesis
    by (intro that [of "Some (file_of_lines (map (\<lambda>r. dumps (JObj r)) (snd (claim count [] rs))))"])
      (simp_all add: jsonl_dequeue_def read_records holds_file_of_lines case_prod_beta)
qed

lemma mark_done_holds:
  assumes "holds dumps rs q" "list_all (line_safe dumps loads) rs"
  obtains q' where "jsonl_mark_done dumps loads i q = (Inr (), q')" "holds dumps (map (mark_record i) rs) q'"
proof (cases q)
  case None
  with assms have "rs = []" by (simp add: holds_def)
  with None show thesis by (intro that [of None]) (simp_all add: jsonl_mark_done_def holds_def)
next
  case (Some content)
  have h: "holds dumps (map (mark_record i) rs) (Some (file_of_lines (map (\<lambda>r. dumps (JObj (mark_record i r))) rs)))"
    using holds_file_of_lines [of dumps "map (mark_record i) rs"] by (simp add: comp_def)
  from Some assms have "record_lines content = map (\<lambda>r. dumps (JObj r)) rs" by (simp add: holds_content)
  with Some assms(2) h show thesis by (intro that) (simp_all add: jsonl_mark_done_def read_records)
qed

section \<open>Runs of the queue\<close>

text \<open>An item that does not set the fields of the queue, and whose record is safe in every status.\<close>

definition item_ok :: "(json \<Rightarrow> string) \<Rightarrow> (string \<Rightarrow> json option) \<Rightarrow> string \<times> queue_record \<Rightarrow> bool" where
  "item_ok dumps loads = (\<lambda>(i, item). dict_ok item \<and> dict_get item ''_id'' = None \<and> dict_get item ''_status'' = None \<and>
     list_all (\<lambda>status. line_safe dumps loads (new_record i status item)) [PENDING, PROCESSING, DONE])"

definition in_status :: "string \<Rightarrow> string \<times> queue_record \<Rightarrow> queue_record" where
  "in_status status = (\<lambda>(i, item). new_record i status item)"

text \<open>
  The file after a run, the items enqueued so far and the records handed out so far. Only items
  that were handed out are marked as done.
\<close>

inductive queue_run ::
  "(json \<Rightarrow> string) \<Rightarrow> (string \<Rightarrow> json option) \<Rightarrow> queue_file \<Rightarrow> (string \<times> queue_record) list \<Rightarrow> queue_record list \<Rightarrow> bool"
  for dumps loads where
  start: "queue_run dumps loads None [] []"
| enqueued: "queue_run dumps loads q es ds \<Longrightarrow> item_ok dumps loads (i, item) \<Longrightarrow> i \<notin> fst ` set es
    \<Longrightarrow> queue_run dumps loads (snd (jsonl_enqueue dumps i item q)) (es @ [(i, item)]) ds"
| dequeued: "queue_run dumps loads q es ds \<Longrightarrow> jsonl_dequeue dumps loads count q = (Inr out, q')
    \<Longrightarrow> queue_run dumps loads q' es (ds @ out)"
| marked: "queue_run dumps loads q es ds \<Longrightarrow> r \<in> set ds \<Longrightarrow> dict_get r ''_id'' = Some (JStr i)
    \<Longrightarrow> jsonl_mark_done dumps loads i q = (x, q') \<Longrightarrow> queue_run dumps loads q' es ds"

lemma foldl_dict_set_append:
  "dict_ok (base @ item) \<Longrightarrow> foldl (\<lambda>d (k, v). dict_set k v d) base item = base @ item"
proof (induction item arbitrary: base)
  case (Cons p item)
  obtain k v where p: "p = (k, v)" by (cases p)
  have "k \<notin> fst ` set base" using Cons.prems p by (auto simp: dict_ok_def)
  then have "dict_set k v base = base @ [(k, v)]" by (induction base) auto
  with Cons p show ?case by simp
qed simp

lemma new_record_item:
  assumes "dict_ok item" "dict_get item ''_id'' = None" "dict_get item ''_status'' = None"
  shows "new_record i st item = (''_id'', JStr i) # (''_status'', JStr st) # item"
proof -
  have "''_id'' \<notin> fst ` set item" "''_status'' \<notin> fst ` set item"
    using assms(2,3) by (simp_all add: dict_get_def map_of_eq_None_iff)
  then have "dict_ok ([(''_id'', JStr i), (''_status'', JStr st)] @ item)"
    using assms(1) by (simp add: dict_ok_def)
  then show ?thesis by (simp add: new_record_def foldl_dict_set_append)
qed

lemma in_status_simps:
  assumes "item_ok dumps loads e"
  shows "is_pending (in_status st e) \<longleftrightarrow> st = PENDING" "set_record_status st' (in_status st e) = in_status st' e"
    "dict_get (in_status st e) ''_id'' = Some (JStr (fst e))"
  using assms by (cases e; simp add: item_ok_def in_status_def new_record_item is_pending_def set_record_status_def)+

text \<open>Claiming from records of which a first part is taken and the rest is pending.\<close>

lemma claim_pending:
  assumes "\<And>e. e \<in> set es \<Longrightarrow> item_ok dumps loads e"
  shows "claim count taken (map (in_status PENDING) es) =
    (taken @ map (in_status PROCESSING) (take (nat (count - int (length taken))) es),
     map (in_status PROCESSING) (take (nat (count - int (length taken))) es) @
     map (in_status PENDING) (drop (nat (count - int (length taken))) es))"
  using assms
proof (induction es arbitrary: taken)
  case (Cons e es)
  have e: "item_ok dumps loads e" using Cons.prems by simp
  show ?case
  proof (cases "int (length taken) < count")
    case True
    then have "nat (count - int (length taken)) = Suc (nat (count - int (length (taken @ [x]))))" for x :: queue_record
      by simp
    with True Cons in_status_simps [OF e] show ?thesis by (simp add: Let_def)
  next
    case False
    with Cons in_status_simps [OF e] show ?thesis by simp
  qed
qed simp

lemma claim_skips:
  "\<forall>r \<in> set xs. \<not> is_pending r \<Longrightarrow> claim count taken (xs @ rs) = (fst (claim count taken rs), xs @ snd (claim count taken rs))"
  by (induction xs) (auto split: prod.splits)

text \<open>The file holds the items handed out, in some later status, before the pending ones.\<close>

definition queue_inv ::
  "(json \<Rightarrow> string) \<Rightarrow> (string \<Rightarrow> json option) \<Rightarrow> queue_file \<Rightarrow> (string \<times> queue_record) list \<Rightarrow> queue_record list \<Rightarrow> bool" where
  "queue_inv dumps loads q es ds \<longleftrightarrow> (\<exists>sts. length sts = length ds \<and> set sts \<subseteq> {PROCESSING, DONE} \<and> length ds \<le> length es \<and>
     distinct (map fst es) \<and> (\<forall>e \<in> set es. item_ok dumps loads e) \<and>
     ds = map (in_status PROCESSING) (take (length ds) es) \<and>
     holds dumps (map2 in_status sts (take (length ds) es) @ map (in_status PENDING) (drop (length ds) es)) q)"

lemma records_safe:
  assumes "\<forall>e \<in> set es. item_ok dumps loads e" "set sts \<subseteq> {PROCESSING, DONE}" "set xs \<subseteq> set es" "set ys \<subseteq> set es"
  shows "list_all (line_safe dumps loads) (map2 in_status sts xs @ map (in_status PENDING) ys)"
proof -
  have s: "line_safe dumps loads (in_status st e)" if "e \<in> set es" "st \<in> {PENDING, PROCESSING, DONE}" for st e
    using assms(1) that by (cases e) (auto simp: item_ok_def in_status_def)
  have "line_safe dumps loads (in_status st e)" if "(st, e) \<in> set (zip sts xs)" for st e
    using set_zip_leftD [OF that] set_zip_rightD [OF that] assms(2,3) by (intro s) blast+
  with s assms(4) show ?thesis by (auto simp: list_all_iff)
qed

lemma zip_not_pending:
  assumes "\<forall>e \<in> set es. item_ok dumps loads e" "set sts \<subseteq> {PROCESSING, DONE}" "set xs \<subseteq> set es"
  shows "\<forall>r \<in> set (map2 in_status sts xs). \<not> is_pending r"
proof -
  have "PENDING \<noteq> PROCESSING" "PENDING \<noteq> DONE" by (simp_all add: PENDING_def PROCESSING_def DONE_def)
  then have "\<not> is_pending (in_status st e)" if "(st, e) \<in> set (zip sts xs)" for st e
    using set_zip_leftD [OF that] set_zip_rightD [OF that] assms in_status_simps(1) by (metis insertE singletonD subsetD)
  then show ?thesis by auto
qed

text \<open>What the next dequeue returns, and the state after it.\<close>

lemma inv_dequeue:
  assumes "queue_inv dumps loads q es ds"
  obtains q' where
    "jsonl_dequeue dumps loads count q = (Inr (map (in_status PROCESSING) (take (nat count) (drop (length ds) es))), q')"
    "queue_inv dumps loads q' es (ds @ map (in_status PROCESSING) (take (nat count) (drop (length ds) es)))"
proof -
  let ?k = "length ds"
  let ?new = "take (nat count) (drop ?k es)"
  from assms obtain sts where sts: "length sts = ?k" "set sts \<subseteq> {PROCESSING, DONE}" "?k \<le> length es" "distinct (map fst es)"
    "\<forall>e \<in> set es. item_ok dumps loads e" "ds = map (in_status PROCESSING) (take ?k es)"
    and h: "holds dumps (map2 in_status sts (take ?k es) @ map (in_status PENDING) (drop ?k es)) q"
    unfolding queue_inv_def by blast
  have safe: "list_all (line_safe dumps loads) (map2 in_status sts (take ?k es) @ map (in_status PENDING) (drop ?k es))"
    by (rule records_safe [OF sts(5,2)]) (auto dest: in_set_takeD in_set_dropD)
  have c: "claim count [] (map2 in_status sts (take ?k es) @ map (in_status PENDING) (drop ?k es)) =
      (map (in_status PROCESSING) ?new, map2 in_status sts (take ?k es) @ map (in_status PROCESSING) ?new @
       map (in_status PENDING) (drop (nat count) (drop ?k es)))"
    using claim_skips [OF zip_not_pending [OF sts(5,2) set_take_subset], of count "[]" ?k "map (in_status PENDING) (drop ?k es)"]
      claim_pending [of "drop ?k es" dumps loads count "[]"] sts(5) by (simp add: in_set_dropD)
  obtain q' where q': "jsonl_dequeue dumps loads count q = (Inr (map (in_status PROCESSING) ?new), q')"
    "holds dumps (map2 in_status sts (take ?k es) @ map (in_status PROCESSING) ?new @
       map (in_status PENDING) (drop (nat count) (drop ?k es))) q'"
    using dequeue_holds [OF h safe, of count] unfolding c by auto
  define m where "m = length ?new"
  have tk: "take (?k + m) es = take ?k es @ ?new" by (simp add: take_add m_def min_def)
  have dr: "drop (nat count) (drop ?k es) = drop (?k + m) es" by (simp add: m_def min_def add.commute)
  have z: "map2 in_status (sts @ replicate m PROCESSING) (take (?k + m) es) =
      map2 in_status sts (take ?k es) @ map (in_status PROCESSING) ?new"
  proof -
    have "take m ?new = ?new" by (simp only: m_def take_all order_refl)
    then show ?thesis unfolding tk using sts(1,3) by (simp add: zip_append zip_replicate1 del: take_take)
  qed
  have "queue_inv dumps loads q' es (ds @ map (in_status PROCESSING) ?new)"
    unfolding queue_inv_def
  proof (rule exI [of _ "sts @ replicate m PROCESSING"], intro conjI)
    show "ds @ map (in_status PROCESSING) ?new =
        map (in_status PROCESSING) (take (length (ds @ map (in_status PROCESSING) ?new)) es)"
      using sts(6) tk by (simp add: m_def)
    show "holds dumps (map2 in_status (sts @ replicate m PROCESSING) (take (length (ds @ map (in_status PROCESSING) ?new)) es) @
        map (in_status PENDING) (drop (length (ds @ map (in_status PROCESSING) ?new)) es)) q'"
      using q'(2) z dr by (simp add: m_def)
  qed (use sts in \<open>auto simp: m_def\<close>)
  with q'(1) show thesis by (rule that)
qed

lemma map2_of_map2: "map2 f (map2 h xs ys) ys = map2 (\<lambda>x y. f (h x y) y) xs ys"
proof (induction xs arbitrary: ys)
  case (Cons x xs)
  then show ?case by (cases ys) simp_all
qed simp

lemma inv_mark:
  assumes "queue_inv dumps loads q es ds" "r \<in> set ds" "dict_get r ''_id'' = Some (JStr i)"
  obtains q' where "jsonl_mark_done dumps loads i q = (Inr (), q')" "queue_inv dumps loads q' es ds"
proof -
  let ?k = "length ds"
  from assms(1) obtain sts where sts: "length sts = ?k" "set sts \<subseteq> {PROCESSING, DONE}" "?k \<le> length es" "distinct (map fst es)"
    "\<forall>e \<in> set es. item_ok dumps loads e" "ds = map (in_status PROCESSING) (take ?k es)"
    and h: "holds dumps (map2 in_status sts (take ?k es) @ map (in_status PENDING) (drop ?k es)) q"
    unfolding queue_inv_def by blast
  have safe: "list_all (line_safe dumps loads) (map2 in_status sts (take ?k es) @ map (in_status PENDING) (drop ?k es))"
    by (rule records_safe [OF sts(5,2)]) (auto dest: in_set_takeD in_set_dropD)
  have ok: "item_ok dumps loads e" if "e \<in> set (take ?k es) \<or> e \<in> set (drop ?k es)" for e
    using that sts(5) by (auto dest: in_set_takeD in_set_dropD)
  have "set ds = in_status PROCESSING ` set (take ?k es)" using arg_cong [OF sts(6), of set] by simp
  with assms(2) obtain e where e: "e \<in> set (take ?k es)" and r: "r = in_status PROCESSING e" by blast
  then have i: "i = fst e" using in_status_simps(3) [OF ok] assms(3) by simp
  have "distinct (map fst (take ?k es @ drop ?k es))" using sts(4) by simp
  then have "i \<notin> fst ` set (drop ?k es)" using e i by (auto simp: distinct_append simp del: append_take_drop_id)
  then have m2: "map (mark_record i) (map (in_status PENDING) (drop ?k es)) = map (in_status PENDING) (drop ?k es)"
    using in_status_simps(3) [OF ok] by (auto simp: mark_record_def)
  define sts' where "sts' = map2 (\<lambda>st e. if fst e = i then DONE else st) sts (take ?k es)"
  have "mark_record i (in_status st e) = in_status (if fst e = i then DONE else st) e" if "e \<in> set (take ?k es)" for st e
    using in_status_simps [OF ok] that by (simp add: mark_record_def)
  then have m1: "map (mark_record i) (map2 in_status sts (take ?k es)) = map2 in_status sts' (take ?k es)"
    unfolding sts'_def map2_of_map2 by (auto dest: set_zip_rightD)
  have len: "length sts' = ?k" using sts(1,3) by (simp add: sts'_def)
  have "set sts' \<subseteq> insert DONE (set sts)" by (auto simp: sts'_def dest!: set_zip_leftD)
  then have st: "set sts' \<subseteq> {PROCESSING, DONE}" using sts(2) by blast
  obtain q' where "jsonl_mark_done dumps loads i q = (Inr (), q')"
    "holds dumps (map2 in_status sts' (take ?k es) @ map (in_status PENDING) (drop ?k es)) q'"
    using mark_done_holds [OF h safe, of i] unfolding map_append m1 m2 by blast
  then show thesis
    using len st sts by (intro that [of q']) (auto simp: queue_inv_def)
qed

lemma queue_run_inv: "queue_run dumps loads q es ds \<Longrightarrow> queue_inv dumps loads q es ds"
proof (induction rule: queue_run.induct)
  case start
  show ?case by (simp add: queue_inv_def holds_def)
next
  case (enqueued q es ds i item)
  then obtain sts where sts: "length sts = length ds" "set sts \<subseteq> {PROCESSING, DONE}" "length ds \<le> length es" "distinct (map fst es)"
    "\<forall>e \<in> set es. item_ok dumps loads e" "ds = map (in_status PROCESSING) (take (length ds) es)"
    and h: "holds dumps (map2 in_status sts (take (length ds) es) @ map (in_status PENDING) (drop (length ds) es)) q"
    unfolding queue_inv_def by blast
  have "holds dumps ((map2 in_status sts (take (length ds) es) @ map (in_status PENDING) (drop (length ds) es)) @
      [in_status PENDING (i, item)]) (snd (jsonl_enqueue dumps i item q))"
    using enqueue_holds [OF h, of i item] by (simp add: in_status_def)
  with sts enqueued.hyps show ?case
    unfolding queue_inv_def by (intro exI [of _ sts]) auto
next
  case (dequeued q es ds count out q')
  obtain q1 where "jsonl_dequeue dumps loads count q = (Inr (map (in_status PROCESSING) (take (nat count) (drop (length ds) es))), q1)"
    "queue_inv dumps loads q1 es (ds @ map (in_status PROCESSING) (take (nat count) (drop (length ds) es)))"
    using inv_dequeue [OF dequeued.IH] by blast
  with dequeued.hyps show ?case by simp
next
  case (marked q es ds r i x q')
  with inv_mark [OF marked.IH marked.hyps(2,3)] show ?case by (metis prod.inject)
qed

section \<open>Examples\<close>

text \<open>Asking to peek at no record shows one.\<close>

lemma peek_zero_shows_one:
  assumes "read_record loads l = Inr r" "is_pending r"
  shows "peek_lines loads 0 [] (l # ls) = Inr [r]"
  using assms by simp

text \<open>An item that brings its own status is never handed out.\<close>

lemma own_status_hides_item:
  assumes "dict_ok item" "dict_get item ''_status'' = Some v" "v \<noteq> JStr PENDING"
  shows "\<not> is_pending (new_record i PENDING item)"
proof -
  have "map_of (rev item) ''_status'' = Some v"
    using dict_get_mem [OF assms(2)] assms(1) by (simp add: dict_ok_def map_of_eq_Some_iff rev_map [symmetric])
  then have "dict_get (foldl (\<lambda>d (k, v). dict_set k v d) base item) ''_status'' = Some v" for base
    by (simp add: foldl_dict_set_get)
  with assms(3) show ?thesis by (simp add: is_pending_def new_record_def)
qed

text \<open>
  The JSON codec of the queue does not escape characters outside ASCII. A record whose line holds a
  line separator (U+2028) is read back as two lines: if the first is not JSON, the queue is stuck.
\<close>

lemma line_separator_blocks_queue:
  assumes "no_breaks a" "a \<noteq> []" "strip a \<noteq> []" "loads a = None"
    and "q = Some (a @ LINE_SEPARATOR @ rest)"
  shows "jsonl_dequeue dumps loads count q = (Inl (ValueError a), q)"
  using assms splitlines_separator [OF assms(1), of "[]" rest]
  by (simp add: jsonl_dequeue_def record_lines_def splitlines_def read_record_def)

section \<open>Properties\<close>

text \<open>C26: The file queue hands out the items in the order in which they were enqueued, each once, whatever sequence of
  enqueues, dequeues and acknowledgements is run: the next dequeue returns the next items that were not handed out,
  up to the count, and does not raise. The items bring no fields of the queue's own, and their lines hold no line
  boundary and are read back by the codec.\<close>

theorem file_queue_is_fifo:
  assumes "queue_run dumps loads q es ds"
  shows "ds = map (\<lambda>(i, item). new_record i PROCESSING item) (take (length ds) es) \<and>
    fst (jsonl_dequeue dumps loads count q) =
      Inr (map (\<lambda>(i, item). new_record i PROCESSING item) (take (nat count) (drop (length ds) es)))"
proof -
  have inv: "queue_inv dumps loads q es ds" using assms by (rule queue_run_inv)
  then have "ds = map (in_status PROCESSING) (take (length ds) es)" unfolding queue_inv_def by blast
  moreover obtain q' where
    "jsonl_dequeue dumps loads count q = (Inr (map (in_status PROCESSING) (take (nat count) (drop (length ds) es))), q')"
    using inv_dequeue [OF inv] by blast
  ultimately show ?thesis by (simp add: in_status_def)
qed

text \<open>A codec for the records of one item, written by their status.\<close>

definition status_code :: "json \<Rightarrow> string" where
  "status_code j = or_str (case dict_get (obj_of j) ''_status'' of Some (JStr s) \<Rightarrow> Some s | _ \<Rightarrow> None) ''x''"

definition status_decode :: "string \<Rightarrow> json option" where
  "status_decode s = Some (JObj (new_record ''i1'' s []))"

lemma file_queue_example:
  "queue_run status_code status_decode (snd (jsonl_enqueue status_code ''i1'' [] None)) [(''i1'', [])] []"
proof -
  have "item_ok status_code status_decode (''i1'', [])"
    by (simp add: item_ok_def line_safe_def status_code_def status_decode_def new_record_def obj_of_def PENDING_def
        PROCESSING_def DONE_def break_len_def startswith_def strip_def lstrip_def rstrip_def is_blank_def Let_def)
  from queue_run.enqueued [OF queue_run.start this] show ?thesis by simp
qed

theorem file_queue_is_fifo_witness:
  "fst (jsonl_dequeue status_code status_decode 1 (snd (jsonl_enqueue status_code ''i1'' [] None))) =
     Inr [new_record ''i1'' PROCESSING []]"
  using file_queue_is_fifo [OF file_queue_example, of 1] by simp

end
