(* ===== verification/Quality.thy ===== *)
theory Quality
  imports Prelude
begin

text \<open>
  \<open>ingestion/core/quality_score.py\<close> (the score of an extraction and its status) and
  \<open>ingestion/core/publication_policy.py\<close> (what of a text may be shown). Floats are rationals. The policy
  file is given as what reading and loading it gives, \<^term>\<open>None\<close> where that raises.
\<close>

section \<open>Score of an extraction\<close>

datatype source_type = News | Community | Official

record quality_metrics =
  qm_title_present :: bool
  qm_body_length :: nat
  qm_body_text_ratio :: rat
  qm_published_at_present :: bool
  qm_author_present :: bool
  qm_language_detected :: bool
  qm_boilerplate_ratio :: rat
  qm_sentence_count :: nat
  qm_keyword_density :: rat
  qm_metadata_completeness :: rat

definition WEIGHTS :: "(string, rat) dict" where
  "WEIGHTS = [(''title_present'', 15/100), (''body_length'', 20/100), (''body_text_ratio'', 10/100),
     (''published_at_present'', 10/100), (''author_present'', 5/100), (''language_detected'', 10/100),
     (''boilerplate_ratio'', 15/100), (''sentence_count'', 5/100), (''keyword_density'', 5/100),
     (''metadata_completeness'', 5/100)]"

fun MIN_BODY :: "source_type \<Rightarrow> nat" where
  "MIN_BODY News = 300"
| "MIN_BODY Community = 50"
| "MIN_BODY Official = 200"

fun FULL_BODY :: "source_type \<Rightarrow> nat" where
  "FULL_BODY News = 1500"
| "FULL_BODY Community = 500"
| "FULL_BODY Official = 1000"

definition SUCCESS_THRESHOLD :: rat where "SUCCESS_THRESHOLD = 70/100"
definition PARTIAL_THRESHOLD :: rat where "PARTIAL_THRESHOLD = 40/100"

definition normalize_body_length :: "nat \<Rightarrow> source_type \<Rightarrow> rat" where
  "normalize_body_length n st =
    (if n \<ge> FULL_BODY st then 1
     else if n < MIN_BODY st then 0
     else (of_nat n - of_nat (MIN_BODY st)) / (of_nat (FULL_BODY st) - of_nat (MIN_BODY st)))"

definition normalize_sentence_count :: "nat \<Rightarrow> rat" where
  "normalize_sentence_count n = min 1 (of_nat n / 10)"

definition raw_scores :: "quality_metrics \<Rightarrow> source_type \<Rightarrow> (string, rat) dict" where
  "raw_scores m st =
    [(''title_present'', if qm_title_present m then 1 else 0),
     (''body_length'', normalize_body_length (qm_body_length m) st),
     (''body_text_ratio'', min 1 (max 0 (qm_body_text_ratio m))),
     (''published_at_present'', if qm_published_at_present m then 1 else 0),
     (''author_present'', if qm_author_present m then 1 else 0),
     (''language_detected'', if qm_language_detected m then 1 else 0),
     (''boilerplate_ratio'', max 0 (1 - qm_boilerplate_ratio m)),
     (''sentence_count'', normalize_sentence_count (qm_sentence_count m)),
     (''keyword_density'', min 1 (qm_keyword_density m * 10)),
     (''metadata_completeness'', min 1 (max 0 (qm_metadata_completeness m)))]"

definition compute_quality_score :: "quality_metrics \<Rightarrow> source_type \<Rightarrow> rat" where
  "compute_quality_score m st = sum_list (map (\<lambda>(k, w). get_or (raw_scores m st) k 0 * w) WEIGHTS)"

datatype quality_status = SUCCESS | PARTIAL | BLOCKED | FAILED

definition determine_quality_status :: "rat \<Rightarrow> bool \<Rightarrow> quality_status" where
  "determine_quality_status score is_blocked =
    (if is_blocked then BLOCKED
     else if score \<ge> SUCCESS_THRESHOLD then SUCCESS
     else if score \<ge> PARTIAL_THRESHOLD then PARTIAL
     else FAILED)"

definition EXPECTED_META_FIELDS :: "string list" where
  "EXPECTED_META_FIELDS = [''title'', ''author'', ''published_at'', ''language'', ''description'']"

definition sentences_of :: "string \<Rightarrow> string list" where
  "sentences_of body = filter (\<lambda>s. strip s \<noteq> []) (split_on CHR ''.'' (py_replace ''?'' ''.'' (py_replace ''!'' ''.'' body)))"

definition build_metrics_from_extraction ::
  "string option \<Rightarrow> string option \<Rightarrow> string option \<Rightarrow> string option \<Rightarrow> string option \<Rightarrow> (string, json) dict
   \<Rightarrow> quality_metrics" where
  "build_metrics_from_extraction title body author published_at language metadata =
    (let body_text = or_str body []; n = py_len body_text; ws = words body_text;
         present_meta = length (filter (\<lambda>f. case dict_get metadata f of None \<Rightarrow> False | Some v \<Rightarrow> json_truthy v)
           EXPECTED_META_FIELDS)
     in \<lparr>qm_title_present = truthy title \<and> strip (or_str title []) \<noteq> [],
         qm_body_length = n,
         qm_body_text_ratio = min 1 (of_nat n / max (of_nat n * (12/10)) 1),
         qm_published_at_present = truthy published_at, qm_author_present = truthy author,
         qm_language_detected = truthy language,
         qm_boilerplate_ratio = (if n < 200 then 2/10 else 5/100),
         qm_sentence_count = length (sentences_of body_text),
         qm_keyword_density = of_nat (length (remdups (map lower ws))) / of_nat (max (length ws) 1),
         qm_metadata_completeness = of_nat present_meta / of_nat (length EXPECTED_META_FIELDS)\<rparr>)"

section \<open>What may be shown\<close>

record publication_policy =
  pp_allow_full_text_publication :: bool
  pp_max_public_preview_chars :: int
  pp_attribution_required :: bool
  pp_source_url_required :: bool
  pp_raw_artifact_visibility :: string
  pp_quota_limit_notes :: string

definition default_publication_policy :: publication_policy where
  "default_publication_policy = \<lparr>pp_allow_full_text_publication = False, pp_max_public_preview_chars = 200,
     pp_attribution_required = True, pp_source_url_required = True,
     pp_raw_artifact_visibility = ''internal_only'', pp_quota_limit_notes = []\<rparr>"

text \<open>\<open>{**a, **b}\<close>, a \<open>TypeError\<close> where one of them is no mapping.\<close>

definition merge_objs :: "json \<Rightarrow> json \<Rightarrow> (string, json) dict res" where
  "merge_objs a b = (case (a, b) of
      (JObj d, JObj e) \<Rightarrow> Inr (foldl (\<lambda>d (k, v). dict_set k v d) d e)
    | _ \<Rightarrow> Inl TypeError)"

text \<open>\<open>v.get(...)\<close> on a loaded value.\<close>

definition get_in :: "json \<Rightarrow> string \<Rightarrow> json option res" where
  "get_in v k = (case v of JObj d \<Rightarrow> Inr (dict_get d k) | _ \<Rightarrow> Inl AttributeError)"

definition or_empty :: "json option \<Rightarrow> json" where
  "or_empty v = (case v of None \<Rightarrow> JObj [] | Some x \<Rightarrow> if json_truthy x then x else JObj [])"

definition policy_of :: "(string, json) dict \<Rightarrow> publication_policy res" where
  "policy_of merged =
    bind_res (json_int (get_or merged ''max_public_preview_chars'' (JInt 200))) (\<lambda>chars.
    Inr \<lparr>pp_allow_full_text_publication = json_truthy (get_or merged ''allow_full_text_publication'' (JBool False)),
      pp_max_public_preview_chars = chars,
      pp_attribution_required = json_truthy (get_or merged ''attribution_required'' (JBool True)),
      pp_source_url_required = json_truthy (get_or merged ''source_url_required'' (JBool True)),
      pp_raw_artifact_visibility = json_show (get_or merged ''raw_artifact_visibility'' (JStr ''internal_only'')),
      pp_quota_limit_notes = json_show (get_or merged ''quota_limit_notes'' (JStr []))\<rparr>)"

definition load_publication_policy :: "json option \<Rightarrow> string \<Rightarrow> publication_policy res" where
  "load_publication_policy file source_id = (case file of None \<Rightarrow> Inr default_publication_policy
    | Some loaded \<Rightarrow>
       let raw = (if json_truthy loaded then loaded else JObj []) in
       bind_res (get_in raw ''default'') (\<lambda>default.
       bind_res (get_in raw ''per_source'') (\<lambda>sources.
       bind_res (get_in (or_empty sources) source_id) (\<lambda>per.
       bind_res (merge_objs (case default of None \<Rightarrow> JObj [] | Some v \<Rightarrow> v) (case per of None \<Rightarrow> JObj [] | Some v \<Rightarrow> v))
         policy_of))))"

definition ELLIPSIS :: string where "ELLIPSIS = utf8 [8230]"

definition public_preview :: "json option \<Rightarrow> string \<Rightarrow> string \<Rightarrow> string res" where
  "public_preview file body source_id =
    (if body = [] then Inr []
     else bind_res (load_publication_policy file source_id) (\<lambda>policy.
       let limit = pp_max_public_preview_chars policy in
       if pp_allow_full_text_publication policy then Inr body
       else if limit \<le> 0 then Inr []
       else if int (py_len body) \<le> limit then Inr body
       else Inr (rstrip (py_take (nat limit) body) @ ELLIPSIS)))"

definition item_has :: "(string, json) dict \<Rightarrow> string \<Rightarrow> bool" where
  "item_has item k = (case dict_get item k of None \<Rightarrow> False | Some v \<Rightarrow> json_truthy v)"

definition is_publication_candidate :: "json option \<Rightarrow> (string, json) dict \<Rightarrow> (bool \<times> string) res" where
  "is_publication_candidate file item =
    bind_res (as_str_or (dict_get item ''source_id'') []) (\<lambda>source_id.
    bind_res (load_publication_policy file source_id) (\<lambda>policy.
      Inr (if pp_source_url_required policy \<and> \<not> item_has item ''source_url'' then (False, ''missing_source_url'')
        else if pp_attribution_required policy \<and> \<not> (item_has item ''source_name'' \<or> source_id \<noteq> []) then
          (False, ''missing_attribution'')
        else (True, []))))"

definition raw_artifact_is_internal :: "json option \<Rightarrow> string \<Rightarrow> bool res" where
  "raw_artifact_is_internal file source_id =
    bind_res (load_publication_policy file source_id) (\<lambda>p. Inr (pp_raw_artifact_visibility p = ''internal_only''))"

section \<open>Bounds\<close>

lemma sum_ten: "sum_list (map (\<lambda>(k, w). get_or (raw_scores m st) k 0 * w) WEIGHTS) =
   (if qm_title_present m then 1 else 0) * (15/100) + normalize_body_length (qm_body_length m) st * (20/100) +
   min 1 (max 0 (qm_body_text_ratio m)) * (10/100) + (if qm_published_at_present m then 1 else 0) * (10/100) +
   (if qm_author_present m then 1 else 0) * (5/100) + (if qm_language_detected m then 1 else 0) * (10/100) +
   max 0 (1 - qm_boilerplate_ratio m) * (15/100) + normalize_sentence_count (qm_sentence_count m) * (5/100) +
   min 1 (qm_keyword_density m * 10) * (5/100) + min 1 (max 0 (qm_metadata_completeness m)) * (5/100)"
  by (simp add: WEIGHTS_def raw_scores_def get_or_def)

lemma normalize_body_length_bounds: "0 \<le> normalize_body_length n st" "normalize_body_length n st \<le> 1"
  by (cases st; simp add: normalize_body_length_def divide_simps)+

abbreviation in_unit :: "rat \<Rightarrow> bool" where
  "in_unit x \<equiv> 0 \<le> x \<and> x \<le> 1"

lemma weighted_in_unit:
  assumes "in_unit a" "in_unit b" "in_unit c" "in_unit d" "in_unit e" "in_unit f" "in_unit g" "in_unit h"
    "in_unit i" "in_unit j"
  shows "in_unit (a * (15/100) + b * (20/100) + c * (10/100) + d * (10/100) + e * (5/100) + f * (10/100) +
    g * (15/100) + h * (5/100) + i * (5/100) + j * (5/100))"
  using assms by (intro conjI; linarith)

lemma score_parts_bounds:
  assumes "0 \<le> qm_boilerplate_ratio m" "0 \<le> qm_keyword_density m"
  shows "in_unit (compute_quality_score m st)"
  unfolding compute_quality_score_def sum_ten
  using assms normalize_body_length_bounds [of "qm_body_length m" st]
  by (intro weighted_in_unit) (auto simp: normalize_sentence_count_def)

lemma extraction_ratios:
  "0 \<le> qm_boilerplate_ratio (build_metrics_from_extraction t b a p l md)"
  "0 \<le> qm_keyword_density (build_metrics_from_extraction t b a p l md)"
  by (simp_all add: build_metrics_from_extraction_def Let_def)

lemma no_body_metrics:
  assumes "\<not> truthy body"
  shows "qm_body_length (build_metrics_from_extraction t body a p l md) = 0"
    "qm_body_text_ratio (build_metrics_from_extraction t body a p l md) = 0"
    "qm_boilerplate_ratio (build_metrics_from_extraction t body a p l md) = 2/10"
    "qm_sentence_count (build_metrics_from_extraction t body a p l md) = 0"
    "qm_keyword_density (build_metrics_from_extraction t body a p l md) = 0"
  using assms
  by (simp_all add: build_metrics_from_extraction_def Let_def or_str_not_truthy py_len_def sentences_of_def words_def strip_def lstrip_def rstrip_def)

lemma no_body_score:
  assumes "\<not> truthy body"
  shows "compute_quality_score (build_metrics_from_extraction t body a p l md) st < SUCCESS_THRESHOLD"
proof -
  have "normalize_body_length 0 st = 0" by (cases st) (simp_all add: normalize_body_length_def)
  then show ?thesis
    unfolding compute_quality_score_def sum_ten no_body_metrics [OF assms] SUCCESS_THRESHOLD_def
      normalize_sentence_count_def
    by (auto split: if_splits simp: min_def max_def)
qed

text \<open>
  The quality score of an extraction lies between 0 and 1 for every kind of source, and an extraction
  without a body is never a \<open>SUCCESS\<close>: whatever else was found, its score stays under the threshold.
\<close>

lemma quality_score_is_bounded:
  "0 \<le> compute_quality_score (build_metrics_from_extraction title body author published_at language metadata) st \<and>
   compute_quality_score (build_metrics_from_extraction title body author published_at language metadata) st \<le> 1 \<and>
   (\<not> truthy body \<longrightarrow>
     determine_quality_status
       (compute_quality_score (build_metrics_from_extraction title body author published_at language metadata) st)
       is_blocked \<noteq> SUCCESS)"
  using score_parts_bounds [OF extraction_ratios, of title body author published_at language metadata st]
    no_body_score [of body title author published_at language metadata st]
  by (cases "truthy body") (auto simp: determine_quality_status_def)

theorem quality_score_is_bounded_witness:
  "determine_quality_status
     (compute_quality_score (build_metrics_from_extraction (Some ''T'') None (Some ''A'') None None []) News) False
   \<noteq> SUCCESS"
  using quality_score_is_bounded [of "Some ''T''" None "Some ''A''" None None "[]" News False] by simp

lemma py_take_prefix: "\<exists>r. s = py_take n s @ r"
  by (induction n s rule: py_take.induct) (auto split: nat.splits)

lemma rstrip_prefix: "\<exists>r. s = rstrip s @ r"
proof -
  have "rev s = takeWhile is_blank (rev s) @ dropWhile is_blank (rev s)" by simp
  then have "s = rev (dropWhile is_blank (rev s)) @ rev (takeWhile is_blank (rev s))"
    by (metis rev_append rev_rev_ident)
  then show ?thesis by (auto simp: rstrip_def)
qed

lemma py_len_prefix: "py_len (rstrip s) \<le> py_len s"
  using rstrip_prefix [of s] by (metis le_add1 py_len_append)

lemma ELLIPSIS_bytes: "ELLIPSIS = [CHR 0xE2, CHR 0x80, CHR 0xA6]"
  by (simp add: ELLIPSIS_def utf8_def utf8_char_def char_of_def bit_0)

lemma py_len_ELLIPSIS: "py_len ELLIPSIS = 1"
  by (simp add: ELLIPSIS_bytes py_len_def is_cont_def)

text \<open>
  Without the permission for full texts, what \<open>public_preview\<close> shows of a text is the text itself when
  it fits the limit of its source, and else the beginning of the text, without the blanks at its end, followed by an
  ellipsis; it never has more than the limit and one character.
\<close>

lemma preview_is_bounded:
  assumes "load_publication_policy file source_id = Inr policy" "\<not> pp_allow_full_text_publication policy"
    "public_preview file body source_id = Inr shown"
  shows "py_len shown \<le> nat (pp_max_public_preview_chars policy) + 1 \<and>
    (shown = [] \<or> shown = body \<and> int (py_len body) \<le> pp_max_public_preview_chars policy \<or>
     (\<exists>start rest. body = start @ rest \<and> shown = start @ ELLIPSIS \<and>
       int (py_len start) \<le> pp_max_public_preview_chars policy))"
proof (cases "body = [] \<or> int (py_len body) \<le> pp_max_public_preview_chars policy \<or> pp_max_public_preview_chars policy \<le> 0")
  case True
  then show ?thesis using assms by (auto simp: public_preview_def Let_def py_len_def split: if_splits)
next
  case False
  let ?n = "nat (pp_max_public_preview_chars policy)"
  from False have shown: "shown = rstrip (py_take ?n body) @ ELLIPSIS"
    using assms by (auto simp: public_preview_def Let_def)
  have len: "py_len (rstrip (py_take ?n body)) \<le> ?n"
    using py_len_prefix py_len_take_le le_trans by blast
  obtain r1 where r1: "py_take ?n body = rstrip (py_take ?n body) @ r1" using rstrip_prefix by blast
  obtain r2 where "body = py_take ?n body @ r2" using py_take_prefix by blast
  with r1 have "body = rstrip (py_take ?n body) @ r1 @ r2" by (metis append.assoc)
  with shown len False show ?thesis by (auto simp: py_len_ELLIPSIS)
qed

theorem preview_is_bounded_witness:
  "py_len (''abc'' @ ELLIPSIS) \<le> 5"
proof -
  have l: "load_publication_policy (Some (JObj [(''default'', JObj [(''max_public_preview_chars'', JInt 4)])])) ''s''
    = Inr \<lparr>pp_allow_full_text_publication = False, pp_max_public_preview_chars = 4, pp_attribution_required = True,
        pp_source_url_required = True, pp_raw_artifact_visibility = ''internal_only'', pp_quota_limit_notes = []\<rparr>"
    by code_simp
  have p: "public_preview (Some (JObj [(''default'', JObj [(''max_public_preview_chars'', JInt 4)])])) ''abc def'' ''s''
    = Inr (''abc'' @ ELLIPSIS)"
    by (simp add: public_preview_def l Let_def py_len_def is_cont_def rstrip_def is_blank_def)
  show ?thesis using preview_is_bounded [OF l _ p] by simp
qed

text \<open>Only reading the file is guarded: a policy of the wrong shape raises.\<close>

lemma malformed_policy_raises:
  "load_publication_policy (Some (JObj [(''default'', JNull)])) ''s'' = Inl TypeError"
  "load_publication_policy (Some (JObj [(''default'', JObj [(''max_public_preview_chars'', JStr ''many'')])])) ''s''
    = Inl (ValueError ''many'')"
  by code_simp+

text \<open>The ellipsis comes on top of the limit.\<close>

lemma preview_exceeds_limit:
  "public_preview (Some (JObj [(''default'', JObj [(''max_public_preview_chars'', JInt 2)])])) ''abc'' ''s''
    = Inr (''ab'' @ ELLIPSIS)"
  by (simp add: public_preview_def load_publication_policy_def get_in_def or_empty_def merge_objs_def policy_of_def
    json_truthy_def json_show_def get_or_def Let_def py_len_def is_cont_def rstrip_def is_blank_def json_int_def)

end
