(* ===== verification/Collection_Gates.thy ===== *)
theory Collection_Gates
  imports Dedup
begin

text \<open>
  The gates between collection and the queue, all without network access:
  \<open>ingestion/orchestration/article_candidate.py\<close>, \<open>body_state.py\<close>, \<open>quality_pre_gate.py\<close>,
  \<open>evidence_gate.py\<close> and \<open>community_corroboration_gate.py\<close>, and \<open>ingestion/core/quality_score.py\<close> and
  \<open>publication_policy.py\<close>.

  \<open>digest\<close> is the first 16 hexadecimal digits of \<open>hashlib.sha1\<close>; \<open>parsedate\<close> is
  \<open>email.utils.parsedate_to_datetime\<close>, \<^term>\<open>None\<close> where it raises a \<open>TypeError\<close> or \<open>ValueError\<close>.
  A policy file is given as what the YAML loader returns. Korean markers are given by code points.
\<close>

section \<open>State of a body\<close>

record article_candidate =
  ac_source_id :: string
  ac_title :: "string option"
  ac_source_url :: "string option"
  ac_published_at :: "string option"
  ac_summary :: "string option"
  ac_body_text :: "string option"
  ac_raw_artifact_path :: "string option"
  ac_extracted_text_ref :: "string option"
  ac_canonical_url :: "string option"
  ac_body_missing :: bool
  ac_collection_status :: string
  ac_parser_name :: string
  ac_parse_error :: "string option"
  ac_numeric_payload_exempt :: bool
  ac_confirmation_policy :: "string option"

definition FULL_BODY_MIN :: int where "FULL_BODY_MIN = 200"
definition COMMUNITY_FULL_MIN :: int where "COMMUNITY_FULL_MIN = 50"
definition PARTIAL_MIN :: int where "PARTIAL_MIN = 50"
definition NUMERIC_PURPOSES :: "string list" where "NUMERIC_PURPOSES = [''numeric'', ''trend'']"

definition EXCERPT_MARKERS :: "string list" where
  "EXCERPT_MARKERS =
    [''read the full story'', ''read full story'', ''read the rest'', ''read more at'',
     ''continue reading'', ''read full article'', ''appeared first on'',
     ''the post appeared'', utf8 [91, 8230, 93], utf8 [91, 8230, 93], ''click here to read'']"

definition looks_truncated :: "string \<Rightarrow> bool" where
  "looks_truncated body = list_ex (\<lambda>m. contains m (lower (py_tail 200 body))) EXCERPT_MARKERS"

record body_extraction_state =
  bs_body_missing :: bool
  bs_body_source :: "string option"
  bs_body_length :: int
  bs_extraction_status :: string
  bs_numeric_payload_exempt :: bool
  bs_snippet_only :: bool
  bs_partial :: bool
  bs_reason :: "string option"

definition full_threshold_of :: "string option \<Rightarrow> int" where
  "full_threshold_of purpose = (if purpose = Some ''community'' then COMMUNITY_FULL_MIN else FULL_BODY_MIN)"

definition no_body :: "string \<Rightarrow> string \<Rightarrow> body_extraction_state" where
  "no_body status reason = \<lparr>bs_body_missing = True, bs_body_source = None, bs_body_length = 0,
     bs_extraction_status = status, bs_numeric_payload_exempt = False, bs_snippet_only = False,
     bs_partial = False, bs_reason = Some reason\<rparr>"

definition assess_body_state ::
  "string option \<Rightarrow> string option \<Rightarrow> string option \<Rightarrow> bool \<Rightarrow> string option \<Rightarrow> bool \<Rightarrow> bool \<Rightarrow> int option
   \<Rightarrow> body_extraction_state" where
  "assess_body_state body_text summary purpose numeric_payload_exempt parse_error artifact_present malformed full_threshold =
    (if truthy parse_error then no_body ''parser_error'' (or_str parse_error [])
     else if malformed then no_body ''malformed'' ''malformed_artifact''
     else if \<not> artifact_present then no_body ''no_artifact'' ''no_artifact''
     else if numeric_payload_exempt \<or> (\<exists>p \<in> set NUMERIC_PURPOSES. purpose = Some p) then
       \<lparr>bs_body_missing = False, bs_body_source = None, bs_body_length = 0,
        bs_extraction_status = ''numeric_exempt'', bs_numeric_payload_exempt = True, bs_snippet_only = False,
        bs_partial = False, bs_reason = Some ''numeric_or_trend_signal''\<rparr>
     else
       let body = strip (or_str body_text []);
           summ = strip (or_str summary []);
           threshold = (case full_threshold of Some t \<Rightarrow> t | None \<Rightarrow> full_threshold_of purpose);
           blen = int (py_len body)
       in if body \<noteq> [] \<and> looks_truncated body then
            \<lparr>bs_body_missing = True, bs_body_source = Some ''body_excerpt'', bs_body_length = blen,
             bs_extraction_status = ''snippet_only'', bs_numeric_payload_exempt = False, bs_snippet_only = True,
             bs_partial = False, bs_reason = Some ''excerpt_with_full_story_link''\<rparr>
          else if blen \<ge> threshold then
            \<lparr>bs_body_missing = False, bs_body_source = Some ''body'', bs_body_length = blen,
             bs_extraction_status = ''present'', bs_numeric_payload_exempt = False, bs_snippet_only = False,
             bs_partial = False, bs_reason = None\<rparr>
          else if blen \<ge> PARTIAL_MIN then
            \<lparr>bs_body_missing = False, bs_body_source = Some ''body'', bs_body_length = blen,
             bs_extraction_status = ''partial'', bs_numeric_payload_exempt = False, bs_snippet_only = False,
             bs_partial = True, bs_reason = Some (''below_full_threshold:'' @ int_str threshold)\<rparr>
          else if summ \<noteq> [] then
            \<lparr>bs_body_missing = True, bs_body_source = Some ''summary'', bs_body_length = int (py_len summ),
             bs_extraction_status = ''snippet_only'', bs_numeric_payload_exempt = False, bs_snippet_only = True,
             bs_partial = False, bs_reason = Some ''summary_only_no_body''\<rparr>
          else
            \<lparr>bs_body_missing = True, bs_body_source = None, bs_body_length = blen,
             bs_extraction_status = ''missing'', bs_numeric_payload_exempt = False, bs_snippet_only = False,
             bs_partial = False, bs_reason = Some ''no_body_no_summary''\<rparr>)"

definition assess_candidate_body :: "article_candidate \<Rightarrow> string option \<Rightarrow> body_extraction_state" where
  "assess_candidate_body c purpose =
    assess_body_state (ac_body_text c) (ac_summary c) purpose (ac_numeric_payload_exempt c) (ac_parse_error c)
      True False None"

section \<open>Quality gate before the queue\<close>

definition BOILERPLATE_MARKERS :: "string list" where
  "BOILERPLATE_MARKERS =
    [''subscribe'', ''sign up'', ''cookie'', ''all rights reserved'', ''terms of service'',
     ''privacy policy'', ''advertisement'', utf8 [44396, 46021], utf8 [51200, 51089, 44428],
     utf8 [47924, 45800, 32, 51204, 51116], utf8 [51116, 48176, 54252, 32, 44552, 51648],
     utf8 [44305, 44256], utf8 [47196, 44536, 51064], utf8 [53216, 53412]]"

record pre_gate_result =
  pg_source_id :: string
  pg_candidate_id :: "string option"
  pg_decision :: string
  pg_reasons :: "string list"
  pg_normalized_published_at :: "string option"
  pg_canonical_url :: "string option"
  pg_evidence_ref :: "string option"
  pg_duplicate_key :: "string option"
  pg_boilerplate_risk :: string
  pg_publication_policy :: string

text \<open>\<open>strptime\<close> accepts exactly the fields that \<open>datetime\<close> accepts in these two forms.\<close>

definition pub_gdelt :: "string \<Rightarrow> datetime option" where
  "pub_gdelt s = Option.bind (gdelt_seendate s) (\<lambda>t.
     mk_datetime (num_at 0 4 t) (num_at 4 2 t) (num_at 6 2 t) (num_at 8 2 t) (num_at 10 2 t) (num_at 12 2 t))"

definition pub_date :: "string \<Rightarrow> datetime option" where
  "pub_date s = (if has_shape DATE_ONLY s then mk_datetime (num_at 0 4 s) (num_at 5 2 s) (num_at 8 2 s) 0 0 0 else None)"

definition normalize_published_at ::
  "(string \<Rightarrow> datetime option) \<Rightarrow> string option \<Rightarrow> string option \<times> string option" where
  "normalize_published_at parsedate raw = (case raw of None \<Rightarrow> (None, None) | Some r \<Rightarrow>
     let s = strip r in
     if s = [] then (None, Some ''empty'')
     else case first_some [\<lambda>_. fromisoformat (py_replace ''Z'' ''+00:00'' s), \<lambda>_. parsedate s,
         \<lambda>_. pub_gdelt s, \<lambda>_. pub_date s] of
       Some d \<Rightarrow> (Some (utc_iso d), None)
     | None \<Rightarrow> (None, Some ''unrecognized_format''))"

definition compute_duplicate_key :: "(string \<Rightarrow> string) \<Rightarrow> article_candidate \<Rightarrow> string option" where
  "compute_duplicate_key digest c =
    (if truthy (ac_canonical_url c) then Some (''url:'' @ digest (or_str (ac_canonical_url c) []))
     else let title = or_str (ac_title c) []; published = or_str (ac_published_at c) [] in
       if title = [] \<and> published = [] then None
       else Some (''meta:'' @ digest (ac_source_id c @ ''|'' @ title @ ''|'' @ published)))"

definition assess_boilerplate :: "article_candidate \<Rightarrow> string" where
  "assess_boilerplate c =
    (let body = strip (or_str (or_opt (ac_body_text c) (ac_summary c)) []) in
     if body = [] then ''not_applicable''
     else let hits = length (filter (\<lambda>m. contains m (lower body)) BOILERPLATE_MARKERS) in
       if hits \<ge> 2 then ''high'' else if hits = 1 then ''medium'' else ''low'')"

text \<open>The policy file: \<^term>\<open>None\<close> where it does not exist, else what the YAML loader returns.\<close>

definition load_gate_policy :: "json option \<Rightarrow> json" where
  "load_gate_policy file = (case file of
      None \<Rightarrow> JObj [(''default'', JObj [(''max_public_preview_chars'', JInt 200)]), (''per_source'', JObj [])]
    | Some v \<Rightarrow> if json_truthy v then v else JObj [])"

text \<open>\<open>d.get(key, {}) or {}\<close>.\<close>

definition sub_config :: "(string, json) dict \<Rightarrow> string \<Rightarrow> (string, json) dict res" where
  "sub_config d key = (case dict_get d key of None \<Rightarrow> Inr []
     | Some v \<Rightarrow> if \<not> json_truthy v then Inr [] else (case v of JObj entries \<Rightarrow> Inr entries | _ \<Rightarrow> Inl AttributeError))"

definition is_zero :: "json \<Rightarrow> bool" where
  "is_zero v = (case v of JInt n \<Rightarrow> n = 0 | JFloat r \<Rightarrow> r = 0 | JBool b \<Rightarrow> \<not> b | _ \<Rightarrow> False)"

definition publication_policy_for :: "string \<Rightarrow> (string, json) dict \<Rightarrow> string res" where
  "publication_policy_for source_id policy =
    bind_res (sub_config policy ''default'') (\<lambda>default.
    bind_res (sub_config policy ''per_source'') (\<lambda>sources.
    bind_res (sub_config sources source_id) (\<lambda>per.
      let chars = get_or per ''max_public_preview_chars'' (get_or default ''max_public_preview_chars'' (JInt 200))
      in Inr (if is_zero chars then ''no_public_preview'' else ''preview_only:'' @ json_show chars))))"

definition structured_signal :: "article_candidate \<Rightarrow> string option \<Rightarrow> bool" where
  "structured_signal c purpose \<longleftrightarrow> ac_numeric_payload_exempt c \<or> purpose \<in> {Some ''numeric'', Some ''trend''}"

text \<open>A check of the gate adds reasons and a verdict: whether to reject and whether to hold.\<close>

type_synonym check = "string list \<times> bool \<times> bool"

definition check_evidence :: "article_candidate \<Rightarrow> check" where
  "check_evidence c = (if truthy (or_opt (ac_raw_artifact_path c) (ac_extracted_text_ref c)) then ([], False, False)
     else ([''no_evidence_ref''], True, False))"

definition check_identity :: "article_candidate \<Rightarrow> string option \<Rightarrow> check" where
  "check_identity c purpose = (if \<not> truthy (ac_title c) \<and> \<not> structured_signal c purpose
     then ([''no_title_no_structured_signal''], True, False) else ([], False, False))"

definition check_body :: "string \<Rightarrow> check" where
  "check_body status =
    (if status \<in> {''present'', ''partial'', ''numeric_exempt''} then ([], False, False)
     else if status = ''snippet_only'' then ([''body_snippet_only''], False, True)
     else if status = ''missing'' then ([''body_missing''], False, True)
     else if status = ''parser_error'' then ([''parser_error''], False, True)
     else if status \<in> {''malformed'', ''no_artifact''} then ([''body_'' @ status], True, False)
     else ([], False, False))"

definition check_published :: "string option \<Rightarrow> string option \<Rightarrow> check" where
  "check_published published pub_err =
    (if truthy published \<and> truthy pub_err then ([''published_at_unparseable:'' @ or_str pub_err []], False, True)
     else if published = None then ([''published_at_absent''], False, False) else ([], False, False))"

definition check_boilerplate :: "string \<Rightarrow> check" where
  "check_boilerplate risk = (if risk = ''high'' then ([''boilerplate_suspected''], False, True) else ([], False, False))"

definition pre_gate_decision :: "check list \<Rightarrow> string" where
  "pre_gate_decision cs = (if list_ex (\<lambda>(_, reject, _). reject) cs then ''reject''
     else if list_ex (\<lambda>(_, _, hold). hold) cs then ''hold'' else ''pass'')"

definition pre_gate_checks ::
  "(string \<Rightarrow> datetime option) \<Rightarrow> article_candidate \<Rightarrow> string option \<Rightarrow> int option \<Rightarrow> check list" where
  "pre_gate_checks parsedate c purpose full_threshold =
    [check_evidence c, check_identity c purpose,
     check_body (bs_extraction_status (assess_body_state (ac_body_text c) (ac_summary c) purpose
       (ac_numeric_payload_exempt c) (ac_parse_error c) True False full_threshold)),
     check_published (ac_published_at c) (snd (normalize_published_at parsedate (ac_published_at c))),
     check_boilerplate (assess_boilerplate c)]"

definition evaluate_pre_gate ::
  "(string \<Rightarrow> string) \<Rightarrow> (string \<Rightarrow> datetime option) \<Rightarrow> article_candidate \<Rightarrow> string option \<Rightarrow> (string, json) dict
   \<Rightarrow> int option \<Rightarrow> pre_gate_result res" where
  "evaluate_pre_gate digest parsedate c purpose publication_policy full_threshold =
    (let checks = pre_gate_checks parsedate c purpose full_threshold in
     bind_res (publication_policy_for (ac_source_id c) publication_policy) (\<lambda>policy.
     Inr \<lparr>pg_source_id = ac_source_id c, pg_candidate_id = None, pg_decision = pre_gate_decision checks,
       pg_reasons = concat (map fst checks),
       pg_normalized_published_at = fst (normalize_published_at parsedate (ac_published_at c)),
       pg_canonical_url = ac_canonical_url c,
       pg_evidence_ref = or_opt (ac_raw_artifact_path c) (ac_extracted_text_ref c),
       pg_duplicate_key = compute_duplicate_key digest c, pg_boilerplate_risk = assess_boilerplate c,
       pg_publication_policy = policy\<rparr>))"

text \<open>\<open>d[k] = d.get(k, 0) + 1\<close>, and \<open>dict(sorted(d.items(), key=lambda x: -x[1]))\<close>.\<close>

definition bump :: "'k \<Rightarrow> ('k, int) dict \<Rightarrow> ('k, int) dict" where
  "bump k d = dict_set k (get_or d k 0 + 1) d"

definition most_first :: "('k, int) dict \<Rightarrow> ('k, int) dict" where
  "most_first d = sort_key (\<lambda>(k, n). - n) d"

definition reasons_of :: "string \<Rightarrow> pre_gate_result list \<Rightarrow> (string, int) dict" where
  "reasons_of decision rs = foldl (\<lambda>d reason. bump (takeWhile (\<lambda>c. c \<noteq> CHR '':'') reason) d) []
     (concat (map pg_reasons (filter (\<lambda>r. pg_decision r = decision) rs)))"

record pre_gate_summary =
  gs_decisions :: "(string, int) dict"
  gs_top_hold_reasons :: "(string, int) dict"
  gs_top_reject_reasons :: "(string, int) dict"

definition summarize_pre_gate :: "pre_gate_result list \<Rightarrow> pre_gate_summary" where
  "summarize_pre_gate rs =
    \<lparr>gs_decisions = foldl (\<lambda>d r. bump (pg_decision r) d) [(''pass'', 0), (''hold'', 0), (''reject'', 0)] rs,
     gs_top_hold_reasons = most_first (reasons_of ''hold'' rs),
     gs_top_reject_reasons = most_first (reasons_of ''reject'' rs)\<rparr>"

section \<open>Gate on the evidence of a record\<close>

definition is_slug_char :: "char \<Rightarrow> bool" where
  "is_slug_char c \<longleftrightarrow> is_lower c \<or> is_digit c \<or> c = CHR ''-''"

text \<open>The two patterns of made-up URLs and the four of local paths, all but the drive letter without case.\<close>

definition producthunt_slug :: "string \<Rightarrow> bool" where
  "producthunt_slug url \<longleftrightarrow> search_from (\<lambda>s. case take_shape (lit ''producthunt.com/posts/'') s of
       None \<Rightarrow> None
     | Some (_, r) \<Rightarrow> if takeWhile is_slug_char r \<noteq> [] \<and> dropWhile is_slug_char r \<in> {[], [nl]} then Some () else None)
     (lower url) \<noteq> None"

definition synthetic_url :: "string \<Rightarrow> bool" where
  "synthetic_url url \<longleftrightarrow> producthunt_slug url \<or> contains ''culture.go.kr/wantu/detail'' (lower url)"

definition drive_path :: "string \<Rightarrow> bool" where
  "drive_path url = (case url of a # b # c # _ \<Rightarrow>
       (is_upper a \<or> is_lower a) \<and> b = CHR '':'' \<and> (c = CHR 0x5C \<or> c = CHR ''/'')
     | _ \<Rightarrow> False)"

definition local_path :: "string \<Rightarrow> bool" where
  "local_path url \<longleftrightarrow>
     (let u = lower url in
      startswith u ''file://'' \<or> drive_path url \<or>
      list_ex (startswith u) [''/users/'', ''/home/'', ''/var/'', ''/tmp/''] \<or>
      startswith u ''outputs/'' \<or> contains ''/outputs/'' u)"

definition is_real_external_url :: "json option \<Rightarrow> bool" where
  "is_real_external_url v = (case v of
      Some (JStr url) \<Rightarrow> is_http url \<and> \<not> local_path url \<and> \<not> synthetic_url url
    | _ \<Rightarrow> False)"

definition is_local_or_synthetic :: "json option \<Rightarrow> bool" where
  "is_local_or_synthetic v = (case v of Some (JStr url) \<Rightarrow> local_path url \<or> synthetic_url url | _ \<Rightarrow> False)"

definition EVIDENCE_HIGH :: string where "EVIDENCE_HIGH = ''high''"
definition EVIDENCE_MEDIUM :: string where "EVIDENCE_MEDIUM = ''medium''"
definition EVIDENCE_LOW :: string where "EVIDENCE_LOW = ''low''"

record evidence_result =
  er_source_id :: string
  er_record_type :: json
  er_has_external_url :: bool
  er_has_stable_id :: bool
  er_has_time_anchor :: bool
  er_has_body_or_signal_payload :: bool
  er_body_state :: "json option"
  er_evidence_confidence :: string
  er_ready_allowed :: bool
  er_downgrade_reason :: "string option"

type_synonym eq_record = "(string, json) dict"

definition has_value :: "eq_record \<Rightarrow> string \<Rightarrow> bool" where
  "has_value r k = (case dict_get r k of None \<Rightarrow> False | Some v \<Rightarrow> json_truthy v)"

text \<open>The reasons to refuse a record, from what was found in it.\<close>

definition evidence_reasons :: "bool \<Rightarrow> bool \<Rightarrow> bool \<Rightarrow> bool \<Rightarrow> bool \<Rightarrow> string list" where
  "evidence_reasons synthetic has_url has_stable_id timed has_payload =
    (if synthetic then [''SYNTHETIC_OR_LOCAL_EVIDENCE''] else []) @
    (if \<not> has_url then [''NO_STABLE_EXTERNAL_URL''] else []) @
    (if \<not> has_stable_id then [''NO_STABLE_ID''] else []) @
    (if \<not> timed then [''NO_TIME_ANCHOR''] else []) @
    (if \<not> has_payload then [''NO_BODY_OR_SIGNAL_PAYLOAD''] else [])"

definition evaluate_evidence :: "string \<Rightarrow> eq_record \<Rightarrow> bool \<Rightarrow> evidence_result" where
  "evaluate_evidence source_id r require_body =
    (let src_url = dict_get r ''source_url_or_evidence''; canonical = dict_get r ''canonical_url'';
         body_state = dict_get r ''body_state_or_signal'';
         synthetic = is_local_or_synthetic src_url \<or> is_local_or_synthetic canonical;
         has_url = is_real_external_url src_url \<or> is_real_external_url canonical;
         has_stable_id = has_value r ''canonical_url'' \<or> has_value r ''stable_id'' \<or> has_url;
         timed = has_value r ''published_at_or_observed_at'';
         has_payload = has_value r ''body_state_or_signal'' \<and>
           (require_body \<longrightarrow> body_state \<notin> {Some (JStr ''community_signal''), Some (JStr ''snippet_only''), Some (JStr [])});
         reasons = evidence_reasons synthetic has_url has_stable_id timed has_payload;
         ready = (reasons = [])
     in \<lparr>er_source_id = source_id,
         er_record_type = (case dict_get r ''record_type'' of
             None \<Rightarrow> JStr ''unknown'' | Some v \<Rightarrow> if json_truthy v then v else JStr ''unknown''),
         er_has_external_url = has_url, er_has_stable_id = has_stable_id, er_has_time_anchor = timed,
         er_has_body_or_signal_payload = has_payload, er_body_state = body_state,
         er_evidence_confidence = (if ready then EVIDENCE_HIGH else if has_url \<and> timed then EVIDENCE_MEDIUM else EVIDENCE_LOW),
         er_ready_allowed = ready,
         er_downgrade_reason = (if reasons \<noteq> [] then Some (str_join '';'' reasons) else None)\<rparr>)"

text \<open>\<open>downgrade_reason.split(";")\<close>, where there is a reason.\<close>

definition downgrade_list :: "evidence_result \<Rightarrow> string list" where
  "downgrade_list g = (if truthy (er_downgrade_reason g)
     then split_on CHR '';'' (or_str (er_downgrade_reason g) []) else [])"

record gate_summary =
  gg_source_id :: string
  gg_total :: nat
  gg_ready_count :: nat
  gg_ready_allowed :: bool
  gg_downgrade_reasons :: "string list"
  gg_per_record :: "evidence_result list"

definition gate_records :: "string \<Rightarrow> eq_record list \<Rightarrow> bool \<Rightarrow> gate_summary" where
  "gate_records source_id rs require_body =
    (let per = map (\<lambda>r. evaluate_evidence source_id r require_body) rs;
         ready_count = length (filter er_ready_allowed per);
         reasons = concat (map downgrade_list per)
     in \<lparr>gg_source_id = source_id, gg_total = length per, gg_ready_count = ready_count,
         gg_ready_allowed = ready_count > 0, gg_downgrade_reasons = sorted_list_of_set (set reasons),
         gg_per_record = per\<rparr>)"

section \<open>Gate on community signals\<close>

definition PUBLISH_INTERNAL_QUEUE_ONLY :: string where "PUBLISH_INTERNAL_QUEUE_ONLY = ''internal_queue_only''"
definition PUBLISH_BLOCKED_UNTIL_CORROB :: string where "PUBLISH_BLOCKED_UNTIL_CORROB = ''publish_blocked_until_corrob''"
definition PUBLISH_PREVIEW_CANDIDATE :: string where "PUBLISH_PREVIEW_CANDIDATE = ''preview_candidate''"

definition FINANCIAL_GALLERY_IDS :: "string list" where
  "FINANCIAL_GALLERY_IDS = [''stockus'', ''stock_new'', ''neostock'', ''financ'', ''coinkorea'']"

definition FINANCIAL_GALLERY_HINTS :: "string list" where
  "FINANCIAL_GALLERY_HINTS = [''stock'', ''coin'', ''financ'', ''invest'']"

definition SOLICITATION_MARKERS :: "string list" where
  "SOLICITATION_MARKERS =
    map utf8 [[47588, 49688], [47588, 46020], [54400, 47588, 49688], [54400, 47588, 46020], [49324, 46972],
      [54036, 50500], [46308, 50612, 44032], [44032, 51592, 50500], [44032, 51592, 50519],
      [46497, 49345], [46497, 46973], [49345, 54620, 44032], [54616, 54620, 44032], [47785, 54364, 44032],
      [51061, 51208], [49552, 51208], [51316, 48260], [52628, 52380, 51452], [44553, 46321, 51452]] @
    [''buy now'', ''sell now'', ''to the moon'', ''all in'', ''pump'']"

record community_decision =
  cm_source_id :: string
  cm_gallery_id :: "string option"
  cm_title :: "string option"
  cm_source_url :: "string option"
  cm_published_at :: "string option"
  cm_risk_tags :: "string list"
  cm_requires_external_confirmation :: bool
  cm_publish_level :: string

definition is_financial_gallery :: "string option \<Rightarrow> bool" where
  "is_financial_gallery gallery_id = (truthy gallery_id \<and>
     (let g = lower (or_str gallery_id []) in
      g \<in> set FINANCIAL_GALLERY_IDS \<or> list_ex (\<lambda>h. contains h g) FINANCIAL_GALLERY_HINTS))"

definition detect_solicitation :: "string option \<Rightarrow> bool" where
  "detect_solicitation title = (truthy title \<and>
     (let t = or_str title [] in list_ex (\<lambda>m. contains m t \<or> contains m (lower t)) SOLICITATION_MARKERS))"

definition evaluate_community_corroboration ::
  "string \<Rightarrow> string option \<Rightarrow> string option \<Rightarrow> string option \<Rightarrow> string option \<Rightarrow> community_decision" where
  "evaluate_community_corroboration source_id gallery_id title source_url published_at =
    (let financial = is_financial_gallery gallery_id; solicitation = detect_solicitation title in
     \<lparr>cm_source_id = source_id, cm_gallery_id = gallery_id, cm_title = title, cm_source_url = source_url,
      cm_published_at = published_at,
      cm_risk_tags = ''anonymous_community'' # (if financial then [''anonymous_financial_board''] else []) @
        (if solicitation then [''investment_solicitation_or_pump''] else []),
      cm_requires_external_confirmation = True,
      cm_publish_level = (if financial then PUBLISH_INTERNAL_QUEUE_ONLY
        else if solicitation then PUBLISH_BLOCKED_UNTIL_CORROB else PUBLISH_PREVIEW_CANDIDATE)\<rparr>)"

definition annotate_record :: "string \<Rightarrow> string option \<Rightarrow> eq_record \<Rightarrow> eq_record res" where
  "annotate_record source_id gallery_id r =
    bind_res (as_opt_str (dict_get r ''title_or_label'')) (\<lambda>title.
    bind_res (as_opt_str (dict_get r ''source_url_or_evidence'')) (\<lambda>url.
    bind_res (as_opt_str (dict_get r ''published_at_or_observed_at'')) (\<lambda>published.
      let d = evaluate_community_corroboration source_id gallery_id title url published in
      Inr (dict_set ''corroboration_risk_tags'' (strs_json (cm_risk_tags d))
          (dict_set ''requires_external_confirmation'' (JBool (cm_requires_external_confirmation d))
          (dict_set ''publish_level'' (JStr (cm_publish_level d)) r))))))"

definition annotate_records :: "eq_record list \<Rightarrow> string \<Rightarrow> string option \<Rightarrow> eq_record list res" where
  "annotate_records rs source_id gallery_id = map_res (annotate_record source_id gallery_id) rs"

section \<open>What the gates let through\<close>

text \<open>A body that is good enough: a signal needs none, else it is long enough and no excerpt.\<close>

definition good_body :: "article_candidate \<Rightarrow> string option \<Rightarrow> int option \<Rightarrow> bool" where
  "good_body c purpose full_threshold \<longleftrightarrow> \<not> truthy (ac_parse_error c) \<and>
     (structured_signal c purpose \<or>
      (let body = strip (or_str (ac_body_text c) []);
           threshold = (case full_threshold of Some t \<Rightarrow> t | None \<Rightarrow> full_threshold_of purpose)
       in (body = [] \<or> \<not> looks_truncated body) \<and> min threshold PARTIAL_MIN \<le> int (py_len body)))"

definition dated_or_undated :: "(string \<Rightarrow> datetime option) \<Rightarrow> article_candidate \<Rightarrow> bool" where
  "dated_or_undated parsedate c \<longleftrightarrow>
     (truthy (ac_published_at c) \<longrightarrow> fst (normalize_published_at parsedate (ac_published_at c)) \<noteq> None)"

lemma structured_signal_iff:
  "structured_signal c purpose \<longleftrightarrow>
     ac_numeric_payload_exempt c \<or> (\<exists>p \<in> set NUMERIC_PURPOSES. purpose = Some p)"
  by (auto simp: structured_signal_def NUMERIC_PURPOSES_def)

lemma check_body_verdict:
  "fst (snd (check_body status)) \<longleftrightarrow> status \<in> {''malformed'', ''no_artifact''}"
  "snd (snd (check_body status)) \<longleftrightarrow> status \<in> {''snippet_only'', ''missing'', ''parser_error''}"
  by (auto simp: check_body_def)

lemma body_status_cases:
  "bs_extraction_status (assess_body_state (ac_body_text c) (ac_summary c) purpose (ac_numeric_payload_exempt c)
     (ac_parse_error c) True False full_threshold)
   \<in> (if good_body c purpose full_threshold then {''present'', ''partial'', ''numeric_exempt''}
      else {''snippet_only'', ''missing'', ''parser_error''})"
  by (auto simp: assess_body_state_def good_body_def structured_signal_iff no_body_def Let_def PARTIAL_MIN_def
      split: option.splits)

lemma normalized_or_error:
  "(fst (normalize_published_at parsedate raw) \<noteq> None) \<longleftrightarrow> raw \<noteq> None \<and> snd (normalize_published_at parsedate raw) = None"
  "truthy (snd (normalize_published_at parsedate raw)) \<longleftrightarrow> snd (normalize_published_at parsedate raw) \<noteq> None"
  by (auto simp: normalize_published_at_def Let_def split: option.splits)

abbreviation unfit :: "article_candidate \<Rightarrow> string option \<Rightarrow> bool" where
  "unfit c purpose \<equiv> \<not> truthy (or_opt (ac_raw_artifact_path c) (ac_extracted_text_ref c)) \<or>
     \<not> truthy (ac_title c) \<and> \<not> structured_signal c purpose"

lemma some_check_rejects:
  "list_ex (\<lambda>(_, reject, _). reject) (pre_gate_checks parsedate c purpose full_threshold) \<longleftrightarrow> unfit c purpose"
proof -
  have "\<not> fst (snd (check_body (bs_extraction_status (assess_body_state (ac_body_text c) (ac_summary c) purpose
      (ac_numeric_payload_exempt c) (ac_parse_error c) True False full_threshold))))"
    unfolding check_body_verdict using body_status_cases [of c purpose full_threshold] by (auto split: if_splits)
  then show ?thesis
    by (simp add: pre_gate_checks_def case_prod_unfold check_evidence_def check_identity_def check_published_def
        check_boilerplate_def)
qed

lemma some_check_holds:
  "list_ex (\<lambda>(_, _, hold). hold) (pre_gate_checks parsedate c purpose full_threshold) \<longleftrightarrow>
     \<not> (good_body c purpose full_threshold \<and> dated_or_undated parsedate c \<and> assess_boilerplate c \<noteq> ''high'')"
proof -
  have body: "snd (snd (check_body (bs_extraction_status (assess_body_state (ac_body_text c) (ac_summary c) purpose
      (ac_numeric_payload_exempt c) (ac_parse_error c) True False full_threshold)))) \<longleftrightarrow> \<not> good_body c purpose full_threshold"
    unfolding check_body_verdict using body_status_cases [of c purpose full_threshold] by (auto split: if_splits)
  have date: "snd (snd (check_published (ac_published_at c) (snd (normalize_published_at parsedate (ac_published_at c)))))
      \<longleftrightarrow> \<not> dated_or_undated parsedate c"
    using normalized_or_error [of parsedate "ac_published_at c"]
    by (cases "ac_published_at c") (simp_all add: check_published_def dated_or_undated_def)
  show ?thesis
    using body date by (simp add: pre_gate_checks_def case_prod_unfold check_evidence_def check_identity_def check_boilerplate_def)
qed

lemma pre_gate_decision_iff:
  "pre_gate_decision (pre_gate_checks parsedate c purpose full_threshold) = ''reject'' \<longleftrightarrow> unfit c purpose"
  "pre_gate_decision (pre_gate_checks parsedate c purpose full_threshold) = ''pass'' \<longleftrightarrow>
     \<not> unfit c purpose \<and> good_body c purpose full_threshold \<and> dated_or_undated parsedate c \<and> assess_boilerplate c \<noteq> ''high''"
  unfolding pre_gate_decision_def some_check_rejects some_check_holds by simp_all

text \<open>
  C27: The gate before the queue rejects a candidate exactly when it has no artifact to refer to or nothing that
  identifies it, passes one exactly when it is not rejected, its body is good enough (a signal needs none, a body must be
  long enough and no excerpt), its date, if it has one, could be normalised and its text is not boilerplate, and holds
  every other one; a passed candidate carries its reference.
\<close>

theorem pre_gate_passes_exactly:
  assumes "evaluate_pre_gate digest parsedate c purpose policy full_threshold = Inr g"
  shows "(pg_decision g = ''reject'' \<longleftrightarrow> \<not> truthy (pg_evidence_ref g) \<or> \<not> truthy (ac_title c) \<and> \<not> structured_signal c purpose) \<and>
    (pg_decision g = ''pass'' \<longleftrightarrow> truthy (pg_evidence_ref g) \<and> (truthy (ac_title c) \<or> structured_signal c purpose) \<and>
       good_body c purpose full_threshold \<and> dated_or_undated parsedate c \<and> assess_boilerplate c \<noteq> ''high'') \<and>
    pg_decision g \<in> {''reject'', ''hold'', ''pass''}"
proof -
  from assms have g: "pg_decision g = pre_gate_decision (pre_gate_checks parsedate c purpose full_threshold)"
    "pg_evidence_ref g = or_opt (ac_raw_artifact_path c) (ac_extracted_text_ref c)"
    by (auto simp: evaluate_pre_gate_def Let_def bind_res_Inr_iff)
  have "pg_decision g \<in> {''reject'', ''hold'', ''pass''}"
    by (simp add: g(1) pre_gate_decision_def)
  then show ?thesis
    using pre_gate_decision_iff [of parsedate c purpose full_threshold] unfolding g by blast
qed

definition plain_candidate :: article_candidate where
  "plain_candidate = \<lparr>ac_source_id = ''s'', ac_title = Some ''T'', ac_source_url = None, ac_published_at = None,
     ac_summary = None, ac_body_text = None, ac_raw_artifact_path = Some ''a.json'', ac_extracted_text_ref = None,
     ac_canonical_url = None, ac_body_missing = True, ac_collection_status = ''UNKNOWN'', ac_parser_name = [],
     ac_parse_error = None, ac_numeric_payload_exempt = True, ac_confirmation_policy = None\<rparr>"

theorem pre_gate_passes_exactly_witness:
  "\<exists>g. evaluate_pre_gate (\<lambda>s. s) (\<lambda>s. None) plain_candidate None [] None = Inr g \<and> pg_decision g = ''pass''"
proof -
  obtain g where e: "evaluate_pre_gate (\<lambda>s. s) (\<lambda>s. None) plain_candidate None [] None = Inr g"
    and r: "pg_evidence_ref g = Some ''a.json''"
    by (simp add: evaluate_pre_gate_def publication_policy_for_def sub_config_def Let_def plain_candidate_def or_opt_def)
  have "good_body plain_candidate None None" "dated_or_undated (\<lambda>s. None) plain_candidate"
    "assess_boilerplate plain_candidate \<noteq> ''high''" "ac_title plain_candidate = Some ''T''"
    by (simp_all add: good_body_def structured_signal_def dated_or_undated_def assess_boilerplate_def plain_candidate_def
      or_opt_def strip_def lstrip_def rstrip_def)
  then show ?thesis using pre_gate_passes_exactly [OF e] e r by auto
qed

lemma split_on_append: "c \<notin> set x \<Longrightarrow> split_on c (x @ c # rest) = x # split_on c rest"
  by (induction x) auto

lemma split_on_absent: "c \<notin> set x \<Longrightarrow> split_on c x = [x]"
  by (induction x) auto

lemma split_on_join: "xs \<noteq> [] \<Longrightarrow> \<forall>x \<in> set xs. c \<notin> set x \<Longrightarrow> split_on c (str_join [c] xs) = xs"
  by (induction xs rule: induct_list012) (simp_all add: split_on_absent split_on_append)

lemma evidence_reasons_plain: "\<forall>x \<in> set (evidence_reasons a b c d e). CHR '';'' \<notin> set x \<and> x \<noteq> []"
  by (auto simp: evidence_reasons_def)

lemma str_join_not_Nil: "xs \<noteq> [] \<Longrightarrow> \<forall>x \<in> set xs. x \<noteq> [] \<Longrightarrow> str_join sep xs \<noteq> []"
  by (induction xs rule: induct_list012) auto

lemma reasons_read_back:
  assumes "er_downgrade_reason g = (if rs \<noteq> [] then Some (str_join '';'' rs) else None)"
    "\<forall>x \<in> set rs. CHR '';'' \<notin> set x \<and> x \<noteq> []"
  shows "downgrade_list g = rs"
  using assms split_on_join [of rs "CHR '';''"] str_join_not_Nil [of rs "'';''"]
  by (auto simp: downgrade_list_def or_str_truthy)

definition reasons_against :: "string \<Rightarrow> bool \<Rightarrow> eq_record \<Rightarrow> string list" where
  "reasons_against source_id require_body r =
    (let g = evaluate_evidence source_id r require_body;
         synthetic = is_local_or_synthetic (dict_get r ''source_url_or_evidence'') \<or>
           is_local_or_synthetic (dict_get r ''canonical_url'')
     in evidence_reasons synthetic (er_has_external_url g) (er_has_stable_id g) (er_has_time_anchor g)
          (er_has_body_or_signal_payload g))"

lemma evaluate_evidence_reasons:
  "er_ready_allowed (evaluate_evidence source_id r require_body) \<longleftrightarrow> reasons_against source_id require_body r = []"
  "er_downgrade_reason (evaluate_evidence source_id r require_body) =
    (if reasons_against source_id require_body r \<noteq> [] then Some (str_join '';'' (reasons_against source_id require_body r)) else None)"
  by (simp_all add: evaluate_evidence_def reasons_against_def Let_def)

lemma evidence_ready_iff:
  "er_ready_allowed (evaluate_evidence source_id r require_body) \<longleftrightarrow>
     (is_real_external_url (dict_get r ''source_url_or_evidence'') \<or> is_real_external_url (dict_get r ''canonical_url'')) \<and>
     \<not> is_local_or_synthetic (dict_get r ''source_url_or_evidence'') \<and> \<not> is_local_or_synthetic (dict_get r ''canonical_url'') \<and>
     has_value r ''published_at_or_observed_at'' \<and> has_value r ''body_state_or_signal'' \<and>
     (require_body \<longrightarrow> dict_get r ''body_state_or_signal'' \<notin>
       {Some (JStr ''community_signal''), Some (JStr ''snippet_only''), Some (JStr [])})"
  by (auto simp: evaluate_evidence_def evidence_reasons_def Let_def)

text \<open>
  C28: The gate over the records of a source counts the records that are fit as evidence: those with an external
  URL, where no URL is a local path or of a known made-up form, with a time and with a payload. The source is allowed as
  soon as one record is fit, and the reasons given are exactly those found against some record.
\<close>

theorem evidence_gate_is_exact:
  "(let g = gate_records source_id rs require_body;
        fit = (\<lambda>r. (is_real_external_url (dict_get r ''source_url_or_evidence'') \<or>
                     is_real_external_url (dict_get r ''canonical_url'')) \<and>
                   \<not> is_local_or_synthetic (dict_get r ''source_url_or_evidence'') \<and>
                   \<not> is_local_or_synthetic (dict_get r ''canonical_url'') \<and>
                   has_value r ''published_at_or_observed_at'' \<and> has_value r ''body_state_or_signal'' \<and>
                   (if require_body then dict_get r ''body_state_or_signal'' \<notin>
                     {Some (JStr ''community_signal''), Some (JStr ''snippet_only''), Some (JStr [])} else True))
    in gg_total g = length rs \<and> gg_ready_count g = length (filter fit rs) \<and>
       (gg_ready_allowed g \<longleftrightarrow> (\<exists>r \<in> set rs. fit r)) \<and>
       set (gg_downgrade_reasons g) = (\<Union>r \<in> set rs. set (reasons_against source_id require_body r)))"
proof -
  let ?ev = "\<lambda>r. evaluate_evidence source_id r require_body"
  have "downgrade_list (?ev r) = reasons_against source_id require_body r" for r
    by (rule reasons_read_back [OF evaluate_evidence_reasons(2)])
      (unfold reasons_against_def Let_def, rule evidence_reasons_plain)
  then have reasons: "set (gg_downgrade_reasons (gate_records source_id rs require_body)) =
      (\<Union>r \<in> set rs. set (reasons_against source_id require_body r))"
    by (simp add: gate_records_def Let_def comp_def)
  have count: "gg_ready_count (gate_records source_id rs require_body) = length (filter (\<lambda>r. er_ready_allowed (?ev r)) rs)"
    by (simp add: gate_records_def Let_def filter_map comp_def)
  have allowed: "gg_ready_allowed (gate_records source_id rs require_body) \<longleftrightarrow> (\<exists>r \<in> set rs. er_ready_allowed (?ev r))"
    by (auto simp: gate_records_def Let_def filter_map comp_def filter_empty_conv)
  have total: "gg_total (gate_records source_id rs require_body) = length rs"
    by (simp add: gate_records_def Let_def)
  show ?thesis
    using reasons count allowed total unfolding evidence_ready_iff Let_def by (simp only: if_bool_eq_conj) auto
qed

text \<open>One fit record is enough for the source, where the description of the function asks for all of them.\<close>

lemma one_fit_record_is_enough:
  "gg_ready_allowed (gate_records ''s'' [[], [(''source_url_or_evidence'', JStr ''https://a.b/c''),
     (''published_at_or_observed_at'', JStr ''2026''), (''body_state_or_signal'', JStr ''present'')]] False)"
  by code_simp

end
