(* ===== verification/Canonical_Url.thy ===== *)
theory Canonical_Url
  imports Py_Url "HOL-Library.Product_Lexorder"
begin

text \<open>
  \<open>ingestion/orchestration/canonical_url.py\<close>: the normal form of an article URL without network access.
  The resolver of redirects is an argument; it may raise.
\<close>

definition TRACKING_PREFIXES :: "string list" where
  "TRACKING_PREFIXES = [''utm_'']"

definition TRACKING_EXACT :: "string list" where
  "TRACKING_EXACT =
    [''gclid'', ''fbclid'', ''igshid'', ''mc_eid'', ''mc_cid'', ''ref'', ''ref_src'',
     ''spm'', ''cmpid'', ''ncid'', ''_hsenc'', ''_hsmi'', ''vero_id'', ''mkt_tok'',
     ''yclid'', ''dclid'', ''gclsrc'', ''wt_mc'', ''s_cid'']"

definition DEFAULT_PORTS :: "(string, string) dict" where
  "DEFAULT_PORTS = [(''http'', ''80''), (''https'', ''443'')]"

definition is_tracking_param :: "string \<Rightarrow> bool" where
  "is_tracking_param key \<longleftrightarrow> lower key \<in> set TRACKING_EXACT \<or> list_ex (\<lambda>p. startswith (lower key) p) TRACKING_PREFIXES"

definition rstrip_slash :: "string \<Rightarrow> string" where
  "rstrip_slash s = rev (dropWhile (\<lambda>c. c = CHR ''/'') (rev s))"

definition canonical_path :: "string \<Rightarrow> string" where
  "canonical_path path = (if path \<noteq> [] \<and> path \<noteq> ''/'' then rstrip_slash path else path)"

definition kept_params :: "string \<Rightarrow> (string \<times> string) list" where
  "kept_params query = filter (\<lambda>(k, v). \<not> is_tracking_param k) (parse_qsl query)"

definition canonical_query :: "string \<Rightarrow> string" where
  "canonical_query query = (if kept_params query = [] then [] else urlencode (sort (kept_params query)))"

definition canonical_netloc :: "split_url \<Rightarrow> nat option \<Rightarrow> string" where
  "canonical_netloc parts port =
    (let host = lower (hostname parts);
         cred = (case url_username parts of None \<Rightarrow> None
           | Some user \<Rightarrow> Some (case url_password parts of None \<Rightarrow> user | Some pw \<Rightarrow> user @ '':'' @ pw));
         netloc = (case cred of None \<Rightarrow> host | Some c \<Rightarrow> c @ ''@'' @ host)
     in case port of None \<Rightarrow> netloc
        | Some n \<Rightarrow> if Some (nat_str n) \<noteq> dict_get DEFAULT_PORTS (su_scheme parts) then netloc @ '':'' @ nat_str n else netloc)"

definition normalize_no_network :: "(string \<Rightarrow> string) \<Rightarrow> string \<Rightarrow> string option res" where
  "normalize_no_network nfkc raw = (case urlsplit nfkc raw [] of
      Inl _ \<Rightarrow> Inr None
    | Inr parts \<Rightarrow>
       if lower (su_scheme parts) \<notin> {''http'', ''https''} \<or> hostname parts = [] then Inr None
       else case url_port parts of
           Inl e \<Rightarrow> Inl e
         | Inr port \<Rightarrow> Inr (Some (urlunparse \<lparr>su_scheme = lower (su_scheme parts),
             su_netloc = canonical_netloc parts port, su_path = canonical_path (su_path parts), su_params = [],
             su_query = canonical_query (su_query parts), su_fragment = []\<rparr>)))"

definition canonicalize_url ::
  "(string \<Rightarrow> string) \<Rightarrow> bool \<Rightarrow> (string \<Rightarrow> string res) option \<Rightarrow> string option \<Rightarrow> string option res" where
  "canonicalize_url nfkc allow_network resolver url = (case url of None \<Rightarrow> Inr None | Some s \<Rightarrow>
     if strip s = [] then Inr None
     else case normalize_no_network nfkc (strip s) of
         Inl e \<Rightarrow> Inl e
       | Inr None \<Rightarrow> Inr None
       | Inr (Some normalized) \<Rightarrow> (case resolver of
           None \<Rightarrow> Inr (Some normalized)
         | Some resolve \<Rightarrow>
            if \<not> allow_network then Inr (Some normalized)
            else
              let resolved = (case resolve normalized of Inl _ \<Rightarrow> normalized | Inr r \<Rightarrow> r) in
              if resolved = [] then Inr (Some normalized)
              else case normalize_no_network nfkc resolved of
                  Inl e \<Rightarrow> Inl e
                | Inr renorm \<Rightarrow> Inr (or_opt renorm (Some normalized))))"

section \<open>Behaviour on awkward URLs\<close>

text \<open>A malformed port is a \<open>ValueError\<close> of \<open>parts.port\<close>, outside the \<open>try\<close> of \<open>_normalize_no_network\<close>.\<close>

lemma bad_port_raises:
  "canonicalize_url (\<lambda>s. s) False None (Some ''http://a:x/'') = Inl (ValueError ''Port could not be cast to integer value'')"
  by code_simp

text \<open>The brackets of an IPv6 host are lost, so the result names another URL.\<close>

lemma ipv6_brackets_lost:
  "canonicalize_url (\<lambda>s. s) False None (Some ''http://[::1]/x'') = Inr (Some ''http://::1/x'')"
  by code_simp

text \<open>The slash is stripped before a blank at the end of the path, so a second pass strips more.\<close>

lemma canonical_not_idempotent:
  "canonicalize_url (\<lambda>s. s) False None (Some ''http://a/x /'') = Inr (Some ''http://a/x '')"
  "canonicalize_url (\<lambda>s. s) False None (Some ''http://a/x '') = Inr (Some ''http://a/x'')"
  by code_simp+

lemma canonical_examples:
  "canonicalize_url (\<lambda>s. s) False None (Some ''HTTP://User@Example.COM/A/b/?utm_source=x&a=1#top'')
    = Inr (Some ''http://User@example.com/A/b?a=1'')"
  "canonicalize_url (\<lambda>s. s) False None (Some ''ftp://example.com/'') = Inr None"
  by code_simp+

end
