(* ===== verification/Source_Adapters.thy ===== *)
theory Source_Adapters
  imports Collection_Gates Canonical_Url
begin

text \<open>
  \<open>ingestion/orchestration/source_adapters.py\<close>: candidates from the payloads of known sources. A payload is a
  JSON value or an XML element; every exception of an adapter makes it return nothing. A title or address of another
  type than a string raises as in Python; a time or summary of another type is read as its \<open>str\<close>.
\<close>

section \<open>Elements of an XML document\<close>

datatype xml = Elem (elem_tag: string) (elem_attrs: "(string, string) dict") (elem_text: "string option") (elem_children: "xml list")

text \<open>All descendants in document order, \<open>findall(".//tag")\<close>, \<open>find(tag)\<close> and \<open>findtext(tag)\<close>.\<close>

fun descendants :: "xml \<Rightarrow> xml list" where
  "descendants (Elem t a x cs) = concat (map (\<lambda>c. c # descendants c) cs)"

definition findall_desc :: "string \<Rightarrow> xml \<Rightarrow> xml list" where
  "findall_desc t e = filter (\<lambda>c. elem_tag c = t) (descendants e)"

definition find_child :: "string \<Rightarrow> xml \<Rightarrow> xml option" where
  "find_child t e = find (\<lambda>c. elem_tag c = t) (elem_children e)"

definition findtext :: "string \<Rightarrow> xml \<Rightarrow> string option" where
  "findtext t e = map_option (\<lambda>c. case elem_text c of None \<Rightarrow> [] | Some x \<Rightarrow> x) (find_child t e)"

section \<open>Values of a payload\<close>

text \<open>\<open>d.get(k)\<close>, \<open>a or b\<close>, \<open>v.get(k)\<close>, \<open>d.get(k) or {}\<close> followed by \<open>.get\<close>.\<close>

definition jget :: "(string, json) dict \<Rightarrow> string \<Rightarrow> json" where
  "jget d k = get_or d k JNull"

definition or_json :: "json \<Rightarrow> json \<Rightarrow> json" where
  "or_json a b = (if json_truthy a then a else b)"

definition jget_in :: "json \<Rightarrow> string \<Rightarrow> json res" where
  "jget_in v k = (case or_json v (JObj []) of JObj d \<Rightarrow> Inr (jget d k) | _ \<Rightarrow> Inl AttributeError)"

text \<open>\<open>(v or "").strip()\<close>.\<close>

definition strip_json :: "json \<Rightarrow> string res" where
  "strip_json v = (if \<not> json_truthy v then Inr [] else (case v of JStr s \<Rightarrow> Inr (strip s) | _ \<Rightarrow> Inl AttributeError))"

definition text_json :: "json \<Rightarrow> string option" where
  "text_json v = (if json_truthy v then Some (json_show v) else None)"

text \<open>The non-empty list of a value, and the objects in it.\<close>

definition rows_of :: "json \<Rightarrow> json list" where
  "rows_of v = (case v of JList l \<Rightarrow> l | _ \<Rightarrow> [])"

definition objects :: "json list \<Rightarrow> (string, json) dict list" where
  "objects vs = List.map_filter (\<lambda>v. case v of JObj d \<Rightarrow> Some d | _ \<Rightarrow> None) vs"

definition obj_or_empty :: "json \<Rightarrow> (string, json) dict" where
  "obj_or_empty v = (case v of JObj d \<Rightarrow> d | _ \<Rightarrow> [])"

definition first_of :: "json \<Rightarrow> json" where
  "first_of v = (case v of JList (x # xs) \<Rightarrow> x | _ \<Rightarrow> JNull)"

text \<open>What every adapter passes on.\<close>

record adapter_context =
  ax_nfkc :: "string \<Rightarrow> string"
  ax_collection_status :: string
  ax_confirmation_policy :: "string option"
  ax_raw_artifact_path :: "string option"

definition cand ::
  "adapter_context \<Rightarrow> string \<Rightarrow> string \<Rightarrow> json \<Rightarrow> json \<Rightarrow> json \<Rightarrow> json \<Rightarrow> bool \<Rightarrow> article_candidate res" where
  "cand ax source_id parser title source_url published_at summary numeric =
    bind_res (strip_json title) (\<lambda>t.
    bind_res (strip_json source_url) (\<lambda>u.
    bind_res (if u = [] then Inr None else canonicalize_url (ax_nfkc ax) False None (Some u)) (\<lambda>canonical.
      Inr \<lparr>ac_source_id = source_id, ac_title = non_empty t, ac_source_url = non_empty u,
        ac_published_at = text_json published_at, ac_summary = text_json summary, ac_body_text = None,
        ac_raw_artifact_path = ax_raw_artifact_path ax, ac_extracted_text_ref = None,
        ac_canonical_url = canonical, ac_body_missing = True, ac_collection_status = ax_collection_status ax,
        ac_parser_name = parser, ac_parse_error = None, ac_numeric_payload_exempt = numeric,
        ac_confirmation_policy = ax_confirmation_policy ax\<rparr>)))"

text \<open>An adapter gives a list, where \<open>None\<close> is the empty list.\<close>

type_synonym adapter = "adapter_context \<Rightarrow> (string, json) dict \<Rightarrow> article_candidate list res"

section \<open>Official records\<close>

definition opendart_row :: "adapter_context \<Rightarrow> (string, json) dict \<Rightarrow> article_candidate res" where
  "opendart_row ax r =
    bind_res (strip_json (jget r ''corp_name'')) (\<lambda>corp.
    bind_res (strip_json (jget r ''report_nm'')) (\<lambda>report.
      let label = strip (corp @ '' '' @ report); rcept = jget r ''rcept_no'' in
      cand ax ''opendart'' ''adapter:opendart'' (if label \<noteq> [] then JStr label else rcept)
        (if json_truthy rcept then JStr (''https://dart.fss.or.kr/dsaf001/main.do?rcpNo='' @ json_show rcept) else JNull)
        (jget r ''rcept_dt'') JNull False))"

definition opendart :: adapter where
  "opendart ax data = map_res (opendart_row ax)
    (filter (\<lambda>r. json_truthy (jget r ''rcept_no'') \<or> json_truthy (jget r ''corp_name'') \<or> json_truthy (jget r ''report_nm''))
      (objects (rows_of (jget data ''list''))))"

definition join_strs :: "json list \<Rightarrow> string res" where
  "join_strs vs = bind_res (json_strs (filter json_truthy vs)) (\<lambda>ss. Inr (str_join '' '' ss))"

definition cik_part :: "json \<Rightarrow> string" where
  "cik_part cik = (if json_truthy cik \<and> json_show cik \<noteq> [] \<and> list_all is_digit (json_show cik)
     then (case py_int (json_show cik) of Some n \<Rightarrow> int_str n | None \<Rightarrow> [])
     else if json_truthy cik then json_show cik else [])"

definition sec_edgar_hit :: "adapter_context \<Rightarrow> (string, json) dict \<Rightarrow> article_candidate res" where
  "sec_edgar_hit ax h =
    (let src = obj_or_empty (jget h ''_source''); adsh = jget src ''adsh'' in
     bind_res (join_strs [first_of (jget src ''display_names''), jget src ''form'']) (\<lambda>label.
       cand ax ''sec_edgar'' ''adapter:sec_edgar'' (if label \<noteq> [] then JStr label else jget h ''_id'')
         (if json_truthy adsh then JStr (''https://www.sec.gov/Archives/edgar/data/'' @
            cik_part (first_of (jget src ''ciks'')) @ ''/'' @ filter (\<lambda>c. c \<noteq> CHR ''-'') (json_show adsh) @ ''/'' @
            json_show adsh @ ''-index.htm'') else JNull)
         (jget src ''file_date'') JNull False))"

definition sec_edgar :: adapter where
  "sec_edgar ax data = map_res (sec_edgar_hit ax)
    (objects (case jget data ''hits'' of JObj hits \<Rightarrow> rows_of (jget hits ''hits'') | _ \<Rightarrow> []))"

definition tour_row :: "adapter_context \<Rightarrow> (string, json) dict \<Rightarrow> article_candidate res" where
  "tour_row ax r =
    (let cid = jget r ''contentid'' in
     cand ax ''tour'' ''adapter:tour'' (jget r ''title'')
       (if json_truthy cid then JStr (''https://korean.visitkorea.or.kr/detail/ms_detail.do?cotId='' @ json_show cid) else JNull)
       (or_json (jget r ''modifiedtime'') (jget r ''createdtime'')) (jget r ''addr1'') False)"

definition tour :: adapter where
  "tour ax data =
    bind_res (jget_in (jget data ''response'') ''body'') (\<lambda>body.
    bind_res (jget_in body ''items'') (\<lambda>items.
      map_res (tour_row ax) (objects (case items of JObj item \<Rightarrow> rows_of (jget item ''item'') | _ \<Rightarrow> []))))"

definition kofic_row :: "adapter_context \<Rightarrow> string \<Rightarrow> (string, json) dict \<Rightarrow> article_candidate res" where
  "kofic_row ax shown r =
    (let code = jget r ''movieCd'' in
     cand ax ''kofic'' ''adapter:kofic'' (jget r ''movieNm'')
       (if json_truthy code then
          JStr (''https://www.kobis.or.kr/kobis/business/mast/mvie/searchMovieInfo.do?code='' @ json_show code) else JNull)
       (JStr shown) (JStr (''rank='' @ json_show (jget r ''rank'') @ '' salesAmt='' @ json_show (jget r ''salesAmt''))) False)"

definition kofic :: adapter where
  "kofic ax data = (case jget data ''boxOfficeResult'' of
      JObj box \<Rightarrow>
        (case rows_of (jget box ''dailyBoxOfficeList'') of [] \<Rightarrow> Inr []
         | rows \<Rightarrow> bind_res (case or_json (jget box ''showRange'') (JStr []) of JStr s \<Rightarrow> Inr s | _ \<Rightarrow> Inl AttributeError)
             (\<lambda>range. map_res (kofic_row ax (strip (before CHR ''~'' range))) (objects rows)))
    | _ \<Rightarrow> Inr [])"

definition tmdb_row :: "adapter_context \<Rightarrow> (string, json) dict \<Rightarrow> article_candidate res" where
  "tmdb_row ax r =
    (let mid = jget r ''id'';
         kind = (if (json_truthy (jget r ''first_air_date'') \<or> json_truthy (jget r ''name'')) \<and> \<not> json_truthy (jget r ''title'')
           then ''tv'' else ''movie'')
     in cand ax ''tmdb'' ''adapter:tmdb'' (or_json (jget r ''title'') (jget r ''name''))
          (if json_truthy mid then JStr (''https://www.themoviedb.org/'' @ kind @ ''/'' @ json_show mid) else JNull)
          (or_json (jget r ''release_date'') (jget r ''first_air_date'')) (jget r ''overview'') False)"

definition tmdb :: adapter where
  "tmdb ax data = map_res (tmdb_row ax) (objects (rows_of (jget data ''results'')))"

definition aladin :: adapter where
  "aladin ax data = map_res (\<lambda>r. cand ax ''aladin'' ''adapter:aladin'' (jget r ''title'') (jget r ''link'')
     (jget r ''pubDate'') (jget r ''author'') False) (objects (rows_of (jget data ''item'')))"

section \<open>Search and community\<close>

definition serper :: adapter where
  "serper ax data = map_res (\<lambda>r. cand ax ''serper'' ''adapter:serper'' (jget r ''title'') (jget r ''link'')
     (jget r ''date'') (jget r ''snippet'') False) (objects (rows_of (jget data ''organic'')))"

definition youtube_item :: "adapter_context \<Rightarrow> (string, json) dict \<Rightarrow> article_candidate res" where
  "youtube_item ax it =
    (let sn = obj_or_empty (jget it ''snippet''); vid = jget (obj_or_empty (jget it ''id'')) ''videoId'' in
     cand ax ''youtube'' ''adapter:youtube'' (jget sn ''title'')
       (if json_truthy vid then JStr (''https://www.youtube.com/watch?v='' @ json_show vid) else JNull)
       (jget sn ''publishedAt'') (jget sn ''description'') False)"

definition youtube :: adapter where
  "youtube ax data = map_res (youtube_item ax) (objects (rows_of (jget data ''items'')))"

text \<open>\<open>re.sub(r"[^a-z0-9]+", "-", s)\<close>.\<close>

fun hyphenate :: "bool \<Rightarrow> string \<Rightarrow> string" where
  "hyphenate inside [] = []"
| "hyphenate inside (c # cs) =
     (if is_lower c \<or> is_digit c then c # hyphenate False cs
      else if inside then hyphenate True cs else CHR ''-'' # hyphenate True cs)"

definition strip_hyphens :: "string \<Rightarrow> string" where
  "strip_hyphens s = rev (dropWhile (\<lambda>c. c = CHR ''-'') (rev (dropWhile (\<lambda>c. c = CHR ''-'') s)))"

definition slugify :: "json \<Rightarrow> json" where
  "slugify name = (if \<not> json_truthy name then JNull
     else (case strip_hyphens (hyphenate False (lower (json_show name))) of [] \<Rightarrow> JNull | s \<Rightarrow> JStr s))"

definition PRODUCT_HUNT_POSTS :: string where "PRODUCT_HUNT_POSTS = ''https://www.producthunt.com/posts/''"
definition CULTURE_DETAIL :: string where "CULTURE_DETAIL = ''https://www.culture.go.kr/wantU/detailView.do?seq=''"

definition product_hunt_url :: "(string, json) dict \<Rightarrow> json" where
  "product_hunt_url node =
    (let url = jget node ''url''; slug = or_json (jget node ''slug'') (slugify (jget node ''name'')) in
     if \<not> json_truthy url \<and> json_truthy slug then JStr (PRODUCT_HUNT_POSTS @ json_show slug) else url)"

definition product_hunt_node :: "adapter_context \<Rightarrow> (string, json) dict \<Rightarrow> article_candidate res" where
  "product_hunt_node ax node = cand ax ''product_hunt'' ''adapter:product_hunt'' (jget node ''name'') (product_hunt_url node)
     (or_json (jget node ''createdAt'') (jget node ''featuredAt'')) (jget node ''tagline'') False"

definition product_hunt :: adapter where
  "product_hunt ax data =
    bind_res (jget_in (jget data ''data'') ''posts'') (\<lambda>posts.
      map_res (product_hunt_node ax)
        (objects (map (\<lambda>e. jget e ''node'') (objects (rows_of (jget (obj_or_empty posts) ''edges''))))))"

section \<open>Snapshots reduced to one signal\<close>

definition one_signal :: "adapter_context \<Rightarrow> string \<Rightarrow> string \<Rightarrow> json \<Rightarrow> article_candidate list res" where
  "one_signal ax source_id title published_at =
    bind_res (cand ax source_id (''adapter:'' @ source_id) (JStr title) JNull published_at JNull True) (\<lambda>c. Inr [c])"

definition coinbase_market :: adapter where
  "coinbase_market ax data = (case rows_of (jget data ''products'') of [] \<Rightarrow> Inr []
     | rows \<Rightarrow> one_signal ax ''coinbase_market''
         (''coinbase market products snapshot (n='' @ nat_str (length rows) @ '')'') JNull)"

definition binance_market :: "adapter_context \<Rightarrow> json list \<Rightarrow> article_candidate list res" where
  "binance_market ax data = (if data = [] \<or> \<not> list_all is_obj data then Inr []
     else one_signal ax ''binance_market'' (''binance market tickers snapshot (n='' @ nat_str (length data) @ '')'') JNull)"

definition twelve_data :: adapter where
  "twelve_data ax data = (case rows_of (jget data ''values'') of
      JObj latest # _ \<Rightarrow> one_signal ax ''twelve_data''
        (''twelve_data '' @ json_show (jget (obj_or_empty (jget data ''meta'')) ''symbol'') @ '' close='' @
          json_show (jget latest ''close'') @ '' @ '' @ json_show (jget latest ''datetime'')) (jget latest ''datetime'')
    | _ \<Rightarrow> Inr [])"

definition alpha_vantage :: adapter where
  "alpha_vantage ax data = (case jget data ''Time Series (Daily)'' of
      JObj ((k, v) # ts) \<Rightarrow>
        (let latest = fold max (map fst ts) k;
             row = obj_or_empty (jget ((k, v) # ts) latest) in
         one_signal ax ''alpha_vantage''
           (''alpha_vantage '' @ json_show (jget (obj_or_empty (jget data ''Meta Data'')) ''2. Symbol'') @ '' close='' @
             json_show (jget row ''4. close'') @ '' @ '' @ latest) (JStr latest))
    | _ \<Rightarrow> Inr [])"

definition its :: adapter where
  "its ax data = (case rows_of (jget (obj_or_empty (jget data ''body'')) ''items'') of [] \<Rightarrow> Inr []
     | rows \<Rightarrow> one_signal ax ''its'' (''its road traffic snapshot (n='' @ nat_str (length rows) @ '' links)'') JNull)"

section \<open>XML payloads\<close>

definition opt_json :: "string option \<Rightarrow> json" where
  "opt_json = json_opt_str"

definition kopis_row :: "adapter_context \<Rightarrow> xml \<Rightarrow> article_candidate res" where
  "kopis_row ax db =
    (let mid = findtext ''mt20id'' db in
     cand ax ''kopis'' ''adapter:kopis'' (opt_json (findtext ''prfnm'' db))
       (if truthy mid then
          JStr (''https://www.kopis.or.kr/por/db/pblprfr/selectPblprfrView.do?mt20id='' @ or_str mid []) else JNull)
       (opt_json (findtext ''prfpdfrom'' db)) (opt_json (findtext ''fcltynm'' db)) False)"

definition xml_kopis :: "adapter_context \<Rightarrow> xml \<Rightarrow> article_candidate list res" where
  "xml_kopis ax doc = map_res (kopis_row ax) (findall_desc ''db'' doc)"

definition culture_row :: "adapter_context \<Rightarrow> xml \<Rightarrow> article_candidate res" where
  "culture_row ax it =
    (let url = or_opt (findtext ''url'' it) (findtext ''referenceUrl'' it);
         seq = or_opt (findtext ''seq'' it) (findtext ''serviceId'' it)
     in cand ax ''culture_info'' ''adapter:culture_info'' (opt_json (findtext ''title'' it))
          (if \<not> truthy url \<and> truthy seq then JStr (CULTURE_DETAIL @ or_str seq [])
           else opt_json url)
          (opt_json (findtext ''startDate'' it)) (opt_json (findtext ''place'' it)) False)"

definition xml_culture_info :: "adapter_context \<Rightarrow> xml \<Rightarrow> article_candidate list res" where
  "xml_culture_info ax doc = map_res (culture_row ax)
    (concat (map (\<lambda>e. filter (\<lambda>c. elem_tag c = ''item'') (elem_children e)) (findall_desc ''items'' doc)))"

section \<open>Dispatch\<close>

definition ADAPTERS :: "(string, adapter) dict" where
  "ADAPTERS =
    [(''opendart'', opendart), (''coinbase_market'', coinbase_market), (''sec_edgar'', sec_edgar), (''tour'', tour),
     (''kofic'', kofic), (''tmdb'', tmdb), (''aladin'', aladin), (''serper'', serper), (''youtube'', youtube),
     (''product_hunt'', product_hunt), (''twelve_data'', twelve_data), (''alpha_vantage'', alpha_vantage), (''its'', its)]"

definition LIST_ADAPTERS :: "(string, adapter_context \<Rightarrow> json list \<Rightarrow> article_candidate list res) dict" where
  "LIST_ADAPTERS = [(''binance_market'', binance_market)]"

definition XML_ADAPTERS :: "(string, adapter_context \<Rightarrow> xml \<Rightarrow> article_candidate list res) dict" where
  "XML_ADAPTERS = [(''kopis'', xml_kopis), (''culture_info'', xml_culture_info)]"

definition adapted :: "string \<Rightarrow> article_candidate list res \<Rightarrow> (article_candidate list \<times> string) option" where
  "adapted source_id r = (case r of
      Inr (c # cs) \<Rightarrow> Some (c # cs, if ac_parser_name c \<noteq> [] then ac_parser_name c else ''adapter:'' @ source_id)
    | _ \<Rightarrow> None)"

definition adapt_source_payload ::
  "adapter_context \<Rightarrow> string \<Rightarrow> json \<Rightarrow> (article_candidate list \<times> string) option" where
  "adapt_source_payload ax source_id data = (case data of
      JObj d \<Rightarrow> (case dict_get ADAPTERS source_id of None \<Rightarrow> None | Some f \<Rightarrow> adapted source_id (f ax d))
    | JList l \<Rightarrow> (case dict_get LIST_ADAPTERS source_id of None \<Rightarrow> None | Some f \<Rightarrow> adapted source_id (f ax l))
    | _ \<Rightarrow> None)"

definition adapt_source_xml :: "adapter_context \<Rightarrow> string \<Rightarrow> xml \<Rightarrow> (article_candidate list \<times> string) option" where
  "adapt_source_xml ax source_id doc = (case dict_get XML_ADAPTERS source_id of None \<Rightarrow> None
     | Some f \<Rightarrow> adapted source_id (f ax doc))"

section \<open>Where a candidate comes from\<close>

definition from_source :: "string option \<Rightarrow> string \<Rightarrow> article_candidate \<Rightarrow> bool" where
  "from_source path source_id c \<longleftrightarrow> ac_source_id c = source_id \<and> ac_parse_error c = None \<and>
     (ac_raw_artifact_path c = path \<and> ac_extracted_text_ref c = None \<or>
      ac_raw_artifact_path c = None \<and> ac_extracted_text_ref c = path)"

lemma cand_from_source:
  "cand ax source_id parser t u p s numeric = Inr c \<Longrightarrow> from_source (ax_raw_artifact_path ax) source_id c"
  unfolding cand_def bind_res_Inr_iff from_source_def by (elim exE conjE, drule sum.inject(2) [THEN iffD1], hypsubst, simp)

lemmas row_defs = opendart_row_def sec_edgar_hit_def tour_row_def kofic_row_def tmdb_row_def youtube_item_def
  product_hunt_node_def kopis_row_def culture_row_def

lemma rows_from_source:
  "opendart_row ax r = Inr c \<Longrightarrow> from_source (ax_raw_artifact_path ax) ''opendart'' c"
  "sec_edgar_hit ax r = Inr c \<Longrightarrow> from_source (ax_raw_artifact_path ax) ''sec_edgar'' c"
  "tour_row ax r = Inr c \<Longrightarrow> from_source (ax_raw_artifact_path ax) ''tour'' c"
  "kofic_row ax shown r = Inr c \<Longrightarrow> from_source (ax_raw_artifact_path ax) ''kofic'' c"
  "tmdb_row ax r = Inr c \<Longrightarrow> from_source (ax_raw_artifact_path ax) ''tmdb'' c"
  "youtube_item ax r = Inr c \<Longrightarrow> from_source (ax_raw_artifact_path ax) ''youtube'' c"
  "product_hunt_node ax r = Inr c \<Longrightarrow> from_source (ax_raw_artifact_path ax) ''product_hunt'' c"
  "kopis_row ax x = Inr c \<Longrightarrow> from_source (ax_raw_artifact_path ax) ''kopis'' c"
  "culture_row ax x = Inr c \<Longrightarrow> from_source (ax_raw_artifact_path ax) ''culture_info'' c"
  unfolding row_defs Let_def bind_res_Inr_iff by ((elim exE conjE)?, erule cand_from_source)+

lemma one_signal_from_source:
  "one_signal ax source_id t p = Inr cs \<Longrightarrow> \<forall>c \<in> set cs. from_source (ax_raw_artifact_path ax) source_id c"
  by (auto simp: one_signal_def bind_res_Inr_iff dest: cand_from_source)

lemma tour_from_source:
  "tour ax d = Inr cs \<Longrightarrow> \<forall>c \<in> set cs. from_source (ax_raw_artifact_path ax) ''tour'' c"
  unfolding tour_def bind_res_Inr_iff by (elim exE conjE, erule map_res_Inr_all, erule rows_from_source)

lemma adapters_from_source:
  "opendart ax d = Inr cs \<Longrightarrow> \<forall>c \<in> set cs. from_source (ax_raw_artifact_path ax) ''opendart'' c"
  "sec_edgar ax d = Inr cs \<Longrightarrow> \<forall>c \<in> set cs. from_source (ax_raw_artifact_path ax) ''sec_edgar'' c"
  "kofic ax d = Inr cs \<Longrightarrow> \<forall>c \<in> set cs. from_source (ax_raw_artifact_path ax) ''kofic'' c"
  "tmdb ax d = Inr cs \<Longrightarrow> \<forall>c \<in> set cs. from_source (ax_raw_artifact_path ax) ''tmdb'' c"
  "aladin ax d = Inr cs \<Longrightarrow> \<forall>c \<in> set cs. from_source (ax_raw_artifact_path ax) ''aladin'' c"
  "serper ax d = Inr cs \<Longrightarrow> \<forall>c \<in> set cs. from_source (ax_raw_artifact_path ax) ''serper'' c"
  "youtube ax d = Inr cs \<Longrightarrow> \<forall>c \<in> set cs. from_source (ax_raw_artifact_path ax) ''youtube'' c"
  "product_hunt ax d = Inr cs \<Longrightarrow> \<forall>c \<in> set cs. from_source (ax_raw_artifact_path ax) ''product_hunt'' c"
  "coinbase_market ax d = Inr cs \<Longrightarrow> \<forall>c \<in> set cs. from_source (ax_raw_artifact_path ax) ''coinbase_market'' c"
  "binance_market ax l = Inr cs \<Longrightarrow> \<forall>c \<in> set cs. from_source (ax_raw_artifact_path ax) ''binance_market'' c"
  "twelve_data ax d = Inr cs \<Longrightarrow> \<forall>c \<in> set cs. from_source (ax_raw_artifact_path ax) ''twelve_data'' c"
  "alpha_vantage ax d = Inr cs \<Longrightarrow> \<forall>c \<in> set cs. from_source (ax_raw_artifact_path ax) ''alpha_vantage'' c"
  "its ax d = Inr cs \<Longrightarrow> \<forall>c \<in> set cs. from_source (ax_raw_artifact_path ax) ''its'' c"
  "xml_kopis ax x = Inr cs \<Longrightarrow> \<forall>c \<in> set cs. from_source (ax_raw_artifact_path ax) ''kopis'' c"
  "xml_culture_info ax x = Inr cs \<Longrightarrow> \<forall>c \<in> set cs. from_source (ax_raw_artifact_path ax) ''culture_info'' c"
  by (auto simp: opendart_def sec_edgar_def tour_def kofic_def tmdb_def aladin_def serper_def youtube_def product_hunt_def
      coinbase_market_def binance_market_def twelve_data_def alpha_vantage_def its_def xml_kopis_def xml_culture_info_def
      bind_res_Inr_iff Let_def
      dest!: map_res_Inr_cases one_signal_from_source dest: rows_from_source cand_from_source
      split: list.splits json.splits if_splits)

section \<open>Addresses made up by an adapter\<close>

lemma take_shape_lit: "take_shape (lit p) (p @ r) = Some (p, r)"
  by (induction p) (simp_all add: lit_def)

lemma search_from_append: "search_from f t \<noteq> None \<Longrightarrow> search_from f (pre @ t) \<noteq> None"
  by (induction pre) (auto split: option.splits)

lemma search_from_here: "f t \<noteq> None \<Longrightarrow> search_from f t \<noteq> None"
  by (cases t) (auto split: option.splits)

lemma lower_append [simp]: "lower (s @ t) = lower s @ lower t"
  by (simp add: lower_def)

lemma lower_slug: "list_all is_slug_char s \<Longrightarrow> lower s = s"
  by (induction s) (auto simp: lower_def is_slug_char_def is_upper_def is_lower_def is_digit_def less_eq_char_def)

lemma slug_not_blank: "is_slug_char c \<Longrightarrow> \<not> is_blank c"
  by (auto simp: is_slug_char_def is_lower_def is_digit_def is_blank_def less_eq_char_def Let_def)

lemma product_hunt_slug_is_synthetic:
  assumes "s \<noteq> []" "list_all is_slug_char s"
  shows "synthetic_url (PRODUCT_HUNT_POSTS @ s)"
proof -
  let ?f = "\<lambda>t. case take_shape (lit ''producthunt.com/posts/'') t of None \<Rightarrow> None
     | Some (_, r) \<Rightarrow> if takeWhile is_slug_char r \<noteq> [] \<and> dropWhile is_slug_char r \<in> {[], [nl]} then Some () else None"
  have all: "takeWhile is_slug_char s = s" "dropWhile is_slug_char s = []"
    using assms(2) by (simp_all add: list_all_iff takeWhile_eq_all_conv)
  have tw: "takeWhile is_slug_char s \<noteq> []" by (subst all(1)) (rule assms(1))
  have "?f (''producthunt.com/posts/'' @ s) \<noteq> None"
    unfolding take_shape_lit using tw all(2) by simp
  then have "search_from ?f (''https://www.'' @ ''producthunt.com/posts/'' @ s) \<noteq> None"
    by (intro search_from_append search_from_here)
  moreover have "lower (PRODUCT_HUNT_POSTS @ s) = ''https://www.'' @ ''producthunt.com/posts/'' @ s"
    unfolding lower_append lower_slug [OF assms(2)]
    by (simp add: PRODUCT_HUNT_POSTS_def lower_def is_upper_def less_eq_char_def)
  ultimately show ?thesis
    by (simp only: synthetic_url_def producthunt_slug_def simp_thms)
qed

lemma culture_detail_is_synthetic: "synthetic_url (CULTURE_DETAIL @ s)"
proof -
  have "lower (CULTURE_DETAIL @ s)
      = ''https://www.'' @ ''culture.go.kr/wantu/detail'' @ ''view.do?seq='' @ lower s"
    unfolding CULTURE_DETAIL_def lower_append by (simp add: lower_def is_upper_def less_eq_char_def char_of_def bit_0)
  then show ?thesis by (simp only: synthetic_url_def contains_append_mid simp_thms)
qed

lemma hyphenate_slug: "list_all is_slug_char (hyphenate b s)"
  by (induction b s rule: hyphenate.induct) (auto simp: is_slug_char_def)

lemma strip_hyphens_slug: "list_all is_slug_char s \<Longrightarrow> list_all is_slug_char (strip_hyphens s)"
  by (auto simp: strip_hyphens_def list_all_iff dest!: set_dropWhileD)

lemma slugify_slug: "slugify name = JStr s \<Longrightarrow> s \<noteq> [] \<and> list_all is_slug_char s"
  using strip_hyphens_slug [OF hyphenate_slug] by (auto simp: slugify_def split: if_splits list.splits)

lemma slugify_cases: "slugify name = JNull \<or> (\<exists>s. slugify name = JStr s)"
  by (auto simp: slugify_def split: list.splits)

lemma rstrip_snoc: "\<not> is_blank c \<Longrightarrow> rstrip (p @ [c] @ s) = p @ [c] @ rstrip s"
  by (induction s rule: rev_induct) (auto simp: rstrip_def)

lemma strip_prefixed:
  assumes "\<not> is_blank a" "\<not> is_blank b"
  shows "strip (a # p @ [b] @ s) = a # p @ [b] @ rstrip s"
  using assms rstrip_snoc [of b "a # p" s] by (simp add: strip_def lstrip_def)

lemma rstrip_slug: "list_all is_slug_char s \<Longrightarrow> rstrip s = s"
  using slug_not_blank by (cases s rule: rev_cases) (simp_all add: rstrip_def)

lemma cand_source_url:
  assumes "cand ax source_id parser t u p s numeric = Inr c" "ac_source_url c = Some v"
  shows "\<exists>w. u = JStr w \<and> v = strip w \<and> v \<noteq> []"
  using assms by (auto simp: cand_def bind_res_Inr_iff strip_json_def non_empty_def split: if_splits json.splits)

lemma strip_address:
  "strip (PRODUCT_HUNT_POSTS @ s) = PRODUCT_HUNT_POSTS @ rstrip s"
  "strip (CULTURE_DETAIL @ s) = CULTURE_DETAIL @ rstrip s"
  using strip_prefixed [of "CHR ''h''" "CHR ''/''" "''ttps://www.producthunt.com/posts''" s]
    strip_prefixed [of "CHR ''h''" "CHR ''=''" "''ttps://www.culture.go.kr/wantU/detailView.do?seq''" s]
  by (simp_all add: is_blank_def PRODUCT_HUNT_POSTS_def CULTURE_DETAIL_def)

lemma strip_Nil [simp]: "strip [] = []"
  by (simp add: strip_def lstrip_def rstrip_def)

lemma json_str_simps: "json_truthy (JStr s) \<longleftrightarrow> s \<noteq> []" "\<not> json_truthy JNull" "json_show (JStr s) = s"
  by (simp_all add: json_truthy_def json_show_def)

lemma falsy_str: "v = JStr w \<Longrightarrow> \<not> json_truthy v \<Longrightarrow> w = []"
  by (simp add: json_truthy_def)

lemma product_hunt_url_made_up:
  assumes "product_hunt_node ax node = Inr c" "\<not> json_truthy (jget node ''url'')" "\<not> json_truthy (jget node ''slug'')"
    "ac_source_url c = Some u"
  shows "synthetic_url u"
proof -
  obtain w where w: "product_hunt_url node = JStr w" "u = strip w" "u \<noteq> []"
    using assms(1,4) unfolding product_hunt_node_def by (blast dest: cand_source_url)
  have slug: "or_json (jget node ''slug'') (slugify (jget node ''name'')) = slugify (jget node ''name'')"
    using assms(3) by (simp add: or_json_def)
  consider (made) s where "slugify (jget node ''name'') = JStr s" | (none) "slugify (jget node ''name'') = JNull"
    using slugify_cases by blast
  then show ?thesis
  proof cases
    case (made s)
    note s = slugify_slug [OF made]
    have "product_hunt_url node = JStr (PRODUCT_HUNT_POSTS @ s)"
      unfolding product_hunt_url_def Let_def slug unfolding made using assms(2) s by (simp add: json_str_simps)
    then have "u = PRODUCT_HUNT_POSTS @ s" using w s by (auto simp: strip_address rstrip_slug)
    then show ?thesis using product_hunt_slug_is_synthetic s by simp
  next
    case none
    have "product_hunt_url node = jget node ''url''"
      unfolding product_hunt_url_def Let_def slug unfolding none by (simp add: json_str_simps)
    then have "w = []" using w(1) assms(2) falsy_str by metis
    then show ?thesis using w by simp
  qed
qed

lemma culture_url_made_up:
  assumes "culture_row ax it = Inr c" "\<not> truthy (findtext ''url'' it)" "\<not> truthy (findtext ''referenceUrl'' it)"
    "ac_source_url c = Some u"
  shows "synthetic_url u"
proof -
  let ?url = "or_opt (findtext ''url'' it) (findtext ''referenceUrl'' it)"
  let ?seq = "or_opt (findtext ''seq'' it) (findtext ''serviceId'' it)"
  have no: "\<not> truthy ?url" using assms by (simp add: or_opt_def)
  obtain w where w: "(if \<not> truthy ?url \<and> truthy ?seq then JStr (CULTURE_DETAIL @ or_str ?seq [])
      else opt_json ?url) = JStr w" "u = strip w" "u \<noteq> []"
    using assms(1,4) unfolding culture_row_def Let_def by (blast dest: cand_source_url)
  show ?thesis
  proof (cases "truthy ?seq")
    case True
    with w no show ?thesis using culture_detail_is_synthetic by (auto simp: strip_address)
  next
    case False
    with w no have "opt_json ?url = JStr w" by simp
    with no have "w = []" by (cases ?url) (auto simp: opt_json_def json_opt_str_def)
    with w show ?thesis by simp
  qed
qed



end
