(* ===== verification/Artifact_Parser.thy ===== *)
theory Artifact_Parser
  imports Source_Adapters Py_Lines
begin

text \<open>
  \<open>ingestion/orchestration/artifact_parser.py\<close>: a collected artifact is split into candidates. The parsers of the
  standard library are arguments: \<open>decode\<close> is \<open>json.loads\<close> and \<open>parse_xml\<close> is \<open>ElementTree.fromstring\<close>, each with
  the message of its error, and \<open>unescape\<close> is \<open>html.unescape\<close>.
\<close>

definition ARTICLE_LIST_KEYS :: "string list" where
  "ARTICLE_LIST_KEYS = [''articles'', ''results'', ''items'', ''stories'', ''docs'', ''data'', ''hits'']"

definition TITLE_KEYS :: "string list" where
  "TITLE_KEYS = [''title'', ''headline'', ''name'']"

definition URL_KEYS :: "string list" where
  "URL_KEYS = [''url'', ''link'', ''webUrl'', ''web_url'', ''html_url'', ''guid'']"

definition TIME_KEYS :: "string list" where
  "TIME_KEYS = [''published_at'', ''publishedAt'', ''pubDate'', ''pub_date'', ''seendate'', ''date'',
     ''webPublicationDate'', ''publication_date'', ''published'', ''updated'', ''created_at'']"

definition SUMMARY_KEYS :: "string list" where
  "SUMMARY_KEYS = [''summary'', ''description'', ''abstract'', ''snippet'', ''contentSnippet'', ''content'']"

definition BODY_KEYS :: "string list" where
  "BODY_KEYS = [''body'', ''full_text'', ''articleBody'', ''bodyText'', ''text'']"

definition NUMERIC_KEYS :: "string list" where
  "NUMERIC_KEYS = [''price'', ''symbol'', ''value'', ''ticker'', ''last'', ''bid'', ''ask'', ''close'',
     ''open'', ''high'', ''low'', ''c'', ''o'', ''h'', ''l'', ''pc'', ''amount'', ''quote'']"

definition ATOM_NS :: string where "ATOM_NS = ''{http://www.w3.org/2005/Atom}''"
definition CONTENT_ENCODED :: string where
  "CONTENT_ENCODED = ''{http://purl.org/rss/1.0/modules/content/}encoded''"

definition SUCCESS_STATUS_VALUES :: "string list" where
  "SUCCESS_STATUS_VALUES = [''000'', ''200'', ''ok'', ''success'', ''true'', ''1'']"

section \<open>Fields of an item\<close>

definition clean_str :: "string \<Rightarrow> string option" where
  "clean_str s = non_empty (strip s)"

definition clean :: "json \<Rightarrow> string option" where
  "clean v = (if v = JNull then None else clean_str (json_show v))"

text \<open>\<open><[^>]+>\<close> replaced by a blank.\<close>

function drop_tags :: "string \<Rightarrow> string" where
  "drop_tags [] = []"
| "drop_tags (c # cs) =
     (if c = CHR ''<'' \<and> takeWhile (\<lambda>d. d \<noteq> CHR ''>'') cs \<noteq> [] \<and> CHR ''>'' \<in> set cs
      then CHR '' '' # drop_tags (drop 1 (dropWhile (\<lambda>d. d \<noteq> CHR ''>'') cs))
      else c # drop_tags cs)"
  by pat_completeness auto
termination
  by (relation "measure length") (auto simp: less_Suc_eq_le intro: le_trans [OF diff_le_self length_dropWhile_le])

definition strip_html :: "(string \<Rightarrow> string) \<Rightarrow> string option \<Rightarrow> string option" where
  "strip_html unescape s = (if \<not> truthy s then None
     else non_empty (strip (collapse_ws (unescape (drop_tags (or_str s []))))))"

text \<open>The first key whose value is neither missing, null, empty nor a container.\<close>

fun first_field :: "(string, json) dict \<Rightarrow> string list \<Rightarrow> string option" where
  "first_field d [] = None"
| "first_field d (k # ks) = (case jget d k of
      JNull \<Rightarrow> first_field d ks
    | JList _ \<Rightarrow> first_field d ks
    | JObj _ \<Rightarrow> first_field d ks
    | v \<Rightarrow> if v = JStr [] then first_field d ks else clean v)"

definition item_view :: "(string, json) dict \<Rightarrow> (string, json) dict" where
  "item_view item = (case jget item ''_source'' of
      JObj src \<Rightarrow> foldl (\<lambda>d (k, v). dict_set k v d) src (filter (\<lambda>(k, v). k \<noteq> ''_source'') item)
    | _ \<Rightarrow> item)"

definition extract_title :: "(string, json) dict \<Rightarrow> string option" where
  "extract_title view = (case first_field view TITLE_KEYS of
      Some t \<Rightarrow> Some t
    | None \<Rightarrow> (case jget view ''headline'' of
        JObj headline \<Rightarrow> clean (or_json (jget headline ''main'') (jget headline ''title''))
      | _ \<Rightarrow> None))"

definition has_objects :: "json \<Rightarrow> bool" where
  "has_objects v = (case v of JList l \<Rightarrow> list_ex is_obj l | _ \<Rightarrow> False)"

text \<open>The first key with a list that holds an object, at the top and one level down.\<close>

definition find_container :: "(string, json) dict \<Rightarrow> (string \<times> json list) option" where
  "find_container d = map_option (\<lambda>k. (k, rows_of (jget d k))) (find (\<lambda>k. has_objects (jget d k)) ARTICLE_LIST_KEYS)"

fun find_nested_container :: "(string, json) dict \<Rightarrow> (json list \<times> string) option" where
  "find_nested_container [] = None"
| "find_nested_container ((okey, oval) # d) = (case oval of
      JObj inner \<Rightarrow> (case find_container inner of
          Some (ikey, rows) \<Rightarrow> Some (rows, okey @ ''.'' @ ikey)
        | None \<Rightarrow> find_nested_container d)
    | _ \<Rightarrow> find_nested_container d)"

definition looks_like_error_envelope :: "(string, json) dict \<Rightarrow> string option" where
  "looks_like_error_envelope data =
    (let code_error = (case jget data ''RESULT'' of
         JObj result \<Rightarrow> (let code = upper (json_show (get_or result ''CODE'' (JStr [])))
           in contains ''ERROR'' code \<or> contains ''ERR-'' code \<or> contains ''FAIL'' code)
       | _ \<Rightarrow> False)
     in if code_error then Some ''result_code''
        else (case jget data ''status'' of
            JStr status \<Rightarrow> if dict_get data ''message'' \<noteq> None \<and> lower (strip status) \<notin> set SUCCESS_STATUS_VALUES
              then Some ''status_message'' else None
          | _ \<Rightarrow> None))"

definition looks_numeric :: "(string, json) dict \<Rightarrow> bool" where
  "looks_numeric d = list_ex (\<lambda>k. dict_get d k \<noteq> None) NUMERIC_KEYS"

section \<open>Candidates\<close>

text \<open>The arguments of every parser.\<close>

record parse_context =
  px_nfkc :: "string \<Rightarrow> string"
  px_source_id :: string
  px_collection_status :: string
  px_confirmation_policy :: "string option"
  px_raw_artifact_path :: "string option"

definition clean_opt :: "string option \<Rightarrow> string option" where
  "clean_opt s = Option.bind s clean_str"

definition make_candidate ::
  "parse_context \<Rightarrow> string \<Rightarrow> string option \<Rightarrow> string option \<Rightarrow> string option \<Rightarrow> string option \<Rightarrow> string option
   \<Rightarrow> string option \<Rightarrow> string option \<Rightarrow> bool \<Rightarrow> article_candidate res" where
  "make_candidate px parser_name title source_url published_at summary body_text raw_path text_ref numeric =
    bind_res (canonicalize_url (px_nfkc px) False None source_url) (\<lambda>canonical.
    Inr \<lparr>ac_source_id = px_source_id px, ac_title = clean_opt title, ac_source_url = clean_opt source_url,
      ac_published_at = clean_opt published_at, ac_summary = clean_opt summary, ac_body_text = clean_opt body_text,
      ac_raw_artifact_path = raw_path, ac_extracted_text_ref = text_ref, ac_canonical_url = canonical,
      ac_body_missing = (clean_opt body_text = None), ac_collection_status = px_collection_status px,
      ac_parser_name = parser_name, ac_parse_error = None, ac_numeric_payload_exempt = numeric,
      ac_confirmation_policy = px_confirmation_policy px\<rparr>)"

definition article_from_item :: "parse_context \<Rightarrow> string \<Rightarrow> (string, json) dict \<Rightarrow> article_candidate res" where
  "article_from_item px parser_name item =
    (let view = item_view item in
     make_candidate px parser_name (extract_title view) (first_field view URL_KEYS) (first_field view TIME_KEYS)
       (first_field view SUMMARY_KEYS) (first_field view BODY_KEYS) (px_raw_artifact_path px) None False)"

text \<open>What a parser returns: the candidates, the name of the parser and the errors.\<close>

type_synonym parsed = "article_candidate list \<times> string \<times> string list"

definition articles_from :: "parse_context \<Rightarrow> string \<Rightarrow> json list \<Rightarrow> parsed res" where
  "articles_from px parser_name rows =
    bind_res (map_res (article_from_item px parser_name) (objects rows)) (\<lambda>cs. Inr (cs, parser_name, []))"

definition numeric_candidate :: "parse_context \<Rightarrow> string option \<Rightarrow> string option \<Rightarrow> parsed res" where
  "numeric_candidate px title summary =
    bind_res (make_candidate px ''numeric_payload'' title None None summary None (px_raw_artifact_path px) None True)
      (\<lambda>c. Inr ([c], ''numeric_payload'', []))"

definition is_gdelt :: "string \<Rightarrow> json list \<Rightarrow> bool" where
  "is_gdelt key rows \<longleftrightarrow> key = ''articles'' \<and>
     list_ex (\<lambda>x. dict_get x ''seendate'' \<noteq> None \<or> dict_get x ''domain'' \<noteq> None) (objects rows)"

definition parse_object :: "parse_context \<Rightarrow> (string, json) dict \<Rightarrow> parsed res" where
  "parse_object px data = (case find_container data of
      Some (key, rows) \<Rightarrow> articles_from px (if is_gdelt key rows then ''gdelt'' else ''generic_json_dict:'' @ key) rows
    | None \<Rightarrow> (case find_nested_container data of
        Some (rows, path) \<Rightarrow> articles_from px (''generic_json_nested:'' @ path) rows
      | None \<Rightarrow>
          if looks_numeric data then
            numeric_candidate px (first_field data TITLE_KEYS) (first_field data [''symbol'', ''ticker''])
          else (case looks_like_error_envelope data of
              Some env \<Rightarrow> Inr ([], ''api_error_payload'', [''api_error_envelope:'' @ env])
            | None \<Rightarrow> Inr ([], ''json_unrecognized'', [''no_article_container_and_not_numeric'']))))"

definition adapter_context_of :: "parse_context \<Rightarrow> adapter_context" where
  "adapter_context_of px = \<lparr>ax_nfkc = px_nfkc px, ax_collection_status = px_collection_status px,
     ax_confirmation_policy = px_confirmation_policy px, ax_raw_artifact_path = px_raw_artifact_path px\<rparr>"

definition parse_json :: "(string \<Rightarrow> string + json) \<Rightarrow> parse_context \<Rightarrow> string \<Rightarrow> parsed res" where
  "parse_json decode px body = (case decode body of
      Inl err \<Rightarrow> Inr ([], ''json_malformed'', [''json decode error: '' @ err])
    | Inr data \<Rightarrow> (case adapt_source_payload (adapter_context_of px) (px_source_id px) data of
        Some (cs, name) \<Rightarrow> Inr (cs, name, [])
      | None \<Rightarrow> (case data of
          JList rows \<Rightarrow> bind_res (map_res (article_from_item px ''generic_json_list'') (objects rows)) (\<lambda>cs.
            Inr (cs, ''generic_json_list'', if cs = [] then [''no_dict_items''] else []))
        | JObj d \<Rightarrow> parse_object px d
        | _ \<Rightarrow> numeric_candidate px None None)))"

definition rss_item :: "(string \<Rightarrow> string) \<Rightarrow> parse_context \<Rightarrow> xml \<Rightarrow> article_candidate res" where
  "rss_item unescape px it = make_candidate px ''rss'' (findtext ''title'' it) (findtext ''link'' it)
     (findtext ''pubDate'' it) (findtext ''description'' it) (strip_html unescape (findtext CONTENT_ENCODED it))
     (px_raw_artifact_path px) None False"

definition atom_entry :: "(string \<Rightarrow> string) \<Rightarrow> parse_context \<Rightarrow> xml \<Rightarrow> article_candidate res" where
  "atom_entry unescape px en = make_candidate px ''atom'' (findtext (ATOM_NS @ ''title'') en)
     (Option.bind (find_child (ATOM_NS @ ''link'') en) (\<lambda>e. dict_get (elem_attrs e) ''href''))
     (or_opt (findtext (ATOM_NS @ ''updated'') en) (findtext (ATOM_NS @ ''published'') en))
     (findtext (ATOM_NS @ ''summary'') en) (strip_html unescape (findtext (ATOM_NS @ ''content'') en))
     (px_raw_artifact_path px) None False"

definition parse_xml_text ::
  "(string \<Rightarrow> string + xml) \<Rightarrow> (string \<Rightarrow> string) \<Rightarrow> parse_context \<Rightarrow> string \<Rightarrow> parsed res" where
  "parse_xml_text parse_xml unescape px body = (case parse_xml body of
      Inl err \<Rightarrow> Inr ([], ''xml_malformed'', [''xml parse error: '' @ err])
    | Inr doc \<Rightarrow> (case adapt_source_xml (adapter_context_of px) (px_source_id px) doc of
        Some (cs, name) \<Rightarrow> Inr (cs, name, [])
      | None \<Rightarrow>
          bind_res (map_res (rss_item unescape px) (findall_desc ''item'' doc)) (\<lambda>items.
          if items \<noteq> [] then Inr (items, ''rss'', [])
          else bind_res (map_res (atom_entry unescape px) (findall_desc (ATOM_NS @ ''entry'') doc)) (\<lambda>entries.
            if entries \<noteq> [] then Inr (entries, ''atom'', [])
            else Inr ([], ''xml_no_items'', [''no_item_or_entry_elements''])))))"

text \<open>The header of an extracted text: the lines before a line \<open>---\<close>, if one of the expected keys is among them.\<close>

definition header_entry :: "string \<Rightarrow> (string \<times> string) option" where
  "header_entry l = (if CHR '':'' \<in> set l then Some (lower (strip (before CHR '':'' l)), strip (after CHR '':'' l)) else None)"

definition header_of :: "string list \<Rightarrow> (string, string) dict" where
  "header_of ls = dict_of (List.map_filter header_entry ls)"

definition is_separator :: "string \<Rightarrow> bool" where
  "is_separator l \<longleftrightarrow> strip l = ''---''"

definition split_header :: "string \<Rightarrow> (string, string) dict \<times> string" where
  "split_header body =
    (let ls = splitlines_keepends body in
     if \<not> list_ex is_separator ls then ([], body)
     else let parsed = header_of (takeWhile (\<lambda>l. \<not> is_separator l) ls) in
       if list_ex (\<lambda>k. dict_get parsed k \<noteq> None) [''title'', ''source_url'', ''published_at'']
       then (parsed, concat (drop 1 (dropWhile (\<lambda>l. \<not> is_separator l) ls)))
       else ([], body))"

definition header_field :: "(string, string) dict \<Rightarrow> string \<Rightarrow> string option" where
  "header_field parsed k = Option.bind (dict_get parsed k) non_empty"

definition parse_extracted_text :: "parse_context \<Rightarrow> string \<Rightarrow> parsed res" where
  "parse_extracted_text px body =
    (let (parsed, rest) = split_header body in
     bind_res (make_candidate px ''extracted_text'' (header_field parsed ''title'') (header_field parsed ''source_url'')
       (header_field parsed ''published_at'') None (Some rest) None (px_raw_artifact_path px) False)
       (\<lambda>c. Inr ([c], ''extracted_text'', [])))"

section \<open>Choice of the parser\<close>

definition sniff :: "string \<Rightarrow> string" where
  "sniff body =
    (let stripped = lstrip body; first = take 1 stripped in
     if first = ''{'' \<or> first = ''['' then ''json''
     else if first = ''<'' then
       (let lowered = lower (py_take 200 stripped) in
        if contains ''<!doctype html'' lowered \<or> contains ''<html'' lowered then ''html'' else ''xml'')
     else ''extracted_text'')"

definition parse_artifact_text ::
  "(string \<Rightarrow> string + json) \<Rightarrow> (string \<Rightarrow> string + xml) \<Rightarrow> (string \<Rightarrow> string) \<Rightarrow> parse_context \<Rightarrow> string option \<Rightarrow> string option
   \<Rightarrow> parsed res" where
  "parse_artifact_text decode parse_xml unescape px fmt body =
    (let t = or_str body [] in
     if strip t = [] then Inr ([], ''empty'', [''empty_artifact''])
     else let detected = (case fmt of Some f \<Rightarrow> if f \<noteq> [] then f else sniff t | None \<Rightarrow> sniff t) in
       if detected = ''json'' then parse_json decode px t
       else if detected = ''html'' then Inr ([], ''html_unsupported'', [''html_parsing_deferred_phase_d''])
       else if detected = ''xml'' then parse_xml_text parse_xml unescape px t
       else parse_extracted_text px t)"

section \<open>Nothing is lost or made up in silence\<close>

lemma make_candidate_from_source:
  assumes "make_candidate px name t u p s b raw_path text_ref numeric = Inr c"
    "raw_path = px_raw_artifact_path px \<and> text_ref = None \<or> raw_path = None \<and> text_ref = px_raw_artifact_path px"
  shows "from_source (px_raw_artifact_path px) (px_source_id px) c"
  using assms unfolding make_candidate_def bind_res_Inr_iff from_source_def
  by (elim exE conjE, elim sum.inject(2) [THEN iffD1, elim_format], hypsubst, simp)

abbreviation well_parsed :: "parse_context \<Rightarrow> parsed \<Rightarrow> bool" where
  "well_parsed px r \<equiv> (\<forall>c \<in> set (fst r). from_source (px_raw_artifact_path px) (px_source_id px) c) \<and>
     (fst r = [] \<longleftrightarrow> snd (snd r) \<noteq> [])"

lemma item_from_source:
  "article_from_item px name item = Inr c \<Longrightarrow> from_source (px_raw_artifact_path px) (px_source_id px) c"
  "rss_item unescape px e = Inr c \<Longrightarrow> from_source (px_raw_artifact_path px) (px_source_id px) c"
  "atom_entry unescape px e = Inr c \<Longrightarrow> from_source (px_raw_artifact_path px) (px_source_id px) c"
  unfolding article_from_item_def rss_item_def atom_entry_def Let_def by (erule make_candidate_from_source, simp)+

lemma numeric_well_parsed: "numeric_candidate px t s = Inr r \<Longrightarrow> well_parsed px r"
  unfolding numeric_candidate_def bind_res_Inr_iff by (auto dest!: make_candidate_from_source)

lemma articles_well_parsed:
  assumes "articles_from px name rows = Inr r" "objects rows \<noteq> []"
  shows "well_parsed px r"
proof -
  obtain cs where cs: "map_res (article_from_item px name) (objects rows) = Inr cs" "r = (cs, name, [])"
    using assms(1) by (auto simp: articles_from_def bind_res_Inr_iff)
  have "cs \<noteq> []" using map_res_Inr_cases [OF cs(1)] assms(2) by auto
  moreover have "\<forall>c \<in> set cs. from_source (px_raw_artifact_path px) (px_source_id px) c"
    by (rule map_res_Inr_all [OF cs(1)]) (rule item_from_source(1))
  ultimately show ?thesis using cs(2) by auto
qed

lemma has_objects_iff: "has_objects v \<longleftrightarrow> objects (rows_of v) \<noteq> []"
  by (cases v) (auto simp: has_objects_def rows_of_def objects_def is_obj_def list_ex_iff map_filter_def
      filter_empty_conv split: json.splits)

lemma find_container_objects: "find_container d = Some (k, rows) \<Longrightarrow> objects rows \<noteq> []"
  by (auto simp: find_container_def has_objects_iff find_Some_iff)

lemma find_nested_objects: "find_nested_container d = Some (rows, path) \<Longrightarrow> objects rows \<noteq> []"
  by (induction d rule: find_nested_container.induct) (auto split: json.splits option.splits dest: find_container_objects)

lemma parse_object_well_parsed: "parse_object px d = Inr r \<Longrightarrow> well_parsed px r"
  unfolding parse_object_def
  by (auto split: option.splits if_splits prod.splits
      dest: articles_well_parsed find_container_objects find_nested_objects numeric_well_parsed)

lemma adapter_context_path [simp]: "ax_raw_artifact_path (adapter_context_of px) = px_raw_artifact_path px"
  by (simp add: adapter_context_of_def)

lemma adapted_well_parsed:
  assumes "adapted sid r = Some (cs, name)" "\<And>cs. r = Inr cs \<Longrightarrow> \<forall>c \<in> set cs. P c"
  shows "cs \<noteq> [] \<and> (\<forall>c \<in> set cs. P c)"
  using assms by (auto simp: adapted_def split: sum.splits list.splits)

lemma adapters_members:
  "(sid, f) \<in> set ADAPTERS \<Longrightarrow> f ax d = Inr cs \<Longrightarrow> \<forall>c \<in> set cs. from_source (ax_raw_artifact_path ax) sid c"
  "(sid, g) \<in> set LIST_ADAPTERS \<Longrightarrow> g ax l = Inr cs \<Longrightarrow> \<forall>c \<in> set cs. from_source (ax_raw_artifact_path ax) sid c"
  "(sid, h) \<in> set XML_ADAPTERS \<Longrightarrow> h ax x = Inr cs \<Longrightarrow> \<forall>c \<in> set cs. from_source (ax_raw_artifact_path ax) sid c"
  unfolding ADAPTERS_def LIST_ADAPTERS_def XML_ADAPTERS_def set_simps insert_iff empty_iff prod.inject
  by (elim disjE conjE FalseE; hypsubst; erule adapters_from_source tour_from_source)+

lemma adapter_well_parsed:
  assumes "adapt_source_payload (adapter_context_of px) sid data = Some (cs, name)"
  shows "cs \<noteq> [] \<and> (\<forall>c \<in> set cs. from_source (px_raw_artifact_path px) sid c)"
proof -
  from assms consider (obj) f d where "dict_get ADAPTERS sid = Some f" "adapted sid (f (adapter_context_of px) d) = Some (cs, name)"
    | (rows) g l where "dict_get LIST_ADAPTERS sid = Some g" "adapted sid (g (adapter_context_of px) l) = Some (cs, name)"
    by (auto simp: adapt_source_payload_def split: json.splits option.splits)
  then show ?thesis
    by cases (erule adapted_well_parsed, metis adapters_members dict_get_mem adapter_context_path)+
qed

lemma adapter_xml_well_parsed:
  assumes "adapt_source_xml (adapter_context_of px) sid doc = Some (cs, name)"
  shows "cs \<noteq> [] \<and> (\<forall>c \<in> set cs. from_source (px_raw_artifact_path px) sid c)"
proof -
  from assms obtain h where "dict_get XML_ADAPTERS sid = Some h" "adapted sid (h (adapter_context_of px) doc) = Some (cs, name)"
    by (auto simp: adapt_source_xml_def split: option.splits)
  then show ?thesis
    by - (erule adapted_well_parsed, metis adapters_members(3) dict_get_mem adapter_context_path)
qed

lemma parse_json_well_parsed:
  assumes "parse_json decode px body = Inr r"
  shows "well_parsed px r"
proof (cases "decode body")
  case (Inr data)
  show ?thesis
  proof (cases "adapt_source_payload (adapter_context_of px) (px_source_id px) data")
    case (Some a)
    then show ?thesis using assms Inr adapter_well_parsed by (cases a) (auto simp: parse_json_def)
  next
    case None
    show ?thesis
    proof (cases data)
      case (JList rows)
      then obtain cs where cs: "map_res (article_from_item px ''generic_json_list'') (objects rows) = Inr cs"
        "r = (cs, ''generic_json_list'', if cs = [] then [''no_dict_items''] else [])"
        using assms Inr None by (auto simp: parse_json_def bind_res_Inr_iff)
      have "\<forall>c \<in> set cs. from_source (px_raw_artifact_path px) (px_source_id px) c"
        by (rule map_res_Inr_all [OF cs(1)]) (rule item_from_source(1))
      then show ?thesis using cs(2) by simp
    qed (use assms Inr None parse_object_well_parsed numeric_well_parsed in \<open>auto simp: parse_json_def\<close>)
  qed
qed (use assms in \<open>auto simp: parse_json_def\<close>)

lemma parse_xml_well_parsed:
  assumes "parse_xml_text parse_xml unescape px body = Inr r"
  shows "well_parsed px r"
proof (cases "parse_xml body")
  case (Inr doc)
  show ?thesis
  proof (cases "adapt_source_xml (adapter_context_of px) (px_source_id px) doc")
    case (Some a)
    then show ?thesis using assms Inr adapter_xml_well_parsed by (cases a) (auto simp: parse_xml_text_def)
  next
    case None
    then obtain items where items: "map_res (rss_item unescape px) (findall_desc ''item'' doc) = Inr items"
      "items \<noteq> [] \<and> r = (items, ''rss'', []) \<or> items = [] \<and> (\<exists>entries.
         map_res (atom_entry unescape px) (findall_desc (ATOM_NS @ ''entry'') doc) = Inr entries \<and>
         r = (if entries \<noteq> [] then (entries, ''atom'', []) else ([], ''xml_no_items'', [''no_item_or_entry_elements''])))"
      using assms Inr by (auto simp: parse_xml_text_def bind_res_Inr_iff split: if_splits)
    have "\<forall>c \<in> set items. from_source (px_raw_artifact_path px) (px_source_id px) c"
      by (rule map_res_Inr_all [OF items(1)]) (rule item_from_source(2))
    moreover have "\<forall>c \<in> set entries. from_source (px_raw_artifact_path px) (px_source_id px) c"
      if "map_res (atom_entry unescape px) (findall_desc (ATOM_NS @ ''entry'') doc) = Inr entries" for entries
      by (rule map_res_Inr_all [OF that]) (rule item_from_source(3))
    ultimately show ?thesis using items(2) by (auto split: if_splits)
  qed
qed (use assms in \<open>auto simp: parse_xml_text_def\<close>)

lemma parse_extracted_well_parsed: "parse_extracted_text px body = Inr r \<Longrightarrow> well_parsed px r"
  unfolding parse_extracted_text_def bind_res_Inr_iff case_prod_unfold Let_def
  by (auto dest!: make_candidate_from_source)

text \<open>
  C30: Whatever an artifact holds, each candidate that its parser returns names the source and refers to the
  artifact, so that the gate before the queue finds its evidence, and the parser returns no candidate exactly when it
  reports an error: an artifact that could not be read, that holds no item or that is the error message of a vendor is
  never taken for an empty success.
\<close>

theorem parsing_is_never_silent:
  assumes "parse_artifact_text decode parse_xml unescape px fmt body = Inr (candidates, parser_name, errors)"
  shows "(\<forall>c \<in> set candidates. ac_source_id c = px_source_id px \<and>
      (truthy (px_raw_artifact_path px) \<longrightarrow>
        or_opt (ac_raw_artifact_path c) (ac_extracted_text_ref c) = px_raw_artifact_path px \<and> check_evidence c = ([], False, False))) \<and>
    (candidates = [] \<longleftrightarrow> errors \<noteq> [])"
proof -
  have "well_parsed px (candidates, parser_name, errors)"
    using assms unfolding parse_artifact_text_def Let_def
    by (auto split: if_splits dest: parse_json_well_parsed parse_xml_well_parsed parse_extracted_well_parsed)
  then show ?thesis
    by (auto simp: from_source_def check_evidence_def or_opt_def truthy_def)
qed

theorem parsing_is_never_silent_witness:
  "\<exists>c. parse_artifact_text (\<lambda>s. Inl s) (\<lambda>s. Inl s) (\<lambda>s. s) \<lparr>px_nfkc = (\<lambda>s. s), px_source_id = ''s'', px_collection_status = [],
       px_confirmation_policy = None, px_raw_artifact_path = Some ''a.txt''\<rparr> None (Some ''hello'') = Inr ([c], ''extracted_text'', [])
     \<and> check_evidence c = ([], False, False)"
proof -
  let ?px = "\<lparr>px_nfkc = (\<lambda>s. s), px_source_id = ''s'', px_collection_status = [],
       px_confirmation_policy = None, px_raw_artifact_path = Some ''a.txt''\<rparr>"
  let ?parse = "parse_artifact_text (\<lambda>s. Inl s) (\<lambda>s. Inl s) (\<lambda>s. s) ?px None (Some ''hello'')"
  have "(case ?parse of Inr ([c], n, []) \<Rightarrow> n = ''extracted_text'' | _ \<Rightarrow> False)" by code_simp
  then obtain c where c: "?parse = Inr ([c], ''extracted_text'', [])"
    by (auto split: sum.splits prod.splits list.splits)
  show ?thesis using parsing_is_never_silent [OF c] c by simp
qed

text \<open>One item with a malformed port makes the parser raise, and the items beside it are lost with it.\<close>

lemma malformed_port_loses_artifact:
  "parse_artifact_text (\<lambda>s. Inr (JList [JObj [(''title'', JStr ''A''), (''url'', JStr ''https://a.b/c'')],
       JObj [(''title'', JStr ''B''), (''url'', JStr ''https://a:x/'')]])) (\<lambda>s. Inl s) (\<lambda>s. s)
     \<lparr>px_nfkc = (\<lambda>s. s), px_source_id = ''s'', px_collection_status = [], px_confirmation_policy = None,
       px_raw_artifact_path = Some ''a.json''\<rparr> (Some ''json'') (Some ''[]'')
   = Inl (ValueError ''Port could not be cast to integer value'')"
  by code_simp

end
