(* ===== verification/Secret_Scan.thy ===== *)
theory Secret_Scan
  imports Py_Lines
begin

text \<open>
  \<open>ingestion/tools/scan_secrets.py\<close>: the scanner for leaked secrets. Each pattern is written as a recogniser that
  gives the length of the match at the start of a text. \<open>ualnum\<close> decides \<open>str.isalnum\<close> of a character
  outside ASCII. A file is given by its name, its size and its text; walking the directories is left out.
\<close>

section \<open>Recognisers\<close>

type_synonym matcher = "string \<Rightarrow> nat option"

text \<open>The first match of \<open>re.search\<close>: where it starts and its length.\<close>

fun search_match :: "nat \<Rightarrow> matcher \<Rightarrow> string \<Rightarrow> (nat \<times> nat) option" where
  "search_match i f [] = map_option (\<lambda>n. (i, n)) (f [])"
| "search_match i f (c # cs) = (case f (c # cs) of Some n \<Rightarrow> Some (i, n) | None \<Rightarrow> search_match (Suc i) f cs)"

definition m_lit :: "string \<Rightarrow> matcher" where
  "m_lit p s = (if startswith s p then Some (length p) else None)"

definition m_lit_nocase :: "string \<Rightarrow> matcher" where
  "m_lit_nocase p s = (if startswith (lower s) p then Some (length p) else None)"

definition m_class :: "(char \<Rightarrow> bool) \<Rightarrow> matcher" where
  "m_class p s = (case s of c # cs \<Rightarrow> if p c then Some 1 else None | [] \<Rightarrow> None)"

text \<open>\<open>[...]{n,}\<close> and \<open>[...]?\<close>, greedy; what follows them in the patterns never starts with the class.\<close>

definition m_run :: "(char \<Rightarrow> bool) \<Rightarrow> nat \<Rightarrow> matcher" where
  "m_run p n s = (let k = length (takeWhile p s) in if n \<le> k then Some k else None)"

definition m_opt :: "(char \<Rightarrow> bool) \<Rightarrow> matcher" where
  "m_opt p s = (case s of c # cs \<Rightarrow> if p c then Some 1 else Some 0 | [] \<Rightarrow> Some 0)"

fun m_seq :: "matcher list \<Rightarrow> matcher" where
  "m_seq [] s = Some 0"
| "m_seq (f # fs) s = (case f s of None \<Rightarrow> None | Some n \<Rightarrow> map_option ((+) n) (m_seq fs (drop n s)))"

fun m_alt :: "matcher list \<Rightarrow> matcher" where
  "m_alt [] s = None"
| "m_alt (f # fs) s = (case f s of Some n \<Rightarrow> Some n | None \<Rightarrow> m_alt fs s)"

definition alnum :: "char \<Rightarrow> bool" where
  "alnum c \<longleftrightarrow> is_upper c \<or> is_lower c \<or> is_digit c"

section \<open>The patterns\<close>

definition one_of :: "string \<Rightarrow> char \<Rightarrow> bool" where
  "one_of cs c \<longleftrightarrow> c \<in> set cs"

text \<open>\<open>-----BEGIN [A-Z ]*PRIVATE KEY-----\<close>: the run of capitals and blanks ends where the dashes begin.\<close>

definition m_private_key :: matcher where
  "m_private_key s =
    (let head = ''-----BEGIN ''; run = takeWhile (\<lambda>c. is_upper c \<or> c = CHR '' '') (drop (length head) s) in
     if startswith s head \<and> endswith run ''PRIVATE KEY'' \<and> startswith (drop (length head + length run) s) ''-----''
     then Some (length head + length run + 5) else None)"

definition SECRET_PATTERNS :: "(string \<times> matcher) list" where
  "SECRET_PATTERNS =
    [(''openai_key'', m_seq [m_lit ''sk-'', m_run (\<lambda>c. alnum c \<or> one_of ''_-'' c) 20]),
     (''aws_access_key'', m_seq [m_lit ''AKIA'', m_run (\<lambda>c. is_digit c \<or> is_upper c) 16]),
     (''github_token'', m_seq [m_lit ''gh'', m_class (one_of ''pousr''), m_lit ''_'', m_run alnum 20]),
     (''google_api_key'', m_seq [m_lit ''AIza'', m_run (\<lambda>c. alnum c \<or> one_of ''_-'' c) 20]),
     (''slack_token'', m_seq [m_lit ''xox'', m_class (one_of ''baprs''), m_lit ''-'', m_run (\<lambda>c. alnum c \<or> c = CHR ''-'') 20]),
     (''bearer_token'', m_seq [m_lit ''Bearer'', m_run is_blank 1, m_run (\<lambda>c. alnum c \<or> one_of ''._~+/=-'' c) 20]),
     (''service_key_param'', m_seq [m_lit ''serviceKey='', m_run (\<lambda>c. alnum c \<or> one_of ''%+/='' c) 20]),
     (''generic_api_key_assign'', m_seq
        [m_alt [m_seq [m_lit_nocase ''api'', m_opt (one_of ''_-''), m_lit_nocase ''key''],
                m_seq [m_lit_nocase ''api'', m_opt (one_of ''_-''), m_lit_nocase ''secret''],
                m_seq [m_lit_nocase ''access'', m_opt (one_of ''_-''), m_lit_nocase ''token''],
                m_seq [m_lit_nocase ''client'', m_opt (one_of ''_-''), m_lit_nocase ''secret'']],
         m_run is_blank 0, m_class (one_of ''=:''), m_run is_blank 0, m_opt (one_of [CHR 0x27, CHR 0x22]),
         m_run (\<lambda>c. alnum c \<or> one_of ''+/_-'' c) 20]),
     (''private_key_block'', m_private_key)]"

definition PLACEHOLDER_MARKERS :: "string list" where
  "PLACEHOLDER_MARKERS = [''YOUR_'', ''your_'', ''<'', ''>'', ''REDACTED'', ''example'', ''EXAMPLE'',
     ''placeholder'', ''PLACEHOLDER'', ''xxxx'', ''XXXX'', ''...'']"

definition ALLOWLIST_PRAGMA :: string where "ALLOWLIST_PRAGMA = ''pragma: allowlist secret''"

definition is_placeholder :: "string \<Rightarrow> string \<Rightarrow> bool" where
  "is_placeholder matched line = list_ex (\<lambda>m. contains m matched \<or> contains m line) PLACEHOLDER_MARKERS"

definition is_code_reference :: "string \<Rightarrow> string \<Rightarrow> nat \<Rightarrow> bool" where
  "is_code_reference matched line end_at =
    (CHR 0x27 \<notin> set matched \<and> CHR 0x22 \<notin> set matched \<and> take 1 (drop end_at line) = ''('')"

definition is_url_slug :: "string \<Rightarrow> bool" where
  "is_url_slug matched = (\<not> list_ex (\<lambda>seg. 20 \<le> length seg \<and> list_ex is_digit seg \<and> list_ex (\<lambda>c. is_upper c \<or> is_lower c) seg)
     (split_on CHR ''-'' (drop 3 matched)))"

text \<open>The character before a position, and whether it is alphanumeric; an empty text is not.\<close>

definition last_char :: "string \<Rightarrow> string" where
  "last_char s = py_tail 1 s"

definition alnum_before :: "(string \<Rightarrow> bool) \<Rightarrow> string \<Rightarrow> nat \<Rightarrow> bool" where
  "alnum_before ualnum line i = (case last_char (take i line) of
      [] \<Rightarrow> False | [c] \<Rightarrow> alnum c | cs \<Rightarrow> ualnum cs)"

text \<open>The hit of one pattern in a line, with the guards against false positives.\<close>

definition pattern_hit :: "(string \<Rightarrow> bool) \<Rightarrow> string \<times> matcher \<Rightarrow> string \<Rightarrow> bool" where
  "pattern_hit ualnum pat line = (case search_match 0 (snd pat) line of
      None \<Rightarrow> False
    | Some (i, n) \<Rightarrow>
        (let matched = take n (drop i line) in
         \<not> is_placeholder matched line \<and>
         \<not> (fst pat = ''openai_key'' \<and> (alnum_before ualnum line i \<or> is_url_slug matched)) \<and>
         \<not> (fst pat = ''generic_api_key_assign'' \<and> is_code_reference matched line (i + n))))"

definition line_hits :: "(string \<Rightarrow> bool) \<Rightarrow> string \<Rightarrow> string list" where
  "line_hits ualnum line = (if contains ALLOWLIST_PRAGMA line then []
     else map fst (filter (\<lambda>pat. pattern_hit ualnum pat line) SECRET_PATTERNS))"

definition text_has_secret :: "(string \<Rightarrow> bool) \<Rightarrow> string \<Rightarrow> bool" where
  "text_has_secret ualnum body = list_ex (\<lambda>line. line_hits ualnum line \<noteq> []) (splitlines body)"

section \<open>Scanning files\<close>

definition names_credential :: "string \<Rightarrow> bool" where
  "names_credential key = list_ex (\<lambda>w. contains w (upper key)) [''KEY'', ''SECRET'', ''TOKEN'', ''PASSWORD'', ''CREDENTIAL'']"

definition env_entry :: "string \<Rightarrow> (string \<times> string) option" where
  "env_entry raw =
    (let stripped = strip raw in
     if stripped = [] \<or> startswith stripped ''#'' \<or> CHR ''='' \<notin> set stripped then None
     else let key = strip (takeWhile (\<lambda>c. c \<noteq> CHR ''='') stripped);
              val = strip (drop 1 (dropWhile (\<lambda>c. c \<noteq> CHR ''='') stripped))
       in if key \<noteq> [] \<and> val \<noteq> [] \<and> 8 \<le> py_len val \<and> names_credential key then Some (key, val) else None)"

definition load_env_values :: "string option \<Rightarrow> (string, string) dict" where
  "load_env_values env_file = (case env_file of None \<Rightarrow> []
     | Some body \<Rightarrow> dict_of (List.map_filter env_entry (splitlines body)))"

definition MAX_FILE_BYTES :: nat where "MAX_FILE_BYTES = 5 * 1024 * 1024"

definition SCAN_EXTENSIONS :: "string list" where
  "SCAN_EXTENSIONS = [''.md'', ''.txt'', ''.json'', ''.yaml'', ''.yml'', ''.py'', ''.html'', ''.xml'',
     ''.csv'', ''.log'', ''.toml'', ''.ini'', ''.cfg'', ''.env.example'']"

definition BINARY_EXTENSIONS :: "string list" where
  "BINARY_EXTENSIONS = [''.png'', ''.jpg'', ''.jpeg'', ''.gif'', ''.webp'', ''.pdf'', ''.zip'', ''.pyc'', ''.lock'']"

text \<open>\<open>Path.suffix\<close> of a name: from its last dot, unless that is its first or its last character.\<close>

definition path_suffix :: "string \<Rightarrow> string" where
  "path_suffix name =
    (let ext = rev (takeWhile (\<lambda>c. c \<noteq> CHR ''.'') (rev name)) in
     if ext = [] \<or> CHR ''.'' \<notin> set (drop 1 name) \<or> length name = length ext + 1 then [] else CHR ''.'' # ext)"

record scanned_file =
  sf_path :: string
  sf_name :: string
  sf_size :: "nat option" \<comment> \<open>\<^term>\<open>None\<close> where \<open>stat\<close> fails\<close>
  sf_text :: "string option" \<comment> \<open>\<^term>\<open>None\<close> where reading fails\<close>

definition should_scan :: "scanned_file \<Rightarrow> bool" where
  "should_scan f =
    (let ext = path_suffix (sf_name f) in
     sf_name f \<noteq> ''.env'' \<and> lower ext \<notin> set BINARY_EXTENSIONS \<and>
     (lower ext \<in> set SCAN_EXTENSIONS \<or> ext = []) \<and>
     (case sf_size f of None \<Rightarrow> False | Some n \<Rightarrow> n \<le> MAX_FILE_BYTES))"

record finding =
  fi_severity :: string
  fi_type :: string
  fi_env_key :: "string option"
  fi_file :: string
  fi_line :: nat

definition scan_line :: "(string \<Rightarrow> bool) \<Rightarrow> (string, string) dict \<Rightarrow> string \<Rightarrow> nat \<Rightarrow> string \<Rightarrow> finding list" where
  "scan_line ualnum env path lineno line =
    map (\<lambda>(k, v). \<lparr>fi_severity = ''BLOCKED'', fi_type = ''ENV_VALUE_LEAKED'', fi_env_key = Some k, fi_file = path,
        fi_line = lineno\<rparr>) (filter (\<lambda>(k, v). contains v line) env) @
    map (\<lambda>name. \<lparr>fi_severity = ''WARNING'', fi_type = ''PATTERN_'' @ upper name, fi_env_key = None, fi_file = path,
        fi_line = lineno\<rparr>) (line_hits ualnum line)"

definition scan_file :: "(string \<Rightarrow> bool) \<Rightarrow> (string, string) dict \<Rightarrow> scanned_file \<Rightarrow> finding list option" where
  "scan_file ualnum env f = (if \<not> should_scan f then None
     else map_option (\<lambda>body. concat (map (\<lambda>(i, line). scan_line ualnum env (sf_path f) i line)
       (List.enumerate 1 (splitlines body)))) (sf_text f))"

record scan_report =
  sr_verdict :: string
  sr_exit_code :: nat
  sr_files_scanned :: nat
  sr_env_keys_loaded :: nat
  sr_findings :: "finding list"

definition EXIT_PASS :: nat where "EXIT_PASS = 0"
definition EXIT_WARNING :: nat where "EXIT_WARNING = 1"
definition EXIT_BLOCKED :: nat where "EXIT_BLOCKED = 2"

definition scan_paths :: "(string \<Rightarrow> bool) \<Rightarrow> scanned_file list \<Rightarrow> string option \<Rightarrow> scan_report" where
  "scan_paths ualnum files env_file =
    (let env = load_env_values env_file;
         scanned = List.map_filter (scan_file ualnum env) files;
         findings = concat scanned;
         has = (\<lambda>sev. list_ex (\<lambda>x. fi_severity x = sev) findings);
         (verdict, code) = (if has ''BLOCKED'' then (''BLOCKED'', EXIT_BLOCKED)
           else if has ''WARNING'' then (''WARNING'', EXIT_WARNING) else (''PASS'', EXIT_PASS))
     in \<lparr>sr_verdict = verdict, sr_exit_code = code, sr_files_scanned = length scanned,
         sr_env_keys_loaded = length env, sr_findings = findings\<rparr>)"

section \<open>What the scanner finds\<close>

lemma blocked_finding:
  "(\<exists>x \<in> set (scan_line ualnum env path i line). fi_severity x = ''BLOCKED'') \<longleftrightarrow> (\<exists>(k, v) \<in> set env. contains v line)"
  by (simp add: scan_line_def bex_Un case_prod_unfold) force

lemma scanned_files:
  "xs \<in> set (List.map_filter (scan_file ualnum env) files) \<longleftrightarrow>
     (\<exists>f \<in> set files. should_scan f \<and> (\<exists>body. sf_text f = Some body \<and>
        xs = concat (map (\<lambda>(i, line). scan_line ualnum env (sf_path f) i line) (List.enumerate 1 (splitlines body)))))"
  by (auto simp: map_filter_mem scan_file_def split: if_splits)

lemma enumerate_lines: "(\<exists>(i, line) \<in> set (List.enumerate n ls). P line) \<longleftrightarrow> (\<exists>line \<in> set ls. P line)"
proof -
  have "set ls = snd ` set (List.enumerate n ls)" using map_snd_enumerate [of n ls] by (metis list.set_map)
  then show ?thesis by force
qed

lemma report_verdict:
  "sr_verdict (scan_paths ualnum files env_file) = ''BLOCKED'' \<longleftrightarrow>
     (\<exists>x \<in> set (sr_findings (scan_paths ualnum files env_file)). fi_severity x = ''BLOCKED'')"
  "sr_exit_code (scan_paths ualnum files env_file) = EXIT_BLOCKED \<longleftrightarrow>
     (\<exists>x \<in> set (sr_findings (scan_paths ualnum files env_file)). fi_severity x = ''BLOCKED'')"
  "sr_verdict (scan_paths ualnum files env_file) = ''PASS'' \<longleftrightarrow>
     (\<forall>x \<in> set (sr_findings (scan_paths ualnum files env_file)). fi_severity x \<notin> {''BLOCKED'', ''WARNING''})"
  by (auto simp: scan_paths_def Let_def list_ex_iff EXIT_PASS_def EXIT_WARNING_def EXIT_BLOCKED_def split: if_splits)

lemma env_values_are_credentials:
  "(k, v) \<in> set (load_env_values env_file) \<Longrightarrow> names_credential k \<and> 8 \<le> py_len v"
proof -
  assume m: "(k, v) \<in> set (load_env_values env_file)"
  obtain ps where ps: "load_env_values env_file = dict_of ps" "\<forall>(k, v) \<in> set ps. names_credential k \<and> 8 \<le> py_len v"
  proof (cases env_file)
    case None
    show ?thesis by (rule that [of "[]"]) (simp_all add: None load_env_values_def dict_of_def)
  next
    case (Some body)
    show ?thesis
      by (rule that [of "List.map_filter env_entry (splitlines body)"])
        (auto simp: Some load_env_values_def map_filter_mem env_entry_def Let_def split: if_splits)
  qed
  then have "dict_get (dict_of ps) k = Some v" using m dict_ok_mem_get by fastforce
  then have "(k, v) \<in> set ps" by (auto simp: dict_of_get dest!: map_of_SomeD)
  then show ?thesis using ps(2) by auto
qed



text \<open>The suffix of \<open>.env.example\<close> is \<open>.example\<close>, so that file is never scanned.\<close>

lemma env_example_is_not_scanned: "\<not> should_scan \<lparr>sf_path = p, sf_name = ''.env.example'', sf_size = n, sf_text = t\<rparr>"
  by (simp add: should_scan_def path_suffix_def SCAN_EXTENSIONS_def Let_def lower_def is_upper_def less_eq_char_def)

text \<open>A marker anywhere in the line excuses a token that holds none: three dots after it are enough.\<close>

lemma marker_in_line_hides_secret:
  "text_has_secret (\<lambda>s. False) ''sk-a1b2c3d4e5f6g7h8i9j0''"
  "\<not> text_has_secret (\<lambda>s. False) ''sk-a1b2c3d4e5f6g7h8i9j0 ...''"
  by code_simp+

text \<open>Only the first match of a pattern in a line is looked at: a slug before a token hides it.\<close>

lemma slug_hides_secret:
  "\<not> text_has_secret (\<lambda>s. False) ''/musk-spacex-tesla-ipo-date sk-a1b2c3d4e5f6g7h8i9j0''"
  by code_simp

end
