(* ===== verification/Bridge.thy ===== *)
theory Bridge
  imports Collection_Gates
begin

text \<open>
  From the queue to the raw event store: \<open>ingestion/orchestration/bridge_to_raw_events.py\<close>,
  \<open>ingestion/integration/downstream_contracts.py\<close> and \<open>raw_events_writer.py\<close>.

  \<open>sha256\<close> and \<open>sha1\<close> are the hexadecimal digests; the sink of the writer is an action on its own world, which
  returns what the injected callable returns or raises. A record field of another type than a string, where the code
  expects one, is a \<open>TypeError\<close>.
\<close>

section \<open>The payload\<close>

definition RAW_SOURCE_TYPES :: "(string, string) dict" where
  "RAW_SOURCE_TYPES =
    [(''article_candidate'', ''article''), (''official_record'', ''official''), (''structured_signal'', ''signal''),
     (''search_result'', ''search''), (''community_signal'', ''community''), (''catalog_metadata'', ''catalog'')]"

definition BRIDGE_STATUS_WRITTEN :: string where "BRIDGE_STATUS_WRITTEN = ''written''"
definition BRIDGE_STATUS_DUPLICATE :: string where "BRIDGE_STATUS_DUPLICATE = ''duplicate_skipped''"
definition BRIDGE_STATUS_HELD :: string where "BRIDGE_STATUS_HELD = ''held''"
definition BRIDGE_STATUS_REJECTED :: string where "BRIDGE_STATUS_REJECTED = ''rejected''"

record raw_event_payload =
  rp_event_id :: string
  rp_record_type :: string
  rp_source_id :: string
  rp_title :: "string option"
  rp_description :: "string option"
  rp_source_url :: string
  rp_canonical_url :: "string option"
  rp_published_at :: "string option"
  rp_observed_at :: "string option"
  rp_collected_at :: string
  rp_evidence_ref :: string
  rp_body_state :: "string option"
  rp_structured_payload :: "(string, json) dict option"
  rp_confirmation_policy :: string
  rp_quality_status :: string
  rp_dedup_key :: string
  rp_cluster_id :: "string option"
  rp_content_hash :: string
  rp_published_precision :: string

definition to_raw_event_create :: "raw_event_payload \<Rightarrow> (string, json) dict" where
  "to_raw_event_create p =
    [(''source_type'', JStr (get_or RAW_SOURCE_TYPES (rp_record_type p) ''rss'')),
     (''source_name'', JStr (rp_source_id p)),
     (''external_id'', JStr (rp_dedup_key p)),
     (''url'', JStr (rp_source_url p)),
     (''title'', json_opt_str (rp_title p)),
     (''raw_text'', JStr []),
     (''published_at'', json_opt_str (rp_published_at p)),
     (''content_hash'', JStr (rp_content_hash p)),
     (''theme_hint'', JNull),
     (''raw_metadata'', JObj
       [(''record_type'', JStr (rp_record_type p)),
        (''canonical_url'', json_opt_str (rp_canonical_url p)),
        (''observed_at'', json_opt_str (rp_observed_at p)),
        (''published_precision'', JStr (rp_published_precision p)),
        (''body_state'', json_opt_str (rp_body_state p)),
        (''structured_payload'', case rp_structured_payload p of None \<Rightarrow> JNull | Some d \<Rightarrow> JObj d),
        (''confirmation_policy'', JStr (rp_confirmation_policy p)),
        (''quality_status'', JStr (rp_quality_status p)),
        (''dedup_key'', JStr (rp_dedup_key p)),
        (''cluster_id'', json_opt_str (rp_cluster_id p)),
        (''evidence_ref'', JStr (rp_evidence_ref p)),
        (''collected_at'', JStr (rp_collected_at p)),
        (''bridge'', JStr ''phase_f'')])]"

section \<open>From a record to its payload\<close>

definition record_external_url :: "eq_record \<Rightarrow> string option" where
  "record_external_url r = (case dict_get r ''source_url_or_evidence'' of
      Some (JStr u) \<Rightarrow> if is_http u then Some u else None
    | _ \<Rightarrow> None)"

definition record_canonical :: "eq_record \<Rightarrow> string option" where
  "record_canonical r = (case dict_get r ''canonical_url'' of Some (JStr u) \<Rightarrow> Some u | _ \<Rightarrow> None)"

definition content_hash ::
  "(string \<Rightarrow> string) \<Rightarrow> string option \<Rightarrow> string option \<Rightarrow> string \<Rightarrow> string \<Rightarrow> string \<Rightarrow> string" where
  "content_hash sha256 canonical url source_id title published =
    sha256 (or_str (or_opt canonical url) (source_id @ ''|'' @ title @ ''|'' @ published))"

text \<open>A list or an object is not hashable: asking whether it is a known record type raises.\<close>

definition record_type_of :: "eq_record \<Rightarrow> json res" where
  "record_type_of r = (case get_or r ''record_type'' JNull of
      JList _ \<Rightarrow> Inl TypeError | JObj _ \<Rightarrow> Inl TypeError | v \<Rightarrow> Inr v)"

definition known_type :: "json \<Rightarrow> string option" where
  "known_type v = (case v of JStr t \<Rightarrow> if dict_get RAW_SOURCE_TYPES t \<noteq> None then Some t else None | _ \<Rightarrow> None)"

definition str_field :: "eq_record \<Rightarrow> string \<Rightarrow> string option res" where
  "str_field r k = as_opt_str (dict_get r k)"

text \<open>The collected strings of a record, once its type, source and URL are known.\<close>

definition payload_of ::
  "(string \<Rightarrow> string) \<Rightarrow> (string \<Rightarrow> string) \<Rightarrow> (string \<Rightarrow> datetime option) \<Rightarrow> string \<Rightarrow> eq_record \<Rightarrow> string \<Rightarrow> string \<Rightarrow> string
   \<Rightarrow> string option \<Rightarrow> string option \<Rightarrow> string option \<Rightarrow> raw_event_payload res" where
  "payload_of sha256 sha1 parsedate now_iso r rt source_id effective_url dedup_key cluster_id collected_at =
    (let canonical = record_canonical r in
     bind_res (str_field r ''title_or_label'') (\<lambda>title.
     bind_res (str_field r ''published_at_or_observed_at'') (\<lambda>when_at.
     bind_res (str_field r ''source_url_or_evidence'') (\<lambda>evidence.
     bind_res (str_field r ''body_state_or_signal'') (\<lambda>body_state.
     bind_res (str_field r ''confirmation_policy'') (\<lambda>policy.
     bind_res (str_field r ''quality_pre_gate_decision'') (\<lambda>quality.
       let times = normalize_record_times parsedate when_at (if rt = ''structured_signal'' then when_at else None)
             collected_at rt;
           primary = rt_primary times;
           dkey = or_str dedup_key (source_id @ '':'' @ or_str canonical effective_url)
       in Inr \<lparr>rp_event_id = take 24 (sha1 dkey), rp_record_type = rt, rp_source_id = source_id, rp_title = title,
            rp_description = None, rp_source_url = effective_url, rp_canonical_url = canonical,
            rp_published_at = nt_value primary, rp_observed_at = Option.bind (rt_observed times) nt_value,
            rp_collected_at = or_str collected_at now_iso, rp_evidence_ref = or_str evidence [],
            rp_body_state = body_state,
            rp_structured_payload = (if rt = ''structured_signal''
              then Some [(''signal_type'', json_opt_str body_state)] else None),
            rp_confirmation_policy = or_str policy ''standard'', rp_quality_status = or_str quality ''unknown'',
            rp_dedup_key = dkey, rp_cluster_id = cluster_id,
            rp_content_hash = content_hash sha256 canonical (Some effective_url) source_id (or_str title [])
              (or_str (nt_value primary) []),
            rp_published_precision = nt_precision primary\<rparr>)))))))"

definition map_eq_record_to_raw_event ::
  "(string \<Rightarrow> string) \<Rightarrow> (string \<Rightarrow> string) \<Rightarrow> (string \<Rightarrow> datetime option) \<Rightarrow> string \<Rightarrow> eq_record
   \<Rightarrow> string option \<Rightarrow> string option \<Rightarrow> string option \<Rightarrow> (raw_event_payload option \<times> string \<times> string option) res" where
  "map_eq_record_to_raw_event sha256 sha1 parsedate now_iso r dedup_key cluster_id collected_at =
    bind_res (record_type_of r) (\<lambda>rt_value. case known_type rt_value of
      None \<Rightarrow> Inr (None, BRIDGE_STATUS_REJECTED, Some (''invalid_record_type:'' @ json_show rt_value))
    | Some rt \<Rightarrow>
        bind_res (str_field r ''source_id'') (\<lambda>sid.
          if \<not> truthy sid then Inr (None, BRIDGE_STATUS_REJECTED, Some ''no_source_id'')
          else
            let url = record_external_url r; canonical = record_canonical r in
            if \<not> truthy url \<and> \<not> truthy canonical then Inr (None, BRIDGE_STATUS_HELD, Some ''missing_external_url'')
            else bind_res (payload_of sha256 sha1 parsedate now_iso r rt (or_str sid []) (or_str (or_opt url canonical) [])
                   dedup_key cluster_id collected_at) (\<lambda>p. Inr (Some p, ''ok'', None))))"

section \<open>The writer\<close>

datatype 's sink = Db "(string, json) dict \<Rightarrow> ('s, bool) act" | Mirror "(string, json) dict \<Rightarrow> ('s, unit) act" | NoTarget

definition sink_target :: "'s sink \<Rightarrow> string" where
  "sink_target k = (case k of Db _ \<Rightarrow> ''db'' | _ \<Rightarrow> ''mirror'')"

record 's bridge_writer =
  bw_seen_hashes :: "string list"
  bw_written :: nat
  bw_duplicates :: nat
  bw_failed :: nat
  bw_world :: 's

text \<open>What the sink did: whether the event is new, or the error it raised.\<close>

definition send :: "'s sink \<Rightarrow> (string, json) dict \<Rightarrow> ('s, bool) act" where
  "send k create = (case k of
      Db f \<Rightarrow> f create
    | Mirror f \<Rightarrow> bind_act (f create) (\<lambda>_. ret_act True)
    | NoTarget \<Rightarrow> ret_act True)"

definition bridge_write :: "'s sink \<Rightarrow> raw_event_payload \<Rightarrow> 's bridge_writer \<Rightarrow> string \<times> 's bridge_writer" where
  "bridge_write k p b =
    (let h = rp_content_hash p in
     if h \<in> set (bw_seen_hashes b) then (BRIDGE_STATUS_DUPLICATE, b\<lparr>bw_duplicates := bw_duplicates b + 1\<rparr>)
     else case send k (to_raw_event_create p) (bw_world b) of
         (Inl e, w) \<Rightarrow> (BRIDGE_STATUS_REJECTED @ '':write_error:'' @ exn_name e,
           b\<lparr>bw_failed := bw_failed b + 1, bw_world := w\<rparr>)
       | (Inr new, w) \<Rightarrow>
           if new then (BRIDGE_STATUS_WRITTEN,
             b\<lparr>bw_seen_hashes := h # bw_seen_hashes b, bw_written := bw_written b + 1, bw_world := w\<rparr>)
           else (BRIDGE_STATUS_DUPLICATE,
             b\<lparr>bw_seen_hashes := h # bw_seen_hashes b, bw_duplicates := bw_duplicates b + 1, bw_world := w\<rparr>))"

record bridge_status =
  bt_index :: nat
  bt_status :: string
  bt_reason :: "string option"
  bt_source_id :: json
  bt_record_type :: "string option"

record bridge_counts =
  bc_written :: nat
  bc_duplicates :: nat
  bc_held :: nat
  bc_rejected :: nat
  bc_schema_failures :: nat
  bc_statuses :: "bridge_status list"

definition no_counts :: bridge_counts where
  "no_counts = \<lparr>bc_written = 0, bc_duplicates = 0, bc_held = 0, bc_rejected = 0, bc_schema_failures = 0, bc_statuses = []\<rparr>"

definition count_unmapped :: "nat \<Rightarrow> eq_record \<Rightarrow> string \<Rightarrow> string option \<Rightarrow> bridge_counts \<Rightarrow> bridge_counts" where
  "count_unmapped i r status reason c =
    (let c1 = (if status = BRIDGE_STATUS_HELD then c\<lparr>bc_held := bc_held c + 1\<rparr>
       else c\<lparr>bc_rejected := bc_rejected c + 1, bc_schema_failures := bc_schema_failures c + 1\<rparr>)
     in c1\<lparr>bc_statuses := bc_statuses c @ [\<lparr>bt_index = i, bt_status = status, bt_reason = reason,
        bt_source_id = get_or r ''source_id'' JNull, bt_record_type = None\<rparr>]\<rparr>)"

definition count_written :: "nat \<Rightarrow> raw_event_payload \<Rightarrow> string \<Rightarrow> bridge_counts \<Rightarrow> bridge_counts" where
  "count_written i p status c =
    (let c1 = (if status = BRIDGE_STATUS_WRITTEN then c\<lparr>bc_written := bc_written c + 1\<rparr>
       else if status = BRIDGE_STATUS_DUPLICATE then c\<lparr>bc_duplicates := bc_duplicates c + 1\<rparr>
       else c\<lparr>bc_rejected := bc_rejected c + 1\<rparr>)
     in c1\<lparr>bc_statuses := bc_statuses c @ [\<lparr>bt_index = i, bt_status = status, bt_reason = None,
        bt_source_id = JStr (rp_source_id p), bt_record_type = Some (rp_record_type p)\<rparr>]\<rparr>)"

type_synonym mapper = "nat \<Rightarrow> eq_record \<Rightarrow> (raw_event_payload option \<times> string \<times> string option) res"

fun bridge_loop ::
  "mapper \<Rightarrow> 's sink \<Rightarrow> nat \<Rightarrow> eq_record list \<Rightarrow> bridge_counts \<Rightarrow> 's bridge_writer \<Rightarrow> bridge_counts res \<times> 's bridge_writer" where
  "bridge_loop mp k i [] c b = (Inr c, b)"
| "bridge_loop mp k i (r # rs) c b = (case mp i r of
      Inl e \<Rightarrow> (Inl e, b)
    | Inr (None, status, reason) \<Rightarrow> bridge_loop mp k (Suc i) rs (count_unmapped i r status reason c) b
    | Inr (Some p, _, _) \<Rightarrow> (case bridge_write k p b of
        (status, b') \<Rightarrow> bridge_loop mp k (Suc i) rs (count_written i p status c) b'))"

record bridge_result =
  bres_target :: string
  bres_counts :: bridge_counts
  bres_failed :: nat
  bres_contract_pass :: bool

definition bridge_records ::
  "(string \<Rightarrow> string) \<Rightarrow> (string \<Rightarrow> string) \<Rightarrow> (string \<Rightarrow> datetime option) \<Rightarrow> string \<Rightarrow> 's sink \<Rightarrow> (nat, string) dict \<Rightarrow> (nat, string) dict
   \<Rightarrow> string option \<Rightarrow> eq_record list \<Rightarrow> 's bridge_writer \<Rightarrow> bridge_result res \<times> 's bridge_writer" where
  "bridge_records sha256 sha1 parsedate now_iso k dedup_keys cluster_ids collected_at rs b =
    (case bridge_loop (\<lambda>i r. map_eq_record_to_raw_event sha256 sha1 parsedate now_iso r (dict_get dedup_keys i)
        (dict_get cluster_ids i) collected_at) k 0 rs no_counts b of
      (Inl e, b') \<Rightarrow> (Inl e, b')
    | (Inr c, b') \<Rightarrow> (Inr \<lparr>bres_target = sink_target k, bres_counts = c, bres_failed = bw_failed b',
        bres_contract_pass = (bc_schema_failures c = 0 \<and> bw_failed b' = 0)\<rparr>, b'))"

section \<open>Contracts downstream\<close>

definition SUPPORTED_RECORD_TYPES :: "string list" where
  "SUPPORTED_RECORD_TYPES = map fst RAW_SOURCE_TYPES"

definition WRITE_CREATED :: string where "WRITE_CREATED = ''WRITE_CREATED''"
definition WRITE_DUPLICATE_COLLAPSED :: string where "WRITE_DUPLICATE_COLLAPSED = ''WRITE_DUPLICATE_COLLAPSED''"
definition WRITE_FAILED_SCHEMA :: string where "WRITE_FAILED_SCHEMA = ''WRITE_FAILED_SCHEMA''"
definition WRITE_FAILED_TRANSPORT :: string where "WRITE_FAILED_TRANSPORT = ''WRITE_FAILED_TRANSPORT''"

definition CONTRACT_CORROBORATION_POLICIES :: "string list" where
  "CONTRACT_CORROBORATION_POLICIES =
    [''unconfirmed_until_corroborated'', ''internal_queue_only'', ''publish_blocked_until_corrob'']"

definition COMMON_TOP :: "string list" where
  "COMMON_TOP = [''source_type'', ''source_name'', ''url'', ''content_hash'']"

definition RECORD_TYPE_REQUIRED_FIELDS :: "(string, string list \<times> string list) dict" where
  "RECORD_TYPE_REQUIRED_FIELDS =
    [(''article_candidate'', COMMON_TOP @ [''title'', ''published_at''], [''record_type'', ''dedup_key'', ''evidence_ref'']),
     (''official_record'', COMMON_TOP @ [''title''], [''record_type'', ''dedup_key'', ''evidence_ref'']),
     (''structured_signal'', COMMON_TOP, [''record_type'', ''dedup_key'', ''structured_payload'', ''observed_at'']),
     (''community_signal'', COMMON_TOP @ [''title''], [''record_type'', ''dedup_key'', ''confirmation_policy'']),
     (''search_result'', COMMON_TOP, [''record_type'', ''dedup_key'', ''evidence_ref''])]"

definition absent :: "(string, json) dict \<Rightarrow> string \<Rightarrow> bool" where
  "absent d f \<longleftrightarrow> dict_get d f \<in> {None, Some JNull, Some (JStr [])}"

text \<open>\<open>create.get("raw_metadata") or {}\<close>.\<close>

definition metadata_of :: "(string, json) dict \<Rightarrow> (string, json) dict res" where
  "metadata_of create = sub_config create ''raw_metadata''"

definition validate_raw_event_create :: "(string, json) dict \<Rightarrow> string \<Rightarrow> (bool \<times> string list) res" where
  "validate_raw_event_create create record_type = (case dict_get RECORD_TYPE_REQUIRED_FIELDS record_type of
      None \<Rightarrow> Inr (False, [''unsupported_record_type:'' @ record_type])
    | Some (required_fields, meta_fields) \<Rightarrow> bind_res (metadata_of create) (\<lambda>meta.
        let expected = or_str (dict_get RAW_SOURCE_TYPES record_type) [];
            missing = map (\<lambda>f. ''top:'' @ f) (filter (absent create) required_fields) @
              map (\<lambda>f. ''meta:'' @ f) (filter (absent meta) meta_fields) @
              (if expected \<noteq> [] \<and> dict_get create ''source_type'' \<noteq> Some (JStr expected)
               then [''top:source_type!='' @ expected] else [])
        in Inr (missing = [], missing)))"

definition is_corroboration_required :: "(string, json) dict \<Rightarrow> bool res" where
  "is_corroboration_required meta =
    (if meta = [] then Inr False
     else case dict_get meta ''confirmation_policy'' of
         Some (JList _) \<Rightarrow> Inl TypeError
       | Some (JObj _) \<Rightarrow> Inl TypeError
       | p \<Rightarrow> Inr ((\<exists>c \<in> set CONTRACT_CORROBORATION_POLICIES. p = Some (JStr c)) \<or>
           dict_get meta ''corroboration_required'' = Some (JBool True)))"

definition STREAM_PAYLOAD_REQUIRED_KEYS :: "string list" where
  "STREAM_PAYLOAD_REQUIRED_KEYS = [''source'', ''url'', ''fetched_at'', ''raw_text'', ''raw_metadata'', ''raw_event_id'']"

definition validate_stream_payload :: "(string, 'v) dict \<Rightarrow> bool \<times> string list" where
  "validate_stream_payload payload = (let missing = filter (\<lambda>k. dict_get payload k = None) STREAM_PAYLOAD_REQUIRED_KEYS
     in (missing = [], missing))"

section \<open>The writer behind the bridge\<close>

record raw_event_write_result =
  wr_content_hash :: json
  wr_record_type :: json
  wr_source_name :: json
  wr_status :: string
  wr_raw_event_id :: json
  wr_enqueued_msg_id :: json
  wr_is_duplicate :: bool
  wr_http_status :: "int option"
  wr_error :: "string option"

record http_response =
  hr_status_code :: int
  hr_text :: string
  hr_json :: "json res"

record api_writer =
  aw_results :: "raw_event_write_result list"
  aw_created :: nat
  aw_duplicates :: nat
  aw_failed :: nat

definition value_or :: "(string, json) dict \<Rightarrow> string \<Rightarrow> json \<Rightarrow> json" where
  "value_or d k v = (case dict_get d k of Some x \<Rightarrow> if json_truthy x then x else v | None \<Rightarrow> v)"

definition write_result ::
  "(string, json) dict \<Rightarrow> (string, json) dict \<Rightarrow> string \<Rightarrow> int option \<Rightarrow> string option \<Rightarrow> raw_event_write_result" where
  "write_result create meta status code err =
    \<lparr>wr_content_hash = value_or create ''content_hash'' (JStr []), wr_record_type = get_or meta ''record_type'' JNull,
     wr_source_name = get_or create ''source_name'' JNull, wr_status = status, wr_raw_event_id = JNull,
     wr_enqueued_msg_id = JNull, wr_is_duplicate = False, wr_http_status = code, wr_error = err\<rparr>"

text \<open>\<open>post\<close> is the request to the backend; \<open>is_http_error\<close> tells the errors that are \<open>httpx.HTTPError\<close>.\<close>

definition judge_write ::
  "(string, json) dict \<Rightarrow> (string, json) dict \<Rightarrow> http_response \<Rightarrow> raw_event_write_result res" where
  "judge_write create meta resp =
    (let code = hr_status_code resp in
     if code \<ge> 500 then
       Inr (write_result create meta WRITE_FAILED_TRANSPORT (Some code) (Some (''server_error:'' @ int_str code)))
     else if code \<ge> 400 then
       Inr (write_result create meta WRITE_FAILED_SCHEMA (Some code)
         (Some (''client_error:'' @ int_str code @ '':'' @ py_take 200 (hr_text resp))))
     else bind_res (hr_json resp) (\<lambda>v. case v of
         JObj body \<Rightarrow> bind_res (sub_config body ''record'') (\<lambda>rec.
           let is_dup = json_truthy (get_or body ''is_duplicate'' JNull) in
           Inr ((write_result create meta (if is_dup then WRITE_DUPLICATE_COLLAPSED else WRITE_CREATED) (Some code) None)
             \<lparr>wr_raw_event_id := get_or rec ''id'' JNull, wr_enqueued_msg_id := get_or body ''enqueued_msg_id'' JNull,
              wr_is_duplicate := is_dup\<rparr>))
       | _ \<Rightarrow> Inl AttributeError))"

definition write_raw_event ::
  "((string, json) dict \<Rightarrow> ('s, http_response) act) \<Rightarrow> (py_exn \<Rightarrow> bool) \<Rightarrow> (string, json) dict
   \<Rightarrow> ('s, raw_event_write_result) act" where
  "write_raw_event post is_http_error create =
    bind_act (lift_res (metadata_of create)) (\<lambda>meta s. case post create s of
        (Inl e, s') \<Rightarrow>
          if is_http_error e then (Inr (write_result create meta WRITE_FAILED_TRANSPORT None (Some (exn_name e))), s')
          else (Inl e, s')
      | (Inr resp, s') \<Rightarrow> (judge_write create meta resp, s'))"

definition api_write ::
  "((string, json) dict \<Rightarrow> ('s, http_response) act) \<Rightarrow> (py_exn \<Rightarrow> bool) \<Rightarrow> (string, json) dict
   \<Rightarrow> (api_writer \<times> 's, bool) act" where
  "api_write post is_http_error create = (\<lambda>(w, s). case write_raw_event post is_http_error create s of
      (Inl e, s') \<Rightarrow> (Inl e, (w, s'))
    | (Inr r, s') \<Rightarrow>
        (let w1 = w\<lparr>aw_results := aw_results w @ [r]\<rparr> in
         if wr_status r = WRITE_CREATED then (Inr True, (w1\<lparr>aw_created := aw_created w + 1\<rparr>, s'))
         else if wr_status r = WRITE_DUPLICATE_COLLAPSED then (Inr False, (w1\<lparr>aw_duplicates := aw_duplicates w + 1\<rparr>, s'))
         else (Inl (RuntimeError (''raw_events write failed: '' @ wr_status r @ '': '' @
                 (case wr_error r of None \<Rightarrow> ''None'' | Some e \<Rightarrow> e))),
               (w1\<lparr>aw_failed := aw_failed w + 1\<rparr>, s'))))"

section \<open>Every record is accounted for\<close>

definition batch_accounted :: "nat \<Rightarrow> bridge_counts \<Rightarrow> bool" where
  "batch_accounted n c \<longleftrightarrow> bc_written c + bc_duplicates c + bc_held c + bc_rejected c = n \<and>
     map bt_index (bc_statuses c) = [0..<n] \<and> bc_schema_failures c \<le> bc_rejected c"

lemma count_unmapped_accounted: "batch_accounted n c \<Longrightarrow> batch_accounted (Suc n) (count_unmapped n r status reason c)"
  by (auto simp: batch_accounted_def count_unmapped_def Let_def)

lemma count_written_accounted: "batch_accounted n c \<Longrightarrow> batch_accounted (Suc n) (count_written n p status c)"
  by (auto simp: batch_accounted_def count_written_def Let_def)

lemma no_counts_accounted: "batch_accounted 0 no_counts"
  by (simp add: batch_accounted_def no_counts_def)

lemma statuses_differ:
  "BRIDGE_STATUS_WRITTEN \<noteq> BRIDGE_STATUS_DUPLICATE" "BRIDGE_STATUS_DUPLICATE \<noteq> BRIDGE_STATUS_WRITTEN"
  "BRIDGE_STATUS_REJECTED @ x \<noteq> BRIDGE_STATUS_WRITTEN" "BRIDGE_STATUS_REJECTED @ x \<noteq> BRIDGE_STATUS_DUPLICATE"
  "BRIDGE_STATUS_HELD \<noteq> BRIDGE_STATUS_REJECTED" "BRIDGE_STATUS_REJECTED \<noteq> BRIDGE_STATUS_HELD"
  by (simp_all add: BRIDGE_STATUS_WRITTEN_def BRIDGE_STATUS_DUPLICATE_def BRIDGE_STATUS_REJECTED_def BRIDGE_STATUS_HELD_def)

lemma bridge_write_cases:
  assumes "bridge_write k p b = (status, b')"
  obtains (new) "status = BRIDGE_STATUS_WRITTEN" "bw_failed b' = bw_failed b" "rp_content_hash p \<notin> set (bw_seen_hashes b)"
      "set (bw_seen_hashes b') = insert (rp_content_hash p) (set (bw_seen_hashes b))" "bw_written b' = bw_written b + 1"
    | (dup) "status = BRIDGE_STATUS_DUPLICATE" "bw_failed b' = bw_failed b" "bw_written b' = bw_written b"
      "set (bw_seen_hashes b') = insert (rp_content_hash p) (set (bw_seen_hashes b))"
    | (err) e where "status = BRIDGE_STATUS_REJECTED @ '':write_error:'' @ e" "bw_failed b' = bw_failed b + 1"
      "bw_written b' = bw_written b" "set (bw_seen_hashes b') = set (bw_seen_hashes b)"
proof (cases "rp_content_hash p \<in> set (bw_seen_hashes b)")
  case True
  with assms show ?thesis by (intro dup) (auto simp: bridge_write_def Let_def)
next
  case False
  obtain r w where s: "send k (to_raw_event_create p) (bw_world b) = (r, w)" by (cases "send k (to_raw_event_create p) (bw_world b)")
  show ?thesis
  proof (cases r)
    case (Inl e)
    with False s assms show ?thesis by (intro err) (auto simp: bridge_write_def Let_def)
  next
    case (Inr n)
    show ?thesis
    proof (cases n)
      case True
      with Inr False s assms show ?thesis by (intro new) (auto simp: bridge_write_def Let_def)
    next
      case no: False
      with Inr False s assms show ?thesis by (intro dup) (auto simp: bridge_write_def Let_def)
    qed
  qed
qed

text \<open>The invariant of the loop: what was counted, and each hash written at most once.\<close>

definition bridge_inv :: "nat \<Rightarrow> 's bridge_writer \<Rightarrow> bridge_counts \<Rightarrow> 's bridge_writer \<Rightarrow> bool" where
  "bridge_inv n b0 c b \<longleftrightarrow> batch_accounted n c \<and>
     bw_written b = bw_written b0 + bc_written c \<and>
     bw_failed b + bc_schema_failures c = bw_failed b0 + bc_rejected c \<and>
     set (bw_seen_hashes b0) \<subseteq> set (bw_seen_hashes b) \<and>
     bc_written c \<le> card (set (bw_seen_hashes b) - set (bw_seen_hashes b0))"

lemma bridge_inv_start: "bridge_inv 0 b no_counts b"
  by (simp add: bridge_inv_def no_counts_accounted) (simp add: no_counts_def)

lemma bridge_inv_unmapped:
  assumes "bridge_inv n b0 c b"
  shows "bridge_inv (Suc n) b0 (count_unmapped n r status reason c) b"
  using assms count_unmapped_accounted [of n c r status reason]
  by (simp add: bridge_inv_def) (simp add: count_unmapped_def Let_def)

lemma count_written_fields:
  "bc_schema_failures (count_written n p status c) = bc_schema_failures c"
  "bc_written (count_written n p status c) = bc_written c + (if status = BRIDGE_STATUS_WRITTEN then 1 else 0)"
  "bc_rejected (count_written n p status c) = bc_rejected c +
     (if status = BRIDGE_STATUS_WRITTEN \<or> status = BRIDGE_STATUS_DUPLICATE then 0 else 1)"
  by (simp_all add: count_written_def Let_def)

lemma bridge_inv_written:
  assumes inv: "bridge_inv n b0 c b" and w: "bridge_write k p b = (status, b')"
  shows "bridge_inv (Suc n) b0 (count_written n p status c) b'"
proof -
  have acc: "batch_accounted (Suc n) (count_written n p status c)"
    using inv count_written_accounted by (auto simp: bridge_inv_def)
  from w show ?thesis
  proof (cases rule: bridge_write_cases)
    case new
    have "rp_content_hash p \<notin> set (bw_seen_hashes b0)" using inv new by (auto simp: bridge_inv_def)
    then have "set (bw_seen_hashes b') - set (bw_seen_hashes b0)
        = insert (rp_content_hash p) (set (bw_seen_hashes b) - set (bw_seen_hashes b0))"
      using new by auto
    then show ?thesis using inv acc new by (auto simp: bridge_inv_def count_written_fields)
  next
    case dup
    then have "card (set (bw_seen_hashes b) - set (bw_seen_hashes b0)) \<le> card (set (bw_seen_hashes b') - set (bw_seen_hashes b0))"
      by (intro card_mono) auto
    then show ?thesis using inv acc dup by (auto simp: bridge_inv_def count_written_fields statuses_differ)
  next
    case (err e)
    then show ?thesis using inv acc by (simp add: bridge_inv_def count_written_fields statuses_differ)
  qed
qed

lemma bridge_loop_inv:
  assumes "bridge_loop mp k n rs c b = (Inr c', b')" "bridge_inv n b0 c b"
  shows "bridge_inv (n + length rs) b0 c' b'"
  using assms
proof (induction rs arbitrary: n c b)
  case (Cons r rs)
  obtain p status reason where m: "mp n r = Inr (p, status, reason)"
    using Cons.prems(1) by (cases "mp n r") auto
  show ?case
  proof (cases p)
    case None
    then have "bridge_loop mp k (Suc n) rs (count_unmapped n r status reason c) b = (Inr c', b')"
      using Cons.prems(1) m by simp
    then show ?thesis using Cons.IH bridge_inv_unmapped [OF Cons.prems(2)] by fastforce
  next
    case (Some q)
    obtain st b1 where w: "bridge_write k q b = (st, b1)" by (cases "bridge_write k q b")
    then have "bridge_loop mp k (Suc n) rs (count_written n q st c) b1 = (Inr c', b')"
      using Cons.prems(1) m Some by simp
    then show ?thesis using Cons.IH bridge_inv_written [OF Cons.prems(2) w] by fastforce
  qed
qed auto

lemma bridge_accounts:
  assumes "bridge_records sha256 sha1 parsedate now_iso k dedup_keys cluster_ids collected_at rs b = (Inr res, b')"
  shows "let c = bres_counts res in
    bc_written c + bc_duplicates c + bc_held c + bc_rejected c = length rs \<and>
    map bt_index (bc_statuses c) = [0..<length rs] \<and>
    bw_written b' = bw_written b + bc_written c \<and>
    bw_failed b' + bc_schema_failures c = bw_failed b + bc_rejected c \<and>
    bc_written c \<le> card (set (bw_seen_hashes b') - set (bw_seen_hashes b)) \<and>
    (bres_contract_pass res \<longleftrightarrow> bw_failed b + bc_rejected c = 0)"
proof -
  let ?mp = "\<lambda>i r. map_eq_record_to_raw_event sha256 sha1 parsedate now_iso r (dict_get dedup_keys i)
        (dict_get cluster_ids i) collected_at"
  obtain c where c: "bridge_loop ?mp k 0 rs no_counts b = (Inr c, b')" "bres_counts res = c"
    "bres_contract_pass res \<longleftrightarrow> bc_schema_failures c = 0 \<and> bw_failed b' = 0"
    using assms by (auto simp: bridge_records_def split: prod.splits sum.splits)
  show ?thesis
    using bridge_loop_inv [OF c(1) bridge_inv_start] c(2,3)
    unfolding Let_def bridge_inv_def batch_accounted_def by auto
qed


section \<open>What reaches the publication gate\<close>

definition event_metadata :: "raw_event_payload \<Rightarrow> (string, json) dict" where
  "event_metadata p = obj_of (get_or (to_raw_event_create p) ''raw_metadata'' JNull)"

lemma event_metadata_policy:
  "dict_get (event_metadata p) ''confirmation_policy'' = Some (JStr (rp_confirmation_policy p))"
  "dict_get (event_metadata p) ''corroboration_required'' = None" "event_metadata p \<noteq> []"
  by (simp_all add: event_metadata_def to_raw_event_create_def get_or_def obj_of_def)

lemma annotate_keeps:
  assumes "annotate_record source_id gallery_id r = Inr r'"
    "k \<notin> {''publish_level'', ''requires_external_confirmation'', ''corroboration_risk_tags''}"
  shows "dict_get r' k = dict_get r k"
  using assms by (auto simp: annotate_record_def bind_res_Inr_iff Let_def)

lemma annotate_sets_level:
  assumes "annotate_record source_id gallery_id r = Inr r'" "is_financial_gallery gallery_id"
  shows "dict_get r' ''publish_level'' = Some (JStr PUBLISH_INTERNAL_QUEUE_ONLY)"
  using assms by (auto simp: annotate_record_def bind_res_Inr_iff Let_def evaluate_community_corroboration_def)

lemma payload_of_cong:
  assumes "\<And>k. k \<in> {''title_or_label'', ''published_at_or_observed_at'', ''source_url_or_evidence'', ''body_state_or_signal'',
      ''confirmation_policy'', ''quality_pre_gate_decision'', ''canonical_url''} \<Longrightarrow> dict_get r' k = dict_get r k"
  shows "payload_of sha256 sha1 parsedate now_iso r' rt sid url dk cid col = payload_of sha256 sha1 parsedate now_iso r rt sid url dk cid col"
  by (simp add: payload_of_def str_field_def record_canonical_def assms)

lemma annotated_maps_alike:
  assumes "annotate_record source_id gallery_id r = Inr r'"
  shows "map_eq_record_to_raw_event sha256 sha1 parsedate now_iso r' dk cid col =
    map_eq_record_to_raw_event sha256 sha1 parsedate now_iso r dk cid col"
proof -
  note same = annotate_keeps [OF assms]
  have "payload_of sha256 sha1 parsedate now_iso r' rt sid url dk cid col = payload_of sha256 sha1 parsedate now_iso r rt sid url dk cid col"
    for rt sid url
    by (rule payload_of_cong) (auto intro!: same)
  moreover have "record_type_of r' = record_type_of r" "record_external_url r' = record_external_url r"
    "record_canonical r' = record_canonical r" "str_field r' ''source_id'' = str_field r ''source_id''"
    by (simp_all add: record_type_of_def get_or_def record_external_url_def record_canonical_def str_field_def same)
  ultimately show ?thesis
    by (simp only: map_eq_record_to_raw_event_def)
qed

lemma payload_policy:
  "payload_of sha256 sha1 parsedate now_iso r rt sid url dk cid col = Inr p \<Longrightarrow>
     \<exists>policy. str_field r ''confirmation_policy'' = Inr policy \<and> rp_confirmation_policy p = or_str policy ''standard''"
  unfolding payload_of_def Let_def bind_res_Inr_iff by auto

lemma map_policy:
  assumes "map_eq_record_to_raw_event sha256 sha1 parsedate now_iso r dk cid col = Inr (Some p, status, reason)"
  shows "\<exists>policy. str_field r ''confirmation_policy'' = Inr policy \<and> rp_confirmation_policy p = or_str policy ''standard''"
  using assms payload_policy unfolding map_eq_record_to_raw_event_def bind_res_Inr_iff
  by (fastforce simp: Let_def bind_res_Inr_iff split: option.splits if_splits)

text \<open>
  What the community gate writes into a record does not cross the bridge: the event made of an annotated record
  is the event made of the record itself, and whether the publication gate asks for corroboration depends on the
  confirmation policy of the record alone, which is \<open>standard\<close> where there is none. A record of an anonymous financial
  board, for the internal queue only, is no exception.
\<close>

lemma publish_level_does_not_cross_the_bridge:
  assumes "annotate_record source_id gallery_id r = Inr r'" "is_financial_gallery gallery_id"
    and "map_eq_record_to_raw_event sha256 sha1 parsedate now_iso r' dk cid col = Inr (Some p, status, reason)"
  shows "dict_get r' ''publish_level'' = Some (JStr PUBLISH_INTERNAL_QUEUE_ONLY) \<and>
    map_eq_record_to_raw_event sha256 sha1 parsedate now_iso r dk cid col = Inr (Some p, status, reason) \<and>
    (\<exists>policy. str_field r ''confirmation_policy'' = Inr policy \<and>
      is_corroboration_required (event_metadata p) =
        Inr (or_str policy ''standard'' \<in> set CONTRACT_CORROBORATION_POLICIES))"
proof -
  have same: "map_eq_record_to_raw_event sha256 sha1 parsedate now_iso r dk cid col = Inr (Some p, status, reason)"
    using annotated_maps_alike [OF assms(1)] assms(3) by simp
  obtain policy where "str_field r ''confirmation_policy'' = Inr policy" "rp_confirmation_policy p = or_str policy ''standard''"
    using map_policy [OF same] by blast
  moreover from this have "is_corroboration_required (event_metadata p) =
      Inr (or_str policy ''standard'' \<in> set CONTRACT_CORROBORATION_POLICIES)"
    by (auto simp: is_corroboration_required_def event_metadata_policy)
  ultimately show ?thesis using same annotate_sets_level [OF assms(1,2)] by blast
qed

text \<open>The bridge makes events of catalog records, for which the contract downstream has no entry.\<close>

lemma catalog_events_fail_the_contract:
  "validate_raw_event_create (to_raw_event_create p) ''catalog_metadata'' =
     Inr (False, [''unsupported_record_type:catalog_metadata''])"
  by (simp add: validate_raw_event_create_def RECORD_TYPE_REQUIRED_FIELDS_def)

definition board_record :: eq_record where
  "board_record = [(''record_type'', JStr ''community_signal''), (''source_id'', JStr ''dcinside''),
     (''title_or_label'', JStr ''T''), (''source_url_or_evidence'', JStr ''https://a.b/c'')]"

theorem publish_level_does_not_cross_the_bridge_witness:
  "\<exists>r' p. annotate_record ''dcinside'' (Some ''stockus'') board_record = Inr r' \<and>
     map_eq_record_to_raw_event (\<lambda>s. s) (\<lambda>s. s) (\<lambda>s. None) ''now'' r' None None None = Inr (Some p, ''ok'', None) \<and>
     is_corroboration_required (event_metadata p) = Inr False"
proof -
  obtain r' where r': "annotate_record ''dcinside'' (Some ''stockus'') board_record = Inr r'"
    by (simp add: annotate_record_def board_record_def Let_def)
  have fin: "is_financial_gallery (Some ''stockus'')" by code_simp
  obtain p where "map_eq_record_to_raw_event (\<lambda>s. s) (\<lambda>s. s) (\<lambda>s. None) ''now'' board_record None None None
      = Inr (Some p, ''ok'', None)"
    by (simp add: map_eq_record_to_raw_event_def record_type_of_def known_type_def board_record_def get_or_def
        RAW_SOURCE_TYPES_def str_field_def record_external_url_def is_http_def or_opt_def payload_of_def Let_def)
  then have p: "map_eq_record_to_raw_event (\<lambda>s. s) (\<lambda>s. s) (\<lambda>s. None) ''now'' r' None None None = Inr (Some p, ''ok'', None)"
    using annotated_maps_alike [OF r'] by simp
  show ?thesis
    using publish_level_does_not_cross_the_bridge [OF r' fin p] r' p
    by (auto simp: str_field_def board_record_def CONTRACT_CORROBORATION_POLICIES_def)
qed


end
