(* ===== verification/Monitoring.thy ===== *)
theory Monitoring
  imports Secret_Scan Scheduler Bridge
begin

text \<open>
  \<open>ingestion/orchestration/monitoring.py\<close>: the alerts and the summary of a production run. The report is given by
  what is written into its files, without the quoting of the CSV module.
\<close>

definition SEV_WARNING :: string where "SEV_WARNING = ''WARNING''"
definition SEV_ERROR :: string where "SEV_ERROR = ''ERROR''"
definition SEV_CRITICAL :: string where "SEV_CRITICAL = ''CRITICAL''"

record alert =
  al_severity :: string
  al_code :: string
  al_message :: string
  al_source_id :: "string option"

definition mk_alert :: "string \<Rightarrow> string \<Rightarrow> string \<Rightarrow> alert" where
  "mk_alert severity code message = \<lparr>al_severity = severity, al_code = code, al_message = message, al_source_id = None\<rparr>"

definition review_alert :: "production_source_state \<Rightarrow> alert" where
  "review_alert s = (mk_alert SEV_ERROR ''needs_operator_review''
     (ps_source_id s @ '' needs operator action: '' @
       (case ps_terminal_reason s of None \<Rightarrow> ''None'' | Some t \<Rightarrow> t)))\<lparr>al_source_id := Some (ps_source_id s)\<rparr>"

record alert_inputs =
  ai_plan_due :: nat
  ai_plan_total :: nat
  ai_raw_events_failed :: nat
  ai_eventqueue_failed :: nat
  ai_bridge_contract_pass :: bool
  ai_secret_exposure_suspected :: bool
  ai_source_without_state :: nat
  ai_external_errors :: nat
  ai_quarantined :: nat

definition build_alerts :: "production_source_state list \<Rightarrow> alert_inputs \<Rightarrow> alert list" where
  "build_alerts states i =
    (if ai_raw_events_failed i > 0 then [mk_alert SEV_CRITICAL ''raw_events_bridge_failure''
       (nat_str (ai_raw_events_failed i) @ '' raw_events write failures'')] else []) @
    (if \<not> ai_bridge_contract_pass i then [mk_alert SEV_CRITICAL ''raw_events_contract_fail''
       ''raw_events bridge contract did not pass (schema failures)''] else []) @
    (if ai_eventqueue_failed i > 0 then [mk_alert SEV_CRITICAL ''eventqueue_write_failure''
       (nat_str (ai_eventqueue_failed i) @ '' EventQueue write failures'')] else []) @
    (if ai_secret_exposure_suspected i then [mk_alert SEV_CRITICAL ''secret_exposure_suspected''
       ''potential secret detected in output payload''] else []) @
    (if ai_source_without_state i > 0 then [mk_alert SEV_CRITICAL ''source_without_state''
       (nat_str (ai_source_without_state i) @ '' source(s) without final production state'')] else []) @
    (if ai_plan_total i > 0 \<and> ai_plan_due i = 0 then [mk_alert SEV_WARNING ''all_sources_skipped''
       ''no due sources in this run (verify cadence/cooldown if unexpected)''] else []) @
    (if ai_external_errors i > 0 then [mk_alert SEV_WARNING ''external_errors''
       (nat_str (ai_external_errors i) @ '' source(s) in external error/blocked state'')] else []) @
    (if ai_quarantined i > 0 then [mk_alert SEV_WARNING ''quarantined_sources''
       (nat_str (ai_quarantined i) @ '' source(s) quarantined'')] else []) @
    map review_alert (filter (\<lambda>s. ps_current_status s = ''NEEDS_OPERATOR_REVIEW'') states)"

definition SECRET_NEEDLES :: "string list" where
  "SECRET_NEEDLES = [''api_key='', ''apikey='', ''authorization: bearer'', ''bearer ey'', ''secret='']"

text \<open>\<open>dumps\<close> is \<open>json.dumps\<close>, which does not raise on a JSON value.\<close>

definition scan_secret_suspect :: "(json \<Rightarrow> string) \<Rightarrow> (string \<Rightarrow> bool) \<Rightarrow> eq_record list \<Rightarrow> bool" where
  "scan_secret_suspect dumps ualnum rs = list_ex (\<lambda>r. let blob = dumps (JObj r) in
     list_ex (\<lambda>n. contains n (lower blob)) SECRET_NEEDLES \<or> text_has_secret ualnum blob) rs"

definition EXTERNAL_ERROR_STATES :: "string list" where
  "EXTERNAL_ERROR_STATES = [''EXTERNAL_API_ERROR'', ''EXTERNAL_RATE_LIMITED'', ''POLICY_BLOCKED_NO_BYPASS'',
     ''VENDOR_CONTRACT_REQUIRED'', ''NOT_SERVICE_USEFUL'']"

definition count_status :: "string list \<Rightarrow> production_source_state list \<Rightarrow> nat" where
  "count_status statuses states = length (filter (\<lambda>s. ps_current_status s \<in> set statuses) states)"

record run_metrics =
  rm_records_collected :: nat
  rm_eventqueue_written :: nat
  rm_duplicates_skipped :: nat
  rm_record_type_counts :: "(string, int) dict"
  rm_body_present_count :: nat
  rm_time_precision :: "(string, nat) dict \<times> nat"
  rm_eventqueue_failed :: nat
  rm_sample :: "eq_record list"
  rm_error_by_source :: "(string, string) dict"
  rm_error_by_root_cause :: "(string, int) dict"

record monitoring_summary =
  mo_run_id :: string
  mo_mode :: string
  mo_source_total :: nat
  mo_due_sources :: nat
  mo_attempted_sources :: nat
  mo_skip_category_counts :: "(string, nat) dict"
  mo_rate_limited :: nat
  mo_external_errors :: nat
  mo_quarantined :: nat
  mo_metrics :: run_metrics
  mo_bridge :: bridge_result
  mo_type_counts :: "int list"
  mo_states :: state_summary
  mo_alerts :: "alert list"
  mo_critical_alerts :: "alert list"

text \<open>The reported skip categories and record types, in the order of the summary.\<close>

definition SKIP_CATEGORIES :: "string list" where
  "SKIP_CATEGORIES = [''skipped_policy'', ''skipped_cooldown'', ''skipped_quarantine'', ''skipped_dead_end'', ''skipped_not_due'']"

definition COUNTED_TYPES :: "string list" where
  "COUNTED_TYPES = [''structured_signal'', ''official_record'', ''search_result'', ''community_signal'', ''article_candidate'']"

definition build_monitoring_summary ::
  "(json \<Rightarrow> string) \<Rightarrow> (string \<Rightarrow> bool) \<Rightarrow> string \<Rightarrow> production_run_plan \<Rightarrow> production_source_state list \<Rightarrow> bridge_result \<Rightarrow> run_metrics
   \<Rightarrow> monitoring_summary" where
  "build_monitoring_summary dumps ualnum run_id plan states bridge m =
    (let summary = summarize_states states; due = length (rp_due_sources plan);
         external = count_status EXTERNAL_ERROR_STATES states; quarantined = count_status [''QUARANTINED''] states;
         alerts = build_alerts states \<lparr>ai_plan_due = due, ai_plan_total = due + length (rp_skipped_sources plan),
           ai_raw_events_failed = bres_failed bridge, ai_eventqueue_failed = rm_eventqueue_failed m,
           ai_bridge_contract_pass = bres_contract_pass bridge,
           ai_secret_exposure_suspected = scan_secret_suspect dumps ualnum (rm_sample m),
           ai_source_without_state = su_source_without_state summary, ai_external_errors = external,
           ai_quarantined = quarantined\<rparr>
     in \<lparr>mo_run_id = run_id, mo_mode = rp_mode plan, mo_source_total = length states, mo_due_sources = due,
         mo_attempted_sources = due,
         mo_skip_category_counts = map (\<lambda>c. (c, get_or (rp_skip_category_counts plan) c 0)) SKIP_CATEGORIES,
         mo_rate_limited = count_status [''COOLDOWN''] states, mo_external_errors = external,
         mo_quarantined = quarantined, mo_metrics = m, mo_bridge = bridge,
         mo_type_counts = map (\<lambda>t. get_or (rm_record_type_counts m) t 0) COUNTED_TYPES, mo_states = summary,
         mo_alerts = alerts, mo_critical_alerts = filter (\<lambda>a. al_severity a = SEV_CRITICAL) alerts\<rparr>)"

definition bool_str :: "bool \<Rightarrow> string" where
  "bool_str b = (if b then ''True'' else ''False'')"

text \<open>The rows of \<open>source_health.csv\<close>, and the content of \<open>alerts.json\<close>.\<close>

definition HEALTH_HEADER :: "string list" where
  "HEALTH_HEADER = [''source_id'', ''current_status'', ''production_ready'', ''known_dead_end'', ''best_strategy'',
     ''failure_count'', ''consecutive_failure_count'', ''cooldown_until'', ''quarantine_until'', ''terminal_reason'']"

definition health_row :: "production_source_state \<Rightarrow> string list" where
  "health_row s = [ps_source_id s, ps_current_status s, bool_str (ps_production_ready s), bool_str (ps_known_dead_end s),
     or_str (ps_best_strategy s) [], int_str (ps_failure_count s), int_str (ps_consecutive_failure_count s),
     or_str (ps_cooldown_until s) [], or_str (ps_quarantine_until s) [], or_str (ps_terminal_reason s) []]"

definition health_rows :: "production_source_state list \<Rightarrow> string list list" where
  "health_rows states = HEALTH_HEADER # map health_row (sort_key ps_source_id states)"

definition alert_to_dict :: "alert \<Rightarrow> json" where
  "alert_to_dict a = JObj [(''severity'', JStr (al_severity a)), (''code'', JStr (al_code a)),
     (''message'', JStr (al_message a)), (''source_id'', json_opt_str (al_source_id a))]"

definition alerts_report :: "monitoring_summary \<Rightarrow> json" where
  "alerts_report m = JObj [(''run_id'', JStr (mo_run_id m)), (''alerts'', JList (map alert_to_dict (mo_alerts m))),
     (''critical_alerts'', JList (map alert_to_dict (mo_critical_alerts m)))]"

section \<open>When a run is critical\<close>

lemma critical_alerts:
  "filter (\<lambda>a. al_severity a = SEV_CRITICAL) (build_alerts states i) = [] \<longleftrightarrow>
     ai_raw_events_failed i = 0 \<and> ai_bridge_contract_pass i \<and> ai_eventqueue_failed i = 0 \<and>
     \<not> ai_secret_exposure_suspected i \<and> ai_source_without_state i = 0"
  by (auto simp: build_alerts_def mk_alert_def review_alert_def SEV_CRITICAL_def SEV_WARNING_def SEV_ERROR_def filter_empty_conv)

lemma summary_critical_iff:
  "mo_critical_alerts (build_monitoring_summary dumps ualnum run_id plan states bridge m) = [] \<longleftrightarrow>
     bres_failed bridge = 0 \<and> bres_contract_pass bridge \<and> rm_eventqueue_failed m = 0 \<and>
     \<not> scan_secret_suspect dumps ualnum (rm_sample m) \<and> su_source_without_state (summarize_states states) = 0"
  by (simp add: build_monitoring_summary_def Let_def critical_alerts)

end
