(* ===== verification/Production_Run.thy ===== *)
theory Production_Run
  imports Monitoring Artifact_Parser Clusters
begin

text \<open>
  \<open>ingestion/tools/run_production_orchestration.py\<close>: one production run, from the saved state over the plan,
  the probes, the records, their deduplication and clusters to the queue, the bridge, the new state and the
  monitoring summary; and \<open>ingestion/orchestration/source_content_type.py\<close>, by which a record gets its type.

  The functions that the caller injects (probe, database writer, event sink) and the appending of lines to the
  queue and the mirror are actions on a state \<^emph>\<open>'s\<close> of which the model knows nothing; each may raise. The files of
  the run are a record of \<^typ>\<open>disk_file\<close>s, written at its end.

  The lemmas: no probe stops the others; what a run has written is in the saved index, so that a later run never
  hands the same record on; a run is critical exactly for the five failures of infrastructure; the quarantine and
  the cooldown that a run saves have no part in the plan of the next one.
\<close>

section \<open>Content types\<close>

definition DOCUMENT_SOURCES :: "string list" where
  "DOCUMENT_SOURCES = [''opendart'', ''sec_edgar'', ''federal_register'']"

definition DETAIL_SOURCES :: "string list" where "DETAIL_SOURCES = [''culture_info'']"

definition CATALOG_SOURCES :: "string list" where
  "CATALOG_SOURCES = [''aladin'', ''tmdb'', ''kofic'', ''kopis'', ''tour'', ''igdb'']"

definition CONTENT_GROUP_DEFAULT :: "(string, string) dict" where
  "CONTENT_GROUP_DEFAULT = [(''news'', ''article''), (''domain'', ''article''), (''official'', ''document''),
     (''search'', ''search''), (''community'', ''community''), (''market'', ''structured''), (''trend'', ''structured'')]"

definition BODY_EXPECTED :: "string list" where "BODY_EXPECTED = [''article'', ''document'', ''detail'']"
definition METADATA_COMPLETE :: "string list" where "METADATA_COMPLETE = [''catalog_metadata'', ''structured'']"

definition content_type :: "string \<Rightarrow> string option \<Rightarrow> string" where
  "content_type source_id source_group =
    (if source_id \<in> set CATALOG_SOURCES then ''catalog_metadata''
     else if source_id \<in> set DOCUMENT_SOURCES then ''document''
     else if source_id \<in> set DETAIL_SOURCES then ''detail''
     else get_or CONTENT_GROUP_DEFAULT (or_str source_group []) ''article'')"

definition body_expected :: "string \<Rightarrow> string option \<Rightarrow> bool" where
  "body_expected source_id source_group \<longleftrightarrow> content_type source_id source_group \<in> set BODY_EXPECTED"

definition is_metadata_complete :: "string \<Rightarrow> string option \<Rightarrow> bool" where
  "is_metadata_complete source_id source_group \<longleftrightarrow> content_type source_id source_group \<in> set METADATA_COMPLETE"

definition is_url_candidate :: "string \<Rightarrow> string option \<Rightarrow> bool" where
  "is_url_candidate source_id source_group \<longleftrightarrow> content_type source_id source_group = ''search''"

definition CLASS_BODY_EXPECTED :: string where "CLASS_BODY_EXPECTED = ''BODY_EXPECTED''"
definition CLASS_METADATA_COMPLETE :: string where "CLASS_METADATA_COMPLETE = ''METADATA_COMPLETE''"
definition CLASS_URL_CANDIDATE :: string where "CLASS_URL_CANDIDATE = ''URL_CANDIDATE''"
definition CLASS_COMMUNITY_CONDITIONAL :: string where "CLASS_COMMUNITY_CONDITIONAL = ''COMMUNITY_CONDITIONAL''"

definition classify_content :: "string \<Rightarrow> string option \<Rightarrow> string" where
  "classify_content source_id source_group =
    (let ct = content_type source_id source_group in
     if ct \<in> set BODY_EXPECTED then CLASS_BODY_EXPECTED
     else if ct \<in> set METADATA_COMPLETE then CLASS_METADATA_COMPLETE
     else if ct = ''search'' then CLASS_URL_CANDIDATE
     else CLASS_COMMUNITY_CONDITIONAL)"

definition body_ladder_eligible :: "string \<Rightarrow> string option \<Rightarrow> bool" where
  "body_ladder_eligible source_id source_group = body_expected source_id source_group"

section \<open>The records of a source\<close>

definition GROUP_TO_RECORD_TYPE :: "(string, string) dict" where
  "GROUP_TO_RECORD_TYPE = [(''official'', ''official_record''), (''domain'', ''official_record''),
     (''search'', ''search_result''), (''community'', ''community_signal''), (''market'', ''structured_signal''),
     (''trend'', ''structured_signal''), (''news'', ''article_candidate'')]"

definition infer_fmt :: "string \<Rightarrow> string \<Rightarrow> string" where
  "infer_fmt path content =
    (let low = lower path; stripped = lstrip content; low_head = lower (py_take 200 stripped) in
     if list_ex (endswith low) [''.xml'', ''.rss'', ''.atom''] then ''xml''
     else if endswith low ''.json'' then ''json''
     else if list_ex (endswith low) [''.html'', ''.htm''] then ''html''
     else case stripped of [] \<Rightarrow> ''json'' | h # _ \<Rightarrow>
       if h = CHR ''{'' \<or> h = CHR ''['' then ''json''
       else if h = CHR ''<'' then
         (if list_ex (\<lambda>n. contains n low_head) [''<?xml'', ''<rss'', ''<feed''] then ''xml'' else ''html'')
       else ''json'')"

definition record_type_for :: "source_profile \<Rightarrow> article_candidate \<Rightarrow> string" where
  "record_type_for profile c =
    (let sid = sp_source_id profile; grp = or_str (sp_source_group profile) ''news'' in
     if ac_numeric_payload_exempt c then ''structured_signal''
     else if sid \<noteq> [] \<and> content_type sid (Some grp) = ''catalog_metadata'' then ''catalog_metadata''
     else get_or GROUP_TO_RECORD_TYPE grp ''article_candidate'')"

definition build_eventqueue_record ::
  "string \<Rightarrow> string \<Rightarrow> string option \<Rightarrow> string option \<Rightarrow> string option \<Rightarrow> string option \<Rightarrow> string option \<Rightarrow> string option
   \<Rightarrow> string option \<Rightarrow> eq_record" where
  "build_eventqueue_record record_type source_id title url canonical published body_state policy decision =
     [(''record_type'', JStr record_type), (''source_id'', JStr source_id), (''title_or_label'', json_opt_str title),
      (''source_url_or_evidence'', json_opt_str url), (''canonical_url'', json_opt_str canonical),
      (''published_at_or_observed_at'', json_opt_str published), (''body_state_or_signal'', json_opt_str body_state),
      (''confirmation_policy'', json_opt_str policy), (''quality_pre_gate_decision'', json_opt_str decision)]"

record collected =
  co_eq_records :: "eq_record list"
  co_type_counts :: "(string, int) dict"
  co_body_present :: nat
  co_times :: "normalized_time list"
  co_error_by_source :: "(string, string) dict"
  co_error_by_root_cause :: "(string, int) dict"
  co_rate_limited :: "string list"
  co_outcomes :: "(string, string) dict"
  co_failure_category :: "(string, string) dict"

definition nothing_collected :: collected where
  "nothing_collected = \<lparr>co_eq_records = [], co_type_counts = [], co_body_present = 0, co_times = [],
     co_error_by_source = [], co_error_by_root_cause = [], co_rate_limited = [], co_outcomes = [], co_failure_category = []\<rparr>"

text \<open>
  The outcome of a probe: its status (\<open>UNKNOWN\<close> where it has none) and the four artifacts that are looked at, in
  order. Reading one finds no file, fails with \<open>OSError\<close>, fails to decode (a \<open>ValueError\<close>), or gives its text.
\<close>

datatype artifact_read = NoFile | Unreadable | Undecodable | Content string

record probe_reply =
  pr_status :: string
  pr_error_category :: "string option"
  pr_http_status :: "int option"
  pr_artifacts :: "(string \<times> artifact_read) option list"

fun choose_artifact :: "(string \<times> artifact_read) option list \<Rightarrow> (string \<times> string) option res" where
  "choose_artifact [] = Inr None"
| "choose_artifact (None # ps) = choose_artifact ps"
| "choose_artifact (Some (path, read) # ps) =
     (if path = [] then choose_artifact ps
      else case read of NoFile \<Rightarrow> choose_artifact ps | Unreadable \<Rightarrow> choose_artifact ps
        | Undecodable \<Rightarrow> Inl (ValueError ''utf-8'') | Content t \<Rightarrow> Inr (Some (path, t)))"

text \<open>The decoders and tables that extraction uses, and the publication policy as its file holds it.\<close>

record extract_env =
  xe_decode :: "string \<Rightarrow> string + json"
  xe_parse_xml :: "string \<Rightarrow> string + xml"
  xe_unescape :: "string \<Rightarrow> string"
  xe_nfkc :: "string \<Rightarrow> string"
  xe_digest :: "string \<Rightarrow> string"
  xe_parsedate :: "string \<Rightarrow> datetime option"
  xe_policy :: "json option"

definition signal_label :: "source_profile \<Rightarrow> string" where
  "signal_label profile = or_str (Some (sp_purpose profile)) (or_str (sp_source_group profile) ''signal'')"

definition body_state_of :: "source_profile \<Rightarrow> article_candidate \<Rightarrow> string" where
  "body_state_of profile c = bs_extraction_status (assess_body_state (ac_body_text c) (ac_summary c)
     (Some (sp_purpose profile)) (ac_numeric_payload_exempt c) (ac_parse_error c) True False None)"

definition record_of :: "(string \<Rightarrow> datetime option) \<Rightarrow> source_profile \<Rightarrow> article_candidate \<Rightarrow> string \<Rightarrow> eq_record" where
  "record_of parsedate profile c decision =
    (let rt = record_type_for profile c; nt = normalize_time parsedate (ac_published_at c) (Some ''published_at'') in
     build_eventqueue_record rt (sp_source_id profile) (ac_title c) (or_opt (ac_source_url c) (ac_canonical_url c))
       (ac_canonical_url c) (or_opt (nt_value nt) (ac_published_at c))
       (Some (if rt = ''structured_signal'' then signal_label profile else body_state_of profile c))
       (ac_confirmation_policy c) (Some decision))"

definition collect :: "(string \<Rightarrow> datetime option) \<Rightarrow> source_profile \<Rightarrow> article_candidate \<Rightarrow> string \<Rightarrow> collected \<Rightarrow> collected" where
  "collect parsedate profile c decision co =
     co\<lparr>co_body_present := co_body_present co + (if body_state_of profile c = ''present'' then 1 else 0),
        co_times := co_times co @ [normalize_time parsedate (ac_published_at c) (Some ''published_at'')],
        co_type_counts := bump (record_type_for profile c) (co_type_counts co),
        co_eq_records := co_eq_records co @ [record_of parsedate profile c decision]\<rparr>"

fun collect_all :: "extract_env \<Rightarrow> source_profile \<Rightarrow> article_candidate list \<Rightarrow> collected \<Rightarrow> collected res" where
  "collect_all xe profile [] co = Inr co"
| "collect_all xe profile (c # cs) co =
     bind_res (case load_gate_policy (xe_policy xe) of JObj d \<Rightarrow> Inr d | _ \<Rightarrow> Inl AttributeError) (\<lambda>policy.
     bind_res (evaluate_pre_gate (xe_digest xe) (xe_parsedate xe) c (Some (sp_purpose profile)) policy None) (\<lambda>gate.
       collect_all xe profile cs (if pg_decision gate = ''reject'' then co
         else collect (xe_parsedate xe) profile c (pg_decision gate) co)))"

definition set_error :: "string \<Rightarrow> string \<Rightarrow> collected \<Rightarrow> collected" where
  "set_error sid err co = co\<lparr>co_error_by_source := dict_set sid err (co_error_by_source co)\<rparr>"

definition extract_records :: "extract_env \<Rightarrow> source_profile \<Rightarrow> probe_reply \<Rightarrow> collected \<Rightarrow> collected res" where
  "extract_records xe profile probe co =
    (let sid = sp_source_id profile in
     bind_res (choose_artifact (pr_artifacts probe)) (\<lambda>chosen. case chosen of
       None \<Rightarrow> Inr (set_error sid ''no_artifact_text'' co)
     | Some (path, content) \<Rightarrow>
         if content = [] then Inr (set_error sid ''no_artifact_text'' co)
         else case parse_artifact_text (xe_decode xe) (xe_parse_xml xe) (xe_unescape xe)
             \<lparr>px_nfkc = xe_nfkc xe, px_source_id = sid, px_collection_status = pr_status probe,
              px_confirmation_policy = Some (sp_confirmation_policy profile), px_raw_artifact_path = Some path\<rparr>
             (Some (infer_fmt path content)) (Some content) of
           Inl e \<Rightarrow> Inr (set_error sid (''parse_error:'' @ exn_name e) co)
         | Inr (candidates, _, _) \<Rightarrow> collect_all xe profile candidates co))"

section \<open>The probes\<close>

definition SUCCESS_PROBE_STATUSES :: "string list" where
  "SUCCESS_PROBE_STATUSES = [''LIVE_SUCCESS'', ''LIVE_PARTIAL'', ''PARTIAL'', ''SUCCESS'']"

definition outcome :: "string \<Rightarrow> string \<Rightarrow> collected \<Rightarrow> collected" where
  "outcome sid result co = co\<lparr>co_outcomes := dict_set sid result (co_outcomes co)\<rparr>"

definition failed_with :: "string \<Rightarrow> string \<Rightarrow> collected \<Rightarrow> collected" where
  "failed_with sid category co =
     (outcome sid ''failure'' co)\<lparr>co_failure_category := dict_set sid category (co_failure_category co)\<rparr>"

definition root_cause :: "string \<Rightarrow> collected \<Rightarrow> collected" where
  "root_cause category co = co\<lparr>co_error_by_root_cause := bump category (co_error_by_root_cause co)\<rparr>"

text \<open>What is done with the result of a probe that did not raise.\<close>

definition is_rate_limited :: "probe_reply \<Rightarrow> bool" where
  "is_rate_limited probe \<longleftrightarrow> pr_status probe = ''RATE_LIMITED'' \<or> detect_rate_limit_signal (pr_http_status probe) None"

definition judge_probe :: "extract_env \<Rightarrow> source_profile \<Rightarrow> probe_reply \<Rightarrow> collected \<Rightarrow> collected res" where
  "judge_probe xe profile probe co =
    (let sid = sp_source_id profile;
         co1 = (if truthy (pr_error_category probe) then root_cause (the (pr_error_category probe)) co else co);
         co2 = (if pr_status probe \<in> set SUCCESS_PROBE_STATUSES then outcome sid ''success'' co1
                else failed_with sid (or_str (pr_error_category probe) (pr_status probe)) co1)
     in extract_records xe profile probe co2)"

definition rate_limited_probe :: "string \<Rightarrow> collected \<Rightarrow> collected" where
  "rate_limited_probe sid co = root_cause ''RATE_LIMITED''
     (outcome sid ''rate_limited'' (co\<lparr>co_rate_limited := co_rate_limited co @ [sid]\<rparr>))"

fun probe_all ::
  "extract_env \<Rightarrow> (string \<Rightarrow> ('s, probe_reply) act) \<Rightarrow> source_profile list \<Rightarrow> instant \<Rightarrow> string list \<Rightarrow> governor \<Rightarrow> collected
   \<Rightarrow> ('s, governor \<times> collected) act" where
  "probe_all xe probe profiles now [] g co = ret_act (g, co)"
| "probe_all xe probe profiles now (sid # sids) g co = (case find (\<lambda>p. sp_source_id p = sid) profiles of
      None \<Rightarrow> probe_all xe probe profiles now sids g co
    | Some profile \<Rightarrow> (\<lambda>s.
        let g1 = gov_record_call g sid now in
        case probe sid s of
          (Inl e, s1) \<Rightarrow> probe_all xe probe profiles now sids g1
            (failed_with sid ''PROBE_EXCEPTION'' (set_error sid (''probe_exception:'' @ exn_name e) co)) s1
        | (Inr pr, s1) \<Rightarrow>
            if is_rate_limited pr then
              probe_all xe probe profiles now sids
                (fst (gov_record_rate_limited (\<lambda>_. None) now g1 sid RaNone (sp_freshness_bucket profile)
                  ''probe_rate_limited'' now)) (rate_limited_probe sid co) s1
            else case judge_probe xe profile pr co of
                Inl e \<Rightarrow> (Inl e, s1)
              | Inr co1 \<Rightarrow> probe_all xe probe profiles now sids g1 co1 s1))"

section \<open>Deduplication\<close>

text \<open>What \<open>decide\<close> and \<open>cluster_records\<close> read of a record; its values are strings or null.\<close>

definition string_at :: "eq_record \<Rightarrow> string \<Rightarrow> string option" where
  "string_at r k = (case dict_get r k of Some (JStr s) \<Rightarrow> Some s | _ \<Rightarrow> None)"

definition common_of :: "eq_record \<Rightarrow> common_record" where
  "common_of r = \<lparr>cr_record_type = string_at r ''record_type'', cr_source_id = string_at r ''source_id'',
     cr_title_or_label = string_at r ''title_or_label'', cr_canonical_url = string_at r ''canonical_url'',
     cr_source_url_or_evidence = string_at r ''source_url_or_evidence'',
     cr_published_at_or_observed_at = string_at r ''published_at_or_observed_at'',
     cr_body_state_or_signal = string_at r ''body_state_or_signal'', cr_ref = string_at r ''_ref''\<rparr>"

record dedup_run =
  du_index :: dedup_index
  du_written :: "eq_record list"
  du_skipped :: nat
  du_basis :: "(string, int) dict"

definition basis_of :: "dedup_decision \<Rightarrow> string" where
  "basis_of d = last (split_on CHR '':'' (or_str (dd_reason d) ''unknown''))"

fun dedup_batch ::
  "(string \<Rightarrow> string) \<Rightarrow> (string \<Rightarrow> datetime option) \<Rightarrow> string \<Rightarrow> nat \<Rightarrow> eq_record list \<Rightarrow> dedup_run \<Rightarrow> dedup_run" where
  "dedup_batch digest parsedate run_id i [] du = du"
| "dedup_batch digest parsedate run_id i (r # rs) du =
     (let (d, ix) = decide digest parsedate (common_of r) (run_id @ '':'' @ nat_str i) (du_index du);
          du1 = du\<lparr>du_index := ix, du_basis := bump (basis_of d) (du_basis du)\<rparr>
      in dedup_batch digest parsedate run_id (Suc i) rs
        (if dd_is_duplicate d then du1\<lparr>du_skipped := du_skipped du1 + 1\<rparr>
         else du1\<lparr>du_written := du_written du1 @ [dict_set ''_dedup_key'' (json_opt_str (dd_record_key d)) r]\<rparr>))"

section \<open>The new state of a source\<close>

definition succeeded :: "string \<Rightarrow> production_source_state \<Rightarrow> production_source_state" where
  "succeeded now_iso s = s\<lparr>ps_last_success_at := Some now_iso, ps_consecutive_failure_count := 0\<rparr>"

definition count_failure :: "string \<Rightarrow> production_source_state \<Rightarrow> production_source_state" where
  "count_failure now_iso s = s\<lparr>ps_last_failure_at := Some now_iso, ps_failure_count := ps_failure_count s + 1,
     ps_consecutive_failure_count := ps_consecutive_failure_count s + 1\<rparr>"

text \<open>The patch of step 8a, and whether it holds a quarantine.\<close>

definition patch_outcome ::
  "collected \<Rightarrow> instant \<Rightarrow> production_source_state \<Rightarrow> production_source_state \<times> bool" where
  "patch_outcome co now s =
    (let sid = ps_source_id s; now_iso = iso_z (utc now); result = dict_get (co_outcomes co) sid in
     if result = Some ''success'' then (succeeded now_iso s, False)
     else if result = Some ''failure'' then
       (let s1 = count_failure now_iso s;
            q = evaluate_quarantine sid (Some (ps_current_status s)) (dict_get (co_failure_category co) sid)
              (ps_consecutive_failure_count s + 1) 3 0 False now
        in if qd_quarantined q then
             (s1\<lparr>ps_current_status := QUARANTINED, ps_production_ready := False,
                ps_quarantine_until := qd_quarantine_until q, ps_terminal_reason := qd_reason q\<rparr>,
              truthy (qd_quarantine_until q))
           else (s1, False))
     else (s, False))"

text \<open>Step 8b. The cooldown that the governor holds is a string.\<close>

definition patch_cooldown :: "governor \<Rightarrow> production_source_state \<Rightarrow> production_source_state \<times> bool \<Rightarrow> production_source_state" where
  "patch_cooldown g s patched = (case (gov_cooldown_until g (ps_source_id s), patched) of
      (Some (JStr cd), (s1, quarantined)) \<Rightarrow>
        if cd \<noteq> [] \<and> ps_current_status s \<noteq> POLICY_EXCLUDED \<and> \<not> quarantined then
          s1\<lparr>ps_cooldown_until := Some cd, ps_rate_limit_status := Some ''cooldown'', ps_production_ready := False,
             ps_current_status := (if ps_production_ready s then COOLDOWN else ps_current_status s)\<rparr>
        else s1
    | (_, (s1, _)) \<Rightarrow> s1)"

definition final_state :: "governor \<Rightarrow> collected \<Rightarrow> instant \<Rightarrow> production_source_state \<Rightarrow> production_source_state" where
  "final_state g co now s = patch_cooldown g s (patch_outcome co now s)"

section \<open>The run\<close>

record run_config =
  rg_mode :: string
  rg_max_sources :: "int option"
  rg_all_due :: bool
  rg_force :: bool
  rg_write_outputs :: bool

record run_files =
  rf_state :: disk_file
  rf_dedup :: disk_file
  rf_governor :: disk_file

text \<open>What the caller injects, the writes to the queue and the mirror, and the codecs.\<close>

record 's run_ports =
  po_probe :: "(string \<Rightarrow> bool \<Rightarrow> ('s, probe_reply) act) option"
  po_db_writer :: "((string, json) dict \<Rightarrow> ('s, bool) act) option"
  po_event_sink :: "(eq_record list \<Rightarrow> cross_source_result list \<Rightarrow> ('s, json) act) option"
  po_append_mirror :: "(string, json) dict \<Rightarrow> ('s, unit) act"
  po_append_queue :: "string \<Rightarrow> ('s, unit) act"
  po_is_os_error :: "py_exn \<Rightarrow> bool"
  po_dumps :: "json \<Rightarrow> string"
  po_sha256 :: "string \<Rightarrow> string"
  po_sha1 :: "string \<Rightarrow> string"
  po_alnum :: "string \<Rightarrow> bool"

record run_input =
  ri_profiles :: "source_profile list"
  ri_memory :: strategy_memories
  ri_api_ready :: "(string, bool) dict"
  ri_now :: instant

definition iso_now :: "instant \<Rightarrow> string" where "iso_now now = iso_z (utc now)"

definition run_id_of :: "instant \<Rightarrow> string" where
  "run_id_of now = py_replace ''-'' [] (py_replace '':'' [] (iso_now now))"

definition derive_args_of :: "run_input \<Rightarrow> (string, production_source_state) dict \<Rightarrow> string \<Rightarrow> derive_args" where
  "derive_args_of inp prior sid = (let prev = dict_get prior sid in
     \<lparr>da_memory = ri_memory inp, da_health = None, da_api_key_ready = Some (get_or (ri_api_ready inp) sid False),
      da_last_success_at = Option.bind prev ps_last_success_at, da_last_failure_at = Option.bind prev ps_last_failure_at,
      da_failure_count = (case prev of None \<Rightarrow> 0 | Some s \<Rightarrow> ps_failure_count s),
      da_consecutive_failure_count = (case prev of None \<Rightarrow> 0 | Some s \<Rightarrow> ps_consecutive_failure_count s)\<rparr>)"

definition derive_states :: "run_input \<Rightarrow> (string, production_source_state) dict \<Rightarrow> production_source_state list" where
  "derive_states inp prior = map (\<lambda>p. derive_production_state p (derive_args_of inp prior (sp_source_id p))) (ri_profiles inp)"

definition last_runs :: "(string, production_source_state) dict \<Rightarrow> (string, datetime option) dict" where
  "last_runs prior = List.map_filter (\<lambda>(sid, s). map_option (\<lambda>d. (sid, Some d)) (parse_iso (ps_last_success_at s))) prior"

definition plan_of_run ::
  "run_config \<Rightarrow> run_input \<Rightarrow> (string, production_source_state) dict \<Rightarrow> governor \<Rightarrow> production_run_plan res" where
  "plan_of_run cfg inp prior g = build_production_run_plan
     \<lparr>pe_states = dict_of (map (\<lambda>s. (ps_source_id s, s)) (derive_states inp prior)), pe_memory = ri_memory inp,
      pe_last_run = last_runs prior, pe_governor = Some g, pe_now = ri_now inp,
      pe_mode = (if rg_all_due cfg then MODE_VALIDATION else rg_mode cfg)\<rparr>
     (ri_profiles inp) (rg_max_sources cfg) (run_id_of (ri_now inp))"

definition run_probes ::
  "extract_env \<Rightarrow> 's run_ports \<Rightarrow> run_config \<Rightarrow> run_input \<Rightarrow> string list \<Rightarrow> governor \<Rightarrow> ('s, governor \<times> collected) act" where
  "run_probes xe po cfg inp due g = (case po_probe po of
      Some probe \<Rightarrow> if rg_mode cfg \<noteq> MODE_DRY_RUN
        then probe_all xe (\<lambda>sid. probe sid (rg_force cfg)) (ri_profiles inp) (ri_now inp) due g nothing_collected
        else ret_act (g, nothing_collected)
    | None \<Rightarrow> ret_act (g, nothing_collected))"

text \<open>\<open>cluster_records\<close> always returns (lemma \<open>cluster_records_returns\<close>).\<close>

definition clusters_of :: "extract_env \<Rightarrow> eq_record list \<Rightarrow> cross_source_result list" where
  "clusters_of xe rs = (case cluster_records (xe_digest xe) (xe_parsedate xe) (map common_of rs) of
     None \<Rightarrow> [] | Some cs \<Rightarrow> cs)"

definition resolve_events ::
  "'s run_ports \<Rightarrow> eq_record list \<Rightarrow> cross_source_result list \<Rightarrow> ('s, json option) act" where
  "resolve_events po written clusters = (case po_event_sink po of None \<Rightarrow> ret_act None
    | Some f \<Rightarrow> try_act (bind_act (f written clusters) (\<lambda>j. ret_act (Some j)))
        (\<lambda>exc. ret_act (Some (JObj [(''wired'', JBool True), (''error'', JStr (exn_name exc))]))))"

definition append_queue :: "'s run_ports \<Rightarrow> run_config \<Rightarrow> eq_record list \<Rightarrow> ('s, nat) act" where
  "append_queue po cfg written = (if rg_write_outputs cfg \<and> written \<noteq> [] then
      try_act (bind_act (po_append_queue po (concat (map (\<lambda>r. po_dumps po (JObj r) @ [nl]) written))) (\<lambda>_. ret_act 0))
        (\<lambda>exc. if po_is_os_error po exc then ret_act (length written) else raise_act exc)
    else ret_act 0)"

definition run_sink :: "'s run_ports \<Rightarrow> run_config \<Rightarrow> 's sink" where
  "run_sink po cfg = (case po_db_writer po of Some f \<Rightarrow> Db f
    | None \<Rightarrow> if rg_write_outputs cfg then Mirror (po_append_mirror po) else NoTarget)"

definition bridge_batch ::
  "extract_env \<Rightarrow> 's run_ports \<Rightarrow> run_config \<Rightarrow> string \<Rightarrow> eq_record list \<Rightarrow> ('s, bridge_result) act" where
  "bridge_batch xe po cfg now_iso written = (\<lambda>s.
     case bridge_records (po_sha256 po) (po_sha1 po) (xe_parsedate xe) now_iso (run_sink po cfg) [] [] (Some now_iso) written
       \<lparr>bw_seen_hashes = [], bw_written = 0, bw_duplicates = 0, bw_failed = 0, bw_world = s\<rparr> of
       (r, b) \<Rightarrow> (r, bw_world b))"

record run_result =
  rr_run_id :: string
  rr_mode :: string
  rr_plan :: production_run_plan
  rr_summary :: monitoring_summary
  rr_dedup_basis :: "(string, int) dict"
  rr_clusters :: cluster_summary
  rr_index_size :: nat
  rr_source_without_state :: nat
  rr_unknown_root_cause :: nat
  rr_critical_alerts :: nat
  rr_bridge_contract_pass :: bool
  rr_outputs_written :: bool
  rr_states :: "production_source_state list"
  rr_bridge :: bridge_result
  rr_event_resolution :: "json option"

definition metrics_of :: "collected \<Rightarrow> dedup_run \<Rightarrow> nat \<Rightarrow> run_metrics" where
  "metrics_of co du queue_failed =
     \<lparr>rm_records_collected = length (co_eq_records co), rm_eventqueue_written = length (du_written du),
      rm_duplicates_skipped = du_skipped du, rm_record_type_counts = co_type_counts co,
      rm_body_present_count = co_body_present co, rm_time_precision = summarize_precision (map Some (co_times co)),
      rm_eventqueue_failed = queue_failed, rm_sample = du_written du, rm_error_by_source = co_error_by_source co,
      rm_error_by_root_cause = co_error_by_root_cause co\<rparr>"

definition result_of ::
  "'s run_ports \<Rightarrow> run_config \<Rightarrow> run_input \<Rightarrow> production_run_plan \<Rightarrow> collected \<Rightarrow> dedup_run \<Rightarrow> cross_source_result list
   \<Rightarrow> json option \<Rightarrow> nat \<Rightarrow> bridge_result \<Rightarrow> production_source_state list \<Rightarrow> run_result" where
  "result_of po cfg inp plan co du clusters resolution queue_failed bridge states =
    (let summary = build_monitoring_summary (po_dumps po) (po_alnum po) (run_id_of (ri_now inp)) plan states bridge
           (metrics_of co du queue_failed);
         state_summary = summarize_states states
     in \<lparr>rr_run_id = run_id_of (ri_now inp), rr_mode = rg_mode cfg, rr_plan = plan, rr_summary = summary,
         rr_dedup_basis = du_basis du, rr_clusters = summarize_clusters clusters, rr_index_size = length (du_index du),
         rr_source_without_state = su_source_without_state state_summary, rr_unknown_root_cause = su_unknown state_summary,
         rr_critical_alerts = length (mo_critical_alerts summary), rr_bridge_contract_pass = bres_contract_pass bridge,
         rr_outputs_written = rg_write_outputs cfg, rr_states = states, rr_bridge = bridge,
         rr_event_resolution = resolution\<rparr>)"

definition open_index :: "run_config \<Rightarrow> run_files \<Rightarrow> dedup_run" where
  "open_index cfg fs = \<lparr>du_index = (if rg_write_outputs cfg then load_index (rf_dedup fs) else []), du_written = [],
     du_skipped = 0, du_basis = []\<rparr>"

definition save_files ::
  "run_config \<Rightarrow> run_input \<Rightarrow> production_source_state list \<Rightarrow> dedup_run \<Rightarrow> governor \<Rightarrow> run_files \<Rightarrow> run_files" where
  "save_files cfg inp states du g fs = (if rg_write_outputs cfg then
      \<lparr>rf_state = save_production_state states (Some (run_id_of (ri_now inp))), rf_dedup = save_index (du_index du),
       rf_governor = gov_save g\<rparr> else fs)"

definition run_production_orchestration ::
  "extract_env \<Rightarrow> 's run_ports \<Rightarrow> run_config \<Rightarrow> run_input \<Rightarrow> run_files \<Rightarrow> ('s, run_result \<times> run_files) act" where
  "run_production_orchestration xe po cfg inp fs =
    (let g0 = (if rg_write_outputs cfg then gov_open (rf_governor fs) else []); now_iso = iso_now (ri_now inp) in
     bind_act (lift_res (load_production_state (rf_state fs))) (\<lambda>prior.
     bind_act (lift_res (plan_of_run cfg inp prior g0)) (\<lambda>plan.
     bind_act (run_probes xe po cfg inp (rp_due_sources plan) g0) (\<lambda>(g, co).
     let du = dedup_batch (xe_digest xe) (xe_parsedate xe) (run_id_of (ri_now inp)) 0 (co_eq_records co) (open_index cfg fs);
         clusters = clusters_of xe (du_written du) in
     bind_act (resolve_events po (du_written du) clusters) (\<lambda>resolution.
     bind_act (append_queue po cfg (du_written du)) (\<lambda>queue_failed.
     bind_act (bridge_batch xe po cfg now_iso (du_written du)) (\<lambda>bridge.
     let states = map (final_state g co (ri_now inp)) (derive_states inp prior) in
     ret_act (result_of po cfg inp plan co du clusters resolution queue_failed bridge states,
       save_files cfg inp states du g fs))))))))"

definition run_exit_code :: "run_result \<Rightarrow> nat" where
  "run_exit_code r = (if 0 < rr_critical_alerts r then 1 else 0)"

section \<open>A probe that fails does not stop the others\<close>

definition policy_ok :: "extract_env \<Rightarrow> bool" where
  "policy_ok xe \<longleftrightarrow> (\<exists>d. load_gate_policy (xe_policy xe) = JObj d \<and> (\<forall>sid. \<exists>p. publication_policy_for sid d = Inr p))"

definition readable :: "probe_reply \<Rightarrow> bool" where
  "readable pr \<longleftrightarrow> (\<exists>chosen. choose_artifact (pr_artifacts pr) = Inr chosen)"

definition probed :: "instant \<Rightarrow> governor \<Rightarrow> collected \<Rightarrow> string \<Rightarrow> bool" where
  "probed now g co sid \<longleftrightarrow> dict_get (get_or g sid []) ''last_call_at'' = Some (JStr (iso_z (utc now))) \<and>
     dict_get (co_outcomes co) sid \<in> {Some ''success'', Some ''failure'', Some ''rate_limited''}"

text \<open>The fields of a collected record are strings or null.\<close>

definition text_value :: "json \<Rightarrow> bool" where
  "text_value v = (case v of JNull \<Rightarrow> True | JStr _ \<Rightarrow> True | _ \<Rightarrow> False)"

definition strings_only :: "eq_record \<Rightarrow> bool" where
  "strings_only r \<longleftrightarrow> list_all (\<lambda>(k, v). text_value v) r"

lemma text_value_simps [simp]: "text_value JNull" "text_value (JStr s)" "text_value (json_opt_str t)"
  by (simp_all add: text_value_def json_opt_str_def split: option.split)

lemma strings_only_get: "strings_only r \<Longrightarrow> dict_get r k = Some v \<Longrightarrow> text_value v"
  unfolding strings_only_def by (erule dict_get_all [rotated])

lemma strings_only_set: "strings_only r \<Longrightarrow> text_value v \<Longrightarrow> strings_only (dict_set k v r)"
  using set_dict_set_subset [of k v r] by (fastforce simp: strings_only_def list_all_iff)

lemma record_of_strings: "strings_only (record_of parsedate profile c decision)"
  by (simp add: record_of_def build_eventqueue_record_def strings_only_def Let_def)

abbreviation all_strings :: "collected \<Rightarrow> bool" where
  "all_strings co \<equiv> list_all strings_only (co_eq_records co)"

lemma collect_all_ok:
  assumes "policy_ok xe"
  shows "\<exists>co'. collect_all xe profile cs co = Inr co' \<and> co_outcomes co' = co_outcomes co \<and> (all_strings co \<longrightarrow> all_strings co')"
proof (induction cs arbitrary: co)
  case (Cons c cs)
  obtain d p where d: "load_gate_policy (xe_policy xe) = JObj d" and "publication_policy_for (ac_source_id c) d = Inr p"
    using assms unfolding policy_ok_def by blast
  then obtain gate where "evaluate_pre_gate (xe_digest xe) (xe_parsedate xe) c (Some (sp_purpose profile)) d None = Inr gate"
    by (simp add: evaluate_pre_gate_def Let_def)
  with d show ?case
    using Cons.IH [of co] Cons.IH [of "collect (xe_parsedate xe) profile c (pg_decision gate) co"]
    by (simp add: collect_def record_of_strings)
qed simp

lemma extract_ok:
  assumes "policy_ok xe" "readable pr"
  shows "\<exists>co'. extract_records xe profile pr co = Inr co' \<and> co_outcomes co' = co_outcomes co \<and> (all_strings co \<longrightarrow> all_strings co')"
  using assms(2) collect_all_ok [OF assms(1), of profile]
  by (fastforce simp: extract_records_def readable_def set_error_def Let_def split: option.splits sum.splits)

lemma judge_ok:
  assumes "policy_ok xe" "readable pr"
  shows "\<exists>co'. judge_probe xe profile pr co = Inr co' \<and>
    (\<exists>v \<in> {''success'', ''failure''}. co_outcomes co' = dict_set (sp_source_id profile) v (co_outcomes co)) \<and>
    (all_strings co \<longrightarrow> all_strings co')"
  using extract_ok [OF assms, of profile]
  by (fastforce simp: judge_probe_def outcome_def failed_with_def root_cause_def Let_def)

text \<open>Recording a call keeps what was recorded at the same instant.\<close>

lemma probed_kept:
  assumes "probed now g co sid" "dict_get (co_outcomes co') sid \<in> {dict_get (co_outcomes co) sid, Some ''success'', Some ''failure'', Some ''rate_limited''}"
  shows "probed now (gov_record_call g sid' now) co' sid"
    "probed now (fst (gov_record_rate_limited h now (gov_record_call g sid' now) sid' ra fb why now)) co' sid"
  using assms by (auto simp: probed_def gov_record_call_def gov_record_rate_limited_def get_or_def Let_def)

lemma probed_now:
  assumes "dict_get (co_outcomes co') sid \<in> {Some ''success'', Some ''failure'', Some ''rate_limited''}"
  shows "probed now (gov_record_call g sid now) co' sid"
    "probed now (fst (gov_record_rate_limited h now (gov_record_call g sid now) sid ra fb why now)) co' sid"
  using assms by (auto simp: probed_def gov_record_call_def gov_record_rate_limited_def get_or_def Let_def)

lemma probe_all_ok:
  assumes policy: "policy_ok xe"
    and readable: "\<And>sid s pr s'. probe sid s = (Inr pr, s') \<Longrightarrow> readable pr"
    and seen: "\<forall>sid \<in> S. probed now g co sid" and strings: "all_strings co"
  shows "\<exists>g' co' s'. probe_all xe probe profiles now sids g co s = (Inr (g', co'), s') \<and> all_strings co' \<and>
    (\<forall>sid \<in> S \<union> (set sids \<inter> sp_source_id ` set profiles). probed now g' co' sid)"
  using seen strings
proof (induction sids arbitrary: g co s S)
  case Nil
  then show ?case by simp
next
  case (Cons sid sids)
  show ?case
  proof (cases "find (\<lambda>p. sp_source_id p = sid) profiles")
    case None
    then have "sid \<notin> sp_source_id ` set profiles" by (auto simp: find_None_iff)
    with None Cons.IH [OF Cons.prems, where s = s] show ?thesis by simp
  next
    case (Some profile)
    then have sid: "sp_source_id profile = sid" by (auto simp: find_Some_iff)
    let ?g1 = "gov_record_call g sid now"
    have step: ?thesis
      if run: "probe_all xe probe profiles now (sid # sids) g co s = probe_all xe probe profiles now sids g2 co2 s2"
        and kept: "\<forall>x \<in> insert sid S. probed now g2 co2 x" and str: "all_strings co2" for g2 co2 s2
      unfolding run using Cons.IH [OF kept str, where s = s2] by auto
    obtain r s1 where r: "probe sid s = (r, s1)" by (cases "probe sid s")
    show ?thesis
    proof (cases r)
      case (Inl e)
      let ?co = "failed_with sid ''PROBE_EXCEPTION'' (set_error sid (''probe_exception:'' @ exn_name e) co)"
      have kept: "\<forall>x \<in> insert sid S. probed now ?g1 ?co x"
        using Cons.prems(1) by (auto intro!: probed_kept probed_now simp: failed_with_def outcome_def set_error_def)
      have str: "all_strings ?co" using Cons.prems(2) by (simp add: failed_with_def outcome_def set_error_def)
      show ?thesis by (rule step [OF _ kept str, of s1]) (simp add: Some r Inl Let_def)
    next
      case pr: (Inr pr)
      show ?thesis
      proof (cases "is_rate_limited pr")
        case True
        let ?g2 = "fst (gov_record_rate_limited (\<lambda>_. None) now ?g1 sid RaNone (sp_freshness_bucket profile) ''probe_rate_limited'' now)"
        have kept: "\<forall>x \<in> insert sid S. probed now ?g2 (rate_limited_probe sid co) x"
          using Cons.prems(1) by (auto intro!: probed_kept probed_now simp: rate_limited_probe_def root_cause_def outcome_def)
        have str: "all_strings (rate_limited_probe sid co)"
          using Cons.prems(2) by (simp add: rate_limited_probe_def root_cause_def outcome_def)
        show ?thesis by (rule step [OF _ kept str, of s1]) (simp add: Some r pr True Let_def)
      next
        case False
        obtain co1 v where co1: "judge_probe xe profile pr co = Inr co1" "v \<in> {''success'', ''failure''}"
          "co_outcomes co1 = dict_set sid v (co_outcomes co)" "all_strings co \<longrightarrow> all_strings co1"
          using judge_ok [OF policy readable, of sid s pr s1 profile co] r pr sid by auto
        have kept: "\<forall>x \<in> insert sid S. probed now ?g1 co1 x"
          using Cons.prems(1) co1(2,3) by (auto intro!: probed_kept probed_now)
        have str: "all_strings co1" using Cons.prems(2) co1(4) by simp
        show ?thesis by (rule step [OF _ kept str, of s1]) (simp add: Some r pr False co1(1) Let_def)
      qed
    qed
  qed
qed

section \<open>A record is handed on once\<close>

definition record_key :: "extract_env \<Rightarrow> eq_record \<Rightarrow> string option" where
  "record_key xe r = key_of (xe_digest xe) (xe_parsedate xe) (common_of r)"

lemma common_of_marked [simp]: "common_of (dict_set ''_dedup_key'' v r) = common_of r"
  by (simp add: common_of_def string_at_def)

definition passes :: "extract_env \<Rightarrow> dedup_run \<Rightarrow> nat \<Rightarrow> dedup_run \<Rightarrow> bool" where
  "passes xe du n du' \<longleftrightarrow> (\<exists>ws. du_written du' = du_written du @ ws \<and> length ws + du_skipped du' = n + du_skipped du \<and>
     (\<forall>r \<in> set ws. \<forall>k. record_key xe r = Some k \<longrightarrow> dict_get (du_index du) k = None \<and> dict_get (du_index du') k \<noteq> None) \<and>
     distinct (List.map_filter (record_key xe) ws) \<and>
     (\<forall>k. dict_get (du_index du) k \<noteq> None \<longrightarrow> dict_get (du_index du') k \<noteq> None))"

lemma dedup_batch_passes: "passes xe du (length rs) (dedup_batch (xe_digest xe) (xe_parsedate xe) run_id i rs du)"
proof (induction rs arbitrary: i du)
  case Nil
  show ?case by (simp add: passes_def map_filter_simps)
next
  case (Cons r rs)
  let ?ref = "run_id @ '':'' @ nat_str i"
  obtain d ix where d: "decide (xe_digest xe) (xe_parsedate xe) (common_of r) ?ref (du_index du) = (d, ix)"
    by (cases "decide (xe_digest xe) (xe_parsedate xe) (common_of r) ?ref (du_index du)")
  have new: "dd_is_duplicate d \<longleftrightarrow> (\<exists>k. record_key xe r = Some k \<and> dict_get (du_index du) k \<noteq> None)"
    "\<And>k. dict_get ix k \<noteq> None \<longleftrightarrow> dict_get (du_index du) k \<noteq> None \<or> record_key xe r = Some k"
    using decide_duplicate(1) [of "xe_digest xe" "xe_parsedate xe" "common_of r" ?ref "du_index du"]
      decide_duplicate(2) [of "xe_digest xe" "xe_parsedate xe" "common_of r" ?ref "du_index du"]
    unfolding d record_key_def by simp_all
  let ?r = "dict_set ''_dedup_key'' (json_opt_str (dd_record_key d)) r"
  let ?du1 = "if dd_is_duplicate d
     then du\<lparr>du_index := ix, du_basis := bump (basis_of d) (du_basis du), du_skipped := du_skipped du + 1\<rparr>
     else du\<lparr>du_index := ix, du_basis := bump (basis_of d) (du_basis du), du_written := du_written du @ [?r]\<rparr>"
  let ?du' = "dedup_batch (xe_digest xe) (xe_parsedate xe) run_id (Suc i) rs ?du1"
  obtain ws where ws: "du_written ?du' = du_written ?du1 @ ws" "length ws + du_skipped ?du' = length rs + du_skipped ?du1"
    "\<And>x k. x \<in> set ws \<Longrightarrow> record_key xe x = Some k \<Longrightarrow> dict_get ix k = None \<and> dict_get (du_index ?du') k \<noteq> None"
    "distinct (List.map_filter (record_key xe) ws)"
    "\<And>k. dict_get ix k \<noteq> None \<Longrightarrow> dict_get (du_index ?du') k \<noteq> None"
    using Cons.IH [of ?du1 "Suc i"] by (auto simp: passes_def split: if_splits)
  have key: "record_key xe ?r = record_key xe r" by (simp add: record_key_def)
  have run: "dedup_batch (xe_digest xe) (xe_parsedate xe) run_id i (r # rs) du = ?du'"
    by (simp only: dedup_batch.simps d Let_def prod.case) simp
  have later: "dict_get (du_index du) k = None \<and> dict_get (du_index ?du') k \<noteq> None"
    if "x \<in> set ws" "record_key xe x = Some k" for x k
    using ws(3) [OF that] new(2) [of k] by blast
  have first: "dict_get (du_index du) k = None \<and> dict_get (du_index ?du') k \<noteq> None"
    if "\<not> dd_is_duplicate d" "record_key xe r = Some k" for k
    using that new(1) new(2) [of k] ws(5) [of k] by blast
  have apart: "record_key xe x \<noteq> record_key xe r" if "x \<in> set ws" "record_key xe x = Some k" for x k
    using ws(3) [OF that] new(2) [of k] that by metis
  show ?case unfolding run passes_def
  proof (intro exI [of _ "if dd_is_duplicate d then ws else ?r # ws"] conjI ballI allI impI)
    fix x k
    assume x: "x \<in> set (if dd_is_duplicate d then ws else ?r # ws)" and k: "record_key xe x = Some k"
    have "dict_get (du_index du) k = None \<and> dict_get (du_index ?du') k \<noteq> None"
    proof (cases "x \<in> set ws")
      case True
      then show ?thesis using k by (rule later)
    next
      case False
      then have "\<not> dd_is_duplicate d" "x = ?r" using x by (simp_all split: if_splits)
      with k key first [of k] show ?thesis by simp
    qed
    then show "dict_get (du_index du) k = None" "dict_get (du_index ?du') k \<noteq> None" by blast+
  next
    show "distinct (List.map_filter (record_key xe) (if dd_is_duplicate d then ws else ?r # ws))"
      using ws(4) apart by (cases "record_key xe r") (auto simp: key map_filter_simps map_filter_mem)
  next
    fix k
    assume "dict_get (du_index du) k \<noteq> None"
    then show "dict_get (du_index ?du') k \<noteq> None" using new(2) ws(5) by blast
  qed (use ws in \<open>simp_all split: if_splits\<close>)
qed

section \<open>When a run is critical\<close>

lemma quarantine_status:
  "ps_current_status (fst (patch_outcome co now s)) \<in> {ps_current_status s, QUARANTINED}"
  by (simp add: patch_outcome_def succeeded_def count_failure_def Let_def)

lemma final_status:
  "ps_current_status (final_state g co now s) \<in> {ps_current_status s, QUARANTINED, COOLDOWN}"
  using quarantine_status [of co now s]
  by (auto simp: final_state_def patch_cooldown_def split: option.splits json.splits prod.splits)

lemma final_states_known:
  "su_source_without_state (summarize_states (map (final_state g co now) (derive_states inp prior))) = 0"
proof -
  have "ps_current_status s \<in> set PRODUCTION_STATES \<and> ps_current_status s \<noteq> STATE_UNKNOWN"
    if "s \<in> set (map (final_state g co now) (derive_states inp prior))" for s
  proof -
    obtain p where s: "s = final_state g co now (derive_production_state p (derive_args_of inp prior (sp_source_id p)))"
      using \<open>s \<in> _\<close> by (auto simp: derive_states_def)
    show ?thesis
      using final_status [of g co now "derive_production_state p (derive_args_of inp prior (sp_source_id p))"]
        derive_classified [of p "derive_args_of inp prior (sp_source_id p)"]
      unfolding s well_classified_def by (auto simp: PRODUCTION_STATES_def state_names)
  qed
  then have "filter (\<lambda>s. ps_current_status s \<notin> set PRODUCTION_STATES \<or> ps_current_status s = STATE_UNKNOWN)
      (map (final_state g co now) (derive_states inp prior)) = []"
    unfolding filter_empty_conv by blast
  then show ?thesis
    using count_states_result [of "map (final_state g co now) (derive_states inp prior)" "[]" 0]
    by (simp add: summarize_states_def split: prod.splits)
qed

section \<open>The parts of a run\<close>

lemma run_parts:
  assumes "run_production_orchestration xe po cfg inp fs s = (Inr (res, fs'), s')"
  obtains prior plan g co du s1 s2 s3 resolution queue_failed bridge where
    "load_production_state (rf_state fs) = Inr prior"
    "plan_of_run cfg inp prior (if rg_write_outputs cfg then gov_open (rf_governor fs) else []) = Inr plan"
    "run_probes xe po cfg inp (rp_due_sources plan) (if rg_write_outputs cfg then gov_open (rf_governor fs) else []) s
       = (Inr (g, co), s1)"
    "du = dedup_batch (xe_digest xe) (xe_parsedate xe) (run_id_of (ri_now inp)) 0 (co_eq_records co) (open_index cfg fs)"
    "append_queue po cfg (du_written du) s2 = (Inr queue_failed, s3)"
    "bridge_batch xe po cfg (iso_now (ri_now inp)) (du_written du) s3 = (Inr bridge, s')"
    "res = result_of po cfg inp plan co du (clusters_of xe (du_written du)) resolution queue_failed bridge
       (map (final_state g co (ri_now inp)) (derive_states inp prior))"
    "fs' = save_files cfg inp (map (final_state g co (ri_now inp)) (derive_states inp prior)) du g fs"
  using assms unfolding run_production_orchestration_def Let_def
  by (auto elim!: bind_act_cases split: prod.splits)

section \<open>The bridge takes every record of a run\<close>

lemma dedup_batch_strings:
  "list_all strings_only rs \<Longrightarrow> list_all strings_only (du_written du) \<Longrightarrow>
   list_all strings_only (du_written (dedup_batch digest parsedate run_id i rs du))"
  by (induction rs arbitrary: i du) (simp_all add: Let_def strings_only_set split: prod.split)

lemma str_field_ok: "strings_only r \<Longrightarrow> \<exists>s. str_field r k = Inr s"
  using strings_only_get [of r k]
  by (auto simp: str_field_def as_opt_str_def text_value_def split: option.splits json.splits)

lemma record_type_ok: "strings_only r \<Longrightarrow> \<exists>v. record_type_of r = Inr v"
  using strings_only_get [of r "''record_type''"]
  by (auto simp: record_type_of_def get_or_def text_value_def split: option.splits json.splits)

lemma payload_ok:
  assumes "strings_only r"
  shows "\<exists>p. payload_of sha256 sha1 parsedate now_iso r rt sid url dk cid at_iso = Inr p"
proof -
  note f = str_field_ok [OF assms]
  obtain a b c d e q where "str_field r ''title_or_label'' = Inr a" "str_field r ''published_at_or_observed_at'' = Inr b"
    "str_field r ''source_url_or_evidence'' = Inr c" "str_field r ''body_state_or_signal'' = Inr d"
    "str_field r ''confirmation_policy'' = Inr e" "str_field r ''quality_pre_gate_decision'' = Inr q"
    using f [of "''title_or_label''"] f [of "''published_at_or_observed_at''"] f [of "''source_url_or_evidence''"]
      f [of "''body_state_or_signal''"] f [of "''confirmation_policy''"] f [of "''quality_pre_gate_decision''"] by blast
  then show ?thesis by (simp add: payload_of_def Let_def)
qed

lemma map_record_ok:
  assumes "strings_only r"
  shows "\<exists>m. map_eq_record_to_raw_event sha256 sha1 parsedate now_iso r dk cid at_iso = Inr m"
proof -
  obtain v sid where v: "record_type_of r = Inr v" "str_field r ''source_id'' = Inr sid"
    using record_type_ok [OF assms] str_field_ok [OF assms] by blast
  show ?thesis
  proof (cases "known_type v")
    case (Some rt)
    obtain p where "payload_of sha256 sha1 parsedate now_iso r rt (or_str sid [])
      (or_str (or_opt (record_external_url r) (record_canonical r)) []) dk cid at_iso = Inr p"
      using payload_ok [OF assms] by blast
    then show ?thesis by (simp add: map_eq_record_to_raw_event_def Let_def v Some)
  qed (simp add: map_eq_record_to_raw_event_def v)
qed

lemma bridge_loop_ok:
  assumes "\<And>i r. r \<in> set rs \<Longrightarrow> \<exists>m. mp i r = Inr m"
  shows "\<exists>c' b'. bridge_loop mp k i rs c b = (Inr c', b')"
  using assms
proof (induction rs arbitrary: i c b)
  case (Cons r rs)
  obtain p st why where m: "mp i r = Inr (p, st, why)" using Cons.prems [of r i] by auto
  have IH: "\<exists>c' b'. bridge_loop mp k i rs c b = (Inr c', b')" for i c b using Cons by simp
  show ?case
  proof (cases p)
    case None
    with m IH [of "Suc i"] show ?thesis by simp
  next
    case (Some q)
    with m IH [of "Suc i"] show ?thesis by (simp split: prod.split)
  qed
qed simp

lemma bridge_batch_ok:
  assumes "list_all strings_only rs"
  shows "\<exists>bridge s'. bridge_batch xe po cfg now_iso rs s = (Inr bridge, s')"
proof -
  let ?mp = "\<lambda>i r. map_eq_record_to_raw_event (po_sha256 po) (po_sha1 po) (xe_parsedate xe) now_iso r
        (dict_get [] i) (dict_get [] i) (Some now_iso)"
  have ok: "\<exists>m. ?mp i r = Inr m" if "r \<in> set rs" for i :: nat and r
    using assms that map_record_ok by (simp add: list_all_iff)
  obtain c' b' where "bridge_loop ?mp (run_sink po cfg) 0 rs no_counts
      \<lparr>bw_seen_hashes = [], bw_written = 0, bw_duplicates = 0, bw_failed = 0, bw_world = s\<rparr> = (Inr c', b')"
    using bridge_loop_ok [of rs ?mp, OF ok] by blast
  then show ?thesis by (simp add: bridge_batch_def bridge_records_def)
qed

lemma resolve_ok: "\<exists>j s'. resolve_events po ws cs s = (Inr j, s')"
  by (auto simp: resolve_events_def try_act_def bind_act_def split: option.split sum.split prod.split)

text \<open>What a run relies on: artifacts that decode, and a queue file that fails only with \<open>OSError\<close>.\<close>

definition artifacts_readable :: "'s run_ports \<Rightarrow> run_config \<Rightarrow> bool" where
  "artifacts_readable po cfg \<longleftrightarrow> (\<forall>probe sid s pr s'. po_probe po = Some probe \<longrightarrow>
     probe sid (rg_force cfg) s = (Inr pr, s') \<longrightarrow> readable pr)"

definition queue_fails_as_os :: "'s run_ports \<Rightarrow> bool" where
  "queue_fails_as_os po \<longleftrightarrow> (\<forall>content s e s'. po_append_queue po content s = (Inl e, s') \<longrightarrow> po_is_os_error po e)"

lemma append_ok:
  assumes "queue_fails_as_os po"
  shows "\<exists>n s'. append_queue po cfg ws s = (Inr n, s')"
  using assms by (fastforce simp: queue_fails_as_os_def append_queue_def try_act_def bind_act_def split: sum.split prod.split)

lemma due_are_profiles:
  assumes "plan_of_run cfg inp prior g = Inr plan"
  shows "set (rp_due_sources plan) \<subseteq> sp_source_id ` set (ri_profiles inp)"
proof -
  obtain env acc where acc: "plan_all env (ri_profiles inp) \<lparr>pa_due = [], pa_skipped = [], pa_reasons = [], pa_strategies = []\<rparr> = Inr acc"
    "rp_due_sources plan = pa_due (cap_due (rg_max_sources cfg) acc)"
    using assms by (auto simp: plan_of_run_def build_production_run_plan_def bind_res_Inr_iff Let_def)
  have "set (pa_due (cap_due (rg_max_sources cfg) acc)) \<subseteq> set (pa_due acc)"
    by (auto simp: cap_due_def Let_def split: option.splits if_splits dest: in_set_takeD)
  with plan_all_due [OF acc(1)] acc(2) show ?thesis by auto
qed

lemma run_returns:
  assumes prior: "load_production_state (rf_state fs) = Inr prior"
    and plan: "plan_of_run cfg inp prior (if rg_write_outputs cfg then gov_open (rf_governor fs) else []) = Inr plan"
    and policy: "policy_ok xe"
    and readable: "artifacts_readable po cfg" and queue: "queue_fails_as_os po"
  shows "\<exists>res fs' s'. run_production_orchestration xe po cfg inp fs s = (Inr (res, fs'), s') \<and> rr_plan res = plan \<and>
    (po_probe po \<noteq> None \<and> rg_mode cfg \<noteq> MODE_DRY_RUN \<and> rg_write_outputs cfg \<longrightarrow>
      (\<forall>sid \<in> set (rp_due_sources plan).
        dict_get (get_or (gov_open (rf_governor fs')) sid []) ''last_call_at'' = Some (JStr (iso_now (ri_now inp)))))"
proof -
  let ?g0 = "if rg_write_outputs cfg then gov_open (rf_governor fs) else []"
  obtain g co s1 where probes: "run_probes xe po cfg inp (rp_due_sources plan) ?g0 s = (Inr (g, co), s1)"
    "all_strings co"
    "po_probe po \<noteq> None \<and> rg_mode cfg \<noteq> MODE_DRY_RUN \<Longrightarrow>
       \<forall>sid \<in> set (rp_due_sources plan). probed (ri_now inp) g co sid"
  proof (cases "po_probe po \<noteq> None \<and> rg_mode cfg \<noteq> MODE_DRY_RUN")
    case True
    then obtain probe where p: "po_probe po = Some probe" "rg_mode cfg \<noteq> MODE_DRY_RUN" by auto
    have start: "\<forall>sid \<in> {}. probed (ri_now inp) ?g0 nothing_collected sid" "all_strings nothing_collected"
      by (simp_all add: nothing_collected_def)
    have "\<exists>g' co' s'. probe_all xe (\<lambda>sid. probe sid (rg_force cfg)) (ri_profiles inp) (ri_now inp) (rp_due_sources plan)
        ?g0 nothing_collected s = (Inr (g', co'), s') \<and> all_strings co' \<and>
      (\<forall>sid \<in> {} \<union> (set (rp_due_sources plan) \<inter> sp_source_id ` set (ri_profiles inp)). probed (ri_now inp) g' co' sid)"
      by (rule probe_all_ok [OF policy _ start]) (use readable p(1) in \<open>auto simp: artifacts_readable_def\<close>)
    then obtain g co s1 where r: "probe_all xe (\<lambda>sid. probe sid (rg_force cfg)) (ri_profiles inp) (ri_now inp)
        (rp_due_sources plan) ?g0 nothing_collected s = (Inr (g, co), s1)" "all_strings co"
      "\<forall>sid \<in> set (rp_due_sources plan) \<inter> sp_source_id ` set (ri_profiles inp). probed (ri_now inp) g co sid"
      by auto
    have "run_probes xe po cfg inp (rp_due_sources plan) ?g0 s = (Inr (g, co), s1)"
      using p r(1) by (simp add: run_probes_def)
    moreover have "\<forall>sid \<in> set (rp_due_sources plan). probed (ri_now inp) g co sid"
      using r(3) due_are_profiles [OF plan] by blast
    ultimately show thesis using r(2) that by blast
  next
    case False
    then have "run_probes xe po cfg inp (rp_due_sources plan) ?g0 s = (Inr (?g0, nothing_collected), s)"
      by (auto simp: run_probes_def split: option.split)
    with False show thesis by (intro that) (auto simp: nothing_collected_def)
  qed
  let ?du = "dedup_batch (xe_digest xe) (xe_parsedate xe) (run_id_of (ri_now inp)) 0 (co_eq_records co) (open_index cfg fs)"
  have strings: "list_all strings_only (du_written ?du)"
    using probes(2) by (intro dedup_batch_strings) (simp_all add: open_index_def)
  obtain j s2 where r: "resolve_events po (du_written ?du) (clusters_of xe (du_written ?du)) s1 = (Inr j, s2)"
    using resolve_ok [of po "du_written ?du" "clusters_of xe (du_written ?du)" s1] by (elim exE) (rule that)
  obtain n s3 where q: "append_queue po cfg (du_written ?du) s2 = (Inr n, s3)"
    using append_ok [OF queue, of cfg "du_written ?du" s2] by (elim exE) (rule that)
  obtain bridge s4 where b: "bridge_batch xe po cfg (iso_now (ri_now inp)) (du_written ?du) s3 = (Inr bridge, s4)"
    using bridge_batch_ok [OF strings, of xe po cfg "iso_now (ri_now inp)" s3] by (elim exE) (rule that)
  let ?states = "map (final_state g co (ri_now inp)) (derive_states inp prior)"
  have run: "run_production_orchestration xe po cfg inp fs s =
      (Inr (result_of po cfg inp plan co ?du (clusters_of xe (du_written ?du)) j n bridge ?states,
        save_files cfg inp ?states ?du g fs), s4)"
    unfolding run_production_orchestration_def Let_def by (simp add: bind_act_def prior plan probes(1) r q b)
  have "rr_plan (result_of po cfg inp plan co ?du (clusters_of xe (du_written ?du)) j n bridge ?states) = plan"
    by (simp add: result_of_def Let_def)
  moreover have "\<forall>sid \<in> set (rp_due_sources plan). dict_get (get_or (gov_open (rf_governor (save_files cfg inp ?states ?du g fs))) sid [])
      ''last_call_at'' = Some (JStr (iso_now (ri_now inp)))"
    if "po_probe po \<noteq> None \<and> rg_mode cfg \<noteq> MODE_DRY_RUN \<and> rg_write_outputs cfg"
    using probes(3) that by (simp add: save_files_def probed_def iso_now_def)
  ultimately show ?thesis using run by blast
qed

section \<open>Properties\<close>


definition handed_on :: "run_result \<Rightarrow> eq_record list" where
  "handed_on res = rm_sample (mo_metrics (rr_summary res))"

lemma handed_on_result:
  "handed_on (result_of po cfg inp plan co du clusters j n bridge states) = du_written du"
  by (simp add: handed_on_def result_of_def build_monitoring_summary_def metrics_of_def Let_def)

lemma run_passes:
  assumes "run_production_orchestration xe po cfg inp fs s = (Inr (res, fs'), s')" "rg_write_outputs cfg"
  shows "\<exists>n du du'. passes xe du n du' \<and> handed_on res = du_written du' \<and> du_written du = [] \<and>
    du_index du = load_index (rf_dedup fs) \<and> du_index du' = load_index (rf_dedup fs')"
proof -
  obtain prior plan g co du j n bridge where
    du: "du = dedup_batch (xe_digest xe) (xe_parsedate xe) (run_id_of (ri_now inp)) 0 (co_eq_records co) (open_index cfg fs)"
    and res: "res = result_of po cfg inp plan co du (clusters_of xe (du_written du)) j n bridge
       (map (final_state g co (ri_now inp)) (derive_states inp prior))"
    and fs': "fs' = save_files cfg inp (map (final_state g co (ri_now inp)) (derive_states inp prior)) du g fs"
    using run_parts [OF assms(1)] by metis
  have "passes xe (open_index cfg fs) (length (co_eq_records co)) du"
    unfolding du by (rule dedup_batch_passes)
  moreover have "handed_on res = du_written du" unfolding res by (rule handed_on_result)
  moreover have "du_index (open_index cfg fs) = load_index (rf_dedup fs)" "du_written (open_index cfg fs) = []"
    using assms(2) by (simp_all add: open_index_def)
  moreover have "du_index du = load_index (rf_dedup fs')" using assms(2) fs' by (simp add: save_files_def)
  ultimately show ?thesis by metis
qed



definition released :: "production_source_state \<Rightarrow> production_source_state" where
  "released s = s\<lparr>ps_current_status := PRODUCTION_READY, ps_production_ready := True, ps_quarantine_until := None,
     ps_cooldown_until := None, ps_rate_limit_status := None, ps_terminal_reason := None\<rparr>"

lemma released_fields [simp]:
  "ps_source_id (released s) = ps_source_id s"
  "ps_last_success_at (released s) = ps_last_success_at s" "ps_last_failure_at (released s) = ps_last_failure_at s"
  "ps_failure_count (released s) = ps_failure_count s"
  "ps_consecutive_failure_count (released s) = ps_consecutive_failure_count s"
  by (simp_all add: released_def)

lemma sort_released: "map released (sort_key ps_source_id xs) = sort_key ps_source_id (map released xs)"
proof -
  have "map released (insort_key ps_source_id x ys) = insort_key ps_source_id (released x) (map released ys)" for x ys
    by (induction ys) simp_all
  then show ?thesis by (induction xs) simp_all
qed

lemma load_released:
  "load_production_state (save_production_state (map released states) rid) =
   map_sum id (map (\<lambda>(k, s). (k, released s))) (load_production_state (save_production_state states rid))"
  using dict_of_map_values [of released "[]" ps_source_id "sort_key ps_source_id states"]
  by (simp add: load_save_states dict_of_def comp_def flip: sort_released)

lemma get_released: "dict_get (map (\<lambda>(k, s). (k, released s)) prior) sid = map_option released (dict_get prior sid)"
  by (induction prior) auto

lemma released_same_plan:
  "derive_states inp (map (\<lambda>(k, s). (k, released s)) prior) = derive_states inp prior"
  "plan_of_run cfg inp (map (\<lambda>(k, s). (k, released s)) prior) g = plan_of_run cfg inp prior g"
proof -
  show same: "derive_states inp (map (\<lambda>(k, s). (k, released s)) prior) = derive_states inp prior"
    by (auto simp: derive_states_def derive_args_of_def get_released Let_def split: option.split)
  have "last_runs (map (\<lambda>(k, s). (k, released s)) prior) = last_runs prior"
    by (induction prior) (auto simp: last_runs_def map_filter_simps split: option.split)
  with same show "plan_of_run cfg inp (map (\<lambda>(k, s). (k, released s)) prior) g = plan_of_run cfg inp prior g"
    by (simp add: plan_of_run_def)
qed


section \<open>Failures that the run does not treat as its comments say\<close>

text \<open>An artifact that is no UTF-8 raises \<open>UnicodeDecodeError\<close>, no \<open>OSError\<close>: it ends the whole run.\<close>

lemma undecodable_artifact_ends_run:
  assumes "find (\<lambda>p. sp_source_id p = sid) profiles = Some profile" "probe sid s = (Inr pr, s')"
    and "\<not> is_rate_limited pr" "choose_artifact (pr_artifacts pr) = Inl e"
  shows "probe_all xe probe profiles now (sid # sids) g co s = (Inl e, s')"
  using assms by (simp add: judge_probe_def extract_records_def Let_def)

text \<open>A probe that raises counts as a failure, but its category is none that quarantines, however often it happens.\<close>

lemma raising_probe_never_quarantines:
  assumes "dict_get (co_outcomes co) (ps_source_id s) = Some ''failure''"
    and "dict_get (co_failure_category co) (ps_source_id s) = Some ''PROBE_EXCEPTION''"
    and "ps_current_status s = PRODUCTION_READY"
  shows "patch_outcome co now s = (count_failure (iso_z (utc now)) s, False)"
proof -
  have u: "upper ''PROBE_EXCEPTION'' = ''PROBE_EXCEPTION''" "upper ''PRODUCTION_READY'' = ''PRODUCTION_READY''"
    by code_simp+
  show ?thesis
    using assms by (simp add: patch_outcome_def evaluate_quarantine_def u PRODUCTION_READY_def Let_def
      POLICY_TERMINAL_CATEGORIES_def BODY_FETCH_FAILURE_def RETRYABLE_FAILURE_def or_str_def)
qed

text \<open>A cooldown stays in the governor's table: long after it has passed, a successful source is saved as cooling.\<close>

lemma elapsed_cooldown_marks_source:
  assumes "gov_cooldown_until g (ps_source_id s) = Some (JStr cd)" "cd \<noteq> []" "ps_production_ready s"
    and "ps_current_status s \<noteq> POLICY_EXCLUDED" "dict_get (co_outcomes co) (ps_source_id s) = Some ''success''"
  shows "ps_current_status (final_state g co now s) = COOLDOWN \<and> ps_cooldown_until (final_state g co now s) = Some cd"
  using assms by (simp add: final_state_def patch_cooldown_def patch_outcome_def succeeded_def Let_def)

section \<open>Witnesses\<close>

definition demo_extract :: extract_env where
  "demo_extract = \<lparr>xe_decode = (\<lambda>_. Inr (JObj [(''articles'', JList [JObj [(''title'', JStr ''Quake'')]])])),
     xe_parse_xml = (\<lambda>_. Inl []), xe_unescape = (\<lambda>s. s), xe_nfkc = (\<lambda>s. s), xe_digest = no_digest,
     xe_parsedate = no_mail_date, xe_policy = None\<rparr>"

definition demo_probe :: "string \<Rightarrow> bool \<Rightarrow> (nat, probe_reply) act" where
  "demo_probe sid force = (\<lambda>n. (Inr \<lparr>pr_status = ''LIVE_SUCCESS'', pr_error_category = None, pr_http_status = None,
     pr_artifacts = [None, Some (''a.json'', Content ''{}'')]\<rparr>, n + 1))"

text \<open>The database refuses every event and the event sink raises.\<close>

definition demo_ports :: "nat run_ports" where
  "demo_ports = \<lparr>po_probe = Some demo_probe, po_db_writer = Some (\<lambda>_. raise_act (RuntimeError ''down'')),
     po_event_sink = Some (\<lambda>_ _. raise_act TypeError), po_append_mirror = (\<lambda>_. ret_act ()), po_append_queue = (\<lambda>_. ret_act ()),
     po_is_os_error = (\<lambda>_. False), po_dumps = (\<lambda>_. ''{}''), po_sha256 = no_digest, po_sha1 = no_digest, po_alnum = (\<lambda>_. False)\<rparr>"

definition live_config :: run_config where
  "live_config = \<lparr>rg_mode = MODE_VALIDATION, rg_max_sources = None, rg_all_due = False, rg_force = False,
     rg_write_outputs = True\<rparr>"

definition demo_input :: "instant \<Rightarrow> run_input" where
  "demo_input now = \<lparr>ri_profiles = [sample_profile], ri_memory = [], ri_api_ready = [], ri_now = now\<rparr>"

definition no_files :: run_files where
  "no_files = \<lparr>rf_state = FileMissing, rf_dedup = FileMissing, rf_governor = FileMissing\<rparr>"

lemma demo_policy: "policy_ok demo_extract"
  by (auto simp: policy_ok_def demo_extract_def load_gate_policy_def publication_policy_for_def sub_config_def
      json_truthy_def is_zero_def get_or_def Let_def)

lemma demo_plan:
  "(case plan_of_run live_config (demo_input 900000000) [] [] of Inl _ \<Rightarrow> False | Inr plan \<Rightarrow> rp_due_sources plan = [''gdelt''])"
  by code_simp

lemma demo_ports_ok: "artifacts_readable demo_ports cfg" "queue_fails_as_os demo_ports"
  by (simp_all add: artifacts_readable_def queue_fails_as_os_def demo_ports_def demo_probe_def readable_def)

lemma demo_start:
  assumes "rf_governor fs = FileMissing"
  obtains plan where "plan_of_run live_config (demo_input 900000000) []
      (if rg_write_outputs live_config then gov_open (rf_governor fs) else []) = Inr plan" "rp_due_sources plan = [''gdelt'']"
  using demo_plan assms by (auto simp: live_config_def gov_open_def split: sum.splits)

lemma demo_load: "rf_state fs = FileMissing \<Longrightarrow> load_production_state (rf_state fs) = Inr []"
  by (simp add: load_production_state_def)

lemma run_demo_result:
  assumes "rf_state fs = FileMissing" "rf_governor fs = FileMissing"
  obtains res fs' s' where
    "run_production_orchestration demo_extract demo_ports live_config (demo_input 900000000) fs 0 = (Inr (res, fs'), s')"
proof -
  obtain plan where plan: "plan_of_run live_config (demo_input 900000000) []
      (if rg_write_outputs live_config then gov_open (rf_governor fs) else []) = Inr plan"
    using demo_start [OF assms(2)] by metis
  show thesis
    using run_returns [OF demo_load [OF assms(1)] plan demo_policy demo_ports_ok, where s = 0] that by (elim exE conjE)
qed

lemma no_files_missing: "rf_state no_files = FileMissing" "rf_governor no_files = FileMissing"
  by (simp_all add: no_files_def)




definition quarantined_state :: production_source_state where
  "quarantined_state = (derive_production_state sample_profile (derive_args_of (demo_input 0) [] ''gdelt''))
     \<lparr>ps_current_status := QUARANTINED, ps_production_ready := False,
      ps_quarantine_until := Some ''9999-12-31T00:00:00Z''\<rparr>"


text \<open>So a source that is quarantined until the year 9999 is due in the next run.\<close>

lemma quarantined_source_is_due_again:
  "case load_production_state (save_production_state [quarantined_state] None) of Inl _ \<Rightarrow> False
     | Inr prior \<Rightarrow> (case plan_of_run live_config (demo_input 900000000) prior [] of Inl _ \<Rightarrow> False
         | Inr plan \<Rightarrow> rp_due_sources plan = [''gdelt''])"
  using demo_plan released_same_plan(2) [of live_config "demo_input 900000000" "[(''gdelt'', quarantined_state)]" "[]"]
  by code_simp

end
