(* ===== verification/Eval_Dataset.thy ===== *)
theory Eval_Dataset
  imports Adjudication Py_Lines
begin

text \<open>
  The labelled pairs that measure the shadow judgement:
  \<open>backend/app/services/identity_eval_dataset.py\<close>.

  A row is a JSON object. A pair id of another type than a string is outside the model
  (\<open>TypeError\<close>), as is a row that is a JSON list; every other check is written out. A rate is a
  rational, rounded to four decimals. Error messages are shortened.
\<close>

named_theorems row_checks \<open>when a check of a row passes\<close>

section \<open>Rows\<close>

definition LABEL_SAME :: string where "LABEL_SAME = ''same_event''"
definition LABEL_DIFFERENT :: string where "LABEL_DIFFERENT = ''different_event''"
definition LABEL_AMBIGUOUS :: string where "LABEL_AMBIGUOUS = ''ambiguous''"
definition LABEL_INSUFFICIENT :: string where "LABEL_INSUFFICIENT = ''insufficient''"

definition GOLD_LABELS :: "string list" where
  "GOLD_LABELS = [LABEL_SAME, LABEL_DIFFERENT, LABEL_AMBIGUOUS, LABEL_INSUFFICIENT]"

definition LANGUAGES :: "string list" where
  "LANGUAGES = [''ko'', ''en'', ''mixed'', ''unknown'']"

definition SOURCE_TYPES :: "string list" where
  "SOURCE_TYPES = [''article'', ''official'', ''community'', ''market'', ''catalog'', ''search'', ''unknown'']"

definition EVAL_REQUIRED_KEYS :: "string list" where
  "EVAL_REQUIRED_KEYS = [''pair_id'', ''label'', ''language'', ''source_type_left'', ''source_type_right'',
     ''title_left'', ''title_right'', ''observed_at_left'', ''observed_at_right'']"

definition EVAL_ALLOWED_KEYS :: "string list" where
  "EVAL_ALLOWED_KEYS = [''pair_id'', ''label'', ''language'', ''source_type_left'', ''source_type_right'',
     ''title_left'', ''title_right'', ''observed_at_left'', ''observed_at_right'',
     ''canonical_url_left'', ''canonical_url_right'', ''rationale'', ''risk_tags'']"

definition MAX_EVAL_TITLE_LEN :: nat where "MAX_EVAL_TITLE_LEN = 512"

record eval_pair =
  ep_pair_id :: string
  ep_label :: string
  ep_language :: string
  ep_source_type_left :: string
  ep_source_type_right :: string
  ep_title_left :: string
  ep_title_right :: string
  ep_observed_at_left :: json
  ep_observed_at_right :: json
  ep_canonical_url_left :: json
  ep_canonical_url_right :: json
  ep_rationale :: json
  ep_risk_tags :: "string list"

section \<open>Validation\<close>

definition ensure :: "bool \<Rightarrow> py_exn \<Rightarrow> unit res" where
  "ensure b e = (if b then Inr () else Inl e)"

text \<open>\<open>set(row)\<close>: a string is a set of characters, none of which is an allowed key.\<close>

definition row_dict :: "json \<Rightarrow> (string, json) dict res" where
  "row_dict row = (case row of JObj d \<Rightarrow> Inr d | JStr _ \<Rightarrow> Inl (ValueError ''keys'') | _ \<Rightarrow> Inl TypeError)"

definition keys_within :: "string list \<Rightarrow> (string, json) dict \<Rightarrow> bool" where
  "keys_within allowed d \<longleftrightarrow> list_all (\<lambda>k. k \<in> set allowed) (map fst d)"

definition has_keys :: "string list \<Rightarrow> (string, json) dict \<Rightarrow> bool" where
  "has_keys required d \<longleftrightarrow> list_all (\<lambda>k. dict_get d k \<noteq> None) required"

definition str_at :: "string \<Rightarrow> (string, json) dict \<Rightarrow> string res" where
  "str_at k d = (case dict_get d k of None \<Rightarrow> Inl (KeyError k) | Some (JStr s) \<Rightarrow> Inr s | Some _ \<Rightarrow> Inl TypeError)"

definition check_fresh :: "'a \<Rightarrow> 'a list \<Rightarrow> unit res" where
  "check_fresh key seen = ensure (key \<notin> set seen) (ValueError ''duplicate'')"

text \<open>\<open>v not in SET\<close> for a set of strings: a list or a dictionary has no hash.\<close>

definition in_enum :: "string list \<Rightarrow> json option \<Rightarrow> unit res" where
  "in_enum enum v = (case v of
      None \<Rightarrow> Inl (KeyError ''enum'')
    | Some (JStr s) \<Rightarrow> ensure (s \<in> set enum) (ValueError s)
    | Some (JList _) \<Rightarrow> Inl TypeError
    | Some (JObj _) \<Rightarrow> Inl TypeError
    | Some _ \<Rightarrow> Inl (ValueError ''enum''))"

definition title_fits :: "json option \<Rightarrow> bool" where
  "title_fits v \<longleftrightarrow> (case v of Some (JStr s) \<Rightarrow> py_len s \<le> MAX_EVAL_TITLE_LEN | _ \<Rightarrow> False)"

definition check_titles :: "(string, json) dict \<Rightarrow> unit res" where
  "check_titles d = ensure (title_fits (dict_get d ''title_left'') \<and> title_fits (dict_get d ''title_right''))
     (ValueError ''title'')"

definition is_json_str :: "json \<Rightarrow> bool" where
  "is_json_str v \<longleftrightarrow> (case v of JStr _ \<Rightarrow> True | _ \<Rightarrow> False)"

definition check_risk_tags :: "(string, json) dict \<Rightarrow> unit res" where
  "check_risk_tags d = ensure
     (case get_or d ''risk_tags'' (JList []) of JList vs \<Rightarrow> list_all is_json_str vs | _ \<Rightarrow> False)
     (ValueError ''risk_tags'')"

definition check_content :: "(string, json) dict \<Rightarrow> unit res" where
  "check_content d =
    bind_res (in_enum LANGUAGES (dict_get d ''language'')) (\<lambda>_.
    bind_res (in_enum SOURCE_TYPES (dict_get d ''source_type_left'')) (\<lambda>_.
    bind_res (in_enum SOURCE_TYPES (dict_get d ''source_type_right'')) (\<lambda>_. check_titles d)))"

definition validate_row :: "string list \<Rightarrow> json \<Rightarrow> string list res" where
  "validate_row seen row =
    bind_res (row_dict row) (\<lambda>d.
    bind_res (ensure (keys_within EVAL_ALLOWED_KEYS d) (ValueError ''disallowed keys'')) (\<lambda>_.
    bind_res (ensure (has_keys EVAL_REQUIRED_KEYS d) (ValueError ''missing required keys'')) (\<lambda>_.
    bind_res (str_at ''pair_id'' d) (\<lambda>pid.
    bind_res (check_fresh pid seen) (\<lambda>_.
    bind_res (in_enum GOLD_LABELS (dict_get d ''label'')) (\<lambda>_.
    bind_res (check_content d) (\<lambda>_.
    bind_res (check_risk_tags d) (\<lambda>_. Inr (pid # seen)))))))))"

section \<open>Loading\<close>

text \<open>The fields of a row that has passed its validation.\<close>

definition text_of :: "(string, json) dict \<Rightarrow> string \<Rightarrow> string" where
  "text_of d k = (case dict_get d k of Some (JStr s) \<Rightarrow> s | _ \<Rightarrow> [])"

definition tags_of :: "(string, json) dict \<Rightarrow> string list" where
  "tags_of d = (case get_or d ''risk_tags'' (JList []) of
     JList vs \<Rightarrow> map (\<lambda>v. case v of JStr s \<Rightarrow> s | _ \<Rightarrow> []) vs | _ \<Rightarrow> [])"

definition eval_pair_of :: "json \<Rightarrow> eval_pair" where
  "eval_pair_of row = (let d = obj_of row in
     \<lparr>ep_pair_id = text_of d ''pair_id'', ep_label = text_of d ''label'', ep_language = text_of d ''language'',
      ep_source_type_left = text_of d ''source_type_left'', ep_source_type_right = text_of d ''source_type_right'',
      ep_title_left = text_of d ''title_left'', ep_title_right = text_of d ''title_right'',
      ep_observed_at_left = get_or d ''observed_at_left'' JNull,
      ep_observed_at_right = get_or d ''observed_at_right'' JNull,
      ep_canonical_url_left = get_or d ''canonical_url_left'' JNull,
      ep_canonical_url_right = get_or d ''canonical_url_right'' JNull,
      ep_rationale = get_or d ''rationale'' JNull, ep_risk_tags = tags_of d\<rparr>)"

text \<open>The loop over the lines that the loaders of labelled files share.\<close>

definition skipped_line :: "string \<Rightarrow> bool" where
  "skipped_line line \<longleftrightarrow> line = [] \<or> startswith line ''#''"

fun load_lines :: "(string \<Rightarrow> json option) \<Rightarrow> ('s \<Rightarrow> json \<Rightarrow> 's res) \<Rightarrow> (json \<Rightarrow> 'a) \<Rightarrow> 's \<Rightarrow> string list \<Rightarrow> 'a list res" where
  "load_lines loads validate build seen [] = Inr []"
| "load_lines loads validate build seen (l # ls) =
     (let line = strip l in
      if skipped_line line then load_lines loads validate build seen ls
      else case loads line of
          None \<Rightarrow> Inl (ValueError ''invalid JSON'')
        | Some row \<Rightarrow> bind_res (validate seen row) (\<lambda>seen'.
            bind_res (load_lines loads validate build seen' ls) (\<lambda>ps. Inr (build row # ps))))"

definition load_eval_pairs :: "(string \<Rightarrow> json option) \<Rightarrow> string \<Rightarrow> eval_pair list res" where
  "load_eval_pairs loads content = load_lines loads validate_row eval_pair_of [] (splitlines content)"

section \<open>Prediction\<close>

definition EPOCH :: datetime where "EPOCH = utc 0"

definition parse_stamp :: "string \<Rightarrow> datetime" where
  "parse_stamp s = (case fromisoformat (py_replace ''Z'' ''+00:00'' (strip s)) of
     None \<Rightarrow> EPOCH | Some dt \<Rightarrow> assume_utc dt)"

definition parse_dt :: "json \<Rightarrow> datetime res" where
  "parse_dt raw = (case raw of JStr s \<Rightarrow> Inr (parse_stamp s)
     | _ \<Rightarrow> if json_truthy raw then Inl AttributeError else Inr (parse_stamp []))"

text \<open>
  The judgement reads only the calendar date of a view's time, in the zone of the datetime: the view of a
  pair holds the wall time.
\<close>

definition pair_view :: "string \<Rightarrow> string \<Rightarrow> datetime \<Rightarrow> string \<Rightarrow> event_view" where
  "pair_view side title dt source_type =
     \<lparr>vw_event_id = side, vw_canonical_title = title, vw_first_seen_at = Some (wall dt), vw_source_types = [source_type]\<rparr>"

definition pair_to_views :: "eval_pair \<Rightarrow> (event_view \<times> event_view) res" where
  "pair_to_views p =
    bind_res (parse_dt (ep_observed_at_left p)) (\<lambda>dl.
    bind_res (parse_dt (ep_observed_at_right p)) (\<lambda>dr.
      Inr (pair_view ''L'' (ep_title_left p) dl (ep_source_type_left p),
           pair_view ''R'' (ep_title_right p) dr (ep_source_type_right p))))"

definition judge_views :: "event_view \<times> event_view \<Rightarrow> string" where
  "judge_views vs = (case vs of (left, right) \<Rightarrow>
     fst (classify_identity_candidate (build_adjudication_features left right False)))"

definition predict_status :: "eval_pair \<Rightarrow> string res" where
  "predict_status p = bind_res (pair_to_views p) (\<lambda>vs. Inr (judge_views vs))"

section \<open>Metrics\<close>

record confusion =
  cf_tp :: nat
  cf_fp :: nat
  cf_fn :: nat
  cf_tn :: nat
  cf_ambiguous :: nat
  cf_insufficient :: nat
  cf_same :: nat
  cf_different :: nat

record eval_metrics =
  em_count :: nat
  em_tp :: nat
  em_fp :: nat
  em_fn :: nat
  em_tn :: nat
  em_precision :: "rat option"
  em_false_positive_rate :: "rat option"
  em_recall :: "rat option"
  em_ambiguous_rate :: "rat option"
  em_insufficient_rate :: "rat option"
  em_coverage :: "rat option"

definition safe_div :: "nat \<Rightarrow> nat \<Rightarrow> rat option" where
  "safe_div num den = (if den = 0 then None else Some (round4 (of_nat num / of_nat den)))"

definition no_confusion :: confusion where
  "no_confusion = \<lparr>cf_tp = 0, cf_fp = 0, cf_fn = 0, cf_tn = 0, cf_ambiguous = 0, cf_insufficient = 0, cf_same = 0, cf_different = 0\<rparr>"

definition count_gold :: "bool \<Rightarrow> bool \<Rightarrow> confusion \<Rightarrow> confusion" where
  "count_gold pred_same gold_same c =
    (if pred_same \<and> gold_same then c\<lparr>cf_tp := cf_tp c + 1\<rparr>
     else if pred_same then c\<lparr>cf_fp := cf_fp c + 1\<rparr>
     else if gold_same then c\<lparr>cf_fn := cf_fn c + 1\<rparr>
     else c\<lparr>cf_tn := cf_tn c + 1\<rparr>)"

definition count_prediction :: "string \<Rightarrow> confusion \<Rightarrow> confusion" where
  "count_prediction pred c =
    (if pred = ADJ_AMBIGUOUS then c\<lparr>cf_ambiguous := cf_ambiguous c + 1\<rparr>
     else if pred = ADJ_INSUFFICIENT then c\<lparr>cf_insufficient := cf_insufficient c + 1\<rparr>
     else if pred = ADJ_LIKELY_SAME then c\<lparr>cf_same := cf_same c + 1\<rparr>
     else if pred = ADJ_LIKELY_DIFFERENT then c\<lparr>cf_different := cf_different c + 1\<rparr>
     else c)"

text \<open>The predictions by pair id; every pair that is measured has one (\<open>preds_total\<close> below).\<close>

definition count_pair :: "(string, string) dict \<Rightarrow> confusion \<Rightarrow> eval_pair \<Rightarrow> confusion" where
  "count_pair preds c p = (let pred = get_or preds (ep_pair_id p) [] in
     count_prediction pred (count_gold (pred = ADJ_LIKELY_SAME) (ep_label p = LABEL_SAME) c))"

definition metrics_for :: "eval_pair list \<Rightarrow> (string, string) dict \<Rightarrow> eval_metrics" where
  "metrics_for pairs preds = (let c = foldl (count_pair preds) no_confusion pairs; total = length pairs in
     \<lparr>em_count = total, em_tp = cf_tp c, em_fp = cf_fp c, em_fn = cf_fn c, em_tn = cf_tn c,
      em_precision = safe_div (cf_tp c) (cf_tp c + cf_fp c),
      em_false_positive_rate = safe_div (cf_fp c) (cf_fp c + cf_tn c),
      em_recall = safe_div (cf_tp c) (cf_tp c + cf_fn c),
      em_ambiguous_rate = safe_div (cf_ambiguous c) total,
      em_insufficient_rate = safe_div (cf_insufficient c) total,
      em_coverage = safe_div (cf_same c + cf_different c) total\<rparr>)"

text \<open>\<open>sorted({...})\<close> and the key of an unordered pair of source types.\<close>

definition sorted_set :: "string list \<Rightarrow> string list" where
  "sorted_set xs = sort (remdups xs)"

definition source_type_key :: "string \<Rightarrow> string \<Rightarrow> string" where
  "source_type_key a b = str_join ''|'' (sort [a, b])"

definition pair_key :: "eval_pair \<Rightarrow> string" where
  "pair_key p = source_type_key (ep_source_type_left p) (ep_source_type_right p)"

definition breakdown :: "(eval_pair \<Rightarrow> string list) \<Rightarrow> eval_pair list \<Rightarrow> (string, string) dict \<Rightarrow> (string, eval_metrics) dict" where
  "breakdown keys pairs preds =
     map (\<lambda>k. (k, metrics_for (filter (\<lambda>p. k \<in> set (keys p)) pairs) preds)) (sorted_set (concat (map keys pairs)))"

definition HARD_NEGATIVE :: string where "HARD_NEGATIVE = ''hard_negative''"

definition hard_negative_hits :: "eval_pair list \<Rightarrow> (string, string) dict \<Rightarrow> nat" where
  "hard_negative_hits pairs preds = length (filter (\<lambda>p. HARD_NEGATIVE \<in> set (ep_risk_tags p) \<and>
     ep_label p \<noteq> LABEL_SAME \<and> get_or preds (ep_pair_id p) [] = ADJ_LIKELY_SAME) pairs)"

record merge_gate =
  mg_precision_ok :: bool
  mg_fpr_ok :: bool
  mg_hard_negative_fp_ok :: bool
  mg_korean_precision_ok :: bool
  mg_passed :: bool
  mg_auto_merge_enabled :: bool

definition GATE_PRECISION_MIN :: rat where "GATE_PRECISION_MIN = 98 / 100"
definition GATE_FPR_MAX :: rat where "GATE_FPR_MAX = 1 / 100"
definition GATE_HARD_NEGATIVE_MAX :: nat where "GATE_HARD_NEGATIVE_MAX = 0"
definition GATE_KOREAN_PRECISION_MIN :: rat where "GATE_KOREAN_PRECISION_MIN = 98 / 100"

definition at_least :: "rat \<Rightarrow> rat option \<Rightarrow> bool" where
  "at_least bnd v \<longleftrightarrow> (case v of None \<Rightarrow> False | Some x \<Rightarrow> bnd \<le> x)"

definition at_most :: "rat \<Rightarrow> rat option \<Rightarrow> bool" where
  "at_most bnd v \<longleftrightarrow> (case v of None \<Rightarrow> False | Some x \<Rightarrow> x \<le> bnd)"

definition evaluate_merge_gate :: "eval_metrics \<Rightarrow> eval_metrics option \<Rightarrow> nat \<Rightarrow> merge_gate" where
  "evaluate_merge_gate overall korean hard_negative_fp =
    (let p = at_least GATE_PRECISION_MIN (em_precision overall);
         f = at_most GATE_FPR_MAX (em_false_positive_rate overall);
         h = (hard_negative_fp \<le> GATE_HARD_NEGATIVE_MAX);
         k = at_least GATE_KOREAN_PRECISION_MIN (case korean of None \<Rightarrow> None | Some m \<Rightarrow> em_precision m)
     in \<lparr>mg_precision_ok = p, mg_fpr_ok = f, mg_hard_negative_fp_ok = h, mg_korean_precision_ok = k,
         mg_passed = (p \<and> f \<and> h \<and> k), mg_auto_merge_enabled = False\<rparr>)"

record evaluation =
  el_overall :: eval_metrics
  el_by_language :: "(string, eval_metrics) dict"
  el_by_source_type :: "(string, eval_metrics) dict"
  el_by_risk_tag :: "(string, eval_metrics) dict"
  el_hard_negative_fp :: nat
  el_merge_gate :: merge_gate
  el_auto_merged :: nat

definition predictions :: "eval_pair list \<Rightarrow> (string, string) dict res" where
  "predictions pairs = bind_res (map_res (\<lambda>p. bind_res (predict_status p) (\<lambda>s. Inr (ep_pair_id p, s))) pairs)
     (\<lambda>ps. Inr (dict_of ps))"

definition measure_pairs :: "eval_pair list \<Rightarrow> (string, string) dict \<Rightarrow> evaluation" where
  "measure_pairs pairs preds =
    (let overall = metrics_for pairs preds; by_language = breakdown (\<lambda>p. [ep_language p]) pairs preds;
         hard = hard_negative_hits pairs preds
     in \<lparr>el_overall = overall, el_by_language = by_language,
         el_by_source_type = breakdown (\<lambda>p. [pair_key p]) pairs preds,
         el_by_risk_tag = breakdown ep_risk_tags pairs preds,
         el_hard_negative_fp = hard,
         el_merge_gate = evaluate_merge_gate overall (dict_get by_language ''ko'') hard, el_auto_merged = 0\<rparr>)"

definition evaluate_adjudicator :: "eval_pair list \<Rightarrow> evaluation res" where
  "evaluate_adjudicator pairs = bind_res (predictions pairs) (\<lambda>preds. Inr (measure_pairs pairs preds))"


section \<open>When a row passes\<close>

lemma ensure_Inr [row_checks]: "ensure b e = Inr u \<longleftrightarrow> b"
  by (simp add: ensure_def)

lemma ensure_True [simp]: "ensure True e = Inr ()"
  by (simp add: ensure_def)

lemma in_enum_Inr [row_checks]: "in_enum es v = Inr u \<longleftrightarrow> (\<exists>s \<in> set es. v = Some (JStr s))"
  by (auto simp: in_enum_def ensure_def split: option.splits json.splits)

lemma str_at_Inr [row_checks]: "str_at k d = Inr s \<longleftrightarrow> dict_get d k = Some (JStr s)"
  by (auto simp: str_at_def split: option.splits json.splits)

lemma row_dict_Inr [row_checks]: "row_dict row = Inr d \<longleftrightarrow> row = JObj d"
  by (auto simp: row_dict_def split: json.splits)

lemma check_fresh_Inr [row_checks]: "check_fresh k seen = Inr u \<longleftrightarrow> k \<notin> set seen"
  by (simp add: check_fresh_def row_checks)

lemma title_fits_iff: "title_fits v \<longleftrightarrow> (\<exists>s. v = Some (JStr s) \<and> py_len s \<le> 512)"
  by (auto simp: title_fits_def MAX_EVAL_TITLE_LEN_def split: option.splits json.splits)

text \<open>The declarative reading of the checks on the content of a pair.\<close>

definition content_ok :: "(string, json) dict \<Rightarrow> bool" where
  "content_ok d \<longleftrightarrow>
     (\<exists>s \<in> set LANGUAGES. dict_get d ''language'' = Some (JStr s)) \<and>
     (\<exists>s \<in> set SOURCE_TYPES. dict_get d ''source_type_left'' = Some (JStr s)) \<and>
     (\<exists>s \<in> set SOURCE_TYPES. dict_get d ''source_type_right'' = Some (JStr s)) \<and>
     title_fits (dict_get d ''title_left'') \<and> title_fits (dict_get d ''title_right'')"

definition tags_ok :: "(string, json) dict \<Rightarrow> bool" where
  "tags_ok d \<longleftrightarrow> (\<exists>ts. get_or d ''risk_tags'' (JList []) = JList (map JStr ts))"

lemma check_content_Inr [row_checks]: "check_content d = Inr u \<longleftrightarrow> content_ok d"
  by (auto simp: check_content_def content_ok_def check_titles_def bind_res_Inr_iff row_checks)

lemma all_strs_iff: "list_all is_json_str vs \<longleftrightarrow> (\<exists>ts. vs = map JStr ts)"
proof (induction vs)
  case (Cons v vs)
  then show ?case by (cases v) (auto simp: is_json_str_def Cons_eq_map_conv)
qed simp

lemma check_risk_tags_Inr [row_checks]: "check_risk_tags d = Inr u \<longleftrightarrow> tags_ok d"
  by (auto simp: check_risk_tags_def tags_ok_def row_checks all_strs_iff split: json.splits)

lemma tags_of_ok: "tags_ok d \<Longrightarrow> get_or d ''risk_tags'' (JList []) = JList (map JStr (tags_of d))"
  by (auto simp: tags_ok_def tags_of_def comp_def)

lemma load_lines_append_skip:
  "skipped_line (strip l) \<Longrightarrow> load_lines loads v b seen (l # ls) = load_lines loads v b seen ls"
  by (simp add: Let_def)

text \<open>Loading lines of which each holds one row is validating the rows in order.\<close>

fun check_rows :: "('s \<Rightarrow> json \<Rightarrow> 's res) \<Rightarrow> 's \<Rightarrow> json list \<Rightarrow> 's res" where
  "check_rows validate seen [] = Inr seen"
| "check_rows validate seen (r # rs) = bind_res (validate seen r) (\<lambda>seen'. check_rows validate seen' rs)"

definition encodes_rows :: "(json \<Rightarrow> string) \<Rightarrow> (string \<Rightarrow> json option) \<Rightarrow> json list \<Rightarrow> bool" where
  "encodes_rows dumps loads rows \<longleftrightarrow>
     (\<forall>r \<in> set rows. loads (dumps r) = Some r \<and> strip (dumps r) = dumps r \<and>
        \<not> skipped_line (dumps r) \<and> no_breaks (dumps r))"

lemma load_lines_of_rows:
  assumes "encodes_rows dumps loads rows"
  shows "load_lines loads validate build seen (map dumps rows) =
    bind_res (check_rows validate seen rows) (\<lambda>_. Inr (map build rows))"
  using assms
proof (induction rows arbitrary: seen)
  case (Cons r rows)
  then have "loads (dumps r) = Some r" "strip (dumps r) = dumps r" "\<not> skipped_line (dumps r)"
    "encodes_rows dumps loads rows" by (auto simp: encodes_rows_def)
  with Cons.IH show ?case by (cases "validate seen r") (auto simp: Let_def bind_res_def split: sum.splits)
qed simp

section \<open>Counts\<close>

definition pred_of :: "(string, string) dict \<Rightarrow> eval_pair \<Rightarrow> string" where
  "pred_of preds p = get_or preds (ep_pair_id p) []"

definition cell :: "(string, string) dict \<Rightarrow> bool \<Rightarrow> bool \<Rightarrow> eval_pair list \<Rightarrow> nat" where
  "cell preds ps gs pairs =
     length (filter (\<lambda>p. (pred_of preds p = ADJ_LIKELY_SAME) = ps \<and> (ep_label p = LABEL_SAME) = gs) pairs)"

lemma count_status_gold [simp]:
  "cf_tp (count_prediction s c) = cf_tp c" "cf_fp (count_prediction s c) = cf_fp c"
  "cf_fn (count_prediction s c) = cf_fn c" "cf_tn (count_prediction s c) = cf_tn c"
  by (simp_all add: count_prediction_def)

lemma count_gold_cells:
  "cf_tp (count_gold a b c) = cf_tp c + of_bool (a \<and> b)"
  "cf_fp (count_gold a b c) = cf_fp c + of_bool (a \<and> \<not> b)"
  "cf_fn (count_gold a b c) = cf_fn c + of_bool (\<not> a \<and> b)"
  "cf_tn (count_gold a b c) = cf_tn c + of_bool (\<not> a \<and> \<not> b)"
  by (simp_all add: count_gold_def)

lemma confusion_cells:
  "cf_tp (foldl (count_pair preds) c pairs) = cf_tp c + cell preds True True pairs"
  "cf_fp (foldl (count_pair preds) c pairs) = cf_fp c + cell preds True False pairs"
  "cf_fn (foldl (count_pair preds) c pairs) = cf_fn c + cell preds False True pairs"
  "cf_tn (foldl (count_pair preds) c pairs) = cf_tn c + cell preds False False pairs"
  by (induction pairs arbitrary: c) (simp_all add: cell_def count_pair_def Let_def pred_of_def count_gold_cells)

lemma metrics_cells:
  "em_count (metrics_for pairs preds) = length pairs"
  "em_tp (metrics_for pairs preds) = cell preds True True pairs"
  "em_fp (metrics_for pairs preds) = cell preds True False pairs"
  "em_fn (metrics_for pairs preds) = cell preds False True pairs"
  "em_tn (metrics_for pairs preds) = cell preds False False pairs"
  by (simp_all add: metrics_for_def Let_def confusion_cells no_confusion_def)

lemma cells_partition:
  "cell preds True True ps + cell preds True False ps + cell preds False True ps + cell preds False False ps = length ps"
  unfolding cell_def by (induction ps) auto

text \<open>The classes of a list by a key add up to the list.\<close>

lemma sum_over_classes:
  assumes "finite A" "f ` set xs \<subseteq> A"
  shows "(\<Sum>k \<in> A. length (filter (\<lambda>x. f x = k) xs)) = length xs"
  using assms(2)
proof (induction xs)
  case (Cons x xs)
  have "(\<Sum>k \<in> A. length (filter (\<lambda>x. f x = k) (x # xs))) =
      (\<Sum>k \<in> A. of_bool (f x = k) + length (filter (\<lambda>x. f x = k) xs))"
    by (rule sum.cong) auto
  also have "\<dots> = (\<Sum>k \<in> A. of_bool (f x = k)) + length xs"
    using Cons by (simp add: sum.distrib)
  also have "(\<Sum>k \<in> A. of_bool (f x = k)) = (1 :: nat)"
    using Cons.prems assms(1) by (simp add: of_bool_def sum.delta)
  finally show ?case by simp
qed simp

lemma sorted_set_facts [simp]: "set (sorted_set xs) = set xs" "distinct (sorted_set xs)" "sorted (sorted_set xs)"
  by (simp_all add: sorted_set_def)

lemma sum_breakdown:
  assumes "\<And>ps. g (metrics_for ps preds) = length (filter Q ps)"
  shows "sum_list (map (\<lambda>(k, m). g m) (breakdown (\<lambda>p. [f p]) pairs preds)) = length (filter Q pairs)"
proof -
  have "sum_list (map (\<lambda>(k, m). g m) (breakdown (\<lambda>p. [f p]) pairs preds)) =
      sum_list (map (\<lambda>k. length (filter (\<lambda>p. f p = k) (filter Q pairs))) (sorted_set (map f pairs)))"
    unfolding breakdown_def map_map comp_def
    by (rule arg_cong [where f = sum_list], rule map_cong)
      (auto simp: assms conj_commute eq_commute [of _ "f _"] intro!: arg_cong [where f = length] filter_cong)
  also have "\<dots> = (\<Sum>k \<in> f ` set pairs. length (filter (\<lambda>p. f p = k) (filter Q pairs)))"
    by (subst sum_list_distinct_conv_sum_set) simp_all
  also have "\<dots> = length (filter Q pairs)"
    by (rule sum_over_classes) auto
  finally show ?thesis .
qed

text \<open>The parts of a breakdown add up to the whole in every cell.\<close>

definition adds_up :: "(string, eval_metrics) dict \<Rightarrow> eval_metrics \<Rightarrow> bool" where
  "adds_up parts whole \<longleftrightarrow>
     sum_list (map (\<lambda>(k, m). em_count m) parts) = em_count whole \<and>
     sum_list (map (\<lambda>(k, m). em_tp m) parts) = em_tp whole \<and> sum_list (map (\<lambda>(k, m). em_fp m) parts) = em_fp whole \<and>
     sum_list (map (\<lambda>(k, m). em_fn m) parts) = em_fn whole \<and> sum_list (map (\<lambda>(k, m). em_tn m) parts) = em_tn whole"

lemma breakdown_adds_up: "adds_up (breakdown (\<lambda>p. [f p]) pairs preds) (metrics_for pairs preds)"
proof -
  have "sum_list (map (\<lambda>(k, m). em_count m) (breakdown (\<lambda>p. [f p]) pairs preds)) = length (filter (\<lambda>_. True) pairs)"
    by (rule sum_breakdown) (simp add: metrics_cells)
  moreover have "sum_list (map (\<lambda>(k, m). g m) (breakdown (\<lambda>p. [f p]) pairs preds)) = cell preds a b pairs"
    if "\<And>ps. g (metrics_for ps preds) = cell preds a b ps" for g a b
    unfolding cell_def by (rule sum_breakdown) (simp add: that cell_def)
  ultimately show ?thesis unfolding adds_up_def metrics_cells by (simp add: metrics_cells)
qed

lemma hard_negative_hits_le: "hard_negative_hits pairs preds \<le> cell preds True False pairs"
  unfolding hard_negative_hits_def cell_def pred_of_def by (induction pairs) auto

lemma evaluated_pairs:
  "evaluate_adjudicator pairs = Inr e \<longleftrightarrow> (\<exists>preds. predictions pairs = Inr preds \<and> e = measure_pairs pairs preds)"
  by (auto simp: evaluate_adjudicator_def bind_res_Inr_iff)

text \<open>Every measured pair has a prediction; with distinct ids it is its own.\<close>

lemma predictions_own:
  assumes "predictions pairs = Inr preds" "distinct (map ep_pair_id pairs)" "p \<in> set pairs"
  shows "predict_status p = Inr (pred_of preds p)"
proof -
  obtain ps where ps: "map_res (\<lambda>p. bind_res (predict_status p) (\<lambda>s. Inr (ep_pair_id p, s))) pairs = Inr ps"
    "preds = dict_of ps" using assms(1) by (auto simp: predictions_def bind_res_Inr_iff)
  have "map fst qs = map ep_pair_id ys \<and> (\<forall>p \<in> set ys. \<exists>s. predict_status p = Inr s \<and> (ep_pair_id p, s) \<in> set qs)"
    if "map_res (\<lambda>p. bind_res (predict_status p) (\<lambda>s. Inr (ep_pair_id p, s))) ys = Inr qs" for ys qs
    using that by (induction ys arbitrary: qs) (fastforce simp: bind_res_Inr_iff)+
  from this [OF ps(1)] obtain s where s: "predict_status p = Inr s" "(ep_pair_id p, s) \<in> set ps"
    and d: "distinct (map fst ps)" using assms(2,3) by auto
  have "map_of (rev ps) (ep_pair_id p) = Some s"
    using s(2) d by (intro map_of_is_SomeI) (auto simp: rev_map [symmetric])
  with s(1) ps(2) show ?thesis by (simp add: pred_of_def get_or_def dict_of_get)
qed

lemma safe_div_none: "safe_div a b = None \<longleftrightarrow> b = 0"
  by (simp add: safe_div_def)

section \<open>Correctness\<close>

text \<open>a measurement of the judgement accounts for every labelled pair: each pair is in exactly one of the
  four cells, the parts by language and by source types add up to the whole in every cell, the hits on hard
  negatives are among the false positives, and no measurement turns on or performs a merge.\<close>

lemma measurement_accounts_for_every_pair:
  assumes "evaluate_adjudicator pairs = Inr e"
  shows "em_tp (el_overall e) + em_fp (el_overall e) + em_fn (el_overall e) + em_tn (el_overall e) = length pairs \<and>
    adds_up (el_by_language e) (el_overall e) \<and> adds_up (el_by_source_type e) (el_overall e) \<and>
    el_hard_negative_fp e \<le> em_fp (el_overall e) \<and>
    \<not> mg_auto_merge_enabled (el_merge_gate e) \<and> el_auto_merged e = 0"
proof -
  obtain preds where e: "e = measure_pairs pairs preds" using assms evaluated_pairs by blast
  show ?thesis
    using cells_partition [of preds pairs] breakdown_adds_up hard_negative_hits_le [of pairs preds]
    by (simp add: e measure_pairs_def Let_def metrics_cells evaluate_merge_gate_def)
qed

text \<open>Two labelled pairs: a story told twice, and two stories that share no word.\<close>

definition labelled_pair :: "string \<Rightarrow> string \<Rightarrow> string \<Rightarrow> string \<Rightarrow> eval_pair" where
  "labelled_pair i label l r =
     \<lparr>ep_pair_id = i, ep_label = label, ep_language = ''en'', ep_source_type_left = ''article'',
      ep_source_type_right = ''official'', ep_title_left = l, ep_title_right = r,
      ep_observed_at_left = JNull, ep_observed_at_right = JNull, ep_canonical_url_left = JNull,
      ep_canonical_url_right = JNull, ep_rationale = JNull, ep_risk_tags = []\<rparr>"

definition labelled_pairs :: "eval_pair list" where
  "labelled_pairs = [labelled_pair ''a'' LABEL_SAME ''alpha beta gamma delta'' ''delta gamma beta alpha'',
     labelled_pair ''b'' LABEL_DIFFERENT ''alpha beta gamma delta'' ''one two three four'']"

text \<open>A pair whose times are strings or absent always has a prediction.\<close>

definition dated :: "json \<Rightarrow> bool" where
  "dated v \<longleftrightarrow> v = JNull \<or> is_json_str v"

lemma parse_dt_dated: "dated v \<Longrightarrow> \<exists>dt. parse_dt v = Inr dt"
  by (auto simp: dated_def parse_dt_def is_json_str_def json_truthy_def split: json.splits)

lemma predict_status_dated:
  assumes "dated (ep_observed_at_left p)" "dated (ep_observed_at_right p)"
  shows "\<exists>s. predict_status p = Inr s"
  using parse_dt_dated [OF assms(1)] parse_dt_dated [OF assms(2)]
  by (auto simp: predict_status_def pair_to_views_def)

lemma evaluate_dated:
  assumes "\<forall>p \<in> set pairs. dated (ep_observed_at_left p) \<and> dated (ep_observed_at_right p)"
  shows "\<exists>e. evaluate_adjudicator pairs = Inr e"
proof -
  have "\<exists>ps. map_res (\<lambda>p. bind_res (predict_status p) (\<lambda>s. Inr (ep_pair_id p, s))) pairs = Inr ps"
    using assms
  proof (induction pairs)
    case (Cons p pairs)
    then show ?case using predict_status_dated [of p] by auto
  qed simp
  then show ?thesis by (auto simp: evaluate_adjudicator_def predictions_def)
qed

lemma measurement_accounts_for_every_pair_witness:
  "\<exists>e. evaluate_adjudicator labelled_pairs = Inr e \<and>
    em_tp (el_overall e) + em_fp (el_overall e) + em_fn (el_overall e) + em_tn (el_overall e) = 2 \<and>
    adds_up (el_by_language e) (el_overall e)"
proof -
  obtain e where e: "evaluate_adjudicator labelled_pairs = Inr e"
    using evaluate_dated [of labelled_pairs] by (auto simp: labelled_pairs_def labelled_pair_def dated_def)
  with measurement_accounts_for_every_pair [OF e] show ?thesis by (auto simp: labelled_pairs_def)
qed

text \<open>A rate is rounded before it is compared: 251 false positives among 25,000 negatives are more than one
  in a hundred, and the rate still meets the gate.\<close>

lemma rounded_rate_meets_gate: "1 / 100 < (251 / 25000 :: rat)" "at_most GATE_FPR_MAX (safe_div 251 25000)"
proof -
  have "\<lfloor>502 / 5 :: rat\<rfloor> = 100" by (simp add: floor_eq_iff)
  then show "at_most GATE_FPR_MAX (safe_div 251 25000)"
    by (simp add: at_most_def GATE_FPR_MAX_def safe_div_def round4_def Let_def)
qed simp

end
