(* ===== verification/Gold_Labeling.thy ===== *)
theory Gold_Labeling
  imports Eval_Dataset
begin

text \<open>
  From a worksheet to measured gold labels: the first two parts of
  \<open>backend/app/services/identity_human_labeling.py\<close>: gold rows with their provenance, the readiness
  report, and the agreement of several reviewers.
\<close>

section \<open>Gold rows\<close>

definition REVIEW_GOLD :: string where "REVIEW_GOLD = ''gold''"
definition REVIEW_NEEDS :: string where "REVIEW_NEEDS = ''needs_review''"
definition REVIEW_REJECTED :: string where "REVIEW_REJECTED = ''rejected''"
definition REVIEW_STATUSES :: "string list" where
  "REVIEW_STATUSES = [REVIEW_GOLD, REVIEW_NEEDS, REVIEW_REJECTED]"
definition LABEL_CONFIDENCES :: "string list" where
  "LABEL_CONFIDENCES = [''high'', ''medium'', ''low'']"
definition SOURCE_SYNTHETIC :: string where "SOURCE_SYNTHETIC = ''synthetic_fixture''"
definition SOURCE_LIVE :: string where "SOURCE_LIVE = ''live_derived''"
definition DATASET_SOURCES :: "string list" where
  "DATASET_SOURCES = [SOURCE_SYNTHETIC, SOURCE_LIVE]"

lemmas review_names = REVIEW_GOLD_def REVIEW_NEEDS_def REVIEW_REJECTED_def

definition PROVENANCE_KEYS :: "string list" where
  "PROVENANCE_KEYS = [''reviewed_by'', ''reviewed_at'', ''review_status'', ''label_confidence'']"

definition GOLD_ALLOWED_KEYS :: "string list" where
  "GOLD_ALLOWED_KEYS = EVAL_ALLOWED_KEYS @ PROVENANCE_KEYS @ [''dataset_source'']"

definition GOLD_REQUIRED_KEYS :: "string list" where
  "GOLD_REQUIRED_KEYS = EVAL_REQUIRED_KEYS @ PROVENANCE_KEYS"

definition WORKSHEET_AUX_KEYS :: "string list" where
  "WORKSHEET_AUX_KEYS = [''predicted_status'', ''score'', ''reason'']"

definition GOLD_MERGE_MIN_LIVE_GOLD :: nat where "GOLD_MERGE_MIN_LIVE_GOLD = 200"
definition GOLD_MERGE_MIN_KOREAN_GOLD :: nat where "GOLD_MERGE_MIN_KOREAN_GOLD = 50"

record gold_pair =
  gp_pair :: eval_pair
  gp_reviewed_by :: string
  gp_reviewed_at :: string
  gp_review_status :: string
  gp_label_confidence :: string
  gp_dataset_source :: string

definition validate_reviewed_at :: "json option \<Rightarrow> unit res" where
  "validate_reviewed_at raw =
    (let s = (case raw of Some (JStr t) \<Rightarrow> strip t | _ \<Rightarrow> [])
     in bind_res (ensure (s \<noteq> []) (ValueError ''reviewed_at required'')) (\<lambda>_.
        ensure (fromisoformat (py_replace ''Z'' ''+00:00'' s) \<noteq> None) (ValueError ''invalid reviewed_at'')))"

definition non_blank :: "json option \<Rightarrow> bool" where
  "non_blank v \<longleftrightarrow> (case v of Some (JStr s) \<Rightarrow> strip s \<noteq> [] | _ \<Rightarrow> False)"

definition dataset_source_at :: "(string, json) dict \<Rightarrow> json" where
  "dataset_source_at d = get_or d ''dataset_source'' (JStr SOURCE_LIVE)"

definition validate_gold_row :: "string list \<Rightarrow> json \<Rightarrow> string list res" where
  "validate_gold_row seen row =
    bind_res (row_dict row) (\<lambda>d.
    bind_res (ensure (keys_within GOLD_ALLOWED_KEYS d) (ValueError ''disallowed keys'')) (\<lambda>_.
    bind_res (ensure (has_keys GOLD_REQUIRED_KEYS d) (ValueError ''missing required keys'')) (\<lambda>_.
    bind_res (str_at ''pair_id'' d) (\<lambda>pid.
    bind_res (check_fresh pid seen) (\<lambda>_.
    bind_res (in_enum GOLD_LABELS (dict_get d ''label'')) (\<lambda>_.
    bind_res (check_content d) (\<lambda>_.
    bind_res (in_enum REVIEW_STATUSES (dict_get d ''review_status'')) (\<lambda>_.
    bind_res (in_enum LABEL_CONFIDENCES (dict_get d ''label_confidence'')) (\<lambda>_.
    bind_res (ensure (non_blank (dict_get d ''reviewed_by'')) (ValueError ''reviewed_by required'')) (\<lambda>_.
    bind_res (validate_reviewed_at (dict_get d ''reviewed_at'')) (\<lambda>_.
    bind_res (in_enum DATASET_SOURCES (Some (dataset_source_at d))) (\<lambda>_.
    bind_res (check_risk_tags d) (\<lambda>_. Inr (pid # seen))))))))))))))"

definition text_or :: "json \<Rightarrow> string" where
  "text_or v = (case v of JStr s \<Rightarrow> s | _ \<Rightarrow> [])"

definition gold_pair_of :: "json \<Rightarrow> gold_pair" where
  "gold_pair_of row = (let d = obj_of row in
     \<lparr>gp_pair = eval_pair_of row, gp_reviewed_by = text_of d ''reviewed_by'', gp_reviewed_at = text_of d ''reviewed_at'',
      gp_review_status = text_of d ''review_status'', gp_label_confidence = text_of d ''label_confidence'',
      gp_dataset_source = text_or (dataset_source_at d)\<rparr>)"

definition load_gold_pairs :: "(string \<Rightarrow> json option) \<Rightarrow> string \<Rightarrow> gold_pair list res" where
  "load_gold_pairs loads content = load_lines loads validate_gold_row gold_pair_of [] (splitlines content)"

record human_decision =
  hd_label :: string
  hd_reviewed_by :: string
  hd_reviewed_at :: string
  hd_review_status :: string
  hd_label_confidence :: string
  hd_dataset_source :: string
  hd_rationale :: "string option"

definition promote_worksheet_to_gold :: "(string, json) dict \<Rightarrow> human_decision \<Rightarrow> (string, json) dict" where
  "promote_worksheet_to_gold row h =
    (let g0 = filter (\<lambda>(k, v). k \<notin> set WORKSHEET_AUX_KEYS) row;
         g1 = dict_set ''label'' (JStr (hd_label h)) g0;
         g2 = dict_set ''reviewed_by'' (JStr (hd_reviewed_by h)) g1;
         g3 = dict_set ''reviewed_at'' (JStr (hd_reviewed_at h)) g2;
         g4 = dict_set ''review_status'' (JStr (hd_review_status h)) g3;
         g5 = dict_set ''label_confidence'' (JStr (hd_label_confidence h)) g4;
         g6 = dict_set ''dataset_source'' (JStr (hd_dataset_source h)) g5
     in case hd_rationale h of None \<Rightarrow> g6 | Some r \<Rightarrow> dict_set ''rationale'' (JStr r) g6)"

text \<open>\<open>write_gold_jsonl\<close>: validate every row, then write one line each; the number of rows and the file.\<close>

definition jsonl_text :: "string list \<Rightarrow> string" where
  "jsonl_text ls = str_join [nl] ls @ (if ls = [] then [] else [nl])"

definition write_gold_jsonl :: "(json \<Rightarrow> string) \<Rightarrow> json list \<Rightarrow> (nat \<times> string) res" where
  "write_gold_jsonl dumps rows = bind_res (check_rows validate_gold_row [] rows) (\<lambda>_.
     Inr (length rows, jsonl_text (map dumps rows)))"

section \<open>Measuring the gold\<close>

definition gold_only :: "gold_pair list \<Rightarrow> gold_pair list" where
  "gold_only pairs = filter (\<lambda>p. gp_review_status p = REVIEW_GOLD) pairs"

definition evaluate_adjudicator_on_gold :: "gold_pair list \<Rightarrow> evaluation res" where
  "evaluate_adjudicator_on_gold pairs = evaluate_adjudicator (map gp_pair (gold_only pairs))"

record labeling_backlog =
  bl_total :: nat
  bl_total_exported :: "nat option"
  bl_labeled_gold :: nat
  bl_needs_review :: nat
  bl_rejected :: nat
  bl_by_status :: "(string, nat) dict"
  bl_by_language :: "(string, nat) dict"
  bl_by_source_type :: "(string, nat) dict"
  bl_by_risk_tag :: "(string, nat) dict"
  bl_auto_merged :: nat

definition summarize_labeling_backlog :: "gold_pair list \<Rightarrow> nat option \<Rightarrow> labeling_backlog" where
  "summarize_labeling_backlog pairs total_exported =
    (let by_status = foldl (\<lambda>d p. count_up (gp_review_status p) d)
           [(REVIEW_GOLD, 0), (REVIEW_NEEDS, 0), (REVIEW_REJECTED, 0)] pairs
     in \<lparr>bl_total = length pairs, bl_total_exported = total_exported,
         bl_labeled_gold = get_or by_status REVIEW_GOLD 0, bl_needs_review = get_or by_status REVIEW_NEEDS 0,
         bl_rejected = get_or by_status REVIEW_REJECTED 0, bl_by_status = by_status,
         bl_by_language = foldl (\<lambda>d p. count_up (ep_language (gp_pair p)) d) [] pairs,
         bl_by_source_type = foldl (\<lambda>d p. count_up (pair_key (gp_pair p)) d) [] pairs,
         bl_by_risk_tag = foldl (\<lambda>d p. foldl (\<lambda>e t. count_up t e) d (ep_risk_tags (gp_pair p))) [] pairs,
         bl_auto_merged = 0\<rparr>)"

record merge_readiness =
  mr_gate :: merge_gate
  mr_live_sample_ok :: bool
  mr_korean_sample_ok :: bool
  mr_live_gold_count :: nat
  mr_korean_gold_count :: nat
  mr_merge_ready :: bool
  mr_auto_merge_enabled :: bool

definition live_gold :: "gold_pair list \<Rightarrow> gold_pair list" where
  "live_gold pairs = filter (\<lambda>p. gp_dataset_source p = SOURCE_LIVE) (gold_only pairs)"

definition korean :: "gold_pair \<Rightarrow> bool" where
  "korean p \<longleftrightarrow> ep_language (gp_pair p) = ''ko''"

definition evaluate_gold_merge_readiness :: "gold_pair list \<Rightarrow> merge_readiness res" where
  "evaluate_gold_merge_readiness pairs =
    bind_res (evaluate_adjudicator (map gp_pair (live_gold pairs))) (\<lambda>m.
      let gate = evaluate_merge_gate (el_overall m) (dict_get (el_by_language m) ''ko'') (el_hard_negative_fp m);
          n = length (live_gold pairs); k = length (filter korean (live_gold pairs));
          live_ok = (GOLD_MERGE_MIN_LIVE_GOLD \<le> n); korean_ok = (GOLD_MERGE_MIN_KOREAN_GOLD \<le> k)
      in Inr \<lparr>mr_gate = gate, mr_live_sample_ok = live_ok, mr_korean_sample_ok = korean_ok,
              mr_live_gold_count = n, mr_korean_gold_count = k,
              mr_merge_ready = (mg_passed gate \<and> live_ok \<and> korean_ok), mr_auto_merge_enabled = False\<rparr>)"

record gold_report =
  gr_evaluation :: evaluation
  gr_dataset_sources_present :: "string list"
  gr_backlog :: labeling_backlog
  gr_merge_readiness :: merge_readiness
  gr_auto_merged :: nat

definition generate_gold_eval_report :: "gold_pair list \<Rightarrow> nat option \<Rightarrow> gold_report res" where
  "generate_gold_eval_report pairs total_exported =
    bind_res (evaluate_adjudicator_on_gold pairs) (\<lambda>metrics.
    bind_res (evaluate_gold_merge_readiness pairs) (\<lambda>readiness.
      Inr \<lparr>gr_evaluation = metrics,
           gr_dataset_sources_present = sorted_set (map gp_dataset_source (gold_only pairs)),
           gr_backlog = summarize_labeling_backlog pairs total_exported, gr_merge_readiness = readiness,
           gr_auto_merged = 0\<rparr>))"

record gold_deltas =
  gd_precision :: "rat option"
  gd_false_positive_rate :: "rat option"
  gd_recall :: "rat option"
  gd_coverage :: "rat option"

definition rate_delta :: "rat option \<Rightarrow> rat option \<Rightarrow> rat option" where
  "rate_delta a b = (case (a, b) of (Some x, Some y) \<Rightarrow> Some (round4 (x - y)) | _ \<Rightarrow> None)"

definition compare_fixture_vs_gold_metrics ::
  "eval_pair list \<Rightarrow> gold_pair list \<Rightarrow> (eval_metrics \<times> eval_metrics \<times> gold_deltas) res" where
  "compare_fixture_vs_gold_metrics fixture_pairs gold_pairs =
    bind_res (evaluate_adjudicator fixture_pairs) (\<lambda>fe.
    bind_res (evaluate_adjudicator_on_gold gold_pairs) (\<lambda>ge.
      let f = el_overall fe; g = el_overall ge
      in Inr (f, g, \<lparr>gd_precision = rate_delta (em_precision g) (em_precision f),
           gd_false_positive_rate = rate_delta (em_false_positive_rate g) (em_false_positive_rate f),
           gd_recall = rate_delta (em_recall g) (em_recall f),
           gd_coverage = rate_delta (em_coverage g) (em_coverage f)\<rparr>)))"

section \<open>Labels of reviewers\<close>

definition REVIEWER_HUMAN :: string where "REVIEWER_HUMAN = ''human''"
definition MODEL_REVIEWER_KINDS :: "string list" where
  "MODEL_REVIEWER_KINDS = [''model'', ''llm'', ''adjudicator'', ''self'', ''heuristic'']"

definition AGREE_AGREED :: string where "AGREE_AGREED = ''agreed''"
definition AGREE_CONFLICT :: string where "AGREE_CONFLICT = ''conflict''"
definition AGREE_ADJUDICATED :: string where "AGREE_ADJUDICATED = ''adjudicated''"
definition AGREE_INSUFFICIENT :: string where "AGREE_INSUFFICIENT = ''insufficient_reviews''"
definition RESOLUTION_SINGLE :: string where "RESOLUTION_SINGLE = ''single_reviewer''"
definition RESOLUTION_AGREEMENT :: string where "RESOLUTION_AGREEMENT = ''agreement''"
definition RESOLUTION_ADJUDICATED :: string where "RESOLUTION_ADJUDICATED = ''adjudicated''"
definition RESOLUTION_NONE :: string where "RESOLUTION_NONE = ''none''"

lemmas agree_names = AGREE_AGREED_def AGREE_CONFLICT_def AGREE_ADJUDICATED_def AGREE_INSUFFICIENT_def

definition REVIEWER_PROVENANCE_KEYS :: "string list" where
  "REVIEWER_PROVENANCE_KEYS = [''reviewer_id'', ''review_round'', ''label_confidence'', ''reviewed_at'', ''reviewer_kind'']"

definition REVIEWER_ALLOWED_KEYS :: "string list" where
  "REVIEWER_ALLOWED_KEYS = EVAL_ALLOWED_KEYS @ [''dataset_source''] @ REVIEWER_PROVENANCE_KEYS"

definition REVIEWER_REQUIRED_KEYS :: "string list" where
  "REVIEWER_REQUIRED_KEYS = [''pair_id'', ''reviewer_id'', ''review_round'', ''label'', ''label_confidence'', ''reviewed_at'',
     ''language'', ''source_type_left'', ''source_type_right'',
     ''title_left'', ''title_right'', ''observed_at_left'', ''observed_at_right'']"

record reviewer_label =
  rv_pair :: eval_pair
  rv_reviewer_id :: string
  rv_review_round :: int
  rv_label_confidence :: string
  rv_reviewed_at :: string
  rv_reviewer_kind :: string
  rv_dataset_source :: string

abbreviation rv_pair_id :: "reviewer_label \<Rightarrow> string" where "rv_pair_id l \<equiv> ep_pair_id (rv_pair l)"
abbreviation rv_label :: "reviewer_label \<Rightarrow> string" where "rv_label l \<equiv> ep_label (rv_pair l)"

definition check_reviewer_kind :: "(string, json) dict \<Rightarrow> unit res" where
  "check_reviewer_kind d = (case get_or d ''reviewer_kind'' (JStr REVIEWER_HUMAN) of
      JStr k \<Rightarrow> if k \<in> set MODEL_REVIEWER_KINDS then Inl (ValueError ''reviewer_kind cannot be gold'')
        else ensure (k = REVIEWER_HUMAN) (ValueError ''invalid reviewer_kind'')
    | JList _ \<Rightarrow> Inl TypeError
    | JObj _ \<Rightarrow> Inl TypeError
    | _ \<Rightarrow> Inl (ValueError ''invalid reviewer_kind''))"

definition round_at :: "(string, json) dict \<Rightarrow> int res" where
  "round_at d = (case dict_get d ''review_round'' of
      Some (JInt n) \<Rightarrow> if n < 1 then Inl (ValueError ''review_round'') else Inr n
    | _ \<Rightarrow> Inl (ValueError ''review_round''))"

type_synonym review_key = "string \<times> string \<times> int"

definition validate_reviewer_row :: "review_key list \<Rightarrow> json \<Rightarrow> review_key list res" where
  "validate_reviewer_row seen row =
    bind_res (row_dict row) (\<lambda>d.
    bind_res (ensure (keys_within REVIEWER_ALLOWED_KEYS d) (ValueError ''disallowed keys'')) (\<lambda>_.
    bind_res (ensure (has_keys REVIEWER_REQUIRED_KEYS d) (ValueError ''missing required keys'')) (\<lambda>_.
    bind_res (check_reviewer_kind d) (\<lambda>_.
    bind_res (ensure (non_blank (dict_get d ''reviewer_id'')) (ValueError ''reviewer_id required'')) (\<lambda>_.
    bind_res (round_at d) (\<lambda>rnd.
    bind_res (str_at ''pair_id'' d) (\<lambda>pid.
    bind_res (check_fresh (pid, text_of d ''reviewer_id'', rnd) seen) (\<lambda>_.
    bind_res (in_enum GOLD_LABELS (dict_get d ''label'')) (\<lambda>_.
    bind_res (in_enum LABEL_CONFIDENCES (dict_get d ''label_confidence'')) (\<lambda>_.
    bind_res (check_content d) (\<lambda>_.
    bind_res (validate_reviewed_at (dict_get d ''reviewed_at'')) (\<lambda>_.
    bind_res (in_enum DATASET_SOURCES (Some (dataset_source_at d))) (\<lambda>_.
    bind_res (check_risk_tags d) (\<lambda>_. Inr ((pid, text_of d ''reviewer_id'', rnd) # seen)))))))))))))))"

definition reviewer_label_of :: "json \<Rightarrow> reviewer_label" where
  "reviewer_label_of row = (let d = obj_of row in
     \<lparr>rv_pair = eval_pair_of row, rv_reviewer_id = text_of d ''reviewer_id'',
      rv_review_round = (case round_at d of Inr n \<Rightarrow> n | Inl _ \<Rightarrow> 0),
      rv_label_confidence = text_of d ''label_confidence'', rv_reviewed_at = text_of d ''reviewed_at'',
      rv_reviewer_kind = text_or (get_or d ''reviewer_kind'' (JStr REVIEWER_HUMAN)),
      rv_dataset_source = text_or (dataset_source_at d)\<rparr>)"

definition load_reviewer_labels :: "(string \<Rightarrow> json option) \<Rightarrow> string \<Rightarrow> reviewer_label list res" where
  "load_reviewer_labels loads content = load_lines loads validate_reviewer_row reviewer_label_of [] (splitlines content)"

section \<open>Agreement\<close>

definition keep_latest :: "(string, reviewer_label) dict \<Rightarrow> reviewer_label \<Rightarrow> (string, reviewer_label) dict" where
  "keep_latest d lab = (case dict_get d (rv_reviewer_id lab) of
      None \<Rightarrow> dict_set (rv_reviewer_id lab) lab d
    | Some cur \<Rightarrow> if rv_review_round cur < rv_review_round lab then dict_set (rv_reviewer_id lab) lab d else d)"

definition latest_per_reviewer :: "reviewer_label list \<Rightarrow> (string, reviewer_label) dict" where
  "latest_per_reviewer labels = foldl keep_latest [] labels"

text \<open>\<open>by_pair.setdefault(pid, []).append(lab)\<close> and \<open>sorted(by_pair.items())\<close>.\<close>

definition group_label :: "(string, reviewer_label list) dict \<Rightarrow> reviewer_label \<Rightarrow> (string, reviewer_label list) dict" where
  "group_label d lab = dict_set (rv_pair_id lab) (get_or d (rv_pair_id lab) [] @ [lab]) d"

definition sorted_groups :: "reviewer_label list \<Rightarrow> (string \<times> reviewer_label list) list" where
  "sorted_groups labels = sort_key fst (foldl group_label [] labels)"

definition votes_of :: "reviewer_label list \<Rightarrow> string list" where
  "votes_of labs = map (\<lambda>(k, l). rv_label l) (latest_per_reviewer labs)"

definition top_count :: "string list \<Rightarrow> nat" where
  "top_count votes = foldr max (map (\<lambda>v. count_list votes v) votes) 0"

record pair_agreement =
  pg_reviewer_count :: nat
  pg_agreement_rate :: "rat option"
  pg_agreed :: bool
  pg_labels :: "string list"

record agreement_summary =
  ag_per_pair :: "(string, pair_agreement) dict"
  ag_multi_reviewer_pairs :: nat
  ag_agreed_pairs :: nat
  ag_agreement_rate :: "rat option"

definition pair_agreement_of :: "reviewer_label list \<Rightarrow> pair_agreement" where
  "pair_agreement_of labs = (let votes = votes_of labs; n = length votes; m = top_count votes in
     \<lparr>pg_reviewer_count = n, pg_agreement_rate = safe_div m n, pg_agreed = (2 \<le> n \<and> m = n), pg_labels = sort votes\<rparr>)"

definition compute_reviewer_agreement :: "reviewer_label list \<Rightarrow> agreement_summary" where
  "compute_reviewer_agreement labels =
    (let per_pair = map (\<lambda>(pid, labs). (pid, pair_agreement_of labs)) (sorted_groups labels);
         multi = length (filter (\<lambda>(pid, a). 2 \<le> pg_reviewer_count a) per_pair);
         agreed = length (filter (\<lambda>(pid, a). 2 \<le> pg_reviewer_count a \<and> pg_agreed a) per_pair)
     in \<lparr>ag_per_pair = per_pair, ag_multi_reviewer_pairs = multi, ag_agreed_pairs = agreed,
         ag_agreement_rate = safe_div agreed multi\<rparr>)"

section \<open>Resolution\<close>

type_synonym adjudications = "(string, json) dict"

definition validate_adjudication :: "json \<Rightarrow> unit res" where
  "validate_adjudication entry = (case entry of
      JObj d \<Rightarrow>
        bind_res (in_enum GOLD_LABELS (Some (get_or d ''label'' JNull))) (\<lambda>_.
        bind_res (ensure (get_or d ''adjudicator_kind'' (JStr REVIEWER_HUMAN) = JStr REVIEWER_HUMAN)
          (ValueError ''adjudicator_kind cannot be gold'')) (\<lambda>_.
        ensure (non_blank (dict_get d ''adjudicated_by'')) (ValueError ''adjudicated_by required'')))
    | _ \<Rightarrow> Inl (ValueError ''adjudication must be a dict''))"

record resolved_gold =
  rg_pair_id :: string
  rg_label :: "string option"
  rg_language :: string
  rg_source_type_left :: string
  rg_source_type_right :: string
  rg_title_left :: string
  rg_title_right :: string
  rg_observed_at_left :: json
  rg_observed_at_right :: json
  rg_agreement_status :: string
  rg_resolution_method :: string
  rg_reviewer_count :: nat
  rg_agreement_rate :: "rat option"
  rg_review_status :: string
  rg_label_confidence :: string
  rg_adjudicated_by :: "string option"
  rg_reviewed_at :: string
  rg_dataset_source :: string
  rg_risk_tags :: "string list"

definition conf_order :: "string \<Rightarrow> nat" where
  "conf_order c = (if c = ''low'' then 0 else if c = ''medium'' then 1 else if c = ''high'' then 2 else 0)"

text \<open>\<open>min(confs, key=...)\<close>: the first of the least.\<close>

fun min_confidence :: "string list \<Rightarrow> string" where
  "min_confidence [] = ''low''"
| "min_confidence [c] = c"
| "min_confidence (c # d # cs) = min_confidence ((if conf_order d < conf_order c then d else c) # cs)"

fun max_str :: "string list \<Rightarrow> string" where
  "max_str [] = []"
| "max_str (s # ss) = fold max ss s"

text \<open>Status, method, review status, label, adjudicator and confidence of a pair.\<close>

definition verdict ::
  "adjudications \<Rightarrow> string \<Rightarrow> reviewer_label list \<Rightarrow> string \<times> string \<times> string \<times> string option \<times> string option \<times> string" where
  "verdict adj pid rl =
    (let votes = map rv_label rl; n = length rl in
     if n = 1 then
       (AGREE_INSUFFICIENT, RESOLUTION_SINGLE, REVIEW_NEEDS, Some (hd votes), None, rv_label_confidence (hd rl))
     else if top_count votes = n then
       (AGREE_AGREED, RESOLUTION_AGREEMENT, REVIEW_GOLD, Some (hd votes), None, min_confidence (map rv_label_confidence rl))
     else (case dict_get adj pid of
         Some (JObj e) \<Rightarrow>
           if text_of e ''label'' \<in> set GOLD_LABELS then
             (AGREE_ADJUDICATED, RESOLUTION_ADJUDICATED, REVIEW_GOLD, Some (text_of e ''label''),
              Some (text_of e ''adjudicated_by''), ''medium'')
           else (AGREE_CONFLICT, RESOLUTION_NONE, REVIEW_NEEDS, None, None, ''low'')
       | _ \<Rightarrow> (AGREE_CONFLICT, RESOLUTION_NONE, REVIEW_NEEDS, None, None, ''low'')))"

definition resolve_pair :: "adjudications \<Rightarrow> string \<times> reviewer_label list \<Rightarrow> resolved_gold" where
  "resolve_pair adj g = (case g of (pid, labs) \<Rightarrow>
    (let rl = map snd (latest_per_reviewer labs); rep = hd rl; p = rv_pair rep in
     case verdict adj pid rl of (status, meth, review_status, label, adjby, conf) \<Rightarrow>
      \<lparr>rg_pair_id = pid, rg_label = label, rg_language = ep_language p,
       rg_source_type_left = ep_source_type_left p, rg_source_type_right = ep_source_type_right p,
       rg_title_left = ep_title_left p, rg_title_right = ep_title_right p,
       rg_observed_at_left = ep_observed_at_left p, rg_observed_at_right = ep_observed_at_right p,
       rg_agreement_status = status, rg_resolution_method = meth, rg_reviewer_count = length rl,
       rg_agreement_rate = safe_div (top_count (map rv_label rl)) (length rl), rg_review_status = review_status,
       rg_label_confidence = conf, rg_adjudicated_by = adjby, rg_reviewed_at = max_str (map rv_reviewed_at rl),
       rg_dataset_source = rv_dataset_source rep, rg_risk_tags = ep_risk_tags p\<rparr>))"

definition resolve_gold_from_reviewers :: "reviewer_label list \<Rightarrow> adjudications \<Rightarrow> resolved_gold list res" where
  "resolve_gold_from_reviewers labels adj =
    bind_res (map_res (\<lambda>(pid, e). validate_adjudication e) adj) (\<lambda>_.
      Inr (map (resolve_pair adj) (sorted_groups labels)))"

definition gold_pair_of_resolved :: "resolved_gold \<Rightarrow> string \<Rightarrow> gold_pair" where
  "gold_pair_of_resolved r label =
     \<lparr>gp_pair = \<lparr>ep_pair_id = rg_pair_id r, ep_label = label, ep_language = rg_language r,
        ep_source_type_left = rg_source_type_left r, ep_source_type_right = rg_source_type_right r,
        ep_title_left = rg_title_left r, ep_title_right = rg_title_right r,
        ep_observed_at_left = rg_observed_at_left r, ep_observed_at_right = rg_observed_at_right r,
        ep_canonical_url_left = JNull, ep_canonical_url_right = JNull, ep_rationale = JNull,
        ep_risk_tags = rg_risk_tags r\<rparr>,
      gp_reviewed_by = rg_resolution_method r @ '':'' @ nat_str (rg_reviewer_count r),
      gp_reviewed_at = rg_reviewed_at r, gp_review_status = REVIEW_GOLD,
      gp_label_confidence = rg_label_confidence r, gp_dataset_source = rg_dataset_source r\<rparr>"

definition resolved_to_gold_pairs :: "resolved_gold list \<Rightarrow> gold_pair list" where
  "resolved_to_gold_pairs resolved = List.map_filter (\<lambda>r.
     if rg_review_status r = REVIEW_GOLD then map_option (gold_pair_of_resolved r) (rg_label r) else None) resolved"

section \<open>The latest label of a reviewer\<close>

definition latest_in :: "reviewer_label list \<Rightarrow> string \<Rightarrow> reviewer_label \<Rightarrow> bool" where
  "latest_in labs k l \<longleftrightarrow> l \<in> set labs \<and> rv_reviewer_id l = k \<and>
     (\<forall>l' \<in> set labs. rv_reviewer_id l' = k \<longrightarrow> rv_review_round l' \<le> rv_review_round l)"

text \<open>A dictionary that holds, for every reviewer of some labels, a label of the latest round.\<close>

definition holds_latest :: "reviewer_label list \<Rightarrow> (string, reviewer_label) dict \<Rightarrow> bool" where
  "holds_latest labs d \<longleftrightarrow> dict_ok d \<and> fst ` set d = rv_reviewer_id ` set labs \<and>
     (\<forall>k l. dict_get d k = Some l \<longrightarrow> latest_in labs k l)"

lemma dict_get_None_iff: "dict_get d k = None \<longleftrightarrow> k \<notin> fst ` set d"
  by (simp add: dict_get_def map_of_eq_None_iff)

lemma latest_in_other: "latest_in labs k l \<Longrightarrow> rv_reviewer_id lab \<noteq> k \<Longrightarrow> latest_in (labs @ [lab]) k l"
  by (auto simp: latest_in_def)

lemma keep_latest_step:
  assumes h: "holds_latest labs d"
  shows "holds_latest (labs @ [lab]) (keep_latest d lab)"
proof -
  let ?k = "rv_reviewer_id lab"
  have "latest_in (labs @ [lab]) k l" if g: "dict_get (keep_latest d lab) k = Some l" for k l
  proof (cases "?k = k")
    case False
    with g h show ?thesis
      by (intro latest_in_other) (auto simp: holds_latest_def keep_latest_def split: option.splits if_splits)
  next
    case True
    show ?thesis
    proof (cases "dict_get d k")
      case None
      then have "k \<notin> rv_reviewer_id ` set labs" using h by (simp add: holds_latest_def dict_get_None_iff)
      then have "\<forall>l' \<in> set labs. rv_reviewer_id l' \<noteq> k" by auto
      with None True g show ?thesis by (auto simp: latest_in_def keep_latest_def)
    next
      case (Some cur)
      then have "latest_in labs k cur" using h by (simp add: holds_latest_def)
      with Some True g show ?thesis
        by (fastforce simp: latest_in_def keep_latest_def split: if_splits)
    qed
  qed
  moreover have "dict_ok (keep_latest d lab) \<and> fst ` set (keep_latest d lab) = rv_reviewer_id ` set (labs @ [lab])"
  proof (cases "dict_get d ?k")
    case None
    with h show ?thesis by (simp add: holds_latest_def keep_latest_def)
  next
    case (Some cur)
    then have "?k \<in> fst ` set d" using dict_get_None_iff [of d ?k] by auto
    with Some h show ?thesis by (auto simp: holds_latest_def keep_latest_def)
  qed
  ultimately show ?thesis by (simp add: holds_latest_def)
qed

lemma latest_per_reviewer_holds: "holds_latest labs (latest_per_reviewer labs)"
proof (induction labs rule: rev_induct)
  case Nil
  then show ?case by (simp add: holds_latest_def latest_per_reviewer_def)
next
  case (snoc lab labs)
  then show ?case using keep_latest_step by (simp add: latest_per_reviewer_def)
qed

text \<open>The label that a reviewer gave in the latest round, for one pair.\<close>

definition pair_labels :: "string \<Rightarrow> reviewer_label list \<Rightarrow> reviewer_label list" where
  "pair_labels pid labels = filter (\<lambda>l. rv_pair_id l = pid) labels"

definition reviewers_of :: "string \<Rightarrow> reviewer_label list \<Rightarrow> string set" where
  "reviewers_of pid labels = rv_reviewer_id ` set (pair_labels pid labels)"

definition final_label :: "reviewer_label list \<Rightarrow> string \<Rightarrow> string \<Rightarrow> string \<Rightarrow> bool" where
  "final_label labels pid k lab \<longleftrightarrow> (\<exists>l. latest_in (pair_labels pid labels) k l \<and> rv_label l = lab)"

lemma latest_labels:
  assumes "(k, l) \<in> set (latest_per_reviewer (pair_labels pid labels))"
  shows "final_label labels pid k (rv_label l)" "k \<in> reviewers_of pid labels"
proof -
  have "dict_get (latest_per_reviewer (pair_labels pid labels)) k = Some l"
    using assms latest_per_reviewer_holds by (intro dict_ok_mem_get) (auto simp: holds_latest_def)
  then have "latest_in (pair_labels pid labels) k l"
    using latest_per_reviewer_holds [of "pair_labels pid labels"] by (simp add: holds_latest_def)
  then show "final_label labels pid k (rv_label l)" "k \<in> reviewers_of pid labels"
    by (auto simp: final_label_def latest_in_def reviewers_of_def)
qed

lemma latest_reviewers:
  "fst ` set (latest_per_reviewer (pair_labels pid labels)) = reviewers_of pid labels"
  "length (latest_per_reviewer (pair_labels pid labels)) = card (reviewers_of pid labels)"
proof -
  have h: "holds_latest (pair_labels pid labels) (latest_per_reviewer (pair_labels pid labels))"
    by (rule latest_per_reviewer_holds)
  then show f: "fst ` set (latest_per_reviewer (pair_labels pid labels)) = reviewers_of pid labels"
    by (simp add: holds_latest_def reviewers_of_def)
  have "distinct (map fst (latest_per_reviewer (pair_labels pid labels)))"
    using h by (simp add: holds_latest_def dict_ok_def)
  from distinct_card [OF this] f show
    "length (latest_per_reviewer (pair_labels pid labels)) = card (reviewers_of pid labels)"
    by simp
qed

section \<open>Votes\<close>

lemma top_count_le: "top_count votes \<le> length votes"
proof -
  have "foldr max (map (\<lambda>v. count_list votes v) vs) 0 \<le> length votes" for vs
    by (induction vs) (simp_all add: count_le_length)
  then show ?thesis by (simp add: top_count_def)
qed

lemma foldr_max_ge: "x \<in> set xs \<Longrightarrow> x \<le> foldr max xs (0 :: nat)"
  by (induction xs) auto

lemma foldr_max_mem: "foldr max xs (0 :: nat) \<in> insert 0 (set xs)"
  by (induction xs) (auto simp: max_def)

lemma count_list_all: "count_list xs v = length xs \<longleftrightarrow> (\<forall>x \<in> set xs. x = v)"
proof (induction xs)
  case (Cons x xs)
  then show ?case using count_le_length [of xs v] by auto
qed simp

text \<open>The most frequent vote has every vote exactly when all votes agree.\<close>

lemma top_count_unanimous:
  assumes "votes \<noteq> []"
  shows "top_count votes = length votes \<longleftrightarrow> (\<forall>v \<in> set votes. v = hd votes)"
proof
  assume "top_count votes = length votes"
  with assms foldr_max_mem [of "map (count_list votes) votes"]
  obtain v where "v \<in> set votes" "count_list votes v = length votes"
    by (auto simp: top_count_def)
  then have "\<forall>x \<in> set votes. x = v" by (simp add: count_list_all)
  moreover have "hd votes \<in> set votes" using assms by simp
  ultimately show "\<forall>v \<in> set votes. v = hd votes" by metis
next
  assume "\<forall>v \<in> set votes. v = hd votes"
  then have "count_list votes (hd votes) = length votes" by (simp add: count_list_all)
  moreover have "count_list votes (hd votes) \<le> top_count votes"
    unfolding top_count_def using assms by (intro foldr_max_ge) auto
  ultimately show "top_count votes = length votes" using top_count_le [of votes] by simp
qed

section \<open>Groups\<close>

definition grouped :: "reviewer_label list \<Rightarrow> (string, reviewer_label list) dict \<Rightarrow> bool" where
  "grouped labels d \<longleftrightarrow> dict_ok d \<and> fst ` set d = rv_pair_id ` set labels \<and>
     (\<forall>pid labs. dict_get d pid = Some labs \<longrightarrow> labs = pair_labels pid labels)"

lemma group_label_step: "grouped labels d \<Longrightarrow> grouped (labels @ [lab]) (group_label d lab)"
proof -
  assume g: "grouped labels d"
  have "get_or d (rv_pair_id lab) [] = pair_labels (rv_pair_id lab) labels"
  proof (cases "dict_get d (rv_pair_id lab)")
    case None
    with g have "rv_pair_id lab \<notin> rv_pair_id ` set labels" by (simp add: grouped_def dict_get_None_iff)
    then have "pair_labels (rv_pair_id lab) labels = []"
      by (auto simp: pair_labels_def filter_empty_conv image_iff)
    with None show ?thesis by (simp add: get_or_def)
  next
    case (Some labs)
    with g show ?thesis by (simp add: grouped_def get_or_def)
  qed
  with g show "grouped (labels @ [lab]) (group_label d lab)"
    by (auto simp: grouped_def group_label_def pair_labels_def)
qed

lemma sorted_groups_facts:
  "map fst (sorted_groups labels) = sorted_set (map rv_pair_id labels)"
  "(pid, labs) \<in> set (sorted_groups labels) \<Longrightarrow> labs = pair_labels pid labels \<and> labs \<noteq> []"
proof -
  let ?d = "foldl group_label [] labels"
  have g: "grouped labels ?d"
  proof (induction labels rule: rev_induct)
    case Nil
    then show ?case by (simp add: grouped_def)
  next
    case (snoc lab labels)
    then show ?case using group_label_step by simp
  qed
  have "map fst (sort_key fst ?d) = sort (map fst ?d)"
    by (rule properties_for_sort [symmetric]) (simp_all only: mset_map mset_sort, simp)
  moreover have "sort (map fst ?d) = sorted_set (map rv_pair_id labels)"
    using g by (intro sorted_distinct_set_unique) (simp_all add: grouped_def dict_ok_def)
  ultimately show "map fst (sorted_groups labels) = sorted_set (map rv_pair_id labels)"
    by (simp add: sorted_groups_def)
  assume "(pid, labs) \<in> set (sorted_groups labels)"
  then have m: "(pid, labs) \<in> set ?d" by (simp add: sorted_groups_def)
  with g have "dict_get ?d pid = Some labs" by (simp add: grouped_def dict_ok_mem_get)
  with g have "labs = pair_labels pid labels" by (simp add: grouped_def)
  moreover have "pid \<in> rv_pair_id ` set labels" using m g by (force simp: grouped_def)
  ultimately show "labs = pair_labels pid labels \<and> labs \<noteq> []"
    by (auto simp: pair_labels_def filter_empty_conv)
qed

section \<open>Correctness of the resolution\<close>

text \<open>What justifies a gold label: at least two reviewers, and either the final label of every one of
  them or the verdict of a named human judge.\<close>

definition human_verdict :: "adjudications \<Rightarrow> string \<Rightarrow> string \<Rightarrow> bool" where
  "human_verdict adj pid lab \<longleftrightarrow> (\<exists>e. dict_get adj pid = Some (JObj e) \<and> dict_get e ''label'' = Some (JStr lab) \<and>
     lab \<in> set GOLD_LABELS \<and> get_or e ''adjudicator_kind'' (JStr REVIEWER_HUMAN) = JStr REVIEWER_HUMAN \<and>
     non_blank (dict_get e ''adjudicated_by''))"

definition justified :: "reviewer_label list \<Rightarrow> adjudications \<Rightarrow> string \<Rightarrow> string \<Rightarrow> bool" where
  "justified labels adj pid lab \<longleftrightarrow> 2 \<le> card (reviewers_of pid labels) \<and>
     ((\<forall>k \<in> reviewers_of pid labels. final_label labels pid k lab) \<or> human_verdict adj pid lab)"

lemma gold_label_not_Nil: "[] \<notin> set GOLD_LABELS"
  by (simp add: GOLD_LABELS_def LABEL_SAME_def LABEL_DIFFERENT_def LABEL_AMBIGUOUS_def LABEL_INSUFFICIENT_def)

lemma validated_adjudication:
  assumes "validate_adjudication (JObj e) = Inr u" "text_of e ''label'' \<in> set GOLD_LABELS"
  shows "dict_get e ''label'' = Some (JStr (text_of e ''label''))"
    "get_or e ''adjudicator_kind'' (JStr REVIEWER_HUMAN) = JStr REVIEWER_HUMAN"
    "non_blank (dict_get e ''adjudicated_by'')"
  using assms gold_label_not_Nil
  by (auto simp: validate_adjudication_def bind_res_Inr_iff row_checks text_of_def get_or_def
      split: option.splits json.splits)

lemma validated_entry:
  assumes "map_res (\<lambda>(pid, e). validate_adjudication e) adj = Inr us" "dict_get adj pid = Some e"
  shows "\<exists>u. validate_adjudication e = Inr u"
  using assms by (induction adj arbitrary: us) (auto simp: bind_res_Inr_iff split: if_splits)

lemma gold_verdict:
  assumes "verdict adj pid rl = (st, meth, REVIEW_GOLD, lab, by, conf)"
  shows "length rl \<noteq> 1 \<and> ((top_count (map rv_label rl) = length rl \<and> lab = Some (hd (map rv_label rl))) \<or>
    (\<exists>e. dict_get adj pid = Some (JObj e) \<and> text_of e ''label'' \<in> set GOLD_LABELS \<and> lab = Some (text_of e ''label'')))"
proof -
  have "REVIEW_NEEDS \<noteq> REVIEW_GOLD" by (simp add: review_names)
  with assms show ?thesis
    by (auto simp: verdict_def Let_def split: if_splits option.splits json.splits)
qed

lemma resolved_pair_justified:
  assumes "map_res (\<lambda>(pid, e). validate_adjudication e) adj = Inr us"
    and "(pid, labs) \<in> set (sorted_groups labels)"
    and "rg_review_status (resolve_pair adj (pid, labs)) = REVIEW_GOLD"
  shows "\<exists>lab. rg_label (resolve_pair adj (pid, labs)) = Some lab \<and> justified labels adj pid lab"
proof -
  let ?d = "latest_per_reviewer (pair_labels pid labels)"
  let ?rl = "map snd ?d"
  have labs: "labs = pair_labels pid labels" "labs \<noteq> []" using sorted_groups_facts(2) assms(2) by blast+
  have n: "length ?rl = card (reviewers_of pid labels)" using latest_reviewers(2) by simp
  have "reviewers_of pid labels \<noteq> {}" "finite (reviewers_of pid labels)"
    using labs by (simp_all add: reviewers_of_def)
  with n have pos: "?rl \<noteq> []" by auto
  obtain st meth lab adjby conf where v: "verdict adj pid ?rl = (st, meth, REVIEW_GOLD, lab, adjby, conf)"
    using assms(3) labs by (auto simp: resolve_pair_def Let_def split: prod.splits)
  then have lab: "rg_label (resolve_pair adj (pid, labs)) = lab"
    using labs by (simp add: resolve_pair_def Let_def)
  from gold_verdict [OF v] have two: "2 \<le> card (reviewers_of pid labels)"
    using n pos by (cases "length ?rl") auto
  from gold_verdict [OF v] show ?thesis
  proof (elim conjE disjE exE)
    assume t: "top_count (map rv_label ?rl) = length ?rl" and l: "lab = Some (hd (map rv_label ?rl))"
    from t pos have "\<forall>x \<in> set (map rv_label ?rl). x = hd (map rv_label ?rl)"
      using top_count_unanimous [of "map rv_label ?rl"] by simp
    then have "\<forall>k \<in> reviewers_of pid labels. final_label labels pid k (hd (map rv_label ?rl))"
      using latest_labels(1) [of _ _ pid labels] latest_reviewers(1) [of pid labels] by fastforce
    with two lab l show ?thesis by (auto simp: justified_def)
  next
    fix e assume e: "dict_get adj pid = Some (JObj e)" "text_of e ''label'' \<in> set GOLD_LABELS"
      "lab = Some (text_of e ''label'')"
    obtain u where "validate_adjudication (JObj e) = Inr u" using validated_entry [OF assms(1) e(1)] by blast
    from validated_adjudication [OF this e(2)] e two lab show ?thesis
      by (auto simp: justified_def human_verdict_def)
  qed
qed

lemma resolved_ids:
  "resolve_gold_from_reviewers labels adj = Inr rs \<Longrightarrow>
    rs = map (resolve_pair adj) (sorted_groups labels) \<and> map rg_pair_id rs = sorted_set (map rv_pair_id labels)"
proof -
  assume "resolve_gold_from_reviewers labels adj = Inr rs"
  then have rs: "rs = map (resolve_pair adj) (sorted_groups labels)"
    by (auto simp: resolve_gold_from_reviewers_def bind_res_Inr_iff)
  have "rg_pair_id \<circ> resolve_pair adj = fst"
    by (rule ext) (simp add: resolve_pair_def Let_def split: prod.splits)
  then have "map rg_pair_id rs = map fst (sorted_groups labels)" unfolding rs map_map by (rule arg_cong)
  with rs sorted_groups_facts(1) show ?thesis by metis
qed

text \<open>C3: reviewer labels resolve to one result per pair, and every pair that is then measured as gold has
  at least two reviewers and is justified: the final labels of all its reviewers agree on it, or a named
  human judge gave it.\<close>

theorem gold_needs_agreement:
  assumes "resolve_gold_from_reviewers labels adj = Inr rs"
  shows "map rg_pair_id rs = sorted_set (map rv_pair_id labels) \<and>
    (\<forall>p \<in> set (resolved_to_gold_pairs rs). justified labels adj (ep_pair_id (gp_pair p)) (ep_label (gp_pair p)))"
proof (intro conjI ballI)
  show "map rg_pair_id rs = sorted_set (map rv_pair_id labels)" using resolved_ids [OF assms] by (rule conjunct2)
  fix p assume "p \<in> set (resolved_to_gold_pairs rs)"
  then obtain r lab where r: "r \<in> set rs" "rg_review_status r = REVIEW_GOLD" "rg_label r = Some lab"
    "p = gold_pair_of_resolved r lab"
    by (auto simp: resolved_to_gold_pairs_def map_filter_mem split: if_splits)
  obtain us where us: "map_res (\<lambda>(pid, e). validate_adjudication e) adj = Inr us"
    using assms by (auto simp: resolve_gold_from_reviewers_def bind_res_Inr_iff)
  from r(1) resolved_ids [OF assms] obtain pid labs where
    g: "(pid, labs) \<in> set (sorted_groups labels)" "r = resolve_pair adj (pid, labs)" by auto
  then have "rg_pair_id r = pid" by (simp add: resolve_pair_def Let_def split: prod.splits)
  with resolved_pair_justified [OF us g(1)] g(2) r show
    "justified labels adj (ep_pair_id (gp_pair p)) (ep_label (gp_pair p))"
    by (auto simp: gold_pair_of_resolved_def)
qed

text \<open>Three reviewers on two pairs: the second pair is in conflict and is settled by a judge.\<close>

definition review :: "string \<Rightarrow> string \<Rightarrow> string \<Rightarrow> reviewer_label" where
  "review pid who lab = \<lparr>rv_pair = labelled_pair pid lab ''t'' ''t'', rv_reviewer_id = who, rv_review_round = 1,
     rv_label_confidence = ''high'', rv_reviewed_at = ''2026-06-01'', rv_reviewer_kind = REVIEWER_HUMAN,
     rv_dataset_source = SOURCE_LIVE\<rparr>"

definition reviews :: "reviewer_label list" where
  "reviews = [review ''b'' ''ann'' LABEL_SAME, review ''a'' ''ann'' LABEL_SAME, review ''b'' ''bob'' LABEL_DIFFERENT,
     review ''a'' ''bob'' LABEL_SAME]"

definition judge_entry :: adjudications where
  "judge_entry = [(''b'', JObj [(''label'', JStr LABEL_DIFFERENT), (''adjudicated_by'', JStr ''eve'')])]"

lemma reviews_resolved:
  "map_res (\<lambda>(pid, e). validate_adjudication e) judge_entry = Inr [()]"
  "map rg_label (map (resolve_pair judge_entry) (sorted_groups reviews)) = [Some LABEL_SAME, Some LABEL_DIFFERENT]"
  "map rg_label (map (resolve_pair []) (sorted_groups reviews)) = [Some LABEL_SAME, None]"
  by code_simp+

lemma gold_needs_agreement_witness:
  "\<exists>rs. resolve_gold_from_reviewers reviews judge_entry = Inr rs \<and>
    map rg_label rs = [Some LABEL_SAME, Some LABEL_DIFFERENT] \<and> map rg_pair_id rs = sorted_set (map rv_pair_id reviews)"
proof -
  have run: "resolve_gold_from_reviewers reviews judge_entry =
      Inr (map (resolve_pair judge_entry) (sorted_groups reviews))"
    by (simp only: resolve_gold_from_reviewers_def reviews_resolved(1) bind_res_simps)
  from gold_needs_agreement [OF run]
  have ids: "map rg_pair_id (map (resolve_pair judge_entry) (sorted_groups reviews)) = sorted_set (map rv_pair_id reviews)"
    by (rule conjunct1)
  show ?thesis by (intro exI conjI) (rule run, rule reviews_resolved(2), rule ids)
qed

section \<open>Readiness\<close>

lemma live_gold_idem [simp]: "live_gold (live_gold pairs) = live_gold pairs"
  by (auto simp: live_gold_def gold_only_def intro!: filter_cong)

text \<open>The report reads the pairs only through their live gold.\<close>

lemma readiness_of_live_gold:
  "live_gold pairs' = live_gold pairs \<Longrightarrow>
    evaluate_gold_merge_readiness pairs' = evaluate_gold_merge_readiness pairs"
  by (simp add: evaluate_gold_merge_readiness_def)

lemma readiness_cases:
  assumes "evaluate_gold_merge_readiness pairs = Inr r"
  obtains preds where "predictions (map gp_pair (live_gold pairs)) = Inr preds"
    "mr_gate r = el_merge_gate (measure_pairs (map gp_pair (live_gold pairs)) preds)"
    "mr_merge_ready r \<longleftrightarrow> mg_passed (mr_gate r) \<and> 200 \<le> length (live_gold pairs) \<and>
       50 \<le> length (filter korean (live_gold pairs))"
    "\<not> mr_auto_merge_enabled r"
  using assms
  by (auto simp: evaluate_gold_merge_readiness_def bind_res_Inr_iff Let_def evaluated_pairs measure_pairs_def
      GOLD_MERGE_MIN_LIVE_GOLD_def GOLD_MERGE_MIN_KOREAN_GOLD_def)

lemma passed_gate_has_no_hard_hit:
  assumes "mg_passed (el_merge_gate (measure_pairs ps preds))" "p \<in> set ps"
    and "HARD_NEGATIVE \<in> set (ep_risk_tags p)" "ep_label p \<noteq> LABEL_SAME"
  shows "pred_of preds p \<noteq> ADJ_LIKELY_SAME"
proof -
  have "hard_negative_hits ps preds = 0"
    using assms(1) by (simp add: measure_pairs_def Let_def evaluate_merge_gate_def GATE_HARD_NEGATIVE_MAX_def)
  then show ?thesis using assms(2-4) by (auto simp: hard_negative_hits_def filter_empty_conv pred_of_def)
qed

text \<open>The labels that a human approved and that are not synthetic.\<close>

definition approved_live :: "gold_pair \<Rightarrow> bool" where
  "approved_live p \<longleftrightarrow> gp_review_status p = ''gold'' \<and> gp_dataset_source p = ''live_derived''"

lemma live_gold_approved: "live_gold pairs = filter approved_live pairs"
  by (auto simp: live_gold_def gold_only_def approved_live_def REVIEW_GOLD_def SOURCE_LIVE_def intro: filter_cong)

text \<open>C36: whether the labels are ready for merging depends on the live, human-approved labels only: no
  synthetic, open or rejected pair changes the report. Readiness needs 200 such labels, 50 of them Korean,
  and not one hard negative that the judgement takes for the same event; and the report never turns merging
  on.\<close>

theorem readiness_rests_on_live_gold:
  assumes "evaluate_gold_merge_readiness pairs = Inr r"
  shows "(\<forall>pairs'. filter approved_live pairs' = filter approved_live pairs \<longrightarrow> evaluate_gold_merge_readiness pairs' = Inr r) \<and>
    \<not> mr_auto_merge_enabled r \<and>
    (mr_merge_ready r \<longrightarrow> 200 \<le> length (filter approved_live pairs) \<and> 50 \<le> length (filter korean (filter approved_live pairs)) \<and>
      (distinct (map (\<lambda>p. ep_pair_id (gp_pair p)) (filter approved_live pairs)) \<longrightarrow>
        (\<forall>p \<in> set (filter approved_live pairs). HARD_NEGATIVE \<in> set (ep_risk_tags (gp_pair p)) \<and>
          ep_label (gp_pair p) \<noteq> LABEL_SAME \<longrightarrow> predict_status (gp_pair p) \<noteq> Inr ADJ_LIKELY_SAME)))"
proof -
  obtain preds where r: "predictions (map gp_pair (live_gold pairs)) = Inr preds"
      "mr_gate r = el_merge_gate (measure_pairs (map gp_pair (live_gold pairs)) preds)"
      "mr_merge_ready r \<longleftrightarrow> mg_passed (mr_gate r) \<and> 200 \<le> length (live_gold pairs) \<and>
         50 \<le> length (filter korean (live_gold pairs))"
      "\<not> mr_auto_merge_enabled r"
    using assms by (rule readiness_cases)
  have "predict_status (gp_pair p) \<noteq> Inr ADJ_LIKELY_SAME"
    if "mr_merge_ready r" "distinct (map (\<lambda>p. ep_pair_id (gp_pair p)) (live_gold pairs))" "p \<in> set (live_gold pairs)"
      "HARD_NEGATIVE \<in> set (ep_risk_tags (gp_pair p))" "ep_label (gp_pair p) \<noteq> LABEL_SAME" for p
  proof -
    have "predict_status (gp_pair p) = Inr (pred_of preds (gp_pair p))"
      using that by (intro predictions_own [OF r(1)]) (simp_all add: comp_def)
    with passed_gate_has_no_hard_hit [of "map gp_pair (live_gold pairs)" preds "gp_pair p"] that r(2,3)
    show ?thesis by simp
  qed
  moreover have "evaluate_gold_merge_readiness pairs' = Inr r" if "live_gold pairs' = live_gold pairs" for pairs'
    using assms readiness_of_live_gold [OF that] by simp
  ultimately show ?thesis using r(3,4) unfolding live_gold_approved [symmetric] by simp
qed

text \<open>A set that is ready: a hundred pairs of one event and a hundred that a community source alone reports.\<close>

definition ready_pair :: "string \<Rightarrow> string \<Rightarrow> nat \<Rightarrow> gold_pair" where
  "ready_pair label source_type i = \<lparr>gp_pair = \<lparr>ep_pair_id = nat_str i, ep_label = label, ep_language = ''ko'',
      ep_source_type_left = source_type, ep_source_type_right = source_type, ep_title_left = ''aa bb cc dd'',
      ep_title_right = ''aa bb cc dd'', ep_observed_at_left = JNull, ep_observed_at_right = JNull,
      ep_canonical_url_left = JNull, ep_canonical_url_right = JNull, ep_rationale = JNull,
      ep_risk_tags = [HARD_NEGATIVE]\<rparr>,
    gp_reviewed_by = ''ann'', gp_reviewed_at = ''2026-06-01'', gp_review_status = REVIEW_GOLD,
    gp_label_confidence = ''high'', gp_dataset_source = SOURCE_LIVE\<rparr>"

lemma ready_tokens: "title_tokens (Some ''aa bb cc dd'') = [''aa'', ''bb'', ''cc'', ''dd'']"
  by code_simp

lemma ready_time: "parse_dt JNull = Inr EPOCH"
  by code_simp

lemmas ready_eval = predict_status_def pair_to_views_def ready_time judge_views_def pair_view_def
  build_adjudication_features_def ready_tokens classify_identity_candidate_def jaccard_def has_publishable_def
  only_def KNOWN_SOURCE_TYPES_def date_distance_days_def PUBLISHABLE_SOURCE_TYPES_def

lemma ready_predictions:
  "predict_status (gp_pair (ready_pair label ''article'' i)) = Inr ADJ_LIKELY_SAME"
  "predict_status (gp_pair (ready_pair label ''community'' i)) = Inr ADJ_INSUFFICIENT"
  by (simp_all add: ready_pair_def ready_eval Let_def TITLE_SIM_HIGH_def MIN_SEMANTIC_TOKENS_def DATE_FAR_DAYS_def
      DATE_NEAR_DAYS_def)

definition ready_set :: "nat \<Rightarrow> gold_pair list" where
  "ready_set n = map (ready_pair LABEL_SAME ''article'') [0..<n] @
     map (ready_pair LABEL_DIFFERENT ''community'') [n..<2 * n]"

lemma nat_str_inj: "nat_str m = nat_str n \<longleftrightarrow> m = n"
  by (metis py_int_nat_str option.inject of_nat_eq_iff)

lemma ready_set_live: "live_gold (ready_set n) = ready_set n"
proof -
  have "gp_review_status p = REVIEW_GOLD \<and> gp_dataset_source p = SOURCE_LIVE" if "p \<in> set (ready_set n)" for p
    using that by (auto simp: ready_set_def ready_pair_def)
  then show ?thesis unfolding live_gold_def gold_only_def filter_filter by (intro filter_True) blast
qed

lemma ready_set_ids: "distinct (map (\<lambda>p. ep_pair_id (gp_pair p)) (ready_set n))"
  by (auto simp: ready_set_def ready_pair_def distinct_map comp_def inj_on_def nat_str_inj)

lemma cell_all:
  assumes "\<forall>p \<in> set ps. pred_of preds p = s \<and> ep_label p = l"
  shows "cell preds a b ps = (if (s = ADJ_LIKELY_SAME) = a \<and> (l = LABEL_SAME) = b then length ps else 0)"
  using assms by (auto simp: cell_def filter_id_conv filter_empty_conv intro!: arg_cong [where f = length])

lemma cell_append: "cell preds a b (ps @ qs) = cell preds a b ps + cell preds a b qs"
  by (simp add: cell_def)

lemma perfect_metrics:
  assumes "\<And>a b. cell preds a b A = (if a \<and> b then n else 0)" "\<And>a b. cell preds a b B = (if a \<or> b then 0 else n)"
    and "0 < n"
  shows "em_precision (metrics_for (A @ B) preds) = Some 1"
    "em_false_positive_rate (metrics_for (A @ B) preds) = Some 0" "hard_negative_hits (A @ B) preds = 0"
  using assms hard_negative_hits_le [of "A @ B" preds]
  by (simp_all add: cell_append metrics_for_def Let_def confusion_cells no_confusion_def safe_div_def round4_def)

lemma breakdown_single:
  assumes "\<forall>p \<in> set ps. f p = k" "ps \<noteq> []"
  shows "breakdown (\<lambda>p. [f p]) ps preds = [(k, metrics_for ps preds)]"
proof -
  have "sorted_set (map f ps) = [k]"
    using assms by (intro sorted_distinct_set_unique) (auto simp: image_iff neq_Nil_conv)
  moreover have "filter (\<lambda>p. k = f p) ps = ps" using assms(1) by (simp add: filter_id_conv)
  ultimately show ?thesis by (simp add: breakdown_def)
qed

lemma ready_set_is_ready:
  assumes n: "100 \<le> n"
  shows "\<exists>r. evaluate_gold_merge_readiness (ready_set n) = Inr r \<and> mr_merge_ready r"
proof -
  let ?A = "map gp_pair (map (ready_pair LABEL_SAME ''article'') [0..<n])"
  let ?B = "map gp_pair (map (ready_pair LABEL_DIFFERENT ''community'') [n..<2 * n])"
  let ?P = "?A @ ?B"
  have P: "map gp_pair (ready_set n) = ?P" by (simp add: ready_set_def)
  have dated: "\<forall>p \<in> set ?P. dated (ep_observed_at_left p) \<and> dated (ep_observed_at_right p)"
    by (auto simp: ready_pair_def dated_def)
  obtain preds where preds: "predictions ?P = Inr preds"
    using evaluate_dated [OF dated] by (auto simp: evaluated_pairs)
  have d: "distinct (map ep_pair_id ?P)"
    using ready_set_ids [of n] by (simp add: ready_set_def comp_def)
  have own: "predict_status p = Inr (pred_of preds p)" if "p \<in> set ?P" for p
    using predictions_own [OF preds d that] .
  have "\<forall>p \<in> set ?A. pred_of preds p = ADJ_LIKELY_SAME \<and> ep_label p = LABEL_SAME"
  proof
    fix p assume m: "p \<in> set ?A"
    then obtain i where p: "p = gp_pair (ready_pair LABEL_SAME ''article'' i)" by auto
    have "predict_status p = Inr (pred_of preds p)" using m by (intro own) simp
    then have "pred_of preds p = ADJ_LIKELY_SAME" by (simp only: p ready_predictions sum.inject)
    then show "pred_of preds p = ADJ_LIKELY_SAME \<and> ep_label p = LABEL_SAME" by (simp add: p ready_pair_def)
  qed
  from cell_all [OF this] have A: "cell preds a b ?A = (if a \<and> b then n else 0)" for a b by simp
  have "\<forall>p \<in> set ?B. pred_of preds p = ADJ_INSUFFICIENT \<and> ep_label p = LABEL_DIFFERENT"
  proof
    fix p assume m: "p \<in> set ?B"
    then obtain i where p: "p = gp_pair (ready_pair LABEL_DIFFERENT ''community'' i)" by auto
    have "predict_status p = Inr (pred_of preds p)" using m by (intro own) simp
    then have "pred_of preds p = ADJ_INSUFFICIENT" by (simp only: p ready_predictions sum.inject)
    then show "pred_of preds p = ADJ_INSUFFICIENT \<and> ep_label p = LABEL_DIFFERENT" by (simp add: p ready_pair_def)
  qed
  from cell_all [OF this] have B: "cell preds a b ?B = (if a \<or> b then 0 else n)" for a b
    by (simp add: adj_names LABEL_SAME_def LABEL_DIFFERENT_def)
  have m: "em_precision (metrics_for ?P preds) = Some 1" "em_false_positive_rate (metrics_for ?P preds) = Some 0"
    and h: "hard_negative_hits ?P preds = 0"
    using n by (intro perfect_metrics [OF A B]; simp)+
  have k: "breakdown (\<lambda>p. [ep_language p]) ?P preds = [(''ko'', metrics_for ?P preds)]"
    using n by (intro breakdown_single) (auto simp: ready_pair_def)
  have "mg_passed (el_merge_gate (measure_pairs ?P preds))"
    by (simp add: measure_pairs_def Let_def k m h evaluate_merge_gate_def at_least_def at_most_def GATE_PRECISION_MIN_def
        GATE_FPR_MAX_def GATE_KOREAN_PRECISION_MIN_def del: map_map map_append)
  moreover have "evaluate_adjudicator ?P = Inr (measure_pairs ?P preds)"
    by (simp only: evaluate_adjudicator_def preds bind_res_simps)
  moreover have "length (ready_set n) = 2 * n" by (simp add: ready_set_def)
  moreover have "filter korean (ready_set n) = ready_set n"
    by (auto simp: ready_set_def korean_def ready_pair_def filter_id_conv)
  ultimately show ?thesis
    unfolding evaluate_gold_merge_readiness_def ready_set_live P
    using n by (simp add: Let_def measure_pairs_def GOLD_MERGE_MIN_LIVE_GOLD_def GOLD_MERGE_MIN_KOREAN_GOLD_def
        del: map_map map_append)
qed

lemma readiness_rests_on_live_gold_witness:
  "\<exists>r. evaluate_gold_merge_readiness (ready_set 100) = Inr r \<and> mr_merge_ready r \<and> \<not> mr_auto_merge_enabled r \<and>
    200 \<le> length (filter approved_live (ready_set 100))"
proof -
  obtain r where r: "evaluate_gold_merge_readiness (ready_set 100) = Inr r" "mr_merge_ready r"
    using ready_set_is_ready [of 100] by blast
  from readiness_rests_on_live_gold [OF r(1)] r show ?thesis by blast
qed

section \<open>The file of gold rows\<close>

lemma str_join_nl: "ls \<noteq> [] \<Longrightarrow> str_join [nl] ls @ [nl] = write_lines ls"
  by (induction ls rule: induct_list012) (simp_all add: write_lines_def)

lemma jsonl_text_lines: "jsonl_text ls = write_lines ls"
  using str_join_nl [of ls] by (cases "ls = []") (simp_all add: jsonl_text_def write_lines_def)

lemma splitlines_jsonl: "encodes_rows dumps loads rows \<Longrightarrow> splitlines (jsonl_text (map dumps rows)) = map dumps rows"
  unfolding jsonl_text_lines by (rule splitlines_write) (auto simp: encodes_rows_def list_all_iff)


definition gold_row :: "string \<Rightarrow> json" where
  "gold_row pid = JObj [(''pair_id'', JStr pid), (''label'', JStr LABEL_SAME), (''language'', JStr ''ko''),
     (''source_type_left'', JStr ''article''), (''source_type_right'', JStr ''official''), (''title_left'', JStr ''t''),
     (''title_right'', JStr ''t''), (''observed_at_left'', JNull), (''observed_at_right'', JNull),
     (''reviewed_by'', JStr ''ann''), (''reviewed_at'', JStr ''2026-06-01''), (''review_status'', JStr REVIEW_GOLD),
     (''label_confidence'', JStr ''high'')]"

definition row_dumps :: "json \<Rightarrow> string" where
  "row_dumps r = (if r = gold_row ''a'' then ''{a}'' else ''{b}'')"

definition row_loads :: "string \<Rightarrow> json option" where
  "row_loads s = (if s = ''{a}'' then Some (gold_row ''a'') else Some (gold_row ''b''))"


text \<open>The writer does not escape characters outside ASCII: a title with a line separator (U+2028) is written
  into one line that the loader splits in two.\<close>

lemma line_separator_breaks_gold_file:
  assumes "no_breaks a" "strip a = a" "\<not> skipped_line a" "loads a = None"
  shows "load_gold_pairs loads (jsonl_text [a @ LINE_SEPARATOR @ rest]) = Inl (ValueError ''invalid JSON'')"
proof -
  have "splitlines (jsonl_text [a @ LINE_SEPARATOR @ rest]) = a # splitlines (rest @ [nl])"
    using splitlines_separator [OF assms(1), of "[]" "rest @ [nl]"] by (simp add: jsonl_text_def splitlines_def)
  with assms(2-4) show ?thesis by (simp add: load_gold_pairs_def)
qed

text \<open>Reviewed stamps are compared as texts: midnight in Seoul counts as later than the evening before in UTC.\<close>

definition seoul_midnight :: string where "seoul_midnight = ''2026-06-02T00:00:00+09:00''"
definition utc_evening :: string where "utc_evening = ''2026-06-01T20:00:00+00:00''"

lemma reviewed_at_is_text_order:
  "max_str [seoul_midnight, utc_evening] = seoul_midnight"
  "dt_instant (parse_stamp seoul_midnight) < dt_instant (parse_stamp utc_evening)"
  by code_simp+

text \<open>The row of the first reviewer stands for the pair: when reviewers file it under different sources, the
  order of the labels decides whether the pair counts as live.\<close>

definition review_from :: "string \<Rightarrow> string \<Rightarrow> reviewer_label" where
  "review_from who source = (review ''a'' who LABEL_SAME)\<lparr>rv_dataset_source := source\<rparr>"

definition sources_resolved :: "reviewer_label list \<Rightarrow> string list" where
  "sources_resolved labels = map (\<lambda>g. rg_dataset_source (resolve_pair [] g)) (sorted_groups labels)"

lemma first_reviewer_decides_the_source:
  "sources_resolved [review_from ''ann'' SOURCE_LIVE, review_from ''bob'' SOURCE_SYNTHETIC] = [SOURCE_LIVE]"
  "sources_resolved [review_from ''bob'' SOURCE_SYNTHETIC, review_from ''ann'' SOURCE_LIVE] = [SOURCE_SYNTHETIC]"
  by code_simp+

end
