(* ===== verification/Labeling_Packets.thy ===== *)
theory Labeling_Packets
  imports Gold_Labeling
begin

text \<open>
  Sampling and reviewer packets: the last two parts of
  \<open>backend/app/services/identity_human_labeling.py\<close>.

  A worksheet row is a dictionary of JSON values. Its risk tags are a list of strings and its dataset
  source is a string; other types are outside the model (\<open>TypeError\<close>). \<open>sha256\<close> is the hash in
  hexadecimal.
\<close>

section \<open>Sampling of labelled pairs\<close>

definition SAMPLING_BUCKETS :: "string list" where
  "SAMPLING_BUCKETS = [''likely_same_positive'', ''likely_same_hard_negative'', ''ambiguous_multi_candidate'',
     ''insufficient_generic'', ''ko_same_event'', ''ko_different_event'', ''mixed_translation'', ''community_only'',
     ''market_only'', ''catalog_only'', ''far_date_same_title'', ''official_news_same_event'']"

definition BUCKET_OTHER :: string where "BUCKET_OTHER = ''other''"
definition SAMPLING_MIN_TARGET_DRAFT :: nat where "SAMPLING_MIN_TARGET_DRAFT = 20"
definition FLOOR_Z_95 :: rat where "FLOOR_Z_95 = 196 / 100"

definition assign_sampling_bucket :: "string \<Rightarrow> string \<Rightarrow> string \<Rightarrow> string \<Rightarrow> string list \<Rightarrow> string" where
  "assign_sampling_bucket language left right label tags =
    (let types = {left, right} in
     if ''hard_negative'' \<in> set tags then ''likely_same_hard_negative''
     else if ''far_date'' \<in> set tags then ''far_date_same_title''
     else if ''translation'' \<in> set tags then ''mixed_translation''
     else if types = {''community''} then ''community_only''
     else if ''market'' \<in> types \<and> ''official'' \<notin> types \<and> ''article'' \<notin> types then ''market_only''
     else if types = {''catalog''} then ''catalog_only''
     else if label = LABEL_AMBIGUOUS then ''ambiguous_multi_candidate''
     else if ''generic_title'' \<in> set tags then ''insufficient_generic''
     else if language = ''ko'' \<and> label = LABEL_SAME then ''ko_same_event''
     else if language = ''ko'' \<and> label = LABEL_DIFFERENT then ''ko_different_event''
     else if label = LABEL_SAME \<and> ''official'' \<in> types then ''official_news_same_event''
     else if label = LABEL_SAME then ''likely_same_positive''
     else if label = LABEL_INSUFFICIENT then ''insufficient_generic''
     else BUCKET_OTHER)"

record sampling_summary =
  sp_by_bucket :: "(string, nat) dict"
  sp_min_target_draft :: nat
  sp_under_filled_buckets :: "string list"
  sp_unclassified :: nat

definition zero_counts :: "string list \<Rightarrow> (string, nat) dict" where
  "zero_counts keys = dict_of (map (\<lambda>b. (b, 0)) keys)"

text \<open>On resolved pairs, as the protocol report uses it; a pair without a label is left out.\<close>

definition resolved_bucket :: "resolved_gold \<Rightarrow> string option" where
  "resolved_bucket r = map_option (\<lambda>lbl. assign_sampling_bucket (rg_language r) (rg_source_type_left r)
     (rg_source_type_right r) lbl (rg_risk_tags r)) (rg_label r)"

definition summarize_sampling_buckets :: "resolved_gold list \<Rightarrow> sampling_summary" where
  "summarize_sampling_buckets items =
    (let counts = foldl (\<lambda>d b. count_up b d) (zero_counts (SAMPLING_BUCKETS @ [BUCKET_OTHER]))
           (List.map_filter resolved_bucket items)
     in \<lparr>sp_by_bucket = counts, sp_min_target_draft = SAMPLING_MIN_TARGET_DRAFT,
         sp_under_filled_buckets = sort (filter (\<lambda>b. get_or counts b 0 < SAMPLING_MIN_TARGET_DRAFT) SAMPLING_BUCKETS),
         sp_unclassified = get_or counts BUCKET_OTHER 0\<rparr>)"

definition estimate_sample_floor_for_precision :: "rat \<Rightarrow> rat \<Rightarrow> rat \<Rightarrow> int res" where
  "estimate_sample_floor_for_precision target half_width z =
    (let p = min (max target 0) 1 in
     if half_width \<le> 0 then Inl (ValueError ''half_width must be > 0'')
     else Inr \<lceil>(z * z * p * (1 - p)) / (half_width * half_width)\<rceil>)"

definition estimate_sample_floor_for_fpr :: "rat \<Rightarrow> rat \<Rightarrow> rat \<Rightarrow> int res" where
  "estimate_sample_floor_for_fpr target half_width z = estimate_sample_floor_for_precision target half_width z"

record sample_floors =
  sf_positive :: int
  sf_negative :: int
  sf_live_gold :: nat
  sf_korean_gold :: nat

definition recommended_sample_floors :: "sample_floors res" where
  "recommended_sample_floors =
    bind_res (estimate_sample_floor_for_precision (98 / 100) (2 / 100) FLOOR_Z_95) (\<lambda>p.
    bind_res (estimate_sample_floor_for_fpr (1 / 100) (1 / 100) FLOOR_Z_95) (\<lambda>n.
      Inr \<lparr>sf_positive = p, sf_negative = n, sf_live_gold = GOLD_MERGE_MIN_LIVE_GOLD,
           sf_korean_gold = GOLD_MERGE_MIN_KOREAN_GOLD\<rparr>))"

record protocol_report =
  pr_total_pairs_exported :: "nat option"
  pr_reviewer_labels_count :: nat
  pr_distinct_pairs :: nat
  pr_resolved_gold_count :: nat
  pr_agreement_rate :: "rat option"
  pr_multi_reviewer_pairs :: nat
  pr_by_agreement_status :: "(string, nat) dict"
  pr_sampling :: sampling_summary
  pr_sample_floors :: sample_floors
  pr_gold_metrics :: "gold_report option"
  pr_auto_merged :: nat

definition AGREEMENT_STATUSES :: "string list" where
  "AGREEMENT_STATUSES = [AGREE_AGREED, AGREE_CONFLICT, AGREE_ADJUDICATED, AGREE_INSUFFICIENT]"

definition generate_labeling_protocol_report ::
  "reviewer_label list \<Rightarrow> nat option \<Rightarrow> adjudications \<Rightarrow> protocol_report res" where
  "generate_labeling_protocol_report labels total_exported adj =
    (let agreement = compute_reviewer_agreement labels in
     bind_res (resolve_gold_from_reviewers labels adj) (\<lambda>resolved.
       let gold_pairs = resolved_to_gold_pairs resolved;
           counts = foldl (\<lambda>d r. count_up (rg_agreement_status r) d) (zero_counts AGREEMENT_STATUSES) resolved
       in bind_res (if gold_pairs = [] then Inr None
              else bind_res (generate_gold_eval_report gold_pairs None) (\<lambda>g. Inr (Some g))) (\<lambda>gold_report.
          bind_res recommended_sample_floors (\<lambda>floors.
            Inr \<lparr>pr_total_pairs_exported = total_exported, pr_reviewer_labels_count = length labels,
                 pr_distinct_pairs = length resolved, pr_resolved_gold_count = length gold_pairs,
                 pr_agreement_rate = ag_agreement_rate agreement,
                 pr_multi_reviewer_pairs = ag_multi_reviewer_pairs agreement, pr_by_agreement_status = counts,
                 pr_sampling = summarize_sampling_buckets resolved, pr_sample_floors = floors,
                 pr_gold_metrics = gold_report, pr_auto_merged = 0\<rparr>))))"

section \<open>Buckets of candidates\<close>

definition PRED_LIKELY_SAME :: string where "PRED_LIKELY_SAME = ''likely_same_event''"
definition PRED_AMBIGUOUS :: string where "PRED_AMBIGUOUS = ''ambiguous''"
definition PRED_LIKELY_DIFFERENT :: string where "PRED_LIKELY_DIFFERENT = ''likely_different_event''"
definition PRED_INSUFFICIENT :: string where "PRED_INSUFFICIENT = ''insufficient_features''"

definition CANDIDATE_BUCKET_TARGETS :: "(string, int) dict" where
  "CANDIDATE_BUCKET_TARGETS = [(''likely_same_predicted'', 20), (''ambiguous_predicted'', 30), (''hard_negative'', 40),
     (''ko_same_event_candidate'', 30), (''ko_different_event_candidate'', 30), (''mixed_translation'', 25),
     (''paraphrase'', 25), (''template_collision'', 25), (''far_date_same_title'', 20), (''generic_title'', 15),
     (''community_guard'', 15), (''market_guard'', 15), (''catalog_guard'', 15), (''unknown_guard'', 15),
     (''official_news_positive'', 20)]"

definition CANDIDATE_BUCKETS :: "string list" where
  "CANDIDATE_BUCKETS = [''likely_same_predicted'', ''ambiguous_predicted'', ''hard_negative'',
     ''ko_same_event_candidate'', ''ko_different_event_candidate'', ''mixed_translation'', ''paraphrase'',
     ''template_collision'', ''far_date_same_title'', ''generic_title'', ''community_guard'', ''market_guard'',
     ''catalog_guard'', ''unknown_guard'', ''official_news_positive'']"

definition CANDIDATE_BUCKET_OTHER :: string where "CANDIDATE_BUCKET_OTHER = ''other_candidate''"

definition assign_candidate_bucket ::
  "string \<Rightarrow> string \<Rightarrow> string \<Rightarrow> string \<Rightarrow> string \<Rightarrow> string list \<Rightarrow> string" where
  "assign_candidate_bucket predicted reason language left right tags =
    (let types = [left, right]; core = (''official'' \<in> set types \<or> ''article'' \<in> set types) in
     if reason = ''unknown_source_type_fail_closed'' \<or> ''unknown'' \<in> set types \<or> left = [] \<or> right = [] then ''unknown_guard''
     else if set types = {''community''} then ''community_guard''
     else if (''market'' \<in> set types \<or> ''signal'' \<in> set types) \<and> \<not> core then ''market_guard''
     else if set types = {''catalog''} then ''catalog_guard''
     else if ''hard_negative'' \<in> set tags then ''hard_negative''
     else if ''translation'' \<in> set tags \<or> language = ''mixed'' then ''mixed_translation''
     else if ''paraphrase'' \<in> set tags then ''paraphrase''
     else if ''template'' \<in> set tags then ''template_collision''
     else if reason = ''far_date_distance'' then ''far_date_same_title''
     else if reason = ''generic_title'' then ''generic_title''
     else if predicted = PRED_AMBIGUOUS then ''ambiguous_predicted''
     else if predicted = PRED_INSUFFICIENT then ''generic_title''
     else if predicted = PRED_LIKELY_DIFFERENT then
       (if language = ''ko'' then ''ko_different_event_candidate'' else ''hard_negative'')
     else if predicted = PRED_LIKELY_SAME then
       (if language = ''ko'' then ''ko_same_event_candidate''
        else if core then ''official_news_positive'' else ''likely_same_predicted'')
     else CANDIDATE_BUCKET_OTHER)"

type_synonym worksheet_row = "(string, json) dict"

text \<open>\<open>str(r.get(key, default))\<close> and the tags of a row.\<close>

definition shown :: "worksheet_row \<Rightarrow> string \<Rightarrow> string \<Rightarrow> string" where
  "shown r key d = json_show (get_or r key (JStr d))"

definition row_tags :: "worksheet_row \<Rightarrow> string list res" where
  "row_tags r = (case get_or r ''risk_tags'' (JList []) of JList vs \<Rightarrow> json_strs vs | _ \<Rightarrow> Inl TypeError)"

definition bucket_of_row :: "worksheet_row \<Rightarrow> string res" where
  "bucket_of_row r = bind_res (row_tags r) (\<lambda>tags.
     Inr (assign_candidate_bucket (shown r ''predicted_status'' []) (shown r ''reason'' []) (shown r ''language'' ''unknown'')
       (shown r ''source_type_left'' []) (shown r ''source_type_right'' []) tags))"

section \<open>Selection\<close>

definition SELECTION_PAIR_ID_ORDER :: string where "SELECTION_PAIR_ID_ORDER = ''deterministic_pair_id_order_cap''"
definition SELECTION_BUCKET_HASH :: string where "SELECTION_BUCKET_HASH = ''deterministic_bucket_hash_cap''"
definition SELECTION_METHODS :: "string list" where
  "SELECTION_METHODS = [SELECTION_PAIR_ID_ORDER, SELECTION_BUCKET_HASH]"

definition selection_sort_key :: "(string \<Rightarrow> string) \<Rightarrow> string \<Rightarrow> worksheet_row \<Rightarrow> string" where
  "selection_sort_key sha256 meth r = (let pid = shown r ''pair_id'' [] in
     if meth = SELECTION_BUCKET_HASH then sha256 pid else pid)"

definition targets_or_default :: "(string, int) dict \<Rightarrow> (string, int) dict" where
  "targets_or_default targets = (if targets = [] then CANDIDATE_BUCKET_TARGETS else targets)"

definition cap_of :: "(string, int) dict \<Rightarrow> string \<Rightarrow> int" where
  "cap_of targets bucket = get_or targets bucket (int SAMPLING_MIN_TARGET_DRAFT)"

text \<open>The loop: a row passes until its bucket is full.\<close>

fun cap_buckets :: "(string, int) dict \<Rightarrow> (string, nat) dict \<Rightarrow> (string \<times> 'a) list \<Rightarrow> (string \<times> 'a) list" where
  "cap_buckets targets counts [] = []"
| "cap_buckets targets counts ((b, r) # rs) =
     (if cap_of targets b \<le> int (get_or counts b 0) then cap_buckets targets counts rs
      else (b, r) # cap_buckets targets (count_up b counts) rs)"

definition bucketed :: "worksheet_row list \<Rightarrow> (string \<times> worksheet_row) list res" where
  "bucketed rows = map_res (\<lambda>r. bind_res (bucket_of_row r) (\<lambda>b. Inr (b, r))) rows"

definition sample_candidate_pairs ::
  "(string \<Rightarrow> string) \<Rightarrow> worksheet_row list \<Rightarrow> (string, int) dict \<Rightarrow> string \<Rightarrow> (string \<times> worksheet_row) list res" where
  "sample_candidate_pairs sha256 rows targets meth =
    (if meth \<notin> set SELECTION_METHODS then Inl (ValueError ''unknown selection_method'')
     else bind_res (bucketed (sort_key (selection_sort_key sha256 meth) rows)) (\<lambda>bs.
       Inr (cap_buckets (targets_or_default targets) [] bs)))"

section \<open>Packets\<close>

definition ASSIGN_ASSIGNED :: string where "ASSIGN_ASSIGNED = ''assigned''"
definition ASSIGNMENT_STATUSES :: "string list" where
  "ASSIGNMENT_STATUSES = [ASSIGN_ASSIGNED, ''in_review'', ''completed'']"

definition PACKET_ALLOWED_KEYS :: "string list" where
  "PACKET_ALLOWED_KEYS = [''pair_id'', ''language'', ''source_type_left'', ''source_type_right'',
     ''title_left'', ''title_right'', ''observed_at_left'', ''observed_at_right'',
     ''canonical_url_left'', ''canonical_url_right'', ''risk_tags'', ''packet_id'', ''candidate_link_id'',
     ''reviewer_id'', ''review_round'', ''assignment_status'', ''sampling_bucket'', ''instructions'']"

definition PACKET_REQUIRED_KEYS :: "string list" where
  "PACKET_REQUIRED_KEYS = [''packet_id'', ''pair_id'', ''reviewer_id'', ''review_round'', ''assignment_status'',
     ''sampling_bucket'', ''language'', ''source_type_left'', ''source_type_right'',
     ''title_left'', ''title_right'', ''observed_at_left'', ''observed_at_right'']"

definition PACKET_FORBIDDEN_VERDICT_KEYS :: "string list" where
  "PACKET_FORBIDDEN_VERDICT_KEYS = [''predicted_status'', ''score'', ''reason'', ''label'']"

definition PACKET_INSTRUCTIONS :: string where
  "PACKET_INSTRUCTIONS = ''label same_event/different_event/ambiguous/insufficient using titles/metadata only; '' @
     ''do not use raw body; model prediction withheld (no bias)''"

record packet_item =
  pi_packet_id :: string
  pi_pair_id :: string
  pi_reviewer_id :: string
  pi_review_round :: int
  pi_assignment_status :: string
  pi_sampling_bucket :: string
  pi_language :: string
  pi_source_type_left :: json
  pi_source_type_right :: json
  pi_title_left :: json
  pi_title_right :: json
  pi_observed_at_left :: json
  pi_observed_at_right :: json
  pi_candidate_link_id :: "string option"
  pi_canonical_url_left :: json
  pi_canonical_url_right :: json
  pi_risk_tags :: "string list"
  pi_instructions :: string

definition field_of :: "worksheet_row \<Rightarrow> string \<Rightarrow> json res" where
  "field_of r k = (case dict_get r k of None \<Rightarrow> Inl (KeyError k) | Some v \<Rightarrow> Inr v)"

definition make_packet_item :: "string \<Rightarrow> worksheet_row \<Rightarrow> string \<Rightarrow> string \<Rightarrow> packet_item res" where
  "make_packet_item packet_id r bucket reviewer_id =
    bind_res (field_of r ''pair_id'') (\<lambda>pid.
    bind_res (field_of r ''source_type_left'') (\<lambda>sl.
    bind_res (field_of r ''source_type_right'') (\<lambda>sr.
    bind_res (field_of r ''title_left'') (\<lambda>tl.
    bind_res (field_of r ''title_right'') (\<lambda>tr.
    bind_res (field_of r ''observed_at_left'') (\<lambda>ol.
    bind_res (field_of r ''observed_at_right'') (\<lambda>or.
    bind_res (row_tags r) (\<lambda>tags.
      Inr \<lparr>pi_packet_id = packet_id, pi_pair_id = json_show pid, pi_reviewer_id = reviewer_id, pi_review_round = 1,
           pi_assignment_status = ASSIGN_ASSIGNED, pi_sampling_bucket = bucket,
           pi_language = shown r ''language'' ''unknown'', pi_source_type_left = sl, pi_source_type_right = sr,
           pi_title_left = tl, pi_title_right = tr, pi_observed_at_left = ol, pi_observed_at_right = or,
           pi_candidate_link_id = Some (json_show pid),
           pi_canonical_url_left = get_or r ''canonical_url_left'' JNull,
           pi_canonical_url_right = get_or r ''canonical_url_right'' JNull,
           pi_risk_tags = tags, pi_instructions = PACKET_INSTRUCTIONS\<rparr>))))))))"

definition assignments :: "nat \<Rightarrow> string list \<Rightarrow> (string \<times> worksheet_row) list \<Rightarrow> ((string \<times> worksheet_row) \<times> string) list" where
  "assignments n reviewers selected =
     concat (map (\<lambda>(idx, sel). map (\<lambda>k. (sel, reviewers ! ((idx + k) mod length reviewers))) [0..<n])
       (enumerate 0 selected))"

definition assign_reviewer_packet ::
  "(string \<times> worksheet_row) list \<Rightarrow> string \<Rightarrow> string list \<Rightarrow> int \<Rightarrow> packet_item list res" where
  "assign_reviewer_packet selected packet_id reviewers per_pair =
    (let who = uniq reviewers in
     if per_pair < 1 then Inl (ValueError ''reviewers_per_pair must be >= 1'')
     else if int (length who) < per_pair then Inl (ValueError ''need distinct reviewers'')
     else map_res (\<lambda>((bucket, r), rid). make_packet_item packet_id r bucket rid) (assignments (nat per_pair) who selected))"

definition build_labeling_packet ::
  "(string \<Rightarrow> string) \<Rightarrow> worksheet_row list \<Rightarrow> string \<Rightarrow> string list \<Rightarrow> int \<Rightarrow> (string, int) dict \<Rightarrow> string \<Rightarrow> packet_item list res" where
  "build_labeling_packet sha256 rows packet_id reviewers per_pair targets meth =
    bind_res (sample_candidate_pairs sha256 rows targets meth) (\<lambda>selected.
      assign_reviewer_packet selected packet_id reviewers per_pair)"

definition set_if :: "bool \<Rightarrow> string \<Rightarrow> json \<Rightarrow> (string, json) dict \<Rightarrow> (string, json) dict" where
  "set_if c k v d = (if c then dict_set k v d else d)"

lemma dict_get_set_if [simp]: "dict_get (set_if c k v d) k' = (if c \<and> k = k' then Some v else dict_get d k')"
  by (simp add: set_if_def)

definition packet_item_to_dict :: "packet_item \<Rightarrow> (string, json) dict" where
  "packet_item_to_dict p =
    (let d = [(''packet_id'', JStr (pi_packet_id p)), (''pair_id'', JStr (pi_pair_id p)),
           (''reviewer_id'', JStr (pi_reviewer_id p)), (''review_round'', JInt (pi_review_round p)),
           (''assignment_status'', JStr (pi_assignment_status p)), (''sampling_bucket'', JStr (pi_sampling_bucket p)),
           (''language'', JStr (pi_language p)), (''source_type_left'', pi_source_type_left p),
           (''source_type_right'', pi_source_type_right p), (''title_left'', pi_title_left p),
           (''title_right'', pi_title_right p), (''observed_at_left'', pi_observed_at_left p),
           (''observed_at_right'', pi_observed_at_right p), (''instructions'', JStr (pi_instructions p))]
     in set_if (pi_risk_tags p \<noteq> []) ''risk_tags'' (JList (map JStr (pi_risk_tags p)))
       (set_if (pi_canonical_url_right p \<noteq> JNull) ''canonical_url_right'' (pi_canonical_url_right p)
       (set_if (pi_canonical_url_left p \<noteq> JNull) ''canonical_url_left'' (pi_canonical_url_left p)
       (set_if (pi_candidate_link_id p \<noteq> None) ''candidate_link_id'' (json_opt_str (pi_candidate_link_id p)) d))))"

definition labeler_facing_view :: "packet_item \<Rightarrow> (string, json) dict" where
  "labeler_facing_view p =
    [(''pair_id'', JStr (pi_pair_id p)), (''reviewer_id'', JStr (pi_reviewer_id p)),
     (''review_round'', JInt (pi_review_round p)), (''language'', JStr (pi_language p)),
     (''source_type_left'', pi_source_type_left p), (''source_type_right'', pi_source_type_right p),
     (''title_left'', pi_title_left p), (''title_right'', pi_title_right p),
     (''observed_at_left'', pi_observed_at_left p), (''observed_at_right'', pi_observed_at_right p),
     (''canonical_url_left'', pi_canonical_url_left p), (''canonical_url_right'', pi_canonical_url_right p),
     (''instructions'', JStr (pi_instructions p))]"

type_synonym packet_key = "string \<times> string \<times> string \<times> int"

definition validate_packet_row :: "packet_key list \<Rightarrow> (string, json) dict \<Rightarrow> packet_key list res" where
  "validate_packet_row seen r =
    bind_res (ensure (list_all (\<lambda>k. dict_get r k = None) PACKET_FORBIDDEN_VERDICT_KEYS) (ValueError ''leaks model verdict'')) (\<lambda>_.
    bind_res (ensure (keys_within PACKET_ALLOWED_KEYS r) (ValueError ''disallowed keys'')) (\<lambda>_.
    bind_res (ensure (has_keys PACKET_REQUIRED_KEYS r) (ValueError ''missing required keys'')) (\<lambda>_.
    bind_res (in_enum ASSIGNMENT_STATUSES (dict_get r ''assignment_status'')) (\<lambda>_.
    bind_res (ensure (dict_get r ''sampling_bucket'' \<in> Some ` JStr ` set (CANDIDATE_BUCKET_OTHER # CANDIDATE_BUCKETS))
      (ValueError ''invalid sampling_bucket'')) (\<lambda>_.
    bind_res (check_content r) (\<lambda>_.
    bind_res (ensure (non_blank (dict_get r ''reviewer_id'')) (ValueError ''reviewer_id required'')) (\<lambda>_.
    bind_res (round_at r) (\<lambda>rnd.
    bind_res (check_risk_tags r) (\<lambda>_.
    bind_res (str_at ''packet_id'' r) (\<lambda>pk.
    bind_res (str_at ''pair_id'' r) (\<lambda>pid.
    bind_res (check_fresh (pk, pid, text_of r ''reviewer_id'', rnd) seen) (\<lambda>_.
      Inr ((pk, pid, text_of r ''reviewer_id'', rnd) # seen)))))))))))))"

fun validate_packet_rows :: "packet_key list \<Rightarrow> (string, json) dict list \<Rightarrow> packet_key list res" where
  "validate_packet_rows seen [] = Inr seen"
| "validate_packet_rows seen (r # rs) = bind_res (validate_packet_row seen r) (\<lambda>seen'. validate_packet_rows seen' rs)"

definition validate_labeling_packet :: "(string, json) dict list \<Rightarrow> unit res" where
  "validate_labeling_packet rows = bind_res (validate_packet_rows [] rows) (\<lambda>_. Inr ())"

definition write_labeling_packet_jsonl :: "(json \<Rightarrow> string) \<Rightarrow> packet_item list \<Rightarrow> (nat \<times> string) res" where
  "write_labeling_packet_jsonl dumps items =
    (let rows = map packet_item_to_dict items in
     bind_res (validate_labeling_packet rows) (\<lambda>_.
       Inr (length rows, jsonl_text (map (\<lambda>r. dumps (JObj r)) rows))))"

section \<open>The sampling report\<close>

record packet_sampling =
  ps_total_candidates :: nat
  ps_selected_count :: nat
  ps_selection_method :: string
  ps_target_by_bucket :: "(string, int) dict"
  ps_selected_by_bucket :: "(string, nat) dict"
  ps_total_by_bucket :: "(string, nat) dict"
  ps_deficit_by_bucket :: "(string, int) dict"
  ps_oversampled_buckets :: "string list"
  ps_underfilled_buckets :: "string list"
  ps_unclassified :: nat
  ps_by_language :: "(string, nat) dict"
  ps_by_source_type :: "(string, nat) dict"
  ps_by_risk_tag :: "(string, nat) dict"
  ps_live_vs_synthetic :: "(string, nat) dict"
  ps_reviewer_assignment_count :: nat
  ps_positive :: "nat \<times> int \<times> int" \<comment> \<open>selected, floor and deficit\<close>
  ps_negative :: "nat \<times> int \<times> int"
  ps_korean :: "nat \<times> int \<times> int"
  ps_live :: "nat \<times> int \<times> int"
  ps_auto_merged :: nat

definition row_source :: "worksheet_row \<Rightarrow> string res" where
  "row_source r = (case get_or r ''dataset_source'' (JStr SOURCE_LIVE) of JStr s \<Rightarrow> Inr s | _ \<Rightarrow> Inl TypeError)"

definition FLOOR_POSITIVE_BUCKETS :: "string list" where
  "FLOOR_POSITIVE_BUCKETS = [''likely_same_predicted'', ''ko_same_event_candidate'', ''official_news_positive'']"
definition FLOOR_NEGATIVE_BUCKETS :: "string list" where
  "FLOOR_NEGATIVE_BUCKETS = [''hard_negative'', ''ko_different_event_candidate'', ''far_date_same_title'']"
definition FLOOR_KO_BUCKETS :: "string list" where
  "FLOOR_KO_BUCKETS = [''ko_same_event_candidate'', ''ko_different_event_candidate'']"

definition sum_buckets :: "(string, nat) dict \<Rightarrow> string list \<Rightarrow> nat" where
  "sum_buckets d bs = sum_list (map (\<lambda>b. get_or d b 0) bs)"

definition floor_line :: "nat \<Rightarrow> int \<Rightarrow> nat \<times> int \<times> int" where
  "floor_line sel minimum = (sel, minimum, max 0 (minimum - int sel))"

definition count_all :: "string list \<Rightarrow> (string, nat) dict \<Rightarrow> (string, nat) dict" where
  "count_all ks d = foldl (\<lambda>d k. count_up k d) d ks"

definition sampling_of ::
  "(string, int) dict \<Rightarrow> string \<Rightarrow> sample_floors \<Rightarrow> worksheet_row list \<Rightarrow> string list \<Rightarrow> string list list \<Rightarrow>
   string list \<Rightarrow> string list \<Rightarrow> string list \<Rightarrow> nat \<Rightarrow> packet_sampling" where
  "sampling_of tgt meth floors rows buckets tags sources selected sel_sources item_count =
    (let total = count_all buckets (zero_counts (CANDIDATE_BUCKETS @ [CANDIDATE_BUCKET_OTHER]));
         sel = count_all selected (zero_counts CANDIDATE_BUCKETS);
         live = length (filter (\<lambda>s. s = SOURCE_LIVE) sel_sources)
     in \<lparr>ps_total_candidates = length rows, ps_selected_count = sum_list (map snd sel), ps_selection_method = meth,
         ps_target_by_bucket = map (\<lambda>b. (b, cap_of tgt b)) CANDIDATE_BUCKETS, ps_selected_by_bucket = sel,
         ps_total_by_bucket = total,
         ps_deficit_by_bucket = map (\<lambda>b. (b, max 0 (cap_of tgt b - int (get_or sel b 0)))) CANDIDATE_BUCKETS,
         ps_oversampled_buckets = sort (filter (\<lambda>b. cap_of tgt b < int (get_or total b 0)) CANDIDATE_BUCKETS),
         ps_underfilled_buckets = sort (filter (\<lambda>b. int (get_or sel b 0) < cap_of tgt b) CANDIDATE_BUCKETS),
         ps_unclassified = get_or total CANDIDATE_BUCKET_OTHER 0,
         ps_by_language = count_all (map (\<lambda>r. shown r ''language'' ''unknown'') rows) [],
         ps_by_source_type = count_all (map (\<lambda>r. source_type_key (shown r ''source_type_left'' [])
           (shown r ''source_type_right'' [])) rows) [],
         ps_by_risk_tag = count_all (concat tags) [],
         ps_live_vs_synthetic = count_all sources (zero_counts [SOURCE_LIVE, SOURCE_SYNTHETIC]),
         ps_reviewer_assignment_count = item_count,
         ps_positive = floor_line (sum_buckets sel FLOOR_POSITIVE_BUCKETS) (sf_positive floors),
         ps_negative = floor_line (sum_buckets sel FLOOR_NEGATIVE_BUCKETS) (sf_negative floors),
         ps_korean = floor_line (sum_buckets sel FLOOR_KO_BUCKETS) (int (sf_korean_gold floors)),
         ps_live = floor_line live (int (sf_live_gold floors)), ps_auto_merged = 0\<rparr>)"

definition summarize_packet_sampling ::
  "(string \<Rightarrow> string) \<Rightarrow> worksheet_row list \<Rightarrow> (string, int) dict \<Rightarrow> packet_item list option \<Rightarrow> string \<Rightarrow> packet_sampling res" where
  "summarize_packet_sampling sha256 rows targets items meth =
    bind_res (map_res bucket_of_row rows) (\<lambda>buckets.
    bind_res (map_res row_tags rows) (\<lambda>tags.
    bind_res (map_res row_source rows) (\<lambda>sources.
    bind_res (sample_candidate_pairs sha256 rows targets meth) (\<lambda>selected.
    bind_res (map_res (\<lambda>(b, r). row_source r) selected) (\<lambda>sel_sources.
    bind_res recommended_sample_floors (\<lambda>floors.
      Inr (sampling_of (targets_or_default targets) meth floors rows buckets tags sources (map fst selected) sel_sources
        (case items of None \<Rightarrow> 0 | Some ps \<Rightarrow> length ps))))))))"

definition queue_entry :: "resolved_gold \<Rightarrow> (string, json) dict" where
  "queue_entry r =
    [(''pair_id'', JStr (rg_pair_id r)), (''language'', JStr (rg_language r)),
     (''source_type_left'', JStr (rg_source_type_left r)), (''source_type_right'', JStr (rg_source_type_right r)),
     (''title_left'', JStr (rg_title_left r)), (''title_right'', JStr (rg_title_right r)),
     (''reviewer_count'', JInt (int (rg_reviewer_count r))),
     (''agreement_rate'', case rg_agreement_rate r of None \<Rightarrow> JNull | Some x \<Rightarrow> JFloat x),
     (''needs_human_adjudication'', JBool True), (''adjudicator_kind'', JStr REVIEWER_HUMAN)]"

definition adjudication_queue_from_resolved :: "resolved_gold list \<Rightarrow> (string, json) dict list" where
  "adjudication_queue_from_resolved resolved =
     map queue_entry (filter (\<lambda>r. rg_agreement_status r = AGREE_CONFLICT) resolved)"

record packet_ops_report =
  po_packet_id :: string
  po_candidates_in :: nat
  po_selected_pairs :: nat
  po_packet_items :: nat
  po_reviewers_per_pair :: int
  po_distinct_reviewers :: nat
  po_sampling :: packet_sampling
  po_gold_resolved :: nat
  po_auto_merged :: nat

definition generate_packet_ops_report ::
  "(string \<Rightarrow> string) \<Rightarrow> worksheet_row list \<Rightarrow> string \<Rightarrow> string list \<Rightarrow> int \<Rightarrow> (string, int) dict \<Rightarrow> packet_ops_report res" where
  "generate_packet_ops_report sha256 rows packet_id reviewers per_pair targets =
    bind_res (build_labeling_packet sha256 rows packet_id reviewers per_pair targets SELECTION_PAIR_ID_ORDER) (\<lambda>items.
    bind_res (summarize_packet_sampling sha256 rows targets (Some items) SELECTION_PAIR_ID_ORDER) (\<lambda>sampling.
      Inr \<lparr>po_packet_id = packet_id, po_candidates_in = length rows, po_selected_pairs = ps_selected_count sampling,
           po_packet_items = length items, po_reviewers_per_pair = per_pair,
           po_distinct_reviewers = length (uniq reviewers), po_sampling = sampling, po_gold_resolved = 0,
           po_auto_merged = 0\<rparr>))"

section \<open>What the cap keeps\<close>

lemma get_or_count_up [simp]: "get_or (count_up k d) b 0 = get_or d b 0 + (if k = b then 1 else 0)"
  by (simp add: count_up_def)

lemma cap_buckets_count:
  "length (filter (\<lambda>x. fst x = b) (cap_buckets targets counts rs)) =
    min (nat (cap_of targets b) - get_or counts b 0) (length (filter (\<lambda>x. fst x = b) rs))"
proof (induction targets counts rs rule: cap_buckets.induct)
  case (2 targets counts b' r rs)
  show ?case
  proof (cases "cap_of targets b' \<le> int (get_or counts b' 0)")
    case True
    then have "nat (cap_of targets b') - get_or counts b' 0 = 0" by linarith
    with True 2 show ?thesis by auto
  next
    case False
    then have "nat (cap_of targets b') - get_or counts b' 0 = Suc (nat (cap_of targets b') - Suc (get_or counts b' 0))"
      by linarith
    with False 2 show ?thesis by auto
  qed
qed simp

lemma cap_buckets_subset: "set (cap_buckets targets counts rs) \<subseteq> set rs"
  by (induction targets counts rs rule: cap_buckets.induct) auto

lemma cap_buckets_distinct: "distinct (map f rs) \<Longrightarrow> distinct (map f (cap_buckets targets counts rs))"
proof (induction targets counts rs rule: cap_buckets.induct)
  case (2 targets counts b r rs)
  then show ?case using cap_buckets_subset [of targets "count_up b counts" rs] by auto
qed simp

lemma cap_buckets_all:
  "(\<And>b. int (get_or counts b 0 + length (filter (\<lambda>x. fst x = b) rs)) \<le> cap_of targets b \<or> b \<notin> fst ` set rs) \<Longrightarrow>
    cap_buckets targets counts rs = rs"
proof (induction targets counts rs rule: cap_buckets.induct)
  case (2 targets counts b r rs)
  have "\<not> cap_of targets b \<le> int (get_or counts b 0)" using "2.prems" [of b] by auto
  moreover have "int (get_or (count_up b counts) c 0 + length (filter (\<lambda>x. fst x = c) rs)) \<le> cap_of targets c \<or> c \<notin> fst ` set rs"
    for c using "2.prems" [of c] by auto
  ultimately show ?case using "2.IH"(2) by simp
qed simp

lemma bucketed_facts:
  "bucketed rows = Inr bs \<Longrightarrow> map snd bs = rows \<and> (\<forall>(b, r) \<in> set bs. bucket_of_row r = Inr b)"
  unfolding bucketed_def by (induction rows arbitrary: bs) (fastforce simp: bind_res_Inr_iff)+

lemma length_filter_sort_key: "length (filter P (sort_key f xs)) = length (filter P xs)"
proof -
  have "mset (filter P (sort_key f xs)) = mset (filter P xs)" by (simp only: mset_filter mset_sort)
  then show ?thesis by (metis size_mset)
qed

definition in_bucket :: "worksheet_row list \<Rightarrow> string \<Rightarrow> nat" where
  "in_bucket rows b = length (filter (\<lambda>r. bucket_of_row r = Inr b) rows)"

lemma bucketed_count:
  assumes "bucketed (sort_key f rows) = Inr bs"
  shows "length (filter (\<lambda>x. fst x = b) bs) = in_bucket rows b"
proof -
  have bs: "map snd bs = sort_key f rows" "\<And>b r. (b, r) \<in> set bs \<Longrightarrow> bucket_of_row r = Inr b"
    using bucketed_facts [OF assms] by auto
  have "filter (\<lambda>x. fst x = b) bs = filter (\<lambda>x. bucket_of_row (snd x) = Inr b) bs"
    using bs(2) by (intro filter_cong) auto
  then have "length (filter (\<lambda>x. fst x = b) bs) = length (filter (\<lambda>r. bucket_of_row r = Inr b) (map snd bs))"
    by (simp add: filter_map comp_def)
  then show ?thesis by (simp add: bs(1) in_bucket_def length_filter_sort_key)
qed

lemma sampled:
  assumes "sample_candidate_pairs sha256 rows targets meth = Inr selected"
  obtains bs where "bucketed (sort_key (selection_sort_key sha256 meth) rows) = Inr bs"
    "selected = cap_buckets (targets_or_default targets) [] bs"
  using assms by (auto simp: sample_candidate_pairs_def bind_res_Inr_iff split: if_splits)

lemma sampled_rows:
  assumes "sample_candidate_pairs sha256 rows targets meth = Inr selected" "(b, r) \<in> set selected"
  shows "r \<in> set rows \<and> bucket_of_row r = Inr b"
proof -
  obtain bs where bs: "bucketed (sort_key (selection_sort_key sha256 meth) rows) = Inr bs"
    "selected = cap_buckets (targets_or_default targets) [] bs" using assms(1) by (rule sampled)
  then have m: "(b, r) \<in> set bs" using assms(2) cap_buckets_subset by blast
  have "snd ` set bs = set rows" using bucketed_facts [OF bs(1)] by (metis set_map set_sort)
  moreover have "r \<in> snd ` set bs" using m by force
  ultimately show ?thesis using m bucketed_facts [OF bs(1)] by auto
qed

text \<open>C38: the sample takes from every bucket as many rows as its target allows and no more, whichever order
  is used, each under its own bucket; when no bucket has more rows than its target, it takes every row
  exactly once, so that both orders select the same rows.\<close>

theorem sampling_fills_every_bucket:
  assumes "sample_candidate_pairs sha256 rows targets meth = Inr selected"
  shows "(\<forall>b. length (filter (\<lambda>x. fst x = b) selected) = min (nat (cap_of (targets_or_default targets) b)) (in_bucket rows b)) \<and>
    (\<forall>(b, r) \<in> set selected. r \<in> set rows \<and> bucket_of_row r = Inr b) \<and>
    ((\<forall>b. int (in_bucket rows b) \<le> cap_of (targets_or_default targets) b \<or> in_bucket rows b = 0) \<longrightarrow>
      mset (map snd selected) = mset rows)"
proof (intro conjI allI impI)
  obtain bs where bs: "bucketed (sort_key (selection_sort_key sha256 meth) rows) = Inr bs"
    "selected = cap_buckets (targets_or_default targets) [] bs" using assms by (rule sampled)
  show "length (filter (\<lambda>x. fst x = b) selected) = min (nat (cap_of (targets_or_default targets) b)) (in_bucket rows b)" for b
    by (simp add: bs(2) cap_buckets_count bucketed_count [OF bs(1)] get_or_def)
  show "\<forall>(b, r) \<in> set selected. r \<in> set rows \<and> bucket_of_row r = Inr b"
    using sampled_rows [OF assms] by blast
  assume room: "\<forall>b. int (in_bucket rows b) \<le> cap_of (targets_or_default targets) b \<or> in_bucket rows b = 0"
  have "b \<notin> fst ` set bs" if "in_bucket rows b = 0" for b
    using that bucketed_count [OF bs(1), of b] by (auto simp: filter_empty_conv)
  then have "selected = bs" unfolding bs(2)
    using room by (intro cap_buckets_all) (auto simp: bucketed_count [OF bs(1)] get_or_def)
  then show "mset (map snd selected) = mset rows" using bucketed_facts [OF bs(1)] by simp
qed

section \<open>Who reviews what\<close>

lemma map_res_concat:
  "map_res f (concat xss) = Inr ys \<Longrightarrow> \<exists>yss. ys = concat yss \<and> list_all2 (\<lambda>xs zs. map_res f xs = Inr zs) xss yss"
proof (induction xss arbitrary: ys)
  case (Cons xs xss)
  have split: "map_res f (as @ bs) = Inr ys \<Longrightarrow> \<exists>us vs. map_res f as = Inr us \<and> map_res f bs = Inr vs \<and> ys = us @ vs"
    for as bs ys by (induction as arbitrary: ys) (auto simp: bind_res_Inr_iff)
  from split [of xs "concat xss" ys] Cons.prems obtain us vs where
    s: "map_res f xs = Inr us" "map_res f (concat xss) = Inr vs" "ys = us @ vs" by auto
  from Cons.IH [OF s(2)] obtain yss where "vs = concat yss" "list_all2 (\<lambda>xs zs. map_res f xs = Inr zs) xss yss" by blast
  with s have "ys = concat (us # yss) \<and> list_all2 (\<lambda>xs zs. map_res f xs = Inr zs) (xs # xss) (us # yss)" by simp
  then show ?case by blast
qed simp

lemma round_robin_inj:
  assumes "i < m" "j < m" "(a + i) mod m = (a + j) mod (m :: nat)"
  shows "i = j"
proof -
  have "int m dvd int (a + i) - int (a + j)"
    using assms(3) by (metis mod_eq_dvd_iff of_nat_mod)
  then have "int m dvd int i - int j" by simp
  then show ?thesis using assms(1,2) zdvd_imp_le [of "int m" "int i - int j"] zdvd_imp_le [of "int m" "int j - int i"]
    by (cases i j rule: linorder_cases) (auto simp: dvd_diff_commute)
qed

definition turn :: "string list \<Rightarrow> nat \<Rightarrow> nat \<Rightarrow> string list" where
  "turn who idx n = map (\<lambda>k. who ! ((idx + k) mod length who)) [0..<n]"

lemma turn_facts:
  assumes "n \<le> length who" "distinct who" "0 < n"
  shows "distinct (turn who idx n)" "set (turn who idx n) \<subseteq> set who" "length (turn who idx n) = n"
proof -
  have "inj_on (\<lambda>k. who ! ((idx + k) mod length who)) {0..<n}"
  proof (rule inj_onI)
    fix i j assume ij: "i \<in> {0..<n}" "j \<in> {0..<n}"
      "who ! ((idx + i) mod length who) = who ! ((idx + j) mod length who)"
    have "0 < length who" using assms by linarith
    then have "(idx + i) mod length who = (idx + j) mod length who"
      using nth_eq_iff_index_eq [OF assms(2)] ij(3) by (meson mod_less_divisor)
    with ij assms show "i = j" by (intro round_robin_inj [of i "length who" j idx]) auto
  qed
  then show "distinct (turn who idx n)" by (simp add: turn_def distinct_map)
  show "set (turn who idx n) \<subseteq> set who" using assms by (auto simp: turn_def intro!: nth_mem mod_less_divisor)
qed (simp add: turn_def)

text \<open>The items of one selected row.\<close>

definition reviewed_by_turn :: "string \<Rightarrow> string list \<Rightarrow> nat \<Rightarrow> string \<times> worksheet_row \<Rightarrow> packet_item list \<Rightarrow> bool" where
  "reviewed_by_turn packet_id reviewers n sel items \<longleftrightarrow>
     length items = n \<and> distinct (map pi_reviewer_id items) \<and> set (map pi_reviewer_id items) \<subseteq> set reviewers \<and>
     (\<forall>p \<in> set items. make_packet_item packet_id (snd sel) (fst sel) (pi_reviewer_id p) = Inr p)"

lemma make_packet_item_who: "make_packet_item pk r b who = Inr p \<Longrightarrow> pi_reviewer_id p = who"
  by (auto simp: make_packet_item_def bind_res_Inr_iff)

lemma items_of_turn:
  assumes "map_res (\<lambda>((bucket, r), rid). make_packet_item pk r bucket rid) (map (Pair (b, r)) who) = Inr items"
  shows "map pi_reviewer_id items = who \<and> (\<forall>p \<in> set items. make_packet_item pk r b (pi_reviewer_id p) = Inr p)"
  using assms
proof (induction who arbitrary: items)
  case (Cons w who)
  then obtain p ps where p: "make_packet_item pk r b w = Inr p" "items = p # ps"
    "map_res (\<lambda>((bucket, r), rid). make_packet_item pk r bucket rid) (map (Pair (b, r)) who) = Inr ps"
    by (auto simp: bind_res_Inr_iff)
  with make_packet_item_who [OF p(1)] Cons.IH [OF p(3)] show ?case by simp
qed simp

lemma assignments_turns:
  "assignments n who selected = concat (map (\<lambda>(idx, sel). map (Pair sel) (turn who idx n)) (enumerate 0 selected))"
  by (simp add: assignments_def turn_def comp_def)

lemma assigned_items:
  assumes "assign_reviewer_packet selected pk reviewers per_pair = Inr items"
  shows "\<exists>blocks. items = concat blocks \<and> list_all2 (reviewed_by_turn pk reviewers (nat per_pair)) selected blocks"
proof -
  let ?who = "uniq reviewers" and ?n = "nat per_pair"
  have n: "?n \<le> length ?who" "0 < ?n" and run: "map_res (\<lambda>((bucket, r), rid). make_packet_item pk r bucket rid)
      (assignments ?n ?who selected) = Inr items"
    using assms by (auto simp: assign_reviewer_packet_def Let_def split: if_splits)
  from map_res_concat [OF run [unfolded assignments_turns]] obtain blocks where b: "items = concat blocks"
    "list_all2 (\<lambda>xs zs. map_res (\<lambda>((bucket, r), rid). make_packet_item pk r bucket rid) xs = Inr zs)
      (map (\<lambda>(idx, sel). map (Pair sel) (turn ?who idx ?n)) (enumerate 0 selected)) blocks" by blast
  have "reviewed_by_turn pk reviewers ?n sel zs"
    if "map_res (\<lambda>((bucket, r), rid). make_packet_item pk r bucket rid) (map (Pair sel) (turn ?who idx ?n)) = Inr zs"
    for idx sel zs
    using items_of_turn [of pk "fst sel" "snd sel"] that turn_facts [OF n(1) _ n(2), of idx]
    unfolding reviewed_by_turn_def by (metis length_map prod.collapse uniq_facts)
  with b(2) have "list_all2 (\<lambda>p zs. reviewed_by_turn pk reviewers ?n (snd p) zs) (enumerate 0 selected) blocks"
    by (fastforce simp: list.rel_map elim!: list_all2_mono)
  then have "list_all2 (reviewed_by_turn pk reviewers ?n) (map snd (enumerate 0 selected)) blocks"
    unfolding list_all2_map1 .
  with b(1) show ?thesis by auto
qed

lemma concat_uniform_length: "list_all2 (\<lambda>x b. length b = n) xs bs \<Longrightarrow> length (concat bs) = length xs * n"
  by (induction rule: list_all2_induct) simp_all

text \<open>every selected pair goes to exactly the asked number of different reviewers of the list: the packet
  is, row by row, a block of items on that row with distinct reviewers.\<close>

lemma every_pair_has_distinct_reviewers:
  assumes "build_labeling_packet sha256 rows pk reviewers per_pair targets meth = Inr items"
  shows "\<exists>selected blocks. sample_candidate_pairs sha256 rows targets meth = Inr selected \<and> items = concat blocks \<and>
    list_all2 (reviewed_by_turn pk reviewers (nat per_pair)) selected blocks \<and>
    length items = length selected * nat per_pair"
proof -
  obtain selected where s: "sample_candidate_pairs sha256 rows targets meth = Inr selected"
    "assign_reviewer_packet selected pk reviewers per_pair = Inr items"
    using assms by (auto simp: build_labeling_packet_def bind_res_Inr_iff)
  from assigned_items [OF s(2)] obtain blocks where b: "items = concat blocks"
    "list_all2 (reviewed_by_turn pk reviewers (nat per_pair)) selected blocks" by blast
  from b(2) have "list_all2 (\<lambda>x b. length b = nat per_pair) selected blocks"
    by (rule list_all2_mono) (simp add: reviewed_by_turn_def)
  with s(1) b concat_uniform_length show ?thesis by blast
qed

section \<open>What a reviewer sees\<close>

definition same_but_verdict :: "worksheet_row \<Rightarrow> worksheet_row \<Rightarrow> bool" where
  "same_but_verdict r r' \<longleftrightarrow> (\<forall>k. k \<notin> set PACKET_FORBIDDEN_VERDICT_KEYS \<longrightarrow> dict_get r k = dict_get r' k)"

definition seen_by :: "string \<Rightarrow> worksheet_row \<Rightarrow> string \<Rightarrow> string \<Rightarrow> (string, json) dict res" where
  "seen_by pk r b who = bind_res (make_packet_item pk r b who) (\<lambda>p. Inr (labeler_facing_view p))"

lemma same_but_verdict_fields:
  assumes "same_but_verdict r r'" "k \<notin> set PACKET_FORBIDDEN_VERDICT_KEYS"
  shows "field_of r k = field_of r' k" "get_or r k v = get_or r' k v" "shown r k s = shown r' k s"
  using assms by (simp_all add: same_but_verdict_def field_of_def get_or_def shown_def)

lemma same_but_verdict_tags: "same_but_verdict r r' \<Longrightarrow> row_tags r = row_tags r'"
  by (simp add: row_tags_def same_but_verdict_fields(2) PACKET_FORBIDDEN_VERDICT_KEYS_def)

lemma same_view:
  assumes "same_but_verdict r r'"
  shows "seen_by pk r b who = seen_by pk' r' b' who"
proof -
  have f: "field_of r ''pair_id'' = field_of r' ''pair_id''"
    "field_of r ''source_type_left'' = field_of r' ''source_type_left''"
    "field_of r ''source_type_right'' = field_of r' ''source_type_right''"
    "field_of r ''title_left'' = field_of r' ''title_left''"
    "field_of r ''title_right'' = field_of r' ''title_right''"
    "field_of r ''observed_at_left'' = field_of r' ''observed_at_left''"
    "field_of r ''observed_at_right'' = field_of r' ''observed_at_right''"
    by (simp_all add: same_but_verdict_fields(1) [OF assms] PACKET_FORBIDDEN_VERDICT_KEYS_def)
  have g: "shown r ''language'' ''unknown'' = shown r' ''language'' ''unknown''"
    "get_or r ''canonical_url_left'' JNull = get_or r' ''canonical_url_left'' JNull"
    "get_or r ''canonical_url_right'' JNull = get_or r' ''canonical_url_right'' JNull"
    by (simp_all add: same_but_verdict_fields(2,3) [OF assms] PACKET_FORBIDDEN_VERDICT_KEYS_def)
  show ?thesis
    unfolding seen_by_def make_packet_item_def same_but_verdict_tags [OF assms] f g labeler_facing_view_def
    by (cases "field_of r' ''pair_id''", simp_all,
      cases "field_of r' ''source_type_left''", simp_all,
      cases "field_of r' ''source_type_right''", simp_all,
      cases "field_of r' ''title_left''", simp_all,
      cases "field_of r' ''title_right''", simp_all,
      cases "field_of r' ''observed_at_left''", simp_all,
      cases "field_of r' ''observed_at_right''", simp_all,
      cases "row_tags r'", simp_all)
qed

text \<open>C39: what a reviewer sees does not depend on the judgement: rows that differ only in the prediction, its
  score and reason and the label give the same view, whatever bucket and packet they are in; and no packet
  line holds one of those fields, nor a view the bucket.\<close>

theorem reviewers_see_no_verdict:
  assumes "same_but_verdict r r'"
  shows "seen_by pk r b who = seen_by pk' r' b' who \<and>
    (\<forall>p. list_all (\<lambda>k. dict_get (packet_item_to_dict p) k = None) PACKET_FORBIDDEN_VERDICT_KEYS \<and>
      list_all (\<lambda>k. dict_get (labeler_facing_view p) k = None) (''sampling_bucket'' # PACKET_FORBIDDEN_VERDICT_KEYS))"
proof (intro conjI allI)
  show "seen_by pk r b who = seen_by pk' r' b' who"
    by (rule same_view [OF assms])
  show "list_all (\<lambda>k. dict_get (packet_item_to_dict p) k = None) PACKET_FORBIDDEN_VERDICT_KEYS" for p
    by (simp add: PACKET_FORBIDDEN_VERDICT_KEYS_def packet_item_to_dict_def Let_def)
  show "list_all (\<lambda>k. dict_get (labeler_facing_view p) k = None) (''sampling_bucket'' # PACKET_FORBIDDEN_VERDICT_KEYS)" for p
    by (simp add: PACKET_FORBIDDEN_VERDICT_KEYS_def labeler_facing_view_def)
qed

section \<open>Two candidates\<close>

definition candidate_row :: "string \<Rightarrow> string \<Rightarrow> worksheet_row" where
  "candidate_row pid status =
    [(''pair_id'', JStr pid), (''label'', JStr ''unlabeled''), (''language'', JStr ''ko''),
     (''source_type_left'', JStr ''article''), (''source_type_right'', JStr ''official''), (''title_left'', JStr ''t''),
     (''title_right'', JStr ''t''), (''observed_at_left'', JStr []), (''observed_at_right'', JStr []),
     (''predicted_status'', JStr status), (''reason'', JStr ''borderline''), (''risk_tags'', JList [])]"

definition candidate_rows :: "worksheet_row list" where
  "candidate_rows = [candidate_row ''b'' PRED_AMBIGUOUS, candidate_row ''a'' PRED_LIKELY_SAME]"

definition candidate_sample :: "(string \<times> worksheet_row) list" where
  "candidate_sample = [(''ko_same_event_candidate'', candidate_row ''a'' PRED_LIKELY_SAME),
     (''ambiguous_predicted'', candidate_row ''b'' PRED_AMBIGUOUS)]"

lemma candidates_sampled: "sample_candidate_pairs rev candidate_rows [] SELECTION_PAIR_ID_ORDER = Inr candidate_sample"
  by code_simp

lemma sampling_fills_every_bucket_witness:
  "length (filter (\<lambda>x. fst x = ''ambiguous_predicted'') candidate_sample) =
    min (nat (cap_of (targets_or_default []) ''ambiguous_predicted'')) (in_bucket candidate_rows ''ambiguous_predicted'')"
  using sampling_fills_every_bucket [OF candidates_sampled] by blast

lemma candidates_assigned:
  "map_res (\<lambda>p. Inr (pi_pair_id p, pi_reviewer_id p)) (case build_labeling_packet rev candidate_rows ''p'' [''ann'', ''bob'', ''ann'', ''eve''] 2 []
     SELECTION_PAIR_ID_ORDER of Inr items \<Rightarrow> items | Inl _ \<Rightarrow> []) =
    Inr [(''a'', ''ann''), (''a'', ''bob''), (''b'', ''bob''), (''b'', ''eve'')]"
  by code_simp

lemma every_pair_has_distinct_reviewers_witness:
  "\<exists>items blocks. build_labeling_packet rev candidate_rows ''p'' [''ann'', ''bob'', ''ann'', ''eve''] 2 []
      SELECTION_PAIR_ID_ORDER = Inr items \<and> items = concat blocks \<and> length items = 4 \<and>
    list_all2 (reviewed_by_turn ''p'' [''ann'', ''bob'', ''ann'', ''eve''] 2) candidate_sample blocks"
proof -
  obtain items where i: "build_labeling_packet rev candidate_rows ''p'' [''ann'', ''bob'', ''ann'', ''eve''] 2 []
      SELECTION_PAIR_ID_ORDER = Inr items"
    using candidates_assigned by (auto split: sum.splits)
  from every_pair_has_distinct_reviewers [OF i] i candidates_sampled show ?thesis
    by (auto simp: candidate_sample_def)
qed

lemma reviewers_see_no_verdict_witness:
  "seen_by ''p'' (candidate_row ''a'' PRED_LIKELY_SAME) ''hard_negative'' ''ann'' =
    seen_by ''q'' (candidate_row ''a'' PRED_AMBIGUOUS) ''ambiguous_predicted'' ''ann''"
proof -
  have "same_but_verdict (candidate_row ''a'' PRED_LIKELY_SAME) (candidate_row ''a'' PRED_AMBIGUOUS)"
    by (auto simp: same_but_verdict_def candidate_row_def PACKET_FORBIDDEN_VERDICT_KEYS_def)
  from reviewers_see_no_verdict [OF this] show ?thesis by (rule conjunct1)
qed

end
