(* ===== verification/Identity_Export.thy ===== *)
theory Identity_Export
  imports Labeling_Packets
begin

text \<open>
  From the stored judgements to worksheets and reviewer packets:
  \<open>backend/app/tools/export_identity_eval_pairs.py\<close> and
  \<open>backend/app/tools/build_live_identity_labeling_packet.py\<close>. Both only read the database
  (\<^typ>\<open>event_db\<close>). The order in which a query without \<open>order_by\<close> returns the updates of an event is
  the order of the table.
\<close>

section \<open>The worksheet\<close>

definition WORKSHEET_KEYS :: "string list" where
  "WORKSHEET_KEYS = [''pair_id'', ''label'', ''language'', ''source_type_left'', ''source_type_right'',
     ''title_left'', ''title_right'', ''observed_at_left'', ''observed_at_right'',
     ''predicted_status'', ''score'', ''reason'', ''risk_tags'']"

definition script_to_eval_language :: "string \<Rightarrow> string" where
  "script_to_eval_language lang = (if lang = ''latin'' then ''en'' else lang)"

definition to_eval_source_type :: "string \<Rightarrow> string" where
  "to_eval_source_type raw = (let st = (if raw = ''signal'' then ''market'' else raw) in
     if st \<in> set SOURCE_TYPES then st else ''unknown'')"

record event_brief =
  eb_title :: string
  eb_observed_at :: string
  eb_source_type :: string

text \<open>The first non-empty source type in the evidence of an event.\<close>

definition node_source_type :: "(string, json) dict \<Rightarrow> string option" where
  "node_source_type node = (case dict_get node ''source_type'' of
      Some (JStr s) \<Rightarrow> if s = [] then None else Some s | _ \<Rightarrow> None)"

definition first_source_type :: "(string, json) dict list list \<Rightarrow> string" where
  "first_source_type evidence = (case List.map_filter node_source_type (concat evidence) of [] \<Rightarrow> ''unknown'' | s # _ \<Rightarrow> s)"

definition read_event_brief :: "timeline \<Rightarrow> string \<Rightarrow> event_brief option" where
  "read_event_brief t eid = map_option (\<lambda>e.
     \<lparr>eb_title = py_take 512 (ev_canonical_title e), eb_observed_at = isoformat (utc (ev_first_seen_at e)),
      eb_source_type = first_source_type (map up_evidence (filter (\<lambda>u. up_event_id u = eid) (tl_updates t)))\<rparr>)
     (event_by_id t eid)"

text \<open>The judgements joined with their semantic links, by link id.\<close>

definition judged_links :: "event_db \<Rightarrow> (link_row \<times> string \<times> rat \<times> string) list" where
  "judged_links db = sort_key (\<lambda>j. ln_id (fst j)) (List.map_filter (\<lambda>l.
     if ln_reason l = Some SEMANTIC_LINK_REASON then map_option (Pair l) (dict_get (db_adjudications db) (ln_id l)) else None)
     (tl_links (db_timeline db)))"

definition worksheet_row_of :: "string \<Rightarrow> event_brief \<Rightarrow> event_brief \<Rightarrow> string \<times> rat \<times> string \<Rightarrow> worksheet_row" where
  "worksheet_row_of link_id left right judged = (case judged of (status, score, reason) \<Rightarrow>
    [(''pair_id'', JStr link_id), (''label'', JStr ''unlabeled''),
     (''language'', JStr (script_to_eval_language (language_hint [eb_title left, eb_title right]))),
     (''source_type_left'', JStr (to_eval_source_type (eb_source_type left))),
     (''source_type_right'', JStr (to_eval_source_type (eb_source_type right))),
     (''title_left'', JStr (eb_title left)), (''title_right'', JStr (eb_title right)),
     (''observed_at_left'', JStr (eb_observed_at left)), (''observed_at_right'', JStr (eb_observed_at right)),
     (''predicted_status'', JStr status), (''score'', JFloat score), (''reason'', JStr reason),
     (''risk_tags'', JList [])])"

definition export_row :: "timeline \<Rightarrow> link_row \<times> string \<times> rat \<times> string \<Rightarrow> worksheet_row option" where
  "export_row t j = (case j of (l, v) \<Rightarrow>
     (case (read_event_brief t (ln_event_id l), read_event_brief t (ln_linked_event_id l)) of
       (Some left, Some right) \<Rightarrow> Some (worksheet_row_of (ln_id l) left right v)
     | _ \<Rightarrow> None))"

definition collect_adjudication_eval_pairs :: "event_db \<Rightarrow> worksheet_row list" where
  "collect_adjudication_eval_pairs db = List.map_filter (export_row (db_timeline db)) (judged_links db)"

definition assert_no_pii :: "worksheet_row list \<Rightarrow> unit res" where
  "assert_no_pii rows = ensure (list_all (keys_within WORKSHEET_KEYS) rows) (ValueError ''disallowed keys'')"

definition write_worksheet_jsonl :: "(json \<Rightarrow> string) \<Rightarrow> worksheet_row list \<Rightarrow> (nat \<times> string) res" where
  "write_worksheet_jsonl dumps rows = bind_res (assert_no_pii rows) (\<lambda>_.
     Inr (length rows, jsonl_text (map (\<lambda>r. dumps (JObj r)) rows)))"

record adjudication_backlog =
  ab_total :: nat
  ab_by_status :: "(string, nat) dict"
  ab_by_language :: "(string, nat) dict"
  ab_auto_merged :: nat

definition summarize_adjudication_backlog :: "worksheet_row list \<Rightarrow> adjudication_backlog res" where
  "summarize_adjudication_backlog rows =
    bind_res (map_res (str_at ''predicted_status'') rows) (\<lambda>statuses.
    bind_res (map_res (str_at ''language'') rows) (\<lambda>languages.
      Inr \<lparr>ab_total = length rows, ab_by_status = count_all statuses [], ab_by_language = count_all languages [],
           ab_auto_merged = 0\<rparr>))"

section \<open>The live packet\<close>

record identity_backlog =
  ib_total_candidate_links :: nat
  ib_total_adjudications :: nat
  ib_eligible_for_packet :: nat
  ib_link_without_adjudication :: nat
  ib_adjudication_event_missing :: nat

definition collect_live_identity_candidates :: "event_db \<Rightarrow> worksheet_row list \<times> identity_backlog" where
  "collect_live_identity_candidates db =
    (let total_links = length (filter is_semantic_link (tl_links (db_timeline db)));
         total_adj = length (db_adjudications db);
         rows = collect_adjudication_eval_pairs db; eligible = length rows
     in (rows, \<lparr>ib_total_candidate_links = total_links, ib_total_adjudications = total_adj,
          ib_eligible_for_packet = eligible, ib_link_without_adjudication = total_links - total_adj,
          ib_adjudication_event_missing = total_adj - eligible\<rparr>))"

record live_packet_report =
  lp_packet_id :: string
  lp_backlog :: identity_backlog
  lp_sampling :: packet_sampling
  lp_reviewer_assignment_count :: nat
  lp_event_count_before :: nat
  lp_event_count_after :: nat
  lp_auto_merge_enabled :: bool

definition packet_or_empty ::
  "(string \<Rightarrow> string) \<Rightarrow> worksheet_row list \<Rightarrow> string \<Rightarrow> string list \<Rightarrow> int \<Rightarrow> (string, int) dict \<Rightarrow> string \<Rightarrow> packet_item list res" where
  "packet_or_empty sha256 rows packet_id reviewers per_pair targets meth =
    (if rows = [] then Inr [] else build_labeling_packet sha256 rows packet_id reviewers per_pair targets meth)"

definition assemble_live_packet_report ::
  "(string \<Rightarrow> string) \<Rightarrow> worksheet_row list \<Rightarrow> identity_backlog \<Rightarrow> string \<Rightarrow> string list \<Rightarrow> nat \<Rightarrow> nat \<Rightarrow> int \<Rightarrow>
   (string, int) dict \<Rightarrow> string \<Rightarrow> live_packet_report res" where
  "assemble_live_packet_report sha256 rows backlog packet_id reviewers before after per_pair targets meth =
    bind_res (packet_or_empty sha256 rows packet_id reviewers per_pair targets meth) (\<lambda>items.
    bind_res (summarize_packet_sampling sha256 rows targets (Some items) meth) (\<lambda>sampling.
      Inr \<lparr>lp_packet_id = packet_id, lp_backlog = backlog, lp_sampling = sampling,
           lp_reviewer_assignment_count = length items, lp_event_count_before = before,
           lp_event_count_after = after, lp_auto_merge_enabled = False\<rparr>))"

definition generate_live_packet_report ::
  "(string \<Rightarrow> string) \<Rightarrow> string \<Rightarrow> string list \<Rightarrow> int \<Rightarrow> (string, int) dict \<Rightarrow> string \<Rightarrow> event_db \<Rightarrow> live_packet_report res" where
  "generate_live_packet_report sha256 packet_id reviewers per_pair targets meth db =
    (let n = length (tl_events (db_timeline db)); (rows, backlog) = collect_live_identity_candidates db
     in assemble_live_packet_report sha256 rows backlog packet_id reviewers n n per_pair targets meth)"

definition build_live_labeling_packet ::
  "(string \<Rightarrow> string) \<Rightarrow> string \<Rightarrow> string list \<Rightarrow> int \<Rightarrow> (string, int) dict \<Rightarrow> string \<Rightarrow> event_db \<Rightarrow> packet_item list res" where
  "build_live_labeling_packet sha256 packet_id reviewers per_pair targets meth db =
     packet_or_empty sha256 (fst (collect_live_identity_candidates db)) packet_id reviewers per_pair targets meth"

definition write_live_labeling_packet_jsonl ::
  "(string \<Rightarrow> string) \<Rightarrow> (json \<Rightarrow> string) \<Rightarrow> string \<Rightarrow> string list \<Rightarrow> int \<Rightarrow> (string, int) dict \<Rightarrow> string \<Rightarrow> event_db \<Rightarrow>
   (nat \<times> string) res" where
  "write_live_labeling_packet_jsonl sha256 dumps packet_id reviewers per_pair targets meth db =
    bind_res (build_live_labeling_packet sha256 packet_id reviewers per_pair targets meth db)
      (write_labeling_packet_jsonl dumps)"

section \<open>What the rows hold\<close>

lemma exported_language: "script_to_eval_language (language_hint ts) \<in> set LANGUAGES"
  by (simp add: script_to_eval_language_def language_hint_def LANGUAGES_def Let_def)

lemma exported_source_type: "to_eval_source_type s \<in> set SOURCE_TYPES"
  by (simp add: to_eval_source_type_def SOURCE_TYPES_def Let_def)

lemma brief_title: "read_event_brief t eid = Some b \<Longrightarrow> py_len (eb_title b) \<le> 512"
  by (auto simp: read_event_brief_def py_len_take_le)

text \<open>The rows that the exporter writes.\<close>

definition exported :: "worksheet_row \<Rightarrow> bool" where
  "exported r \<longleftrightarrow> (\<exists>i left right v. r = worksheet_row_of i left right v \<and>
     py_len (eb_title left) \<le> 512 \<and> py_len (eb_title right) \<le> 512)"

lemma collected_exported: "r \<in> set (collect_adjudication_eval_pairs db) \<Longrightarrow> exported r"
  by (auto simp: collect_adjudication_eval_pairs_def map_filter_mem export_row_def exported_def
      split: option.splits dest!: brief_title; blast)

lemma map_filter_ids:
  "(\<And>x y. x \<in> set xs \<Longrightarrow> f x = Some y \<Longrightarrow> k y = g x) \<Longrightarrow> distinct (map g xs) \<Longrightarrow>
    distinct (map k (List.map_filter f xs)) \<and> k ` set (List.map_filter f xs) \<subseteq> g ` set xs"
proof (induction xs)
  case Nil
  then show ?case by (simp add: List.map_filter_simps)
next
  case (Cons x xs)
  then have ih: "distinct (map k (List.map_filter f xs))" "k ` set (List.map_filter f xs) \<subseteq> g ` set xs" by simp_all
  show ?case
  proof (cases "f x")
    case None
    with ih show ?thesis by (auto simp: List.map_filter_simps)
  next
    case (Some y)
    then have "k y = g x" using Cons.prems(1) by simp
    moreover have "g x \<notin> g ` set xs" using Cons.prems(2) by simp
    ultimately have "k y \<notin> k ` set (List.map_filter f xs)" using ih(2) by auto
    with ih Some \<open>k y = g x\<close> show ?thesis by (auto simp: List.map_filter_simps)
  qed
qed

lemma distinct_map_head: "distinct (map f (x # xs)) \<Longrightarrow> \<forall>y \<in> set xs. f y \<noteq> f x"
  by (metis distinct.simps(2) imageI list.set_map list.simps(9))

lemma distinct_sort_key: "distinct (map f (sort_key f xs)) \<longleftrightarrow> distinct (map f xs)"
  by (rule mset_eq_imp_distinct_iff) (simp only: mset_map mset_sort)

lemma collected_ids:
  assumes "distinct (map ln_id (tl_links (db_timeline db)))"
  shows "distinct (map (\<lambda>r. text_of r ''pair_id'') (collect_adjudication_eval_pairs db))"
proof -
  let ?j = "\<lambda>l. if ln_reason l = Some SEMANTIC_LINK_REASON
     then map_option (Pair l) (dict_get (db_adjudications db) (ln_id l)) else None"
  have "distinct (map (\<lambda>j. ln_id (fst j)) (List.map_filter ?j (tl_links (db_timeline db))))"
  proof (rule map_filter_ids [THEN conjunct1])
    fix x y assume "?j x = Some y"
    then show "ln_id (fst y) = ln_id x" by (auto split: if_splits)
  qed (rule assms)
  then have "distinct (map (\<lambda>j. ln_id (fst j)) (judged_links db))"
    unfolding judged_links_def distinct_sort_key .
  moreover have "text_of y ''pair_id'' = ln_id (fst x)" if "export_row (db_timeline db) x = Some y" for x y
    using that by (auto simp: export_row_def worksheet_row_of_def text_of_def split: option.splits prod.splits)
  ultimately show ?thesis
    unfolding collect_adjudication_eval_pairs_def by (intro map_filter_ids [THEN conjunct1])
qed

section \<open>Exported rows can become gold\<close>

text \<open>A complete decision of a reviewer on a row.\<close>

definition complete_decision :: "human_decision \<Rightarrow> bool" where
  "complete_decision h \<longleftrightarrow> hd_label h \<in> set GOLD_LABELS \<and> strip (hd_reviewed_by h) \<noteq> [] \<and>
     strip (hd_reviewed_at h) \<noteq> [] \<and> fromisoformat (py_replace ''Z'' ''+00:00'' (strip (hd_reviewed_at h))) \<noteq> None \<and>
     hd_review_status h \<in> set REVIEW_STATUSES \<and> hd_label_confidence h \<in> set LABEL_CONFIDENCES \<and>
     hd_dataset_source h \<in> set DATASET_SOURCES"

definition kept_row :: "string \<Rightarrow> event_brief \<Rightarrow> event_brief \<Rightarrow> worksheet_row" where
  "kept_row i left right =
    [(''pair_id'', JStr i), (''label'', JStr ''unlabeled''),
     (''language'', JStr (script_to_eval_language (language_hint [eb_title left, eb_title right]))),
     (''source_type_left'', JStr (to_eval_source_type (eb_source_type left))),
     (''source_type_right'', JStr (to_eval_source_type (eb_source_type right))),
     (''title_left'', JStr (eb_title left)), (''title_right'', JStr (eb_title right)),
     (''observed_at_left'', JStr (eb_observed_at left)), (''observed_at_right'', JStr (eb_observed_at right)),
     (''risk_tags'', JList [])]"

lemma kept_row: "filter (\<lambda>(k, v). k \<notin> set WORKSHEET_AUX_KEYS) (worksheet_row_of i left right v) = kept_row i left right"
  by (cases v) (simp add: worksheet_row_of_def WORKSHEET_AUX_KEYS_def kept_row_def)

definition decided_keys :: "string list" where
  "decided_keys = [''label'', ''reviewed_by'', ''reviewed_at'', ''review_status'', ''label_confidence'', ''dataset_source'']"

definition kept_keys :: "string list" where
  "kept_keys = [''pair_id'', ''label'', ''language'', ''source_type_left'', ''source_type_right'', ''title_left'',
     ''title_right'', ''observed_at_left'', ''observed_at_right'', ''risk_tags'']"

abbreviation promoted :: "string \<Rightarrow> event_brief \<Rightarrow> event_brief \<Rightarrow> string \<times> rat \<times> string \<Rightarrow> human_decision \<Rightarrow> worksheet_row" where
  "promoted i left right v h \<equiv> promote_worksheet_to_gold (worksheet_row_of i left right v) h"

lemma promoted_keys:
  "fst ` set (promoted i left right v h) \<subseteq> set (''rationale'' # decided_keys @ kept_keys)"
  "set (decided_keys @ kept_keys) \<subseteq> fst ` set (promoted i left right v h)"
proof -
  have k: "fst ` set (kept_row i left right) = set kept_keys" by (simp add: kept_row_def kept_keys_def)
  show "fst ` set (promoted i left right v h) \<subseteq> set (''rationale'' # decided_keys @ kept_keys)"
    "set (decided_keys @ kept_keys) \<subseteq> fst ` set (promoted i left right v h)"
    unfolding promote_worksheet_to_gold_def kept_row Let_def decided_keys_def
    by (auto simp: k split: option.splits)
qed

lemma promoted_checks:
  "keys_within GOLD_ALLOWED_KEYS (promoted i left right v h)" "has_keys GOLD_REQUIRED_KEYS (promoted i left right v h)"
proof -
  have "list_all (\<lambda>k. k \<in> set GOLD_ALLOWED_KEYS) (''rationale'' # decided_keys @ kept_keys)" by code_simp
  with promoted_keys(1) show "keys_within GOLD_ALLOWED_KEYS (promoted i left right v h)"
    unfolding keys_within_def list_all_iff set_map by blast
  have "list_all (\<lambda>k. k \<in> set (decided_keys @ kept_keys)) GOLD_REQUIRED_KEYS" by code_simp
  with promoted_keys(2) show "has_keys GOLD_REQUIRED_KEYS (promoted i left right v h)"
    unfolding has_keys_def list_all_iff dict_get_None_iff by blast
qed

lemma promoted_get:
  "k \<noteq> ''rationale'' \<Longrightarrow> k \<notin> set decided_keys \<Longrightarrow> dict_get (promoted i left right v h) k = dict_get (kept_row i left right) k"
  by (simp add: promote_worksheet_to_gold_def kept_row Let_def decided_keys_def split: option.splits)

lemma promoted_decision:
  "dict_get (promoted i left right v h) ''label'' = Some (JStr (hd_label h))"
  "dict_get (promoted i left right v h) ''reviewed_by'' = Some (JStr (hd_reviewed_by h))"
  "dict_get (promoted i left right v h) ''reviewed_at'' = Some (JStr (hd_reviewed_at h))"
  "dict_get (promoted i left right v h) ''review_status'' = Some (JStr (hd_review_status h))"
  "dict_get (promoted i left right v h) ''label_confidence'' = Some (JStr (hd_label_confidence h))"
  "dict_get (promoted i left right v h) ''dataset_source'' = Some (JStr (hd_dataset_source h))"
  by (simp_all add: promote_worksheet_to_gold_def Let_def split: option.splits)

lemma kept_content:
  assumes "py_len (eb_title left) \<le> 512" "py_len (eb_title right) \<le> 512"
  shows "content_ok (promoted i left right v h)" "tags_ok (promoted i left right v h)"
    "dict_get (promoted i left right v h) ''pair_id'' = Some (JStr i)"
proof -
  note g = promoted_get [unfolded decided_keys_def kept_row_def]
  show "content_ok (promoted i left right v h)"
    using assms exported_language exported_source_type by (simp add: content_ok_def g title_fits_iff)
  show "tags_ok (promoted i left right v h)" by (simp add: tags_ok_def get_or_def g)
  show "dict_get (promoted i left right v h) ''pair_id'' = Some (JStr i)" by (simp add: g)
qed

lemma promoted_row_validates:
  assumes "exported r" "complete_decision h" "text_of r ''pair_id'' \<notin> set seen"
  shows "validate_gold_row seen (JObj (promote_worksheet_to_gold r h)) = Inr (text_of r ''pair_id'' # seen)"
proof -
  obtain i left right v where r: "r = worksheet_row_of i left right v"
    and t: "py_len (eb_title left) \<le> 512" "py_len (eb_title right) \<le> 512"
    using assms(1) by (auto simp: exported_def)
  have i: "text_of r ''pair_id'' = i" by (cases v) (simp add: r worksheet_row_of_def text_of_def)
  have fresh: "i \<notin> set seen" using assms(3) i by simp
  note d = assms(2) [unfolded complete_decision_def]
  have "validate_gold_row seen (JObj (promote_worksheet_to_gold r h)) = Inr (i # seen)"
    unfolding validate_gold_row_def bind_res_Inr_iff row_checks
    using promoted_checks [of i left right v h] kept_content [OF t, of i v h] promoted_decision [of i left right v h] d fresh
    by (auto simp: r i non_blank_def validate_reviewed_at_def row_checks dataset_source_at_def get_or_def)
  with i show ?thesis by simp
qed

lemma promoted_rows_validate:
  assumes "\<forall>r \<in> set rows. exported r \<and> complete_decision (h r)"
    and "distinct (map (\<lambda>r. text_of r ''pair_id'') rows)" "\<forall>r \<in> set rows. text_of r ''pair_id'' \<notin> set seen"
  shows "\<exists>seen'. check_rows validate_gold_row seen (map (\<lambda>r. JObj (promote_worksheet_to_gold r (h r))) rows) = Inr seen'"
  using assms
proof (induction rows arbitrary: seen)
  case (Cons r rows)
  then have "validate_gold_row seen (JObj (promote_worksheet_to_gold r (h r))) = Inr (text_of r ''pair_id'' # seen)"
    by (intro promoted_row_validates) simp_all
  moreover have "\<forall>r' \<in> set rows. text_of r' ''pair_id'' \<noteq> text_of r ''pair_id''"
    using distinct_map_head [OF Cons.prems(2)] by blast
  then have "\<exists>seen'. check_rows validate_gold_row (text_of r ''pair_id'' # seen)
      (map (\<lambda>r. JObj (promote_worksheet_to_gold r (h r))) rows) = Inr seen'"
    using Cons.prems by (intro Cons.IH) simp_all
  ultimately show ?case by simp
qed simp


section \<open>Live packets are valid\<close>

lemma if_mem: "a \<in> A \<Longrightarrow> b \<in> A \<Longrightarrow> (if c then a else b) \<in> A"
  by simp

lemma candidate_bucket_known:
  "assign_candidate_bucket predicted reason language left right tags \<in> set (CANDIDATE_BUCKET_OTHER # CANDIDATE_BUCKETS)"
  unfolding assign_candidate_bucket_def Let_def by (intro if_mem) (simp_all add: CANDIDATE_BUCKETS_def)

lemma bucket_known: "bucket_of_row r = Inr b \<Longrightarrow> b \<in> set (CANDIDATE_BUCKET_OTHER # CANDIDATE_BUCKETS)"
proof -
  assume "bucket_of_row r = Inr b"
  then obtain pred reason lang left right tags where "b = assign_candidate_bucket pred reason lang left right tags"
    by (auto simp: bucket_of_row_def bind_res_Inr_iff)
  then show ?thesis by (simp only: candidate_bucket_known)
qed

definition packet_key_of :: "packet_item \<Rightarrow> packet_key" where
  "packet_key_of p = (pi_packet_id p, pi_pair_id p, pi_reviewer_id p, pi_review_round p)"

definition plain_packet_row :: "string \<Rightarrow> string \<Rightarrow> event_brief \<Rightarrow> event_brief \<Rightarrow> string \<Rightarrow> string \<Rightarrow> (string, json) dict" where
  "plain_packet_row pk i left right b who =
    [(''packet_id'', JStr pk), (''pair_id'', JStr i), (''reviewer_id'', JStr who), (''review_round'', JInt 1),
     (''assignment_status'', JStr ASSIGN_ASSIGNED), (''sampling_bucket'', JStr b),
     (''language'', JStr (script_to_eval_language (language_hint [eb_title left, eb_title right]))),
     (''source_type_left'', JStr (to_eval_source_type (eb_source_type left))),
     (''source_type_right'', JStr (to_eval_source_type (eb_source_type right))),
     (''title_left'', JStr (eb_title left)), (''title_right'', JStr (eb_title right)),
     (''observed_at_left'', JStr (eb_observed_at left)), (''observed_at_right'', JStr (eb_observed_at right)),
     (''instructions'', JStr PACKET_INSTRUCTIONS), (''candidate_link_id'', JStr i)]"

definition plain_item :: "string \<Rightarrow> string \<Rightarrow> event_brief \<Rightarrow> event_brief \<Rightarrow> string \<Rightarrow> string \<Rightarrow> packet_item" where
  "plain_item pk i left right b who =
     \<lparr>pi_packet_id = pk, pi_pair_id = i, pi_reviewer_id = who, pi_review_round = 1, pi_assignment_status = ASSIGN_ASSIGNED,
      pi_sampling_bucket = b, pi_language = script_to_eval_language (language_hint [eb_title left, eb_title right]),
      pi_source_type_left = JStr (to_eval_source_type (eb_source_type left)),
      pi_source_type_right = JStr (to_eval_source_type (eb_source_type right)),
      pi_title_left = JStr (eb_title left), pi_title_right = JStr (eb_title right),
      pi_observed_at_left = JStr (eb_observed_at left), pi_observed_at_right = JStr (eb_observed_at right),
      pi_candidate_link_id = Some i, pi_canonical_url_left = JNull, pi_canonical_url_right = JNull,
      pi_risk_tags = [], pi_instructions = PACKET_INSTRUCTIONS\<rparr>"

text \<open>An item made of an exported row.\<close>

definition live_item :: "packet_item \<Rightarrow> bool" where
  "live_item p \<longleftrightarrow> (\<exists>pk i left right b who. p = plain_item pk i left right b who \<and>
     py_len (eb_title left) \<le> 512 \<and> py_len (eb_title right) \<le> 512 \<and> strip who \<noteq> [] \<and>
     b \<in> set (CANDIDATE_BUCKET_OTHER # CANDIDATE_BUCKETS))"

lemma worksheet_fields:
  "field_of (worksheet_row_of i left right v) ''pair_id'' = Inr (JStr i)"
  "field_of (worksheet_row_of i left right v) ''source_type_left'' = Inr (JStr (to_eval_source_type (eb_source_type left)))"
  "field_of (worksheet_row_of i left right v) ''source_type_right'' = Inr (JStr (to_eval_source_type (eb_source_type right)))"
  "field_of (worksheet_row_of i left right v) ''title_left'' = Inr (JStr (eb_title left))"
  "field_of (worksheet_row_of i left right v) ''title_right'' = Inr (JStr (eb_title right))"
  "field_of (worksheet_row_of i left right v) ''observed_at_left'' = Inr (JStr (eb_observed_at left))"
  "field_of (worksheet_row_of i left right v) ''observed_at_right'' = Inr (JStr (eb_observed_at right))"
  by (simp_all add: field_of_def worksheet_row_of_def split: prod.splits)

lemma worksheet_values:
  "shown (worksheet_row_of i left right v) ''language'' d =
     script_to_eval_language (language_hint [eb_title left, eb_title right])"
  "get_or (worksheet_row_of i left right v) ''canonical_url_left'' JNull = JNull"
  "get_or (worksheet_row_of i left right v) ''canonical_url_right'' JNull = JNull"
  "row_tags (worksheet_row_of i left right v) = Inr []"
  by (simp_all add: shown_def get_or_def row_tags_def json_show_def worksheet_row_of_def split: prod.splits)

lemma live_packet_item:
  "make_packet_item pk (worksheet_row_of i left right v) b who = Inr (plain_item pk i left right b who)"
  unfolding make_packet_item_def worksheet_fields worksheet_values bind_res_simps plain_item_def
  by (simp add: json_show_def)

lemma live_packet_row:
  "packet_item_to_dict (plain_item pk i left right b who) = plain_packet_row pk i left right b who"
  "packet_key_of (plain_item pk i left right b who) = (pk, i, who, 1)"
  by (simp_all add: packet_item_to_dict_def plain_packet_row_def set_if_def packet_key_of_def json_opt_str_def Let_def plain_item_def)

lemma plain_packet_checks:
  "keys_within PACKET_ALLOWED_KEYS (plain_packet_row pk i left right b who)"
  "has_keys PACKET_REQUIRED_KEYS (plain_packet_row pk i left right b who)"
  "list_all (\<lambda>k. dict_get (plain_packet_row pk i left right b who) k = None) PACKET_FORBIDDEN_VERDICT_KEYS"
  by (simp_all add: plain_packet_row_def keys_within_def has_keys_def PACKET_ALLOWED_KEYS_def PACKET_REQUIRED_KEYS_def
      PACKET_FORBIDDEN_VERDICT_KEYS_def)

lemma live_item_validates:
  assumes "live_item p" "packet_key_of p \<notin> set seen"
  shows "validate_packet_row seen (packet_item_to_dict p) = Inr (packet_key_of p # seen)"
proof -
  obtain pk i left right b who where p: "p = plain_item pk i left right b who"
    and t: "py_len (eb_title left) \<le> 512" "py_len (eb_title right) \<le> 512" "strip who \<noteq> []"
    and b: "b \<in> set (CANDIDATE_BUCKET_OTHER # CANDIDATE_BUCKETS)"
    using assms(1) by (auto simp: live_item_def)
  let ?d = "plain_packet_row pk i left right b who"
  have content: "content_ok ?d"
    using t exported_language exported_source_type by (simp add: content_ok_def plain_packet_row_def title_fits_iff)
  have rest: "dict_get ?d ''assignment_status'' = Some (JStr ASSIGN_ASSIGNED)" "dict_get ?d ''sampling_bucket'' = Some (JStr b)"
    "dict_get ?d ''reviewer_id'' = Some (JStr who)" "dict_get ?d ''review_round'' = Some (JInt 1)"
    "dict_get ?d ''packet_id'' = Some (JStr pk)" "dict_get ?d ''pair_id'' = Some (JStr i)" "tags_ok ?d"
    by (simp_all add: plain_packet_row_def tags_ok_def get_or_def)
  have "ASSIGN_ASSIGNED \<in> set ASSIGNMENT_STATUSES" by (simp add: ASSIGNMENT_STATUSES_def)
  then have "validate_packet_row seen ?d = Inr ((pk, i, who, 1) # seen)"
    unfolding validate_packet_row_def bind_res_Inr_iff row_checks
    using plain_packet_checks content rest t(3) b assms(2) [unfolded p live_packet_row]
    by (auto simp: round_at_def non_blank_def text_of_def row_checks)
  then show ?thesis by (simp only: p live_packet_row)
qed

lemma live_items_validate:
  assumes "\<forall>p \<in> set items. live_item p" "distinct (map packet_key_of items)" "set (map packet_key_of items) \<inter> set seen = {}"
  shows "\<exists>seen'. validate_packet_rows seen (map packet_item_to_dict items) = Inr seen'"
  using assms
proof (induction items arbitrary: seen)
  case (Cons p items)
  then have "validate_packet_row seen (packet_item_to_dict p) = Inr (packet_key_of p # seen)"
    by (intro live_item_validates) auto
  moreover have "\<exists>seen'. validate_packet_rows (packet_key_of p # seen) (map packet_item_to_dict items) = Inr seen'"
    using Cons.prems by (intro Cons.IH) auto
  ultimately show ?case by simp
qed simp

lemma sampled_ids:
  assumes "sample_candidate_pairs sha256 rows targets meth = Inr selected"
    and "distinct (map (\<lambda>r. text_of r ''pair_id'') rows)"
  shows "distinct (map (\<lambda>x. text_of (snd x) ''pair_id'') selected)"
proof -
  obtain bs where bs: "bucketed (sort_key (selection_sort_key sha256 meth) rows) = Inr bs"
    "selected = cap_buckets (targets_or_default targets) [] bs" using assms(1) by (rule sampled)
  have "mset (map (\<lambda>r. text_of r ''pair_id'') (sort_key (selection_sort_key sha256 meth) rows)) =
      mset (map (\<lambda>r. text_of r ''pair_id'') rows)" by (simp only: mset_map mset_sort)
  then have "distinct (map (\<lambda>r. text_of r ''pair_id'') (map snd bs))"
    using bucketed_facts [OF bs(1)] assms(2) mset_eq_imp_distinct_iff by metis
  then have "distinct (map (\<lambda>x. text_of (snd x) ''pair_id'') bs)" by (simp add: comp_def)
  then show ?thesis unfolding bs(2) by (rule cap_buckets_distinct)
qed

text \<open>A block of items on an exported row.\<close>

lemma block_items:
  assumes "reviewed_by_turn pk reviewers n sel block" "exported (snd sel)" "bucket_of_row (snd sel) = Inr (fst sel)"
    and "\<forall>w \<in> set reviewers. strip w \<noteq> []"
  shows "\<forall>p \<in> set block. live_item p \<and> packet_key_of p = (pk, text_of (snd sel) ''pair_id'', pi_reviewer_id p, 1)"
    "distinct (map packet_key_of block)"
proof -
  obtain i left right v where r: "snd sel = worksheet_row_of i left right v"
    "py_len (eb_title left) \<le> 512" "py_len (eb_title right) \<le> 512"
    using assms(2) by (auto simp: exported_def)
  have i: "text_of (snd sel) ''pair_id'' = i" by (cases v) (simp add: r worksheet_row_of_def text_of_def)
  show keys: "\<forall>p \<in> set block. live_item p \<and> packet_key_of p = (pk, text_of (snd sel) ''pair_id'', pi_reviewer_id p, 1)"
  proof
    fix p assume p: "p \<in> set block"
    then have "make_packet_item pk (snd sel) (fst sel) (pi_reviewer_id p) = Inr p" "strip (pi_reviewer_id p) \<noteq> []"
      using assms(1,4) by (auto simp: reviewed_by_turn_def)
    with r(1) have e: "p = plain_item pk i left right (fst sel) (pi_reviewer_id p)" and s: "strip (pi_reviewer_id p) \<noteq> []"
      by (simp_all add: live_packet_item)
    have "live_item p" unfolding live_item_def using e s r(2,3) bucket_known [OF assms(3)] by blast
    moreover have "packet_key_of p = (pk, i, pi_reviewer_id p, 1)" using e live_packet_row(2) by metis
    ultimately show "live_item p \<and> packet_key_of p = (pk, text_of (snd sel) ''pair_id'', pi_reviewer_id p, 1)" using i by simp
  qed
  have "distinct (map pi_reviewer_id block)" using assms(1) by (simp add: reviewed_by_turn_def)
  then show "distinct (map packet_key_of block)" using keys by (auto simp: distinct_map inj_on_def)
qed

lemma packet_items_valid:
  assumes "list_all2 (reviewed_by_turn pk reviewers n) selected blocks"
    and "\<forall>(b, r) \<in> set selected. exported r \<and> bucket_of_row r = Inr b" "\<forall>w \<in> set reviewers. strip w \<noteq> []"
    and "distinct (map (\<lambda>x. text_of (snd x) ''pair_id'') selected)"
  shows "(\<forall>p \<in> set (concat blocks). live_item p \<and>
      (\<exists>sel \<in> set selected. packet_key_of p = (pk, text_of (snd sel) ''pair_id'', pi_reviewer_id p, 1))) \<and>
    distinct (map packet_key_of (concat blocks))"
  using assms
proof (induction rule: list_all2_induct)
  case (Cons sel selected block blocks)
  have sel: "exported (snd sel)" "bucket_of_row (snd sel) = Inr (fst sel)" using Cons.prems(1) by auto
  note block = block_items [OF Cons.hyps(1) sel Cons.prems(2)]
  have ih: "\<forall>p \<in> set (concat blocks). live_item p \<and>
      (\<exists>sel \<in> set selected. packet_key_of p = (pk, text_of (snd sel) ''pair_id'', pi_reviewer_id p, 1))"
    "distinct (map packet_key_of (concat blocks))" using Cons by auto
  have fresh: "\<forall>sel' \<in> set selected. text_of (snd sel') ''pair_id'' \<noteq> text_of (snd sel) ''pair_id''"
    using distinct_map_head [OF Cons.prems(3)] by blast
  have apart: "packet_key_of p \<noteq> packet_key_of q" if "p \<in> set block" "q \<in> set (concat blocks)" for p q
  proof -
    from ih(1) that(2) obtain sel' where s: "sel' \<in> set selected"
      "packet_key_of q = (pk, text_of (snd sel') ''pair_id'', pi_reviewer_id q, 1)" by blast
    moreover have "text_of (snd sel') ''pair_id'' \<noteq> text_of (snd sel) ''pair_id''" using fresh s(1) by blast
    ultimately show ?thesis using block(1) that(1) by auto
  qed
  have "set (map packet_key_of block) \<inter> set (map packet_key_of (concat blocks)) = {}"
    unfolding set_map using apart by blast
  then show ?case using ih block by auto
qed simp

text \<open>Nothing fails on exported rows.\<close>

lemma map_res_total: "\<forall>x \<in> set xs. \<exists>y. f x = Inr y \<Longrightarrow> \<exists>ys. map_res f xs = Inr ys"
  by (induction xs) auto

lemma exported_bucket: "exported r \<Longrightarrow> \<exists>b. bucket_of_row r = Inr b"
  by (auto simp: exported_def bucket_of_row_def worksheet_values)

lemma exported_sampled:
  assumes "\<forall>r \<in> set rows. exported r" "meth \<in> set SELECTION_METHODS"
  shows "\<exists>selected. sample_candidate_pairs sha256 rows targets meth = Inr selected"
proof -
  have "\<exists>bs. bucketed (sort_key (selection_sort_key sha256 meth) rows) = Inr bs"
    unfolding bucketed_def using assms(1) exported_bucket by (intro map_res_total) fastforce
  with assms(2) show ?thesis by (auto simp: sample_candidate_pairs_def)
qed

lemma exported_assigned:
  assumes "\<forall>(b, r) \<in> set selected. exported r" "1 \<le> per_pair" "per_pair \<le> int (length (uniq reviewers))"
  shows "\<exists>items. assign_reviewer_packet selected pk reviewers per_pair = Inr items"
proof -
  have "sel \<in> set selected" if "(sel, who) \<in> set (assignments n ws selected)" for sel who n ws
    using that by (auto simp: assignments_def in_set_enumerate_eq) (metis nth_mem)
  then have "\<exists>p. (\<lambda>((bucket, r), rid). make_packet_item pk r bucket rid) x = Inr p"
    if "x \<in> set (assignments (nat per_pair) (uniq reviewers) selected)" for x
    using that assms(1) live_packet_item by (cases x) (fastforce simp: exported_def)
  then have "\<exists>ys. map_res (\<lambda>((bucket, r), rid). make_packet_item pk r bucket rid)
      (assignments (nat per_pair) (uniq reviewers) selected) = Inr ys" by (intro map_res_total) blast
  then show ?thesis using assms(2,3) unfolding assign_reviewer_packet_def Let_def by simp
qed

text \<open>whatever the tables hold, a packet can be made of them and is valid: with enough reviewers with
  names, the export, the sampling and the assignment succeed, every line passes the validation of the packet
  file, no pair is assigned twice to a reviewer, and the file is written.\<close>

lemma live_packets_are_valid:
  assumes "distinct (map ln_id (tl_links (db_timeline db)))" "\<forall>w \<in> set reviewers. strip w \<noteq> []"
    and "meth \<in> set SELECTION_METHODS" "1 \<le> per_pair" "per_pair \<le> int (length (uniq reviewers))"
  shows "\<exists>items content. build_live_labeling_packet sha256 pk reviewers per_pair targets meth db = Inr items \<and>
    validate_labeling_packet (map packet_item_to_dict items) = Inr () \<and> distinct (map packet_key_of items) \<and>
    write_live_labeling_packet_jsonl sha256 dumps pk reviewers per_pair targets meth db = Inr (length items, content)"
proof -
  let ?rows = "collect_adjudication_eval_pairs db"
  let ?build = "build_live_labeling_packet sha256 pk reviewers per_pair targets meth db"
  obtain items where items: "?build = Inr items" and ok: "\<forall>p \<in> set items. live_item p" "distinct (map packet_key_of items)"
  proof (cases "?rows = []")
    case True
    then have "?build = Inr []"
      by (simp add: build_live_labeling_packet_def collect_live_identity_candidates_def packet_or_empty_def Let_def)
    with that show thesis by simp
  next
    case False
    obtain selected where s: "sample_candidate_pairs sha256 ?rows targets meth = Inr selected"
      using exported_sampled [OF _ assms(3)] collected_exported by blast
    have sel: "\<forall>(b, r) \<in> set selected. exported r \<and> bucket_of_row r = Inr b"
      using sampled_rows [OF s] collected_exported by blast
    then obtain items where a: "assign_reviewer_packet selected pk reviewers per_pair = Inr items"
      using exported_assigned [OF _ assms(4,5)] by blast
    from assigned_items [OF a] obtain blocks where b: "items = concat blocks"
      "list_all2 (reviewed_by_turn pk reviewers (nat per_pair)) selected blocks" by blast
    have "?build = Inr items" using False s a
      by (simp add: build_live_labeling_packet_def collect_live_identity_candidates_def packet_or_empty_def
          Let_def build_labeling_packet_def)
    with packet_items_valid [OF b(2) sel assms(2) sampled_ids [OF s collected_ids [OF assms(1)]]] b(1) that
    show thesis by blast
  qed
  obtain seen where "validate_packet_rows [] (map packet_item_to_dict items) = Inr seen"
    using live_items_validate [of items "[]"] ok by auto
  then have v: "validate_labeling_packet (map packet_item_to_dict items) = Inr ()"
    by (simp add: validate_labeling_packet_def)
  with items ok show ?thesis
    by (simp add: write_live_labeling_packet_jsonl_def write_labeling_packet_jsonl_def)
qed

section \<open>Two stories with a judgement\<close>

definition judged_db :: event_db where
  "judged_db = story_db\<lparr>db_adjudications := [(''l'', (ADJ_LIKELY_SAME, 1, ''high_sim_near_date_publishable''))]\<rparr>"

lemma judged_ids: "distinct (map ln_id (tl_links (db_timeline judged_db)))"
  by (simp add: judged_db_def story_db_def)

lemma judged_row: "\<exists>r. collect_adjudication_eval_pairs judged_db = [r]"
  by (simp add: collect_adjudication_eval_pairs_def judged_links_def judged_db_def story_db_def story_event_def export_row_def
      read_event_brief_def event_by_id_def List.map_filter_simps)

definition full_decision :: human_decision where
  "full_decision = \<lparr>hd_label = LABEL_SAME, hd_reviewed_by = ''ann'', hd_reviewed_at = ''2026-06-01'',
     hd_review_status = REVIEW_GOLD, hd_label_confidence = ''high'', hd_dataset_source = SOURCE_LIVE, hd_rationale = None\<rparr>"

lemma full_decision_ok: "complete_decision full_decision"
  by code_simp


lemma live_packets_are_valid_witness:
  "\<exists>items content. build_live_labeling_packet rev ''p'' [''ann'', ''bob''] 2 [] SELECTION_BUCKET_HASH judged_db = Inr items \<and>
    write_live_labeling_packet_jsonl rev (\<lambda>_. ''{x}'') ''p'' [''ann'', ''bob''] 2 [] SELECTION_BUCKET_HASH judged_db =
      Inr (length items, content)"
proof -
  have w: "\<forall>w \<in> set [''ann'', ''bob'']. strip w \<noteq> []"
    by (simp add: strip_def lstrip_def rstrip_def is_blank_def)
  have n: "2 \<le> int (length (uniq [''ann'', ''bob'']))" by (simp add: uniq_def)
  have m: "SELECTION_BUCKET_HASH \<in> set SELECTION_METHODS" by (simp add: SELECTION_METHODS_def)
  have one: "(1 :: int) \<le> 2" by simp
  from live_packets_are_valid [OF judged_ids w m one n, of rev "''p''" "[]" "\<lambda>_. ''{x}''"] show ?thesis by blast
qed

text \<open>The report counts the unjudged links as the difference of two totals: a judgement on a link that is no
  longer open hides an open link that was never judged.\<close>

definition link_of :: "string \<Rightarrow> string \<Rightarrow> link_row" where
  "link_of i status = \<lparr>ln_id = i, ln_event_id = ''1'', ln_linked_event_id = ''2'', ln_status = status,
     ln_reason = Some SEMANTIC_LINK_REASON\<rparr>"

definition masked_db :: event_db where
  "masked_db = \<lparr>db_timeline = empty_timeline\<lparr>tl_links := [link_of ''open'' ''possible'', link_of ''old'' ''rejected'']\<rparr>,
     db_adjudications = [(''old'', (ADJ_AMBIGUOUS, 0, ''borderline''))]\<rparr>"

lemma backlog_hides_unjudged_link:
  "ib_link_without_adjudication (snd (collect_live_identity_candidates masked_db)) = 0"
  "is_semantic_link (link_of ''open'' ''possible'') \<and> dict_get (db_adjudications masked_db) ''open'' = None"
  by (simp_all add: collect_live_identity_candidates_def Let_def masked_db_def link_of_def is_semantic_link_def)

end
