(* ===== verification/Crawl_Sources.thy ===== *)
theory Crawl_Sources
  imports Error_Taxonomy Quality
begin

text \<open>
  What the crawling agent calls: \<open>ingestion/core/source_registry.py\<close>, the hooks of a source
  (\<open>ingestion/sources/base.py\<close>), \<open>ingestion/core/artifact_store.py\<close>, \<open>ingestion/agents/llm_judge.py\<close> and the
  helpers of \<open>ingestion/agents/graph.py\<close> that fetch and extract a page. The fetchers, the extractors, the model
  and the file system are parameters.
\<close>

section \<open>The registry\<close>

record source_spec =
  ss_id :: string
  ss_name :: string
  ss_type :: string
  ss_evidence_level :: string
  ss_role :: string
  ss_phase :: int
  ss_base_url :: string
  ss_layer :: json
  ss_known_blockers :: json
  ss_expected_fields :: json
  ss_extra :: "(string, json) dict"

definition KNOWN_FIELDS :: "string list" where
  "KNOWN_FIELDS = [''id'', ''name'', ''type'', ''evidence_level'', ''role'',
     ''phase'', ''base_url'', ''layer'', ''known_blockers'', ''expected_fields'']"

definition spec_dict :: "source_spec \<Rightarrow> (string, json) dict" where
  "spec_dict s = foldl (\<lambda>d (k, v). dict_set k v d)
     [(''id'', JStr (ss_id s)), (''name'', JStr (ss_name s)), (''type'', JStr (ss_type s)),
      (''evidence_level'', JStr (ss_evidence_level s)), (''role'', JStr (ss_role s)), (''phase'', JInt (ss_phase s)),
      (''base_url'', JStr (ss_base_url s)), (''layer'', ss_layer s), (''known_blockers'', ss_known_blockers s),
      (''expected_fields'', ss_expected_fields s)] (ss_extra s)"

text \<open>An entry of the YAML file; its string and integer fields have these types.\<close>

definition spec_str :: "(string, json) dict \<Rightarrow> string \<Rightarrow> string res" where
  "spec_str d k = (case dict_get d k of None \<Rightarrow> Inl (KeyError k) | Some (JStr s) \<Rightarrow> Inr s | Some _ \<Rightarrow> Inl TypeError)"

definition spec_phase :: "(string, json) dict \<Rightarrow> int res" where
  "spec_phase d = (case dict_get d ''phase'' of None \<Rightarrow> Inl (KeyError ''phase'') | Some (JInt n) \<Rightarrow> Inr n | Some _ \<Rightarrow> Inl TypeError)"

definition spec_of_entry :: "(string, json) dict \<Rightarrow> source_spec res" where
  "spec_of_entry d =
    bind_res (spec_str d ''id'') (\<lambda>i. bind_res (spec_str d ''name'') (\<lambda>name.
    bind_res (spec_str d ''type'') (\<lambda>type. bind_res (spec_str d ''evidence_level'') (\<lambda>lvl.
    bind_res (spec_str d ''role'') (\<lambda>role. bind_res (spec_phase d) (\<lambda>phase.
    bind_res (spec_str d ''base_url'') (\<lambda>url.
      Inr \<lparr>ss_id = i, ss_name = name, ss_type = type, ss_evidence_level = lvl, ss_role = role, ss_phase = phase,
           ss_base_url = url, ss_layer = get_or d ''layer'' (JStr []),
           ss_known_blockers = get_or d ''known_blockers'' (JList []),
           ss_expected_fields = get_or d ''expected_fields'' (JList []),
           ss_extra = filter (\<lambda>(k, v). k \<notin> set KNOWN_FIELDS) d\<rparr>)))))))"

type_synonym registry = "(string, source_spec) dict"

definition load_registry :: "(string, json) dict list \<Rightarrow> registry res" where
  "load_registry entries = bind_res (map_res spec_of_entry entries) (\<lambda>specs. Inr (dict_of (map (\<lambda>s. (ss_id s, s)) specs)))"

definition get_by_phase :: "registry \<Rightarrow> int \<Rightarrow> source_spec list" where
  "get_by_phase reg phase = filter (\<lambda>s. ss_phase s = phase) (map snd reg)"

section \<open>The judge\<close>

datatype judge_client = MockJudge | OpenAiJudge

definition create_judge_client :: "string option \<Rightarrow> string \<Rightarrow> judge_client" where
  "create_judge_client provider api_key =
    (if (case provider of None \<Rightarrow> ''mock'' | Some p \<Rightarrow> p) = ''openai'' then
       (if api_key = [] then MockJudge else OpenAiJudge)
     else MockJudge)"

definition MOCK_CANDIDATE :: "(string, json) dict" where
  "MOCK_CANDIDATE = [(''source_id'', JStr ''mock''), (''url'', JStr ''https://example.com''),
     (''title'', JStr ''[mock] Event Title''), (''summary'', JStr ''[mock] A significant event occurred.''),
     (''event_type'', JStr ''news''), (''entities'', JList [JStr ''Entity A'']), (''regions'', JList [JStr ''Global'']),
     (''sectors'', JList [JStr ''general'']), (''significance'', JFloat (6 / 10)), (''confidence'', JFloat (7 / 10)),
     (''published_at'', JNull), (''extraction_strategy'', JStr ''mock''), (''llm_judged'', JBool True)]"

definition MOCK_JUDGEMENT :: "(string, json) dict" where
  "MOCK_JUDGEMENT = [(''is_valid'', JBool True), (''confidence'', JFloat (75 / 100)),
     (''reason'', JStr ''[mock] looks like a valid article'')]"

text \<open>The model, the JSON decoder, and the schemas of pydantic, which give the fields of a valid object.\<close>

record 's judge_ports =
  jp_client :: judge_client
  jp_complete :: "string \<Rightarrow> ('s, string) act"
  jp_loads :: "string \<Rightarrow> json option"
  jp_validate :: "string \<Rightarrow> json \<Rightarrow> (string, json) dict option"

definition complete_judgement :: "'s judge_ports \<Rightarrow> string \<Rightarrow> string \<Rightarrow> ('s, (string, json) dict option) act" where
  "complete_judgement jp prompt schema = (case jp_client jp of
      MockJudge \<Rightarrow> ret_act (if schema = ''EventCandidate'' then jp_validate jp schema (JObj MOCK_CANDIDATE)
        else if schema = ''JudgeOutput'' then jp_validate jp schema (JObj MOCK_JUDGEMENT) else None)
    | OpenAiJudge \<Rightarrow> try_act (bind_act (jp_complete jp prompt) (\<lambda>raw.
        ret_act (case jp_loads jp raw of None \<Rightarrow> None | Some v \<Rightarrow> jp_validate jp schema v))) (\<lambda>_. ret_act None))"

section \<open>Ports\<close>

record extraction =
  ex_strategy :: string
  ex_success :: bool
  ex_title :: "string option"
  ex_body :: "string option"
  ex_author :: "string option"
  ex_published_at :: "string option"
  ex_language :: "string option"
  ex_metadata :: "(string, json) dict"

record 's source_hooks =
  sh_entry_url :: "string res"
  sh_search_query :: "string res"
  sh_fetch_entry_html :: "string \<Rightarrow> ('s, string option) act"
  sh_fetch_page_html :: "string \<Rightarrow> string \<Rightarrow> ('s, string option) act"
  sh_candidate_urls :: "string \<Rightarrow> string list res"
  sh_extract :: "string \<Rightarrow> string \<Rightarrow> string \<Rightarrow> ('s, (string, json) dict option) act"
  sh_hints :: "string \<Rightarrow> (string, json) dict res"
  sh_precheck :: "('s, (string, json) dict option) act"
  sh_fallback :: "string option res"

text \<open>The class \<open>SourceCrawler\<close>: its three abstract methods, and the hooks that a source does not override.\<close>

definition plain_source :: "string \<Rightarrow> string \<Rightarrow> (string \<Rightarrow> string list res) \<Rightarrow> 's source_hooks" where
  "plain_source url query urls = \<lparr>sh_entry_url = Inr url, sh_search_query = Inr query, sh_fetch_entry_html = (\<lambda>_. ret_act None),
     sh_fetch_page_html = (\<lambda>_ _. ret_act None), sh_candidate_urls = urls, sh_extract = (\<lambda>_ _ _. ret_act None),
     sh_hints = (\<lambda>_. Inr []), sh_precheck = ret_act None, sh_fallback = Inr None\<rparr>"

record 's crawl_ports =
  cp_source :: "string \<Rightarrow> 's source_hooks option"
  cp_playwright :: "string \<Rightarrow> string \<Rightarrow> ('s, string option) act"
  cp_selenium :: "string \<Rightarrow> ('s, string \<times> string option) act"
  cp_fetch_html :: "string \<Rightarrow> string \<Rightarrow> ('s, bool \<times> string option) act"
  cp_extractor :: "string \<Rightarrow> string \<Rightarrow> string \<Rightarrow> extraction"
  cp_dom_with_hints :: "string \<Rightarrow> string \<Rightarrow> string \<Rightarrow> (string, json) dict \<Rightarrow> (string, json) dict option"
  cp_snapshot :: "string \<Rightarrow> string \<Rightarrow> string \<Rightarrow> json"
  cp_write :: "string \<Rightarrow> string \<Rightarrow> ('s, unit) act"
  cp_append :: "string \<Rightarrow> string \<Rightarrow> ('s, unit) act"
  cp_report :: "(string, json) dict \<Rightarrow> ('s, unit) act"
  cp_dumps :: "json \<Rightarrow> string"
  cp_sha1 :: "string \<Rightarrow> string"
  cp_outputs :: string
  cp_timestamp :: string
  cp_utcnow :: string
  cp_judge :: "'s judge_ports"

section \<open>Artifacts\<close>

definition in_outputs :: "'s crawl_ports \<Rightarrow> string list \<Rightarrow> string" where
  "in_outputs p parts = str_join ''/'' (cp_outputs p # parts)"

definition new_run_id :: "'s crawl_ports \<Rightarrow> int \<Rightarrow> string \<Rightarrow> string" where
  "new_run_id p phase source_id = cp_timestamp p @ ''_phase'' @ int_str phase @ ''_'' @ source_id"

definition url_hash :: "'s crawl_ports \<Rightarrow> string \<Rightarrow> string" where
  "url_hash p url = py_take 8 (cp_sha1 p url)"

definition artifact_stem :: "string \<Rightarrow> string \<Rightarrow> string \<Rightarrow> string" where
  "artifact_stem run_id uh strategy = run_id @ ''_'' @ uh @ ''_'' @ strategy"

definition save_file :: "'s crawl_ports \<Rightarrow> string \<Rightarrow> string \<Rightarrow> ('s, string) act" where
  "save_file p path content = bind_act (cp_write p path content) (\<lambda>_. ret_act path)"

definition save_raw_html :: "'s crawl_ports \<Rightarrow> string \<Rightarrow> string \<Rightarrow> string \<Rightarrow> string \<Rightarrow> string \<Rightarrow> ('s, string) act" where
  "save_raw_html p run_id source_id uh strategy html =
     save_file p (in_outputs p [''raw_html'', source_id, artifact_stem run_id uh strategy @ ''.html'']) html"

definition save_dom_snapshot :: "'s crawl_ports \<Rightarrow> string \<Rightarrow> string \<Rightarrow> string \<Rightarrow> string \<Rightarrow> json \<Rightarrow> ('s, string) act" where
  "save_dom_snapshot p run_id source_id uh strategy snapshot =
     save_file p (in_outputs p [''dom_snapshots'', source_id, artifact_stem run_id uh strategy @ ''.json'']) (cp_dumps p snapshot)"

definition screenshot_path :: "'s crawl_ports \<Rightarrow> string \<Rightarrow> string \<Rightarrow> string \<Rightarrow> string" where
  "screenshot_path p run_id source_id uh = in_outputs p [''screenshots'', source_id, run_id @ ''_'' @ uh @ ''.png'']"

definition shown_field :: "(string, json) dict \<Rightarrow> string \<Rightarrow> string" where
  "shown_field flds k = json_show (get_or flds k (JStr []))"

text \<open>\<open>fields.get("body") or ""\<close>; a body that is no text is a \<open>TypeError\<close> where it is joined.\<close>

definition body_text :: "(string, json) dict \<Rightarrow> string res" where
  "body_text flds = (case get_or flds ''body'' JNull of JStr s \<Rightarrow> Inr s | v \<Rightarrow> if json_truthy v then Inl TypeError else Inr [])"

definition extracted_text :: "string \<Rightarrow> (string, json) dict \<Rightarrow> string \<Rightarrow> string" where
  "extracted_text strategy flds body = str_join [nl]
     [''title: '' @ shown_field flds ''title'', ''published_at: '' @ shown_field flds ''published_at'',
      ''source_url: '' @ shown_field flds ''url'', ''selected_strategy: '' @ strategy,
      ''quality_score: '' @ shown_field flds ''quality_score'', ''---''] @ [nl] @ body"

definition save_extracted_text ::
  "'s crawl_ports \<Rightarrow> string \<Rightarrow> string \<Rightarrow> string \<Rightarrow> string \<Rightarrow> (string, json) dict \<Rightarrow> ('s, string) act" where
  "save_extracted_text p run_id source_id uh strategy flds =
     bind_act (lift_res (body_text flds)) (\<lambda>body.
       save_file p (in_outputs p [''extracted_text'', source_id, artifact_stem run_id uh strategy @ ''.txt''])
         (extracted_text strategy flds body))"

definition append_result_row :: "'s crawl_ports \<Rightarrow> int \<Rightarrow> string \<Rightarrow> (string, json) dict \<Rightarrow> ('s, unit) act" where
  "append_result_row p phase source_id row = (let line = cp_dumps p (JObj row) @ [nl] in
     bind_act (cp_append p (in_outputs p [''jsonl'', ''phase'' @ int_str phase @ ''_results.jsonl'']) line) (\<lambda>_.
       cp_append p (in_outputs p [''jsonl'', source_id @ ''_results.jsonl'']) line))"

text \<open>A payload that is no text is a \<open>TypeError\<close>.\<close>

definition save_raw_payload :: "'s crawl_ports \<Rightarrow> string \<Rightarrow> string \<Rightarrow> string \<Rightarrow> json \<Rightarrow> json \<Rightarrow> ('s, string) act" where
  "save_raw_payload p run_id source_id h fmt payload =
    (let ext = (if fmt \<in> JStr ` {''json'', ''xml'', ''csv''} then json_show fmt else ''dat'') in
     case payload of
       JStr s \<Rightarrow> save_file p (in_outputs p [''raw_payload'', source_id,
         artifact_stem run_id h (json_show fmt) @ ''.'' @ ext]) s
     | _ \<Rightarrow> raise_act TypeError)"

definition save_extracted_payload :: "'s crawl_ports \<Rightarrow> string \<Rightarrow> string \<Rightarrow> string \<Rightarrow> (string, json) dict \<Rightarrow> ('s, string) act" where
  "save_extracted_payload p run_id source_id h flds =
     save_file p (in_outputs p [''extracted_payload'', source_id, run_id @ ''_'' @ h @ ''.json'']) (cp_dumps p (JObj flds))"

section \<open>Fetching and extracting\<close>

definition HTTPX_STRATEGIES :: "string list" where
  "HTTPX_STRATEGIES = [''httpx_direct'', ''httpx_mobile_ua'', ''httpx_random_ua'']"
definition PLAYWRIGHT_STRATEGIES :: "string list" where
  "PLAYWRIGHT_STRATEGIES = [''playwright_basic'', ''playwright_scroll'', ''playwright_wait_network_idle'', ''playwright_click_more'']"
definition EXTRACT_ONLY_STRATEGIES :: "string list" where
  "EXTRACT_ONLY_STRATEGIES = [''readability'', ''trafilatura'', ''dom_heuristic'']"
definition SELENIUM_STRATEGIES :: "string list" where "SELENIUM_STRATEGIES = [''selenium_rendered_dom'']"

text \<open>The page, the screenshot's path and the snapshot's path.\<close>

type_synonym fetched = "string option \<times> string option \<times> string option"

definition fetch_with_strategy ::
  "'s crawl_ports \<Rightarrow> string \<Rightarrow> string \<Rightarrow> string \<Rightarrow> string \<Rightarrow> string \<Rightarrow> ('s, fetched) act" where
  "fetch_with_strategy p url strategy run_id source_id uh =
    (if strategy \<in> set PLAYWRIGHT_STRATEGIES then
       (let ss = screenshot_path p run_id source_id uh in
        bind_act (cp_playwright p url strategy) (\<lambda>html.
          if truthy html then
            bind_act (save_dom_snapshot p run_id source_id uh strategy (cp_snapshot p url (or_str html []) strategy))
              (\<lambda>snap. ret_act (html, Some ss, Some snap))
          else ret_act (html, Some ss, None)))
     else if strategy \<in> set SELENIUM_STRATEGIES then
       bind_act (cp_selenium p url) (\<lambda>(status, html).
         ret_act (if status = ''ok'' \<and> truthy html then html else None, None, None))
     else bind_act (cp_fetch_html p url strategy) (\<lambda>(success, html).
       ret_act (if success then html else None, None, None)))"

definition extraction_dict :: "extraction \<Rightarrow> string \<Rightarrow> string \<Rightarrow> (string, json) dict" where
  "extraction_dict r url source_id =
    [(''title'', json_opt_str (ex_title r)), (''body'', json_opt_str (ex_body r)), (''author'', json_opt_str (ex_author r)),
     (''published_at'', json_opt_str (ex_published_at r)), (''language'', json_opt_str (ex_language r)),
     (''metadata'', JObj (ex_metadata r)), (''strategy'', JStr (ex_strategy r)), (''url'', JStr url),
     (''source_id'', JStr source_id)]"

text \<open>\<open>max(candidates, key=...)\<close>: the first of the longest.\<close>

fun longest_body :: "extraction \<Rightarrow> extraction list \<Rightarrow> extraction" where
  "longest_body b [] = b"
| "longest_body b (r # rs) = longest_body
     (if py_len (or_str (ex_body b) []) < py_len (or_str (ex_body r) []) then r else b) rs"

definition usable :: "extraction \<Rightarrow> bool" where
  "usable r \<longleftrightarrow> ex_success r \<and> truthy (ex_body r) \<and> 50 < py_len (or_str (ex_body r) [])"

definition best_extraction :: "'s crawl_ports \<Rightarrow> string \<Rightarrow> string \<Rightarrow> string \<Rightarrow> (string, json) dict option" where
  "best_extraction p html url source_id =
    (case filter usable (map (\<lambda>f. cp_extractor p f html url) [''readability'', ''trafilatura'', ''dom_heuristic'']) of
       [] \<Rightarrow> None | r # rs \<Rightarrow> Some (extraction_dict (longest_body r rs) url source_id))"

definition specific_extraction :: "'s crawl_ports \<Rightarrow> string \<Rightarrow> string \<Rightarrow> string \<Rightarrow> string \<Rightarrow> (string, json) dict option" where
  "specific_extraction p html url source_id strategy =
    (if strategy \<in> set EXTRACT_ONLY_STRATEGIES then
       (let r = cp_extractor p strategy html url in
        if \<not> ex_success r \<or> \<not> truthy (ex_body r) then None else Some (extraction_dict r url source_id))
     else None)"

section \<open>A source to run on\<close>

text \<open>
  Ports whose pages are all \<open>html\<close>, without hooks, and of which only the first extractor makes anything: a short
  text. The witnesses run on them.
\<close>

definition short_extraction :: "bool \<Rightarrow> extraction" where
  "short_extraction found = \<lparr>ex_strategy = ''readability'', ex_success = found, ex_title = Some ''t'', ex_body = Some ''b'',
     ex_author = Some ''a'', ex_published_at = Some ''p'', ex_language = Some ''l'', ex_metadata = []\<rparr>"

definition test_extractor :: "string \<Rightarrow> string \<Rightarrow> string \<Rightarrow> extraction" where
  "test_extractor name html url = short_extraction (name = ''readability'')"

definition test_ports :: "string option \<Rightarrow> 's crawl_ports" where
  "test_ports html = \<lparr>cp_source = (\<lambda>_. None), cp_playwright = (\<lambda>_ _. ret_act html), cp_selenium = (\<lambda>_. ret_act (''ok'', html)),
     cp_fetch_html = (\<lambda>_ _. ret_act (html \<noteq> None, html)), cp_extractor = test_extractor,
     cp_dom_with_hints = (\<lambda>_ _ _ _. None), cp_snapshot = (\<lambda>_ _ _. JNull), cp_write = (\<lambda>_ _. ret_act ()),
     cp_append = (\<lambda>_ _. ret_act ()), cp_report = (\<lambda>_. ret_act ()), cp_dumps = (\<lambda>_. []), cp_sha1 = (\<lambda>_. []),
     cp_outputs = [], cp_timestamp = [], cp_utcnow = [],
     cp_judge = \<lparr>jp_client = MockJudge, jp_complete = (\<lambda>_. ret_act []), jp_loads = (\<lambda>_. None), jp_validate = (\<lambda>_ _. None)\<rparr>\<rparr>"

end
