(* ===== verification/Crawl_Graph.thy ===== *)
theory Crawl_Graph
  imports Crawl_Sources
begin

text \<open>
  The crawling agent: the state of \<open>ingestion/agents/state.py\<close>, the nodes, routes and edges of
  \<open>ingestion/agents/graph.py\<close>, and the runs of \<open>ingestion/runners/run_one_source.py\<close> and \<open>run_phase.py\<close>. LangGraph
  runs the nodes one after the other along the edges, merges what a node returns into the state, and raises when
  its limit of steps is reached before the end. The proofs rest on one rule for the walk: an invariant of the
  nodes and a rank that every edge lowers.
\<close>

section \<open>State\<close>

type_synonym crawl_fields = "(string, json) dict"

record artifacts =
  af_raw_html_path :: "string option"
  af_dom_snapshot_path :: "string option"
  af_screenshot_path :: "string option"
  af_extracted_text_path :: "string option"
  af_raw_payload_path :: "string option"
  af_extracted_payload_path :: "string option"
  af_screenshots :: "string list"
  af_dom_snapshots :: "string list"

record crawl_state =
  cs_source_id :: string
  cs_source_spec :: crawl_fields
  cs_phase :: int
  cs_attempt_no :: nat
  cs_max_attempts :: nat
  cs_strategy_sequence :: "string list"
  cs_current_strategy :: string
  cs_strategies_tried :: "string list"
  cs_entry_url :: string
  cs_candidate_urls :: "string list"
  cs_current_url :: string
  cs_raw_html :: "string option"
  cs_extraction_result :: "crawl_fields option"
  cs_quality_score :: rat
  cs_quality_status :: quality_status
  cs_event_candidates :: "crawl_fields list"
  cs_errors :: "crawl_fields list"
  cs_current_error :: "crawl_fields option"
  cs_llm_judge_result :: "crawl_fields option"
  cs_run_id :: string
  cs_url_hash :: string
  cs_query :: string
  cs_artifacts :: artifacts
  cs_retry_history :: "crawl_fields list"
  cs_status :: string
  cs_should_retry :: bool
  cs_retry_reason :: string
  cs_strategy_exhausted :: bool
  cs_final_report :: "crawl_fields option"

definition status_name :: "quality_status \<Rightarrow> string" where
  "status_name s = (case s of SUCCESS \<Rightarrow> ''SUCCESS'' | PARTIAL \<Rightarrow> ''PARTIAL'' | BLOCKED \<Rightarrow> ''BLOCKED'' | FAILED \<Rightarrow> ''FAILED'')"

text \<open>The values of the enumeration \<open>ErrorType\<close>.\<close>

definition ERROR_VALUES :: "(string, error_type) dict" where
  "ERROR_VALUES =
    [(''NETWORK_TIMEOUT'', NETWORK_TIMEOUT), (''NETWORK_DNS_FAIL'', NETWORK_DNS_FAIL),
     (''NETWORK_CONNECTION_RESET'', NETWORK_CONNECTION_RESET), (''HTTP_4XX'', HTTP_4XX), (''RATE_LIMITED'', RATE_LIMITED),
     (''HTTP_5XX'', HTTP_5XX), (''HTTP_REDIRECT_LOOP'', HTTP_REDIRECT_LOOP), (''CAPTCHA_DETECTED'', CAPTCHA_DETECTED),
     (''LOGIN_WALL_DETECTED'', LOGIN_WALL_DETECTED), (''PAYWALL_DETECTED'', PAYWALL_DETECTED),
     (''ROBOTS_BLOCKED'', ROBOTS_BLOCKED), (''JS_RENDER_FAIL'', JS_RENDER_FAIL), (''DOM_PARSE_ERROR'', DOM_PARSE_ERROR),
     (''EXTRACTION_EMPTY'', EXTRACTION_EMPTY), (''EXTRACTION_TOO_SHORT'', EXTRACTION_TOO_SHORT),
     (''EXTRACTION_BOILERPLATE_ONLY'', EXTRACTION_BOILERPLATE_ONLY),
     (''EXTRACTION_ENCODING_ERROR'', EXTRACTION_ENCODING_ERROR), (''QUALITY_BELOW_THRESHOLD'', QUALITY_BELOW_THRESHOLD),
     (''QUALITY_PARTIAL'', QUALITY_PARTIAL), (''LLM_PARSE_ERROR'', LLM_PARSE_ERROR), (''LLM_TIMEOUT'', LLM_TIMEOUT),
     (''LLM_RATE_LIMIT'', LLM_RATE_LIMIT), (''SCREENSHOT_FAIL'', SCREENSHOT_FAIL),
     (''DOM_SNAPSHOT_FAIL'', DOM_SNAPSHOT_FAIL), (''CONFIG_ERROR'', CONFIG_ERROR), (''UNKNOWN_ERROR'', UNKNOWN_ERROR),
     (''PARAMETER_MISSING'', PARAMETER_MISSING), (''ENDPOINT_INVALID'', ENDPOINT_INVALID), (''INVALID_KEY'', INVALID_KEY),
     (''QUERY_ENCODING_OR_PARAM_ERROR'', QUERY_ENCODING_OR_PARAM_ERROR),
     (''INVALID_SYMBOL_OR_EMPTY_MARKET_DATA'', INVALID_SYMBOL_OR_EMPTY_MARKET_DATA),
     (''XML_PARAMETER_ERROR'', XML_PARAMETER_ERROR), (''API_RETURNED_HTML_ERROR_PAGE'', API_RETURNED_HTML_ERROR_PAGE),
     (''DYNAMIC_RENDER_REQUIRED'', DYNAMIC_RENDER_REQUIRED),
     (''SELECTOR_MATCHED_BUT_URL_EMPTY'', SELECTOR_MATCHED_BUT_URL_EMPTY),
     (''LOW_EVIDENCE_EXTERNAL_SIGNAL'', LOW_EVIDENCE_EXTERNAL_SIGNAL)]"

definition error_value :: "error_type \<Rightarrow> string" where
  "error_value e = (case find (\<lambda>(k, v). v = e) ERROR_VALUES of Some (k, v) \<Rightarrow> k | None \<Rightarrow> [])"

definition no_artifacts :: artifacts where
  "no_artifacts = \<lparr>af_raw_html_path = None, af_dom_snapshot_path = None, af_screenshot_path = None,
     af_extracted_text_path = None, af_raw_payload_path = None, af_extracted_payload_path = None, af_screenshots = [],
     af_dom_snapshots = []\<rparr>"

section \<open>Fetching\<close>

definition node_initialize :: "crawl_state \<Rightarrow> crawl_state" where
  "node_initialize st = st\<lparr>cs_attempt_no := 0, cs_strategies_tried := [], cs_current_strategy := hd STRATEGY_SEQUENCE,
     cs_candidate_urls := [], cs_raw_html := None, cs_extraction_result := None, cs_quality_score := 0,
     cs_quality_status := FAILED, cs_event_candidates := [], cs_errors := [], cs_current_error := None,
     cs_llm_judge_result := None, cs_artifacts := no_artifacts, cs_retry_history := [], cs_status := ''RUNNING'',
     cs_should_retry := False, cs_retry_reason := [], cs_strategy_exhausted := False, cs_final_report := None\<rparr>"

text \<open>A string of the source's specification.\<close>

definition spec_get :: "crawl_state \<Rightarrow> string \<Rightarrow> string \<Rightarrow> string res" where
  "spec_get st k d = (case get_or (cs_source_spec st) k (JStr d) of JStr s \<Rightarrow> Inr s | _ \<Rightarrow> Inl TypeError)"

definition node_build_search_query :: "'s crawl_ports \<Rightarrow> crawl_state \<Rightarrow> ('s, crawl_state) act" where
  "node_build_search_query p st = lift_res (case cp_source p (cs_source_id st) of
      Some src \<Rightarrow> bind_res (sh_entry_url src) (\<lambda>url. bind_res (sh_search_query src) (\<lambda>q.
        Inr (st\<lparr>cs_entry_url := url, cs_query := q\<rparr>)))
    | None \<Rightarrow> bind_res (spec_get st ''base_url'' []) (\<lambda>url. Inr (st\<lparr>cs_entry_url := url, cs_query := []\<rparr>)))"

definition crawl_error :: "crawl_state \<Rightarrow> string \<Rightarrow> string \<Rightarrow> string \<Rightarrow> string \<Rightarrow> bool \<Rightarrow> crawl_fields" where
  "crawl_error st url strategy error_type msg retryable =
    [(''source_id'', JStr (cs_source_id st)), (''url'', JStr url), (''attempt_no'', JInt (int (cs_attempt_no st))),
     (''strategy'', JStr strategy), (''error_type'', JStr error_type), (''raw_message'', JStr msg),
     (''retryable'', JBool retryable)]"

text \<open>A hook that raises counts as one that has no page.\<close>

definition hooked_page :: "('s, string option) act \<Rightarrow> ('s, string option) act" where
  "hooked_page m = try_act m (\<lambda>_. ret_act None)"

definition got_html :: "crawl_state \<Rightarrow> string \<Rightarrow> string \<Rightarrow> crawl_state" where
  "got_html st html path = st\<lparr>cs_raw_html := Some html, cs_artifacts := (cs_artifacts st)\<lparr>af_raw_html_path := Some path\<rparr>\<rparr>"

definition node_fetch_entry_url :: "'s crawl_ports \<Rightarrow> crawl_state \<Rightarrow> ('s, crawl_state) act" where
  "node_fetch_entry_url p st =
    (let sid = cs_source_id st; url = cs_entry_url st; rid = cs_run_id st; uh = cs_url_hash st; st1 = st\<lparr>cs_current_url := url\<rparr> in
     bind_act (case cp_source p sid of None \<Rightarrow> ret_act None | Some src \<Rightarrow> hooked_page (sh_fetch_entry_html src url)) (\<lambda>custom.
       case custom of
         Some html \<Rightarrow> bind_act (save_raw_html p rid sid uh ''entry_custom'' html) (\<lambda>path. ret_act (got_html st1 html path))
       | None \<Rightarrow> bind_act (fetch_with_strategy p url ''httpx_direct'' rid sid uh) (\<lambda>(html, _, _).
           if truthy html then
             bind_act (save_raw_html p rid sid uh ''entry_httpx_direct'' (or_str html []))
               (\<lambda>path. ret_act (got_html st1 (or_str html []) path))
           else ret_act (st1\<lparr>cs_raw_html := None, cs_current_error := Some (crawl_error st url ''httpx_direct''
             ''NETWORK_TIMEOUT'' ''fetch_entry_url: no HTML obtained'' False)\<rparr>))))"

definition node_extract_candidate_urls :: "'s crawl_ports \<Rightarrow> crawl_state \<Rightarrow> ('s, crawl_state) act" where
  "node_extract_candidate_urls p st = lift_res
    (bind_res (case cp_source p (cs_source_id st) of None \<Rightarrow> Inr [] | Some src \<Rightarrow> sh_candidate_urls src (or_str (cs_raw_html st) []))
      (\<lambda>found. let urls = take 3 (if found = [] then [cs_current_url st] else found); url = hd urls in
        Inr (st\<lparr>cs_candidate_urls := urls, cs_current_url := url, cs_url_hash := url_hash p url\<rparr>)))"

definition with_shots :: "string option \<Rightarrow> string option \<Rightarrow> artifacts \<Rightarrow> artifacts" where
  "with_shots ss snap a =
    (let a1 = (case ss of None \<Rightarrow> a | Some x \<Rightarrow> a\<lparr>af_screenshot_path := Some x, af_screenshots := af_screenshots a @ [x]\<rparr>)
     in case snap of None \<Rightarrow> a1 | Some x \<Rightarrow> a1\<lparr>af_dom_snapshot_path := Some x, af_dom_snapshots := af_dom_snapshots a1 @ [x]\<rparr>)"

definition node_fetch_target_page :: "'s crawl_ports \<Rightarrow> crawl_state \<Rightarrow> ('s, crawl_state) act" where
  "node_fetch_target_page p st =
    (let sid = cs_source_id st; url = cs_current_url st; strategy = cs_current_strategy st; rid = cs_run_id st; uh = cs_url_hash st in
     bind_act (case cp_source p sid of None \<Rightarrow> ret_act None | Some src \<Rightarrow> hooked_page (sh_fetch_page_html src url strategy)) (\<lambda>custom.
       case custom of
         Some html \<Rightarrow> bind_act (save_raw_html p rid sid uh (''custom_'' @ strategy) html) (\<lambda>path. ret_act (got_html st html path))
       | None \<Rightarrow> bind_act (fetch_with_strategy p url strategy rid sid uh) (\<lambda>(html, ss, snap).
           if truthy html then
             bind_act (save_raw_html p rid sid uh strategy (or_str html [])) (\<lambda>path.
               let st1 = got_html st (or_str html []) path
               in ret_act (st1\<lparr>cs_artifacts := with_shots ss snap (cs_artifacts st1)\<rparr>))
           else ret_act (st\<lparr>cs_raw_html := None, cs_current_error := Some (crawl_error st url strategy
             ''NETWORK_TIMEOUT'' (''fetch_target_page: no HTML (strategy='' @ strategy @ '')'') True)\<rparr>))))"

section \<open>Extracting\<close>

definition remaining_strategies :: "crawl_state \<Rightarrow> string list" where
  "remaining_strategies st = filter (\<lambda>s. s \<notin> set (cs_strategies_tried st)) (cs_strategy_sequence st)"

definition node_select_extraction_strategy :: "crawl_state \<Rightarrow> crawl_state" where
  "node_select_extraction_strategy st = (let remaining = remaining_strategies st in
     st\<lparr>cs_current_strategy := (case remaining of [] \<Rightarrow> cs_current_strategy st | s # _ \<Rightarrow> s),
        cs_strategy_exhausted := (length remaining \<le> 1)\<rparr>)"

definition need_refetch :: "crawl_state \<Rightarrow> bool" where
  "need_refetch st \<longleftrightarrow> cs_current_strategy st \<in> set PLAYWRIGHT_STRATEGIES \<or>
     cs_current_strategy st \<in> set HTTPX_STRATEGIES \<and> 0 < cs_attempt_no st \<and> cs_current_strategy st \<noteq> hd STRATEGY_SEQUENCE"

definition tried :: "crawl_state \<Rightarrow> crawl_state" where
  "tried st = st\<lparr>cs_strategies_tried := cs_strategies_tried st @ [cs_current_strategy st]\<rparr>"

definition extract_failed :: "crawl_state \<Rightarrow> string \<Rightarrow> string \<Rightarrow> bool \<Rightarrow> crawl_state" where
  "extract_failed st error_type msg retryable = tried (st\<lparr>cs_extraction_result := None,
     cs_current_error := Some (crawl_error st (cs_current_url st) (cs_current_strategy st) error_type msg retryable)\<rparr>)"

text \<open>The page to extract from: a new one for the strategies that fetch, otherwise the one of the state.\<close>

definition page_to_extract :: "'s crawl_ports \<Rightarrow> crawl_state \<Rightarrow> ('s, string) act" where
  "page_to_extract p st =
    (if need_refetch st then
       bind_act (fetch_with_strategy p (cs_current_url st) (cs_current_strategy st) (cs_run_id st) (cs_source_id st) (cs_url_hash st))
         (\<lambda>(html, _, _). if truthy html then
            bind_act (save_raw_html p (cs_run_id st) (cs_source_id st) (cs_url_hash st) (cs_current_strategy st) (or_str html []))
              (\<lambda>_. ret_act (or_str html []))
          else ret_act (or_str (cs_raw_html st) []))
     else ret_act (or_str (cs_raw_html st) []))"

definition set_default :: "string \<Rightarrow> json \<Rightarrow> crawl_fields \<Rightarrow> crawl_fields" where
  "set_default k v d = (if dict_get d k = None then dict_set k v d else d)"

text \<open>What a source's own extractor gave: its payload is saved apart.\<close>

definition custom_extracted :: "'s crawl_ports \<Rightarrow> crawl_state \<Rightarrow> crawl_fields \<Rightarrow> ('s, crawl_state) act" where
  "custom_extracted p st custom =
    (let sid = cs_source_id st; rid = cs_run_id st; uh = cs_url_hash st;
         d = set_default ''source_id'' (JStr sid) (set_default ''url'' (JStr (cs_current_url st)) custom);
         payload = get_or d ''raw_payload'' JNull; fmt = get_or d ''payload_format'' (JStr ''json'');
         r = dict_pop ''payload_format'' (dict_pop ''raw_payload'' d) in
     bind_act (if payload = JNull then ret_act (None, None)
         else bind_act (save_raw_payload p rid sid uh fmt payload) (\<lambda>a.
           bind_act (save_extracted_payload p rid sid uh r) (\<lambda>b. ret_act (Some a, Some b)))) (\<lambda>(raw_path, ext_path).
     bind_act (save_extracted_text p rid sid uh (cs_current_strategy st) r) (\<lambda>txt.
       ret_act (tried (st\<lparr>cs_extraction_result := Some r, cs_artifacts := (cs_artifacts st)\<lparr>af_extracted_text_path := Some txt,
         af_raw_payload_path := raw_path, af_extracted_payload_path := ext_path\<rparr>\<rparr>)))))"

text \<open>The extractors, and the selectors of the source where they give no body.\<close>

definition extracted_from :: "'s crawl_ports \<Rightarrow> crawl_state \<Rightarrow> string \<Rightarrow> crawl_fields \<Rightarrow> crawl_fields option" where
  "extracted_from p st html hints =
    (let url = cs_current_url st; sid = cs_source_id st;
         r = (if cs_current_strategy st \<in> set EXTRACT_ONLY_STRATEGIES then specific_extraction p html url sid (cs_current_strategy st)
              else best_extraction p html url sid);
         no_body = (case r of None \<Rightarrow> True | Some d \<Rightarrow> \<not> json_truthy (get_or d ''body'' JNull))
     in if no_body \<and> json_truthy (get_or hints ''selectors'' JNull) then cp_dom_with_hints p html url sid hints else r)"

definition page_extracted :: "'s crawl_ports \<Rightarrow> crawl_state \<Rightarrow> string \<Rightarrow> ('s, crawl_state) act" where
  "page_extracted p st html = (case classify_content_blocker (lower html) of
      Some b \<Rightarrow> ret_act (extract_failed st (error_value b) (''blocker detected: '' @ error_value b) False)
    | None \<Rightarrow>
        bind_act (lift_res (case cp_source p (cs_source_id st) of None \<Rightarrow> Inr [] | Some src \<Rightarrow> sh_hints src html)) (\<lambda>hints.
        case extracted_from p st html hints of
          None \<Rightarrow> ret_act (extract_failed st ''EXTRACTION_EMPTY'' ''extract_content: all extractors returned empty'' True)
        | Some r0 \<Rightarrow> let r = set_default ''url'' (JStr (cs_current_url st)) r0 in
            bind_act (save_extracted_text p (cs_run_id st) (cs_source_id st) (cs_url_hash st) (cs_current_strategy st) r) (\<lambda>txt.
              ret_act (tried (st\<lparr>cs_extraction_result := Some r,
                cs_artifacts := (cs_artifacts st)\<lparr>af_extracted_text_path := Some txt\<rparr>\<rparr>)))))"

definition custom_extraction :: "'s crawl_ports \<Rightarrow> crawl_state \<Rightarrow> string \<Rightarrow> ('s, crawl_fields option) act" where
  "custom_extraction p st html = (case cp_source p (cs_source_id st) of None \<Rightarrow> ret_act None
    | Some src \<Rightarrow> try_act (sh_extract src html (cs_current_url st) (cs_current_strategy st)) (\<lambda>_. ret_act None))"

definition node_extract_content :: "'s crawl_ports \<Rightarrow> crawl_state \<Rightarrow> ('s, crawl_state) act" where
  "node_extract_content p st =
    bind_act (page_to_extract p st) (\<lambda>html.
      if html = [] then ret_act (extract_failed st ''EXTRACTION_EMPTY'' ''extract_content: no HTML available'' True)
      else bind_act (custom_extraction p st html) (\<lambda>custom. case custom of
          Some d \<Rightarrow> custom_extracted p st d
        | None \<Rightarrow> page_extracted p st html))"

section \<open>Scoring and deciding\<close>

definition score_type :: "string \<Rightarrow> source_type res" where
  "score_type s = (if s = ''news'' then Inr News else if s = ''community'' then Inr Community
     else if s = ''official'' then Inr Official else Inl (KeyError s))"

text \<open>A field that is read as a text: anything else that is not empty has no \<open>strip\<close> or \<open>split\<close>.\<close>

definition text_field :: "crawl_fields \<Rightarrow> string \<Rightarrow> string option res" where
  "text_field d k = (case get_or d k JNull of JStr s \<Rightarrow> Inr (Some s) | v \<Rightarrow> if json_truthy v then Inl AttributeError else Inr None)"

text \<open>A field of which only the truth is read.\<close>

definition flag_field :: "crawl_fields \<Rightarrow> string \<Rightarrow> string option" where
  "flag_field d k = (if json_truthy (get_or d k JNull) then Some ''true'' else None)"

definition measured :: "crawl_state \<Rightarrow> (rat \<times> quality_status) res" where
  "measured st =
    (let d = (case cs_extraction_result st of None \<Rightarrow> [] | Some d \<Rightarrow> d);
         is_blocked = (classify_content_blocker (lower (or_str (cs_raw_html st) [])) \<noteq> None) in
     bind_res (text_field d ''body'') (\<lambda>body.
     bind_res (case get_or d ''metadata'' (JObj []) of JObj m \<Rightarrow> Inr m | _ \<Rightarrow> Inl AttributeError) (\<lambda>metadata.
     bind_res (text_field d ''title'') (\<lambda>title.
     bind_res (spec_get st ''type'' ''news'') (\<lambda>t. bind_res (score_type t) (\<lambda>source_type.
       let score = compute_quality_score (build_metrics_from_extraction title body (flag_field d ''author'')
             (flag_field d ''published_at'') (flag_field d ''language'') metadata) source_type
       in Inr (score, determine_quality_status score is_blocked)))))))"

definition artifact_paths :: "artifacts \<Rightarrow> crawl_fields" where
  "artifact_paths a = [(''raw_html'', json_opt_str (af_raw_html_path a)), (''screenshot'', json_opt_str (af_screenshot_path a)),
     (''dom_snapshot'', json_opt_str (af_dom_snapshot_path a)), (''extracted_text'', json_opt_str (af_extracted_text_path a))]"

definition attempt_record :: "crawl_state \<Rightarrow> rat \<Rightarrow> quality_status \<Rightarrow> crawl_fields" where
  "attempt_record st score status =
    [(''attempt_no'', JInt (int (cs_attempt_no st))), (''strategy'', JStr (cs_current_strategy st)),
     (''status'', JStr (status_name status)), (''quality_score'', JFloat (round4 score)),
     (''error_type'', case cs_current_error st of None \<Rightarrow> JNull | Some e \<Rightarrow> get_or e ''error_type'' JNull),
     (''artifact_paths'', JObj (artifact_paths (cs_artifacts st)))]"

definition node_score_quality :: "crawl_state \<Rightarrow> crawl_state res" where
  "node_score_quality st = bind_res (measured st) (\<lambda>(score, status).
     Inr (st\<lparr>cs_quality_score := score, cs_quality_status := status,
       cs_retry_history := cs_retry_history st @ [attempt_record st score status]\<rparr>))"

definition passed :: "quality_status \<Rightarrow> bool" where
  "passed s \<longleftrightarrow> s = SUCCESS \<or> s = PARTIAL"

definition error_flag :: "crawl_fields option \<Rightarrow> string \<Rightarrow> bool" where
  "error_flag e k = (case e of None \<Rightarrow> False | Some d \<Rightarrow> json_truthy (get_or d k (JBool False)))"

definition retry_wanted :: "crawl_state \<Rightarrow> bool \<times> string" where
  "retry_wanted st =
    (if passed (cs_quality_status st) then (False, [])
     else if cs_strategy_exhausted st \<or> cs_max_attempts st \<le> cs_attempt_no st then (False, [])
     else if error_flag (cs_current_error st) ''retryable'' then
       (True, case cs_current_error st of None \<Rightarrow> [] | Some d \<Rightarrow> json_show (get_or d ''error_type'' (JStr [])))
     else if cs_quality_status st = FAILED then (True, ''quality_below_threshold'')
     else (False, []))"

definition node_retry_decision :: "crawl_state \<Rightarrow> crawl_state" where
  "node_retry_decision st =
    st\<lparr>cs_should_retry := fst (retry_wanted st), cs_retry_reason := snd (retry_wanted st),
       cs_attempt_no := cs_attempt_no st + 1,
       cs_errors := (case cs_current_error st of None \<Rightarrow> cs_errors st | Some e \<Rightarrow> if e = [] then cs_errors st else cs_errors st @ [e]),
       cs_current_error := None\<rparr>"

definition node_error_analysis :: "crawl_state \<Rightarrow> crawl_state" where
  "node_error_analysis st =
    (let err = (case cs_current_error st of None \<Rightarrow> [] | Some e \<Rightarrow> e);
         et = (case get_or err ''error_type'' (JStr ''UNKNOWN_ERROR'') of JStr s \<Rightarrow> dict_get ERROR_VALUES s | _ \<Rightarrow> None);
         is_blocked = (case et of None \<Rightarrow> False | Some e \<Rightarrow> e \<in> set BLOCKED_ERRORS);
         retryable = (case et of None \<Rightarrow> False | Some e \<Rightarrow> e \<in> set RETRYABLE_ERRORS)
     in st\<lparr>cs_current_error := Some (dict_set ''is_blocker'' (JBool is_blocked) (dict_set ''retryable'' (JBool retryable) err)),
           cs_quality_status := (if is_blocked then BLOCKED else cs_quality_status st),
           cs_should_retry := (\<not> is_blocked \<and> retryable)\<rparr>)"

section \<open>Judging and reporting\<close>

definition extracted_fields :: "crawl_state \<Rightarrow> crawl_fields" where
  "extracted_fields st = (case cs_extraction_result st of None \<Rightarrow> [] | Some d \<Rightarrow> d)"

definition body_snippet :: "nat \<Rightarrow> crawl_fields \<Rightarrow> string" where
  "body_snippet n d = (case get_or d ''body'' JNull of JStr s \<Rightarrow> py_take n s | _ \<Rightarrow> [])"

definition candidate_prompt :: "crawl_state \<Rightarrow> string" where
  "candidate_prompt st = ''Extract structured event information.'' @ [nl] @
     ''title: '' @ json_show (get_or (extracted_fields st) ''title'' (JStr [])) @ [nl] @
     ''snippet: '' @ body_snippet 500 (extracted_fields st) @ [nl] @
     ''url: '' @ cs_current_url st @ [nl] @ ''source_id: '' @ cs_source_id st @ [nl] @
     ''Return JSON matching EventCandidate schema. '' @
     ''Do NOT include investment advice or buy/sell recommendations.''"

definition node_extract_event_candidates :: "'s crawl_ports \<Rightarrow> crawl_state \<Rightarrow> ('s, crawl_state) act" where
  "node_extract_event_candidates p st =
    bind_act (complete_judgement (cp_judge p) (candidate_prompt st) ''EventCandidate'') (\<lambda>candidate.
      ret_act (st\<lparr>cs_event_candidates := (case candidate of None \<Rightarrow> []
        | Some d \<Rightarrow> [dict_set ''llm_judged'' (JBool True) (dict_set ''extraction_strategy'' (JStr (cs_current_strategy st))
            (dict_set ''url'' (JStr (cs_current_url st)) (dict_set ''source_id'' (JStr (cs_source_id st)) d)))])\<rparr>))"

definition judge_prompt :: "crawl_state \<Rightarrow> string" where
  "judge_prompt st = ''Assess extraction quality.'' @ [nl] @
     ''title: '' @ json_show (get_or (extracted_fields st) ''title'' (JStr [])) @ [nl] @
     ''snippet: '' @ body_snippet 300 (extracted_fields st) @ [nl] @
     ''Return JSON: {'' @ [CHR 0x22] @ ''is_valid'' @ [CHR 0x22] @ '': bool, '' @ [CHR 0x22] @ ''confidence'' @ [CHR 0x22] @
     '': float, '' @ [CHR 0x22] @ ''reason'' @ [CHR 0x22] @ '': str}''"

definition node_llm_quality_judge :: "'s crawl_ports \<Rightarrow> crawl_state \<Rightarrow> ('s, crawl_state) act" where
  "node_llm_quality_judge p st =
    bind_act (complete_judgement (cp_judge p) (judge_prompt st) ''JudgeOutput'') (\<lambda>r.
      ret_act (st\<lparr>cs_llm_judge_result := r\<rparr>))"

definition reflection_of :: "crawl_state \<Rightarrow> crawl_fields" where
  "reflection_of st = [(''strategies_tried'', JList (map JStr (cs_strategies_tried st))),
     (''final_status'', JStr (status_name (cs_quality_status st))), (''final_score'', JFloat (cs_quality_score st)),
     (''winning_strategy'', if passed (cs_quality_status st) then JStr (cs_current_strategy st) else JNull)]"

definition node_strategy_reflection :: "crawl_state \<Rightarrow> crawl_state" where
  "node_strategy_reflection st = st\<lparr>cs_final_report := Some (dict_set ''reflection'' (JObj (reflection_of st))
     (case cs_final_report st of None \<Rightarrow> [] | Some d \<Rightarrow> d))\<rparr>"

definition shown_status :: "'s crawl_ports \<Rightarrow> crawl_state \<Rightarrow> string" where
  "shown_status p st = (let s = status_name (cs_quality_status st) in
     if passed (cs_quality_status st) then s
     else case cp_source p (cs_source_id st) of None \<Rightarrow> s
       | Some src \<Rightarrow> (case sh_fallback src of Inr f \<Rightarrow> or_str f s | Inl _ \<Rightarrow> s))"

text \<open>The blockers among the errors; a blocker without a type is a \<open>KeyError\<close>.\<close>

definition blockers_of :: "crawl_fields list \<Rightarrow> json list res" where
  "blockers_of errors = map_res (\<lambda>e. case dict_get e ''error_type'' of None \<Rightarrow> Inl (KeyError ''error_type'') | Some t \<Rightarrow> Inr t)
     (filter (\<lambda>e. error_flag (Some e) ''is_blocker'') errors)"

text \<open>\<open>SourceReport(...).model_dump(mode="json")\<close>.\<close>

definition report_of :: "'s crawl_ports \<Rightarrow> crawl_state \<Rightarrow> crawl_fields res" where
  "report_of p st =
    bind_res (spec_get st ''name'' (cs_source_id st)) (\<lambda>name. bind_res (spec_get st ''type'' ''news'') (\<lambda>type.
    bind_res (spec_get st ''evidence_level'' ''tier3'') (\<lambda>lvl. bind_res (blockers_of (cs_errors st)) (\<lambda>blockers.
      Inr [(''source_id'', JStr (cs_source_id st)), (''source_name'', JStr name), (''source_type'', JStr type),
        (''evidence_level'', JStr lvl), (''phase'', JInt (cs_phase st)), (''run_at'', JStr (cp_utcnow p)),
        (''status'', JStr (shown_status p st)), (''quality_score'', JFloat (cs_quality_score st)),
        (''attempts'', JInt (int (cs_attempt_no st))), (''strategy_used'', JStr (cs_current_strategy st)),
        (''urls_crawled'', JInt (int (length (cs_candidate_urls st)))),
        (''articles_extracted'', JInt (if extracted_fields st = [] then 0 else 1)),
        (''event_candidates_found'', JInt (int (length (cs_event_candidates st)))),
        (''errors'', JList (map JObj (cs_errors st))), (''known_blockers_hit'', JList blockers),
        (''recommended_action'', JNull), (''notes'', JNull)]))))"

definition result_row :: "crawl_state \<Rightarrow> crawl_fields" where
  "result_row st = (let d = extracted_fields st; a = cs_artifacts st in
    [(''run_id'', JStr (cs_run_id st)), (''source_id'', JStr (cs_source_id st)), (''phase'', JInt (cs_phase st)),
     (''status'', JStr (status_name (cs_quality_status st))), (''quality_score'', JFloat (round4 (cs_quality_score st))),
     (''attempts'', JInt (int (cs_attempt_no st))), (''strategy_used'', JStr (cs_current_strategy st)),
     (''url'', JStr (cs_current_url st)), (''title'', get_or d ''title'' JNull),
     (''body_char_count'', JInt (case get_or d ''body'' JNull of JStr b \<Rightarrow> int (py_len b) | _ \<Rightarrow> 0)),
     (''artifact_paths'', JObj (artifact_paths a @ [(''raw_payload'', json_opt_str (af_raw_payload_path a)),
       (''extracted_payload'', json_opt_str (af_extracted_payload_path a))])),
     (''retry_history'', JList (map JObj (cs_retry_history st))), (''errors'', JList (map JObj (cs_errors st)))])"

definition node_write_source_report :: "'s crawl_ports \<Rightarrow> crawl_state \<Rightarrow> ('s, crawl_state) act" where
  "node_write_source_report p st =
    bind_act (lift_res (report_of p st)) (\<lambda>report.
    bind_act (cp_report p report) (\<lambda>_.
    bind_act (append_result_row p (cs_phase st) (cs_source_id st) (result_row st)) (\<lambda>_.
      ret_act (st\<lparr>cs_status := shown_status p st, cs_final_report := Some report\<rparr>))))"

section \<open>The graph\<close>

datatype crawl_node = Initialize | Build_Search_Query | Fetch_Entry_Url | Extract_Candidate_Urls | Fetch_Target_Page
  | Select_Extraction_Strategy | Extract_Content | Score_Quality | Retry_Decision | Error_Analysis
  | Extract_Event_Candidates | Llm_Quality_Judge | Strategy_Reflection | Write_Source_Report

definition run_node :: "'s crawl_ports \<Rightarrow> crawl_node \<Rightarrow> crawl_state \<Rightarrow> ('s, crawl_state) act" where
  "run_node p n st = (case n of
      Initialize \<Rightarrow> ret_act (node_initialize st)
    | Build_Search_Query \<Rightarrow> node_build_search_query p st
    | Fetch_Entry_Url \<Rightarrow> node_fetch_entry_url p st
    | Extract_Candidate_Urls \<Rightarrow> node_extract_candidate_urls p st
    | Fetch_Target_Page \<Rightarrow> node_fetch_target_page p st
    | Select_Extraction_Strategy \<Rightarrow> ret_act (node_select_extraction_strategy st)
    | Extract_Content \<Rightarrow> node_extract_content p st
    | Score_Quality \<Rightarrow> lift_res (node_score_quality st)
    | Retry_Decision \<Rightarrow> ret_act (node_retry_decision st)
    | Error_Analysis \<Rightarrow> ret_act (node_error_analysis st)
    | Extract_Event_Candidates \<Rightarrow> node_extract_event_candidates p st
    | Llm_Quality_Judge \<Rightarrow> node_llm_quality_judge p st
    | Strategy_Reflection \<Rightarrow> ret_act (node_strategy_reflection st)
    | Write_Source_Report \<Rightarrow> node_write_source_report p st)"

text \<open>\<open>not state.get("current_error")\<close> and \<open>state.get("extraction_result")\<close>: an empty dictionary is false.\<close>

definition no_error :: "crawl_state \<Rightarrow> bool" where
  "no_error st \<longleftrightarrow> cs_current_error st = None \<or> cs_current_error st = Some []"

definition route_fetch :: "crawl_state \<Rightarrow> bool" where
  "route_fetch st \<longleftrightarrow> truthy (cs_raw_html st) \<and> no_error st"

definition route_extract_content :: "crawl_state \<Rightarrow> bool" where
  "route_extract_content st \<longleftrightarrow> extracted_fields st \<noteq> [] \<and> no_error st"

datatype decision = Pass | Retry | Exhaust

definition route_retry_decision :: "crawl_state \<Rightarrow> decision" where
  "route_retry_decision st = (if passed (cs_quality_status st) then Pass
     else if cs_should_retry st \<and> \<not> cs_strategy_exhausted st then Retry else Exhaust)"

text \<open>The edges of \<open>build_graph\<close>, at a node and the state after it; none at the end.\<close>

definition next_node :: "crawl_node \<Rightarrow> crawl_state \<Rightarrow> crawl_node option" where
  "next_node n st = (case n of
      Initialize \<Rightarrow> Some Build_Search_Query
    | Build_Search_Query \<Rightarrow> Some Fetch_Entry_Url
    | Fetch_Entry_Url \<Rightarrow> Some (if route_fetch st then Extract_Candidate_Urls else Error_Analysis)
    | Extract_Candidate_Urls \<Rightarrow> Some Fetch_Target_Page
    | Fetch_Target_Page \<Rightarrow> Some (if route_fetch st then Select_Extraction_Strategy else Error_Analysis)
    | Select_Extraction_Strategy \<Rightarrow> Some Extract_Content
    | Extract_Content \<Rightarrow> Some (if route_extract_content st then Score_Quality else Error_Analysis)
    | Score_Quality \<Rightarrow> Some Retry_Decision
    | Error_Analysis \<Rightarrow> Some Retry_Decision
    | Retry_Decision \<Rightarrow> (case route_retry_decision st of Pass \<Rightarrow> Some Extract_Event_Candidates
        | Retry \<Rightarrow> Some Select_Extraction_Strategy | Exhaust \<Rightarrow> Some Strategy_Reflection)
    | Extract_Event_Candidates \<Rightarrow> Some Llm_Quality_Judge
    | Llm_Quality_Judge \<Rightarrow> Some Strategy_Reflection
    | Strategy_Reflection \<Rightarrow> Some Write_Source_Report
    | Write_Source_Report \<Rightarrow> None)"

text \<open>
  What LangGraph does with a graph, with at most \<open>limit\<close> steps: the nodes visited and the last state. It does
  not depend on the crawling agent: a graph is given by what its nodes do and where its edges lead.
\<close>

fun walk :: "('n \<Rightarrow> 'a \<Rightarrow> ('s, 'a) act) \<Rightarrow> ('n \<Rightarrow> 'a \<Rightarrow> 'n option) \<Rightarrow> nat \<Rightarrow> 'n \<Rightarrow> 'a \<Rightarrow> ('s, 'n list \<times> 'a) act" where
  "walk run succ 0 n st = raise_act (RuntimeError ''GraphRecursionError'')"
| "walk run succ (Suc limit) n st = bind_act (run n st) (\<lambda>st'. case succ n st' of
      None \<Rightarrow> ret_act ([n], st')
    | Some m \<Rightarrow> bind_act (walk run succ limit m st') (\<lambda>(ns, st''). ret_act (n # ns, st'')))"

section \<open>Runs\<close>

definition start_state :: "'s crawl_ports \<Rightarrow> source_spec \<Rightarrow> string \<Rightarrow> crawl_state" where
  "start_state p spec source_id =
    \<lparr>cs_source_id = source_id, cs_source_spec = spec_dict spec, cs_phase = ss_phase spec, cs_attempt_no = 0,
     cs_max_attempts = 3, cs_strategy_sequence = STRATEGY_SEQUENCE, cs_current_strategy = hd STRATEGY_SEQUENCE,
     cs_strategies_tried = [], cs_entry_url = ss_base_url spec, cs_candidate_urls = [], cs_current_url = ss_base_url spec,
     cs_raw_html = None, cs_extraction_result = None, cs_quality_score = 0, cs_quality_status = FAILED,
     cs_event_candidates = [], cs_errors = [], cs_current_error = None, cs_llm_judge_result = None,
     cs_run_id = new_run_id p (ss_phase spec) source_id, cs_url_hash = url_hash p (ss_base_url spec), cs_query = [],
     cs_artifacts = no_artifacts, cs_retry_history = [], cs_status = ''RUNNING'', cs_should_retry = False,
     cs_retry_reason = [], cs_strategy_exhausted = False, cs_final_report = None\<rparr>"

record source_outcome =
  so_status :: string
  so_quality_status :: string
  so_quality_score :: rat
  so_final_report :: "crawl_fields option"

definition precheck_report :: "'s crawl_ports \<Rightarrow> source_spec \<Rightarrow> string \<Rightarrow> string \<Rightarrow> string \<Rightarrow> crawl_fields" where
  "precheck_report p spec source_id status reason =
    [(''source_id'', JStr source_id), (''source_name'', JStr (ss_name spec)), (''source_type'', JStr (ss_type spec)),
     (''evidence_level'', JStr (ss_evidence_level spec)), (''phase'', JInt (ss_phase spec)), (''run_at'', JStr (cp_utcnow p)),
     (''status'', JStr status), (''quality_score'', JFloat 0), (''attempts'', JInt 0), (''strategy_used'', JNull),
     (''urls_crawled'', JInt 0), (''articles_extracted'', JInt 0), (''event_candidates_found'', JInt 0), (''errors'', JList []),
     (''known_blockers_hit'', JList []), (''recommended_action'', JNull), (''notes'', JStr reason)]"

definition precheck_row :: "'s crawl_ports \<Rightarrow> source_spec \<Rightarrow> string \<Rightarrow> string \<Rightarrow> string \<Rightarrow> crawl_fields" where
  "precheck_row p spec source_id status reason =
    [(''run_id'', JStr (new_run_id p (ss_phase spec) source_id)), (''source_id'', JStr source_id), (''phase'', JInt (ss_phase spec)),
     (''status'', JStr status), (''quality_score'', JFloat 0), (''attempts'', JInt 0), (''strategy_used'', JNull),
     (''url'', JStr (ss_base_url spec)), (''title'', JNull), (''body_char_count'', JInt 0), (''artifact_paths'', JObj []),
     (''retry_history'', JList []),
     (''errors'', JList (if reason = [] then [] else [JObj [(''reason'', JStr reason)]]))]"

definition handle_precheck :: "'s crawl_ports \<Rightarrow> registry \<Rightarrow> string \<Rightarrow> string \<Rightarrow> string \<Rightarrow> ('s, source_outcome) act" where
  "handle_precheck p reg source_id status reason = (case dict_get reg source_id of
      None \<Rightarrow> ret_act \<lparr>so_status = status, so_quality_status = status, so_quality_score = 0, so_final_report = None\<rparr>
    | Some spec \<Rightarrow> let report = precheck_report p spec source_id status reason in
        bind_act (cp_report p report) (\<lambda>_.
        bind_act (append_result_row p (ss_phase spec) source_id (precheck_row p spec source_id status reason)) (\<lambda>_.
          ret_act \<lparr>so_status = status, so_quality_status = status, so_quality_score = 0, so_final_report = Some report\<rparr>)))"

definition outcome_of :: "crawl_state \<Rightarrow> source_outcome" where
  "outcome_of st = \<lparr>so_status = cs_status st, so_quality_status = status_name (cs_quality_status st),
     so_quality_score = cs_quality_score st, so_final_report = cs_final_report st\<rparr>"

definition crawl :: "'s crawl_ports \<Rightarrow> nat \<Rightarrow> registry \<Rightarrow> string \<Rightarrow> ('s, crawl_node list \<times> crawl_state) act" where
  "crawl p limit reg source_id = (case dict_get reg source_id of
      None \<Rightarrow> raise_act (ValueError ''not found in registry'')
    | Some spec \<Rightarrow> walk (run_node p) next_node limit Initialize (start_state p spec source_id))"

definition run_source :: "'s crawl_ports \<Rightarrow> nat \<Rightarrow> registry \<Rightarrow> string \<Rightarrow> ('s, source_outcome) act" where
  "run_source p limit reg source_id =
    bind_act (case cp_source p source_id of None \<Rightarrow> ret_act None | Some src \<Rightarrow> try_act (sh_precheck src) (\<lambda>_. ret_act None)) (\<lambda>pre.
      case pre of
        Some d \<Rightarrow> handle_precheck p reg source_id (json_show (get_or d ''status'' (JStr ''NEEDS_API'')))
          (json_show (get_or d ''reason'' (JStr [])))
      | None \<Rightarrow> bind_act (crawl p limit reg source_id) (\<lambda>(ns, st). ret_act (outcome_of st)))"

text \<open>The sources of a phase: one that raises is left out.\<close>

fun run_all :: "'s crawl_ports \<Rightarrow> nat \<Rightarrow> registry \<Rightarrow> string list \<Rightarrow> ('s, source_outcome list) act" where
  "run_all p limit reg [] = ret_act []"
| "run_all p limit reg (i # ids) =
     bind_act (try_act (bind_act (run_source p limit reg i) (\<lambda>r. ret_act [r])) (\<lambda>_. ret_act [])) (\<lambda>rs.
       bind_act (run_all p limit reg ids) (\<lambda>rest. ret_act (rs @ rest)))"

definition run_phase :: "'s crawl_ports \<Rightarrow> nat \<Rightarrow> registry \<Rightarrow> int \<Rightarrow> ('s, source_outcome list) act" where
  "run_phase p limit reg phase = run_all p limit reg (map ss_id (get_by_phase reg phase))"

definition run_all_phases :: "'s crawl_ports \<Rightarrow> nat \<Rightarrow> registry \<Rightarrow> ('s, source_outcome list) act" where
  "run_all_phases p limit reg = bind_act (run_phase p limit reg 1) (\<lambda>a. bind_act (run_phase p limit reg 2) (\<lambda>b.
     bind_act (run_phase p limit reg 3) (\<lambda>c. ret_act (a @ b @ c))))"

section \<open>Walks that end\<close>

text \<open>
  The interface between a graph and its walk: an invariant that every node keeps along the edge taken, a rank that
  every edge lowers, and what holds after a node without a successor.
\<close>

locale bounded_graph =
  fixes run :: "'n \<Rightarrow> 'a \<Rightarrow> ('s, 'a) act" and succ :: "'n \<Rightarrow> 'a \<Rightarrow> 'n option"
    and inv :: "'n \<Rightarrow> 'a \<Rightarrow> bool" and rank :: "'n \<Rightarrow> 'a \<Rightarrow> nat" and post :: "'a \<Rightarrow> bool"
  assumes edge: "inv n st \<Longrightarrow> run n st s = (Inr st', s') \<Longrightarrow> succ n st' = Some m \<Longrightarrow> inv m st' \<and> rank m st' < rank n st"
    and final: "inv n st \<Longrightarrow> run n st s = (Inr st', s') \<Longrightarrow> succ n st' = None \<Longrightarrow> post st'"
begin

lemma walk_returns:
  "inv n st \<Longrightarrow> walk run succ limit n st s = (Inr (ns, st'), s') \<Longrightarrow> post st' \<and> length ns \<le> Suc (rank n st)"
proof (induction limit arbitrary: n st s ns)
  case 0
  then show ?case by simp
next
  case (Suc limit)
  from Suc.prems(2) obtain st1 s1 where r: "run n st s = (Inr st1, s1)"
    and k: "(case succ n st1 of None \<Rightarrow> ret_act ([n], st1)
      | Some m \<Rightarrow> bind_act (walk run succ limit m st1) (\<lambda>(ns, st''). ret_act (n # ns, st''))) s1 = (Inr (ns, st'), s')"
    by (auto elim: bind_act_cases)
  show ?case
  proof (cases "succ n st1")
    case None
    with k final [OF Suc.prems(1) r] show ?thesis by auto
  next
    case (Some m)
    with k obtain ms where w: "walk run succ limit m st1 s1 = (Inr (ms, st'), s')" "ns = n # ms"
      by (auto elim!: bind_act_cases)
    from edge [OF Suc.prems(1) r Some] Suc.IH [OF _ w(1)] w(2) show ?thesis by auto
  qed
qed

text \<open>A walk whose limit is above the rank raises only what one of its nodes raises.\<close>

lemma walk_raises:
  "inv n st \<Longrightarrow> rank n st < limit \<Longrightarrow> walk run succ limit n st s = (Inl e, s') \<Longrightarrow>
     \<exists>m st1 s1. inv m st1 \<and> run m st1 s1 = (Inl e, s')"
proof (induction limit arbitrary: n st s)
  case 0
  then show ?case by simp
next
  case (Suc limit)
  from Suc.prems(3) show ?case unfolding walk.simps
  proof (cases rule: bind_act_cases)
    case (raised e')
    with Suc.prems(1) show ?thesis by auto
  next
    case (next_act st1 s1)
    show ?thesis
    proof (cases "succ n st1")
      case None
      with next_act show ?thesis by simp
    next
      case (Some m)
      with next_act(2) have "walk run succ limit m st1 s1 = (Inl e, s')"
        by (auto elim!: bind_act_cases)
      with edge [OF Suc.prems(1) next_act(1) Some] Suc.prems(2) Suc.IH show ?thesis by auto
    qed
  qed
qed

text \<open>Above the rank the limit does not matter, and neither does what the nodes do outside the invariant.\<close>

lemma walk_limit:
  "inv n st \<Longrightarrow> rank n st < limit \<Longrightarrow> rank n st < limit' \<Longrightarrow> walk run succ limit' n st = walk run succ limit n st"
proof (induction limit arbitrary: limit' n st)
  case 0
  then show ?case by simp
next
  case (Suc limit)
  then obtain l where l: "limit' = Suc l" by (cases limit') auto
  have "(case succ n st1 of None \<Rightarrow> ret_act ([n], st1)
      | Some m \<Rightarrow> bind_act (walk run succ l m st1) (\<lambda>(ns, st''). ret_act (n # ns, st''))) s1 =
    (case succ n st1 of None \<Rightarrow> ret_act ([n], st1)
      | Some m \<Rightarrow> bind_act (walk run succ limit m st1) (\<lambda>(ns, st''). ret_act (n # ns, st''))) s1"
    if r: "run n st s = (Inr st1, s1)" for s st1 s1
  proof (cases "succ n st1")
    case (Some m)
    from edge [OF Suc.prems(1) r Some] Suc.prems(2,3) l have "walk run succ l m st1 = walk run succ limit m st1"
      by (intro Suc.IH) auto
    then show ?thesis by (simp add: Some)
  qed simp
  then show ?case
    by (intro ext) (auto simp: l bind_act_def split: prod.splits sum.splits)
qed

lemma walk_cong:
  assumes same: "\<And>n st. inv n st \<Longrightarrow> run' n st = run n st"
  shows "inv n st \<Longrightarrow> walk run' succ limit n st = walk run succ limit n st"
proof (induction limit arbitrary: n st)
  case 0
  then show ?case by simp
next
  case (Suc limit)
  have "(case succ n st1 of None \<Rightarrow> ret_act ([n], st1)
      | Some m \<Rightarrow> bind_act (walk run' succ limit m st1) (\<lambda>(ns, st''). ret_act (n # ns, st''))) s1 =
    (case succ n st1 of None \<Rightarrow> ret_act ([n], st1)
      | Some m \<Rightarrow> bind_act (walk run succ limit m st1) (\<lambda>(ns, st''). ret_act (n # ns, st''))) s1"
    if r: "run n st s = (Inr st1, s1)" for s st1 s1
    using edge [OF Suc.prems r] Suc.IH by (cases "succ n st1") auto
  then show ?case
    by (intro ext) (auto simp: same [OF Suc.prems] bind_act_def split: prod.splits sum.splits)
qed

end

section \<open>What the nodes change\<close>

text \<open>The part of a state that fetching leaves alone.\<close>

definition control where
  "control st = (cs_max_attempts st, cs_strategy_sequence st, cs_strategies_tried st, cs_attempt_no st, cs_quality_status st,
     cs_current_strategy st, cs_strategy_exhausted st, cs_errors st, cs_event_candidates st, cs_llm_judge_result st,
     cs_source_id st, cs_source_spec st)"

text \<open>An action whose results have a property, whatever its effects.\<close>

definition yields :: "('a \<Rightarrow> bool) \<Rightarrow> ('s, 'a) act \<Rightarrow> bool" where
  "yields P m \<longleftrightarrow> (\<forall>s x s'. m s = (Inr x, s') \<longrightarrow> P x)"

lemma yieldsD: "yields P m \<Longrightarrow> m s = (Inr x, s') \<Longrightarrow> P x"
  by (auto simp: yields_def)

lemma yields_simps [simp]:
  "yields P (ret_act x) \<longleftrightarrow> P x" "yields P (raise_act e)" "yields P (lift_res r) \<longleftrightarrow> (\<forall>x. r = Inr x \<longrightarrow> P x)"
  by (auto simp: yields_def lift_res_def)

lemma yields_bind: "(\<And>x. yields P (f x)) \<Longrightarrow> yields P (bind_act m f)"
  by (auto simp: yields_def elim!: bind_act_cases)

lemma yields_option: "(x = None \<Longrightarrow> yields P m) \<Longrightarrow> (\<And>y. x = Some y \<Longrightarrow> yields P (f y)) \<Longrightarrow> yields P (case x of None \<Rightarrow> m | Some y \<Rightarrow> f y)"
  by (cases x) auto

lemma yields_if: "(c \<Longrightarrow> yields P m) \<Longrightarrow> (\<not> c \<Longrightarrow> yields P m') \<Longrightarrow> yields P (if c then m else m')"
  by auto

lemma yields_prod: "(\<And>a b. x = (a, b) \<Longrightarrow> yields P (f a b)) \<Longrightarrow> yields P (case x of (a, b) \<Rightarrow> f a b)"
  by (cases x) auto

lemmas yields_intros = yields_bind yields_option yields_if yields_prod

lemma build_query_keeps: "yields (\<lambda>st'. control st' = control st) (node_build_search_query p st)"
  by (auto simp: control_def node_build_search_query_def bind_res_Inr_iff split: option.splits)

lemma fetch_entry_keeps: "yields (\<lambda>st'. control st' = control st) (node_fetch_entry_url p st)"
  unfolding node_fetch_entry_url_def Let_def
  by (intro yields_intros) (simp_all add: control_def got_html_def)

lemma candidate_urls_keeps: "yields (\<lambda>st'. control st' = control st) (node_extract_candidate_urls p st)"
  by (auto simp: control_def node_extract_candidate_urls_def bind_res_Inr_iff Let_def split: option.splits)

lemma fetch_target_keeps: "yields (\<lambda>st'. control st' = control st) (node_fetch_target_page p st)"
  unfolding node_fetch_target_page_def Let_def
  by (intro yields_intros) (simp_all add: control_def got_html_def)

lemmas fetches_keep = build_query_keeps [THEN yieldsD] fetch_entry_keeps [THEN yieldsD]
  candidate_urls_keeps [THEN yieldsD] fetch_target_keeps [THEN yieldsD]

text \<open>A page that is fetched again for its strategy is extracted, but the state keeps the page it had.\<close>

lemma extract_keeps:
  "yields (\<lambda>st'. control st' = control (tried st) \<and> cs_raw_html st' = cs_raw_html st \<and>
     af_raw_html_path (cs_artifacts st') = af_raw_html_path (cs_artifacts st)) (node_extract_content p st)"
  unfolding node_extract_content_def custom_extracted_def page_extracted_def extract_failed_def Let_def
  by (intro yields_intros) (simp_all add: control_def tried_def)

section \<open>The invariant of a crawl\<close>

abbreviation rounds :: "crawl_state \<Rightarrow> nat" where "rounds st \<equiv> length (cs_strategies_tried st)"

text \<open>
  Strategies are tried in their order. At most one attempt is more than the strategies tried: the one that ends with
  the first fetch.
\<close>

definition in_order :: "crawl_state \<Rightarrow> bool" where
  "in_order st \<longleftrightarrow> cs_max_attempts st = 3 \<and> cs_strategy_sequence st = STRATEGY_SEQUENCE \<and> \<not> cs_strategy_exhausted st \<and>
     cs_strategies_tried st = take (rounds st) STRATEGY_SEQUENCE"

definition nothing_judged :: "crawl_state \<Rightarrow> bool" where
  "nothing_judged st \<longleftrightarrow> cs_event_candidates st = [] \<and> cs_llm_judge_result st = None"

definition fresh :: "crawl_state \<Rightarrow> bool" where
  "fresh st \<longleftrightarrow> in_order st \<and> nothing_judged st \<and> rounds st = 0 \<and> cs_attempt_no st = 0 \<and> cs_quality_status st = FAILED \<and>
     cs_current_strategy st = STRATEGY_SEQUENCE ! 0 \<and> cs_errors st = []"

definition between_rounds :: "crawl_state \<Rightarrow> bool" where
  "between_rounds st \<longleftrightarrow> in_order st \<and> nothing_judged st \<and> rounds st \<le> cs_attempt_no st \<and> cs_attempt_no st \<le> Suc (rounds st) \<and>
     cs_attempt_no st \<le> 3 \<and> cs_quality_status st = FAILED"

definition round_over :: "crawl_state \<Rightarrow> bool" where
  "round_over st \<longleftrightarrow> in_order st \<and> nothing_judged st \<and> rounds st \<le> Suc (cs_attempt_no st) \<and> cs_attempt_no st \<le> rounds st \<and>
     cs_attempt_no st \<le> 3"

definition blocked_page :: "crawl_state \<Rightarrow> bool" where
  "blocked_page st \<longleftrightarrow> classify_content_blocker (lower (or_str (cs_raw_html st) [])) \<noteq> None"

text \<open>A state that has passed: the last strategy gave an extraction of enough quality, and the page has no blocker.\<close>

definition has_quality :: "crawl_state \<Rightarrow> bool" where
  "has_quality st \<longleftrightarrow> extracted_fields st \<noteq> [] \<and> \<not> blocked_page st \<and> PARTIAL_THRESHOLD \<le> cs_quality_score st \<and>
     (cs_quality_status st = SUCCESS \<longleftrightarrow> SUCCESS_THRESHOLD \<le> cs_quality_score st) \<and>
     cs_strategies_tried st \<noteq> [] \<and> last (cs_strategies_tried st) = cs_current_strategy st"

definition decided :: "crawl_state \<Rightarrow> bool" where
  "decided st \<longleftrightarrow> in_order st \<and> rounds st \<le> cs_attempt_no st \<and> cs_attempt_no st \<le> Suc (rounds st) \<and>
     1 \<le> cs_attempt_no st \<and> cs_attempt_no st \<le> 4 \<and>
     (passed (cs_quality_status st) \<longrightarrow> has_quality st) \<and>
     (\<not> passed (cs_quality_status st) \<longrightarrow> nothing_judged st) \<and>
     (cs_quality_status st = FAILED \<longrightarrow> cs_attempt_no st = 4) \<and>
     (cs_quality_status st = BLOCKED \<longrightarrow> blocked_page st \<or> (\<exists>e \<in> set (cs_errors st). error_flag (Some e) ''is_blocker''))"

definition crawl_inv :: "crawl_node \<Rightarrow> crawl_state \<Rightarrow> bool" where
  "crawl_inv n st = (case n of
      Initialize \<Rightarrow> cs_max_attempts st = 3 \<and> cs_strategy_sequence st = STRATEGY_SEQUENCE
    | Build_Search_Query \<Rightarrow> fresh st | Fetch_Entry_Url \<Rightarrow> fresh st | Extract_Candidate_Urls \<Rightarrow> fresh st
    | Fetch_Target_Page \<Rightarrow> fresh st
    | Select_Extraction_Strategy \<Rightarrow> between_rounds st
    | Extract_Content \<Rightarrow> between_rounds st \<and> cs_current_strategy st = STRATEGY_SEQUENCE ! rounds st
    | Score_Quality \<Rightarrow> round_over st \<and> route_extract_content st \<and> cs_strategies_tried st \<noteq> [] \<and>
        last (cs_strategies_tried st) = cs_current_strategy st
    | Error_Analysis \<Rightarrow> round_over st \<and> cs_quality_status st = FAILED
    | Retry_Decision \<Rightarrow> round_over st \<and> (passed (cs_quality_status st) \<longrightarrow> has_quality st) \<and>
        (cs_quality_status st = BLOCKED \<longrightarrow> \<not> error_flag (cs_current_error st) ''retryable'' \<and>
           (blocked_page st \<or> error_flag (cs_current_error st) ''is_blocker''))
    | Extract_Event_Candidates \<Rightarrow> decided st \<and> passed (cs_quality_status st)
    | Llm_Quality_Judge \<Rightarrow> decided st \<and> passed (cs_quality_status st)
    | Strategy_Reflection \<Rightarrow> decided st | Write_Source_Report \<Rightarrow> decided st)"

text \<open>How many nodes may still follow.\<close>

definition crawl_rank :: "crawl_node \<Rightarrow> crawl_state \<Rightarrow> nat" where
  "crawl_rank n st = (let left = 4 * (3 - cs_attempt_no st) in case n of
      Initialize \<Rightarrow> 24 | Build_Search_Query \<Rightarrow> 23 | Fetch_Entry_Url \<Rightarrow> 22 | Extract_Candidate_Urls \<Rightarrow> 21
    | Fetch_Target_Page \<Rightarrow> 20 | Select_Extraction_Strategy \<Rightarrow> left + 7 | Extract_Content \<Rightarrow> left + 6
    | Score_Quality \<Rightarrow> left + 5 | Error_Analysis \<Rightarrow> left + 5 | Retry_Decision \<Rightarrow> left + 4
    | Extract_Event_Candidates \<Rightarrow> 3 | Llm_Quality_Judge \<Rightarrow> 2 | Strategy_Reflection \<Rightarrow> 1 | Write_Source_Report \<Rightarrow> 0)"

lemmas control_simps = control_def tried_def in_order_def nothing_judged_def

lemma fresh_control: "control st' = control st \<Longrightarrow> fresh st' = fresh st"
  by (simp add: control_simps fresh_def)

lemma fresh_round_over: "fresh st \<Longrightarrow> round_over st \<and> cs_quality_status st = FAILED \<and> between_rounds st"
  by (simp add: fresh_def round_over_def between_rounds_def)

lemma initialize_fresh: "crawl_inv Initialize st \<Longrightarrow> fresh (node_initialize st)"
  by (simp add: crawl_inv_def fresh_def in_order_def nothing_judged_def node_initialize_def STRATEGY_SEQUENCE_def)

lemma next_strategy_fresh:
  assumes "between_rounds st"
  shows "between_rounds (node_select_extraction_strategy st) \<and>
    cs_current_strategy (node_select_extraction_strategy st) = STRATEGY_SEQUENCE ! rounds st \<and>
    rounds (node_select_extraction_strategy st) = rounds st"
proof -
  have k: "rounds st \<le> 3" and t: "cs_strategies_tried st = take (rounds st) STRATEGY_SEQUENCE"
    using assms by (auto simp: between_rounds_def in_order_def)
  have "remaining_strategies st = drop (rounds st) STRATEGY_SEQUENCE"
  proof -
    have "filter (\<lambda>s. s \<notin> set (take k STRATEGY_SEQUENCE)) STRATEGY_SEQUENCE = drop k STRATEGY_SEQUENCE" if "k \<le> 3" for k
    proof -
      have "k = 0 \<or> k = 1 \<or> k = 2 \<or> k = 3" using that by arith
      then show ?thesis by (elim disjE) (simp_all add: STRATEGY_SEQUENCE_def)
    qed
    with k t assms show ?thesis by (metis remaining_strategies_def between_rounds_def in_order_def)
  qed
  moreover have "drop (rounds st) STRATEGY_SEQUENCE = STRATEGY_SEQUENCE ! rounds st # drop (Suc (rounds st)) STRATEGY_SEQUENCE"
    using k by (intro Cons_nth_drop_Suc [symmetric]) (simp add: STRATEGY_SEQUENCE_facts)
  moreover have "\<not> length (drop (rounds st) STRATEGY_SEQUENCE) \<le> 1"
    using k by (simp add: STRATEGY_SEQUENCE_facts)
  ultimately show ?thesis using assms
    by (simp add: node_select_extraction_strategy_def Let_def between_rounds_def in_order_def nothing_judged_def)
qed

lemma tried_next:
  assumes "between_rounds st" "cs_current_strategy st = STRATEGY_SEQUENCE ! rounds st" "control st' = control (tried st)"
  shows "round_over st' \<and> cs_quality_status st' = FAILED \<and> cs_attempt_no st' = cs_attempt_no st \<and>
    cs_strategies_tried st' \<noteq> [] \<and> last (cs_strategies_tried st') = cs_current_strategy st'"
proof -
  have k: "rounds st \<le> 3" using assms(1) by (simp add: between_rounds_def)
  define T where "T = take (Suc (rounds st)) STRATEGY_SEQUENCE"
  have split: "T = take (rounds st) STRATEGY_SEQUENCE @ [STRATEGY_SEQUENCE ! rounds st]"
    unfolding T_def using k by (intro take_Suc_conv_app_nth) (simp add: STRATEGY_SEQUENCE_facts)
  have len: "length T = Suc (rounds st)" using k by (simp add: T_def STRATEGY_SEQUENCE_facts)
  have "cs_strategies_tried st' = T"
    using assms by (simp add: control_simps between_rounds_def split)
  with assms len split T_def show ?thesis
    by (simp add: control_simps between_rounds_def round_over_def)
qed

section \<open>Rounds\<close>

lemma truthy_bool [simp]: "json_truthy (JBool b) = b"
  by (simp add: json_truthy_def)

lemma score_status:
  assumes "node_score_quality st = Inr st'"
  shows "\<exists>score status. cs_quality_score st' = score \<and> cs_quality_status st' = status \<and>
    status = determine_quality_status score (blocked_page st) \<and>
    st' = st\<lparr>cs_quality_score := score, cs_quality_status := status, cs_retry_history := cs_retry_history st'\<rparr>"
proof -
  from assms obtain score status where m: "measured st = Inr (score, status)"
    and st': "st' = st\<lparr>cs_quality_score := score, cs_quality_status := status,
       cs_retry_history := cs_retry_history st @ [attempt_record st score status]\<rparr>"
    by (auto simp: node_score_quality_def bind_res_Inr_iff)
  from m have "status = determine_quality_status score (blocked_page st)"
    by (auto simp: measured_def Let_def bind_res_Inr_iff blocked_page_def)
  with st' show ?thesis by simp
qed

lemma scored_round:
  assumes "crawl_inv Score_Quality st" "node_score_quality st = Inr st'"
  shows "crawl_inv Retry_Decision st' \<and> cs_attempt_no st' = cs_attempt_no st"
proof -
  obtain score status where q: "status = determine_quality_status score (blocked_page st)"
    "st' = st\<lparr>cs_quality_score := score, cs_quality_status := status, cs_retry_history := cs_retry_history st'\<rparr>"
    using score_status [OF assms(2)] by blast
  have same: "cs_quality_score st' = score" "cs_quality_status st' = status" "cs_attempt_no st' = cs_attempt_no st"
    "round_over st' = round_over st" "extracted_fields st' = extracted_fields st" "blocked_page st' = blocked_page st"
    "cs_strategies_tried st' = cs_strategies_tried st" "cs_current_strategy st' = cs_current_strategy st"
    "cs_current_error st' = cs_current_error st"
    by (subst q(2), simp add: round_over_def in_order_def nothing_judged_def extracted_fields_def blocked_page_def)+
  have e: "\<not> error_flag (cs_current_error st) ''retryable''" "extracted_fields st \<noteq> []"
    using assms(1) by (auto simp: crawl_inv_def route_extract_content_def no_error_def error_flag_def get_or_def)
  show ?thesis using assms(1) e
    by (auto simp: same crawl_inv_def has_quality_def passed_def q(1) determine_quality_status_def PARTIAL_THRESHOLD_def
        SUCCESS_THRESHOLD_def split: if_splits)
qed

lemma analysed_round:
  assumes "crawl_inv Error_Analysis st"
  shows "crawl_inv Retry_Decision (node_error_analysis st) \<and> cs_attempt_no (node_error_analysis st) = cs_attempt_no st"
proof -
  have "x \<in> set BLOCKED_ERRORS \<Longrightarrow> x \<notin> set RETRYABLE_ERRORS" for x
    using retryable_blocked_disjoint by auto
  with assms show ?thesis
    by (auto simp: crawl_inv_def node_error_analysis_def Let_def round_over_def in_order_def nothing_judged_def passed_def
        error_flag_def get_or_def split: option.splits json.splits)
qed

lemma decided_round:
  assumes "crawl_inv Retry_Decision st"
  shows "case route_retry_decision (node_retry_decision st) of
      Pass \<Rightarrow> decided (node_retry_decision st) \<and> passed (cs_quality_status (node_retry_decision st))
    | Retry \<Rightarrow> between_rounds (node_retry_decision st) \<and> cs_attempt_no (node_retry_decision st) = Suc (cs_attempt_no st)
    | Exhaust \<Rightarrow> decided (node_retry_decision st)"
proof -
  let ?d = "node_retry_decision st"
  have inv: "round_over st" "passed (cs_quality_status st) \<Longrightarrow> has_quality st"
    "cs_quality_status st = BLOCKED \<Longrightarrow> \<not> error_flag (cs_current_error st) ''retryable''"
    "cs_quality_status st = BLOCKED \<Longrightarrow> blocked_page st \<or> error_flag (cs_current_error st) ''is_blocker''"
    using assms by (auto simp: crawl_inv_def)
  have same: "in_order ?d = in_order st" "rounds ?d = rounds st" "cs_attempt_no ?d = Suc (cs_attempt_no st)"
    "nothing_judged ?d = nothing_judged st" "cs_quality_status ?d = cs_quality_status st" "blocked_page ?d = blocked_page st"
    "has_quality ?d = has_quality st" "cs_should_retry ?d = fst (retry_wanted st)"
    "cs_strategy_exhausted ?d = cs_strategy_exhausted st"
    by (simp_all add: node_retry_decision_def in_order_def nothing_judged_def blocked_page_def has_quality_def extracted_fields_def)
  have flagged: "error_flag (cs_current_error st) k \<Longrightarrow> \<exists>e \<in> set (cs_errors ?d). error_flag (Some e) k" for k
    by (auto simp: node_retry_decision_def error_flag_def get_or_def split: option.splits)
  show ?thesis
  proof (cases "passed (cs_quality_status st)")
    case True
    with inv show ?thesis
      by (auto simp: route_retry_decision_def same decided_def round_over_def passed_def)
  next
    case False
    then have s: "cs_quality_status st = FAILED \<or> cs_quality_status st = BLOCKED"
      by (cases "cs_quality_status st") (auto simp: passed_def)
    have m: "cs_max_attempts st = 3" "\<not> cs_strategy_exhausted st" using inv(1) by (auto simp: round_over_def in_order_def)
    from s show ?thesis
    proof
      assume f: "cs_quality_status st = FAILED"
      then have "fst (retry_wanted st) \<longleftrightarrow> cs_attempt_no st < 3"
        using m by (auto simp: retry_wanted_def passed_def)
      with f m inv(1) False show ?thesis
        by (auto simp: route_retry_decision_def same decided_def round_over_def between_rounds_def passed_def)
    next
      assume b: "cs_quality_status st = BLOCKED"
      then have "\<not> fst (retry_wanted st)"
        using inv(3) by (auto simp: retry_wanted_def passed_def)
      with b inv(1,4) False flagged [of "''is_blocker''"] show ?thesis
        by (auto simp: route_retry_decision_def same decided_def round_over_def passed_def)
    qed
  qed
qed

text \<open>The nodes after the decision.\<close>

lemma decided_update:
  "decided (st\<lparr>cs_final_report := r\<rparr>) = decided st" "decided (st\<lparr>cs_status := x\<rparr>) = decided st"
  "passed (cs_quality_status st) \<Longrightarrow> decided (st\<lparr>cs_event_candidates := c\<rparr>) = decided st"
  "passed (cs_quality_status st) \<Longrightarrow> decided (st\<lparr>cs_llm_judge_result := j\<rparr>) = decided st"
  by (simp_all add: decided_def in_order_def has_quality_def extracted_fields_def blocked_page_def nothing_judged_def)

lemma candidates_keep: "yields (\<lambda>st'. \<exists>c. st' = st\<lparr>cs_event_candidates := c\<rparr>) (node_extract_event_candidates p st)"
  unfolding node_extract_event_candidates_def by (intro yields_bind) auto

lemma judge_keeps: "yields (\<lambda>st'. \<exists>r. st' = st\<lparr>cs_llm_judge_result := r\<rparr>) (node_llm_quality_judge p st)"
  unfolding node_llm_quality_judge_def by (intro yields_bind) auto

lemma report_written:
  "yields (\<lambda>st'. \<exists>r. st' = st\<lparr>cs_status := shown_status p st, cs_final_report := Some r\<rparr>) (node_write_source_report p st)"
  unfolding node_write_source_report_def by (intro yields_bind) auto

definition reported :: "'s crawl_ports \<Rightarrow> crawl_state \<Rightarrow> bool" where
  "reported p st \<longleftrightarrow> decided st \<and> cs_status st = shown_status p st"

lemma crawl_edge:
  assumes inv: "crawl_inv n st" and run: "run_node p n st s = (Inr st', s')" and succ: "next_node n st' = Some m"
  shows "crawl_inv m st' \<and> crawl_rank m st' < crawl_rank n st"
proof -
  have fetched: "crawl_inv Error_Analysis st' \<and> crawl_inv Select_Extraction_Strategy st' \<and> fresh st' \<and> cs_attempt_no st' = 0"
    if "fresh st" "control st' = control st"
    using fresh_control [OF that(2)] that(1) fresh_round_over [of st'] by (auto simp: crawl_inv_def fresh_def)
  show ?thesis
  proof (cases n)
    case Initialize
    with inv run succ initialize_fresh [of st] show ?thesis
      by (auto simp: run_node_def next_node_def crawl_inv_def crawl_rank_def)
  next
    case Build_Search_Query
    with inv run have "fresh st" "control st' = control st" by (auto simp: run_node_def crawl_inv_def dest: fetches_keep)
    from fetched [OF this] Build_Search_Query succ show ?thesis by (auto simp: next_node_def crawl_inv_def crawl_rank_def)
  next
    case Fetch_Entry_Url
    with inv run have "fresh st" "control st' = control st" by (auto simp: run_node_def crawl_inv_def dest: fetches_keep)
    from fetched [OF this] Fetch_Entry_Url succ show ?thesis
      by (auto simp: next_node_def crawl_inv_def crawl_rank_def split: if_splits)
  next
    case Extract_Candidate_Urls
    with inv run have "fresh st" "control st' = control st" by (auto simp: run_node_def crawl_inv_def dest: fetches_keep)
    from fetched [OF this] Extract_Candidate_Urls succ show ?thesis by (auto simp: next_node_def crawl_inv_def crawl_rank_def)
  next
    case Fetch_Target_Page
    with inv run have "fresh st" "control st' = control st" by (auto simp: run_node_def crawl_inv_def dest: fetches_keep)
    from fetched [OF this] Fetch_Target_Page succ show ?thesis
      by (auto simp: next_node_def crawl_inv_def crawl_rank_def split: if_splits)
  next
    case Select_Extraction_Strategy
    with inv run succ next_strategy_fresh [of st] show ?thesis
      by (auto simp: run_node_def next_node_def crawl_inv_def crawl_rank_def node_select_extraction_strategy_def Let_def)
  next
    case Extract_Content
    with inv run have st: "between_rounds st" "cs_current_strategy st = STRATEGY_SEQUENCE ! rounds st"
      "control st' = control (tried st)" by (auto simp: run_node_def crawl_inv_def dest: extract_keeps [THEN yieldsD])
    from tried_next [OF this] Extract_Content succ show ?thesis
      by (auto simp: next_node_def crawl_inv_def crawl_rank_def split: if_splits)
  next
    case Score_Quality
    with run have "node_score_quality st = Inr st'" by (simp add: run_node_def lift_res_def)
    from scored_round [OF _ this] inv Score_Quality succ show ?thesis
      by (auto simp: next_node_def crawl_rank_def)
  next
    case Error_Analysis
    with inv run succ analysed_round [of st] show ?thesis
      by (auto simp: run_node_def next_node_def crawl_rank_def)
  next
    case Retry_Decision
    with inv have a: "cs_attempt_no st \<le> 3" by (simp add: crawl_inv_def round_over_def)
    from Retry_Decision inv run succ decided_round [of st] show ?thesis
      by (auto simp: run_node_def next_node_def crawl_inv_def crawl_rank_def between_rounds_def split: decision.splits)
  next
    case Extract_Event_Candidates
    with run obtain c where "st' = st\<lparr>cs_event_candidates := c\<rparr>" by (auto simp: run_node_def dest: candidates_keep [THEN yieldsD])
    with inv succ Extract_Event_Candidates show ?thesis
      by (auto simp: next_node_def crawl_inv_def crawl_rank_def decided_update)
  next
    case Llm_Quality_Judge
    with run obtain r where "st' = st\<lparr>cs_llm_judge_result := r\<rparr>" by (auto simp: run_node_def dest: judge_keeps [THEN yieldsD])
    with inv succ Llm_Quality_Judge show ?thesis
      by (auto simp: next_node_def crawl_inv_def crawl_rank_def decided_update)
  next
    case Strategy_Reflection
    with inv run succ show ?thesis
      by (auto simp: run_node_def next_node_def crawl_inv_def crawl_rank_def node_strategy_reflection_def decided_update)
  next
    case Write_Source_Report
    with succ show ?thesis by (simp add: next_node_def)
  qed
qed

lemma crawl_final:
  assumes "crawl_inv n st" "run_node p n st s = (Inr st', s')" "next_node n st' = None"
  shows "reported p st'"
proof -
  have n: "n = Write_Source_Report"
    using assms(3) by (cases n) (auto simp: next_node_def split: decision.splits)
  with assms(2) obtain r where st': "st' = st\<lparr>cs_status := shown_status p st, cs_final_report := Some r\<rparr>"
    by (auto simp: run_node_def dest: report_written [THEN yieldsD])
  have "shown_status p st' = shown_status p st" by (simp add: st' shown_status_def Let_def)
  with n assms(1) show ?thesis
    by (simp add: reported_def crawl_inv_def st' decided_update)
qed

interpretation crawling: bounded_graph "run_node p" next_node crawl_inv crawl_rank "reported p" for p
  by unfold_locales (rule crawl_edge crawl_final; assumption)+

lemma start_state_inv: "crawl_inv Initialize (start_state p spec i) \<and> crawl_rank Initialize (start_state p spec i) = 24"
  by (simp add: crawl_inv_def start_state_def crawl_rank_def)

section \<open>What a crawl does\<close>

text \<open>
  C14: a crawl ends: it visits at most 25 nodes, whatever the pages, the hooks of the source and the model give, so a
  limit of 25 steps or more makes no difference to it; and it raises only what one of its nodes raises.
\<close>

theorem crawl_ends:
  assumes "dict_get reg i = Some spec" "25 \<le> limit"
  shows "crawl p limit reg i = crawl p 25 reg i \<and>
    (case crawl p limit reg i s of
       (Inr (ns, st), s') \<Rightarrow> length ns \<le> 25 \<and> reported p st
     | (Inl e, s') \<Rightarrow> \<exists>n st s1. crawl_inv n st \<and> run_node p n st s1 = (Inl e, s'))"
proof -
  let ?st = "start_state p spec i"
  have inv: "crawl_inv Initialize ?st" and rank: "crawl_rank Initialize ?st = 24" using start_state_inv by blast+
  have crawl: "crawl p l reg i = walk (run_node p) next_node l Initialize ?st" for l
    using assms(1) by (simp add: crawl_def)
  have "crawl p limit reg i = crawl p 25 reg i"
    unfolding crawl using assms(2) rank by (intro crawling.walk_limit [OF inv]) simp_all
  moreover have "case crawl p limit reg i s of
       (Inr (ns, st), s') \<Rightarrow> length ns \<le> 25 \<and> reported p st
     | (Inl e, s') \<Rightarrow> \<exists>n st s1. crawl_inv n st \<and> run_node p n st s1 = (Inl e, s')"
    unfolding crawl using crawling.walk_returns [OF inv, of p limit s] crawling.walk_raises [OF inv, of limit p s] assms(2) rank
    by (auto split: prod.splits sum.splits)
  ultimately show ?thesis by blast
qed


lemma strategies_without_browser:
  "k \<le> 3 \<Longrightarrow> STRATEGY_SEQUENCE ! k \<notin> set PLAYWRIGHT_STRATEGIES \<and> STRATEGY_SEQUENCE ! k \<notin> set SELENIUM_STRATEGIES"
proof -
  assume "k \<le> 3"
  then have "k = 0 \<or> k = 1 \<or> k = 2 \<or> k = 3" by arith
  then show ?thesis by (elim disjE) (simp_all add: STRATEGY_SEQUENCE_def PLAYWRIGHT_STRATEGIES_def SELENIUM_STRATEGIES_def)
qed

text \<open>The operations that only write, extract or ask the source do not see the browsers at all.\<close>

lemma saves_without_browser:
  "save_raw_html (p\<lparr>cp_playwright := f, cp_selenium := g, cp_snapshot := h\<rparr>) = save_raw_html p" "save_extracted_text (p\<lparr>cp_playwright := f, cp_selenium := g, cp_snapshot := h\<rparr>) = save_extracted_text p"
  "save_raw_payload (p\<lparr>cp_playwright := f, cp_selenium := g, cp_snapshot := h\<rparr>) = save_raw_payload p" "save_extracted_payload (p\<lparr>cp_playwright := f, cp_selenium := g, cp_snapshot := h\<rparr>) = save_extracted_payload p"
  "append_result_row (p\<lparr>cp_playwright := f, cp_selenium := g, cp_snapshot := h\<rparr>) = append_result_row p"
  by (intro ext, simp add: save_raw_html_def save_file_def in_outputs_def save_extracted_text_def save_raw_payload_def
      save_extracted_payload_def append_result_row_def cong: json.case_cong)+

lemma extracts_without_browser:
  "best_extraction (p\<lparr>cp_playwright := f, cp_selenium := g, cp_snapshot := h\<rparr>) = best_extraction p" "specific_extraction (p\<lparr>cp_playwright := f, cp_selenium := g, cp_snapshot := h\<rparr>) = specific_extraction p"
  "custom_extraction (p\<lparr>cp_playwright := f, cp_selenium := g, cp_snapshot := h\<rparr>) = custom_extraction p"
  by (intro ext, simp add: best_extraction_def specific_extraction_def custom_extraction_def)+

lemma extracted_without_browser:
  "extracted_from (p\<lparr>cp_playwright := f, cp_selenium := g, cp_snapshot := h\<rparr>) = extracted_from p" "custom_extracted (p\<lparr>cp_playwright := f, cp_selenium := g, cp_snapshot := h\<rparr>) = custom_extracted p"
  by (intro ext, simp add: extracted_from_def custom_extracted_def extracts_without_browser saves_without_browser
      cong: if_cong)+

lemma page_without_browser: "page_extracted (p\<lparr>cp_playwright := f, cp_selenium := g, cp_snapshot := h\<rparr>) = page_extracted p"
  by (intro ext) (simp add: page_extracted_def extracted_without_browser saves_without_browser cong: if_cong option.case_cong)

lemma report_without_browser:
  "shown_status (p\<lparr>cp_playwright := f, cp_selenium := g, cp_snapshot := h\<rparr>) = shown_status p" "report_of (p\<lparr>cp_playwright := f, cp_selenium := g, cp_snapshot := h\<rparr>) = report_of p"
  by (intro ext, simp add: report_of_def shown_status_def Let_def)+

lemmas without_browser = report_without_browser saves_without_browser extracts_without_browser extracted_without_browser page_without_browser

lemma fetch_without_browser:
  assumes "strategy \<notin> set PLAYWRIGHT_STRATEGIES" "strategy \<notin> set SELENIUM_STRATEGIES"
  shows "fetch_with_strategy (p\<lparr>cp_playwright := f, cp_selenium := g, cp_snapshot := h\<rparr>) url strategy rid sid uh =
    fetch_with_strategy p url strategy rid sid uh"
  using assms by (simp add: fetch_with_strategy_def)

lemma run_without_browser:
  assumes "crawl_inv n st"
  shows "run_node (p\<lparr>cp_playwright := f, cp_selenium := g, cp_snapshot := h\<rparr>) n st = run_node p n st"
proof (cases n)
  case Fetch_Target_Page
  with assms strategies_without_browser [of 0]
  have "cs_current_strategy st \<notin> set PLAYWRIGHT_STRATEGIES" "cs_current_strategy st \<notin> set SELENIUM_STRATEGIES"
    by (simp_all add: crawl_inv_def fresh_def)
  with Fetch_Target_Page show ?thesis
    by (simp add: run_node_def node_fetch_target_page_def fetch_without_browser without_browser Let_def cong: if_cong)
next
  case Extract_Content
  with assms strategies_without_browser [of "rounds st"]
  have "cs_current_strategy st \<notin> set PLAYWRIGHT_STRATEGIES" "cs_current_strategy st \<notin> set SELENIUM_STRATEGIES"
    by (simp_all add: crawl_inv_def between_rounds_def)
  then have "page_to_extract (p\<lparr>cp_playwright := f, cp_selenium := g, cp_snapshot := h\<rparr>) st = page_to_extract p st"
    by (simp add: page_to_extract_def fetch_without_browser without_browser cong: if_cong)
  with Extract_Content show ?thesis
    by (simp add: run_node_def node_extract_content_def without_browser cong: if_cong option.case_cong)
next
  case Fetch_Entry_Url
  then show ?thesis
    by (simp add: run_node_def node_fetch_entry_url_def fetch_without_browser without_browser Let_def
        PLAYWRIGHT_STRATEGIES_def SELENIUM_STRATEGIES_def cong: if_cong)
qed (simp_all add: run_node_def node_build_search_query_def node_extract_candidate_urls_def url_hash_def
  node_extract_event_candidates_def node_llm_quality_judge_def node_write_source_report_def
  without_browser)

text \<open>
  C20: no crawl uses a browser: its outcome and its effects are the same whatever the browsers would give, although six of
  the ten strategies come after the fourth and four of them need one.
\<close>

theorem crawl_uses_no_browser:
  "crawl (p\<lparr>cp_playwright := f, cp_selenium := g, cp_snapshot := h\<rparr>) limit reg i = crawl p limit reg i"
proof (cases "dict_get reg i")
  case (Some spec)
  have "start_state (p\<lparr>cp_playwright := f, cp_selenium := g, cp_snapshot := h\<rparr>) spec i = start_state p spec i"
    by (simp add: start_state_def new_run_id_def url_hash_def)
  moreover have "walk (run_node (p\<lparr>cp_playwright := f, cp_selenium := g, cp_snapshot := h\<rparr>)) next_node limit Initialize st =
      walk (run_node p) next_node limit Initialize st" if "crawl_inv Initialize st" for st
    by (rule crawling.walk_cong [OF run_without_browser that])
  ultimately show ?thesis using Some start_state_inv [of p spec i] by (simp add: crawl_def)
qed (simp add: crawl_def)

text \<open>The reflection of a crawl does not reach its report: the node that writes the report replaces what the reflection put there.\<close>

lemma reflection_is_lost: "node_write_source_report p (node_strategy_reflection st) = node_write_source_report p st"
proof -
  obtain r where st': "node_strategy_reflection st = st\<lparr>cs_final_report := r\<rparr>"
    by (auto simp: node_strategy_reflection_def)
  have "shown_status p (st\<lparr>cs_final_report := r\<rparr>) = shown_status p st"
    by (simp add: shown_status_def Let_def)
  moreover have "report_of p (st\<lparr>cs_final_report := r\<rparr>) = report_of p st"
    by (simp add: report_of_def spec_get_def extracted_fields_def calculation)
  moreover have "result_row (st\<lparr>cs_final_report := r\<rparr>) = result_row st"
    by (simp add: result_row_def extracted_fields_def)
  ultimately show ?thesis by (simp add: st' node_write_source_report_def)
qed

section \<open>Two crawls\<close>

text \<open>The strategies that want a longer text than the ports of the tests give it up, and the fourth takes it.\<close>

definition test_registry :: registry where
  "test_registry = [(''s'', \<lparr>ss_id = ''s'', ss_name = ''S'', ss_type = ''news'', ss_evidence_level = ''tier3'', ss_role = [],
     ss_phase = 1, ss_base_url = ''u'', ss_layer = JNull, ss_known_blockers = JNull, ss_expected_fields = JNull, ss_extra = []\<rparr>)]"

lemma dead_source_crawl:
  "case crawl (test_ports None) 25 test_registry ''s'' () of
     (Inr (ns, st), _) \<Rightarrow> length ns = 19 \<and> cs_attempt_no st = 4 \<and> cs_quality_status st = FAILED | _ \<Rightarrow> False"
  by code_simp

text \<open>The limit of 25 leaves no margin: a crawl that passes in its fourth round uses it up, here with a text of one letter.\<close>

lemma longest_crawl:
  "case crawl (test_ports (Some ''html'')) 25 test_registry ''s'' () of
     (Inr (ns, st), _) \<Rightarrow> length ns = 25 \<and> cs_quality_status st = PARTIAL | _ \<Rightarrow> False"
  by code_simp

theorem crawl_ends_witness:
  "case crawl (test_ports (Some ''html'')) 1000 test_registry ''s'' () of
     (Inr (ns, st), _) \<Rightarrow> length ns = 25 \<and> reported (test_ports (Some ''html'') :: unit crawl_ports) st | _ \<Rightarrow> False"
proof -
  have "\<exists>spec. dict_get test_registry ''s'' = Some spec" by (simp add: test_registry_def)
  then obtain spec where "dict_get test_registry ''s'' = Some spec" by blast
  from crawl_ends [OF this, of 1000 "test_ports (Some ''html'')" "()"] longest_crawl show ?thesis
    by (auto split: prod.splits sum.splits)
qed


text \<open>
  The registry also has sources of the types \<open>search\<close>, \<open>market\<close>, \<open>signal\<close> and \<open>domain\<close>, which have no entry in the
  tables of the score: scoring one raises, and with it the crawl; the runner of a phase goes on with the next source.
\<close>

lemma other_types_raise:
  assumes "spec_get st ''type'' ''news'' = Inr t" "t \<notin> {''news'', ''community'', ''official''}"
  shows "\<exists>e. node_score_quality st = Inl e"
proof -
  have "score_type t = Inl (KeyError t)" using assms(2) by (simp add: score_type_def)
  with assms(1) have "measured st \<noteq> Inr x" for x
    by (auto simp: measured_def Let_def bind_res_Inr_iff)
  then show ?thesis by (cases "measured st") (auto simp: node_score_quality_def)
qed

lemma run_all_returns: "\<exists>rs s'. run_all p limit reg ids s = (Inr rs, s') \<and> length rs \<le> length ids"
proof (induction ids arbitrary: s)
  case Nil
  then show ?case by simp
next
  case (Cons i ids)
  obtain rs s1 where one: "try_act (bind_act (run_source p limit reg i) (\<lambda>r. ret_act [r])) (\<lambda>_. ret_act []) s = (Inr rs, s1)"
    "length rs \<le> 1"
    by (cases "run_source p limit reg i s", cases "fst (run_source p limit reg i s)") (auto simp: try_act_def bind_act_def)
  obtain rest s2 where "run_all p limit reg ids s1 = (Inr rest, s2)" "length rest \<le> length ids"
    using Cons.IH by blast
  with one show ?case by (auto simp: bind_act_def)
qed

end
