(* ===== verification/Strategy_Loop.thy ===== *)
theory Strategy_Loop
  imports Crawl_Sources Rate_Store
begin

text \<open>
  The loop that fetches a page with one strategy after another: \<open>ingestion/fetch_strategies/strategy_runner.py\<close>,
  \<open>strategy_selection.py\<close>, \<open>failure_classifier.py\<close> and the results of \<open>models.py\<close>. The world is a store of calls
  and cooldowns, on any implementation of the contract \<open>rate_store\<close>, and the outside, which has a clock.
\<close>

section \<open>Failures\<close>

record fetch_result =
  fr_success :: bool
  fr_status_code :: int
  fr_html :: string
  fr_error_message :: "string option"

datatype failure = FetchFailure fetch_result | ProbeFailure string | RaisedFailure py_exn | TypedFailure error_type

definition PROBE_STATUS_TO_ERROR_TYPE :: "(string, error_type) dict" where
  "PROBE_STATUS_TO_ERROR_TYPE =
    [(''RATE_LIMITED'', RATE_LIMITED), (''PERMISSION_DENIED'', HTTP_4XX), (''INVALID_KEY'', INVALID_KEY),
     (''PLAN_RESTRICTED'', HTTP_4XX), (''ENDPOINT_DEPRECATED'', ENDPOINT_INVALID), (''BLOCKED'', LOGIN_WALL_DETECTED),
     (''TIMEOUT'', NETWORK_TIMEOUT), (''NETWORK_ERROR'', HTTP_5XX), (''MISSING_KEY'', UNKNOWN_ERROR),
     (''UNKNOWN'', UNKNOWN_ERROR), (''PARSE_ERROR'', DOM_PARSE_ERROR), (''LIVE_PARTIAL'', QUALITY_PARTIAL),
     (''QUERY_ENCODING_OR_PARAM_ERROR'', QUERY_ENCODING_OR_PARAM_ERROR),
     (''INVALID_SYMBOL_OR_EMPTY_MARKET_DATA'', INVALID_SYMBOL_OR_EMPTY_MARKET_DATA),
     (''XML_PARAMETER_ERROR'', XML_PARAMETER_ERROR), (''API_RETURNED_HTML_ERROR_PAGE'', API_RETURNED_HTML_ERROR_PAGE),
     (''PARAMETER_MISSING'', PARAMETER_MISSING), (''ENDPOINT_INVALID'', ENDPOINT_INVALID),
     (''DYNAMIC_RENDER_REQUIRED'', DYNAMIC_RENDER_REQUIRED),
     (''SELECTOR_MATCHED_BUT_URL_EMPTY'', SELECTOR_MATCHED_BUT_URL_EMPTY),
     (''LOW_EVIDENCE_EXTERNAL_SIGNAL'', LOW_EVIDENCE_EXTERNAL_SIGNAL)]"

definition network_failure :: "string \<Rightarrow> error_type option" where
  "network_failure msg = (if contains ''connection'' msg \<or> contains ''reset'' msg then Some NETWORK_CONNECTION_RESET else None)"

definition classify_fetch :: "fetch_result \<Rightarrow> error_type" where
  "classify_fetch r = (let msg = lower (or_str (fr_error_message r) []) in
     if 400 \<le> fr_status_code r then classify_http_error (fr_status_code r)
     else case (if fr_html r = [] then None else classify_content_blocker (lower (fr_html r))) of
       Some b \<Rightarrow> b
     | None \<Rightarrow> if contains ''timeout'' msg then NETWORK_TIMEOUT
         else case network_failure msg of Some e \<Rightarrow> e
         | None \<Rightarrow> if contains ''dns'' msg \<or> contains ''name resolution'' msg then NETWORK_DNS_FAIL else UNKNOWN_ERROR)"

definition classify_exception :: "py_exn \<Rightarrow> error_type" where
  "classify_exception e = (let cls = lower (exn_name e); msg = lower (exn_str e) in
     if contains ''timeout'' cls \<or> contains ''timeout'' msg then NETWORK_TIMEOUT
     else case network_failure msg of Some t \<Rightarrow> t
     | None \<Rightarrow> if contains ''dns'' msg \<or> contains ''name'' msg \<and> contains ''resolv'' msg then NETWORK_DNS_FAIL
         else if contains ''captcha'' msg then CAPTCHA_DETECTED
         else if contains ''login'' msg \<or> contains ''sign in'' msg then LOGIN_WALL_DETECTED
         else UNKNOWN_ERROR)"

definition classify_failure :: "failure \<Rightarrow> error_type" where
  "classify_failure f = (case f of
      TypedFailure t \<Rightarrow> t
    | FetchFailure r \<Rightarrow> if fr_success r then UNKNOWN_ERROR else classify_fetch r
    | ProbeFailure status \<Rightarrow> get_or PROBE_STATUS_TO_ERROR_TYPE status UNKNOWN_ERROR
    | RaisedFailure e \<Rightarrow> classify_exception e)"

section \<open>The next strategy\<close>

record fetch_attempt =
  fa_strategy :: string
  fa_success :: bool
  fa_error_type :: "error_type option"
  fa_delay_sec :: rat
  fa_elapsed_sec :: rat
  fa_status_code :: int

text \<open>An attempt as the loop records it: it leaves the status code at its default.\<close>

definition attempt_of :: "string \<Rightarrow> error_type option \<Rightarrow> rat \<Rightarrow> rat \<Rightarrow> fetch_attempt" where
  "attempt_of strategy err delay elapsed = \<lparr>fa_strategy = strategy, fa_success = (err = None), fa_error_type = err,
     fa_delay_sec = delay, fa_elapsed_sec = elapsed, fa_status_code = 0\<rparr>"

definition JS_RENDER_STRATEGIES :: "string list" where
  "JS_RENDER_STRATEGIES = PLAYWRIGHT_STRATEGIES @ [''selenium_rendered_dom'']"

definition all_playwright_failed :: "fetch_attempt list \<Rightarrow> bool" where
  "all_playwright_failed attempts \<longleftrightarrow>
     set PLAYWRIGHT_STRATEGIES \<subseteq> set (map fa_strategy (filter (\<lambda>a. \<not> fa_success a) attempts))"

text \<open>An endpoint that is no string has no \<open>lower\<close>.\<close>

definition is_rss_or_feed :: "(string, json) dict \<Rightarrow> bool res" where
  "is_rss_or_feed spec =
    (if get_or spec ''type'' (JStr []) \<in> JStr ` {''rss'', ''feed'', ''xml''} then Inr True
     else case get_or spec ''endpoint'' (get_or spec ''base_url'' (JStr [])) of
       JStr endpoint \<Rightarrow> Inr (contains ''rss'' (lower endpoint) \<or> contains ''feed'' (lower endpoint) \<or>
         endswith (lower endpoint) ''.xml'' \<or> dict_get spec ''response_format'' = Some (JStr ''xml''))
     | _ \<Rightarrow> Inl AttributeError)"

definition select_next_strategy ::
  "bool \<Rightarrow> (string, json) dict \<Rightarrow> fetch_attempt list \<Rightarrow> error_type \<Rightarrow> retry_policy \<Rightarrow> string option res" where
  "select_next_strategy selenium_ready spec attempts category policy =
    (if category \<in> set BLOCKED_ERRORS \<or> category = RATE_LIMITED \<or> max_strategies_per_url policy \<le> int (length attempts)
     then Inr None
     else bind_res (is_rss_or_feed spec) (\<lambda>rss.
       if attempts = [] then Inr (Some (hd STRATEGY_SEQUENCE))
       else let current = fa_strategy (last attempts) in
         if category = EXTRACTION_EMPTY \<and> current \<in> {''httpx_direct'', ''httpx_mobile_ua'', ''httpx_random_ua''}
         then Inr (Some ''playwright_basic'')
         else case next_strategy current of
           None \<Rightarrow> Inr (if ''selenium_rendered_dom'' \<in> set JS_RENDER_STRATEGIES \<and>
               (dict_get spec ''preferred_browser'' = Some (JStr ''selenium'') \<or> all_playwright_failed attempts) \<and> selenium_ready
             then Some ''selenium_rendered_dom'' else None)
         | Some s \<Rightarrow> Inr (if rss \<and> s \<in> set PLAYWRIGHT_STRATEGIES then None else Some s)))"

section \<open>The loop\<close>

record 'st rate_ops =
  ro_age_of :: "'st \<Rightarrow> int \<Rightarrow> string \<Rightarrow> int option"
  ro_rec :: "string \<Rightarrow> int \<Rightarrow> int \<Rightarrow> 'st \<Rightarrow> 'st"
  ro_get_next :: "'st \<Rightarrow> string \<Rightarrow> string option"
  ro_set_next :: "string \<Rightarrow> string \<Rightarrow> string \<Rightarrow> 'st \<Rightarrow> 'st"

record ('st, 's) fetch_world =
  fw_store :: 'st
  fw_net :: 's

record ('st, 's) loop_ports =
  lp_crawl :: "'s crawl_ports"
  lp_ops :: "'st rate_ops"
  lp_rate_file :: "policy_file option"
  lp_retry :: "retry_policy res"
  lp_now :: "'s \<Rightarrow> int"
  lp_sleep :: "rat \<Rightarrow> 's \<Rightarrow> 's"
  lp_selenium_ready :: bool

record loop_result =
  lr_source_id :: string
  lr_url :: string
  lr_status :: string
  lr_attempts :: "fetch_attempt list"
  lr_final_html :: "string option"
  lr_final_error_type :: "error_type option"

text \<open>What does not change while the loop runs.\<close>

record loop_context =
  lc_source_id :: string
  lc_url :: string
  lc_query :: string
  lc_run_id :: string
  lc_url_hash :: string
  lc_spec :: "(string, json) dict"
  lc_policy :: retry_policy
  lc_rate :: rate_policy

definition loop_ended :: "loop_context \<Rightarrow> string \<Rightarrow> fetch_attempt list \<Rightarrow> error_type option \<Rightarrow> loop_result" where
  "loop_ended c status attempts err = \<lparr>lr_source_id = lc_source_id c, lr_url = lc_url c, lr_status = status,
     lr_attempts = attempts, lr_final_html = None, lr_final_error_type = err\<rparr>"

definition sleep :: "('st, 's) loop_ports \<Rightarrow> rat \<Rightarrow> (('st, 's) fetch_world, unit) act" where
  "sleep p d = (\<lambda>w. (Inr (), w\<lparr>fw_net := lp_sleep p d (fw_net w)\<rparr>))"

text \<open>The page or the exception, and the seconds that it took.\<close>

definition timed_fetch ::
  "('st, 's) loop_ports \<Rightarrow> loop_context \<Rightarrow> string \<Rightarrow> (('st, 's) fetch_world, string option res \<times> rat) act" where
  "timed_fetch p c strategy = (\<lambda>w.
     let (r, s) = fetch_with_strategy (lp_crawl p) (lc_url c) strategy (lc_run_id c) (lc_source_id c) (lc_url_hash c) (fw_net w)
     in (Inr (case r of Inl e \<Rightarrow> Inl e | Inr (html, _, _) \<Rightarrow> Inr html,
              of_int (lp_now p s - lp_now p (fw_net w)) / of_int sec), w\<lparr>fw_net := s\<rparr>))"

definition note_call :: "('st, 's) loop_ports \<Rightarrow> loop_context \<Rightarrow> (('st, 's) fetch_world, unit) act" where
  "note_call p c = (\<lambda>w. case record_call (ro_rec (lp_ops p)) (lp_rate_file p) (fw_store w) (lp_now p (fw_net w))
       (lc_source_id c) (lc_query c) of Inl e \<Rightarrow> (Inl e, w) | Inr st \<Rightarrow> (Inr (), w\<lparr>fw_store := st\<rparr>))"

definition note_rate_limited :: "('st, 's) loop_ports \<Rightarrow> loop_context \<Rightarrow> (('st, 's) fetch_world, unit) act" where
  "note_rate_limited p c = (\<lambda>w. case record_rate_limited (ro_set_next (lp_ops p)) (lp_rate_file p) (fw_store w)
       (lp_now p (fw_net w)) (lc_source_id c) (lc_query c) None of Inl e \<Rightarrow> (Inl e, w) | Inr (st, _) \<Rightarrow> (Inr (), w\<lparr>fw_store := st\<rparr>))"

datatype loop_step = Done loop_result | Again fetch_attempt nat "string option"

definition fetch_raised ::
  "('st, 's) loop_ports \<Rightarrow> loop_context \<Rightarrow> fetch_attempt list \<Rightarrow> nat \<Rightarrow> string \<Rightarrow> rat \<Rightarrow> rat \<Rightarrow> py_exn
   \<Rightarrow> (('st, 's) fetch_world, loop_step) act" where
  "fetch_raised p c attempts retries strategy delay elapsed e =
    (let t = classify_failure (RaisedFailure e);
         a = attempt_of strategy (Some t) delay elapsed;
         tried = attempts @ [a]
     in if t \<in> set BLOCKED_ERRORS then ret_act (Done (loop_ended c ''blocked'' tried (Some t)))
        else if t = RATE_LIMITED then
          (if int retries < rp_max_retries_on_429 (lc_rate c) then
             bind_act (sleep p (of_int (min (rp_cooldown_on_429_seconds (lc_rate c)) 300)))
               (\<lambda>_. ret_act (Again a (Suc retries) (Some strategy)))
           else bind_act (note_rate_limited p c) (\<lambda>_. ret_act (Done (loop_ended c ''rate_limited'' tried (Some t)))))
        else bind_act (lift_res (select_next_strategy (lp_selenium_ready p) (lc_spec c) tried t (lc_policy c)))
          (\<lambda>next. ret_act (Again a 0 next)))"

definition loop_turn ::
  "('st, 's) loop_ports \<Rightarrow> loop_context \<Rightarrow> fetch_attempt list \<Rightarrow> nat \<Rightarrow> string \<Rightarrow> (('st, 's) fetch_world, loop_step) act" where
  "loop_turn p c attempts retries strategy =
    (let delay = (if attempts = [] then 0 else delay_for_attempt (lc_policy c) (int (length attempts))) in
     bind_act (if 0 < delay then sleep p delay else ret_act ()) (\<lambda>_.
     bind_act (timed_fetch p c strategy) (\<lambda>(r, elapsed).
       case r of
         Inl e \<Rightarrow> fetch_raised p c attempts retries strategy delay elapsed e
       | Inr html \<Rightarrow>
           if truthy html then
             bind_act (note_call p c) (\<lambda>_. ret_act (Done ((loop_ended c ''success'' (attempts @ [attempt_of strategy None delay elapsed]) None)
               \<lparr>lr_final_html := html\<rparr>)))
           else let a = attempt_of strategy (Some EXTRACTION_EMPTY) delay elapsed in
             bind_act (lift_res (select_next_strategy (lp_selenium_ready p) (lc_spec c) (attempts @ [a]) EXTRACTION_EMPTY
                 (lc_policy c))) (\<lambda>next. ret_act (Again a retries next)))))"

function strategy_loop ::
  "('st, 's) loop_ports \<Rightarrow> loop_context \<Rightarrow> fetch_attempt list \<Rightarrow> nat \<Rightarrow> string option
   \<Rightarrow> (('st, 's) fetch_world, loop_result) act" where
  "strategy_loop p c attempts retries current = (case current of
      None \<Rightarrow> ret_act (loop_ended c ''exhausted'' attempts (if attempts = [] then None else fa_error_type (last attempts)))
    | Some strategy \<Rightarrow>
        if max_strategies_per_url (lc_policy c) \<le> int (length attempts) then
          ret_act (loop_ended c ''exhausted'' attempts (if attempts = [] then None else fa_error_type (last attempts)))
        else bind_act (loop_turn p c attempts retries strategy) (\<lambda>t. case t of
            Done r \<Rightarrow> ret_act r
          | Again a retries' next \<Rightarrow> strategy_loop p c (attempts @ [a]) retries' next))"
  by pat_completeness auto
termination
  by (relation "measure (\<lambda>(p, c, attempts, retries, current). nat (max_strategies_per_url (lc_policy c) - int (length attempts)))")
    auto

declare strategy_loop.simps [simp del]

text \<open>A cached or cooling source is answered without a fetch.\<close>

definition guarded_loop :: "('st, 's) loop_ports \<Rightarrow> loop_context \<Rightarrow> (('st, 's) fetch_world, loop_result) act" where
  "guarded_loop p c = (\<lambda>w. let now = lp_now p (fw_net w) in
     case is_cached (ro_age_of (lp_ops p)) (lp_rate_file p) (fw_store w) now (lc_source_id c) (lc_query c) of
       Inl e \<Rightarrow> (Inl e, w)
     | Inr cached \<Rightarrow>
         if cached then (Inr (loop_ended c ''cached'' [] None), w)
         else (case in_cooldown (ro_get_next (lp_ops p)) (fw_store w) now (lc_source_id c) (lc_query c) of
             Inl e \<Rightarrow> (Inl e, w)
           | Inr (cooling, _) \<Rightarrow>
               if cooling then (Inr (loop_ended c ''rate_limited'' [] None), w)
               else strategy_loop p c [] 0 (Some (hd STRATEGY_SEQUENCE)) w))"

definition context_of ::
  "('st, 's) loop_ports \<Rightarrow> string \<Rightarrow> string \<Rightarrow> (string, json) dict \<Rightarrow> int option \<Rightarrow> string \<Rightarrow> retry_policy \<Rightarrow> rate_policy
   \<Rightarrow> loop_context" where
  "context_of p source_id url spec budget query policy rate =
     \<lparr>lc_source_id = source_id, lc_url = url, lc_query = query, lc_run_id = new_run_id (lp_crawl p) 0 source_id,
      lc_url_hash = url_hash (lp_crawl p) url, lc_spec = spec,
      lc_policy = policy\<lparr>max_strategies_per_url := (case budget of Some b \<Rightarrow> b | None \<Rightarrow> budget_for policy source_id)\<rparr>,
      lc_rate = rate\<rparr>"

definition run_fetch_strategy_loop ::
  "('st, 's) loop_ports \<Rightarrow> string \<Rightarrow> string \<Rightarrow> (string, json) dict \<Rightarrow> int option \<Rightarrow> string
   \<Rightarrow> (('st, 's) fetch_world, loop_result) act" where
  "run_fetch_strategy_loop p source_id url spec budget query =
    bind_act (lift_res (lp_retry p)) (\<lambda>policy.
    bind_act (lift_res (load_rate_limit_policy (lp_rate_file p) source_id)) (\<lambda>rate.
      guarded_loop p (context_of p source_id url spec budget query policy rate)))"

section \<open>Facts about the loop\<close>

lemma exception_is_no_rate_limit: "classify_exception e \<noteq> RATE_LIMITED"
  by (auto simp: classify_exception_def network_failure_def Let_def split: option.splits)

lemma attempt_of_simps [simp]:
  "fa_success (attempt_of s err d x) \<longleftrightarrow> err = None" "fa_error_type (attempt_of s err d x) = err"
  "fa_strategy (attempt_of s err d x) = s"
  by (simp_all add: attempt_of_def)

lemma loop_ended_simps [simp]:
  "lr_status (loop_ended c st as err) = st" "lr_attempts (loop_ended c st as err) = as"
  "lr_final_html (loop_ended c st as err) = None" "lr_final_error_type (loop_ended c st as err) = err"
  by (simp_all add: loop_ended_def)

text \<open>
  What one turn does to the store: only a page that was fetched is recorded, at the time at which it came. The turn
  for a rate limit is there, but no exception is classified as one.
\<close>

definition turn_ok ::
  "('st, 's) loop_ports \<Rightarrow> loop_context \<Rightarrow> fetch_attempt list \<Rightarrow> 'st \<Rightarrow> loop_step \<Rightarrow> ('st, 's) fetch_world \<Rightarrow> bool" where
  "turn_ok p c attempts store t w' \<longleftrightarrow> (case t of
      Again a retries next \<Rightarrow> \<not> fa_success a \<and> fw_store w' = store
    | Done r \<Rightarrow> lr_attempts r \<noteq> [] \<and> butlast (lr_attempts r) = attempts \<and>
        (if fa_success (last (lr_attempts r)) then lr_status r = ''success'' \<and> truthy (lr_final_html r) \<and>
           record_call (ro_rec (lp_ops p)) (lp_rate_file p) store (lp_now p (fw_net w')) (lc_source_id c) (lc_query c)
             = Inr (fw_store w')
         else lr_status r = ''blocked'' \<and> (\<exists>e \<in> set BLOCKED_ERRORS. fa_error_type (last (lr_attempts r)) = Some e) \<and>
           lr_final_html r = None \<and> fw_store w' = store))"

lemma sleep_store: "sleep p d w = (r, w') \<Longrightarrow> fw_store w' = fw_store w \<and> r = Inr ()"
  by (auto simp: sleep_def)

lemma timed_fetch_store: "timed_fetch p c strategy w = (r, w') \<Longrightarrow> fw_store w' = fw_store w"
  by (auto simp: timed_fetch_def split: prod.splits)

lemma fetch_raised_ok:
  assumes "fetch_raised p c attempts retries strategy delay elapsed e w = (Inr t, w')"
  shows "turn_ok p c attempts (fw_store w) t w'"
  using assms exception_is_no_rate_limit [of e]
  by (auto simp: fetch_raised_def classify_failure_def Let_def turn_ok_def elim!: bind_act_cases split: if_splits)

lemma loop_turn_ok:
  assumes "loop_turn p c attempts retries strategy w = (Inr t, w')"
  shows "turn_ok p c attempts (fw_store w) t w'"
proof -
  let ?delay = "if attempts = [] then 0 else delay_for_attempt (lc_policy c) (int (length attempts))"
  from assms obtain w1 r elapsed w2 where w1: "(if 0 < ?delay then sleep p ?delay else ret_act ()) w = (Inr (), w1)"
    and fetched: "timed_fetch p c strategy w1 = (Inr (r, elapsed), w2)"
    and rest: "(case r of Inl e \<Rightarrow> fetch_raised p c attempts retries strategy ?delay elapsed e
       | Inr html \<Rightarrow> if truthy html then
             bind_act (note_call p c) (\<lambda>_. ret_act (Done ((loop_ended c ''success'' (attempts @ [attempt_of strategy None ?delay elapsed]) None)
               \<lparr>lr_final_html := html\<rparr>)))
           else let a = attempt_of strategy (Some EXTRACTION_EMPTY) ?delay elapsed in
             bind_act (lift_res (select_next_strategy (lp_selenium_ready p) (lc_spec c) (attempts @ [a]) EXTRACTION_EMPTY
                 (lc_policy c))) (\<lambda>next. ret_act (Again a retries next))) w2 = (Inr t, w')"
    by (auto simp: loop_turn_def Let_def elim!: bind_act_cases)
  have store: "fw_store w2 = fw_store w"
    using w1 timed_fetch_store [OF fetched] by (auto dest: sleep_store split: if_splits)
  show ?thesis
  proof (cases r)
    case (Inl e)
    with rest have "turn_ok p c attempts (fw_store w2) t w'" by (auto intro: fetch_raised_ok)
    with store show ?thesis by simp
  next
    case (Inr html)
    with rest store show ?thesis
      by (auto simp: turn_ok_def note_call_def Let_def elim!: bind_act_cases split: if_splits sum.splits)
  qed
qed

text \<open>What the loop gives: an attempt that fetched a page is the last one, and the only change of the store is its record.\<close>

definition loop_ok :: "('st, 's) loop_ports \<Rightarrow> loop_context \<Rightarrow> nat \<Rightarrow> 'st \<Rightarrow> loop_result \<Rightarrow> ('st, 's) fetch_world \<Rightarrow> bool" where
  "loop_ok p c n store r w' \<longleftrightarrow>
     int (length (lr_attempts r)) \<le> max (int n) (max_strategies_per_url (lc_policy c)) \<and>
     (if lr_status r = ''success'' then lr_attempts r \<noteq> [] \<and> fa_success (last (lr_attempts r)) \<and>
        list_all (\<lambda>a. \<not> fa_success a) (butlast (lr_attempts r)) \<and> truthy (lr_final_html r) \<and>
        record_call (ro_rec (lp_ops p)) (lp_rate_file p) store (lp_now p (fw_net w')) (lc_source_id c) (lc_query c)
          = Inr (fw_store w')
      else list_all (\<lambda>a. \<not> fa_success a) (lr_attempts r) \<and> lr_final_html r = None \<and> fw_store w' = store \<and>
        (lr_status r = ''exhausted'' \<or> lr_status r = ''blocked'' \<and>
          (\<exists>e \<in> set BLOCKED_ERRORS. lr_attempts r \<noteq> [] \<and> fa_error_type (last (lr_attempts r)) = Some e)))"

lemma done_ok:
  assumes "turn_ok p c attempts store (Done r) w'" "list_all (\<lambda>a. \<not> fa_success a) attempts"
    and "int (length attempts) < max_strategies_per_url (lc_policy c)"
  shows "loop_ok p c (length attempts) store r w'"
proof -
  obtain as a where r: "lr_attempts r = as @ [a]"
    using assms(1) by (cases "lr_attempts r" rule: rev_cases) (auto simp: turn_ok_def)
  with assms show ?thesis by (auto simp: turn_ok_def loop_ok_def split: if_splits)
qed

lemma strategy_loop_ok:
  assumes "list_all (\<lambda>a. \<not> fa_success a) attempts" "strategy_loop p c attempts retries current w = (Inr r, w')"
  shows "loop_ok p c (length attempts) (fw_store w) r w'"
  using assms
proof (induction p c attempts retries current arbitrary: w rule: strategy_loop.induct)
  case (1 p c attempts retries current)
  show ?case
  proof (cases "current = None \<or> max_strategies_per_url (lc_policy c) \<le> int (length attempts)")
    case True
    with "1.prems" show ?thesis
      by (auto simp: strategy_loop.simps [of p c attempts] loop_ok_def split: option.splits if_splits)
  next
    case False
    then obtain strategy where cur: "current = Some strategy" and b: "int (length attempts) < max_strategies_per_url (lc_policy c)"
      by auto
    with "1.prems"(2) obtain t w1 where turn: "loop_turn p c attempts retries strategy w = (Inr t, w1)"
      and rest: "(case t of Done r \<Rightarrow> ret_act r
          | Again a retries' next \<Rightarrow> strategy_loop p c (attempts @ [a]) retries' next) w1 = (Inr r, w')"
      by (auto simp: strategy_loop.simps [of p c attempts] elim!: bind_act_cases)
    note ok = loop_turn_ok [OF turn]
    show ?thesis
    proof (cases t)
      case (Done r')
      with ok rest "1.prems"(1) b show ?thesis by (auto intro: done_ok)
    next
      case (Again a retries' nxt)
      with ok have a: "\<not> fa_success a" "fw_store w1 = fw_store w" by (simp_all add: turn_ok_def)
      from rest Again have "strategy_loop p c (attempts @ [a]) retries' nxt w1 = (Inr r, w')" by simp
      from "1.IH" [OF cur _ _ this] a b "1.prems"(1)
      have "loop_ok p c (length (attempts @ [a])) (fw_store w1) r w'" by simp
      with a(2) b show ?thesis by (auto simp: loop_ok_def)
    qed
  qed
qed

lemma run_loop_cases:
  assumes "run_fetch_strategy_loop p sid url spec budget query w = (Inr r, w')"
  obtains (answered) "lr_attempts r = []" "lr_final_html r = None" "w' = w" "lr_status r = ''cached'' \<or> lr_status r = ''rate_limited''"
  | (looped) c policy where "lp_retry p = Inr policy" "lc_source_id c = sid" "lc_query c = query"
      "max_strategies_per_url (lc_policy c) = (case budget of Some b \<Rightarrow> b | None \<Rightarrow> budget_for policy sid)"
      "loop_ok p c 0 (fw_store w) r w'"
proof -
  from assms obtain policy rate where p: "lp_retry p = Inr policy"
    and g: "guarded_loop p (context_of p sid url spec budget query policy rate) w = (Inr r, w')"
    by (auto simp: run_fetch_strategy_loop_def elim!: bind_act_cases)
  let ?c = "context_of p sid url spec budget query policy rate"
  have "(lr_attempts r = [] \<and> lr_final_html r = None \<and> w' = w \<and> (lr_status r = ''cached'' \<or> lr_status r = ''rate_limited'')) \<or>
      strategy_loop p ?c [] 0 (Some (hd STRATEGY_SEQUENCE)) w = (Inr r, w')"
    using g by (auto simp: guarded_loop_def Let_def split: sum.splits if_splits)
  then show thesis
  proof
    assume "strategy_loop p ?c [] 0 (Some (hd STRATEGY_SEQUENCE)) w = (Inr r, w')"
    from strategy_loop_ok [OF _ this] show thesis
      by (intro looped [OF p, of ?c]) (simp_all add: context_of_def)
  qed (auto intro: answered)
qed

section \<open>Properties\<close>


text \<open>The operations of the file store.\<close>

definition ls_ops :: "local_rate_store rate_ops" where
  "ls_ops = \<lparr>ro_age_of = ls_age_seconds, ro_rec = ls_record, ro_get_next = ls_get_next_retry_at, ro_set_next = ls_set_next_retry_at\<rparr>"

lemma recorded_store:
  assumes "record_call ls_record raw st t sid q = Inr st'"
  shows "ls_synced st'" "ls_get_next_retry_at st' k = ls_get_next_retry_at st k"
  using assms by (cases "load_rate_limit_policy raw sid", auto simp: record_call_def local_rate.next_record)+


text \<open>Test ports with a file store: the outside is a clock, and every fetch gives \<open>html\<close>.\<close>

definition test_loop_ports :: "string option \<Rightarrow> (local_rate_store, int) loop_ports" where
  "test_loop_ports html = \<lparr>lp_crawl = test_ports html, lp_ops = ls_ops, lp_rate_file = Some ttl_file,
     lp_retry = Inr default_retry_policy, lp_now = (\<lambda>t. t), lp_sleep = (\<lambda>_ t. t), lp_selenium_ready = False\<rparr>"

definition fresh_world :: "int \<Rightarrow> (local_rate_store, int) fetch_world" where
  "fresh_world t = \<lparr>fw_store = ls_open None, fw_net = t\<rparr>"

lemma ttl_of_gdelt: "\<exists>rate. load_rate_limit_policy (Some ttl_file) ''gdelt'' = Inr rate \<and> rp_cache_ttl_seconds rate = 900"
  by (simp add: load_rate_limit_policy_def ttl_file_def dict_merge_def get_or_def json_num_def json_int_def)

lemma test_fetch:
  "\<exists>r w'. run_fetch_strategy_loop (test_loop_ports (Some ''page'')) ''gdelt'' ''u'' [] None ''q'' (fresh_world 0) = (Inr r, w') \<and>
     lr_status r = ''success'' \<and> fw_net w' = 0 \<and> length (lr_attempts r) = 1"
proof -
  obtain rate where "load_rate_limit_policy (Some ttl_file) ''gdelt'' = Inr rate" using ttl_of_gdelt by blast
  then show ?thesis
    by (simp add: run_fetch_strategy_loop_def guarded_loop_def context_of_def test_loop_ports_def fresh_world_def is_cached_def
        in_cooldown_def ls_ops_def ls_open_def ls_load_def ls_age_seconds_def ls_get_next_retry_at_def strategy_loop.simps
        loop_turn_def timed_fetch_def fetch_with_strategy_def test_ports_def note_call_def record_call_def bind_act_def Let_def
        STRATEGY_SEQUENCE_def PLAYWRIGHT_STRATEGIES_def SELENIUM_STRATEGIES_def default_retry_policy_def budget_for_def get_or_def)
qed



section \<open>What the loop does not do\<close>

text \<open>
  The loop has a branch for a rate limit, which waits, tries again and puts the source on cooldown; but no exception is
  classified as one, and a page with status 429 is an empty page: no run puts a source on cooldown.
\<close>

lemma no_run_starts_a_cooldown:
  assumes "lp_ops p = ls_ops" "run_fetch_strategy_loop p sid url spec budget query w = (Inr r, w')"
  shows "ls_get_next_retry_at (fw_store w') k = ls_get_next_retry_at (fw_store w) k"
  using assms(2)
proof (cases rule: run_loop_cases)
  case answered
  then show ?thesis by simp
next
  case (looped c policy)
  then show ?thesis using assms(1)
    by (auto simp: loop_ok_def ls_ops_def recorded_store(2) split: if_splits)
qed

text \<open>A feed is not to be rendered; but an empty page that was fetched directly sends it to the browser.\<close>

lemma empty_feed_goes_to_the_browser:
  assumes "is_rss_or_feed spec = Inr True" "1 < max_strategies_per_url policy" "fa_strategy a = ''httpx_direct''"
  shows "select_next_strategy ready spec [a] EXTRACTION_EMPTY policy = Inr (Some ''playwright_basic'')"
  using assms by (simp add: select_next_strategy_def BLOCKED_ERRORS_def)

end
