(* ===== verification/Spec2Isabelle.thy ===== *)
theory Spec2Isabelle
  imports Scheduler Raw_Events Rate_Store Error_Taxonomy Event_Ingest Agents
    Jsonl_Queue Quality Artifact_Parser Monitoring Production_Run Identity_Export Crawl_Graph
    Strategy_Loop
begin

text \<open>
  The event intelligence platform collects records from news, official, market, search and community
  sources, identifies the events behind them, and publishes cards about them. This library models its Python
  code (paths below are relative to \<open>src/\<close>).

  \<^bold>\<open>The parts and how they interact.\<close> A production run (\<open>Production_Run\<close>) loads the saved state, plans the
  sources that are due (\<open>Scheduler\<close>, over \<open>Production_State\<close>, \<open>Profiles\<close>, \<open>Source_Health\<close>, \<open>Governor\<close>), probes
  them, parses the artifacts (\<open>Artifact_Parser\<close>, \<open>Source_Adapters\<close>, \<open>Canonical_Url\<close>), gates the candidates
  (\<open>Collection_Gates\<close>), drops records it has seen (\<open>Dedup\<close>), clusters the rest (\<open>Clusters\<close>), hands them to the
  event sink (\<open>Event_Ingest\<close>, \<open>Timeline\<close>), to the queue file (\<open>Jsonl_Queue\<close>) and through the bridge (\<open>Bridge\<close>)
  to the raw event store, and reports (\<open>Monitoring\<close>, \<open>Secret_Scan\<close>). The store (\<open>Raw_Events\<close>) publishes to a
  stream; the ingest worker (\<open>Queue\<close>) forwards messages to the agents (\<open>Agents\<close>, \<open>Baselines\<close>, \<open>Evidence\<close>), which
  publish a card or hold it. Candidate links between events are judged without effect (\<open>Adjudication\<close>),
  and people label them to measure the judgement (\<open>Eval_Dataset\<close>, \<open>Gold_Labeling\<close>, \<open>Labeling_Packets\<close>,
  \<open>Identity_Export\<close>).

  Beside the production run the crawling agent (\<open>Crawl_Graph\<close>, over \<open>Crawl_Sources\<close>) takes one source at a time through a
  graph of nodes: it fetches a page, extracts a text, scores it (\<open>Quality\<close>), retries with another strategy and reports.

  \<^bold>\<open>Foundations.\<close> \<open>Prelude\<close>: exceptions as values (\<open>py_exn\<close>, \<open>res\<close>), computations over a world (\<open>act\<close>),
  dictionaries as association lists in insertion order, JSON values, string operations on UTF-8 bytes.
  \<open>Py_Datetime\<close>: instants, zones, ISO parsing and printing. \<open>Py_Lines\<close>: \<open>splitlines\<close>. \<open>Py_Url\<close>: \<open>urlsplit\<close>,
  \<open>urljoin\<close>, addresses. The collections \<open>dict_simps\<close>, \<open>str_simps\<close>, \<open>time_simps\<close> and \<open>row_checks\<close> carry the proofs.

  \<^bold>\<open>Collection.\<close>
  \<^item> \<open>Error_Taxonomy\<close> (\<open>ingestion/core/error_taxonomy.py\<close>, \<open>retry_policy.py\<close>): error types, content blockers,
    escalation of strategies, which ends.
  \<^item> \<open>Source_Health\<close> (\<open>source_health.py\<close>, the gate of \<open>collection_probe.py\<close>): the health states and both stores, which
    interpret one locale; three failures quarantine, terminal outcomes freeze.
  \<^item> \<open>Rate_Store\<close> (\<open>rate_limit_store.py\<close>, \<open>rate_limit_policy.py\<close>), \<open>Rate_Gates\<close> (\<open>host_rate_gate.py\<close>),
    \<open>Governor\<close> (\<open>rate_limit_governor.py\<close>, \<open>gdelt_strategy.py\<close>): caches, cooldowns and spacing across restarts and
    processes; the two rate stores interpret one locale. A GDELT collection is bounded by its number of probes.
  \<^item> \<open>Profiles\<close> (\<open>source_profile.py\<close>, \<open>cycle_planner.py\<close>, \<open>source_strategy_memory.py\<close>, \<open>strategy_router.py\<close>,
    \<open>source_role.py\<close>), \<open>Production_State\<close> (\<open>quarantine.py\<close>, \<open>production_state.py\<close>), \<open>Scheduler\<close>
    (\<open>production_scheduler.py\<close>): the derived state of a source is a known one, and the plan is exactly the profiles
    that pass every guard.
  \<^item> \<open>Quality\<close> (\<open>quality_score.py\<close>, \<open>publication_policy.py\<close>), \<open>Collection_Gates\<close> (\<open>body_state.py\<close>,
    \<open>quality_pre_gate.py\<close>, \<open>evidence_gate.py\<close>, \<open>community_corroboration_gate.py\<close>): what a gate lets through, in
    both directions.
  \<^item> \<open>Crawl_Sources\<close> (\<open>source_registry.py\<close>, \<open>artifact_store.py\<close>, \<open>agents/llm_judge.py\<close>, \<open>sources/base.py\<close>),
    \<open>Crawl_Graph\<close> (\<open>agents/graph.py\<close>, \<open>agents/state.py\<close>, the runners of one source and of the phases): the locale
    \<open>bounded_graph\<close> is a graph with an invariant of its nodes and a rank that falls along its edges; its interpretation
    on the crawling agent shows that a crawl ends, that its outcome is justified, and that no browser has a part in it.
  \<^item> \<open>Strategy_Loop\<close> (\<open>strategy_runner.py\<close>, \<open>strategy_selection.py\<close>, \<open>failure_classifier.py\<close>): the loop that fetches a page
    with one strategy after another, over any rate store; it ends within its budget, a page that it fetched is
    cached, and, unlike what its code says, it never puts a source on cooldown.
  \<^item> \<open>Canonical_Url\<close>, \<open>Source_Adapters\<close>, \<open>Artifact_Parser\<close> (the files of these names): parsing is never silent.
  \<^item> \<open>Dedup\<close> (\<open>time_normalizer.py\<close>, \<open>eventqueue_dedup.py\<close>), \<open>Clusters\<close> (\<open>cross_source_dedup.py\<close>): of the records with
    one key exactly the first passes; the groups are the connected components of the links.
  \<^item> \<open>Jsonl_Queue\<close> (\<open>ingestion/pipeline/event_queue.py\<close>): the file refines a first-in-first-out queue.
  \<^item> \<open>Bridge\<close> (\<open>bridge_to_raw_events.py\<close>, \<open>downstream_contracts.py\<close>, \<open>raw_events_writer.py\<close>): every record is counted
    once, no hash is sent twice.
  \<^item> \<open>Secret_Scan\<close> (\<open>scan_secrets.py\<close>), \<open>Monitoring\<close> (\<open>monitoring.py\<close>), \<open>Production_Run\<close>
    (\<open>run_production_orchestration.py\<close>, \<open>source_content_type.py\<close>): a run survives the failures of what it calls,
    hands a record on once, and its exit code is exact; what it saves of a quarantine does not bind the next run.

  \<^bold>\<open>Backend.\<close>
  \<^item> \<open>Timeline\<close> (\<open>event_resolver.py\<close>, \<open>event_timeline_service.py\<close>, \<open>event_resolution_pipeline.py\<close>), \<open>Event_Ingest\<close>
    (\<open>event_ingest_pipeline.py\<close>): routing of clusters, consistent tables whatever other sessions commit,
    refinement of an update log, withheld clusters, accounting of a batch.
  \<^item> \<open>Adjudication\<close> (\<open>semantic_identity_adjudicator.py\<close>): the judgement is conservative and changes no event.
  \<^item> \<open>Eval_Dataset\<close> (\<open>identity_eval_dataset.py\<close>), \<open>Gold_Labeling\<close> and \<open>Labeling_Packets\<close>
    (\<open>identity_human_labeling.py\<close>), \<open>Identity_Export\<close> (\<open>export_identity_eval_pairs.py\<close>,
    \<open>build_live_identity_labeling_packet.py\<close>): gold needs agreement or a human adjudication, readiness rests on live
    gold, samples fill their buckets, reviewers are distinct and see no verdict, and what is exported can become
    gold that the loader reads back.
  \<^item> \<open>Raw_Events\<close> (\<open>raw_event_service.py\<close> and the reconciler): a step relation over the table and the stream, and
    its reachable worlds: ids and hashes stay unique, no event is lost, a failed publication is recovered.

  \<^bold>\<open>Workers and agents.\<close>
  \<^item> \<open>Queue\<close> (\<open>workers/queue\<close>, \<open>ingest_pipeline.py\<close>, the consumer): retries, dead letters and the reaper; a message
    that is handled is forwarded, pending or kept.
  \<^item> \<open>Evidence\<close> (\<open>evidence_rules.py\<close>, \<open>evidence_reachability.py\<close>), \<open>Baselines\<close> (\<open>baselines.py\<close>), \<open>Agents\<close> (the LLM client,
    the nodes, the graph, the worker): the reachability check ends and is vetted, and a published card is grounded.

  \<^bold>\<open>Bounds and fuel.\<close> Loops that the code bounds recurse on their own bound. The redirect loop of the
  reachability check has a measure (redirects left, then the kind of request). The reaper's scan, which an outside cursor
  ends, has a fuel of 1000 rounds, the number the code allows. The ladder of strategies has at most ten steps.
  The fetch loop has a measure, the budget that is left. A crawl has a rank of 24, so that LangGraph's default limit of 25 steps is enough, and just so.
  The union-find search is a partial function that is proved to return on every forest the code builds.

  \<^bold>\<open>Modelling.\<close> Strings are UTF-8 bytes; case, blanks and digits are ASCII except where a table is a parameter
  (NFKC, alphanumeric characters). Floats are rationals. Datetimes have no ISO week dates and do not overflow.
  File writes and database statements succeed unless an error is a parameter. Table reads without an order give
  insertion order. Error messages are abbreviated; the kind of an exception is kept. Type mismatches in YAML and
  JSON values are \<open>TypeError\<close>. Parameters stand for: the Redis client, the JSON codec, the XML parser,
  \<open>html.unescape\<close>, digests, uuids, the mail-date parser, name resolution and HTTP, the language model,
  validation by pydantic, and for the crawling agent the fetchers, the extractors and the hooks of each source.

  \<^bold>\<open>Not modelled.\<close> The HTTP routers, configuration and connection code of the backend; the services that only wrap
  a query or an outside index (comments, search, embeddings); the network probes, fetchers, browser strategies
  and source audits of the collector, whose behaviour is that of remote sites; the command lines, reports in
  Markdown and printed lines; the Redis variant of the rate store; the cursor of the adjudication by creation
  time; the endless loops around a worker's step; labelled rows that are JSON lists; migrations, the
  frontend, scripts and tests.
\<close>

end
